(* ===== verification/Prelude.thy ===== *)
theory Prelude
  imports Main
begin

text \<open>
  Generic vocabulary of the development: rows addressed by a key in a list, the results of
  fallible operations, stable sorting by a comparator, and the collections of facts the
  component proofs hand to the simplifier. Nothing here is about the campus application.
\<close>

section \<open>Collections of facts\<close>

named_theorems js_text \<open>equations of the JavaScript string operations\<close>
named_theorems op_defs \<open>the definitions of the service operations\<close>
named_theorems guard_defs \<open>the definitions of the guards the operations share\<close>
named_theorems store_simps \<open>how reading a table sees a write to it\<close>

section \<open>Results\<close>

text \<open>A call that may throw: \<open>Inl\<close> is the thrown error, \<open>Inr\<close> the returned value.\<close>

type_synonym ('e, 'a) outcome = "'e + 'a"

definition succeeds :: "('e, 'a) outcome \<Rightarrow> bool" where
  "succeeds r \<longleftrightarrow> (case r of Inl _ \<Rightarrow> False | Inr _ \<Rightarrow> True)"

lemma succeeds_simps [simp]: "succeeds (Inr a)" "\<not> succeeds (Inl e)"
  by (simp_all add: succeeds_def)

lemma succeeds_iff: "succeeds r \<longleftrightarrow> (\<exists>a. r = Inr a)"
  by (cases r) auto

lemma not_succeeds_iff: "\<not> succeeds r \<longleftrightarrow> (\<exists>e. r = Inl e)"
  by (cases r) auto

section \<open>Rows of a table, addressed by a key\<close>

text \<open>A table is the list of its rows; a row is found by its key and rewritten in place.\<close>

definition row_at :: "('r \<Rightarrow> 'k) \<Rightarrow> 'k \<Rightarrow> 'r list \<Rightarrow> 'r option" where
  "row_at key k rows = find (\<lambda>r. key r = k) rows"

definition patch_row :: "('r \<Rightarrow> 'k) \<Rightarrow> 'k \<Rightarrow> ('r \<Rightarrow> 'r) \<Rightarrow> 'r list \<Rightarrow> 'r list" where
  "patch_row key k f rows = map (\<lambda>r. if key r = k then f r else r) rows"

lemma row_at_Nil [simp]: "row_at key k [] = None"
  by (simp add: row_at_def)

lemma row_at_Cons: "row_at key k (r # rs) = (if key r = k then Some r else row_at key k rs)"
  by (simp add: row_at_def)

lemma row_at_None: "row_at key k rows = None \<longleftrightarrow> k \<notin> key ` set rows"
  by (induction rows) (auto simp: row_at_Cons)

lemma row_at_SomeD: "row_at key k rows = Some r \<Longrightarrow> r \<in> set rows \<and> key r = k"
  by (induction rows) (auto simp: row_at_Cons split: if_splits)

lemma row_at_mem:
  "distinct (map key rows) \<Longrightarrow> r \<in> set rows \<Longrightarrow> row_at key (key r) rows = Some r"
  by (induction rows) (auto simp: row_at_Cons rev_image_eqI)

lemma row_at_Some_iff:
  "distinct (map key rows) \<Longrightarrow> row_at key k rows = Some r \<longleftrightarrow> r \<in> set rows \<and> key r = k"
  using row_at_mem row_at_SomeD by fastforce

lemma row_at_patch:
  assumes "\<And>r. key (f r) = key r"
  shows "row_at key k (patch_row key j f rows)
    = (if k = j then map_option f (row_at key k rows) else row_at key k rows)"
  by (induction rows) (auto simp: patch_row_def row_at_Cons assms)

lemma row_at_append:
  "row_at key k (rows @ [r])
    = (case row_at key k rows of None \<Rightarrow> (if key r = k then Some r else None) | Some x \<Rightarrow> Some x)"
  by (induction rows) (auto simp: row_at_Cons)

lemma patch_row_keys:
  assumes "\<And>r. key (f r) = key r"
  shows "map key (patch_row key j f rows) = map key rows"
  by (simp add: patch_row_def assms)

lemma set_patch_row:
  "r \<in> set (patch_row key j f rows) \<longleftrightarrow>
    (\<exists>x\<in>set rows. r = (if key x = j then f x else x))"
  unfolding patch_row_def set_map image_iff ..

lemma length_patch_row [simp]: "length (patch_row key j f rows) = length rows"
  by (simp add: patch_row_def)

section \<open>Stable sorting by a comparator\<close>

text \<open>
  \<open>Array.prototype.sort\<close> is stable and takes a comparator whose negative result puts the left
  argument first. The insertion sort below is the stable sort for any comparator that is a
  total preorder.
\<close>

fun insert_cmp :: "('a \<Rightarrow> 'a \<Rightarrow> int) \<Rightarrow> 'a \<Rightarrow> 'a list \<Rightarrow> 'a list" where
  "insert_cmp cmp x [] = [x]"
| "insert_cmp cmp x (y # ys) = (if cmp x y \<le> 0 then x # y # ys else y # insert_cmp cmp x ys)"

definition sort_cmp :: "('a \<Rightarrow> 'a \<Rightarrow> int) \<Rightarrow> 'a list \<Rightarrow> 'a list" where
  "sort_cmp cmp xs = foldr (insert_cmp cmp) xs []"

lemma set_insert_cmp [simp]: "set (insert_cmp cmp x ys) = insert x (set ys)"
  by (induction ys) auto

lemma set_sort_cmp [simp]: "set (sort_cmp cmp xs) = set xs"
  by (induction xs) (auto simp: sort_cmp_def)

lemma length_insert_cmp [simp]: "length (insert_cmp cmp x ys) = Suc (length ys)"
  by (induction ys) auto

lemma length_sort_cmp [simp]: "length (sort_cmp cmp xs) = length xs"
  by (induction xs) (auto simp: sort_cmp_def)

lemma distinct_insert_cmp [simp]:
  "distinct (map f (insert_cmp cmp x ys)) \<longleftrightarrow> f x \<notin> f ` set ys \<and> distinct (map f ys)"
  by (induction ys) auto

lemma distinct_sort_cmp [simp]: "distinct (map f (sort_cmp cmp xs)) \<longleftrightarrow> distinct (map f xs)"
proof (induction xs)
  case Nil
  show ?case by (simp add: sort_cmp_def)
next
  case (Cons x xs)
  have "sort_cmp cmp (x # xs) = insert_cmp cmp x (sort_cmp cmp xs)"
    by (simp add: sort_cmp_def)
  with Cons show ?case by simp
qed

lemma insert_cmp_sorted:
  assumes total: "\<And>x y. cmp x y \<le> 0 \<or> cmp y x \<le> 0"
    and trans: "\<And>x y z. cmp x y \<le> 0 \<Longrightarrow> cmp y z \<le> 0 \<Longrightarrow> cmp x z \<le> 0"
    and "sorted_wrt (\<lambda>x y. cmp x y \<le> 0) ys"
  shows "sorted_wrt (\<lambda>x y. cmp x y \<le> 0) (insert_cmp cmp x ys)"
  using assms(3)
proof (induction ys)
  case Nil
  then show ?case by simp
next
  case (Cons y ys)
  show ?case
  proof (cases "cmp x y \<le> 0")
    case True
    with Cons.prems trans show ?thesis by auto
  next
    case False
    with total have "cmp y x \<le> 0" by blast
    with Cons False show ?thesis by auto
  qed
qed

lemma sort_cmp_sorted:
  assumes "\<And>x y. cmp x y \<le> 0 \<or> cmp y x \<le> 0"
    and "\<And>x y z. cmp x y \<le> 0 \<Longrightarrow> cmp y z \<le> 0 \<Longrightarrow> cmp x z \<le> 0"
  shows "sorted_wrt (\<lambda>x y. cmp x y \<le> 0) (sort_cmp cmp xs)"
  by (induction xs) (simp_all add: sort_cmp_def insert_cmp_sorted [OF assms])

text \<open>Comparators as \<open>ORDER BY\<close> builds them: by one key, and by a second key on ties.\<close>

definition cmp_by :: "('a \<Rightarrow> 'b::linorder) \<Rightarrow> 'a \<Rightarrow> 'a \<Rightarrow> int" where
  "cmp_by f x y = (if f x < f y then -1 else if f x = f y then 0 else 1)"

definition cmp_desc :: "('a \<Rightarrow> 'a \<Rightarrow> int) \<Rightarrow> 'a \<Rightarrow> 'a \<Rightarrow> int" where
  "cmp_desc c x y = c y x"

definition cmp_then :: "('a \<Rightarrow> 'a \<Rightarrow> int) \<Rightarrow> ('a \<Rightarrow> 'a \<Rightarrow> int) \<Rightarrow> 'a \<Rightarrow> 'a \<Rightarrow> int" where
  "cmp_then c1 c2 x y = (if c1 x y = 0 then c2 x y else c1 x y)"

locale comparator =
  fixes cmp :: "'a \<Rightarrow> 'a \<Rightarrow> int"
  assumes anti: "cmp x y < 0 \<longleftrightarrow> 0 < cmp y x"
    and trans: "cmp x y \<le> 0 \<Longrightarrow> cmp y z \<le> 0 \<Longrightarrow> cmp x z \<le> 0"
begin

lemma total: "cmp x y \<le> 0 \<or> cmp y x \<le> 0"
  using anti [of y x] by linarith

lemma zero_sym: "cmp x y = 0 \<longleftrightarrow> cmp y x = 0"
  using anti [of x y] anti [of y x] by linarith

lemma trans_strict: "cmp x y \<le> 0 \<Longrightarrow> cmp y z < 0 \<Longrightarrow> cmp x z < 0"
  using trans [of z x y] anti [of x z] anti [of y z] by linarith

lemma trans_strict': "cmp x y < 0 \<Longrightarrow> cmp y z \<le> 0 \<Longrightarrow> cmp x z < 0"
  using trans [of y z x] anti [of x z] anti [of x y] by linarith

lemma sorted: "sorted_wrt (\<lambda>x y. cmp x y \<le> 0) (sort_cmp cmp xs)"
  by (rule sort_cmp_sorted [OF total trans])

end

lemma comparator_by: "comparator (cmp_by f)"
  by unfold_locales (auto simp: cmp_by_def split: if_splits)

lemma comparator_desc: "comparator c \<Longrightarrow> comparator (cmp_desc c)"
  by (auto simp: comparator_def cmp_desc_def)

lemma comparator_then:
  assumes "comparator c1" "comparator c2"
  shows "comparator (cmp_then c1 c2)"
proof
  fix x y z
  show "cmp_then c1 c2 x y < 0 \<longleftrightarrow> 0 < cmp_then c1 c2 y x"
    using comparator.anti [OF assms(1), of x y] comparator.anti [OF assms(2), of x y]
      comparator.zero_sym [OF assms(1), of x y]
    by (auto simp: cmp_then_def)
  assume le: "cmp_then c1 c2 x y \<le> 0" "cmp_then c1 c2 y z \<le> 0"
  then have c1: "c1 x y \<le> 0" "c1 y z \<le> 0" by (auto simp: cmp_then_def split: if_splits)
  show "cmp_then c1 c2 x z \<le> 0"
  proof (cases "c1 x y = 0 \<and> c1 y z = 0")
    case True
    then have "c1 x z \<le> 0" "c2 x z \<le> 0"
      using le comparator.trans [OF assms(1), of x y z] comparator.trans [OF assms(2), of x y z]
      by (auto simp: cmp_then_def)
    then show ?thesis by (simp add: cmp_then_def)
  next
    case False
    then have "c1 x z < 0"
      using c1 comparator.trans_strict [OF assms(1), of x y z]
        comparator.trans_strict' [OF assms(1), of x y z]
      by linarith
    then show ?thesis by (simp add: cmp_then_def)
  qed
qed

lemmas comparators = comparator_by comparator_desc comparator_then

section \<open>Slices of a list\<close>

lemma concat_slices:
  assumes "0 < n"
  shows "concat (map (\<lambda>i. take n (drop (i * n) xs)) [0..<m]) = take (m * n) xs"
proof (induction m)
  case 0
  show ?case by simp
next
  case (Suc m)
  have "take (m * n) xs @ take n (drop (m * n) xs) = take (m * n + n) xs"
    by (simp add: take_add)
  with Suc show ?case by (simp add: add.commute)
qed

end
