(* ===== verification/JsText.thy ===== *)
theory JsText
  imports Prelude "HOL-Library.List_Lexorder" "HOL-Library.Char_ord"
begin

text \<open>
  The JavaScript string operations the source uses. A string is the list of its UTF-16 code
  units; the units are HOL characters, so the texts of the model are those whose units are
  below 256. \<open><\<close> on strings is the code-unit order, here the lexicographic order of
  \<open>List_Lexorder\<close> over \<open>Char_ord\<close>. \<open>Number\<close> is modelled on the decimal digit strings the
  source's patterns let through.
\<close>

section \<open>Digits and numbers\<close>

definition digit_char :: "nat \<Rightarrow> char" where
  "digit_char n = char_of (48 + n)"

definition digit_val :: "char \<Rightarrow> nat" where
  "digit_val c = of_char c - 48"

definition is_digit :: "char \<Rightarrow> bool" where
  "is_digit c \<longleftrightarrow> (48::nat) \<le> of_char c \<and> of_char c \<le> (57::nat)"

text \<open>\<open>Number(s)\<close> on a string of decimal digits.\<close>

definition js_number :: "string \<Rightarrow> nat" where
  "js_number s = foldl (\<lambda>a c. 10 * a + digit_val c) 0 s"

text \<open>\<open>String(n)\<close> of a non-negative integer.\<close>

fun js_string :: "nat \<Rightarrow> string" where
  "js_string n = (if n < 10 then [digit_char n] else js_string (n div 10) @ [digit_char (n mod 10)])"

declare js_string.simps [simp del]

text \<open>\<open>s.padStart(n, c)\<close>.\<close>

definition pad_start :: "nat \<Rightarrow> char \<Rightarrow> string \<Rightarrow> string" where
  "pad_start n c s = replicate (n - length s) c @ s"

lemma char_eq_of_char: "c = d \<longleftrightarrow> (of_char c :: nat) = of_char d"
  by (metis char_of_char)

lemma of_digit_char [simp]: "n < 10 \<Longrightarrow> of_char (digit_char n) = (48 + n :: nat)"
  by (simp add: digit_char_def)

lemma digit_val_digit_char [simp]: "n < 10 \<Longrightarrow> digit_val (digit_char n) = n"
  by (simp add: digit_val_def)

lemma is_digit_digit_char [simp]: "n < 10 \<Longrightarrow> is_digit (digit_char n)"
  by (simp add: is_digit_def)

lemma digit_val_less: "is_digit c \<Longrightarrow> digit_val c < 10"
  by (auto simp: is_digit_def digit_val_def)

lemma digit_char_digit_val [simp]: "is_digit c \<Longrightarrow> digit_char (digit_val c) = c"
  by (simp add: is_digit_def digit_val_def digit_char_def)

lemma digit_char_0: "digit_char 0 = CHR ''0''"
  by (simp add: char_eq_of_char)

lemma digit_less_iff: "is_digit c \<Longrightarrow> is_digit d \<Longrightarrow> c < d \<longleftrightarrow> digit_val c < digit_val d"
  by (auto simp: is_digit_def digit_val_def less_char_def)

lemma digit_eq_iff: "is_digit c \<Longrightarrow> is_digit d \<Longrightarrow> c = d \<longleftrightarrow> digit_val c = digit_val d"
  by (metis digit_char_digit_val)

lemma js_number_snoc: "js_number (s @ [c]) = 10 * js_number s + digit_val c"
  by (simp add: js_number_def)

lemma js_number_string: "js_number (js_string n) = n"
proof (induction n rule: js_string.induct)
  case (1 n)
  show ?case
  proof (cases "n < 10")
    case True
    then show ?thesis by (subst js_string.simps) (simp add: js_number_def)
  next
    case False
    with 1 show ?thesis by (subst js_string.simps) (simp add: js_number_snoc)
  qed
qed

lemma js_string_digits: "\<forall>c\<in>set (js_string n). is_digit c"
proof (induction n rule: js_string.induct)
  case (1 n)
  show ?case
  proof (cases "n < 10")
    case True
    then show ?thesis by (subst js_string.simps) simp
  next
    case False
    with 1 show ?thesis by (subst js_string.simps) auto
  qed
qed

lemma js_string_length: "n < 10 ^ k \<Longrightarrow> 0 < k \<Longrightarrow> length (js_string n) \<le> k"
proof (induction k arbitrary: n)
  case 0
  then show ?case by simp
next
  case (Suc k)
  show ?case
  proof (cases "n < 10")
    case True
    then show ?thesis by (subst js_string.simps) simp
  next
    case False
    with Suc.prems have "0 < k" by (cases k) auto
    moreover from Suc.prems have "n div 10 < 10 ^ k"
      by (simp add: less_mult_imp_div_less mult.commute)
    ultimately have "length (js_string (n div 10)) \<le> k" by (rule Suc.IH [rotated])
    with False show ?thesis by (subst js_string.simps) simp
  qed
qed

lemma js_number_leading_zeros: "js_number (replicate k CHR ''0'' @ s) = js_number s"
  by (induction k) (simp_all add: js_number_def digit_val_def)

lemma js_number_pad: "js_number (pad_start k CHR ''0'' s) = js_number s"
  by (simp add: pad_start_def js_number_leading_zeros)

text \<open>Two digits: the shape of hours, minutes, months and days.\<close>

lemma pad2: "n < 100 \<Longrightarrow> pad_start 2 CHR ''0'' (js_string n) = [digit_char (n div 10), digit_char (n mod 10)]"
proof -
  assume "n < 100"
  show ?thesis
  proof (cases "n < 10")
    case True
    then show ?thesis
      by (subst js_string.simps) (simp add: pad_start_def numeral_2_eq_2 digit_char_0)
  next
    case False
    moreover from \<open>n < 100\<close> have "n div 10 < 10" by simp
    ultimately show ?thesis
      by (subst js_string.simps, subst js_string.simps) (simp add: pad_start_def)
  qed
qed

lemma js_number_two [simp]:
  "js_number [c, d] = 10 * digit_val c + digit_val d"
  by (simp add: js_number_def)

lemma js_number_four [simp]:
  "js_number [a, b, c, d] = 1000 * digit_val a + 100 * digit_val b + 10 * digit_val c + digit_val d"
  by (simp add: js_number_def)

section \<open>Slicing, splitting, trimming\<close>

text \<open>\<open>s.slice(i, j)\<close> for \<open>0 \<le> i \<le> j\<close>.\<close>

definition js_slice :: "nat \<Rightarrow> nat \<Rightarrow> string \<Rightarrow> string" where
  "js_slice i j s = take (j - i) (drop i s)"

lemma js_slice_0 [simp]: "js_slice 0 n s = take n s"
  by (simp add: js_slice_def)

text \<open>\<open>s.split(c)\<close> for a separator of one unit.\<close>

fun js_split :: "char \<Rightarrow> string \<Rightarrow> string list" where
  "js_split c [] = [[]]"
| "js_split c (x # xs) =
     (if x = c then [] # js_split c xs
      else (case js_split c xs of [] \<Rightarrow> [[x]] | p # ps \<Rightarrow> (x # p) # ps))"

lemma js_split_nonempty: "js_split c s \<noteq> []"
  by (induction s) (auto split: list.splits)

lemma js_split_no_sep: "c \<notin> set s \<Longrightarrow> js_split c s = [s]"
  by (induction s) auto

lemma js_split_sep: "c \<notin> set s \<Longrightarrow> js_split c (s @ c # t) = s # js_split c t"
  by (induction s) (auto simp: js_split_nonempty)

text \<open>White space as \<open>String.prototype.trim\<close> and \<open>\s\<close> see it, below code unit 256.\<close>

definition is_space :: "char \<Rightarrow> bool" where
  "is_space c \<longleftrightarrow> (let n = (of_char c :: nat) in (9 \<le> n \<and> n \<le> 13) \<or> n = 32 \<or> n = 160)"

definition js_trim :: "string \<Rightarrow> string" where
  "js_trim s = rev (dropWhile is_space (rev (dropWhile is_space s)))"

lemma dropWhile_id: "xs = [] \<or> \<not> P (hd xs) \<Longrightarrow> dropWhile P xs = xs"
  by (cases xs) auto

lemma js_trim_hd: "js_trim s \<noteq> [] \<Longrightarrow> \<not> is_space (hd (js_trim s))"
proof -
  assume ne: "js_trim s \<noteq> []"
  let ?d = "dropWhile is_space s"
  obtain pre where pre: "rev ?d = pre @ rev (js_trim s)"
    using takeWhile_dropWhile_id [of is_space "rev ?d"]
    by (metis js_trim_def rev_rev_ident)
  then have split: "?d = js_trim s @ rev pre"
    by (metis rev_append rev_rev_ident)
  then have "hd ?d = hd (js_trim s)" using ne by simp
  moreover have "?d \<noteq> []" using split ne by simp
  ultimately show ?thesis by (metis hd_dropWhile)
qed

lemma js_trim_last: "js_trim s \<noteq> [] \<Longrightarrow> \<not> is_space (last (js_trim s))"
  by (metis hd_dropWhile js_trim_def last_rev rev_is_Nil_conv)

lemma js_trim_fixed: "s = [] \<or> \<not> is_space (hd s) \<and> \<not> is_space (last s) \<Longrightarrow> js_trim s = s"
  by (auto simp: js_trim_def dropWhile_id hd_rev)

lemma js_trim_idem [simp]: "js_trim (js_trim s) = js_trim s"
  using js_trim_fixed js_trim_hd js_trim_last by metis

lemma js_trim_set: "set (js_trim s) \<subseteq> set s"
  by (force simp: js_trim_def dest: set_dropWhileD)

section \<open>Letter case\<close>

text \<open>\<open>toLowerCase\<close> below code unit 256: ASCII and Latin-1 capitals move by 32.\<close>

definition lower_char :: "char \<Rightarrow> char" where
  "lower_char c = (let n = (of_char c :: nat) in
     if (65 \<le> n \<and> n \<le> 90) \<or> (192 \<le> n \<and> n \<le> 222 \<and> n \<noteq> 215) then char_of (n + 32) else c)"

definition js_lower :: "string \<Rightarrow> string" where
  "js_lower s = map lower_char s"

lemma of_lower_char:
  "(of_char (lower_char c) :: nat) =
    (let n = of_char c in
     if (65 \<le> n \<and> n \<le> 90) \<or> (192 \<le> n \<and> n \<le> 222 \<and> n \<noteq> 215) then n + 32 else n)"
  by (auto simp: lower_char_def Let_def)

lemma lower_char_idem [simp]: "lower_char (lower_char c) = lower_char c"
  by (auto simp: char_eq_of_char of_lower_char Let_def)

lemma js_lower_idem [simp]: "js_lower (js_lower s) = js_lower s"
  by (simp add: js_lower_def)

lemma is_space_lower [simp]: "is_space (lower_char c) \<longleftrightarrow> is_space c"
  by (auto simp: is_space_def of_lower_char Let_def)

lemma js_lower_trim: "js_lower (js_trim s) = js_trim (js_lower s)"
  by (simp add: js_lower_def js_trim_def rev_map dropWhile_map comp_def)

section \<open>The date and hour patterns\<close>

text \<open>\<open>DATE_PATTERN\<close>: four digits, a hyphen, two digits, a hyphen, two digits.\<close>

fun date_pattern :: "string \<Rightarrow> bool" where
  "date_pattern [y1, y2, y3, y4, s1, m1, m2, s2, d1, d2] \<longleftrightarrow>
     is_digit y1 \<and> is_digit y2 \<and> is_digit y3 \<and> is_digit y4 \<and> s1 = CHR ''-'' \<and>
     is_digit m1 \<and> is_digit m2 \<and> s2 = CHR ''-'' \<and> is_digit d1 \<and> is_digit d2"
| "date_pattern _ \<longleftrightarrow> False"

text \<open>\<open>HOUR_PATTERN\<close>: an hour from 00 to 23 followed by \<open>:00\<close>.\<close>

fun hour_pattern :: "string \<Rightarrow> bool" where
  "hour_pattern [h1, h2, c, m1, m2] \<longleftrightarrow>
     is_digit h1 \<and> is_digit h2 \<and> 10 * digit_val h1 + digit_val h2 < 24 \<and>
     c = CHR '':'' \<and> m1 = CHR ''0'' \<and> m2 = CHR ''0''"
| "hour_pattern _ \<longleftrightarrow> False"

text \<open>The wall-clock shape \<open>HH:MM\<close> of every time the service compares.\<close>

fun clock_pattern :: "string \<Rightarrow> bool" where
  "clock_pattern [h1, h2, c, m1, m2] \<longleftrightarrow>
     is_digit h1 \<and> is_digit h2 \<and> 10 * digit_val h1 + digit_val h2 < 24 \<and> c = CHR '':'' \<and>
     is_digit m1 \<and> is_digit m2 \<and> 10 * digit_val m1 + digit_val m2 < 60"
| "clock_pattern _ \<longleftrightarrow> False"

fun_cases date_patternE: "date_pattern s"
fun_cases hour_patternE: "hour_pattern s"
fun_cases clock_patternE: "clock_pattern s"

lemma hour_pattern_clock: "hour_pattern s \<Longrightarrow> clock_pattern s"
  by (erule hour_patternE) (auto simp: is_digit_def digit_val_def)

lemma date_pattern_length: "date_pattern s \<Longrightarrow> length s = 10"
  by (erule date_patternE) auto

lemma clock_pattern_length: "clock_pattern s \<Longrightarrow> length s = 5"
  by (erule clock_patternE) auto

lemma hour_pattern_length: "hour_pattern s \<Longrightarrow> length s = 5"
  by (erule hour_patternE) auto

text \<open>Minutes after midnight of a wall-clock string.\<close>

definition clock_minutes :: "string \<Rightarrow> nat" where
  "clock_minutes s = 60 * js_number (js_slice 0 2 s) + js_number (js_slice 3 5 s)"

text \<open>Comparing two wall-clock strings as JavaScript does compares their times.\<close>

lemma clock_less_aux:
  fixes a b c d a' b' c' d' :: nat
  assumes "b < 10" "b' < 10" "d < 10" "d' < 10" "10 * c + d < 60" "10 * c' + d' < 60"
  shows "600 * a + 60 * b + (10 * c + d) < 600 * a' + 60 * b' + (10 * c' + d') \<longleftrightarrow>
    a < a' \<or> a = a' \<and> (b < b' \<or> b = b' \<and> (c < c' \<or> c = c' \<and> d < d'))"
  using assms by arith

lemma clock_less_iff:
  assumes "clock_pattern s" "clock_pattern t"
  shows "s < t \<longleftrightarrow> clock_minutes s < clock_minutes t"
proof -
  obtain a b c d where s: "s = [a, b, CHR '':'', c, d]" and
    sd: "is_digit a" "is_digit b" "is_digit c" "is_digit d"
    and sm: "10 * digit_val c + digit_val d < 60"
    using assms(1) by (auto elim!: clock_patternE)
  obtain a' b' c' d' where t: "t = [a', b', CHR '':'', c', d']" and
    td: "is_digit a'" "is_digit b'" "is_digit c'" "is_digit d'"
    and tm: "10 * digit_val c' + digit_val d' < 60"
    using assms(2) by (auto elim!: clock_patternE)
  show ?thesis
    using clock_less_aux [OF digit_val_less [OF sd(2)] digit_val_less [OF td(2)]
        digit_val_less [OF sd(4)] digit_val_less [OF td(4)] sm tm,
        of "digit_val a" "digit_val a'"]
    by (simp add: s t clock_minutes_def js_slice_def digit_less_iff sd td
        digit_eq_iff [OF sd(1) td(1)] digit_eq_iff [OF sd(2) td(2)] digit_eq_iff [OF sd(3) td(3)])
qed

lemma clock_le_iff:
  assumes "clock_pattern s" "clock_pattern t"
  shows "s \<le> t \<longleftrightarrow> clock_minutes s \<le> clock_minutes t"
  using clock_less_iff [OF assms(2,1)] by (simp add: not_less [symmetric])

section \<open>Prefixes\<close>

definition js_startsWith :: "string \<Rightarrow> string \<Rightarrow> bool" where
  "js_startsWith s pfx \<longleftrightarrow> take (length pfx) s = pfx"

end
