(* ===== verification/Calendar.thy ===== *)
theory Calendar
  imports JsText
begin

text \<open>
  The calendar arithmetic of the JavaScript \<open>Date\<close> object, after the algorithms of the
  ECMAScript specification: days since 1970-01-01 as integers, months counted from 0, and the
  proleptic Gregorian calendar. The main result is that the two directions, building a day
  number from a year, month and day and reading them back, are inverse.
\<close>

section \<open>Years\<close>

definition day_from_year :: "int \<Rightarrow> int" where
  "day_from_year y =
     365 * (y - 1970) + (y - 1969) div 4 - (y - 1901) div 100 + (y - 1601) div 400"

definition leap_year :: "int \<Rightarrow> bool" where
  "leap_year y \<longleftrightarrow> y mod 4 = 0 \<and> (y mod 100 \<noteq> 0 \<or> y mod 400 = 0)"

text \<open>
  The year of a day number. The specification asks for the largest year that has begun; the
  mean length of a year gives it up to one.
\<close>

definition year_from_day :: "int \<Rightarrow> int" where
  "year_from_day d =
     (let g = 1970 + (400 * d) div 146097
      in if day_from_year (g + 1) \<le> d then g + 1
         else if day_from_year g \<le> d then g else g - 1)"

lemma div_bounds:
  fixes x n :: int
  assumes "0 < n"
  shows "n * (x div n) \<le> x" "x < n * (x div n) + n"
proof -
  have "x = n * (x div n) + x mod n" by simp
  moreover have "0 \<le> x mod n" "x mod n < n" using assms by simp_all
  ultimately show "n * (x div n) \<le> x" "x < n * (x div n) + n" by linarith+
qed

lemma div_step:
  fixes x n :: int
  assumes "0 < n"
  shows "(x + 1) div n = x div n + (if (x + 1) mod n = 0 then 1 else 0)"
proof -
  let ?q = "x div n" and ?q' = "(x + 1) div n" and ?r = "(x + 1) mod n"
  have x: "x = n * ?q + x mod n" "0 \<le> x mod n" "x mod n < n" using assms by simp_all
  have y: "x + 1 = n * ?q' + ?r" "0 \<le> ?r" "?r < n" using assms by simp_all
  have e: "n * (?q' - ?q) = x mod n + 1 - ?r" using x(1) y(1) by (simp add: algebra_simps)
  show ?thesis
  proof (cases "?r = 0")
    case True
    have "n * (?q' - ?q) \<le> n * 1" "n * 0 < n * (?q' - ?q)" using e True x by simp_all
    then have "?q' - ?q \<le> 1" "0 < ?q' - ?q"
      using assms by (simp_all only: mult_le_cancel_left_pos mult_less_cancel_left_pos)
    with True show ?thesis by simp
  next
    case False
    have "- n < x mod n + 1 - ?r" "x mod n + 1 - ?r < n" using False x(2,3) y(2,3) by linarith+
    then have "n * (?q' - ?q) < n * 1" "n * (- 1) < n * (?q' - ?q)" by (simp_all add: e)
    then have "?q' - ?q < 1" "- 1 < ?q' - ?q" using assms by (simp_all only: mult_less_cancel_left_pos)
    with False show ?thesis by simp
  qed
qed

lemma mod_shift:
  fixes y :: int
  shows "(y - 1968) mod 4 = y mod 4" "(y - 1900) mod 100 = y mod 100"
    "(y - 1600) mod 400 = y mod 400"
  using mod_diff_right_eq [of y 1968 4] mod_diff_right_eq [of y 1900 100]
    mod_diff_right_eq [of y 1600 400]
  by simp_all

lemma mod_chain:
  fixes y :: int
  shows "y mod 400 = 0 \<Longrightarrow> y mod 100 = 0" "y mod 100 = 0 \<Longrightarrow> y mod 4 = 0"
  using mod_mod_cancel [of 100 400 y] mod_mod_cancel [of 4 100 y] by simp_all

lemma leap_step:
  fixes p1 p2 p3 q1 q2 q3 c :: int
  assumes "p1 = q1 + (if P then 1 else 0)" "p2 = q2 + (if Q then 1 else 0)"
    "p3 = q3 + (if R then 1 else 0)" "R \<Longrightarrow> Q" "Q \<Longrightarrow> P"
  shows "c + 365 + p1 - p2 + p3 = c + q1 - q2 + q3 + (if P \<and> (\<not> Q \<or> R) then 366 else 365)"
  using assms by (cases P; cases Q; cases R) simp_all

lemma day_from_year_Suc:
  "day_from_year (y + 1) = day_from_year y + (if leap_year y then 366 else 365)"
proof -
  have a: "(y - 1968) div 4 = (y - 1969) div 4 + (if y mod 4 = 0 then 1 else 0)"
    using div_step [of 4 "y - 1969"] mod_shift by simp
  have b: "(y - 1900) div 100 = (y - 1901) div 100 + (if y mod 100 = 0 then 1 else 0)"
    using div_step [of 100 "y - 1901"] mod_shift by simp
  have c: "(y - 1600) div 400 = (y - 1601) div 400 + (if y mod 400 = 0 then 1 else 0)"
    using div_step [of 400 "y - 1601"] mod_shift by simp
  have "day_from_year (y + 1)
      = 365 * (y - 1970) + 365 + (y - 1968) div 4 - (y - 1900) div 100 + (y - 1600) div 400"
    by (simp add: day_from_year_def)
  also have "\<dots> = day_from_year y + (if leap_year y then 366 else 365)"
    unfolding day_from_year_def leap_year_def by (rule leap_step [OF a b c mod_chain])
  finally show ?thesis .
qed

lemma day_from_year_mono: "a < b \<Longrightarrow> day_from_year a + 365 \<le> day_from_year b"
proof (induction b rule: int_gr_induct)
  case base
  then show ?case by (simp add: day_from_year_Suc)
next
  case (step i)
  then show ?case by (simp add: day_from_year_Suc)
qed

lemma year_length_bounds:
  "146097 * (y - 1970) - 506 \<le> 400 * day_from_year y"
  "400 * day_from_year y \<le> 146097 * (y - 1970) + 589"
proof -
  obtain a b c where abc: "a = (y - 1969) div 4" "b = (y - 1901) div 100" "c = (y - 1601) div 400"
    by simp
  have "4 * a \<le> y - 1969" "y - 1969 < 4 * a + 4" "100 * b \<le> y - 1901" "y - 1901 < 100 * b + 100"
    "400 * c \<le> y - 1601" "y - 1601 < 400 * c + 400"
    unfolding abc by (rule div_bounds, simp)+
  moreover have "day_from_year y = 365 * (y - 1970) + a - b + c" by (simp add: day_from_year_def abc)
  ultimately show "146097 * (y - 1970) - 506 \<le> 400 * day_from_year y"
    "400 * day_from_year y \<le> 146097 * (y - 1970) + 589" by (simp_all add: algebra_simps)
qed

lemma year_from_day_bounds:
  "day_from_year (year_from_day d) \<le> d" "d < day_from_year (year_from_day d + 1)"
proof -
  define q where "q = (400 * d) div 146097"
  define g where "g = 1970 + q"
  have "146097 * q \<le> 400 * d" "400 * d < 146097 * q + 146097"
    unfolding q_def by (rule div_bounds, simp)+
  moreover have "400 * day_from_year (g - 1) \<le> 146097 * (q - 1) + 589"
    "146097 * (q + 2) - 506 \<le> 400 * day_from_year (g + 2)"
    using year_length_bounds(2) [of "g - 1"] year_length_bounds(1) [of "g + 2"]
    by (simp_all add: g_def algebra_simps)
  ultimately have "day_from_year (g - 1) \<le> d" "d < day_from_year (g + 2)"
    by (simp_all add: algebra_simps)
  then show "day_from_year (year_from_day d) \<le> d" "d < day_from_year (year_from_day d + 1)"
    unfolding year_from_day_def q_def [symmetric] g_def [symmetric] Let_def
    by (simp_all add: add.commute [of g 2])
qed

lemma year_from_day_unique:
  assumes "day_from_year y \<le> d" "d < day_from_year (y + 1)"
  shows "year_from_day d = y"
proof (rule linorder_cases [of "year_from_day d" y])
  assume "year_from_day d < y"
  then have "day_from_year (year_from_day d + 1) \<le> day_from_year y"
    using day_from_year_mono [of "year_from_day d + 1" y] by (cases "year_from_day d + 1 = y") auto
  with assms year_from_day_bounds [of d] show ?thesis by linarith
next
  assume "y < year_from_day d"
  then have "day_from_year (y + 1) \<le> day_from_year (year_from_day d)"
    using day_from_year_mono [of "y + 1" "year_from_day d"] by (cases "y + 1 = year_from_day d") auto
  with assms year_from_day_bounds [of d] show ?thesis by linarith
qed

section \<open>Months\<close>

text \<open>The day within the year on which month \<open>m\<close> (from 0) begins; 12 is the end of the year.\<close>

definition month_start :: "bool \<Rightarrow> int \<Rightarrow> int" where
  "month_start leap m =
     [0, 31, 59, 90, 120, 151, 181, 212, 243, 273, 304, 334, 365] ! nat m
       + (if leap \<and> 2 \<le> m then 1 else 0)"

definition month_length :: "bool \<Rightarrow> int \<Rightarrow> int" where
  "month_length leap m = month_start leap (m + 1) - month_start leap m"

definition month_from_yday :: "bool \<Rightarrow> int \<Rightarrow> int" where
  "month_from_yday leap n =
     (if n < month_start leap 1 then 0 else if n < month_start leap 2 then 1
      else if n < month_start leap 3 then 2 else if n < month_start leap 4 then 3
      else if n < month_start leap 5 then 4 else if n < month_start leap 6 then 5
      else if n < month_start leap 7 then 6 else if n < month_start leap 8 then 7
      else if n < month_start leap 9 then 8 else if n < month_start leap 10 then 9
      else if n < month_start leap 11 then 10 else 11)"

text \<open>\<open>MakeDay\<close>: months outside 0..11 carry into the year, days outside the month roll over.\<close>

definition make_day :: "int \<Rightarrow> int \<Rightarrow> int \<Rightarrow> int" where
  "make_day y m d =
     (let ym = y + m div 12; mn = m mod 12
      in day_from_year ym + month_start (leap_year ym) mn + d - 1)"

definition year_day :: "int \<Rightarrow> int" where
  "year_day n = n - day_from_year (year_from_day n)"

definition month_from_day :: "int \<Rightarrow> int" where
  "month_from_day n = month_from_yday (leap_year (year_from_day n)) (year_day n)"

definition date_from_day :: "int \<Rightarrow> int" where
  "date_from_day n =
     year_day n - month_start (leap_year (year_from_day n)) (month_from_day n) + 1"

text \<open>\<open>WeekDay\<close>: 0 is Sunday; 1970-01-01 was a Thursday.\<close>

definition week_day :: "int \<Rightarrow> int" where
  "week_day n = (n + 4) mod 7"

definition valid_ymd :: "int \<Rightarrow> int \<Rightarrow> int \<Rightarrow> bool" where
  "valid_ymd y m d \<longleftrightarrow> 0 \<le> m \<and> m < 12 \<and> 1 \<le> d \<and> d \<le> month_length (leap_year y) m"

lemma month_cases:
  fixes m :: int
  assumes "0 \<le> m" "m < 12"
  obtains "m = 0" | "m = 1" | "m = 2" | "m = 3" | "m = 4" | "m = 5" | "m = 6" | "m = 7"
    | "m = 8" | "m = 9" | "m = 10" | "m = 11"
proof -
  have "m = 0 \<or> m = 1 \<or> m = 2 \<or> m = 3 \<or> m = 4 \<or> m = 5 \<or> m = 6 \<or> m = 7 \<or> m = 8 \<or> m = 9 \<or>
    m = 10 \<or> m = 11"
    using assms by presburger
  then show thesis using that by blast
qed

lemma month_start_simps [simp]:
  "month_start l 0 = 0" "month_start l 1 = 31" "month_start l 2 = (if l then 60 else 59)"
  "month_start l 3 = (if l then 91 else 90)" "month_start l 4 = (if l then 121 else 120)"
  "month_start l 5 = (if l then 152 else 151)" "month_start l 6 = (if l then 182 else 181)"
  "month_start l 7 = (if l then 213 else 212)" "month_start l 8 = (if l then 244 else 243)"
  "month_start l 9 = (if l then 274 else 273)" "month_start l 10 = (if l then 305 else 304)"
  "month_start l 11 = (if l then 335 else 334)" "month_start l 12 = (if l then 366 else 365)"
  by (simp_all add: month_start_def)

lemma month_from_yday_start:
  assumes "0 \<le> m" "m < 12" "0 \<le> k" "k < month_length leap m"
  shows "month_from_yday leap (month_start leap m + k) = m"
  using assms(1,2)
  by (rule month_cases)
    (use assms(3,4) in \<open>cases leap; simp add: month_from_yday_def month_length_def\<close>)+

lemma month_from_yday_bounds:
  assumes "0 \<le> n" "n < (if leap then 366 else 365)"
  shows "0 \<le> month_from_yday leap n" "month_from_yday leap n < 12"
    "month_start leap (month_from_yday leap n) \<le> n"
    "n < month_start leap (month_from_yday leap n + 1)"
  using assms by (cases leap; auto simp: month_from_yday_def)+

lemma month_end_of_year:
  assumes "0 \<le> m" "m < 12"
  shows "0 \<le> month_start leap m"
    "month_start leap m + month_length leap m \<le> (if leap then 366 else 365)"
  using assms by (rule month_cases; cases leap; simp add: month_length_def)+

section \<open>The two directions are inverse\<close>

lemma year_day_bounds:
  "0 \<le> year_day n" "year_day n < (if leap_year (year_from_day n) then 366 else 365)"
  using year_from_day_bounds [of n] by (simp_all add: year_day_def day_from_year_Suc)

lemma make_day_fields:
  assumes "valid_ymd y m d"
  shows "year_from_day (make_day y m d) = y" "month_from_day (make_day y m d) = m"
    "date_from_day (make_day y m d) = d"
proof -
  have m: "0 \<le> m" "m < 12" and d: "0 \<le> d - 1" "d - 1 < month_length (leap_year y) m"
    using assms by (auto simp: valid_ymd_def)
  let ?n = "make_day y m d"
  have n: "?n = day_from_year y + (month_start (leap_year y) m + (d - 1))"
    using m by (simp add: make_day_def)
  show y: "year_from_day ?n = y"
    using month_end_of_year [OF m, of "leap_year y"] d
    by (intro year_from_day_unique) (simp_all add: n day_from_year_Suc)
  have yd: "year_day ?n = month_start (leap_year y) m + (d - 1)"
    by (simp only: year_day_def y) (simp add: n)
  show mo: "month_from_day ?n = m"
    by (simp only: month_from_day_def y yd month_from_yday_start [OF m d])
  show "date_from_day ?n = d"
    by (simp add: date_from_day_def y mo yd)
qed

lemma day_fields_valid: "valid_ymd (year_from_day n) (month_from_day n) (date_from_day n)"
  using month_from_yday_bounds [OF year_day_bounds [of n]]
  by (simp add: valid_ymd_def month_from_day_def date_from_day_def month_length_def)

lemma day_fields_make:
  "make_day (year_from_day n) (month_from_day n) (date_from_day n) = n"
proof -
  have "0 \<le> month_from_day n" "month_from_day n < 12"
    using day_fields_valid [of n] by (simp_all add: valid_ymd_def)
  then show ?thesis by (simp add: make_day_def date_from_day_def year_day_def)
qed

lemma make_day_roundtrip:
  "year_from_day (make_day y m d) = y \<and> month_from_day (make_day y m d) = m \<and>
     date_from_day (make_day y m d) = d \<longleftrightarrow> valid_ymd y m d"
  using make_day_fields day_fields_valid [of "make_day y m d"] by auto

lemma month_length_bounds:
  "0 \<le> m \<Longrightarrow> m < 12 \<Longrightarrow> 28 \<le> month_length leap m \<and> month_length leap m \<le> 31"
  by (erule (1) month_cases; cases leap; simp add: month_length_def)

lemma week_day_bounds: "0 \<le> week_day n" "week_day n < 7"
  by (simp_all add: week_day_def)

end
