(* ===== verification/CampusClock.thy ===== *)
theory CampusClock
  imports Calendar
begin

text \<open>
  Campus time (common/time/campus-clock.ts) and the calendar checks the services share. An
  instant is the number of milliseconds since the epoch (\<open>Date.getTime\<close>). A campus date is a
  text \<open>YYYY-MM-DD\<close>, a campus time a text \<open>HH:MM\<close>, both seven hours ahead of UTC. \<open>None\<close>
  stands for \<open>NaN\<close>, for which every comparison is false. PostgreSQL compares its date and
  time columns as a day number and as seconds after midnight: \<open>sql_date\<close> and \<open>sql_time\<close>.
\<close>

section \<open>Reading a calendar date\<close>

text \<open>\<open>const [year, month, day] = date.split('-').map(Number)\<close>\<close>

definition date_numbers :: "string \<Rightarrow> (int \<times> int \<times> int) option" where
  "date_numbers date =
     (case map js_number (js_split (CHR ''-'') date) of
        year # month # day # _ \<Rightarrow> Some (int year, int month, int day)
      | _ \<Rightarrow> None)"

text \<open>\<open>Date.UTC(year, month, day)\<close> as a day number: two-digit years mean 19xx.\<close>

definition date_utc :: "int \<Rightarrow> int \<Rightarrow> int \<Rightarrow> int" where
  "date_utc year month day =
     make_day (if 0 \<le> year \<and> year \<le> 99 then 1900 + year else year) month day"

text \<open>
  The check of \<open>requireValidDate\<close> and of \<open>requireValidRequest\<close>: the UTC date built from the
  three numbers reads back as the same numbers.
\<close>

definition real_date :: "string \<Rightarrow> bool" where
  "real_date date =
     (case date_numbers date of
        Some (year, month, day) \<Rightarrow>
          (let parsed = date_utc year (month - 1) day
           in year_from_day parsed = year \<and> month_from_day parsed = month - 1 \<and>
              date_from_day parsed = day)
      | None \<Rightarrow> False)"

definition dayOfWeekFor :: "string \<Rightarrow> int" where
  "dayOfWeekFor date =
     (case date_numbers date of
        Some (year, month, day) \<Rightarrow> week_day (date_utc year (month - 1) day)
      | None \<Rightarrow> -1)"

section \<open>The campus clock\<close>

definition CAMPUS_OFFSET_MS :: int where
  "CAMPUS_OFFSET_MS = 7 * 60 * 60 * 1000"

text \<open>
  \<open>new Date(`${date}T${time}:00+07:00`).getTime()\<close>. The engine wants a month from 1 to 12 and
  a day from 1 to 31; a day beyond the end of the month rolls over.
\<close>

definition campusDateTimeMs :: "string \<Rightarrow> string \<Rightarrow> int option" where
  "campusDateTimeMs date time =
     (if date_pattern date \<and> clock_pattern time
      then (case date_numbers date of
              Some (year, month, day) \<Rightarrow>
                if 1 \<le> month \<and> month \<le> 12 \<and> 1 \<le> day \<and> day \<le> 31
                then Some (make_day year (month - 1) day * 86400000
                       + int (clock_minutes time) * 60000 - CAMPUS_OFFSET_MS)
                else None
            | None \<Rightarrow> None)
      else None)"

definition isFutureCampusTime :: "string \<Rightarrow> string \<Rightarrow> int \<Rightarrow> bool" where
  "isFutureCampusTime date time now =
     (case campusDateTimeMs date time of Some timestamp \<Rightarrow> now < timestamp | None \<Rightarrow> False)"

text \<open>\<open>Date.prototype.toISOString\<close>; years outside 0..9999 have a sign and six digits.\<close>

definition iso_year :: "int \<Rightarrow> string" where
  "iso_year y =
     (if 0 \<le> y \<and> y \<le> 9999 then pad_start 4 CHR ''0'' (js_string (nat y))
      else (if y < 0 then CHR ''-'' else CHR ''+'') # pad_start 6 CHR ''0'' (js_string (nat \<bar>y\<bar>)))"

definition iso_pair :: "int \<Rightarrow> string" where
  "iso_pair n = pad_start 2 CHR ''0'' (js_string (nat n))"

definition day_of_time :: "int \<Rightarrow> int" where
  "day_of_time t = t div 86400000"

definition hour_from_time :: "int \<Rightarrow> int" where
  "hour_from_time t = t mod 86400000 div 3600000"

definition min_from_time :: "int \<Rightarrow> int" where
  "min_from_time t = t mod 86400000 div 60000 mod 60"

definition sec_from_time :: "int \<Rightarrow> int" where
  "sec_from_time t = t mod 86400000 div 1000 mod 60"

definition toISOString :: "int \<Rightarrow> string" where
  "toISOString t =
     (let n = day_of_time t
      in iso_year (year_from_day n) @ ''-'' @ iso_pair (month_from_day n + 1) @ ''-''
         @ iso_pair (date_from_day n) @ ''T'' @ iso_pair (hour_from_time t) @ '':''
         @ iso_pair (min_from_time t) @ '':'' @ iso_pair (sec_from_time t) @ ''.''
         @ pad_start 3 CHR ''0'' (js_string (nat (t mod 1000))) @ ''Z'')"

definition campusDateOf :: "int \<Rightarrow> string" where
  "campusDateOf now = js_slice 0 10 (toISOString (now + CAMPUS_OFFSET_MS))"

definition campusTimeOf :: "int \<Rightarrow> string" where
  "campusTimeOf now = js_slice 11 16 (toISOString (now + CAMPUS_OFFSET_MS))"

section \<open>Date and time columns\<close>

text \<open>A text PostgreSQL takes for a \<open>date\<close> column, and its value.\<close>

definition pg_date :: "string \<Rightarrow> bool" where
  "pg_date s =
     (date_pattern s \<and>
      (case date_numbers s of
         Some (y, m, d) \<Rightarrow> 1 \<le> y \<and> valid_ymd y (m - 1) d
       | None \<Rightarrow> False))"

definition sql_date :: "string \<Rightarrow> int" where
  "sql_date s =
     (case date_numbers s of Some (y, m, d) \<Rightarrow> make_day y (m - 1) d | None \<Rightarrow> 0)"

text \<open>\<open>EXTRACT(DOW FROM date)\<close>: Sunday is 0.\<close>

definition sql_dow :: "string \<Rightarrow> int" where
  "sql_dow s = week_day (sql_date s)"

text \<open>
  A \<open>time\<close> column prints as \<open>HH:MM:SS\<close>; a parameter may be \<open>HH:MM\<close>. \<open>time_text\<close> is the text the
  column gives back for a parameter.
\<close>

definition time_text :: "string \<Rightarrow> string" where
  "time_text s = (if length s = 5 then s @ '':00'' else s)"

definition pg_time :: "string \<Rightarrow> bool" where
  "pg_time s =
     (clock_pattern (js_slice 0 5 s) \<and>
      (case drop 5 s of
         [] \<Rightarrow> True
       | [c, a, b] \<Rightarrow> c = CHR '':'' \<and> is_digit a \<and> is_digit b \<and> 10 * digit_val a + digit_val b < 60
       | _ \<Rightarrow> False))"

definition sql_time :: "string \<Rightarrow> int" where
  "sql_time s = 60 * int (clock_minutes (js_slice 0 5 s)) + int (js_number (drop 6 s))"

text \<open>\<open>(date + time) AT TIME ZONE 'Asia/Ho_Chi_Minh'\<close>; the zone has kept +07:00 since 1975.\<close>

definition at_campus_zone :: "string \<Rightarrow> string \<Rightarrow> int" where
  "at_campus_zone date time =
     sql_date date * 86400000 + sql_time time * 1000 - CAMPUS_OFFSET_MS"

section \<open>Properties of the date texts\<close>

lemma not_sep_digit: "is_digit c \<Longrightarrow> c \<noteq> CHR ''-''" "is_digit c \<Longrightarrow> c \<noteq> CHR '':''"
  by (auto simp: is_digit_def)

lemma date_pattern_split:
  assumes "date_pattern s"
  shows "js_split CHR ''-'' s = [js_slice 0 4 s, js_slice 5 7 s, js_slice 8 10 s]"
  using assms by (auto elim!: date_patternE simp: not_sep_digit js_slice_def)

lemma date_numbers_pattern:
  "date_pattern s \<Longrightarrow> date_numbers s =
    Some (int (js_number (js_slice 0 4 s)), int (js_number (js_slice 5 7 s)), int (js_number (js_slice 8 10 s)))"
  by (simp add: date_numbers_def date_pattern_split)

lemma date_numbers_SomeE:
  assumes "date_pattern s"
  obtains y m d where "date_numbers s = Some (y, m, d)" "0 \<le> y" "y \<le> 9999" "0 \<le> m" "m \<le> 99" "0 \<le> d" "d \<le> 99"
proof -
  from assms obtain y1 y2 y3 y4 m1 m2 d1 d2 where
    s: "s = [y1, y2, y3, y4, CHR ''-'', m1, m2, CHR ''-'', d1, d2]" and
    "is_digit y1" "is_digit y2" "is_digit y3" "is_digit y4" "is_digit m1" "is_digit m2"
    "is_digit d1" "is_digit d2"
    by (auto elim!: date_patternE)
  then have "digit_val y1 < 10" "digit_val y2 < 10" "digit_val y3 < 10" "digit_val y4 < 10"
    "digit_val m1 < 10" "digit_val m2 < 10" "digit_val d1 < 10" "digit_val d2 < 10"
    by (simp_all add: digit_val_less)
  with assms show ?thesis
    by (intro that) (auto simp: date_numbers_pattern s js_slice_def)
qed

text \<open>What the JavaScript check accepts: the real dates from year 100 on.\<close>

lemma real_date_iff:
  assumes "date_pattern s" "date_numbers s = Some (y, m, d)"
  shows "real_date s \<longleftrightarrow> 100 \<le> y \<and> valid_ymd y (m - 1) d"
proof -
  have y0: "0 \<le> y" using assms by (auto elim: date_numbers_SomeE)
  show ?thesis
  proof (cases "y \<le> 99")
    case True
    define p where "p = make_day (1900 + y) (m - 1) d"
    have "\<not> (year_from_day p = y \<and> month_from_day p = m - 1 \<and> date_from_day p = d)"
    proof
      assume a: "year_from_day p = y \<and> month_from_day p = m - 1 \<and> date_from_day p = d"
      then have "valid_ymd y (m - 1) d" using day_fields_valid [of p] by auto
      then have "0 \<le> m - 1" "m - 1 < 12" by (simp_all add: valid_ymd_def)
      then have "p = day_from_year (1900 + y) + month_start (leap_year (1900 + y)) (m - 1) + d - 1"
        by (simp add: p_def make_day_def Let_def)
      moreover have "0 \<le> month_start (leap_year (1900 + y)) (m - 1)" "1 \<le> d"
        using month_end_of_year(1) [OF \<open>0 \<le> m - 1\<close> \<open>m - 1 < 12\<close>] \<open>valid_ymd y (m - 1) d\<close>
        by (simp_all add: valid_ymd_def)
      ultimately have "day_from_year (1900 + y) \<le> p" by simp
      moreover have "p < day_from_year (y + 1)" using year_from_day_bounds(2) [of p] a by simp
      moreover have "day_from_year (y + 1) + 365 \<le> day_from_year (1900 + y)"
        by (rule day_from_year_mono) simp
      ultimately show False by simp
    qed
    with True y0 assms(2) show ?thesis by (simp add: real_date_def date_utc_def p_def [symmetric] Let_def)
  next
    case False
    with assms(2) show ?thesis
      by (simp add: real_date_def date_utc_def Let_def make_day_roundtrip)
  qed
qed

lemma pg_date_iff:
  assumes "date_pattern s" "date_numbers s = Some (y, m, d)"
  shows "pg_date s \<longleftrightarrow> 1 \<le> y \<and> valid_ymd y (m - 1) d"
  using assms by (simp add: pg_date_def)

lemma pg_dateE:
  assumes "pg_date s"
  obtains y m d where "date_pattern s" "date_numbers s = Some (y, m, d)" "1 \<le> y" "y \<le> 9999"
    "valid_ymd y (m - 1) d"
proof -
  from assms have p: "date_pattern s" by (simp add: pg_date_def)
  then obtain y m d where "date_numbers s = Some (y, m, d)" "y \<le> 9999"
    by (rule date_numbers_SomeE)
  with assms p show ?thesis by (intro that) (auto simp: pg_date_def)
qed

lemma real_date_pg: "date_pattern s \<Longrightarrow> real_date s \<Longrightarrow> pg_date s"
proof -
  assume s: "date_pattern s" "real_date s"
  then obtain y m d where n: "date_numbers s = Some (y, m, d)" by (auto elim: date_numbers_SomeE)
  with s real_date_iff [OF s(1) n] show ?thesis by (simp add: pg_date_def)
qed

lemma pg_date_length: "pg_date s \<Longrightarrow> length s = 10"
  by (simp add: pg_date_def date_pattern_length)

lemma sql_date_fields:
  assumes "date_numbers s = Some (y, m, d)" "valid_ymd y (m - 1) d"
  shows "year_from_day (sql_date s) = y" "month_from_day (sql_date s) = m - 1"
    "date_from_day (sql_date s) = d"
  using make_day_fields [OF assms(2)] by (simp_all add: sql_date_def assms(1))

text \<open>Equal day numbers come from equal texts.\<close>

lemma quot_inj:
  fixes a b c d n :: nat
  assumes "b < n" "d < n" "n * a + b = n * c + d"
  shows "a = c \<and> b = d"
proof -
  have "(n * a + b) mod n = b" "(n * c + d) mod n = d" using assms(1,2) by simp_all
  with assms(3) have "b = d" by simp
  with assms show ?thesis by simp
qed

lemma two_digits_inj:
  assumes "is_digit a" "is_digit b" "is_digit c" "is_digit d"
    "10 * digit_val a + digit_val b = 10 * digit_val c + digit_val d"
  shows "a = c \<and> b = d"
proof -
  have "digit_val b < 10" "digit_val d < 10" using assms by (simp_all add: digit_val_less)
  with quot_inj [OF _ _ assms(5)] assms show ?thesis by (simp add: digit_eq_iff)
qed

lemma four_digits_inj:
  assumes "is_digit a" "is_digit b" "is_digit c" "is_digit d"
    "is_digit a'" "is_digit b'" "is_digit c'" "is_digit d'"
    "1000 * digit_val a + 100 * digit_val b + 10 * digit_val c + digit_val d =
     1000 * digit_val a' + 100 * digit_val b' + 10 * digit_val c' + digit_val d'"
  shows "a = a' \<and> b = b' \<and> c = c' \<and> d = d'"
proof -
  have "10 * digit_val c + digit_val d < 100" "10 * digit_val c' + digit_val d' < 100"
    using digit_val_less [OF assms(3)] digit_val_less [OF assms(4)]
      digit_val_less [OF assms(7)] digit_val_less [OF assms(8)] by linarith+
  then have "10 * digit_val a + digit_val b = 10 * digit_val a' + digit_val b' \<and>
    10 * digit_val c + digit_val d = 10 * digit_val c' + digit_val d'"
    using assms(9) by (intro quot_inj [of _ 100]) simp_all
  then show ?thesis using two_digits_inj assms by blast
qed

lemma date_numbers_inj:
  assumes "date_pattern s" "date_pattern t" "date_numbers s = date_numbers t"
  shows "s = t"
proof -
  obtain y1 y2 y3 y4 m1 m2 d1 d2 where
    s: "s = [y1, y2, y3, y4, CHR ''-'', m1, m2, CHR ''-'', d1, d2]" and
    sd: "is_digit y1" "is_digit y2" "is_digit y3" "is_digit y4" "is_digit m1" "is_digit m2"
    "is_digit d1" "is_digit d2"
    using assms(1) by (auto elim!: date_patternE)
  obtain z1 z2 z3 z4 n1 n2 e1 e2 where
    t: "t = [z1, z2, z3, z4, CHR ''-'', n1, n2, CHR ''-'', e1, e2]" and
    td: "is_digit z1" "is_digit z2" "is_digit z3" "is_digit z4" "is_digit n1" "is_digit n2"
    "is_digit e1" "is_digit e2"
    using assms(2) by (auto elim!: date_patternE)
  have "1000 * digit_val y1 + 100 * digit_val y2 + 10 * digit_val y3 + digit_val y4 =
      1000 * digit_val z1 + 100 * digit_val z2 + 10 * digit_val z3 + digit_val z4"
    "10 * digit_val m1 + digit_val m2 = 10 * digit_val n1 + digit_val n2"
    "10 * digit_val d1 + digit_val d2 = 10 * digit_val e1 + digit_val e2"
    using assms by (simp_all add: date_numbers_pattern s t js_slice_def)
  then show ?thesis
    using four_digits_inj [OF sd(1-4) td(1-4)] two_digits_inj [OF sd(5,6) td(5,6)]
      two_digits_inj [OF sd(7,8) td(7,8)]
    by (simp add: s t)
qed

lemma sql_date_inj:
  assumes "pg_date s" "pg_date t" "sql_date s = sql_date t"
  shows "s = t"
proof -
  obtain y m d where s: "date_pattern s" "date_numbers s = Some (y, m, d)" "valid_ymd y (m - 1) d"
    using assms(1) by (rule pg_dateE)
  obtain y' m' d' where t: "date_pattern t" "date_numbers t = Some (y', m', d')"
      "valid_ymd y' (m' - 1) d'"
    using assms(2) by (rule pg_dateE)
  have "y = y'" "m = m'" "d = d'"
    using sql_date_fields [OF s(2,3)] sql_date_fields [OF t(2,3)] assms(3) by simp_all
  with s t show ?thesis by (intro date_numbers_inj) simp_all
qed

section \<open>Instants of campus times\<close>

lemma valid_ymd_ranges:
  "valid_ymd y (m - 1) d \<Longrightarrow> 1 \<le> m \<and> m \<le> 12 \<and> 1 \<le> d \<and> d \<le> 31"
  using month_length_bounds [of "m - 1" "leap_year y"] by (auto simp: valid_ymd_def)

lemma campusDateTimeMs_eq:
  assumes "pg_date date" "clock_pattern time"
  shows "campusDateTimeMs date time =
    Some (sql_date date * 86400000 + int (clock_minutes time) * 60000 - CAMPUS_OFFSET_MS)"
proof -
  obtain y m d where "date_pattern date" "date_numbers date = Some (y, m, d)" "valid_ymd y (m - 1) d"
    using assms(1) by (rule pg_dateE)
  with assms(2) valid_ymd_ranges [of y m d] show ?thesis
    by (simp add: campusDateTimeMs_def sql_date_def)
qed

lemma clock_minutes_bound: "clock_pattern s \<Longrightarrow> clock_minutes s < 1440"
  by (erule clock_patternE) (auto simp: clock_minutes_def js_slice_def)

lemma dayOfWeekFor_eq:
  assumes "date_pattern date" "real_date date"
  shows "dayOfWeekFor date = sql_dow date"
proof -
  obtain y m d where n: "date_numbers date = Some (y, m, d)"
    using assms(1) by (rule date_numbers_SomeE)
  with real_date_iff [OF assms(1) n] assms(2) have "100 \<le> y" by simp
  with n show ?thesis by (simp add: dayOfWeekFor_def date_utc_def sql_dow_def sql_date_def)
qed

text \<open>The instants whose campus year has four digits: 1970-01-01 to 9999-12-31.\<close>

definition campus_era :: "int \<Rightarrow> bool" where
  "campus_era now \<longleftrightarrow> 0 \<le> now \<and> now < 253402275600000"

lemma campus_era_year:
  assumes "campus_era now"
  defines "n \<equiv> (now + CAMPUS_OFFSET_MS) div 86400000"
  shows "1970 \<le> year_from_day n" "year_from_day n \<le> 9999"
proof -
  have "0 \<le> n" unfolding n_def using assms(1)
    by (simp add: campus_era_def CAMPUS_OFFSET_MS_def pos_imp_zdiv_nonneg_iff)
  have "n * 86400000 \<le> now + CAMPUS_OFFSET_MS"
    using div_bounds(1) [of 86400000 "now + CAMPUS_OFFSET_MS"] by (simp add: n_def mult.commute)
  then have "n < 2932897" using assms(1) by (simp add: campus_era_def CAMPUS_OFFSET_MS_def)
  show "1970 \<le> year_from_day n"
  proof (rule ccontr)
    assume "\<not> 1970 \<le> year_from_day n"
    then have "day_from_year (year_from_day n + 1) \<le> day_from_year 1970"
      using day_from_year_mono [of "year_from_day n + 1" 1970]
      by (cases "year_from_day n + 1 = 1970") auto
    then show False using year_from_day_bounds(2) [of n] \<open>0 \<le> n\<close> by (simp add: day_from_year_def)
  qed
  show "year_from_day n \<le> 9999"
  proof (rule ccontr)
    assume "\<not> year_from_day n \<le> 9999"
    then have "day_from_year 10000 \<le> day_from_year (year_from_day n)"
      using day_from_year_mono [of 10000 "year_from_day n"]
      by (cases "year_from_day n = 10000") auto
    then show False
      using year_from_day_bounds(1) [of n] \<open>n < 2932897\<close> by (simp add: day_from_year_def)
  qed
qed

lemma four_char:
  assumes "n < 10000"
  obtains a b c d where "pad_start 4 CHR ''0'' (js_string n) = [a, b, c, d]"
    "is_digit a" "is_digit b" "is_digit c" "is_digit d" "js_number [a, b, c, d] = n"
proof -
  let ?s = "pad_start 4 CHR ''0'' (js_string n)"
  have "length (js_string n) \<le> 4" using assms by (intro js_string_length) simp_all
  then have "length ?s = 4" by (simp add: pad_start_def)
  then obtain a b c d where s: "?s = [a, b, c, d]"
    by (auto simp: numeral_eq_Suc length_Suc_conv)
  have "\<forall>x\<in>set ?s. is_digit x"
    using js_string_digits by (auto simp: pad_start_def is_digit_def)
  moreover have "js_number ?s = n" by (simp add: js_number_pad js_number_string)
  ultimately show ?thesis using s by (intro that [OF s]) simp_all
qed

lemma iso_pair_chars:
  assumes "0 \<le> n" "n < 100"
  obtains a b where "iso_pair n = [a, b]" "is_digit a" "is_digit b"
    "int (10 * digit_val a + digit_val b) = n"
proof -
  from assms have "nat n < 100" "nat n div 10 < 10" by simp_all
  with assms show ?thesis
    by (intro that [of "digit_char (nat n div 10)" "digit_char (nat n mod 10)"])
      (simp_all add: iso_pair_def pad2)
qed

section \<open>The campus date and time of an instant\<close>

lemma day_part_bounds:
  "0 \<le> hour_from_time t" "hour_from_time t < 24" "0 \<le> min_from_time t" "min_from_time t < 60"
proof -
  have r: "0 \<le> t mod 86400000" "t mod 86400000 < 86400000" by simp_all
  show "0 \<le> hour_from_time t" using r(1) by (simp add: hour_from_time_def pos_imp_zdiv_nonneg_iff)
  have "3600000 * hour_from_time t \<le> t mod 86400000"
    unfolding hour_from_time_def by (rule div_bounds) simp
  with r show "hour_from_time t < 24" by linarith
qed (simp_all add: min_from_time_def)

lemma minutes_of_day: "60 * hour_from_time t + min_from_time t = t mod 86400000 div 60000"
proof -
  have "hour_from_time t = t mod 86400000 div 60000 div 60"
    unfolding hour_from_time_def by (simp add: zdiv_zmult2_eq [symmetric])
  then show ?thesis by (simp add: min_from_time_def)
qed

lemma iso_text:
  assumes "campus_era now"
  shows "pg_date (campusDateOf now)"
    "sql_date (campusDateOf now) = (now + CAMPUS_OFFSET_MS) div 86400000"
    "clock_pattern (campusTimeOf now)"
    "int (clock_minutes (campusTimeOf now)) = (now + CAMPUS_OFFSET_MS) mod 86400000 div 60000"
proof -
  define t where "t = now + CAMPUS_OFFSET_MS"
  define n where "n = day_of_time t"
  have y: "1970 \<le> year_from_day n" "year_from_day n \<le> 9999"
    using campus_era_year [OF assms] by (simp_all add: n_def t_def day_of_time_def)
  have v: "valid_ymd (year_from_day n) (month_from_day n) (date_from_day n)"
    by (rule day_fields_valid)
  have mb: "0 \<le> month_from_day n + 1" "month_from_day n + 1 < 100"
    "0 \<le> date_from_day n" "date_from_day n < 100"
    using valid_ymd_ranges [of "year_from_day n" "month_from_day n + 1" "date_from_day n"] v
    by simp_all
  obtain a b c d where Y: "iso_year (year_from_day n) = [a, b, c, d]"
    "is_digit a" "is_digit b" "is_digit c" "is_digit d" "int (js_number [a, b, c, d]) = year_from_day n"
  proof -
    have "nat (year_from_day n) < 10000" using y by simp
    then show ?thesis
      using y by (elim four_char) (auto intro!: that simp: iso_year_def simp del: js_number_four)
  qed
  obtain e f where M: "iso_pair (month_from_day n + 1) = [e, f]" "is_digit e" "is_digit f"
    "int (10 * digit_val e + digit_val f) = month_from_day n + 1"
    using iso_pair_chars [OF mb(1,2)] .
  obtain g h where D: "iso_pair (date_from_day n) = [g, h]" "is_digit g" "is_digit h"
    "int (10 * digit_val g + digit_val h) = date_from_day n"
    using iso_pair_chars [OF mb(3,4)] .
  have hb: "hour_from_time t < 100" "min_from_time t < 100"
    using day_part_bounds(2,4) [of t] by linarith+
  obtain i j where H: "iso_pair (hour_from_time t) = [i, j]" "is_digit i" "is_digit j"
    "int (10 * digit_val i + digit_val j) = hour_from_time t"
    using iso_pair_chars [OF day_part_bounds(1) hb(1)] .
  obtain k l where N: "iso_pair (min_from_time t) = [k, l]" "is_digit k" "is_digit l"
    "int (10 * digit_val k + digit_val l) = min_from_time t"
    using iso_pair_chars [OF day_part_bounds(3) hb(2)] .
  have date: "campusDateOf now = [a, b, c, d, CHR ''-'', e, f, CHR ''-'', g, h]"
    by (simp add: campusDateOf_def toISOString_def Let_def t_def [symmetric] n_def [symmetric] Y(1) M(1) D(1))
  have time: "campusTimeOf now = [i, j, CHR '':'', k, l]"
    by (simp add: campusTimeOf_def toISOString_def Let_def t_def [symmetric] n_def [symmetric]
        Y(1) M(1) D(1) H(1) N(1) js_slice_def)
  have p: "date_pattern (campusDateOf now)" by (simp add: date Y M D)
  have nums: "date_numbers (campusDateOf now) = Some (year_from_day n, month_from_day n + 1, date_from_day n)"
    using date_numbers_pattern [OF p] Y(6) M(4) D(4) by (simp add: date js_slice_def)
  show "pg_date (campusDateOf now)" using y v by (simp add: pg_date_iff [OF p nums])
  show "sql_date (campusDateOf now) = (now + CAMPUS_OFFSET_MS) div 86400000"
    using day_fields_make [of n] by (simp add: sql_date_def nums) (simp add: n_def t_def day_of_time_def)
  show "clock_pattern (campusTimeOf now)"
    using H N day_part_bounds [of t] by (simp add: time)
  show "int (clock_minutes (campusTimeOf now)) = (now + CAMPUS_OFFSET_MS) mod 86400000 div 60000"
    using H(4) N(4) minutes_of_day [of t]
    by (simp add: time clock_minutes_def js_slice_def t_def [symmetric])
qed

lemma campus_minute:
  fixes t :: int
  shows "t div 86400000 * 86400000 + t mod 86400000 div 60000 * 60000 = t - t mod 60000"
proof -
  have "t mod 86400000 div 60000 * 60000 = t mod 86400000 - t mod 86400000 mod 60000"
    by (simp add: minus_mod_eq_div_mult)
  moreover have "t mod 86400000 mod 60000 = t mod 60000"
    by (rule mod_mod_cancel) simp
  moreover have "t div 86400000 * 86400000 = t - t mod 86400000"
    by (simp add: minus_mod_eq_div_mult)
  ultimately show ?thesis by simp
qed

lemma campus_now_minute:
  assumes "campus_era now"
  shows "campusDateTimeMs (campusDateOf now) (campusTimeOf now) = Some (now - now mod 60000)"
proof -
  let ?t = "now + CAMPUS_OFFSET_MS"
  have "campusDateTimeMs (campusDateOf now) (campusTimeOf now) =
      Some (?t div 86400000 * 86400000 + ?t mod 86400000 div 60000 * 60000 - CAMPUS_OFFSET_MS)"
    using campusDateTimeMs_eq [OF iso_text(1) [OF assms] iso_text(3) [OF assms]] by (simp add: iso_text(2,4) [OF assms])
  moreover have "?t mod 60000 = now mod 60000"
    by (simp add: CAMPUS_OFFSET_MS_def mod_add_eq [symmetric])
  ultimately show ?thesis using campus_minute [of ?t] by simp
qed

section \<open>The SQL form of "has not ended"\<close>

text \<open>
  \<open>date > :today OR (date = :today AND time > :nowTime)\<close>, the condition the queries use, for a
  time on the minute.
\<close>

definition sql_after_now :: "string \<Rightarrow> string \<Rightarrow> int \<Rightarrow> bool" where
  "sql_after_now date time now \<longleftrightarrow>
     sql_date (campusDateOf now) < sql_date date \<or>
     sql_date date = sql_date (campusDateOf now) \<and> sql_time (campusTimeOf now) < sql_time time"

lemma lex_day_time:
  fixes d d' m m' :: int
  assumes "0 \<le> m" "m < 1440" "0 \<le> m'" "m' < 1440"
  shows "(d' < d \<or> d = d' \<and> m' < m) \<longleftrightarrow> d' * 86400000 + m' * 60000 < d * 86400000 + m * 60000"
  using assms by (cases d d' rule: linorder_cases) auto

lemma floor_less_aligned:
  fixes x e :: int
  assumes "e mod 60000 = 0"
  shows "x - x mod 60000 < e \<longleftrightarrow> x < e"
proof -
  obtain k where "e = 60000 * k" using assms by (auto simp: mod_eq_0_iff_dvd)
  moreover have "x - x mod 60000 = 60000 * (x div 60000)" by (simp add: minus_mod_eq_mult_div)
  moreover have "60000 * (x div 60000) < 60000 * k \<longleftrightarrow> x < 60000 * k"
  proof -
    define q where "q = x div 60000"
    have "60000 * q \<le> x" "x < 60000 * q + 60000"
      unfolding q_def by (rule div_bounds, simp)+
    moreover have "60000 * q + 60000 \<le> 60000 * k \<longleftrightarrow> q < k" "60000 * q < 60000 * k \<longleftrightarrow> q < k"
      by auto
    ultimately show ?thesis unfolding q_def [symmetric]
      by (meson le_less_trans less_le_trans)
  qed
  ultimately show ?thesis by simp
qed

text \<open>A time column on the minute: \<open>HH:MM:00\<close>, as the whole-hour constraints make it.\<close>

definition minute_time :: "string \<Rightarrow> bool" where
  "minute_time s \<longleftrightarrow> clock_pattern (js_slice 0 5 s) \<and> drop 5 s \<in> {[], '':00''}"

lemma minute_time_sql: "minute_time s \<Longrightarrow> sql_time s = 60 * int (clock_minutes (js_slice 0 5 s))"
proof -
  assume m: "minute_time s"
  have d: "drop 6 s = drop 1 (drop 5 s)" by simp
  from m consider "drop 5 s = []" | "drop 5 s = '':00''" by (auto simp: minute_time_def)
  then have "js_number (drop 6 s) = 0"
    unfolding d by cases (simp_all only: drop_Nil drop_0 drop_Suc_Cons One_nat_def js_number_two,
      simp_all add: js_number_def digit_val_def)
  then show ?thesis by (simp add: sql_time_def)
qed

lemma minute_time_clock: "clock_pattern s \<Longrightarrow> minute_time s"
  by (simp add: minute_time_def clock_pattern_length)

lemma at_campus_zone_ms:
  assumes "pg_date date" "minute_time time"
  shows "campusDateTimeMs date (js_slice 0 5 time) = Some (at_campus_zone date time)"
proof -
  have "clock_pattern (js_slice 0 5 time)" using assms(2) by (simp add: minute_time_def)
  from campusDateTimeMs_eq [OF assms(1) this] show ?thesis
    by (simp add: at_campus_zone_def minute_time_sql [OF assms(2)])
qed

lemma at_campus_zone_aligned: "minute_time time \<Longrightarrow> at_campus_zone date time mod 60000 = 0"
proof -
  assume m: "minute_time time"
  have "at_campus_zone date time =
      60000 * (1440 * sql_date date + int (clock_minutes (js_slice 0 5 time)) - 420)"
    by (simp add: at_campus_zone_def minute_time_sql [OF m] CAMPUS_OFFSET_MS_def algebra_simps)
  then show ?thesis by simp
qed

lemma sql_after_now_iff:
  assumes "campus_era now" "pg_date date" "minute_time time"
  shows "sql_after_now date time now \<longleftrightarrow> now < at_campus_zone date time"
proof -
  have c: "clock_pattern (js_slice 0 5 time)" using assms(3) by (simp add: minute_time_def)
  let ?m' = "int (clock_minutes (campusTimeOf now))" and ?m = "int (clock_minutes (js_slice 0 5 time))"
  have b: "?m' < 1440" "?m < 1440"
    using clock_minutes_bound [OF iso_text(3) [OF assms(1)]] clock_minutes_bound [OF c] by simp_all
  have s: "take 5 (campusTimeOf now) = campusTimeOf now"
    using clock_pattern_length [OF iso_text(3) [OF assms(1)]] by simp
  have "sql_after_now date time now \<longleftrightarrow>
      sql_date (campusDateOf now) < sql_date date \<or>
      sql_date date = sql_date (campusDateOf now) \<and> ?m' < ?m"
    using minute_time_sql [OF minute_time_clock [OF iso_text(3) [OF assms(1)]]]
      minute_time_sql [OF assms(3)]
    by (simp add: sql_after_now_def s)
  also have "\<dots> \<longleftrightarrow> sql_date (campusDateOf now) * 86400000 + ?m' * 60000
      < sql_date date * 86400000 + ?m * 60000"
    using b by (intro lex_day_time) simp_all
  also have "sql_date (campusDateOf now) * 86400000 + ?m' * 60000 = now - now mod 60000 + CAMPUS_OFFSET_MS"
    using campus_now_minute [OF assms(1)]
      campusDateTimeMs_eq [OF iso_text(1) [OF assms(1)] iso_text(3) [OF assms(1)]]
    by simp
  also have "sql_date date * 86400000 + ?m * 60000 = at_campus_zone date time + CAMPUS_OFFSET_MS"
    by (simp add: at_campus_zone_def minute_time_sql [OF assms(3)])
  finally show ?thesis
    using floor_less_aligned [OF at_campus_zone_aligned [OF assms(3), of date], of now] by simp
qed

section \<open>The texts of the days\<close>

lemma sql_date_bound:
  assumes "pg_date s"
  shows "sql_date s < 2932897"
proof -
  obtain y m d where n: "date_numbers s = Some (y, m, d)" "y \<le> 9999" "valid_ymd y (m - 1) d"
    using assms by (rule pg_dateE)
  have "sql_date s < day_from_year (y + 1)"
    using year_from_day_bounds(2) [of "sql_date s"] sql_date_fields(1) [OF n(1,3)] by simp
  also have "\<dots> \<le> day_from_year 10000"
    using n(2) day_from_year_mono [of "y + 1" 10000] by (cases "y = 9999") auto
  finally show ?thesis by (simp add: day_from_year_def)
qed

text \<open>The text of a day, from the first day of 1970 to the last of 9999.\<close>

lemma day_text:
  assumes "1 \<le> n" "n < 2932897"
  shows "pg_date (js_slice 0 10 (toISOString (n * 86400000)))" "sql_date (js_slice 0 10 (toISOString (n * 86400000))) = n"
proof -
  let ?now = "n * 86400000 - CAMPUS_OFFSET_MS"
  have era: "campus_era ?now" using assms by (simp add: campus_era_def CAMPUS_OFFSET_MS_def)
  have t: "campusDateOf ?now = js_slice 0 10 (toISOString (n * 86400000))" by (simp add: campusDateOf_def)
  show "pg_date (js_slice 0 10 (toISOString (n * 86400000)))" using iso_text(1) [OF era] t by simp
  show "sql_date (js_slice 0 10 (toISOString (n * 86400000))) = n" using iso_text(2) [OF era] t by simp
qed

lemma date_of_day:
  assumes "pg_date s" "1 \<le> sql_date s"
  shows "js_slice 0 10 (toISOString (sql_date s * 86400000)) = s"
  using sql_date_inj [OF _ assms(1)] day_text [OF assms(2) sql_date_bound [OF assms(1)]] by blast

end
