(* ===== verification/Entities.thy ===== *)
theory Entities
  imports CampusClock
begin

text \<open>
  The entities of the database and the constraints their decorators declare
  (users/entities, resources/entities, bookings/entities). A record has the columns of its
  entity; a relation is the id column, looked up where it is used. A nullable column is an
  option, a \<open>timestamptz\<close> is an instant in milliseconds. A \<open>CHECK\<close> passes unless it is false:
  where SQL would compare a \<open>NULL\<close>, the model's test is true.
\<close>

section \<open>Enumerations\<close>

datatype user_role = STUDENT | STAFF | ADMIN

datatype resource_status = ACTIVE | MAINTENANCE | INACTIVE

datatype resource_type = ROOM | LABORATORY | EQUIPMENT

datatype booking_status =
  PENDING | CONFIRMED | CHECKED_IN | COMPLETED | NO_SHOW | REJECTED | CANCELLED

fun user_role_text :: "user_role \<Rightarrow> string" where
  "user_role_text STUDENT = ''student''"
| "user_role_text STAFF = ''staff''"
| "user_role_text ADMIN = ''admin''"

fun resource_status_text :: "resource_status \<Rightarrow> string" where
  "resource_status_text ACTIVE = ''active''"
| "resource_status_text MAINTENANCE = ''maintenance''"
| "resource_status_text INACTIVE = ''inactive''"

fun resource_type_text :: "resource_type \<Rightarrow> string" where
  "resource_type_text ROOM = ''room''"
| "resource_type_text LABORATORY = ''laboratory''"
| "resource_type_text EQUIPMENT = ''equipment''"

fun booking_status_text :: "booking_status \<Rightarrow> string" where
  "booking_status_text PENDING = ''pending''"
| "booking_status_text CONFIRMED = ''confirmed''"
| "booking_status_text CHECKED_IN = ''checked_in''"
| "booking_status_text COMPLETED = ''completed''"
| "booking_status_text NO_SHOW = ''no_show''"
| "booking_status_text REJECTED = ''rejected''"
| "booking_status_text CANCELLED = ''cancelled''"

section \<open>Users\<close>

record user =
  u_id :: string
  u_email :: string
  u_passwordHash :: string
  u_fullName :: string
  u_role :: user_role
  u_isActive :: bool
  u_createdAt :: int
  u_updatedAt :: int

section \<open>Buildings, resources, closures\<close>

record building =
  bl_id :: string
  bl_code :: string
  bl_name :: string
  bl_address :: string

record resource =
  r_id :: string
  r_code :: string
  r_name :: string
  r_description :: "string option"
  r_type :: resource_type
  r_status :: resource_status
  r_capacity :: int
  r_location :: string
  r_amenities :: "string list"
  r_requiresApproval :: bool
  r_operatingDays :: "int list"
  r_opensAt :: string
  r_closesAt :: string
  r_buildingId :: string
  r_createdAt :: int
  r_updatedAt :: int

record closure =
  c_id :: string
  c_resourceId :: string
  c_date :: string
  c_reason :: string
  c_createdAt :: int

section \<open>Bookings\<close>

record booking =
  b_id :: string
  b_resourceId :: string
  b_requesterId :: string
  b_date :: string
  b_startTime :: string
  b_endTime :: string
  b_status :: booking_status
  b_cancelledAt :: "int option"
  b_reviewedAt :: "int option"
  b_reviewedById :: "string option"
  b_rejectionReason :: "string option"
  b_checkInCode :: "string option"
  b_checkInRequestedAt :: "int option"
  b_checkedInAt :: "int option"
  b_checkedInById :: "string option"
  b_checkedOutAt :: "int option"
  b_checkedOutById :: "string option"
  b_noShowAt :: "int option"
  b_noShowById :: "string option"
  b_createdAt :: int
  b_updatedAt :: int

section \<open>Column types\<close>

text \<open>A text column takes no null byte and at most its declared length.\<close>

definition pg_varchar :: "nat \<Rightarrow> string \<Rightarrow> bool" where
  "pg_varchar n s \<longleftrightarrow> length s \<le> n \<and> CHR 0x00 \<notin> set s"

definition whole_hour :: "string \<Rightarrow> bool" where
  "whole_hour s \<longleftrightarrow> sql_time s mod 3600 = 0"

text \<open>\<open>btrim(s)\<close> strips blanks only; \<open>[[:space:]]\<close> is the ASCII white space.\<close>

definition btrim :: "string \<Rightarrow> string" where
  "btrim s = rev (dropWhile (\<lambda>c. c = CHR '' '') (rev (dropWhile (\<lambda>c. c = CHR '' '') s)))"

definition posix_space :: "char \<Rightarrow> bool" where
  "posix_space c \<longleftrightarrow> (let n = (of_char c :: nat) in (9 \<le> n \<and> n \<le> 13) \<or> n = 32)"

definition strip_space :: "string \<Rightarrow> string" where
  "strip_space s = rev (dropWhile posix_space (rev (dropWhile posix_space s)))"

definition six_digits :: "string \<Rightarrow> bool" where
  "six_digits s \<longleftrightarrow> length s = 6 \<and> (\<forall>c\<in>set s. is_digit c)"

definition user_typed :: "user \<Rightarrow> bool" where
  "user_typed u \<longleftrightarrow> pg_varchar 255 (u_email u) \<and> pg_varchar 72 (u_passwordHash u) \<and>
     pg_varchar 120 (u_fullName u)"

definition resource_typed :: "resource \<Rightarrow> bool" where
  "resource_typed r \<longleftrightarrow>
     pg_varchar 30 (r_code r) \<and> pg_varchar 120 (r_name r) \<and> pg_varchar 120 (r_location r) \<and>
     (case r_description r of None \<Rightarrow> True | Some s \<Rightarrow> CHR 0x00 \<notin> set s) \<and>
     (\<forall>a\<in>set (r_amenities r). CHR 0x00 \<notin> set a) \<and>
     pg_time (r_opensAt r) \<and> pg_time (r_closesAt r)"

definition closure_typed :: "closure \<Rightarrow> bool" where
  "closure_typed c \<longleftrightarrow> pg_date (c_date c) \<and> pg_varchar 255 (c_reason c)"

definition booking_typed :: "booking \<Rightarrow> bool" where
  "booking_typed b \<longleftrightarrow>
     pg_date (b_date b) \<and> pg_time (b_startTime b) \<and> pg_time (b_endTime b) \<and>
     (case b_rejectionReason b of None \<Rightarrow> True | Some s \<Rightarrow> pg_varchar 500 s) \<and>
     (case b_checkInCode b of None \<Rightarrow> True | Some s \<Rightarrow> pg_varchar 6 s)"

section \<open>Check constraints\<close>

text \<open>The constraints of a table, in the order of their names, in which they are checked.\<close>

definition resource_checks :: "(string \<times> (resource \<Rightarrow> bool)) list" where
  "resource_checks =
     [(''CHK_resources_capacity_supported'', \<lambda>r. 1 \<le> r_capacity r \<and> r_capacity r \<le> 10000),
      (''CHK_resources_operating_days_not_empty'', \<lambda>r. 0 < length (r_operatingDays r)),
      (''CHK_resources_operating_days_range'', \<lambda>r. set (r_operatingDays r) \<subseteq> {0, 1, 2, 3, 4, 5, 6}),
      (''CHK_resources_operating_days_unique'',
        \<lambda>r. \<forall>d\<in>set [0, 1, 2, 3, 4, 5, 6]. count_list (r_operatingDays r) d \<le> 1),
      (''CHK_resources_operating_hours_order'', \<lambda>r. sql_time (r_opensAt r) < sql_time (r_closesAt r)),
      (''CHK_resources_operating_hours_supported_range'', \<lambda>r. sql_time (r_closesAt r) \<le> 82800),
      (''CHK_resources_operating_hours_whole_hour'',
        \<lambda>r. whole_hour (r_opensAt r) \<and> whole_hour (r_closesAt r))]"

definition closure_checks :: "(string \<times> (closure \<Rightarrow> bool)) list" where
  "closure_checks =
     [(''CHK_resource_closures_reason_length'', \<lambda>c. 2 \<le> length (strip_space (c_reason c)))]"

definition booking_start :: "booking \<Rightarrow> int" where
  "booking_start b = at_campus_zone (b_date b) (b_startTime b)"

definition booking_end :: "booking \<Rightarrow> int" where
  "booking_end b = at_campus_zone (b_date b) (b_endTime b)"

definition check_cancellation_state :: "booking \<Rightarrow> bool" where
  "check_cancellation_state b \<longleftrightarrow>
     (b_status b = CANCELLED \<and> b_cancelledAt b \<noteq> None) \<or>
     (b_status b \<noteq> CANCELLED \<and> b_cancelledAt b = None)"

definition check_pending_unreviewed :: "booking \<Rightarrow> bool" where
  "check_pending_unreviewed b \<longleftrightarrow> b_status b \<noteq> PENDING \<or> b_reviewedAt b = None"

definition check_review_pair :: "booking \<Rightarrow> bool" where
  "check_review_pair b \<longleftrightarrow>
     (b_reviewedAt b = None \<and> b_reviewedById b = None) \<or>
     (b_reviewedAt b \<noteq> None \<and> b_reviewedById b \<noteq> None)"

definition check_rejection_state :: "booking \<Rightarrow> bool" where
  "check_rejection_state b \<longleftrightarrow>
     (b_status b = REJECTED \<and> b_rejectionReason b \<noteq> None \<and> b_reviewedAt b \<noteq> None) \<or>
     (b_status b \<noteq> REJECTED \<and> b_rejectionReason b = None)"

definition check_rejection_reason_content :: "booking \<Rightarrow> bool" where
  "check_rejection_reason_content b \<longleftrightarrow>
     b_status b \<noteq> REJECTED \<or>
     (case b_rejectionReason b of
        None \<Rightarrow> True
      | Some s \<Rightarrow> 3 \<le> length (btrim s) \<and> length (btrim s) \<le> 500)"

definition check_check_in_request :: "booking \<Rightarrow> bool" where
  "check_check_in_request b \<longleftrightarrow>
     (b_checkInRequestedAt b = None \<and> b_checkInCode b = None) \<or>
     (b_checkInRequestedAt b \<noteq> None \<and>
       ((b_status b = CONFIRMED \<and>
           (case b_checkInCode b of None \<Rightarrow> True | Some c \<Rightarrow> six_digits c)) \<or>
        (b_status b \<in> {CHECKED_IN, COMPLETED, NO_SHOW} \<and> b_checkInCode b = None)))"

definition check_check_in_timeline :: "booking \<Rightarrow> bool" where
  "check_check_in_timeline b \<longleftrightarrow>
     (case b_checkInRequestedAt b of
        None \<Rightarrow> True
      | Some t \<Rightarrow> booking_start b - 900000 \<le> t \<and> t < booking_end b) \<and>
     (case b_checkedInAt b of
        None \<Rightarrow> True
      | Some t \<Rightarrow>
          (case b_checkInRequestedAt b of None \<Rightarrow> False | Some q \<Rightarrow> q \<le> t) \<and>
          booking_start b - 900000 \<le> t \<and> t < booking_end b) \<and>
     (case (b_checkedOutAt b, b_checkedInAt b) of
        (Some out, Some t) \<Rightarrow> t \<le> out
      | _ \<Rightarrow> True)"

definition check_no_show_timeline :: "booking \<Rightarrow> bool" where
  "check_no_show_timeline b \<longleftrightarrow>
     (case b_noShowAt b of None \<Rightarrow> True | Some t \<Rightarrow> booking_end b \<le> t)"

definition check_checked_in_state :: "booking \<Rightarrow> bool" where
  "check_checked_in_state b \<longleftrightarrow>
     (b_status b \<in> {CHECKED_IN, COMPLETED} \<and> b_checkInRequestedAt b \<noteq> None \<and>
        b_checkedInAt b \<noteq> None \<and> b_checkedInById b \<noteq> None) \<or>
     (b_status b \<notin> {CHECKED_IN, COMPLETED} \<and> b_checkedInAt b = None \<and> b_checkedInById b = None)"

definition check_checkout_state :: "booking \<Rightarrow> bool" where
  "check_checkout_state b \<longleftrightarrow>
     (b_status b = COMPLETED \<and> b_checkedOutAt b \<noteq> None \<and> b_checkedOutById b \<noteq> None) \<or>
     (b_status b \<noteq> COMPLETED \<and> b_checkedOutAt b = None \<and> b_checkedOutById b = None)"

definition check_no_show_state :: "booking \<Rightarrow> bool" where
  "check_no_show_state b \<longleftrightarrow>
     (b_status b = NO_SHOW \<and> b_noShowAt b \<noteq> None \<and> b_noShowById b \<noteq> None) \<or>
     (b_status b \<noteq> NO_SHOW \<and> b_noShowAt b = None \<and> b_noShowById b = None)"

definition booking_checks :: "(string \<times> (booking \<Rightarrow> bool)) list" where
  "booking_checks =
     [(''CHK_bookings_cancellation_state'', check_cancellation_state),
      (''CHK_bookings_check_in_request'', check_check_in_request),
      (''CHK_bookings_check_in_timeline'', check_check_in_timeline),
      (''CHK_bookings_checked_in_state'', check_checked_in_state),
      (''CHK_bookings_checkout_state'', check_checkout_state),
      (''CHK_bookings_no_show_state'', check_no_show_state),
      (''CHK_bookings_no_show_timeline'', check_no_show_timeline),
      (''CHK_bookings_pending_unreviewed'', check_pending_unreviewed),
      (''CHK_bookings_rejection_reason_content'', check_rejection_reason_content),
      (''CHK_bookings_rejection_state'', check_rejection_state),
      (''CHK_bookings_review_pair'', check_review_pair),
      (''CHK_bookings_supported_time_range'', \<lambda>b. sql_time (b_endTime b) \<le> 82800),
      (''CHK_bookings_time_order'', \<lambda>b. sql_time (b_startTime b) < sql_time (b_endTime b)),
      (''CHK_bookings_whole_hour'', \<lambda>b. whole_hour (b_startTime b) \<and> whole_hour (b_endTime b))]"

text \<open>The first constraint a row violates.\<close>

definition violated_check :: "(string \<times> ('r \<Rightarrow> bool)) list \<Rightarrow> 'r \<Rightarrow> string option" where
  "violated_check checks r = map_option fst (find (\<lambda>(name, holds). \<not> holds r) checks)"

section \<open>The exclusion constraint\<close>

text \<open>
  \<open>booking_period\<close> is the half-open range of the two local timestamps; the gist constraint
  excludes two blocking rows of one resource whose periods overlap.
\<close>

definition blocking :: "booking_status \<Rightarrow> bool" where
  "blocking s \<longleftrightarrow> s \<in> {PENDING, CONFIRMED, CHECKED_IN}"

definition booking_period :: "booking \<Rightarrow> int \<times> int" where
  "booking_period b =
     (let s = sql_date (b_date b) * 86400 + sql_time (b_startTime b);
          e = sql_date (b_date b) * 86400 + sql_time (b_endTime b)
      in (min s e, max s e))"

definition periods_overlap :: "int \<times> int \<Rightarrow> int \<times> int \<Rightarrow> bool" where
  "periods_overlap p q \<longleftrightarrow>
     fst p < snd p \<and> fst q < snd q \<and> fst p < snd q \<and> fst q < snd p"

definition booking_clash :: "booking \<Rightarrow> booking \<Rightarrow> bool" where
  "booking_clash a b \<longleftrightarrow>
     b_resourceId a = b_resourceId b \<and> blocking (b_status a) \<and> blocking (b_status b) \<and>
     periods_overlap (booking_period a) (booking_period b)"

lemma violated_check_None: "violated_check checks r = None \<longleftrightarrow> (\<forall>(n, p)\<in>set checks. p r)"
  by (auto simp: violated_check_def find_None_iff)

definition booking_rules :: "booking \<Rightarrow> bool" where
  "booking_rules b \<longleftrightarrow> violated_check booking_checks b = None"

lemma booking_rules_iff:
  "booking_rules b \<longleftrightarrow>
     check_cancellation_state b \<and> check_check_in_request b \<and> check_check_in_timeline b \<and>
     check_checked_in_state b \<and> check_checkout_state b \<and> check_no_show_state b \<and>
     check_no_show_timeline b \<and> check_pending_unreviewed b \<and> check_rejection_reason_content b \<and>
     check_rejection_state b \<and> check_review_pair b \<and> sql_time (b_endTime b) \<le> 82800 \<and>
     sql_time (b_startTime b) < sql_time (b_endTime b) \<and>
     whole_hour (b_startTime b) \<and> whole_hour (b_endTime b)"
  by (simp add: booking_rules_def violated_check_None booking_checks_def)

lemmas booking_check_defs =
  check_cancellation_state_def check_check_in_request_def check_check_in_timeline_def
  check_checked_in_state_def check_checkout_state_def check_no_show_state_def
  check_no_show_timeline_def check_pending_unreviewed_def check_rejection_reason_content_def
  check_rejection_state_def check_review_pair_def

lemma booking_clash_sym: "booking_clash a b \<longleftrightarrow> booking_clash b a"
  by (auto simp: booking_clash_def periods_overlap_def)

text \<open>On one date, for intervals in order, the exclusion is the overlap test of the services.\<close>

lemma periods_overlap_same_date:
  assumes "b_date a = b_date b" "sql_time (b_startTime a) < sql_time (b_endTime a)"
    "sql_time (b_startTime b) < sql_time (b_endTime b)"
  shows "periods_overlap (booking_period a) (booking_period b) \<longleftrightarrow>
    sql_time (b_startTime a) < sql_time (b_endTime b) \<and>
    sql_time (b_startTime b) < sql_time (b_endTime a)"
  using assms by (simp add: periods_overlap_def booking_period_def Let_def min_def max_def)

lemma pg_time_clock: "pg_time s \<Longrightarrow> clock_pattern (js_slice 0 5 s)"
  by (simp add: pg_time_def)

lemma pg_time_seconds:
  assumes "pg_time s"
  shows "js_number (drop 6 s) < 60"
proof (cases "drop 5 s")
  case Nil
  then have "drop 6 s = []" by simp
  then show ?thesis by (simp only: js_number_def) simp
next
  case (Cons c rest)
  with assms obtain a b where r: "drop 5 s = [c, a, b]" "10 * digit_val a + digit_val b < 60"
    by (auto simp: pg_time_def split: list.splits)
  have "drop 6 s = drop 1 (drop 5 s)" by simp
  then have "drop 6 s = [a, b]" unfolding r(1) by simp
  with r show ?thesis by simp
qed

lemma sql_time_bounds:
  assumes "pg_time s"
  shows "0 \<le> sql_time s" "sql_time s < 86400"
  using clock_minutes_bound [OF pg_time_clock [OF assms]] pg_time_seconds [OF assms]
  by (simp_all add: sql_time_def)

lemma periods_other_date:
  assumes "booking_typed a" "booking_typed b" "b_date a \<noteq> b_date b"
  shows "\<not> periods_overlap (booking_period a) (booking_period b)"
proof -
  have "sql_date (b_date a) \<noteq> sql_date (b_date b)"
    using assms sql_date_inj by (auto simp: booking_typed_def)
  then consider "sql_date (b_date a) + 1 \<le> sql_date (b_date b)"
    | "sql_date (b_date b) + 1 \<le> sql_date (b_date a)"
    by linarith
  moreover have "0 \<le> sql_time (b_startTime a)" "sql_time (b_startTime a) < 86400"
    "0 \<le> sql_time (b_endTime a)" "sql_time (b_endTime a) < 86400"
    "0 \<le> sql_time (b_startTime b)" "sql_time (b_startTime b) < 86400"
    "0 \<le> sql_time (b_endTime b)" "sql_time (b_endTime b) < 86400"
    using assms by (simp_all add: booking_typed_def sql_time_bounds)
  ultimately show ?thesis
    by cases (auto simp: periods_overlap_def booking_period_def Let_def min_def max_def)
qed

end
