(* ===== verification/Store.thy ===== *)
theory Store
  imports Entities
begin

text \<open>
  The database as the services see it: the rows of the five tables, the writes the repositories
  issue with the constraint errors they can raise, the errors and notifications of the
  services, and what an operation reads from outside (\<open>env\<close>). A transaction is one step: it
  either returns the new state or raises an error and leaves the state as it was. The locale
  \<open>checked_table\<close> is the contract of a table with constraints; the tables of the entities
  interpret it.
\<close>

section \<open>Errors, notifications, and the outside\<close>

datatype booking_error_code =
  INVALID_BOOKING_DATE | INVALID_BOOKING_RANGE | BOOKING_IN_PAST | RESOURCE_NOT_FOUND
| RESOURCE_UNAVAILABLE | BOOKING_OVERLAP | BOOKING_NOT_FOUND | BOOKING_NOT_CANCELLABLE
| BOOKING_NOT_PENDING | BOOKING_REVIEW_WINDOW_ENDED | CHECK_IN_NOT_AVAILABLE
| CHECK_IN_ALREADY_REQUESTED | INVALID_CHECK_IN_CODE | BOOKING_NOT_CHECKED_IN
| NO_SHOW_NOT_AVAILABLE

record conflict_summary =
  cs_id :: string
  cs_date :: string
  cs_startTime :: string
  cs_endTime :: string
  cs_status :: booking_status

text \<open>Every error a service lets out; \<open>QueryFailedError\<close> has the SQLSTATE and the constraint.\<close>

datatype app_error =
  BookingDomainError booking_error_code string
| QueryFailedError string string
| ResourceNotFoundError
| BuildingNotFoundError
| InvalidAvailabilityDateError
| InvalidAvailabilityRangeError
| InvalidOperatingHoursError
| ResourceClosureAlreadyExistsError
| ResourceCodeAlreadyExistsError
| ResourceHasActiveBookingsError string nat "conflict_summary list"
| EmailAlreadyExistsError
| UserNotFoundError
| SelfManagementNotAllowedError
| LastActiveAdminError

datatype event =
  AvailabilityChanged string string
| ResourceChanged string
| UserDeactivated string

text \<open>
  What an operation gets from outside: the campus clock when the service reads it, the clock
  when the controller reads it afterwards, the database clock, the identifier the database
  generates, and \<open>randomInt(0, 1000000)\<close>.
\<close>

record env =
  clock :: int
  clock_after :: int
  db_now :: int
  fresh_id :: string
  random_int :: nat

record db =
  users :: "user list"
  buildings :: "building list"
  resources :: "resource list"
  closures :: "closure list"
  bookings :: "booking list"

text \<open>A \<open>uuid\<close> parameter: the column type folds letter case, its texts are lower case.\<close>

definition sql_uuid :: "string \<Rightarrow> string" where
  "sql_uuid s = js_lower s"

section \<open>Writing a table\<close>

definition insert_row :: "('r \<Rightarrow> 'r list \<Rightarrow> 'e option) \<Rightarrow> 'r \<Rightarrow> 'r list \<Rightarrow> ('e, 'r list) outcome" where
  "insert_row viol r rows = (case viol r rows of Some e \<Rightarrow> Inl e | None \<Rightarrow> Inr (rows @ [r]))"

text \<open>An \<open>UPDATE\<close> by key: no row, no effect; else the new row is checked against the others.\<close>

definition update_row ::
  "('r \<Rightarrow> 'r list \<Rightarrow> 'e option) \<Rightarrow> ('r \<Rightarrow> 'k) \<Rightarrow> 'k \<Rightarrow> ('r \<Rightarrow> 'r) \<Rightarrow> 'r list \<Rightarrow> ('e, 'r list) outcome" where
  "update_row viol key k f rows =
     (case row_at key k rows of
        None \<Rightarrow> Inr rows
      | Some r \<Rightarrow>
          (case viol (f r) (filter (\<lambda>x. key x \<noteq> k) rows) of
             Some e \<Rightarrow> Inl e
           | None \<Rightarrow> Inr (patch_row key k f rows)))"

definition table_inv :: "('r \<Rightarrow> 'k) \<Rightarrow> ('r \<Rightarrow> bool) \<Rightarrow> ('r \<Rightarrow> 'r \<Rightarrow> bool) \<Rightarrow> 'r list \<Rightarrow> bool" where
  "table_inv key ok clash rows \<longleftrightarrow>
     distinct (map key rows) \<and> (\<forall>r\<in>set rows. ok r) \<and>
     (\<forall>r\<in>set rows. \<forall>s\<in>set rows. key r \<noteq> key s \<longrightarrow> \<not> clash r s)"

lemma table_inv_Nil [simp]: "table_inv key ok clash []"
  by (simp add: table_inv_def)

lemma table_inv_distinct: "table_inv key ok clash rows \<Longrightarrow> distinct (map key rows)"
  by (simp add: table_inv_def)

lemma table_inv_ok: "table_inv key ok clash rows \<Longrightarrow> r \<in> set rows \<Longrightarrow> ok r"
  by (simp add: table_inv_def)

lemma table_inv_row_at: "table_inv key ok clash rows \<Longrightarrow> row_at key k rows = Some r \<Longrightarrow> ok r"
  by (auto dest: row_at_SomeD table_inv_ok)

locale checked_table =
  fixes key :: "'r \<Rightarrow> 'k"
    and ok :: "'r \<Rightarrow> bool"
    and clash :: "'r \<Rightarrow> 'r \<Rightarrow> bool"
    and viol :: "'r \<Rightarrow> 'r list \<Rightarrow> 'e option"
  assumes accepted:
    "viol r others = None \<Longrightarrow> ok r \<and> key r \<notin> key ` set others \<and> (\<forall>x\<in>set others. \<not> clash r x)"
    and clash_sym: "clash r x \<longleftrightarrow> clash x r"
begin

lemma insert_keeps:
  assumes "table_inv key ok clash rows" "insert_row viol r rows = Inr rows'"
  shows "table_inv key ok clash rows'" "rows' = rows @ [r]"
proof -
  have v: "viol r rows = None" and rows': "rows' = rows @ [r]"
    using assms(2) by (auto simp: insert_row_def split: option.splits)
  show "rows' = rows @ [r]" by (rule rows')
  show "table_inv key ok clash rows'"
    using assms(1) accepted [OF v] clash_sym by (auto simp: table_inv_def rows')
qed

lemma update_keeps:
  assumes "table_inv key ok clash rows" "update_row viol key k f rows = Inr rows'"
    and same: "\<And>r. key (f r) = key r"
  shows "table_inv key ok clash rows'" "rows' = patch_row key k f rows"
proof -
  have "table_inv key ok clash rows' \<and> rows' = patch_row key k f rows"
  proof (cases "row_at key k rows")
    case None
    then have "rows' = rows" using assms(2) by (simp add: update_row_def)
    moreover have "\<forall>r\<in>set rows. key r \<noteq> k" using None by (auto simp: row_at_None)
    ultimately have "rows' = rows" "\<forall>r\<in>set rows. key r \<noteq> k" by simp_all
    then have "rows' = patch_row key k f rows"
      by (auto simp: patch_row_def intro!: map_idI [symmetric])
    with \<open>rows' = rows\<close> assms(1) show ?thesis by simp
  next
    case (Some r)
    then have v: "viol (f r) (filter (\<lambda>x. key x \<noteq> k) rows) = None"
      and rows': "rows' = patch_row key k f rows"
      using assms(2) by (auto simp: update_row_def split: option.splits)
    have r: "r \<in> set rows" "key r = k" using Some by (auto dest: row_at_SomeD)
    have only: "x = r" if "x \<in> set rows" "key x = k" for x
      using that r table_inv_distinct [OF assms(1)] by (metis row_at_mem option.inject)
    have mem: "x \<in> set rows' \<Longrightarrow> x = f r \<or> x \<in> set rows \<and> key x \<noteq> k" for x
      using only unfolding rows' set_patch_row by (metis (full_types))
    have "distinct (map key rows')"
      using assms(1) by (simp add: rows' table_inv_def patch_row_keys [of key f, OF same])
    moreover have "\<forall>x\<in>set rows'. ok x"
      using mem accepted [OF v] assms(1) by (auto simp: table_inv_def)
    moreover have "\<not> clash x y" if "x \<in> set rows'" "y \<in> set rows'" "key x \<noteq> key y" for x y
      using mem [OF that(1)] mem [OF that(2)] that(3) accepted [OF v] assms(1) clash_sym
      by (auto simp: table_inv_def)
    ultimately show ?thesis by (simp add: table_inv_def rows')
  qed
  then show "table_inv key ok clash rows'" "rows' = patch_row key k f rows" by blast+
qed

lemma update_accepts:
  assumes "row_at key k rows = Some r" "viol (f r) (filter (\<lambda>x. key x \<noteq> k) rows) = None"
  shows "update_row viol key k f rows = Inr (patch_row key k f rows)"
  using assms by (simp add: update_row_def)

end

lemma table_inv_filter: "table_inv key ok clash rows \<Longrightarrow> table_inv key ok clash (filter P rows)"
  by (auto simp: table_inv_def distinct_map_filter)

section \<open>The constraints of the tables\<close>

definition ids :: "('r \<Rightarrow> string) \<Rightarrow> 'r list \<Rightarrow> string set" where
  "ids key rows = key ` set rows"

definition user_violation :: "user \<Rightarrow> user list \<Rightarrow> app_error option" where
  "user_violation u others =
     (if \<not> user_typed u then Some (QueryFailedError ''22001'' '''')
      else if u_id u \<in> ids u_id others then Some (QueryFailedError ''23505'' ''PK_users_id'')
      else if u_email u \<in> u_email ` set others then Some (QueryFailedError ''23505'' ''IDX_users_email'')
      else None)"

definition resource_violation :: "db \<Rightarrow> resource \<Rightarrow> resource list \<Rightarrow> app_error option" where
  "resource_violation d r others =
     (if \<not> resource_typed r then Some (QueryFailedError ''22001'' '''')
      else case violated_check resource_checks r of
        Some name \<Rightarrow> Some (QueryFailedError ''23514'' name)
      | None \<Rightarrow>
          if r_id r \<in> ids r_id others then Some (QueryFailedError ''23505'' ''PK_resources_id'')
          else if r_code r \<in> r_code ` set others then Some (QueryFailedError ''23505'' ''IDX_resources_code'')
          else if r_buildingId r \<notin> ids bl_id (buildings d)
            then Some (QueryFailedError ''23503'' ''FK_resources_building_id'')
          else None)"

definition closure_clash :: "closure \<Rightarrow> closure \<Rightarrow> bool" where
  "closure_clash a b \<longleftrightarrow> c_resourceId a = c_resourceId b \<and> c_date a = c_date b"

definition closure_violation :: "db \<Rightarrow> closure \<Rightarrow> closure list \<Rightarrow> app_error option" where
  "closure_violation d c others =
     (if \<not> closure_typed c then Some (QueryFailedError ''22001'' '''')
      else case violated_check closure_checks c of
        Some name \<Rightarrow> Some (QueryFailedError ''23514'' name)
      | None \<Rightarrow>
          if c_id c \<in> ids c_id others then Some (QueryFailedError ''23505'' ''PK_resource_closures_id'')
          else if \<exists>x\<in>set others. closure_clash c x
            then Some (QueryFailedError ''23505'' ''IDX_resource_closures_resource_date'')
          else if c_resourceId c \<notin> ids r_id (resources d)
            then Some (QueryFailedError ''23503'' ''FK_resource_closures_resource_id'')
          else None)"

definition null_or_in :: "string option \<Rightarrow> string set \<Rightarrow> bool" where
  "null_or_in k S \<longleftrightarrow> (case k of None \<Rightarrow> True | Some x \<Rightarrow> x \<in> S)"

definition booking_violation :: "db \<Rightarrow> booking \<Rightarrow> booking list \<Rightarrow> app_error option" where
  "booking_violation d b others =
     (let us = ids u_id (users d) in
      if \<not> booking_typed b then Some (QueryFailedError ''22001'' '''')
      else case violated_check booking_checks b of
        Some name \<Rightarrow> Some (QueryFailedError ''23514'' name)
      | None \<Rightarrow>
          if b_id b \<in> ids b_id others then Some (QueryFailedError ''23505'' ''PK_bookings_id'')
          else if \<exists>x\<in>set others. booking_clash b x
            then Some (QueryFailedError ''23P01'' ''EXCL_bookings_resource_period_blocking'')
          else if b_resourceId b \<notin> ids r_id (resources d)
            then Some (QueryFailedError ''23503'' ''FK_bookings_resource_id'')
          else if b_requesterId b \<notin> us
            then Some (QueryFailedError ''23503'' ''FK_bookings_requester_id'')
          else if \<not> null_or_in (b_reviewedById b) us
            then Some (QueryFailedError ''23503'' ''FK_bookings_reviewed_by_id'')
          else if \<not> null_or_in (b_checkedInById b) us
            then Some (QueryFailedError ''23503'' ''FK_bookings_checked_in_by_id'')
          else if \<not> null_or_in (b_checkedOutById b) us
            then Some (QueryFailedError ''23503'' ''FK_bookings_checked_out_by_id'')
          else if \<not> null_or_in (b_noShowById b) us
            then Some (QueryFailedError ''23503'' ''FK_bookings_no_show_by_id'')
          else None)"

section \<open>What the constraints guarantee of a row\<close>

definition resource_rules :: "resource \<Rightarrow> bool" where
  "resource_rules r \<longleftrightarrow> violated_check resource_checks r = None"

definition booking_users_known :: "db \<Rightarrow> booking \<Rightarrow> bool" where
  "booking_users_known d b \<longleftrightarrow>
     (let us = ids u_id (users d) in
      b_requesterId b \<in> us \<and> null_or_in (b_reviewedById b) us \<and> null_or_in (b_checkedInById b) us \<and>
      null_or_in (b_checkedOutById b) us \<and> null_or_in (b_noShowById b) us)"

definition user_ok :: "user \<Rightarrow> bool" where
  "user_ok u \<longleftrightarrow> user_typed u"

definition user_clash :: "user \<Rightarrow> user \<Rightarrow> bool" where
  "user_clash a b \<longleftrightarrow> u_email a = u_email b"

definition resource_ok :: "db \<Rightarrow> resource \<Rightarrow> bool" where
  "resource_ok d r \<longleftrightarrow> resource_typed r \<and> resource_rules r \<and> r_buildingId r \<in> ids bl_id (buildings d)"

definition resource_clash :: "resource \<Rightarrow> resource \<Rightarrow> bool" where
  "resource_clash a b \<longleftrightarrow> r_code a = r_code b"

definition closure_ok :: "db \<Rightarrow> closure \<Rightarrow> bool" where
  "closure_ok d c \<longleftrightarrow> closure_typed c \<and> violated_check closure_checks c = None \<and>
     c_resourceId c \<in> ids r_id (resources d)"

definition booking_ok :: "db \<Rightarrow> booking \<Rightarrow> bool" where
  "booking_ok d b \<longleftrightarrow> booking_typed b \<and> booking_rules b \<and>
     b_resourceId b \<in> ids r_id (resources d) \<and> booking_users_known d b"

interpretation user_table: checked_table u_id user_ok user_clash user_violation
  by unfold_locales
    (auto simp: user_violation_def user_ok_def user_clash_def ids_def split: if_splits)

interpretation resource_table: checked_table r_id "resource_ok d" resource_clash "resource_violation d"
  for d
  by unfold_locales
    (auto simp: resource_violation_def resource_ok_def resource_clash_def resource_rules_def ids_def
      split: if_splits option.splits)

interpretation closure_table: checked_table c_id "closure_ok d" closure_clash "closure_violation d"
  for d
  by unfold_locales
    (auto simp: closure_violation_def closure_ok_def closure_clash_def ids_def
      split: if_splits option.splits)

lemma booking_violation_None:
  "booking_violation d b others = None \<longleftrightarrow>
     booking_ok d b \<and> b_id b \<notin> b_id ` set others \<and> (\<forall>x\<in>set others. \<not> booking_clash b x)"
  by (auto simp: booking_violation_def booking_ok_def booking_users_known_def booking_rules_def Let_def
      ids_def split: option.splits)

interpretation booking_table: checked_table b_id "booking_ok d" booking_clash "booking_violation d"
  for d
  by unfold_locales (simp_all add: booking_violation_None booking_clash_sym)

text \<open>The database satisfies its constraints.\<close>

definition db_ok :: "db \<Rightarrow> bool" where
  "db_ok d \<longleftrightarrow>
     table_inv u_id user_ok user_clash (users d) \<and>
     table_inv r_id (resource_ok d) resource_clash (resources d) \<and>
     table_inv c_id (closure_ok d) closure_clash (closures d) \<and>
     table_inv b_id (booking_ok d) booking_clash (bookings d)"

section \<open>The writes of the repositories\<close>

text \<open>Every write replaces one table; the columns are stored as the database prints them.\<close>

definition resource_columns :: "resource \<Rightarrow> resource" where
  "resource_columns r = r\<lparr>r_opensAt := time_text (r_opensAt r), r_closesAt := time_text (r_closesAt r)\<rparr>"

definition booking_columns :: "booking \<Rightarrow> booking" where
  "booking_columns b = b\<lparr>b_startTime := time_text (b_startTime b), b_endTime := time_text (b_endTime b)\<rparr>"

definition insert_user :: "user \<Rightarrow> db \<Rightarrow> (app_error, db) outcome" where
  "insert_user u d =
     map_sum id (\<lambda>rows. d\<lparr>users := rows\<rparr>) (insert_row user_violation u (users d))"

definition update_user :: "string \<Rightarrow> (user \<Rightarrow> user) \<Rightarrow> db \<Rightarrow> (app_error, db) outcome" where
  "update_user k f d =
     map_sum id (\<lambda>rows. d\<lparr>users := rows\<rparr>) (update_row user_violation u_id k f (users d))"

definition insert_resource :: "resource \<Rightarrow> db \<Rightarrow> (app_error, db) outcome" where
  "insert_resource r d =
     map_sum id (\<lambda>rows. d\<lparr>resources := rows\<rparr>)
       (insert_row (resource_violation d) (resource_columns r) (resources d))"

definition update_resource :: "string \<Rightarrow> (resource \<Rightarrow> resource) \<Rightarrow> db \<Rightarrow> (app_error, db) outcome" where
  "update_resource k f d =
     map_sum id (\<lambda>rows. d\<lparr>resources := rows\<rparr>)
       (update_row (resource_violation d) r_id k (\<lambda>r. resource_columns (f r)) (resources d))"

definition insert_closure :: "closure \<Rightarrow> db \<Rightarrow> (app_error, db) outcome" where
  "insert_closure c d =
     map_sum id (\<lambda>rows. d\<lparr>closures := rows\<rparr>) (insert_row (closure_violation d) c (closures d))"

definition delete_closures :: "(closure \<Rightarrow> bool) \<Rightarrow> db \<Rightarrow> db" where
  "delete_closures P d = d\<lparr>closures := filter (\<lambda>c. \<not> P c) (closures d)\<rparr>"

definition insert_booking :: "booking \<Rightarrow> db \<Rightarrow> (app_error, db) outcome" where
  "insert_booking b d =
     map_sum id (\<lambda>rows. d\<lparr>bookings := rows\<rparr>)
       (insert_row (booking_violation d) (booking_columns b) (bookings d))"

definition update_booking :: "string \<Rightarrow> (booking \<Rightarrow> booking) \<Rightarrow> db \<Rightarrow> (app_error, db) outcome" where
  "update_booking k f d =
     map_sum id (\<lambda>rows. d\<lparr>bookings := rows\<rparr>)
       (update_row (booking_violation d) b_id k f (bookings d))"

section \<open>The writes keep the constraints\<close>

lemma map_sum_Inr_iff: "map_sum id g r = Inr y \<longleftrightarrow> (\<exists>x. r = Inr x \<and> y = g x)"
  by (cases r) auto

lemma map_sum_Inl_iff: "map_sum id g r = Inl e \<longleftrightarrow> r = Inl e"
  by (cases r) auto

text \<open>A row stays acceptable when the tables it refers to only grow.\<close>

lemma null_or_in_mono: "null_or_in k A \<Longrightarrow> A \<subseteq> B \<Longrightarrow> null_or_in k B"
  by (auto simp: null_or_in_def split: option.splits)

definition grows :: "db \<Rightarrow> db \<Rightarrow> bool" where
  "grows d d' \<longleftrightarrow>
     ids u_id (users d) \<subseteq> ids u_id (users d') \<and> ids r_id (resources d) \<subseteq> ids r_id (resources d') \<and>
     ids bl_id (buildings d) \<subseteq> ids bl_id (buildings d')"

lemma resource_ok_grows: "grows d d' \<Longrightarrow> resource_ok d r \<Longrightarrow> resource_ok d' r"
  by (auto simp: grows_def resource_ok_def)

lemma closure_ok_grows: "grows d d' \<Longrightarrow> closure_ok d c \<Longrightarrow> closure_ok d' c"
  by (auto simp: grows_def closure_ok_def)

lemma booking_ok_grows: "grows d d' \<Longrightarrow> booking_ok d b \<Longrightarrow> booking_ok d' b"
  unfolding grows_def booking_ok_def booking_users_known_def Let_def
  by (blast intro: null_or_in_mono)

lemma table_inv_mono:
  "table_inv key ok clash rows \<Longrightarrow> (\<And>r. ok r \<Longrightarrow> ok' r) \<Longrightarrow> table_inv key ok' clash rows"
  by (auto simp: table_inv_def)

lemma db_ok_grows:
  assumes "db_ok d" "grows d d'" "table_inv u_id user_ok user_clash (users d')"
    "table_inv r_id (resource_ok d') resource_clash (resources d')
      \<or> resources d' = resources d"
    "table_inv c_id (closure_ok d') closure_clash (closures d') \<or> closures d' = closures d"
    "table_inv b_id (booking_ok d') booking_clash (bookings d') \<or> bookings d' = bookings d"
  shows "db_ok d'"
  using assms unfolding db_ok_def
  by (auto intro: table_inv_mono [OF _ resource_ok_grows] table_inv_mono [OF _ closure_ok_grows]
      table_inv_mono [OF _ booking_ok_grows])

lemma ids_append: "ids key rows \<subseteq> ids key (rows @ [r])"
  by (auto simp: ids_def)

lemma ids_patch: "(\<And>r. key (f r) = key r) \<Longrightarrow> ids key (patch_row key k f rows) = ids key rows"
  unfolding ids_def using patch_row_keys [of key f k rows] by (metis list.set_map)

lemma insert_user_keeps:
  assumes "db_ok d" "insert_user u d = Inr d'"
  shows "db_ok d'" "d' = d\<lparr>users := users d @ [u]\<rparr>" "user_violation u (users d) = None"
proof -
  obtain rows where r: "insert_row user_violation u (users d) = Inr rows" "d' = d\<lparr>users := rows\<rparr>"
    using assms(2) by (auto simp: insert_user_def map_sum_Inr_iff)
  note k = user_table.insert_keeps [OF _ r(1)]
  have inv: "table_inv u_id user_ok user_clash (users d)" using assms(1) by (simp add: db_ok_def)
  show e: "d' = d\<lparr>users := users d @ [u]\<rparr>" using k(2) [OF inv] r(2) by simp
  have "grows d d'" by (simp add: e grows_def ids_append)
  then show "db_ok d'" using k(1) [OF inv] r(2) by (intro db_ok_grows [OF assms(1)]) simp_all
  show "user_violation u (users d) = None"
    using r(1) by (simp add: insert_row_def split: option.splits)
qed

lemma update_user_keeps:
  assumes "db_ok d" "update_user k f d = Inr d'" "\<And>u. u_id (f u) = u_id u"
  shows "db_ok d'" "d' = d\<lparr>users := patch_row u_id k f (users d)\<rparr>"
proof -
  obtain rows where r: "update_row user_violation u_id k f (users d) = Inr rows" "d' = d\<lparr>users := rows\<rparr>"
    using assms(2) by (auto simp: update_user_def map_sum_Inr_iff)
  have inv: "table_inv u_id user_ok user_clash (users d)" using assms(1) by (simp add: db_ok_def)
  note k = user_table.update_keeps [OF inv r(1) assms(3)]
  show e: "d' = d\<lparr>users := patch_row u_id k f (users d)\<rparr>" using k(2) r(2) by simp
  have "grows d d'" by (simp add: e grows_def ids_patch assms(3))
  then show "db_ok d'" using k(1) r(2) by (intro db_ok_grows [OF assms(1)]) simp_all
qed

lemma insert_resource_keeps:
  assumes "db_ok d" "insert_resource r d = Inr d'"
  shows "db_ok d'" "d' = d\<lparr>resources := resources d @ [resource_columns r]\<rparr>"
proof -
  obtain rows where r: "insert_row (resource_violation d) (resource_columns r) (resources d) = Inr rows"
    "d' = d\<lparr>resources := rows\<rparr>"
    using assms(2) by (auto simp: insert_resource_def map_sum_Inr_iff)
  have inv: "table_inv r_id (resource_ok d) resource_clash (resources d)"
    using assms(1) by (simp add: db_ok_def)
  note k = resource_table.insert_keeps [OF inv r(1)]
  show e: "d' = d\<lparr>resources := resources d @ [resource_columns r]\<rparr>" using k(2) r(2) by simp
  have g: "grows d d'" by (simp add: e grows_def ids_append)
  then have "table_inv r_id (resource_ok d') resource_clash (resources d')"
    using k(1) r(2) by (auto intro: table_inv_mono [OF _ resource_ok_grows])
  with g assms(1) r(2) show "db_ok d'"
    by (intro db_ok_grows [OF assms(1)]) (simp_all add: db_ok_def)
qed

lemma update_resource_keeps:
  assumes "db_ok d" "update_resource k f d = Inr d'" "\<And>r. r_id (f r) = r_id r"
  shows "db_ok d'" "d' = d\<lparr>resources := patch_row r_id k (\<lambda>r. resource_columns (f r)) (resources d)\<rparr>"
proof -
  obtain rows where r: "update_row (resource_violation d) r_id k (\<lambda>r. resource_columns (f r)) (resources d) = Inr rows"
    "d' = d\<lparr>resources := rows\<rparr>"
    using assms(2) by (auto simp: update_resource_def map_sum_Inr_iff)
  have inv: "table_inv r_id (resource_ok d) resource_clash (resources d)"
    using assms(1) by (simp add: db_ok_def)
  have key: "r_id (resource_columns (f r)) = r_id r" for r
    by (simp add: resource_columns_def assms(3))
  note k = resource_table.update_keeps [OF inv r(1) key]
  show e: "d' = d\<lparr>resources := patch_row r_id k (\<lambda>r. resource_columns (f r)) (resources d)\<rparr>"
    using k(2) r(2) by simp
  have g: "grows d d'" by (simp add: e grows_def ids_patch key)
  then have "table_inv r_id (resource_ok d') resource_clash (resources d')"
    using k(1) r(2) by (auto intro: table_inv_mono [OF _ resource_ok_grows])
  with g assms(1) r(2) show "db_ok d'"
    by (intro db_ok_grows [OF assms(1)]) (simp_all add: db_ok_def)
qed

lemma insert_closure_keeps:
  assumes "db_ok d" "insert_closure c d = Inr d'"
  shows "db_ok d'" "d' = d\<lparr>closures := closures d @ [c]\<rparr>"
proof -
  obtain rows where r: "insert_row (closure_violation d) c (closures d) = Inr rows"
    "d' = d\<lparr>closures := rows\<rparr>"
    using assms(2) by (auto simp: insert_closure_def map_sum_Inr_iff)
  have inv: "table_inv c_id (closure_ok d) closure_clash (closures d)"
    using assms(1) by (simp add: db_ok_def)
  note k = closure_table.insert_keeps [OF inv r(1)]
  show e: "d' = d\<lparr>closures := closures d @ [c]\<rparr>" using k(2) r(2) by simp
  have g: "grows d d'" by (simp add: e grows_def)
  then have "table_inv c_id (closure_ok d') closure_clash (closures d')"
    using k(1) r(2) by (auto intro: table_inv_mono [OF _ closure_ok_grows])
  with g assms(1) r(2) show "db_ok d'"
    by (intro db_ok_grows [OF assms(1)]) (simp_all add: db_ok_def)
qed

lemma delete_closures_keeps: "db_ok d \<Longrightarrow> db_ok (delete_closures P d)"
proof -
  assume d: "db_ok d"
  let ?d = "delete_closures P d"
  have g: "grows d ?d" by (simp add: delete_closures_def grows_def)
  have "table_inv c_id (closure_ok d) closure_clash (closures ?d)"
    using d by (simp add: db_ok_def delete_closures_def table_inv_filter)
  then have "table_inv c_id (closure_ok ?d) closure_clash (closures ?d)"
    using g by (auto intro: table_inv_mono [OF _ closure_ok_grows])
  with d g show ?thesis
    by (intro db_ok_grows [OF d]) (simp_all add: db_ok_def delete_closures_def)
qed

lemma insert_booking_keeps:
  assumes "db_ok d" "insert_booking b d = Inr d'"
  shows "db_ok d'" "d' = d\<lparr>bookings := bookings d @ [booking_columns b]\<rparr>"
proof -
  obtain rows where r: "insert_row (booking_violation d) (booking_columns b) (bookings d) = Inr rows"
    "d' = d\<lparr>bookings := rows\<rparr>"
    using assms(2) by (auto simp: insert_booking_def map_sum_Inr_iff)
  have inv: "table_inv b_id (booking_ok d) booking_clash (bookings d)"
    using assms(1) by (simp add: db_ok_def)
  note k = booking_table.insert_keeps [OF inv r(1)]
  show e: "d' = d\<lparr>bookings := bookings d @ [booking_columns b]\<rparr>" using k(2) r(2) by simp
  have g: "grows d d'" by (simp add: e grows_def)
  then have "table_inv b_id (booking_ok d') booking_clash (bookings d')"
    using k(1) r(2) by (auto intro: table_inv_mono [OF _ booking_ok_grows])
  with g assms(1) r(2) show "db_ok d'"
    by (intro db_ok_grows [OF assms(1)]) (simp_all add: db_ok_def)
qed

lemma update_booking_keeps:
  assumes "db_ok d" "update_booking k f d = Inr d'" "\<And>b. b_id (f b) = b_id b"
  shows "db_ok d'" "d' = d\<lparr>bookings := patch_row b_id k f (bookings d)\<rparr>"
proof -
  obtain rows where r: "update_row (booking_violation d) b_id k f (bookings d) = Inr rows"
    "d' = d\<lparr>bookings := rows\<rparr>"
    using assms(2) by (auto simp: update_booking_def map_sum_Inr_iff)
  have inv: "table_inv b_id (booking_ok d) booking_clash (bookings d)"
    using assms(1) by (simp add: db_ok_def)
  note k = booking_table.update_keeps [OF inv r(1) assms(3)]
  show e: "d' = d\<lparr>bookings := patch_row b_id k f (bookings d)\<rparr>" using k(2) r(2) by simp
  have g: "grows d d'" by (simp add: e grows_def)
  then have "table_inv b_id (booking_ok d') booking_clash (bookings d')"
    using k(1) r(2) by (auto intro: table_inv_mono [OF _ booking_ok_grows])
  with g assms(1) r(2) show "db_ok d'"
    by (intro db_ok_grows [OF assms(1)]) (simp_all add: db_ok_def)
qed

end
