(* ===== verification/Availability.thy ===== *)
theory Availability
  imports Store
begin

text \<open>
  The availability view of a resource on a date
  (resources/dto/resource-availability-response.dto.ts): why nothing can be booked, or the
  free hours between opening and closing.
\<close>

definition CAMPUS_TIME_ZONE :: string where
  "CAMPUS_TIME_ZONE = ''Asia/Ho_Chi_Minh''"

datatype blocked_reason = BLOCKED_MAINTENANCE | BLOCKED_INACTIVE | BLOCKED_CLOSURE | BLOCKED_CLOSED_DAY

record slot =
  s_startTime :: string
  s_endTime :: string

record availability_response =
  av_resourceId :: string
  av_date :: string
  av_timeZone :: string
  av_status :: resource_status
  av_operatingDays :: "int list"
  av_opensAt :: string
  av_closesAt :: string
  av_blockedReason :: "blocked_reason option"
  av_closureReason :: "string option"
  av_requiresApproval :: bool
  av_slots :: "slot list"

definition normalizeTime :: "string \<Rightarrow> string" where
  "normalizeTime s = js_slice 0 5 s"

text \<open>\<open>`${String(hour).padStart(2, '0')}:00`\<close>\<close>

definition hour_text :: "nat \<Rightarrow> string" where
  "hour_text h = pad_start 2 CHR ''0'' (js_string h) @ '':00''"

definition hourlySlots :: "string \<Rightarrow> string \<Rightarrow> slot list" where
  "hourlySlots opensAt closesAt =
     map (\<lambda>hour. \<lparr>s_startTime = hour_text hour, s_endTime = hour_text (hour + 1)\<rparr>)
       [js_number (js_slice 0 2 opensAt)..<js_number (js_slice 0 2 closesAt)]"

definition blockedReason :: "resource \<Rightarrow> string \<Rightarrow> closure option \<Rightarrow> blocked_reason option" where
  "blockedReason r date cl =
     (if r_status r = MAINTENANCE then Some BLOCKED_MAINTENANCE
      else if r_status r = INACTIVE then Some BLOCKED_INACTIVE
      else if cl \<noteq> None then Some BLOCKED_CLOSURE
      else if dayOfWeekFor date \<notin> set (r_operatingDays r) then Some BLOCKED_CLOSED_DAY
      else None)"

definition slot_free :: "string \<Rightarrow> booking list \<Rightarrow> int \<Rightarrow> slot \<Rightarrow> bool" where
  "slot_free date bs now s \<longleftrightarrow>
     isFutureCampusTime date (s_startTime s) now \<and>
     \<not> (\<exists>b\<in>set bs. normalizeTime (b_startTime b) < s_endTime s \<and>
                   normalizeTime (b_endTime b) > s_startTime s)"

definition availability_fromResource ::
  "resource \<Rightarrow> string \<Rightarrow> closure option \<Rightarrow> booking list \<Rightarrow> int \<Rightarrow> availability_response" where
  "availability_fromResource r date cl bs now =
     (let reason = blockedReason r date cl in
      \<lparr>av_resourceId = r_id r,
       av_date = date,
       av_timeZone = CAMPUS_TIME_ZONE,
       av_status = r_status r,
       av_operatingDays = r_operatingDays r,
       av_opensAt = normalizeTime (r_opensAt r),
       av_closesAt = normalizeTime (r_closesAt r),
       av_blockedReason = reason,
       av_closureReason = (if reason = Some BLOCKED_CLOSURE then map_option c_reason cl else None),
       av_requiresApproval = r_requiresApproval r,
       av_slots = (if reason = None
         then filter (slot_free date bs now) (hourlySlots (r_opensAt r) (r_closesAt r))
         else [])\<rparr>)"

section \<open>The hours of a slot\<close>

lemma hour_text_chars:
  assumes "h < 24"
  obtains a b where "hour_text h = [a, b, CHR '':'', CHR ''0'', CHR ''0'']" "is_digit a" "is_digit b"
    "10 * digit_val a + digit_val b = h"
proof -
  from assms have "h < 100" "h div 10 < 10" "h mod 10 < 10" by simp_all
  then show ?thesis
    by (intro that [of "digit_char (h div 10)" "digit_char (h mod 10)"])
      (simp_all add: hour_text_def pad2)
qed

lemma hour_text_pattern: "h < 24 \<Longrightarrow> hour_pattern (hour_text h)"
  by (rule hour_text_chars [of h]) simp_all

lemma clock_minutes_hour: "h < 24 \<Longrightarrow> clock_minutes (hour_text h) = 60 * h"
  by (erule hour_text_chars) (auto simp: clock_minutes_def js_slice_def digit_val_def)

lemma hour_text_inj: "h < 24 \<Longrightarrow> k < 24 \<Longrightarrow> hour_text h = hour_text k \<Longrightarrow> h = k"
proof -
  assume "h < 24" "k < 24" "hour_text h = hour_text k"
  then have "60 * h = 60 * k" using clock_minutes_hour by metis
  then show "h = k" by simp
qed

lemma hour_pattern_text:
  assumes "hour_pattern s"
  obtains h where "h < 24" "s = hour_text h"
proof -
  obtain a b where s: "s = [a, b, CHR '':'', CHR ''0'', CHR ''0'']" "is_digit a" "is_digit b"
    "10 * digit_val a + digit_val b < 24"
    using assms by (auto elim!: hour_patternE)
  have "digit_val b < 10" using s by (simp add: digit_val_less)
  then have "(10 * digit_val a + digit_val b) div 10 = digit_val a"
    "(10 * digit_val a + digit_val b) mod 10 = digit_val b" by simp_all
  with s show ?thesis
    by (intro that [of "10 * digit_val a + digit_val b"]) (simp_all add: hour_text_def pad2)
qed

text \<open>A whole-hour time column is \<open>HH:00:00\<close>.\<close>

lemma whole_hour_text:
  assumes "pg_time s" "whole_hour s"
  obtains h where "h < 24" "js_slice 0 5 s = hour_text h" "sql_time s = 3600 * int h"
    "js_number (js_slice 0 2 s) = h"
proof -
  have c: "clock_pattern (js_slice 0 5 s)" by (rule pg_time_clock [OF assms(1)])
  obtain a b m n where s5: "js_slice 0 5 s = [a, b, CHR '':'', m, n]" "is_digit a" "is_digit b"
    "is_digit m" "is_digit n" "10 * digit_val a + digit_val b < 24" "10 * digit_val m + digit_val n < 60"
    using c by (auto elim!: clock_patternE)
  define h where "h = 10 * digit_val a + digit_val b"
  define mm where "mm = 10 * digit_val m + digit_val n"
  have sec: "0 \<le> int (js_number (drop 6 s))" "int (js_number (drop 6 s)) < 60"
    using pg_time_seconds [OF assms(1)] by simp_all
  define ss where "ss = int (js_number (drop 6 s))"
  have "clock_minutes (js_slice 0 5 s) = 60 * h + mm"
    unfolding s5(1) by (simp add: clock_minutes_def js_slice_def h_def mm_def)
  then have t: "sql_time s = 3600 * int h + (60 * int mm + ss)"
    by (simp add: sql_time_def ss_def)
  have "mm < 60" using s5(7) by (simp add: mm_def)
  then have "60 * int mm + ss < 3600" "0 \<le> 60 * int mm + ss" using sec by (simp_all add: ss_def)
  moreover have "(3600 * int h + (60 * int mm + ss)) mod 3600 = 0"
    using assms(2) by (simp add: whole_hour_def t)
  ultimately have z: "60 * int mm + ss = 0" by simp
  then have "mm = 0" "ss = 0" using sec by (simp_all add: ss_def)
  then have mn: "digit_val m = 0" "digit_val n = 0" by (simp_all add: mm_def)
  then have "m = CHR ''0''" "n = CHR ''0''"
    using s5(4,5) digit_char_digit_val [of m] digit_char_digit_val [of n] by (simp_all add: digit_char_0)
  moreover have "(10 * digit_val a + digit_val b) div 10 = digit_val a"
    "(10 * digit_val a + digit_val b) mod 10 = digit_val b"
    using digit_val_less [OF s5(3)] by simp_all
  ultimately have "js_slice 0 5 s = hour_text h"
    using s5 by (simp add: s5(1) hour_text_def pad2 h_def)
  moreover have "js_slice 0 2 s = [a, b]"
  proof -
    have "js_slice 0 2 s = take 2 (js_slice 0 5 s)" by simp
    then show ?thesis unfolding s5(1) by simp
  qed
  ultimately show ?thesis
    using t z s5(6) by (intro that [of h]) (simp_all add: h_def)
qed

end
