(* ===== verification/Pagination.thy ===== *)
theory Pagination
  imports Prelude
begin

text \<open>
  Pages (common/dto/pagination-query.dto.ts, and the skip and take of the list queries): the
  page numbers a result has, the rows of one page, and that the pages are the whole result.
\<close>

definition MAX_PAGE_SIZE :: nat where
  "MAX_PAGE_SIZE = 50"

definition DEFAULT_PAGE_SIZE :: nat where
  "DEFAULT_PAGE_SIZE = 20"

record page_query =
  q_page :: nat
  q_pageSize :: nat

text \<open>The defaults of absent parameters and the decorators' bounds.\<close>

definition page_query_default :: "nat option \<Rightarrow> nat option \<Rightarrow> page_query" where
  "page_query_default p s =
     \<lparr>q_page = case_option 1 id p, q_pageSize = case_option DEFAULT_PAGE_SIZE id s\<rparr>"

definition page_query_valid :: "page_query \<Rightarrow> bool" where
  "page_query_valid q \<longleftrightarrow> 1 \<le> q_page q \<and> 1 \<le> q_pageSize q \<and> q_pageSize q \<le> MAX_PAGE_SIZE"

text \<open>\<open>Math.ceil(total / pageSize)\<close>\<close>

definition totalPagesFor :: "nat \<Rightarrow> nat \<Rightarrow> nat" where
  "totalPagesFor n pageSize = (if n = 0 then 0 else (n + pageSize - 1) div pageSize)"

text \<open>\<open>skip((page - 1) * pageSize).take(pageSize)\<close>\<close>

definition page_rows :: "nat \<Rightarrow> nat \<Rightarrow> 'a list \<Rightarrow> 'a list" where
  "page_rows page pageSize rows = take pageSize (drop ((page - 1) * pageSize) rows)"

lemma total_pages_cover:
  assumes "0 < s"
  shows "n \<le> totalPagesFor n s * s"
proof (cases "n = 0")
  case False
  have "n + s - 1 < s * ((n + s - 1) div s) + s"
    using assms dividend_less_times_div [of s "n + s - 1"] by simp
  with False assms show ?thesis by (simp add: totalPagesFor_def mult.commute)
qed simp

lemma total_pages_tight:
  assumes "0 < s" "0 < n"
  shows "(totalPagesFor n s - 1) * s < n"
proof -
  have "totalPagesFor n s * s \<le> n + s - 1"
    using assms by (simp add: totalPagesFor_def)
  then show ?thesis using assms by (simp add: diff_mult_distrib)
qed

text \<open>The pages, in order, are the result; the last one is not empty.\<close>

lemma pages_partition:
  assumes "0 < s"
  shows "concat (map (\<lambda>i. page_rows (Suc i) s rows) [0..<totalPagesFor (length rows) s]) = rows"
  using concat_slices [OF assms, of rows "totalPagesFor (length rows) s"]
    total_pages_cover [OF assms, of "length rows"]
  by (simp add: page_rows_def)

lemma page_rows_length: "length (page_rows p s rows) \<le> s"
  by (simp add: page_rows_def)

lemma page_rows_set: "set (page_rows p s rows) \<subseteq> set rows"
  by (auto simp: page_rows_def dest: in_set_takeD in_set_dropD)

lemma page_rows_nonempty:
  assumes "0 < s" "1 \<le> p"
  shows "page_rows p s rows \<noteq> [] \<longleftrightarrow> p \<le> totalPagesFor (length rows) s"
proof -
  have "page_rows p s rows \<noteq> [] \<longleftrightarrow> (p - 1) * s < length rows"
    using assms by (auto simp: page_rows_def)
  also have "\<dots> \<longleftrightarrow> p \<le> totalPagesFor (length rows) s"
  proof
    assume l: "(p - 1) * s < length rows"
    then have "(p - 1) * s < totalPagesFor (length rows) s * s"
      using total_pages_cover [OF assms(1), of "length rows"] by linarith
    then have "p - 1 < totalPagesFor (length rows) s" by simp
    then show "p \<le> totalPagesFor (length rows) s" by linarith
  next
    assume p: "p \<le> totalPagesFor (length rows) s"
    then have "0 < length rows" using assms by (cases "length rows") (auto simp: totalPagesFor_def)
    moreover have "(p - 1) * s \<le> (totalPagesFor (length rows) s - 1) * s"
      using p by (intro mult_right_mono) simp_all
    ultimately show "(p - 1) * s < length rows"
      using total_pages_tight [OF assms(1), of "length rows"] by linarith
  qed
  finally show ?thesis .
qed

end
