(* ===== verification/Bookings.thy ===== *)
theory Bookings
  imports Availability Pagination
begin

text \<open>
  The booking service (bookings/bookings.service.ts): creation, the lists, and the life cycle of
  a booking. An operation takes what it reads from outside (\<open>env\<close>) and the database, and gives
  an error or its result, the new database and the notifications it sent.
\<close>

type_synonym 'a effect = "'a \<times> db \<times> event list"

text \<open>The request body, after the decorators of \<open>CreateBookingDto\<close>.\<close>

record create_booking_dto =
  cb_resourceId :: string
  cb_date :: string
  cb_startTime :: string
  cb_endTime :: string

section \<open>Instants of a booking\<close>

text \<open>\<open>now < t\<close> and \<open>now >= t\<close> where \<open>t\<close> may be \<open>NaN\<close>.\<close>

definition before_ms :: "int \<Rightarrow> int option \<Rightarrow> bool" where
  "before_ms now t = (case t of Some e \<Rightarrow> now < e | None \<Rightarrow> False)"

definition reached_ms :: "int \<Rightarrow> int option \<Rightarrow> bool" where
  "reached_ms now t = (case t of Some e \<Rightarrow> e \<le> now | None \<Rightarrow> False)"

definition bookingStartMs :: "booking \<Rightarrow> int option" where
  "bookingStartMs b = campusDateTimeMs (b_date b) (js_slice 0 5 (b_startTime b))"

definition bookingEndMs :: "booking \<Rightarrow> int option" where
  "bookingEndMs b = campusDateTimeMs (b_date b) (js_slice 0 5 (b_endTime b))"

definition bookingStart :: "booking \<Rightarrow> string" where
  "bookingStart b = b_date b @ ''T'' @ js_slice 0 5 (b_startTime b)"

text \<open>A nullable text is truthy when it is present and not empty.\<close>

definition truthy_text :: "string option \<Rightarrow> bool" where
  "truthy_text s = (case s of Some t \<Rightarrow> t \<noteq> [] | None \<Rightarrow> False)"

definition isWithinCheckInWindow :: "booking \<Rightarrow> int \<Rightarrow> bool" where
  "isWithinCheckInWindow b now \<longleftrightarrow>
     reached_ms now (map_option (\<lambda>s. s - 15 * 60 * 1000) (bookingStartMs b)) \<and>
     before_ms now (bookingEndMs b)"

section \<open>The action predicates\<close>

definition canCancel :: "booking \<Rightarrow> int \<Rightarrow> bool" where
  "canCancel b now \<longleftrightarrow>
     (b_status b = PENDING \<or> b_status b = CONFIRMED) \<and> b_checkInRequestedAt b = None \<and>
     isFutureCampusTime (b_date b) (js_slice 0 5 (b_startTime b)) now"

definition canRequestCheckIn :: "booking \<Rightarrow> int \<Rightarrow> bool" where
  "canRequestCheckIn b now \<longleftrightarrow>
     b_status b = CONFIRMED \<and> b_checkInRequestedAt b = None \<and> isWithinCheckInWindow b now"

definition hasEnded :: "booking \<Rightarrow> int \<Rightarrow> bool" where
  "hasEnded b now \<longleftrightarrow> reached_ms now (bookingEndMs b)"

definition canReview :: "booking \<Rightarrow> int \<Rightarrow> bool" where
  "canReview b now \<longleftrightarrow> b_status b = PENDING \<and> before_ms now (bookingEndMs b)"

definition canConfirmCheckIn :: "booking \<Rightarrow> int \<Rightarrow> bool" where
  "canConfirmCheckIn b now \<longleftrightarrow>
     b_status b = CONFIRMED \<and> b_checkInRequestedAt b \<noteq> None \<and> isWithinCheckInWindow b now"

definition canCheckOut :: "booking \<Rightarrow> bool" where
  "canCheckOut b \<longleftrightarrow> b_status b = CHECKED_IN"

definition canMarkNoShow :: "booking \<Rightarrow> int \<Rightarrow> bool" where
  "canMarkNoShow b now \<longleftrightarrow> b_status b = CONFIRMED \<and> reached_ms now (bookingEndMs b)"

definition isActiveForStudent :: "booking \<Rightarrow> int \<Rightarrow> bool" where
  "isActiveForStudent b now \<longleftrightarrow>
     (b_status b = PENDING \<or> b_status b = CONFIRMED \<or> b_status b = CHECKED_IN) \<and>
     before_ms now (bookingEndMs b)"

section \<open>Creating a booking\<close>

definition requireValidRequest :: "create_booking_dto \<Rightarrow> int \<Rightarrow> app_error option" where
  "requireValidRequest dto now =
     (if \<not> real_date (cb_date dto)
        then Some (BookingDomainError INVALID_BOOKING_DATE ''Booking date must be a real calendar date'')
      else if cb_startTime dto \<ge> cb_endTime dto
        then Some (BookingDomainError INVALID_BOOKING_RANGE ''Booking start time must be before end time'')
      else if \<not> isFutureCampusTime (cb_date dto) (cb_startTime dto) now
        then Some (BookingDomainError BOOKING_IN_PAST ''Booking start time must be in the future'')
      else None)"

definition requireOperationalAvailability :: "resource \<Rightarrow> create_booking_dto \<Rightarrow> app_error option" where
  "requireOperationalAvailability r dto =
     (if r_status r \<noteq> ACTIVE \<or> dayOfWeekFor (cb_date dto) \<notin> set (r_operatingDays r) \<or>
         cb_startTime dto < js_slice 0 5 (r_opensAt r) \<or> cb_endTime dto > js_slice 0 5 (r_closesAt r)
      then Some (BookingDomainError RESOURCE_UNAVAILABLE
             ''The resource is not operational for the selected interval'')
      else None)"

definition closed_on :: "db \<Rightarrow> string \<Rightarrow> string \<Rightarrow> bool" where
  "closed_on d resourceId date \<longleftrightarrow>
     (\<exists>c\<in>set (closures d). c_resourceId c = resourceId \<and> c_date c = date)"

text \<open>The row \<open>save\<close> inserts; the identifier and the times come from the database.\<close>

definition new_booking :: "resource \<Rightarrow> string \<Rightarrow> create_booking_dto \<Rightarrow> env \<Rightarrow> booking" where
  "new_booking r requesterId dto e =
     \<lparr>b_id = fresh_id e, b_resourceId = r_id r, b_requesterId = requesterId, b_date = cb_date dto,
      b_startTime = cb_startTime dto, b_endTime = cb_endTime dto,
      b_status = (if r_requiresApproval r then PENDING else CONFIRMED),
      b_cancelledAt = None, b_reviewedAt = None, b_reviewedById = None, b_rejectionReason = None,
      b_checkInCode = None, b_checkInRequestedAt = None, b_checkedInAt = None, b_checkedInById = None,
      b_checkedOutAt = None, b_checkedOutById = None, b_noShowAt = None, b_noShowById = None,
      b_createdAt = db_now e, b_updatedAt = db_now e\<rparr>"

definition map_create_error :: "app_error \<Rightarrow> app_error" where
  "map_create_error err =
     (if err = QueryFailedError ''23P01'' ''EXCL_bookings_resource_period_blocking''
      then BookingDomainError BOOKING_OVERLAP ''The selected time overlaps another booking''
      else err)"

definition create_booking ::
  "string \<Rightarrow> create_booking_dto \<Rightarrow> env \<Rightarrow> db \<Rightarrow> (app_error, booking effect) outcome" where
  "create_booking requesterId dto e d =
     (case requireValidRequest dto (clock e) of
        Some err \<Rightarrow> Inl err
      | None \<Rightarrow>
     (case row_at r_id (sql_uuid (cb_resourceId dto)) (resources d) of
        None \<Rightarrow> Inl (BookingDomainError RESOURCE_NOT_FOUND ''Resource not found'')
      | Some r \<Rightarrow>
     (case requireOperationalAvailability r dto of
        Some err \<Rightarrow> Inl err
      | None \<Rightarrow>
      if closed_on d (r_id r) (cb_date dto)
      then Inl (BookingDomainError RESOURCE_UNAVAILABLE ''The resource is closed on the selected date'')
      else
        let b = new_booking r requesterId dto e in
        (case insert_booking b d of
           Inl err \<Rightarrow> Inl (map_create_error err)
         | Inr d' \<Rightarrow> Inr (b, d', [AvailabilityChanged (b_resourceId b) (b_date b)])))))"

section \<open>The lists\<close>

record student_bookings =
  sb_upcoming :: "booking list"
  sb_history :: "booking list"
  sb_evaluatedAt :: int

definition timeline_order :: "booking \<Rightarrow> booking \<Rightarrow> int" where
  "timeline_order =
     cmp_then (cmp_by (\<lambda>b. sql_date (b_date b)))
       (cmp_then (cmp_by (\<lambda>b. sql_time (b_startTime b))) (cmp_by b_createdAt))"

definition findForStudent :: "string \<Rightarrow> env \<Rightarrow> db \<Rightarrow> student_bookings" where
  "findForStudent requesterId e d =
     (let rows = sort_cmp timeline_order (filter (\<lambda>b. b_requesterId b = requesterId) (bookings d));
          now = clock e
      in \<lparr>sb_upcoming = filter (\<lambda>b. isActiveForStudent b now) rows,
          sb_history = sort_cmp (cmp_desc (cmp_by bookingStart))
            (filter (\<lambda>b. \<not> isActiveForStudent b now) rows),
          sb_evaluatedAt = now\<rparr>)"

definition findOneForStudent :: "string \<Rightarrow> string \<Rightarrow> db \<Rightarrow> booking option" where
  "findOneForStudent requesterId bookingId d =
     find (\<lambda>b. b_id b = sql_uuid bookingId \<and> b_requesterId b = requesterId) (bookings d)"

definition operations_order :: "booking \<Rightarrow> booking \<Rightarrow> int" where
  "operations_order = cmp_then timeline_order (cmp_by b_id)"

record staff_operations =
  so_bookings :: "booking list"
  so_total :: nat
  so_evaluatedAt :: int
  so_campusDate :: string

definition findOperationsForStaff :: "nat \<Rightarrow> nat \<Rightarrow> env \<Rightarrow> db \<Rightarrow> staff_operations" where
  "findOperationsForStaff page pageSize e d =
     (let date = campusDateOf (clock e);
          rows = filter (\<lambda>b. sql_date (b_date b) \<le> sql_date date \<and>
                   (b_status b = CONFIRMED \<or> b_status b = CHECKED_IN)) (bookings d)
      in \<lparr>so_bookings = page_rows page pageSize (sort_cmp operations_order rows),
          so_total = length rows, so_evaluatedAt = clock e, so_campusDate = date\<rparr>)"

definition pending_order :: "booking \<Rightarrow> booking \<Rightarrow> int" where
  "pending_order = cmp_then (cmp_by b_createdAt) (cmp_by b_id)"

record staff_pending =
  sp_bookings :: "booking list"
  sp_total :: nat
  sp_evaluatedAt :: int

text \<open>\<open>date > today\<close>, or \<open>date = today\<close> and \<open>endTime > nowTime\<close>\<close>

definition pending_where :: "int \<Rightarrow> booking \<Rightarrow> bool" where
  "pending_where now b \<longleftrightarrow> b_status b = PENDING \<and> sql_after_now (b_date b) (b_endTime b) now"

definition findPendingForStaff :: "nat \<Rightarrow> nat \<Rightarrow> env \<Rightarrow> db \<Rightarrow> staff_pending" where
  "findPendingForStaff page pageSize e d =
     (let rows = filter (pending_where (clock e)) (bookings d)
      in \<lparr>sp_bookings = page_rows page pageSize (sort_cmp pending_order rows),
          sp_total = length rows, sp_evaluatedAt = clock e\<rparr>)"

definition findOneForStaff :: "string \<Rightarrow> db \<Rightarrow> booking option" where
  "findOneForStaff bookingId d = row_at b_id (sql_uuid bookingId) (bookings d)"

definition findResourceSchedule :: "string \<Rightarrow> string \<Rightarrow> env \<Rightarrow> db \<Rightarrow> booking list \<times> int" where
  "findResourceSchedule resourceId date e d =
     (sort_cmp (cmp_then (cmp_by (\<lambda>b. sql_time (b_startTime b))) (cmp_by b_createdAt))
        (filter (\<lambda>b. b_resourceId b = sql_uuid resourceId \<and> sql_date (b_date b) = sql_date date) (bookings d)),
      clock e)"

section \<open>The life cycle\<close>

definition lockBooking :: "string \<Rightarrow> db \<Rightarrow> booking option" where
  "lockBooking bookingId d = row_at b_id (sql_uuid bookingId) (bookings d)"

definition lockStudentBooking :: "string \<Rightarrow> string \<Rightarrow> db \<Rightarrow> booking option" where
  "lockStudentBooking requesterId bookingId d =
     find (\<lambda>b. b_id b = sql_uuid bookingId \<and> b_requesterId b = requesterId) (bookings d)"

definition booking_not_found :: app_error where
  "booking_not_found = BookingDomainError BOOKING_NOT_FOUND ''Booking not found''"

text \<open>The columns each operation passes to \<open>update\<close>.\<close>

definition review_changes :: "booking_status \<Rightarrow> int \<Rightarrow> string \<Rightarrow> string option \<Rightarrow> booking \<Rightarrow> booking" where
  "review_changes status reviewedAt reviewerId reason b =
     b\<lparr>b_status := status, b_reviewedAt := Some reviewedAt, b_reviewedById := Some reviewerId,
       b_rejectionReason := reason\<rparr>"

definition request_check_in_changes :: "string \<Rightarrow> int \<Rightarrow> booking \<Rightarrow> booking" where
  "request_check_in_changes code now b =
     b\<lparr>b_checkInCode := Some code, b_checkInRequestedAt := Some now\<rparr>"

definition confirm_check_in_changes :: "int \<Rightarrow> string \<Rightarrow> booking \<Rightarrow> booking" where
  "confirm_check_in_changes now staffId b =
     b\<lparr>b_status := CHECKED_IN, b_checkInCode := None, b_checkedInAt := Some now,
       b_checkedInById := Some staffId\<rparr>"

definition check_out_changes :: "int \<Rightarrow> string \<Rightarrow> booking \<Rightarrow> booking" where
  "check_out_changes now staffId b =
     b\<lparr>b_status := COMPLETED, b_checkedOutAt := Some now, b_checkedOutById := Some staffId\<rparr>"

definition no_show_changes :: "int \<Rightarrow> string \<Rightarrow> booking \<Rightarrow> booking" where
  "no_show_changes now staffId b =
     b\<lparr>b_status := NO_SHOW, b_checkInCode := None, b_noShowAt := Some now, b_noShowById := Some staffId\<rparr>"

definition cancel_changes :: "int \<Rightarrow> booking \<Rightarrow> booking" where
  "cancel_changes now b = b\<lparr>b_status := CANCELLED, b_cancelledAt := Some now\<rparr>"

text \<open>
  \<open>update(id, changes)\<close> and the reload that follows it. A reload that found no row would be
  \<open>EntityNotFoundError\<close>, which the model names as a query error of its own.
\<close>

definition update_and_reload ::
  "string \<Rightarrow> (booking \<Rightarrow> booking) \<Rightarrow> env \<Rightarrow> db \<Rightarrow> (app_error, booking \<times> db) outcome" where
  "update_and_reload k f e d =
     (case update_booking k (\<lambda>b. (f b)\<lparr>b_updatedAt := db_now e\<rparr>) d of
        Inl err \<Rightarrow> Inl err
      | Inr d' \<Rightarrow>
          (case row_at b_id k (bookings d') of
             None \<Rightarrow> Inl (QueryFailedError ''EntityNotFound'' ''bookings'')
           | Some b \<Rightarrow> Inr (b, d')))"

definition notify_booking :: "booking \<times> db \<Rightarrow> booking effect" where
  "notify_booking r = (fst r, snd r, [AvailabilityChanged (b_resourceId (fst r)) (b_date (fst r))])"

definition quiet_booking :: "booking \<times> db \<Rightarrow> booking effect" where
  "quiet_booking r = (fst r, snd r, [])"

definition review ::
  "string \<Rightarrow> string \<Rightarrow> booking_status \<Rightarrow> string option \<Rightarrow> env \<Rightarrow> db \<Rightarrow>
     (app_error, booking \<times> db) outcome" where
  "review reviewerId bookingId status reason e d =
     (case lockBooking bookingId d of
        None \<Rightarrow> Inl booking_not_found
      | Some b \<Rightarrow>
      if b_status b \<noteq> PENDING
      then Inl (BookingDomainError BOOKING_NOT_PENDING ''Only pending booking requests can be reviewed'')
      else if \<not> canReview b (clock e)
      then Inl (BookingDomainError BOOKING_REVIEW_WINDOW_ENDED
        ''This booking request can no longer be reviewed because its scheduled time has ended'')
      else update_and_reload (b_id b)
        (review_changes status (clock e) reviewerId reason) e d)"

definition approve :: "string \<Rightarrow> string \<Rightarrow> env \<Rightarrow> db \<Rightarrow> (app_error, booking effect) outcome" where
  "approve reviewerId bookingId e d =
     map_sum id notify_booking (review reviewerId bookingId CONFIRMED None e d)"

definition reject :: "string \<Rightarrow> string \<Rightarrow> string \<Rightarrow> env \<Rightarrow> db \<Rightarrow> (app_error, booking effect) outcome" where
  "reject reviewerId bookingId reason e d =
     map_sum id notify_booking (review reviewerId bookingId REJECTED (Some reason) e d)"

text \<open>\<open>randomInt(0, 1_000_000).toString().padStart(6, '0')\<close>\<close>

definition check_in_code :: "nat \<Rightarrow> string" where
  "check_in_code n = pad_start 6 CHR ''0'' (js_string n)"

definition requestCheckIn :: "string \<Rightarrow> string \<Rightarrow> env \<Rightarrow> db \<Rightarrow> (app_error, booking effect) outcome" where
  "requestCheckIn requesterId bookingId e d =
     (case lockStudentBooking requesterId bookingId d of
        None \<Rightarrow> Inl booking_not_found
      | Some b \<Rightarrow>
      if b_checkInRequestedAt b \<noteq> None \<or> truthy_text (b_checkInCode b)
      then Inl (BookingDomainError CHECK_IN_ALREADY_REQUESTED
        ''A check-in code has already been generated for this booking'')
      else if \<not> canRequestCheckIn b (clock e)
      then Inl (BookingDomainError CHECK_IN_NOT_AVAILABLE
        ''Check-in opens 15 minutes before a confirmed booking and closes at its end time'')
      else map_sum id quiet_booking (update_and_reload (b_id b)
        (request_check_in_changes (check_in_code (random_int e)) (clock e)) e d))"

definition confirmCheckIn ::
  "string \<Rightarrow> string \<Rightarrow> string \<Rightarrow> env \<Rightarrow> db \<Rightarrow> (app_error, booking effect) outcome" where
  "confirmCheckIn staffId bookingId code e d =
     (case lockBooking bookingId d of
        None \<Rightarrow> Inl booking_not_found
      | Some b \<Rightarrow>
      if b_status b \<noteq> CONFIRMED \<or> \<not> truthy_text (b_checkInCode b) \<or> \<not> isWithinCheckInWindow b (clock e)
      then Inl (BookingDomainError CHECK_IN_NOT_AVAILABLE ''This booking cannot be checked in now'')
      else if b_checkInCode b \<noteq> Some code
      then Inl (BookingDomainError INVALID_CHECK_IN_CODE ''The check-in code is incorrect'')
      else map_sum id quiet_booking (update_and_reload (b_id b)
        (confirm_check_in_changes (clock e) staffId) e d))"

definition checkOut :: "string \<Rightarrow> string \<Rightarrow> env \<Rightarrow> db \<Rightarrow> (app_error, booking effect) outcome" where
  "checkOut staffId bookingId e d =
     (case lockBooking bookingId d of
        None \<Rightarrow> Inl booking_not_found
      | Some b \<Rightarrow>
      if b_status b \<noteq> CHECKED_IN
      then Inl (BookingDomainError BOOKING_NOT_CHECKED_IN ''Only checked-in bookings can be checked out'')
      else map_sum id notify_booking (update_and_reload (b_id b)
        (check_out_changes (clock e) staffId) e d))"

definition markNoShow :: "string \<Rightarrow> string \<Rightarrow> env \<Rightarrow> db \<Rightarrow> (app_error, booking effect) outcome" where
  "markNoShow staffId bookingId e d =
     (case lockBooking bookingId d of
        None \<Rightarrow> Inl booking_not_found
      | Some b \<Rightarrow>
      if b_status b \<noteq> CONFIRMED \<or> before_ms (clock e) (bookingEndMs b)
      then Inl (BookingDomainError NO_SHOW_NOT_AVAILABLE
        ''Only an ended, unchecked confirmed booking can be marked as a no-show'')
      else map_sum id notify_booking (update_and_reload (b_id b)
        (no_show_changes (clock e) staffId) e d))"

definition cancel :: "string \<Rightarrow> string \<Rightarrow> env \<Rightarrow> db \<Rightarrow> (app_error, booking effect) outcome" where
  "cancel requesterId bookingId e d =
     (case lockStudentBooking requesterId bookingId d of
        None \<Rightarrow> Inl booking_not_found
      | Some b \<Rightarrow>
      if \<not> canCancel b (clock e)
      then Inl (BookingDomainError BOOKING_NOT_CANCELLABLE
        ''Only future pending or confirmed bookings can be cancelled'')
      else map_sum id notify_booking (update_and_reload (b_id b)
        (cancel_changes (clock e)) e d))"

end
