(* ===== verification/BookingRules.thy ===== *)
theory BookingRules
  imports Bookings
begin

text \<open>
  What the booking service keeps and promises: the instants of a stored booking, when an update
  passes the constraints of the table, and from that the behaviour of every operation of the
  life cycle, on success and on error.
\<close>

section \<open>Stored bookings\<close>

lemma whole_hour_minute:
  assumes "pg_time s" "whole_hour s"
  shows "minute_time s"
proof -
  obtain h where h: "h < 24" "js_slice 0 5 s = hour_text h" "sql_time s = 3600 * int h"
    using whole_hour_text [OF assms] .
  have c: "clock_pattern (js_slice 0 5 s)" by (rule pg_time_clock [OF assms(1)])
  have "clock_minutes (js_slice 0 5 s) = 60 * h" unfolding h(2) by (rule clock_minutes_hour [OF h(1)])
  then have z: "js_number (drop 6 s) = 0" using h(3) by (simp add: sql_time_def)
  show ?thesis
  proof (cases "drop 5 s")
    case Nil
    with c show ?thesis by (simp add: minute_time_def)
  next
    case (Cons x rest)
    with assms(1) obtain a b where r: "drop 5 s = [CHR '':'', a, b]" "is_digit a" "is_digit b"
      by (auto simp: pg_time_def split: list.splits)
    have "drop 6 s = drop 1 (drop 5 s)" by simp
    then have "drop 6 s = [a, b]" unfolding r(1) by simp
    with z have "digit_val a = 0" "digit_val b = 0" by simp_all
    then have "a = CHR ''0''" "b = CHR ''0''"
      using r digit_char_digit_val [of a] digit_char_digit_val [of b] by (simp_all add: digit_char_0)
    with c r show ?thesis by (simp add: minute_time_def)
  qed
qed

definition sound_booking :: "booking \<Rightarrow> bool" where
  "sound_booking b \<longleftrightarrow> booking_typed b \<and> booking_rules b"

lemma sound_booking_times:
  assumes "sound_booking b"
  shows "bookingStartMs b = Some (booking_start b)" "bookingEndMs b = Some (booking_end b)"
    "booking_start b < booking_end b" "pg_date (b_date b)" "minute_time (b_startTime b)"
    "minute_time (b_endTime b)"
proof -
  have t: "pg_date (b_date b)" "pg_time (b_startTime b)" "pg_time (b_endTime b)"
    and w: "whole_hour (b_startTime b)" "whole_hour (b_endTime b)"
    and o: "sql_time (b_startTime b) < sql_time (b_endTime b)"
    using assms by (simp_all add: sound_booking_def booking_typed_def booking_rules_iff)
  note m = whole_hour_minute [OF t(2) w(1)] whole_hour_minute [OF t(3) w(2)]
  show "bookingStartMs b = Some (booking_start b)" "bookingEndMs b = Some (booking_end b)"
    by (simp_all only: bookingStartMs_def bookingEndMs_def booking_start_def booking_end_def
        at_campus_zone_ms [OF t(1) m(1)] at_campus_zone_ms [OF t(1) m(2)])
  show "booking_start b < booking_end b"
    using o by (simp add: booking_start_def booking_end_def at_campus_zone_def)
  show "pg_date (b_date b)" "minute_time (b_startTime b)" "minute_time (b_endTime b)"
    by (rule t(1) m)+
qed

lemma isFuture_start:
  assumes "sound_booking b"
  shows "isFutureCampusTime (b_date b) (js_slice 0 5 (b_startTime b)) now \<longleftrightarrow> now < booking_start b"
  using sound_booking_times(1) [OF assms] by (simp only: isFutureCampusTime_def bookingStartMs_def) simp

lemma action_predicates:
  assumes "sound_booking b"
  shows "canCancel b now \<longleftrightarrow>
      b_status b \<in> {PENDING, CONFIRMED} \<and> b_checkInRequestedAt b = None \<and> now < booking_start b"
    "isWithinCheckInWindow b now \<longleftrightarrow> booking_start b - 900000 \<le> now \<and> now < booking_end b"
    "canReview b now \<longleftrightarrow> b_status b = PENDING \<and> now < booking_end b"
    "canMarkNoShow b now \<longleftrightarrow> b_status b = CONFIRMED \<and> booking_end b \<le> now"
    "hasEnded b now \<longleftrightarrow> booking_end b \<le> now"
    "before_ms now (bookingEndMs b) \<longleftrightarrow> now < booking_end b"
  using sound_booking_times(1,2) [OF assms] isFuture_start [OF assms]
  by (simp_all only: canCancel_def isWithinCheckInWindow_def canReview_def canMarkNoShow_def
      hasEnded_def before_ms_def reached_ms_def) auto

lemma db_booking_sound: "db_ok d \<Longrightarrow> b \<in> set (bookings d) \<Longrightarrow> sound_booking b"
  by (auto simp: db_ok_def booking_ok_def sound_booking_def dest: table_inv_ok)

section \<open>Updating a stored booking\<close>

text \<open>The columns the life cycle never changes.\<close>

definition same_slot :: "booking \<Rightarrow> booking \<Rightarrow> bool" where
  "same_slot b b' \<longleftrightarrow>
     b_id b' = b_id b \<and> b_resourceId b' = b_resourceId b \<and> b_requesterId b' = b_requesterId b \<and>
     b_date b' = b_date b \<and> b_startTime b' = b_startTime b \<and> b_endTime b' = b_endTime b \<and>
     b_createdAt b' = b_createdAt b"

lemma same_slot_clash:
  "same_slot b b' \<Longrightarrow> (blocking (b_status b') \<Longrightarrow> blocking (b_status b)) \<Longrightarrow> booking_clash b' x \<Longrightarrow> booking_clash b x"
  by (auto simp: same_slot_def booking_clash_def booking_period_def)

lemma stamp_updated [simp]:
  "booking_start (b\<lparr>b_updatedAt := t\<rparr>) = booking_start b"
  "booking_end (b\<lparr>b_updatedAt := t\<rparr>) = booking_end b"
  "booking_typed (b\<lparr>b_updatedAt := t\<rparr>) = booking_typed b"
  "booking_users_known d (b\<lparr>b_updatedAt := t\<rparr>) = booking_users_known d b"
  by (simp_all add: booking_start_def booking_end_def booking_typed_def booking_users_known_def)

lemma stamp_rules [simp]: "booking_rules (b\<lparr>b_updatedAt := t\<rparr>) = booking_rules b"
  by (simp add: booking_rules_iff booking_check_defs cong: option.case_cong)

lemma update_row_passes:
  assumes d: "db_ok d" and b: "row_at b_id k (bookings d) = Some b"
    and slot: "same_slot b b'" and blk: "blocking (b_status b') \<Longrightarrow> blocking (b_status b)"
    and ok: "booking_typed b'" "booking_rules b'" "booking_users_known d b'"
  shows "booking_violation d b' (filter (\<lambda>x. b_id x \<noteq> k) (bookings d)) = None"
proof -
  have b': "b \<in> set (bookings d)" "b_id b = k" using b by (auto dest: row_at_SomeD)
  have inv: "table_inv b_id (booking_ok d) booking_clash (bookings d)" using d by (simp add: db_ok_def)
  have "booking_ok d b" using inv b'(1) by (rule table_inv_ok)
  then have "booking_ok d b'" using ok slot by (simp add: booking_ok_def same_slot_def)
  moreover have "\<not> booking_clash b' x" if "x \<in> set (bookings d)" "b_id x \<noteq> k" for x
  proof -
    have "\<not> booking_clash b x" using that b' inv unfolding table_inv_def by metis
    then show ?thesis using same_slot_clash [OF slot blk] by blast
  qed
  moreover have "b_id b' = k" using slot b'(2) by (simp add: same_slot_def)
  ultimately show ?thesis by (auto simp: booking_violation_None)
qed

lemma update_and_reload_eq:
  assumes b: "row_at b_id k (bookings d) = Some b" and key: "\<And>x. b_id (f x) = b_id x"
  shows "update_and_reload k f e d =
    (case booking_violation d ((f b)\<lparr>b_updatedAt := db_now e\<rparr>) (filter (\<lambda>x. b_id x \<noteq> k) (bookings d)) of
       Some err \<Rightarrow> Inl err
     | None \<Rightarrow> Inr ((f b)\<lparr>b_updatedAt := db_now e\<rparr>,
         d\<lparr>bookings := patch_row b_id k (\<lambda>x. (f x)\<lparr>b_updatedAt := db_now e\<rparr>) (bookings d)\<rparr>))"
proof -
  have key': "b_id ((f x)\<lparr>b_updatedAt := db_now e\<rparr>) = b_id x" for x by (simp add: key)
  show ?thesis
    using row_at_patch [of b_id "\<lambda>x. (f x)\<lparr>b_updatedAt := db_now e\<rparr>", OF key', of k k "bookings d"] b
    by (simp add: update_and_reload_def update_booking_def update_row_def split: option.splits)
qed

text \<open>Every update whose new row obeys the constraints goes through.\<close>

lemma update_and_reload_passes:
  assumes d: "db_ok d" and b: "row_at b_id k (bookings d) = Some b"
    and key: "\<And>x. same_slot x (f x)"
    and blk: "blocking (b_status (f b)) \<Longrightarrow> blocking (b_status b)"
    and ok: "booking_typed (f b)" "booking_rules (f b)" "booking_users_known d (f b)"
  shows "update_and_reload k f e d =
    Inr ((f b)\<lparr>b_updatedAt := db_now e\<rparr>,
         d\<lparr>bookings := patch_row b_id k (\<lambda>x. (f x)\<lparr>b_updatedAt := db_now e\<rparr>) (bookings d)\<rparr>)"
proof -
  have "booking_violation d ((f b)\<lparr>b_updatedAt := db_now e\<rparr>) (filter (\<lambda>x. b_id x \<noteq> k) (bookings d)) = None"
    using key [of b] blk ok
    by (intro update_row_passes [OF d b]) (simp_all add: same_slot_def)
  moreover have "b_id (f x) = b_id x" for x using key [of x] by (simp add: same_slot_def)
  ultimately show ?thesis by (simp add: update_and_reload_eq [OF b])
qed

lemma update_and_reload_keeps:
  assumes "db_ok d" "update_and_reload k f e d = Inr (b', d')" "\<And>x. b_id (f x) = b_id x"
  shows "db_ok d'"
    "d' = d\<lparr>bookings := patch_row b_id k (\<lambda>x. (f x)\<lparr>b_updatedAt := db_now e\<rparr>) (bookings d)\<rparr>"
    "row_at b_id k (bookings d') = Some b'"
proof -
  have u: "update_booking k (\<lambda>b. (f b)\<lparr>b_updatedAt := db_now e\<rparr>) d = Inr d'"
    and r: "row_at b_id k (bookings d') = Some b'"
    using assms(2) by (auto simp: update_and_reload_def split: sum.splits option.splits)
  have key: "b_id ((f x)\<lparr>b_updatedAt := db_now e\<rparr>) = b_id x" for x by (simp add: assms(3))
  show "db_ok d'" by (rule update_booking_keeps(1) [OF assms(1) u]) (rule key)
  show "d' = d\<lparr>bookings := patch_row b_id k (\<lambda>x. (f x)\<lparr>b_updatedAt := db_now e\<rparr>) (bookings d)\<rparr>"
    by (rule update_booking_keeps(2) [OF assms(1) u]) (rule key)
  show "row_at b_id k (bookings d') = Some b'" by (rule r)
qed

section \<open>What the constraints say of each status\<close>

lemma pending_facts:
  assumes "booking_rules b" "b_status b = PENDING"
  shows "b_cancelledAt b = None" "b_reviewedAt b = None" "b_reviewedById b = None"
    "b_rejectionReason b = None" "b_checkInCode b = None" "b_checkInRequestedAt b = None"
    "b_checkedInAt b = None" "b_checkedInById b = None" "b_checkedOutAt b = None"
    "b_checkedOutById b = None" "b_noShowAt b = None" "b_noShowById b = None"
  using assms by (auto simp: booking_rules_iff booking_check_defs)

lemma confirmed_facts:
  assumes "booking_rules b" "b_status b = CONFIRMED"
  shows "b_cancelledAt b = None" "b_rejectionReason b = None"
    "b_checkedInAt b = None" "b_checkedInById b = None" "b_checkedOutAt b = None"
    "b_checkedOutById b = None" "b_noShowAt b = None" "b_noShowById b = None"
    "b_checkInRequestedAt b = None \<Longrightarrow> b_checkInCode b = None"
  using assms by (auto simp: booking_rules_iff booking_check_defs)

lemma checked_in_facts:
  assumes "booking_rules b" "b_status b = CHECKED_IN"
  shows "b_cancelledAt b = None" "b_rejectionReason b = None" "b_checkInCode b = None"
    "b_checkInRequestedAt b \<noteq> None" "b_checkedInAt b \<noteq> None" "b_checkedInById b \<noteq> None"
    "b_checkedOutAt b = None" "b_checkedOutById b = None" "b_noShowAt b = None" "b_noShowById b = None"
  using assms by (auto simp: booking_rules_iff booking_check_defs)

lemmas change_defs =
  review_changes_def request_check_in_changes_def confirm_check_in_changes_def check_out_changes_def
  no_show_changes_def cancel_changes_def

lemmas row_frame = booking_rules_iff booking_check_defs booking_start_def booking_end_def change_defs
text \<open>The rows the operations write obey the constraints.\<close>

lemma approved_rules:
  assumes "booking_rules b" "b_status b = PENDING"
  shows "booking_rules (review_changes CONFIRMED t u None b)"
  using assms pending_facts [OF assms] by (simp add: row_frame)

lemma rejected_rules:
  assumes "booking_rules b" "b_status b = PENDING" "3 \<le> length (btrim s)" "length (btrim s) \<le> 500"
  shows "booking_rules (review_changes REJECTED t u (Some s) b)"
  using assms pending_facts [OF assms(1,2)] by (simp add: row_frame)

lemma requested_rules:
  assumes "booking_rules b" "b_status b = CONFIRMED" "six_digits c"
    "booking_start b - 900000 \<le> t" "t < booking_end b"
  shows "booking_rules (request_check_in_changes c t b)"
  using assms confirmed_facts [OF assms(1,2)] by (simp add: row_frame)

lemma checked_in_rules:
  assumes "booking_rules b" "b_status b = CONFIRMED" "b_checkInRequestedAt b = Some q" "q \<le> t"
    "booking_start b - 900000 \<le> t" "t < booking_end b"
  shows "booking_rules (confirm_check_in_changes t u b)"
  using assms confirmed_facts [OF assms(1,2)] by (simp add: row_frame)

lemma completed_rules:
  assumes "booking_rules b" "b_status b = CHECKED_IN" "b_checkedInAt b = Some q" "q \<le> t"
  shows "booking_rules (check_out_changes t u b)"
  using assms checked_in_facts [OF assms(1,2)]
  by (auto simp: row_frame cong: option.case_cong split: option.splits)

lemma no_show_rules:
  assumes "booking_rules b" "b_status b = CONFIRMED" "booking_end b \<le> t"
  shows "booking_rules (no_show_changes t u b)"
  using assms confirmed_facts [OF assms(1,2)]
  by (auto simp: row_frame cong: option.case_cong split: option.splits)

lemma cancelled_rules:
  assumes "booking_rules b" "b_status b \<in> {PENDING, CONFIRMED}" "b_checkInRequestedAt b = None"
  shows "booking_rules (cancel_changes t b)"
proof (cases "b_status b = PENDING")
  case True
  with assms pending_facts [OF assms(1) True] show ?thesis by (simp add: row_frame)
next
  case False
  with assms(2) have c: "b_status b = CONFIRMED" by simp
  with assms confirmed_facts [OF assms(1) c] show ?thesis
    by (simp add: row_frame)
qed

lemma check_in_code_digits:
  assumes "n < 1000000"
  shows "six_digits (check_in_code n)"
proof -
  have "length (js_string n) \<le> 6" using assms by (intro js_string_length) simp_all
  moreover have "\<forall>c\<in>set (check_in_code n). is_digit c"
    using js_string_digits by (auto simp: check_in_code_def pad_start_def is_digit_def)
  ultimately show ?thesis by (simp add: six_digits_def check_in_code_def pad_start_def)
qed

lemma check_in_code_number: "js_number (check_in_code n) = n"
  by (simp add: check_in_code_def js_number_pad js_number_string)

section \<open>When the operations succeed\<close>

text \<open>Where the rows of an operation come from.\<close>

definition known_user :: "db \<Rightarrow> string \<Rightarrow> bool" where
  "known_user d u \<longleftrightarrow> u \<in> ids u_id (users d)"

lemma lockBooking_SomeD:
  assumes "db_ok d" "lockBooking k d = Some b"
  shows "b \<in> set (bookings d)" "b_id b = sql_uuid k" "row_at b_id (b_id b) (bookings d) = Some b"
    "booking_typed b" "booking_rules b" "booking_users_known d b" "sound_booking b"
proof -
  show m: "b \<in> set (bookings d)" and "b_id b = sql_uuid k"
    using assms(2) by (auto simp: lockBooking_def dest: row_at_SomeD)
  have inv: "table_inv b_id (booking_ok d) booking_clash (bookings d)" using assms(1) by (simp add: db_ok_def)
  show "row_at b_id (b_id b) (bookings d) = Some b"
    by (rule row_at_mem [OF table_inv_distinct [OF inv] m])
  have "booking_ok d b" by (rule table_inv_ok [OF inv m])
  then show "booking_typed b" "booking_rules b" "booking_users_known d b"
    by (simp_all add: booking_ok_def)
  show "sound_booking b" by (rule db_booking_sound [OF assms(1) m])
qed

lemma lockStudentBooking_SomeD:
  assumes "lockStudentBooking u k d = Some b"
  shows "b \<in> set (bookings d)" "b_id b = sql_uuid k" "b_requesterId b = u"
  using assms by (auto simp: lockStudentBooking_def find_Some_iff)

lemma lockStudentBooking_lock:
  assumes "db_ok d"
  shows "lockStudentBooking u k d = Some b \<longleftrightarrow> lockBooking k d = Some b \<and> b_requesterId b = u"
proof -
  have inv: "distinct (map b_id (bookings d))"
    using assms by (auto simp: db_ok_def table_inv_def)
  have "lockBooking k d = Some b \<longleftrightarrow> b \<in> set (bookings d) \<and> b_id b = sql_uuid k" for b
    unfolding lockBooking_def by (rule row_at_Some_iff [OF inv])
  moreover have "lockStudentBooking u k d = Some b \<longleftrightarrow>
      b \<in> set (bookings d) \<and> b_id b = sql_uuid k \<and> b_requesterId b = u"
  proof
    assume r: "b \<in> set (bookings d) \<and> b_id b = sql_uuid k \<and> b_requesterId b = u"
    then obtain x where x: "lockStudentBooking u k d = Some x"
      by (cases "lockStudentBooking u k d") (auto simp: lockStudentBooking_def find_None_iff)
    from lockStudentBooking_SomeD [OF x] r inv have "x = b"
      by (metis row_at_mem option.inject)
    with x show "lockStudentBooking u k d = Some b" by simp
  qed (auto dest: lockStudentBooking_SomeD)
  ultimately show ?thesis by simp
qed

text \<open>The result of an operation that rewrites the booking \<open>b\<close> by \<open>f\<close>.\<close>

definition rewritten :: "(booking \<Rightarrow> booking) \<Rightarrow> env \<Rightarrow> db \<Rightarrow> booking \<Rightarrow> booking \<times> db" where
  "rewritten f e d b =
     (let g = (\<lambda>x. (f x)\<lparr>b_updatedAt := db_now e\<rparr>)
      in (g b, d\<lparr>bookings := patch_row b_id (b_id b) g (bookings d)\<rparr>))"

lemma changes_same_slot [simp]:
  "same_slot x (review_changes s t u r x)" "same_slot x (request_check_in_changes c t x)"
  "same_slot x (confirm_check_in_changes t u x)" "same_slot x (check_out_changes t u x)"
  "same_slot x (no_show_changes t u x)" "same_slot x (cancel_changes t x)"
  by (simp_all add: same_slot_def change_defs)

lemmas effect_frame =
  blocking_def booking_typed_def booking_users_known_def known_user_def null_or_in_def Let_def
  same_slot_def change_defs

lemma rewritten_passes:
  assumes "db_ok d" "lockBooking k d = Some b" "\<And>x. same_slot x (f x)"
    "blocking (b_status (f b)) \<Longrightarrow> blocking (b_status b)"
    "booking_typed (f b)" "booking_rules (f b)" "booking_users_known d (f b)"
  shows "update_and_reload (b_id b) f e d = Inr (rewritten f e d b)"
  using update_and_reload_passes [OF assms(1) lockBooking_SomeD(3) [OF assms(1,2)] assms(3-7)]
  by (simp add: rewritten_def Let_def)

lemma approve_result:
  assumes "db_ok d" "known_user d u" "lockBooking k d = Some b" "canReview b (clock e)"
  shows "approve u k e d =
    Inr (notify_booking (rewritten (review_changes CONFIRMED (clock e) u None) e d b))"
proof -
  note l = lockBooking_SomeD [OF assms(1,3)]
  have p: "b_status b = PENDING" using assms(4) by (simp add: canReview_def)
  have "update_and_reload (b_id b) (review_changes CONFIRMED (clock e) u None) e d =
      Inr (rewritten (review_changes CONFIRMED (clock e) u None) e d b)"
    using l(4,6) assms(2) p approved_rules [OF l(5) p]
    by (intro rewritten_passes [OF assms(1,3)])
      (simp_all add: effect_frame)
  with assms p show ?thesis by (simp add: approve_def review_def)
qed

definition rejection_reason_ok :: "string \<Rightarrow> bool" where
  "rejection_reason_ok s \<longleftrightarrow> pg_varchar 500 s \<and> 3 \<le> length (btrim s)"

lemma btrim_length: "length (btrim s) \<le> length s"
  using length_dropWhile_le [of "\<lambda>c. c = CHR '' ''" "rev (dropWhile (\<lambda>c. c = CHR '' '') s)"]
    length_dropWhile_le [of "\<lambda>c. c = CHR '' ''" s]
  by (simp add: btrim_def)

lemma reject_result:
  assumes "db_ok d" "known_user d u" "lockBooking k d = Some b" "canReview b (clock e)"
    "rejection_reason_ok s"
  shows "reject u k s e d =
    Inr (notify_booking (rewritten (review_changes REJECTED (clock e) u (Some s)) e d b))"
proof -
  note l = lockBooking_SomeD [OF assms(1,3)]
  have p: "b_status b = PENDING" using assms(4) by (simp add: canReview_def)
  have s: "3 \<le> length (btrim s)" "length (btrim s) \<le> 500" "pg_varchar 500 s"
    using assms(5) btrim_length [of s] by (auto simp: rejection_reason_ok_def pg_varchar_def)
  have "update_and_reload (b_id b) (review_changes REJECTED (clock e) u (Some s)) e d =
      Inr (rewritten (review_changes REJECTED (clock e) u (Some s)) e d b)"
    using l(4,6) assms(2) p s rejected_rules [OF l(5) p s(1,2)]
    by (intro rewritten_passes [OF assms(1,3)])
      (simp_all add: effect_frame)
  with assms p show ?thesis by (simp add: reject_def review_def)
qed

lemma requestCheckIn_result:
  assumes "db_ok d" "lockStudentBooking u k d = Some b" "canRequestCheckIn b (clock e)"
    "random_int e < 1000000"
  shows "requestCheckIn u k e d = Inr (quiet_booking (rewritten
    (request_check_in_changes (check_in_code (random_int e)) (clock e)) e d b))"
proof -
  have lb: "lockBooking k d = Some b" using assms(1,2) by (simp add: lockStudentBooking_lock)
  note l = lockBooking_SomeD [OF assms(1) lb]
  have c: "b_status b = CONFIRMED" "b_checkInRequestedAt b = None"
    "booking_start b - 900000 \<le> clock e" "clock e < booking_end b"
    using assms(3) action_predicates(2) [OF l(7)] by (simp_all add: canRequestCheckIn_def)
  have n: "b_checkInCode b = None" using confirmed_facts(9) [OF l(5) c(1,2)] .
  note six = check_in_code_digits [OF assms(4)]
  have "update_and_reload (b_id b) (request_check_in_changes (check_in_code (random_int e)) (clock e)) e d =
      Inr (rewritten (request_check_in_changes (check_in_code (random_int e)) (clock e)) e d b)"
    using l(4,6) c six requested_rules [OF l(5) c(1) six c(3,4)]
    by (intro rewritten_passes [OF assms(1) lb])
      (auto simp: effect_frame pg_varchar_def six_digits_def is_digit_def)
  with assms n show ?thesis by (simp add: requestCheckIn_def truthy_text_def canRequestCheckIn_def)
qed

lemma six_digits_truthy: "six_digits c \<Longrightarrow> truthy_text (Some c)"
  by (auto simp: six_digits_def truthy_text_def)

lemma confirmCheckIn_result:
  assumes "db_ok d" "known_user d u" "lockBooking k d = Some b" "canConfirmCheckIn b (clock e)"
    "b_checkInCode b = Some c" "b_checkInRequestedAt b = Some q" "q \<le> clock e"
  shows "confirmCheckIn u k c e d =
    Inr (quiet_booking (rewritten (confirm_check_in_changes (clock e) u) e d b))"
proof -
  note l = lockBooking_SomeD [OF assms(1,3)]
  have s: "b_status b = CONFIRMED" "booking_start b - 900000 \<le> clock e" "clock e < booking_end b"
    and w: "isWithinCheckInWindow b (clock e)"
    using assms(4) action_predicates(2) [OF l(7)] by (simp_all add: canConfirmCheckIn_def)
  have six: "six_digits c"
    using l(5) assms(5,6) s(1) by (auto simp: booking_rules_iff check_check_in_request_def)
  have "update_and_reload (b_id b) (confirm_check_in_changes (clock e) u) e d =
      Inr (rewritten (confirm_check_in_changes (clock e) u) e d b)"
    using l(4,6) assms(2) s checked_in_rules [OF l(5) s(1) assms(6,7) s(2,3)]
    by (intro rewritten_passes [OF assms(1,3)])
      (simp_all add: effect_frame)
  with assms s w six_digits_truthy [OF six] show ?thesis by (simp add: confirmCheckIn_def)
qed

lemma checkOut_result:
  assumes "db_ok d" "known_user d u" "lockBooking k d = Some b" "canCheckOut b"
    "b_checkedInAt b = Some q" "q \<le> clock e"
  shows "checkOut u k e d = Inr (notify_booking (rewritten (check_out_changes (clock e) u) e d b))"
proof -
  note l = lockBooking_SomeD [OF assms(1,3)]
  have s: "b_status b = CHECKED_IN" using assms(4) by (simp add: canCheckOut_def)
  have "update_and_reload (b_id b) (check_out_changes (clock e) u) e d =
      Inr (rewritten (check_out_changes (clock e) u) e d b)"
    using l(4,6) assms(2) s completed_rules [OF l(5) s assms(5,6)]
    by (intro rewritten_passes [OF assms(1,3)])
      (simp_all add: effect_frame)
  with assms s show ?thesis by (simp add: checkOut_def)
qed

lemma markNoShow_result:
  assumes "db_ok d" "known_user d u" "lockBooking k d = Some b" "canMarkNoShow b (clock e)"
  shows "markNoShow u k e d = Inr (notify_booking (rewritten (no_show_changes (clock e) u) e d b))"
proof -
  note l = lockBooking_SomeD [OF assms(1,3)]
  have s: "b_status b = CONFIRMED" "booking_end b \<le> clock e"
    using assms(4) action_predicates(4) [OF l(7)] by simp_all
  have n: "\<not> before_ms (clock e) (bookingEndMs b)" using s action_predicates(6) [OF l(7)] by simp
  have "update_and_reload (b_id b) (no_show_changes (clock e) u) e d =
      Inr (rewritten (no_show_changes (clock e) u) e d b)"
    using l(4,6) assms(2) s no_show_rules [OF l(5) s]
    by (intro rewritten_passes [OF assms(1,3)])
      (simp_all add: effect_frame)
  with assms s n show ?thesis by (simp add: markNoShow_def)
qed

lemma cancel_result:
  assumes "db_ok d" "lockStudentBooking u k d = Some b" "canCancel b (clock e)"
  shows "cancel u k e d = Inr (notify_booking (rewritten (cancel_changes (clock e)) e d b))"
proof -
  have lb: "lockBooking k d = Some b" using assms(1,2) by (simp add: lockStudentBooking_lock)
  note l = lockBooking_SomeD [OF assms(1) lb]
  have s: "b_status b \<in> {PENDING, CONFIRMED}" "b_checkInRequestedAt b = None"
    using assms(3) by (auto simp: canCancel_def)
  have "update_and_reload (b_id b) (cancel_changes (clock e)) e d =
      Inr (rewritten (cancel_changes (clock e)) e d b)"
    using l(4,6) s cancelled_rules [OF l(5) s]
    by (intro rewritten_passes [OF assms(1) lb])
      (auto simp: effect_frame)
  with assms show ?thesis by (simp add: cancel_def)
qed

end
