(* ===== verification/BookingCreation.thy ===== *)
theory BookingCreation
  imports BookingRules
begin

text \<open>
  Creating a booking: the row that is written obeys every constraint but the exclusion, and the
  exclusion is the overlap with a blocking booking of that resource and date. From this, exactly
  when creation succeeds.
\<close>

section \<open>Whole hours as texts\<close>

lemma hour_text_shape:
  assumes "h < 24"
  shows "length (hour_text h) = 5" "clock_pattern (hour_text h)"
    "js_slice 0 5 (hour_text h) = hour_text h"
    "js_slice 0 5 (time_text (hour_text h)) = hour_text h"
    "drop 5 (time_text (hour_text h)) = '':00''" "pg_time (time_text (hour_text h))"
    "sql_time (time_text (hour_text h)) = 3600 * int h" "whole_hour (time_text (hour_text h))"
    "sql_time (hour_text h) = 3600 * int h"
proof -
  show l: "length (hour_text h) = 5" by (rule hour_text_chars [OF assms]) simp
  show c: "clock_pattern (hour_text h)"
    by (rule hour_pattern_clock [OF hour_text_pattern [OF assms]])
  show "js_slice 0 5 (hour_text h) = hour_text h" using l by simp
  show s: "js_slice 0 5 (time_text (hour_text h)) = hour_text h" using l by (simp add: time_text_def)
  show d: "drop 5 (time_text (hour_text h)) = '':00''" using l by (simp add: time_text_def)
  show "pg_time (time_text (hour_text h))"
    unfolding pg_time_def s d using c by (simp add: is_digit_def digit_val_def)
  have m: "minute_time (time_text (hour_text h))" unfolding minute_time_def s d using c by simp
  show "sql_time (time_text (hour_text h)) = 3600 * int h"
    unfolding minute_time_sql [OF m] s clock_minutes_hour [OF assms] by simp
  then show "whole_hour (time_text (hour_text h))" by (simp add: whole_hour_def)
  have m': "minute_time (hour_text h)" by (rule minute_time_clock [OF c])
  have "js_slice 0 5 (hour_text h) = hour_text h" using l by simp
  then show "sql_time (hour_text h) = 3600 * int h"
    unfolding minute_time_sql [OF m'] by (simp add: clock_minutes_hour [OF assms])
qed

lemma hour_text_less:
  "h < 24 \<Longrightarrow> k < 24 \<Longrightarrow> hour_text h < hour_text k \<longleftrightarrow> h < k"
  by (simp add: clock_less_iff hour_text_shape(2) clock_minutes_hour)

lemma hour_text_le:
  "h < 24 \<Longrightarrow> k < 24 \<Longrightarrow> hour_text h \<le> hour_text k \<longleftrightarrow> h \<le> k"
  by (simp add: clock_le_iff hour_text_shape(2) clock_minutes_hour)

text \<open>The hours of a stored resource and of a stored booking.\<close>

lemma resource_hours:
  assumes "resource_typed r" "resource_rules r"
  obtains a b where "a < 24" "b < 24" "a < b" "b \<le> 23"
    "js_slice 0 5 (r_opensAt r) = hour_text a" "js_slice 0 5 (r_closesAt r) = hour_text b"
    "sql_time (r_opensAt r) = 3600 * int a" "sql_time (r_closesAt r) = 3600 * int b"
    "js_number (js_slice 0 2 (r_opensAt r)) = a" "js_number (js_slice 0 2 (r_closesAt r)) = b"
proof -
  have t: "pg_time (r_opensAt r)" "pg_time (r_closesAt r)"
    and w: "whole_hour (r_opensAt r)" "whole_hour (r_closesAt r)"
    and o: "sql_time (r_opensAt r) < sql_time (r_closesAt r)" "sql_time (r_closesAt r) \<le> 82800"
    using assms
    by (simp_all add: resource_typed_def resource_rules_def violated_check_None resource_checks_def)
  obtain a where a: "a < 24" "js_slice 0 5 (r_opensAt r) = hour_text a"
    "sql_time (r_opensAt r) = 3600 * int a" "js_number (js_slice 0 2 (r_opensAt r)) = a"
    using whole_hour_text [OF t(1) w(1)] .
  obtain b where b: "b < 24" "js_slice 0 5 (r_closesAt r) = hour_text b"
    "sql_time (r_closesAt r) = 3600 * int b" "js_number (js_slice 0 2 (r_closesAt r)) = b"
    using whole_hour_text [OF t(2) w(2)] .
  show ?thesis using a b o by (intro that [of a b]) auto
qed

lemma booking_hours:
  assumes "sound_booking b"
  obtains h k where "h < 24" "k < 24" "h < k"
    "js_slice 0 5 (b_startTime b) = hour_text h" "js_slice 0 5 (b_endTime b) = hour_text k"
    "sql_time (b_startTime b) = 3600 * int h" "sql_time (b_endTime b) = 3600 * int k"
proof -
  have t: "pg_time (b_startTime b)" "pg_time (b_endTime b)"
    and w: "whole_hour (b_startTime b)" "whole_hour (b_endTime b)"
    and o: "sql_time (b_startTime b) < sql_time (b_endTime b)"
    using assms by (simp_all add: sound_booking_def booking_typed_def booking_rules_iff)
  obtain h where h: "h < 24" "js_slice 0 5 (b_startTime b) = hour_text h"
    "sql_time (b_startTime b) = 3600 * int h"
    using whole_hour_text [OF t(1) w(1)] .
  obtain k where k: "k < 24" "js_slice 0 5 (b_endTime b) = hour_text k"
    "sql_time (b_endTime b) = 3600 * int k"
    using whole_hour_text [OF t(2) w(2)] .
  show ?thesis using h k o by (intro that [of h k]) auto
qed

section \<open>The request\<close>

text \<open>The decorators of \<open>CreateBookingDto\<close> on the date and the times.\<close>

definition create_booking_dto_valid :: "(string \<Rightarrow> bool) \<Rightarrow> (string \<Rightarrow> bool) \<Rightarrow> create_booking_dto \<Rightarrow> bool" where
  "create_booking_dto_valid isUUID isDateString dto \<longleftrightarrow>
     isUUID (cb_resourceId dto) \<and> date_pattern (cb_date dto) \<and> isDateString (cb_date dto) \<and>
     hour_pattern (cb_startTime dto) \<and> hour_pattern (cb_endTime dto)"

definition well_formed_request :: "create_booking_dto \<Rightarrow> bool" where
  "well_formed_request dto \<longleftrightarrow>
     date_pattern (cb_date dto) \<and> hour_pattern (cb_startTime dto) \<and> hour_pattern (cb_endTime dto)"

lemma well_formed_requestE:
  assumes "well_formed_request dto"
  obtains h k where "date_pattern (cb_date dto)" "h < 24" "k < 24"
    "cb_startTime dto = hour_text h" "cb_endTime dto = hour_text k"
  using assms unfolding well_formed_request_def by (metis hour_pattern_text)

lemma requireValidRequest_None:
  "requireValidRequest dto now = None \<longleftrightarrow>
     real_date (cb_date dto) \<and> cb_startTime dto < cb_endTime dto \<and>
     isFutureCampusTime (cb_date dto) (cb_startTime dto) now"
  by (auto simp: requireValidRequest_def)

lemma requireOperationalAvailability_None:
  "requireOperationalAvailability r dto = None \<longleftrightarrow>
     r_status r = ACTIVE \<and> dayOfWeekFor (cb_date dto) \<in> set (r_operatingDays r) \<and>
     js_slice 0 5 (r_opensAt r) \<le> cb_startTime dto \<and> cb_endTime dto \<le> js_slice 0 5 (r_closesAt r)"
  by (auto simp: requireOperationalAvailability_def not_less)

text \<open>The booking the rest of the schedule is compared with: its interval on the requested date.\<close>

definition taken :: "db \<Rightarrow> string \<Rightarrow> create_booking_dto \<Rightarrow> bool" where
  "taken d resourceId dto \<longleftrightarrow>
     (\<exists>b\<in>set (bookings d). b_resourceId b = resourceId \<and> blocking (b_status b) \<and>
        b_date b = cb_date dto \<and> normalizeTime (b_startTime b) < cb_endTime dto \<and>
        cb_startTime dto < normalizeTime (b_endTime b))"

definition bookable :: "db \<Rightarrow> resource \<Rightarrow> create_booking_dto \<Rightarrow> int \<Rightarrow> bool" where
  "bookable d r dto now \<longleftrightarrow>
     requireValidRequest dto now = None \<and> requireOperationalAvailability r dto = None \<and>
     \<not> closed_on d (r_id r) (cb_date dto) \<and> \<not> taken d (r_id r) dto"

section \<open>The new row\<close>

lemma new_booking_rules:
  assumes "cb_startTime dto = hour_text h" "cb_endTime dto = hour_text k" "h < k" "k \<le> 23" "pg_date (cb_date dto)"
  shows "booking_rules (booking_columns (new_booking r u dto e))"
    "booking_typed (booking_columns (new_booking r u dto e))"
proof -
  have hk: "h < 24" "k < 24" using assms by simp_all
  show "booking_rules (booking_columns (new_booking r u dto e))"
    using assms hour_text_shape(7,8) [OF hk(1)] hour_text_shape(7,8) [OF hk(2)]
    by (simp add: booking_rules_iff booking_check_defs booking_columns_def new_booking_def)
  show "booking_typed (booking_columns (new_booking r u dto e))"
    using assms hour_text_shape(6) [OF hk(1)] hour_text_shape(6) [OF hk(2)]
    by (simp add: booking_typed_def booking_columns_def new_booking_def)
qed

lemma new_booking_clash:
  assumes "sound_booking b" "cb_startTime dto = hour_text h" "cb_endTime dto = hour_text k" "h < k" "k \<le> 23"
    "pg_date (cb_date dto)"
  shows "booking_clash (booking_columns (new_booking r u dto e)) b \<longleftrightarrow>
    b_resourceId b = r_id r \<and> blocking (b_status b) \<and> b_date b = cb_date dto \<and>
    normalizeTime (b_startTime b) < cb_endTime dto \<and> cb_startTime dto < normalizeTime (b_endTime b)"
proof -
  let ?n = "booking_columns (new_booking r u dto e)"
  have hk: "h < 24" "k < 24" using assms by simp_all
  obtain p q where b: "p < 24" "q < 24" "p < q" "js_slice 0 5 (b_startTime b) = hour_text p"
    "js_slice 0 5 (b_endTime b) = hour_text q" "sql_time (b_startTime b) = 3600 * int p"
    "sql_time (b_endTime b) = 3600 * int q"
    using booking_hours [OF assms(1)] .
  have n: "b_date ?n = cb_date dto" "sql_time (b_startTime ?n) = 3600 * int h"
    "sql_time (b_endTime ?n) = 3600 * int k" "blocking (b_status ?n)" "b_resourceId ?n = r_id r"
    using assms hour_text_shape(7) [OF hk(1)] hour_text_shape(7) [OF hk(2)]
    by (simp_all add: booking_columns_def new_booking_def blocking_def)
  have typed: "booking_typed b" "booking_typed ?n"
    using assms(1) new_booking_rules(2) [OF assms(2-6)] by (simp_all add: sound_booking_def)
  show ?thesis
  proof (cases "b_date b = cb_date dto")
    case True
    have "periods_overlap (booking_period ?n) (booking_period b) \<longleftrightarrow> h < q \<and> p < k"
      using periods_overlap_same_date [of ?n b] n b assms(4) True by simp
    with True n b hk show ?thesis
      by (auto simp: booking_clash_def assms(2,3) normalizeTime_def hour_text_less simp del: js_slice_0)
  next
    case False
    then have "\<not> periods_overlap (booking_period ?n) (booking_period b)"
      using periods_other_date [OF typed(2,1)] n by simp
    with False show ?thesis by (simp add: booking_clash_def)
  qed
qed

text \<open>With a fresh identifier and a known requester, only an overlap can stop the insert.\<close>

lemma insert_new_booking:
  assumes d: "db_ok d" and r: "r \<in> set (resources d)" and u: "known_user d u"
    and fresh: "fresh_id e \<notin> ids b_id (bookings d)" and wf: "well_formed_request dto"
    and date: "real_date (cb_date dto)" and order: "cb_startTime dto < cb_endTime dto"
    and closes: "cb_endTime dto \<le> js_slice 0 5 (r_closesAt r)"
  shows "insert_booking (new_booking r u dto e) d =
    (if taken d (r_id r) dto then Inl (QueryFailedError ''23P01'' ''EXCL_bookings_resource_period_blocking'')
     else Inr (d\<lparr>bookings := bookings d @ [booking_columns (new_booking r u dto e)]\<rparr>))"
proof -
  obtain h k where hk: "date_pattern (cb_date dto)" "h < 24" "k < 24"
    "cb_startTime dto = hour_text h" "cb_endTime dto = hour_text k"
    using wf by (rule well_formed_requestE)
  have "h < k" using order hk hour_text_less by simp
  have rok: "resource_ok d r" using d r by (auto simp: db_ok_def dest: table_inv_ok)
  then obtain b where "b < 24" "b \<le> 23" "js_slice 0 5 (r_closesAt r) = hour_text b"
    using resource_hours [of r] unfolding resource_ok_def by metis
  then have "k \<le> 23" using closes hk hour_text_le [of k b] by simp
  have pd: "pg_date (cb_date dto)" by (rule real_date_pg [OF hk(1) date])
  let ?n = "booking_columns (new_booking r u dto e)"
  note rules = new_booking_rules [OF hk(4,5) \<open>h < k\<close> \<open>k \<le> 23\<close> pd, of r u e]
  have known: "booking_users_known d ?n"
    using u by (simp add: booking_users_known_def booking_columns_def new_booking_def null_or_in_def known_user_def Let_def)
  have res: "b_resourceId ?n \<in> ids r_id (resources d)"
    using r by (simp add: booking_columns_def new_booking_def ids_def)
  have ok: "booking_ok d ?n" using rules known res by (simp add: booking_ok_def)
  have id: "b_id ?n = fresh_id e" by (simp add: booking_columns_def new_booking_def)
  have clash: "(\<exists>b\<in>set (bookings d). booking_clash ?n b) \<longleftrightarrow> taken d (r_id r) dto"
    using new_booking_clash [OF db_booking_sound [OF d] hk(4,5) \<open>h < k\<close> \<open>k \<le> 23\<close> pd, of _ r u e]
    by (auto simp: taken_def)
  show ?thesis
  proof (cases "taken d (r_id r) dto")
    case True
    then have "booking_violation d ?n (bookings d) =
        Some (QueryFailedError ''23P01'' ''EXCL_bookings_resource_period_blocking'')"
      using clash rules fresh id
      by (simp add: booking_violation_def booking_rules_def Let_def)
    with True show ?thesis by (simp add: insert_booking_def insert_row_def)
  next
    case False
    then have "booking_violation d ?n (bookings d) = None"
      using clash ok fresh id by (simp add: booking_violation_None ids_def)
    with False show ?thesis by (simp add: insert_booking_def insert_row_def)
  qed
qed

section \<open>The outcome of creation\<close>

lemma create_booking_cases:
  assumes d: "db_ok d" and u: "known_user d u" and fresh: "fresh_id e \<notin> ids b_id (bookings d)"
    and wf: "well_formed_request dto"
    and r: "row_at r_id (sql_uuid (cb_resourceId dto)) (resources d) = Some r"
  shows "create_booking u dto e d =
    (case requireValidRequest dto (clock e) of
       Some err \<Rightarrow> Inl err
     | None \<Rightarrow>
    (case requireOperationalAvailability r dto of
       Some err \<Rightarrow> Inl err
     | None \<Rightarrow>
     if closed_on d (r_id r) (cb_date dto)
     then Inl (BookingDomainError RESOURCE_UNAVAILABLE ''The resource is closed on the selected date'')
     else if taken d (r_id r) dto
     then Inl (BookingDomainError BOOKING_OVERLAP ''The selected time overlaps another booking'')
     else Inr (new_booking r u dto e,
       d\<lparr>bookings := bookings d @ [booking_columns (new_booking r u dto e)]\<rparr>,
       [AvailabilityChanged (r_id r) (cb_date dto)])))"
proof (cases "requireValidRequest dto (clock e)")
  case (Some err)
  then show ?thesis by (simp add: create_booking_def)
next
  case None
  note v = this
  have mem: "r \<in> set (resources d)" using r by (auto dest: row_at_SomeD)
  show ?thesis
  proof (cases "requireOperationalAvailability r dto")
    case (Some err)
    with v r show ?thesis by (simp add: create_booking_def)
  next
    case None
    have "insert_booking (new_booking r u dto e) d =
      (if taken d (r_id r) dto then Inl (QueryFailedError ''23P01'' ''EXCL_bookings_resource_period_blocking'')
       else Inr (d\<lparr>bookings := bookings d @ [booking_columns (new_booking r u dto e)]\<rparr>))"
      using v None
      by (intro insert_new_booking [OF d mem u fresh wf])
        (simp_all add: requireValidRequest_None requireOperationalAvailability_None del: js_slice_0)
    moreover have "b_resourceId (new_booking r u dto e) = r_id r" "b_date (new_booking r u dto e) = cb_date dto"
      by (simp_all add: new_booking_def)
    ultimately show ?thesis
      using v None r by (simp add: create_booking_def map_create_error_def Let_def)
  qed
qed

lemma create_booking_succeeds:
  assumes "db_ok d" "known_user d u" "fresh_id e \<notin> ids b_id (bookings d)" "well_formed_request dto"
  shows "succeeds (create_booking u dto e d) \<longleftrightarrow>
    (\<exists>r. row_at r_id (sql_uuid (cb_resourceId dto)) (resources d) = Some r \<and> bookable d r dto (clock e))"
proof (cases "row_at r_id (sql_uuid (cb_resourceId dto)) (resources d)")
  case None
  then show ?thesis by (simp add: create_booking_def split: option.splits)
next
  case (Some r)
  then show ?thesis
    using create_booking_cases [OF assms Some] by (auto simp: bookable_def split: option.splits)
qed

end
