(* ===== verification/Resources.thy ===== *)
theory Resources
  imports BookingCreation "HOL-Library.Sublist"
begin

text \<open>
  The resource service (resources/resources.service.ts): discovery, the administration of
  resources and closures, and the guard that keeps a change from stranding active bookings.
  The sort order of texts is the database's collation, a parameter: \<open>collate\<close> maps a text to
  its sort key.
\<close>

section \<open>Requests\<close>

datatype resource_sort = NAME_ASC | CAPACITY_ASC | CAPACITY_DESC

record discover_query =
  dq_q :: "string option"
  dq_buildingId :: "string option"
  dq_type :: "resource_type option"
  dq_minCapacity :: "int option"
  dq_amenity :: "string option"
  dq_date :: "string option"
  dq_startTime :: "string option"
  dq_endTime :: "string option"
  dq_sort :: resource_sort
  dq_page :: nat
  dq_pageSize :: nat

record create_resource_dto =
  cr_code :: string
  cr_name :: string
  cr_description :: "string option"
  cr_type :: resource_type
  cr_capacity :: int
  cr_location :: string
  cr_amenities :: "string list option"
  cr_requiresApproval :: "bool option"
  cr_operatingDays :: "int list option"
  cr_opensAt :: "string option"
  cr_closesAt :: "string option"
  cr_buildingId :: string

text \<open>
  A property of a partial body: absent, \<open>null\<close>, or a value. \<open>IsOptional\<close> lets \<open>null\<close> through
  unvalidated.
\<close>

datatype 'a field = Undefined | Null | Val 'a

fun value_or :: "'a field \<Rightarrow> 'a \<Rightarrow> 'a" where
  "value_or (Val x) y = x"
| "value_or Null y = y"
| "value_or Undefined y = y"

record update_resource_dto =
  ur_code :: "string field"
  ur_name :: "string field"
  ur_description :: "string field"
  ur_type :: "resource_type field"
  ur_capacity :: "int field"
  ur_location :: "string field"
  ur_amenities :: "string list field"
  ur_requiresApproval :: "bool field"
  ur_operatingDays :: "int list field"
  ur_opensAt :: "string field"
  ur_closesAt :: "string field"
  ur_buildingId :: "string field"

record create_closure_dto =
  cc_date :: string
  cc_reason :: string

section \<open>Checks\<close>

definition requireValidDate :: "string \<Rightarrow> app_error option" where
  "requireValidDate date = (if real_date date then None else Some InvalidAvailabilityDateError)"

definition requireValidInterval :: "string \<Rightarrow> string \<Rightarrow> string \<Rightarrow> app_error option" where
  "requireValidInterval date startTime endTime =
     (case requireValidDate date of
        Some err \<Rightarrow> Some err
      | None \<Rightarrow> if startTime \<ge> endTime then Some InvalidAvailabilityRangeError else None)"

definition requireValidOperatingHours :: "string \<Rightarrow> string \<Rightarrow> app_error option" where
  "requireValidOperatingHours opensAt closesAt =
     (if normalizeTime opensAt \<ge> normalizeTime closesAt then Some InvalidOperatingHoursError else None)"

text \<open>\<open>existsBy({ id })\<close>; a \<open>null\<close> in a find condition is dropped, so that any row will do.\<close>

definition requireBuilding :: "string field \<Rightarrow> db \<Rightarrow> app_error option" where
  "requireBuilding k d =
     (if (case k of Val i \<Rightarrow> sql_uuid i \<in> ids bl_id (buildings d) | _ \<Rightarrow> buildings d \<noteq> [])
      then None else Some BuildingNotFoundError)"

section \<open>Searching\<close>

text \<open>\<open>value.replace(/[\\%_]/g, c => `\\${c}`)\<close>\<close>

definition escapeLike :: "string \<Rightarrow> string" where
  "escapeLike s = concat (map (\<lambda>c. if c \<in> {CHR 0x5C, CHR ''%'', CHR ''_''} then [CHR 0x5C, c] else [c]) s)"

text \<open>SQL \<open>LIKE\<close> with the escape character backslash; \<open>ILIKE\<close> folds case on both sides.\<close>

fun like_match :: "string \<Rightarrow> string \<Rightarrow> bool" where
  "like_match [] t \<longleftrightarrow> t = []"
| "like_match (c # p) [] \<longleftrightarrow> c = CHR ''%'' \<and> like_match p []"
| "like_match (c # p) (y # t) \<longleftrightarrow>
     (if c = CHR ''%'' then like_match p (y # t) \<or> like_match (c # p) t
      else if c = CHR ''_'' then like_match p t
      else if c = CHR 0x5C then (case p of [] \<Rightarrow> False | x # p' \<Rightarrow> y = x \<and> like_match p' t)
      else y = c \<and> like_match p t)"

definition ilike :: "string \<Rightarrow> string \<Rightarrow> bool" where
  "ilike t p \<longleftrightarrow> like_match (js_lower p) (js_lower t)"

definition matches_search :: "string \<Rightarrow> resource \<Rightarrow> building \<Rightarrow> bool" where
  "matches_search q r bl \<longleftrightarrow>
     (let p = ''%'' @ escapeLike q @ ''%'' in
      ilike (r_name r) p \<or> ilike (r_code r) p \<or> ilike (r_location r) p \<or>
      ilike (bl_name bl) p \<or> ilike (bl_code bl) p)"

definition truthy :: "string option \<Rightarrow> string option" where
  "truthy s = (case s of Some [] \<Rightarrow> None | _ \<Rightarrow> s)"

definition opt_holds :: "'a option \<Rightarrow> ('a \<Rightarrow> bool) \<Rightarrow> bool" where
  "opt_holds x P = (case x of None \<Rightarrow> True | Some v \<Rightarrow> P v)"

text \<open>The interval of a query, when it has all three parts.\<close>

definition query_interval :: "discover_query \<Rightarrow> (string \<times> string \<times> string) option" where
  "query_interval q =
     (case (truthy (dq_date q), truthy (dq_startTime q), truthy (dq_endTime q)) of
        (Some date, Some s, Some e) \<Rightarrow> Some (date, s, e)
      | _ \<Rightarrow> None)"

definition available_in :: "db \<Rightarrow> resource \<Rightarrow> string \<times> string \<times> string \<Rightarrow> bool" where
  "available_in d r iv \<longleftrightarrow>
     (case iv of (date, startTime, endTime) \<Rightarrow>
        dayOfWeekFor date \<in> set (r_operatingDays r) \<and>
        sql_time (r_opensAt r) \<le> sql_time startTime \<and> sql_time endTime \<le> sql_time (r_closesAt r) \<and>
        \<not> (\<exists>c\<in>set (closures d). c_resourceId c = r_id r \<and> sql_date (c_date c) = sql_date date) \<and>
        \<not> (\<exists>b\<in>set (bookings d). b_resourceId b = r_id r \<and> sql_date (b_date b) = sql_date date \<and>
             b_status b \<in> {PENDING, CONFIRMED, CHECKED_IN} \<and>
             sql_time (b_startTime b) < sql_time endTime \<and> sql_time startTime < sql_time (b_endTime b)))"

definition discover_where :: "discover_query \<Rightarrow> db \<Rightarrow> resource \<Rightarrow> bool" where
  "discover_where q d r \<longleftrightarrow>
     (case row_at bl_id (r_buildingId r) (buildings d) of
        None \<Rightarrow> False
      | Some bl \<Rightarrow>
          r_status r = ACTIVE \<and>
          opt_holds (truthy (dq_q q)) (\<lambda>s. matches_search s r bl) \<and>
          opt_holds (truthy (dq_buildingId q)) (\<lambda>i. r_buildingId r = sql_uuid i) \<and>
          opt_holds (dq_type q) (\<lambda>t. r_type r = t) \<and>
          opt_holds (dq_minCapacity q) (\<lambda>n. n \<le> r_capacity r) \<and>
          opt_holds (truthy (dq_amenity q)) (\<lambda>a. a \<in> set (r_amenities r)) \<and>
          opt_holds (query_interval q) (available_in d r))"

definition discover_order :: "(string \<Rightarrow> string) \<Rightarrow> resource_sort \<Rightarrow> resource \<Rightarrow> resource \<Rightarrow> int" where
  "discover_order collate s =
     cmp_then
       (case s of
          CAPACITY_ASC \<Rightarrow> cmp_by r_capacity
        | CAPACITY_DESC \<Rightarrow> cmp_desc (cmp_by r_capacity)
        | NAME_ASC \<Rightarrow> cmp_by (\<lambda>r. collate (r_name r)))
       (cmp_by (\<lambda>r. collate (r_code r)))"

definition discoverFrom :: "(string \<Rightarrow> string) \<Rightarrow> discover_query \<Rightarrow> db \<Rightarrow> resource list \<times> nat" where
  "discoverFrom collate q d =
     (let rows = filter (discover_where q d) (resources d)
      in (page_rows (dq_page q) (dq_pageSize q) (sort_cmp (discover_order collate (dq_sort q)) rows),
          length rows))"

definition discover ::
  "(string \<Rightarrow> string) \<Rightarrow> discover_query \<Rightarrow> env \<Rightarrow> db \<Rightarrow> (app_error, resource list \<times> nat) outcome" where
  "discover collate q e d =
     (case query_interval q of
        None \<Rightarrow> Inr (discoverFrom collate q d)
      | Some (date, startTime, endTime) \<Rightarrow>
          (case requireValidInterval date startTime endTime of
             Some err \<Rightarrow> Inl err
           | None \<Rightarrow>
               if \<not> isFutureCampusTime date startTime (clock e) then Inr ([], 0)
               else Inr (discoverFrom collate q d)))"

section \<open>Reading\<close>

definition page_order :: "(string \<Rightarrow> string) \<Rightarrow> resource \<Rightarrow> resource \<Rightarrow> int" where
  "page_order collate =
     cmp_then (cmp_by (\<lambda>r. collate (r_name r)))
       (cmp_then (cmp_by (\<lambda>r. collate (r_code r))) (cmp_by r_id))"

definition findPage :: "(string \<Rightarrow> string) \<Rightarrow> nat \<Rightarrow> nat \<Rightarrow> db \<Rightarrow> resource list \<times> nat" where
  "findPage collate page pageSize d =
     (page_rows page pageSize (sort_cmp (page_order collate) (resources d)), length (resources d))"

definition findBuildings :: "(string \<Rightarrow> string) \<Rightarrow> db \<Rightarrow> building list" where
  "findBuildings collate d = sort_cmp (cmp_by (\<lambda>bl. collate (bl_name bl))) (buildings d)"

definition findDiscoverableById :: "string \<Rightarrow> db \<Rightarrow> resource option" where
  "findDiscoverableById k d = find (\<lambda>r. r_id r = sql_uuid k \<and> r_status r = ACTIVE) (resources d)"

definition findResourceById :: "string \<Rightarrow> db \<Rightarrow> resource option" where
  "findResourceById k d = row_at r_id (sql_uuid k) (resources d)"

definition findBlockingBookings :: "string \<Rightarrow> string \<Rightarrow> db \<Rightarrow> booking list" where
  "findBlockingBookings k date d =
     sort_cmp (cmp_by (\<lambda>b. sql_time (b_startTime b)))
       (filter (\<lambda>b. b_resourceId b = sql_uuid k \<and> sql_date (b_date b) = sql_date date \<and>
          (b_status b = PENDING \<or> b_status b = CONFIRMED \<or> b_status b = CHECKED_IN)) (bookings d))"

definition find_closure_on :: "string \<Rightarrow> string \<Rightarrow> db \<Rightarrow> closure option" where
  "find_closure_on k date d =
     find (\<lambda>c. c_resourceId c = sql_uuid k \<and> sql_date (c_date c) = sql_date date) (closures d)"

record availability_snapshot =
  sn_resource :: resource
  sn_closure :: "closure option"
  sn_bookings :: "booking list"

definition findAvailabilitySnapshot ::
  "string \<Rightarrow> string \<Rightarrow> db \<Rightarrow> (app_error, availability_snapshot option) outcome" where
  "findAvailabilitySnapshot k date d =
     (case requireValidDate date of
        Some err \<Rightarrow> Inl err
      | None \<Rightarrow>
          (case findResourceById k d of
             None \<Rightarrow> Inr None
           | Some r \<Rightarrow> Inr (Some \<lparr>sn_resource = r, sn_closure = find_closure_on k date d,
               sn_bookings = findBlockingBookings k date d\<rparr>)))"

definition findClosure :: "string \<Rightarrow> string \<Rightarrow> db \<Rightarrow> (app_error, closure option) outcome" where
  "findClosure k date d =
     (case requireValidDate date of
        Some err \<Rightarrow> Inl err
      | None \<Rightarrow> Inr (find_closure_on k date d))"

definition findClosures :: "string \<Rightarrow> db \<Rightarrow> closure list" where
  "findClosures k d =
     sort_cmp (cmp_by (\<lambda>c. sql_date (c_date c))) (filter (\<lambda>c. c_resourceId c = sql_uuid k) (closures d))"

section \<open>Bookings a change would strand\<close>

definition MAX_LISTED_CONFLICTS :: nat where
  "MAX_LISTED_CONFLICTS = 10"

definition reviewable_status :: "booking_status \<Rightarrow> bool" where
  "reviewable_status s \<longleftrightarrow> s = PENDING \<or> s = CONFIRMED"

definition blocking_status :: "booking_status \<Rightarrow> bool" where
  "blocking_status s \<longleftrightarrow> reviewable_status s \<or> s = CHECKED_IN"

definition ends_after_now :: "int \<Rightarrow> booking \<Rightarrow> bool" where
  "ends_after_now now b \<longleftrightarrow> sql_after_now (b_date b) (b_endTime b) now"

definition bookingCount :: "nat \<Rightarrow> string" where
  "bookingCount n = js_string n @ '' active booking'' @ (if n = 1 then '''' else ''s'')"

definition conflict_order :: "booking \<Rightarrow> booking \<Rightarrow> int" where
  "conflict_order =
     cmp_then (cmp_by (\<lambda>b. sql_date (b_date b)))
       (cmp_then (cmp_by (\<lambda>b. sql_time (b_startTime b))) (cmp_by b_id))"

definition conflict_summary_of :: "booking \<Rightarrow> conflict_summary" where
  "conflict_summary_of b =
     \<lparr>cs_id = b_id b, cs_date = b_date b, cs_startTime = normalizeTime (b_startTime b),
      cs_endTime = normalizeTime (b_endTime b), cs_status = b_status b\<rparr>"

definition requireNoActiveBookings ::
  "db \<Rightarrow> string \<Rightarrow> (booking \<Rightarrow> bool) \<Rightarrow> (nat \<Rightarrow> string) \<Rightarrow> app_error option" where
  "requireNoActiveBookings d resourceId condition message =
     (let rows = filter (\<lambda>b. b_resourceId b = resourceId \<and> condition b) (bookings d);
          n = length rows
      in if n = 0 then None
         else Some (ResourceHasActiveBookingsError (message n) n
           (map conflict_summary_of (take MAX_LISTED_CONFLICTS (sort_cmp conflict_order rows)))))"

section \<open>Writing resources\<close>

definition rethrowPersistenceError :: "app_error \<Rightarrow> app_error" where
  "rethrowPersistenceError err =
     (if err = QueryFailedError ''23505'' ''IDX_resources_code'' then ResourceCodeAlreadyExistsError
      else if err = QueryFailedError ''23503'' ''FK_resources_building_id'' then BuildingNotFoundError
      else if err = QueryFailedError ''23514'' ''CHK_resources_operating_hours_order'' \<or>
              err = QueryFailedError ''23514'' ''CHK_resources_operating_hours_whole_hour''
        then InvalidOperatingHoursError
      else err)"

text \<open>\<open>value || null\<close> on a text\<close>

definition or_null :: "string option \<Rightarrow> string option" where
  "or_null s = truthy s"

definition new_resource :: "create_resource_dto \<Rightarrow> env \<Rightarrow> resource" where
  "new_resource dto e =
     \<lparr>r_id = fresh_id e, r_code = cr_code dto, r_name = cr_name dto,
      r_description = or_null (cr_description dto), r_type = cr_type dto, r_status = ACTIVE,
      r_capacity = cr_capacity dto, r_location = cr_location dto,
      r_amenities = case_option [] id (cr_amenities dto),
      r_requiresApproval = case_option False id (cr_requiresApproval dto),
      r_operatingDays = case_option [1, 2, 3, 4, 5, 6] id (cr_operatingDays dto),
      r_opensAt = case_option ''08:00'' id (cr_opensAt dto),
      r_closesAt = case_option ''18:00'' id (cr_closesAt dto),
      r_buildingId = sql_uuid (cr_buildingId dto), r_createdAt = db_now e, r_updatedAt = db_now e\<rparr>"

definition reload_resource :: "string \<Rightarrow> db \<Rightarrow> (app_error, resource \<times> db) outcome" where
  "reload_resource k d =
     (case row_at r_id k (resources d) of
        None \<Rightarrow> Inl (QueryFailedError ''TypeError'' ''resources'')
      | Some r \<Rightarrow> Inr (r, d))"

definition create_resource ::
  "create_resource_dto \<Rightarrow> env \<Rightarrow> db \<Rightarrow> (app_error, resource effect) outcome" where
  "create_resource dto e d =
     (case requireBuilding (Val (cr_buildingId dto)) d of
        Some err \<Rightarrow> Inl err
      | None \<Rightarrow>
     (case requireValidOperatingHours (case_option ''08:00'' id (cr_opensAt dto))
             (case_option ''18:00'' id (cr_closesAt dto)) of
        Some err \<Rightarrow> Inl err
      | None \<Rightarrow>
     (case insert_resource (new_resource dto e) d of
        Inl err \<Rightarrow> Inl (rethrowPersistenceError err)
      | Inr d' \<Rightarrow> map_sum id (\<lambda>(r, d''). (r, d'', [])) (reload_resource (fresh_id e) d'))))"

text \<open>\<open>[...days].map(Number).sort((l, r) => l - r).join(',')\<close>\<close>

fun join_comma :: "string list \<Rightarrow> string" where
  "join_comma [] = []"
| "join_comma [x] = x"
| "join_comma (x # y # xs) = x @ '','' @ join_comma (y # xs)"

definition daysKey :: "int list \<Rightarrow> string" where
  "daysKey days = join_comma (map (\<lambda>n. js_string (nat n)) (sort_cmp (\<lambda>x y. x - y) days))"

record schedule =
  sd_operatingDays :: "int list"
  sd_opensAt :: string
  sd_closesAt :: string

definition changedSchedule :: "resource \<Rightarrow> update_resource_dto \<Rightarrow> schedule option" where
  "changedSchedule locked dto =
     (let days = value_or (ur_operatingDays dto) (r_operatingDays locked);
          opensAt = normalizeTime (value_or (ur_opensAt dto) (r_opensAt locked));
          closesAt = normalizeTime (value_or (ur_closesAt dto) (r_closesAt locked))
      in if daysKey days \<noteq> daysKey (r_operatingDays locked) \<or>
            opensAt \<noteq> normalizeTime (r_opensAt locked) \<or> closesAt \<noteq> normalizeTime (r_closesAt locked)
         then Some \<lparr>sd_operatingDays = days, sd_opensAt = opensAt, sd_closesAt = closesAt\<rparr>
         else None)"

definition outside_schedule :: "schedule \<Rightarrow> booking \<Rightarrow> bool" where
  "outside_schedule s b \<longleftrightarrow>
     sql_dow (b_date b) \<notin> set (sd_operatingDays s) \<or>
     sql_time (b_startTime b) < sql_time (sd_opensAt s) \<or>
     sql_time (sd_closesAt s) < sql_time (b_endTime b)"

fun set_field :: "'a field \<Rightarrow> 'a \<Rightarrow> 'a" where
  "set_field (Val x) old = x"
| "set_field f old = old"

text \<open>\<open>detailChanges\<close> as the update it makes: present properties replace their columns.\<close>

definition detail_changes :: "update_resource_dto \<Rightarrow> resource \<Rightarrow> resource" where
  "detail_changes dto r =
     r\<lparr>r_code := set_field (ur_code dto) (r_code r),
       r_name := set_field (ur_name dto) (r_name r),
       r_description := (case ur_description dto of
           Undefined \<Rightarrow> r_description r | Null \<Rightarrow> None | Val s \<Rightarrow> or_null (Some s)),
       r_type := set_field (ur_type dto) (r_type r),
       r_capacity := set_field (ur_capacity dto) (r_capacity r),
       r_location := set_field (ur_location dto) (r_location r),
       r_amenities := set_field (ur_amenities dto) (r_amenities r),
       r_requiresApproval := set_field (ur_requiresApproval dto) (r_requiresApproval r),
       r_operatingDays := set_field (ur_operatingDays dto) (r_operatingDays r),
       r_opensAt := set_field (ur_opensAt dto) (r_opensAt r),
       r_closesAt := set_field (ur_closesAt dto) (r_closesAt r),
       r_buildingId := sql_uuid (set_field (ur_buildingId dto) (r_buildingId r))\<rparr>"

text \<open>Whether the update has any column, and whether it sets a mandatory column to \<open>NULL\<close>.\<close>

definition has_changes :: "update_resource_dto \<Rightarrow> bool" where
  "has_changes dto \<longleftrightarrow>
     ur_code dto \<noteq> Undefined \<or> ur_name dto \<noteq> Undefined \<or> ur_description dto \<noteq> Undefined \<or>
     ur_type dto \<noteq> Undefined \<or> ur_capacity dto \<noteq> Undefined \<or> ur_location dto \<noteq> Undefined \<or>
     ur_amenities dto \<noteq> Undefined \<or> ur_requiresApproval dto \<noteq> Undefined \<or>
     ur_operatingDays dto \<noteq> Undefined \<or> ur_opensAt dto \<noteq> Undefined \<or>
     ur_closesAt dto \<noteq> Undefined \<or> ur_buildingId dto \<noteq> Undefined"

definition nulls_column :: "update_resource_dto \<Rightarrow> bool" where
  "nulls_column dto \<longleftrightarrow>
     ur_code dto = Null \<or> ur_name dto = Null \<or> ur_type dto = Null \<or> ur_capacity dto = Null \<or>
     ur_location dto = Null \<or> ur_amenities dto = Null \<or> ur_requiresApproval dto = Null \<or>
     ur_operatingDays dto = Null \<or> ur_opensAt dto = Null \<or> ur_closesAt dto = Null \<or>
     ur_buildingId dto = Null"

definition write_changes :: "update_resource_dto \<Rightarrow> string \<Rightarrow> env \<Rightarrow> db \<Rightarrow> (app_error, db) outcome" where
  "write_changes dto k e d =
     (if \<not> has_changes dto then Inr d
      else if nulls_column dto then Inl (QueryFailedError ''23502'' '''')
      else update_resource k (\<lambda>r. (detail_changes dto r)\<lparr>r_updatedAt := db_now e\<rparr>) d)"

definition update_message :: "nat \<Rightarrow> string" where
  "update_message n =
     ''Resolve '' @ bookingCount n @ '' outside the new operating schedule before saving it.''"

definition update_resource_locked ::
  "resource \<Rightarrow> update_resource_dto \<Rightarrow> env \<Rightarrow> db \<Rightarrow> (app_error, resource \<times> db) outcome" where
  "update_resource_locked locked dto e d =
     (case requireValidOperatingHours (value_or (ur_opensAt dto) (r_opensAt locked))
             (value_or (ur_closesAt dto) (r_closesAt locked)) of
        Some err \<Rightarrow> Inl err
      | None \<Rightarrow>
     (case (case changedSchedule locked dto of
              None \<Rightarrow> None
            | Some s \<Rightarrow> requireNoActiveBookings d (r_id locked)
                (\<lambda>b. reviewable_status (b_status b) \<and> ends_after_now (clock e) b \<and> outside_schedule s b)
                update_message) of
        Some err \<Rightarrow> Inl err
      | None \<Rightarrow>
     (case write_changes dto (r_id locked) e d of
        Inl err \<Rightarrow> Inl err
      | Inr d' \<Rightarrow> reload_resource (r_id locked) d')))"

definition update_resource_details ::
  "resource \<Rightarrow> update_resource_dto \<Rightarrow> env \<Rightarrow> db \<Rightarrow> (app_error, resource effect) outcome" where
  "update_resource_details r dto e d =
     (case (if ur_buildingId dto = Undefined then None else requireBuilding (ur_buildingId dto) d) of
        Some err \<Rightarrow> Inl err
      | None \<Rightarrow>
     (case (case row_at r_id (r_id r) (resources d) of
              None \<Rightarrow> Inl ResourceNotFoundError
            | Some locked \<Rightarrow> update_resource_locked locked dto e d) of
        Inl err \<Rightarrow> Inl (rethrowPersistenceError err)
      | Inr (r', d') \<Rightarrow> Inr (r', d', [ResourceChanged (r_id r')])))"

definition status_message :: "resource_status \<Rightarrow> nat \<Rightarrow> string" where
  "status_message s n =
     ''Resolve '' @ bookingCount n @ '' before setting this resource to '' @ resource_status_text s @ ''.''"

definition updateStatus_resource ::
  "resource \<Rightarrow> resource_status \<Rightarrow> env \<Rightarrow> db \<Rightarrow> (app_error, resource effect) outcome" where
  "updateStatus_resource r status e d =
     (case row_at r_id (r_id r) (resources d) of
        None \<Rightarrow> Inl ResourceNotFoundError
      | Some locked \<Rightarrow>
     (case (if status = ACTIVE then None
            else requireNoActiveBookings d (r_id locked)
              (\<lambda>b. reviewable_status (b_status b) \<and> ends_after_now (clock e) b \<or> b_status b = CHECKED_IN)
              (status_message status)) of
        Some err \<Rightarrow> Inl err
      | None \<Rightarrow>
     (case update_resource (r_id locked) (\<lambda>x. x\<lparr>r_status := status, r_updatedAt := db_now e\<rparr>) d of
        Inl err \<Rightarrow> Inl err
      | Inr d' \<Rightarrow>
          map_sum id (\<lambda>(r', d''). (r', d'', [ResourceChanged (r_id r')])) (reload_resource (r_id locked) d'))))"

section \<open>Closures\<close>

definition closure_message :: "string \<Rightarrow> nat \<Rightarrow> string" where
  "closure_message date n =
     ''Resolve '' @ bookingCount n @ '' before closing this resource on '' @ date @ ''.''"

definition map_closure_error :: "app_error \<Rightarrow> app_error" where
  "map_closure_error err =
     (if err = QueryFailedError ''23505'' ''IDX_resource_closures_resource_date''
      then ResourceClosureAlreadyExistsError else err)"

text \<open>The entity \<open>save\<close> gives back has the identifier as it was passed; the row has it canonical.\<close>

definition createClosure ::
  "string \<Rightarrow> create_closure_dto \<Rightarrow> env \<Rightarrow> db \<Rightarrow> (app_error, closure effect) outcome" where
  "createClosure resourceId dto e d =
     (case requireValidDate (cc_date dto) of
        Some err \<Rightarrow> Inl err
      | None \<Rightarrow>
     (case row_at r_id (sql_uuid resourceId) (resources d) of
        None \<Rightarrow> Inl ResourceNotFoundError
      | Some locked \<Rightarrow>
     (case requireNoActiveBookings d (sql_uuid resourceId)
             (\<lambda>b. sql_date (b_date b) = sql_date (cc_date dto) \<and> blocking_status (b_status b) \<and>
                  ends_after_now (clock e) b)
             (closure_message (cc_date dto)) of
        Some err \<Rightarrow> Inl err
      | None \<Rightarrow>
        let c = \<lparr>c_id = fresh_id e, c_resourceId = resourceId, c_date = cc_date dto,
                 c_reason = cc_reason dto, c_createdAt = db_now e\<rparr> in
        (case insert_closure (c\<lparr>c_resourceId := sql_uuid resourceId\<rparr>) d of
           Inl err \<Rightarrow> Inl (map_closure_error err)
         | Inr d' \<Rightarrow> Inr (c, d', [AvailabilityChanged resourceId (cc_date dto)])))))"

definition deleteClosure ::
  "string \<Rightarrow> string \<Rightarrow> env \<Rightarrow> db \<Rightarrow> (app_error, bool effect) outcome" where
  "deleteClosure resourceId closureId e d =
     (let mine = (\<lambda>c. c_id c = sql_uuid closureId \<and> c_resourceId c = sql_uuid resourceId);
          found = find mine (closures d)
      in case row_at r_id (sql_uuid resourceId) (resources d) of
           None \<Rightarrow> Inl ResourceNotFoundError
         | Some locked \<Rightarrow>
             let deleted = (\<exists>c\<in>set (closures d). mine c) in
             Inr (deleted, delete_closures mine d,
               (case found of
                  Some c \<Rightarrow> if deleted then [AvailabilityChanged resourceId (c_date c)] else []
                | None \<Rightarrow> [])))"

end
