(* ===== verification/BookingApi.thy ===== *)
theory BookingApi
  imports BookingCreation
begin

text \<open>
  The booking endpoints (bookings/bookings.controller.ts, bookings/staff-bookings.controller.ts)
  and their bodies (bookings/dto): what is sent back, and the HTTP error each service error
  becomes. An error that no mapping catches is answered by the framework with status 500.
\<close>

section \<open>HTTP errors\<close>

datatype http_error =
  HttpException nat "booking_error_code option" string
| ActiveBookingsConflict string nat "conflict_summary list"
| InternalServerError app_error

fun http_status :: "http_error \<Rightarrow> nat" where
  "http_status (HttpException n c m) = n"
| "http_status (ActiveBookingsConflict m n cs) = 409"
| "http_status (InternalServerError e) = 500"

type_synonym 'a response = "(http_error, 'a) outcome"
type_synonym 'a served = "(http_error, 'a \<times> db \<times> event list) outcome"

text \<open>\<open>ParseUUIDPipe\<close>: the test of the identifier is the framework's, a parameter.\<close>

definition parse_uuid :: "(string \<Rightarrow> bool) \<Rightarrow> string \<Rightarrow> 'a response \<Rightarrow> 'a response" where
  "parse_uuid isUUID k rest =
     (if isUUID k then rest
      else Inl (HttpException 400 None ''Validation failed (uuid is expected)''))"

section \<open>Bodies\<close>

record booking_response =
  br_id :: string
  br_resourceId :: string
  br_requesterId :: string
  br_date :: string
  br_startTime :: string
  br_endTime :: string
  br_timeZone :: string
  br_status :: booking_status
  br_createdAt :: int

definition booking_response_fromEntity :: "booking \<Rightarrow> booking_response" where
  "booking_response_fromEntity b =
     \<lparr>br_id = b_id b, br_resourceId = b_resourceId b, br_requesterId = b_requesterId b,
      br_date = b_date b, br_startTime = js_slice 0 5 (b_startTime b),
      br_endTime = js_slice 0 5 (b_endTime b), br_timeZone = CAMPUS_TIME_ZONE,
      br_status = b_status b, br_createdAt = b_createdAt b\<rparr>"

record booking_resource_dto =
  rd_id :: string
  rd_code :: string
  rd_name :: string
  rd_type :: string
  rd_location :: string
  rd_buildingCode :: string
  rd_buildingName :: string

definition booking_resource_fromEntity :: "resource \<Rightarrow> building \<Rightarrow> booking_resource_dto" where
  "booking_resource_fromEntity r bl =
     \<lparr>rd_id = r_id r, rd_code = r_code r, rd_name = r_name r, rd_type = resource_type_text (r_type r),
      rd_location = r_location r, rd_buildingCode = bl_code bl, rd_buildingName = bl_name bl\<rparr>"

record student_booking_response =
  sr_id :: string
  sr_date :: string
  sr_startTime :: string
  sr_endTime :: string
  sr_timeZone :: string
  sr_status :: booking_status
  sr_canCancel :: bool
  sr_canRequestCheckIn :: bool
  sr_hasEnded :: bool
  sr_checkInCode :: "string option"
  sr_checkInRequestedAt :: "int option"
  sr_checkedInAt :: "int option"
  sr_checkedOutAt :: "int option"
  sr_noShowAt :: "int option"
  sr_cancelledAt :: "int option"
  sr_reviewedAt :: "int option"
  sr_rejectionReason :: "string option"
  sr_createdAt :: int
  sr_resource :: booking_resource_dto

definition student_booking_fromEntity ::
  "booking \<Rightarrow> booking_resource_dto \<Rightarrow> bool \<Rightarrow> bool \<Rightarrow> bool \<Rightarrow> student_booking_response" where
  "student_booking_fromEntity b res can_cancel can_request ended =
     \<lparr>sr_id = b_id b, sr_date = b_date b, sr_startTime = js_slice 0 5 (b_startTime b),
      sr_endTime = js_slice 0 5 (b_endTime b), sr_timeZone = CAMPUS_TIME_ZONE, sr_status = b_status b,
      sr_canCancel = can_cancel, sr_canRequestCheckIn = can_request, sr_hasEnded = ended,
      sr_checkInCode = b_checkInCode b, sr_checkInRequestedAt = b_checkInRequestedAt b,
      sr_checkedInAt = b_checkedInAt b, sr_checkedOutAt = b_checkedOutAt b, sr_noShowAt = b_noShowAt b,
      sr_cancelledAt = b_cancelledAt b, sr_reviewedAt = b_reviewedAt b,
      sr_rejectionReason = b_rejectionReason b, sr_createdAt = b_createdAt b, sr_resource = res\<rparr>"

record person_dto =
  pd_id :: string
  pd_email :: string
  pd_fullName :: string

definition person_fromEntity :: "user \<Rightarrow> person_dto" where
  "person_fromEntity u = \<lparr>pd_id = u_id u, pd_email = u_email u, pd_fullName = u_fullName u\<rparr>"

record staff_booking_response =
  st_id :: string
  st_date :: string
  st_startTime :: string
  st_endTime :: string
  st_timeZone :: string
  st_status :: booking_status
  st_createdAt :: int
  st_reviewedAt :: "int option"
  st_rejectionReason :: "string option"
  st_canReview :: bool
  st_checkInRequested :: bool
  st_canConfirmCheckIn :: bool
  st_canCheckOut :: bool
  st_canMarkNoShow :: bool
  st_checkedInAt :: "int option"
  st_checkedOutAt :: "int option"
  st_noShowAt :: "int option"
  st_resource :: booking_resource_dto
  st_requester :: person_dto
  st_reviewer :: "person_dto option"

record staff_actions =
  ac_canReview :: bool
  ac_canConfirmCheckIn :: bool
  ac_canCheckOut :: bool
  ac_canMarkNoShow :: bool

definition staff_booking_fromEntity ::
  "booking \<Rightarrow> booking_resource_dto \<Rightarrow> user \<Rightarrow> user option \<Rightarrow> staff_actions \<Rightarrow> staff_booking_response" where
  "staff_booking_fromEntity b res requester reviewer acts =
     \<lparr>st_id = b_id b, st_date = b_date b, st_startTime = js_slice 0 5 (b_startTime b),
      st_endTime = js_slice 0 5 (b_endTime b), st_timeZone = CAMPUS_TIME_ZONE, st_status = b_status b,
      st_createdAt = b_createdAt b, st_reviewedAt = b_reviewedAt b,
      st_rejectionReason = b_rejectionReason b, st_canReview = ac_canReview acts,
      st_checkInRequested = (b_checkInRequestedAt b \<noteq> None),
      st_canConfirmCheckIn = ac_canConfirmCheckIn acts, st_canCheckOut = ac_canCheckOut acts,
      st_canMarkNoShow = ac_canMarkNoShow acts, st_checkedInAt = b_checkedInAt b,
      st_checkedOutAt = b_checkedOutAt b, st_noShowAt = b_noShowAt b, st_resource = res,
      st_requester = person_fromEntity requester, st_reviewer = map_option person_fromEntity reviewer\<rparr>"

section \<open>Relations\<close>

text \<open>
  The joins of a booking. A row whose relation is missing would raise a \<open>TypeError\<close> when its
  body is built, answered with 500.
\<close>

definition missing_relation :: http_error where
  "missing_relation = InternalServerError (QueryFailedError ''TypeError'' ''relation'')"

definition joined_resource :: "db \<Rightarrow> booking \<Rightarrow> booking_resource_dto option" where
  "joined_resource d b =
     (case row_at r_id (b_resourceId b) (resources d) of
        None \<Rightarrow> None
      | Some r \<Rightarrow> map_option (booking_resource_fromEntity r) (row_at bl_id (r_buildingId r) (buildings d)))"

definition joined_user :: "db \<Rightarrow> string option \<Rightarrow> user option" where
  "joined_user d k = (case k of None \<Rightarrow> None | Some i \<Rightarrow> row_at u_id i (users d))"

definition studentResponse :: "db \<Rightarrow> int \<Rightarrow> booking \<Rightarrow> student_booking_response response" where
  "studentResponse d evaluatedAt b =
     (case joined_resource d b of
        None \<Rightarrow> Inl missing_relation
      | Some res \<Rightarrow> Inr (student_booking_fromEntity b res (canCancel b evaluatedAt)
          (canRequestCheckIn b evaluatedAt) (hasEnded b evaluatedAt)))"

definition staffResponse :: "db \<Rightarrow> int \<Rightarrow> booking \<Rightarrow> staff_booking_response response" where
  "staffResponse d evaluatedAt b =
     (case (joined_resource d b, joined_user d (Some (b_requesterId b))) of
        (Some res, Some requester) \<Rightarrow>
          Inr (staff_booking_fromEntity b res requester (joined_user d (b_reviewedById b))
            \<lparr>ac_canReview = canReview b evaluatedAt,
             ac_canConfirmCheckIn = canConfirmCheckIn b evaluatedAt,
             ac_canCheckOut = canCheckOut b,
             ac_canMarkNoShow = canMarkNoShow b evaluatedAt\<rparr>)
      | _ \<Rightarrow> Inl missing_relation)"

text \<open>Mapping a list stops at the first error.\<close>

fun all_responses :: "('a \<Rightarrow> 'b response) \<Rightarrow> 'a list \<Rightarrow> 'b list response" where
  "all_responses f [] = Inr []"
| "all_responses f (x # xs) =
     (case f x of
        Inl e \<Rightarrow> Inl e
      | Inr y \<Rightarrow> (case all_responses f xs of Inl e \<Rightarrow> Inl e | Inr ys \<Rightarrow> Inr (y # ys)))"

section \<open>Error mappings\<close>

definition map_cancel_error :: "app_error \<Rightarrow> http_error" where
  "map_cancel_error err =
     (case err of
        BookingDomainError code message \<Rightarrow>
          if code = BOOKING_NOT_FOUND then HttpException 404 (Some code) message
          else if code = BOOKING_NOT_CANCELLABLE then HttpException 409 (Some code) message
          else InternalServerError err
      | _ \<Rightarrow> InternalServerError err)"

definition map_request_check_in_error :: "app_error \<Rightarrow> http_error" where
  "map_request_check_in_error err =
     (case err of
        BookingDomainError code message \<Rightarrow>
          if code = BOOKING_NOT_FOUND then HttpException 404 (Some code) message
          else if code = CHECK_IN_NOT_AVAILABLE \<or> code = CHECK_IN_ALREADY_REQUESTED
            then HttpException 409 (Some code) message
          else InternalServerError err
      | _ \<Rightarrow> InternalServerError err)"

definition map_create_http_error :: "app_error \<Rightarrow> http_error" where
  "map_create_http_error err =
     (case err of
        BookingDomainError code message \<Rightarrow>
          if code = INVALID_BOOKING_DATE \<or> code = INVALID_BOOKING_RANGE \<or> code = BOOKING_IN_PAST
            then HttpException 400 (Some code) message
          else if code = RESOURCE_NOT_FOUND then HttpException 404 (Some code) message
          else if code = RESOURCE_UNAVAILABLE \<or> code = BOOKING_OVERLAP
            then HttpException 409 (Some code) message
          else InternalServerError err
      | _ \<Rightarrow> InternalServerError err)"

definition mapLifecycleError :: "app_error \<Rightarrow> http_error" where
  "mapLifecycleError err =
     (case err of
        BookingDomainError code message \<Rightarrow>
          if code = BOOKING_NOT_FOUND then HttpException 404 (Some code) message
          else if code = CHECK_IN_NOT_AVAILABLE \<or> code = INVALID_CHECK_IN_CODE \<or>
                  code = BOOKING_NOT_CHECKED_IN \<or> code = NO_SHOW_NOT_AVAILABLE
            then HttpException 409 (Some code) message
          else InternalServerError err
      | _ \<Rightarrow> InternalServerError err)"

definition mapReviewError :: "app_error \<Rightarrow> http_error" where
  "mapReviewError err =
     (case err of
        BookingDomainError code message \<Rightarrow>
          if code = BOOKING_NOT_FOUND then HttpException 404 (Some code) message
          else if code = BOOKING_NOT_PENDING \<or> code = BOOKING_REVIEW_WINDOW_ENDED
            then HttpException 409 (Some code) message
          else InternalServerError err
      | _ \<Rightarrow> InternalServerError err)"

text \<open>Answering an operation: its error mapped, or the body built from its result.\<close>

definition answer ::
  "(app_error \<Rightarrow> http_error) \<Rightarrow> (db \<Rightarrow> booking \<Rightarrow> 'b response) \<Rightarrow>
     (app_error, booking effect) outcome \<Rightarrow> 'b served" where
  "answer map_error body result =
     (case result of
        Inl err \<Rightarrow> Inl (map_error err)
      | Inr (b, d', evs) \<Rightarrow>
          (case body d' b of Inl err \<Rightarrow> Inl err | Inr y \<Rightarrow> Inr (y, d', evs)))"

section \<open>The student endpoints\<close>

definition findMine ::
  "string \<Rightarrow> env \<Rightarrow> db \<Rightarrow> (student_booking_response list \<times> student_booking_response list) response" where
  "findMine requesterId e d =
     (let l = findForStudent requesterId e d in
      case all_responses (studentResponse d (sb_evaluatedAt l)) (sb_upcoming l) of
        Inl err \<Rightarrow> Inl err
      | Inr up \<Rightarrow>
          (case all_responses (studentResponse d (sb_evaluatedAt l)) (sb_history l) of
             Inl err \<Rightarrow> Inl err
           | Inr hist \<Rightarrow> Inr (up, hist)))"

definition findMineById ::
  "(string \<Rightarrow> bool) \<Rightarrow> string \<Rightarrow> string \<Rightarrow> env \<Rightarrow> db \<Rightarrow> student_booking_response response" where
  "findMineById isUUID requesterId k e d =
     parse_uuid isUUID k
       (case findOneForStudent requesterId k d of
          None \<Rightarrow> Inl (HttpException 404 None ''Booking not found'')
        | Some b \<Rightarrow> studentResponse d (clock_after e) b)"

definition cancelMine ::
  "(string \<Rightarrow> bool) \<Rightarrow> string \<Rightarrow> string \<Rightarrow> env \<Rightarrow> db \<Rightarrow> student_booking_response served" where
  "cancelMine isUUID requesterId k e d =
     parse_uuid isUUID k
       (answer map_cancel_error (\<lambda>d'. studentResponse d' (clock_after e)) (cancel requesterId k e d))"

definition requestCheckInMine ::
  "(string \<Rightarrow> bool) \<Rightarrow> string \<Rightarrow> string \<Rightarrow> env \<Rightarrow> db \<Rightarrow> student_booking_response served" where
  "requestCheckInMine isUUID requesterId k e d =
     parse_uuid isUUID k
       (answer map_request_check_in_error (\<lambda>d'. studentResponse d' (clock_after e))
         (requestCheckIn requesterId k e d))"

definition createBooking :: "string \<Rightarrow> create_booking_dto \<Rightarrow> env \<Rightarrow> db \<Rightarrow> booking_response served" where
  "createBooking requesterId dto e d =
     answer map_create_http_error (\<lambda>d' b. Inr (booking_response_fromEntity b))
       (create_booking requesterId dto e d)"

section \<open>The staff endpoints\<close>

record staff_operations_body =
  ob_items :: "staff_booking_response list"
  ob_total :: nat
  ob_page :: nat
  ob_pageSize :: nat
  ob_totalPages :: nat
  ob_campusDate :: string

definition findOperations :: "page_query \<Rightarrow> env \<Rightarrow> db \<Rightarrow> staff_operations_body response" where
  "findOperations q e d =
     (let l = findOperationsForStaff (q_page q) (q_pageSize q) e d in
      case all_responses (staffResponse d (so_evaluatedAt l)) (so_bookings l) of
        Inl err \<Rightarrow> Inl err
      | Inr items \<Rightarrow> Inr \<lparr>ob_items = items, ob_total = so_total l, ob_page = q_page q,
          ob_pageSize = q_pageSize q, ob_totalPages = totalPagesFor (so_total l) (q_pageSize q),
          ob_campusDate = so_campusDate l\<rparr>)"

record staff_queue_body =
  qb_items :: "staff_booking_response list"
  qb_total :: nat
  qb_page :: nat
  qb_pageSize :: nat
  qb_totalPages :: nat

definition findPending :: "page_query \<Rightarrow> env \<Rightarrow> db \<Rightarrow> staff_queue_body response" where
  "findPending q e d =
     (let l = findPendingForStaff (q_page q) (q_pageSize q) e d in
      case all_responses (staffResponse d (sp_evaluatedAt l)) (sp_bookings l) of
        Inl err \<Rightarrow> Inl err
      | Inr items \<Rightarrow> Inr \<lparr>qb_items = items, qb_total = sp_total l, qb_page = q_page q,
          qb_pageSize = q_pageSize q, qb_totalPages = totalPagesFor (sp_total l) (q_pageSize q)\<rparr>)"

record staff_schedule_body =
  sc_resourceId :: string
  sc_date :: string
  sc_bookings :: "staff_booking_response list"

definition findSchedule ::
  "(string \<Rightarrow> bool) \<Rightarrow> string \<Rightarrow> string \<Rightarrow> env \<Rightarrow> db \<Rightarrow> staff_schedule_body response" where
  "findSchedule isUUID resourceId date e d =
     parse_uuid isUUID resourceId
       (let (bs, evaluatedAt) = findResourceSchedule resourceId date e d in
        case all_responses (staffResponse d evaluatedAt) bs of
          Inl err \<Rightarrow> Inl err
        | Inr items \<Rightarrow> Inr \<lparr>sc_resourceId = resourceId, sc_date = date, sc_bookings = items\<rparr>)"

definition findOneStaff ::
  "(string \<Rightarrow> bool) \<Rightarrow> string \<Rightarrow> env \<Rightarrow> db \<Rightarrow> staff_booking_response response" where
  "findOneStaff isUUID k e d =
     parse_uuid isUUID k
       (case findOneForStaff k d of
          None \<Rightarrow> Inl (HttpException 404 None ''Booking not found'')
        | Some b \<Rightarrow> staffResponse d (clock_after e) b)"

definition approveBooking ::
  "(string \<Rightarrow> bool) \<Rightarrow> string \<Rightarrow> string \<Rightarrow> env \<Rightarrow> db \<Rightarrow> staff_booking_response served" where
  "approveBooking isUUID reviewerId k e d =
     parse_uuid isUUID k
       (answer mapReviewError (\<lambda>d'. staffResponse d' (clock_after e)) (approve reviewerId k e d))"

text \<open>\<open>RejectBookingDto\<close>: the reason is trimmed, then checked.\<close>

definition reject_dto_valid :: "string \<Rightarrow> bool" where
  "reject_dto_valid reason \<longleftrightarrow>
     CHR 0x00 \<notin> set reason \<and> 3 \<le> length reason \<and> length reason \<le> 500"

definition rejectBooking ::
  "(string \<Rightarrow> bool) \<Rightarrow> string \<Rightarrow> string \<Rightarrow> string \<Rightarrow> env \<Rightarrow> db \<Rightarrow> staff_booking_response served" where
  "rejectBooking isUUID reviewerId k body_reason e d =
     parse_uuid isUUID k
       (let reason = js_trim body_reason in
        if \<not> reject_dto_valid reason then Inl (HttpException 400 None ''reason'')
        else answer mapReviewError (\<lambda>d'. staffResponse d' (clock_after e)) (reject reviewerId k reason e d))"

text \<open>\<open>ConfirmCheckInDto\<close>: the code matches \<open>/^\d{6}$/\<close>.\<close>

definition confirm_dto_valid :: "string \<Rightarrow> bool" where
  "confirm_dto_valid code \<longleftrightarrow> six_digits code"

definition confirmCheckInBooking ::
  "(string \<Rightarrow> bool) \<Rightarrow> string \<Rightarrow> string \<Rightarrow> string \<Rightarrow> env \<Rightarrow> db \<Rightarrow> staff_booking_response served" where
  "confirmCheckInBooking isUUID staffId k code e d =
     parse_uuid isUUID k
       (if \<not> confirm_dto_valid code
        then Inl (HttpException 400 None ''code must contain exactly 6 digits'')
        else answer mapLifecycleError (\<lambda>d'. staffResponse d' (clock_after e))
          (confirmCheckIn staffId k code e d))"

definition checkOutBooking ::
  "(string \<Rightarrow> bool) \<Rightarrow> string \<Rightarrow> string \<Rightarrow> env \<Rightarrow> db \<Rightarrow> staff_booking_response served" where
  "checkOutBooking isUUID staffId k e d =
     parse_uuid isUUID k
       (answer mapLifecycleError (\<lambda>d'. staffResponse d' (clock_after e)) (checkOut staffId k e d))"

definition markNoShowBooking ::
  "(string \<Rightarrow> bool) \<Rightarrow> string \<Rightarrow> string \<Rightarrow> env \<Rightarrow> db \<Rightarrow> staff_booking_response served" where
  "markNoShowBooking isUUID staffId k e d =
     parse_uuid isUUID k
       (answer mapLifecycleError (\<lambda>d'. staffResponse d' (clock_after e)) (markNoShow staffId k e d))"

end
