(* ===== verification/ResourceApi.thy ===== *)
theory ResourceApi
  imports Resources BookingApi
begin

text \<open>
  The resource endpoints (resources/admin-resources.controller.ts, resources/resources.controller.ts),
  the normalisation and validation of their requests and the bodies they send (resources/dto).
\<close>

section \<open>Normalising and validating requests\<close>

text \<open>
  \<open>toUpperCase\<close> below code unit 256. The sharp s becomes two letters; the two units whose
  capital lies beyond 255 are kept, no pattern of the program accepts either form.
\<close>

definition upper_char :: "char \<Rightarrow> string" where
  "upper_char c = (let n = (of_char c :: nat) in
     if n = 223 then ''SS''
     else if (97 \<le> n \<and> n \<le> 122) \<or> (224 \<le> n \<and> n \<le> 254 \<and> n \<noteq> 247) then [char_of (n - 32)]
     else [c])"

definition js_upper :: "string \<Rightarrow> string" where
  "js_upper s = concat (map upper_char s)"

definition hasNoNullByte :: "string \<Rightarrow> bool" where
  "hasNoNullByte s \<longleftrightarrow> CHR 0x00 \<notin> set s"

definition is_code_char :: "char \<Rightarrow> bool" where
  "is_code_char c \<longleftrightarrow> (let n = (of_char c :: nat) in (65 \<le> n \<and> n \<le> 90) \<or> (48 \<le> n \<and> n \<le> 57))"

text \<open>\<open>/^[A-Z0-9]+(?:-[A-Z0-9]+)*$/\<close>\<close>

definition code_pattern :: "string \<Rightarrow> bool" where
  "code_pattern s \<longleftrightarrow> (\<forall>part\<in>set (js_split CHR ''-'' s). part \<noteq> [] \<and> (\<forall>c\<in>set part. is_code_char c))"

definition valid_code :: "string \<Rightarrow> bool" where
  "valid_code s \<longleftrightarrow> 2 \<le> length s \<and> length s \<le> 30 \<and> code_pattern s"

definition valid_title :: "string \<Rightarrow> bool" where
  "valid_title s \<longleftrightarrow> hasNoNullByte s \<and> 2 \<le> length s \<and> length s \<le> 120"

definition valid_description :: "string \<Rightarrow> bool" where
  "valid_description s \<longleftrightarrow> hasNoNullByte s \<and> length s \<le> 1000"

definition valid_capacity :: "int \<Rightarrow> bool" where
  "valid_capacity n \<longleftrightarrow> 1 \<le> n \<and> n \<le> 10000"

definition valid_amenities :: "string list \<Rightarrow> bool" where
  "valid_amenities xs \<longleftrightarrow> length xs \<le> 20 \<and> distinct xs \<and>
     (\<forall>x\<in>set xs. hasNoNullByte x \<and> 1 \<le> length x \<and> length x \<le> 50)"

definition valid_days :: "int list \<Rightarrow> bool" where
  "valid_days xs \<longleftrightarrow> 1 \<le> length xs \<and> length xs \<le> 7 \<and> distinct xs \<and> (\<forall>x\<in>set xs. 0 \<le> x \<and> x \<le> 6)"

definition normalize_create_resource :: "create_resource_dto \<Rightarrow> create_resource_dto" where
  "normalize_create_resource dto =
     dto\<lparr>cr_code := js_upper (js_trim (cr_code dto)), cr_name := js_trim (cr_name dto),
         cr_description := map_option js_trim (cr_description dto),
         cr_location := js_trim (cr_location dto),
         cr_amenities := map_option (map (\<lambda>x. js_lower (js_trim x))) (cr_amenities dto)\<rparr>"

definition create_resource_dto_valid :: "(string \<Rightarrow> bool) \<Rightarrow> create_resource_dto \<Rightarrow> bool" where
  "create_resource_dto_valid isUUID dto \<longleftrightarrow>
     valid_code (cr_code dto) \<and> valid_title (cr_name dto) \<and>
     opt_holds (cr_description dto) valid_description \<and> valid_capacity (cr_capacity dto) \<and>
     valid_title (cr_location dto) \<and> opt_holds (cr_amenities dto) valid_amenities \<and>
     opt_holds (cr_operatingDays dto) valid_days \<and> opt_holds (cr_opensAt dto) hour_pattern \<and>
     opt_holds (cr_closesAt dto) hour_pattern \<and> isUUID (cr_buildingId dto)"

text \<open>\<open>PartialType\<close> makes every property optional: absent or \<open>null\<close> is not validated.\<close>

fun field_holds :: "'a field \<Rightarrow> ('a \<Rightarrow> bool) \<Rightarrow> bool" where
  "field_holds (Val x) P \<longleftrightarrow> P x"
| "field_holds f P \<longleftrightarrow> True"

fun map_field :: "('a \<Rightarrow> 'a) \<Rightarrow> 'a field \<Rightarrow> 'a field" where
  "map_field f (Val x) = Val (f x)"
| "map_field f y = y"

definition normalize_update_resource :: "update_resource_dto \<Rightarrow> update_resource_dto" where
  "normalize_update_resource dto =
     dto\<lparr>ur_code := map_field (\<lambda>s. js_upper (js_trim s)) (ur_code dto),
         ur_name := map_field js_trim (ur_name dto),
         ur_description := map_field js_trim (ur_description dto),
         ur_location := map_field js_trim (ur_location dto),
         ur_amenities := map_field (map (\<lambda>x. js_lower (js_trim x))) (ur_amenities dto)\<rparr>"

definition update_resource_dto_valid :: "(string \<Rightarrow> bool) \<Rightarrow> update_resource_dto \<Rightarrow> bool" where
  "update_resource_dto_valid isUUID dto \<longleftrightarrow>
     field_holds (ur_code dto) valid_code \<and> field_holds (ur_name dto) valid_title \<and>
     field_holds (ur_description dto) valid_description \<and> field_holds (ur_capacity dto) valid_capacity \<and>
     field_holds (ur_location dto) valid_title \<and> field_holds (ur_amenities dto) valid_amenities \<and>
     field_holds (ur_operatingDays dto) valid_days \<and> field_holds (ur_opensAt dto) hour_pattern \<and>
     field_holds (ur_closesAt dto) hour_pattern \<and> field_holds (ur_buildingId dto) isUUID"

definition create_closure_dto_valid :: "(string \<Rightarrow> bool) \<Rightarrow> create_closure_dto \<Rightarrow> bool" where
  "create_closure_dto_valid isDateString dto \<longleftrightarrow>
     date_pattern (cc_date dto) \<and> isDateString (cc_date dto) \<and>
     hasNoNullByte (cc_reason dto) \<and> 2 \<le> length (cc_reason dto) \<and> length (cc_reason dto) \<le> 255"

definition normalize_closure :: "create_closure_dto \<Rightarrow> create_closure_dto" where
  "normalize_closure dto = dto\<lparr>cc_reason := js_trim (cc_reason dto)\<rparr>"

definition normalize_discover :: "discover_query \<Rightarrow> discover_query" where
  "normalize_discover q =
     q\<lparr>dq_q := map_option js_trim (dq_q q),
       dq_amenity := map_option (\<lambda>s. js_lower (js_trim s)) (dq_amenity q)\<rparr>"

text \<open>\<open>ValidateIf\<close>: as soon as one of the three interval parts is given, all are required.\<close>

definition interval_given :: "discover_query \<Rightarrow> bool" where
  "interval_given q \<longleftrightarrow> dq_date q \<noteq> None \<or> dq_startTime q \<noteq> None \<or> dq_endTime q \<noteq> None"

definition required :: "'a option \<Rightarrow> ('a \<Rightarrow> bool) \<Rightarrow> bool" where
  "required x P = (case x of None \<Rightarrow> False | Some v \<Rightarrow> P v)"

definition discover_query_valid :: "(string \<Rightarrow> bool) \<Rightarrow> (string \<Rightarrow> bool) \<Rightarrow> discover_query \<Rightarrow> bool" where
  "discover_query_valid isUUID isDateString q \<longleftrightarrow>
     opt_holds (dq_q q) (\<lambda>s. hasNoNullByte s \<and> length s \<le> 120) \<and>
     opt_holds (dq_buildingId q) isUUID \<and> opt_holds (dq_minCapacity q) valid_capacity \<and>
     opt_holds (dq_amenity q) (\<lambda>s. hasNoNullByte s \<and> length s \<le> 50) \<and>
     (interval_given q \<longrightarrow>
        required (dq_date q) (\<lambda>s. date_pattern s \<and> isDateString s) \<and>
        required (dq_startTime q) hour_pattern \<and> required (dq_endTime q) hour_pattern) \<and>
     1 \<le> dq_page q \<and> 1 \<le> dq_pageSize q \<and> dq_pageSize q \<le> 24"

section \<open>Bodies\<close>

record building_response =
  bo_id :: string
  bo_code :: string
  bo_name :: string
  bo_address :: string

definition building_fromEntity :: "building \<Rightarrow> building_response" where
  "building_fromEntity bl =
     \<lparr>bo_id = bl_id bl, bo_code = bl_code bl, bo_name = bl_name bl, bo_address = bl_address bl\<rparr>"

record resource_response =
  rr_id :: string
  rr_code :: string
  rr_name :: string
  rr_description :: "string option"
  rr_type :: resource_type
  rr_status :: resource_status
  rr_capacity :: int
  rr_location :: string
  rr_amenities :: "string list"
  rr_requiresApproval :: bool
  rr_operatingDays :: "int list"
  rr_opensAt :: string
  rr_closesAt :: string
  rr_building :: building_response
  rr_createdAt :: int
  rr_updatedAt :: int

definition resource_fromEntity :: "resource \<Rightarrow> building \<Rightarrow> resource_response" where
  "resource_fromEntity r bl =
     \<lparr>rr_id = r_id r, rr_code = r_code r, rr_name = r_name r, rr_description = r_description r,
      rr_type = r_type r, rr_status = r_status r, rr_capacity = r_capacity r,
      rr_location = r_location r, rr_amenities = r_amenities r,
      rr_requiresApproval = r_requiresApproval r, rr_operatingDays = r_operatingDays r,
      rr_opensAt = js_slice 0 5 (r_opensAt r), rr_closesAt = js_slice 0 5 (r_closesAt r),
      rr_building = building_fromEntity bl, rr_createdAt = r_createdAt r, rr_updatedAt = r_updatedAt r\<rparr>"

definition resource_body :: "db \<Rightarrow> resource \<Rightarrow> resource_response response" where
  "resource_body d r =
     (case row_at bl_id (r_buildingId r) (buildings d) of
        None \<Rightarrow> Inl missing_relation
      | Some bl \<Rightarrow> Inr (resource_fromEntity r bl))"

record resource_page =
  rp_items :: "resource_response list"
  rp_total :: nat
  rp_page :: nat
  rp_pageSize :: nat
  rp_totalPages :: nat

definition resource_page_fromEntities ::
  "db \<Rightarrow> resource list \<Rightarrow> nat \<Rightarrow> nat \<Rightarrow> nat \<Rightarrow> resource_page response" where
  "resource_page_fromEntities d items n page pageSize =
     (case all_responses (resource_body d) items of
        Inl err \<Rightarrow> Inl err
      | Inr bodies \<Rightarrow> Inr \<lparr>rp_items = bodies, rp_total = n, rp_page = page, rp_pageSize = pageSize,
          rp_totalPages = (n + pageSize - 1) div pageSize\<rparr>)"

record closure_response =
  cl_id :: string
  cl_resourceId :: string
  cl_date :: string
  cl_reason :: string
  cl_createdAt :: int

definition closure_fromEntity :: "closure \<Rightarrow> closure_response" where
  "closure_fromEntity c =
     \<lparr>cl_id = c_id c, cl_resourceId = c_resourceId c, cl_date = c_date c, cl_reason = c_reason c,
      cl_createdAt = c_createdAt c\<rparr>"

section \<open>Error mappings\<close>

definition translateErrors :: "app_error \<Rightarrow> http_error" where
  "translateErrors err =
     (case err of
        ResourceCodeAlreadyExistsError \<Rightarrow> HttpException 409 None ''A resource with this code already exists''
      | BuildingNotFoundError \<Rightarrow> HttpException 404 None ''Building not found''
      | ResourceNotFoundError \<Rightarrow> HttpException 404 None ''Resource not found''
      | InvalidOperatingHoursError \<Rightarrow> HttpException 400 None ''Opening time must be before closing time''
      | InvalidAvailabilityDateError \<Rightarrow>
          HttpException 400 None ''Availability date must be a real calendar date''
      | ResourceClosureAlreadyExistsError \<Rightarrow>
          HttpException 409 None ''A closure already exists for this resource and date''
      | ResourceHasActiveBookingsError m n cs \<Rightarrow> ActiveBookingsConflict m n cs
      | _ \<Rightarrow> InternalServerError err)"

definition translateAvailabilityError :: "app_error \<Rightarrow> http_error" where
  "translateAvailabilityError err =
     (case err of
        InvalidAvailabilityDateError \<Rightarrow>
          HttpException 400 None ''Availability date must be a real calendar date''
      | InvalidAvailabilityRangeError \<Rightarrow>
          HttpException 400 None ''Availability start time must be before end time''
      | _ \<Rightarrow> InternalServerError err)"

text \<open>\<open>requireResource\<close>, and an operation whose errors are translated.\<close>

definition with_resource :: "string \<Rightarrow> db \<Rightarrow> (resource \<Rightarrow> 'a response) \<Rightarrow> 'a response" where
  "with_resource k d rest =
     (case findResourceById k d of
        None \<Rightarrow> Inl (HttpException 404 None ''Resource not found'')
      | Some r \<Rightarrow> rest r)"

definition answer_resource ::
  "(db \<Rightarrow> 'a \<Rightarrow> 'b response) \<Rightarrow> (app_error, 'a effect) outcome \<Rightarrow> 'b served" where
  "answer_resource body result =
     (case result of
        Inl err \<Rightarrow> Inl (translateErrors err)
      | Inr (x, d', evs) \<Rightarrow> (case body d' x of Inl err \<Rightarrow> Inl err | Inr y \<Rightarrow> Inr (y, d', evs)))"

section \<open>The administration endpoints\<close>

definition admin_findAll :: "(string \<Rightarrow> string) \<Rightarrow> page_query \<Rightarrow> db \<Rightarrow> resource_page response" where
  "admin_findAll collate q d =
     (let (items, n) = findPage collate (q_page q) (q_pageSize q) d
      in resource_page_fromEntities d items n (q_page q) (q_pageSize q))"

definition admin_findBuildings :: "(string \<Rightarrow> string) \<Rightarrow> db \<Rightarrow> building_response list" where
  "admin_findBuildings collate d = map building_fromEntity (findBuildings collate d)"

definition admin_create ::
  "(string \<Rightarrow> bool) \<Rightarrow> create_resource_dto \<Rightarrow> env \<Rightarrow> db \<Rightarrow> resource_response served" where
  "admin_create isUUID body e d =
     (let dto = normalize_create_resource body in
      if \<not> create_resource_dto_valid isUUID dto then Inl (HttpException 400 None ''resource'')
      else answer_resource resource_body (create_resource dto e d))"

definition admin_update ::
  "(string \<Rightarrow> bool) \<Rightarrow> string \<Rightarrow> update_resource_dto \<Rightarrow> env \<Rightarrow> db \<Rightarrow> resource_response served" where
  "admin_update isUUID k body e d =
     parse_uuid isUUID k
       (let dto = normalize_update_resource body in
        if \<not> update_resource_dto_valid isUUID dto then Inl (HttpException 400 None ''resource'')
        else with_resource k d (\<lambda>r. answer_resource resource_body (update_resource_details r dto e d)))"

definition admin_updateStatus ::
  "(string \<Rightarrow> bool) \<Rightarrow> string \<Rightarrow> resource_status \<Rightarrow> env \<Rightarrow> db \<Rightarrow> resource_response served" where
  "admin_updateStatus isUUID k status e d =
     parse_uuid isUUID k
       (with_resource k d (\<lambda>r. answer_resource resource_body (updateStatus_resource r status e d)))"

definition admin_findClosures :: "(string \<Rightarrow> bool) \<Rightarrow> string \<Rightarrow> db \<Rightarrow> closure_response list response" where
  "admin_findClosures isUUID k d =
     parse_uuid isUUID k (with_resource k d (\<lambda>r. Inr (map closure_fromEntity (findClosures k d))))"

definition admin_createClosure ::
  "(string \<Rightarrow> bool) \<Rightarrow> (string \<Rightarrow> bool) \<Rightarrow> string \<Rightarrow> create_closure_dto \<Rightarrow> env \<Rightarrow> db \<Rightarrow> closure_response served" where
  "admin_createClosure isUUID isDateString k body e d =
     parse_uuid isUUID k
       (let dto = normalize_closure body in
        if \<not> create_closure_dto_valid isDateString dto then Inl (HttpException 400 None ''closure'')
        else with_resource k d (\<lambda>r. answer_resource (\<lambda>d' c. Inr (closure_fromEntity c)) (createClosure k dto e d)))"

definition admin_deleteClosure ::
  "(string \<Rightarrow> bool) \<Rightarrow> string \<Rightarrow> string \<Rightarrow> env \<Rightarrow> db \<Rightarrow> unit served" where
  "admin_deleteClosure isUUID k closureId e d =
     parse_uuid isUUID k (parse_uuid isUUID closureId
       (with_resource k d (\<lambda>r. answer_resource
         (\<lambda>d' deleted. if deleted then Inr () else Inl (HttpException 404 None ''Resource closure not found''))
         (deleteClosure k closureId e d))))"

section \<open>The public endpoints\<close>

definition resources_discover ::
  "(string \<Rightarrow> bool) \<Rightarrow> (string \<Rightarrow> bool) \<Rightarrow> (string \<Rightarrow> string) \<Rightarrow> discover_query \<Rightarrow> env \<Rightarrow> db \<Rightarrow> resource_page response" where
  "resources_discover isUUID isDateString collate query e d =
     (let q = normalize_discover query in
      if \<not> discover_query_valid isUUID isDateString q then Inl (HttpException 400 None ''query'')
      else case discover collate q e d of
        Inl err \<Rightarrow> Inl (translateAvailabilityError err)
      | Inr (items, n) \<Rightarrow> resource_page_fromEntities d items n (dq_page q) (dq_pageSize q))"

definition resources_findAvailability ::
  "(string \<Rightarrow> bool) \<Rightarrow> (string \<Rightarrow> bool) \<Rightarrow> string \<Rightarrow> string \<Rightarrow> env \<Rightarrow> db \<Rightarrow> availability_response response" where
  "resources_findAvailability isUUID isDateString k date e d =
     parse_uuid isUUID k
       (if \<not> (date_pattern date \<and> isDateString date) then Inl (HttpException 400 None ''date'')
        else case findAvailabilitySnapshot k date d of
          Inl err \<Rightarrow> Inl (translateAvailabilityError err)
        | Inr None \<Rightarrow> Inl (HttpException 404 None ''Resource not found'')
        | Inr (Some sn) \<Rightarrow>
            Inr (availability_fromResource (sn_resource sn) date (sn_closure sn) (sn_bookings sn) (clock e)))"

definition resources_findOne :: "(string \<Rightarrow> bool) \<Rightarrow> string \<Rightarrow> db \<Rightarrow> resource_response response" where
  "resources_findOne isUUID k d =
     parse_uuid isUUID k
       (case findDiscoverableById k d of
          None \<Rightarrow> Inl (HttpException 404 None ''Resource not found'')
        | Some r \<Rightarrow> resource_body d r)"

end
