(* ===== verification/Lifecycle.thy ===== *)
theory Lifecycle
  imports BookingApi
begin

text \<open>
  The life cycle of a booking as an abstract machine, and that the service implements it. A
  request is enabled or not by the status of the booking and by the instants of its slot; it
  changes one booking in one way. The statuses move along \<open>status_step\<close>.
\<close>

section \<open>The abstract machine\<close>

datatype lifecycle_op =
  Approve string string
| Reject string string string
| RequestCheckIn string string
| ConfirmCheckIn string string string
| CheckOut string string
| MarkNoShow string string
| Cancel string string

fun run_lifecycle :: "lifecycle_op \<Rightarrow> env \<Rightarrow> db \<Rightarrow> (app_error, booking effect) outcome" where
  "run_lifecycle (Approve u k) e d = approve u k e d"
| "run_lifecycle (Reject u k reason) e d = reject u k reason e d"
| "run_lifecycle (RequestCheckIn u k) e d = requestCheckIn u k e d"
| "run_lifecycle (ConfirmCheckIn u k code) e d = confirmCheckIn u k code e d"
| "run_lifecycle (CheckOut u k) e d = checkOut u k e d"
| "run_lifecycle (MarkNoShow u k) e d = markNoShow u k e d"
| "run_lifecycle (Cancel u k) e d = cancel u k e d"

text \<open>The booking an operation is about: students reach their own bookings only.\<close>

fun addresses :: "lifecycle_op \<Rightarrow> booking \<Rightarrow> bool" where
  "addresses (Approve u k) b \<longleftrightarrow> b_id b = sql_uuid k"
| "addresses (Reject u k reason) b \<longleftrightarrow> b_id b = sql_uuid k"
| "addresses (RequestCheckIn u k) b \<longleftrightarrow> b_id b = sql_uuid k \<and> b_requesterId b = u"
| "addresses (ConfirmCheckIn u k code) b \<longleftrightarrow> b_id b = sql_uuid k"
| "addresses (CheckOut u k) b \<longleftrightarrow> b_id b = sql_uuid k"
| "addresses (MarkNoShow u k) b \<longleftrightarrow> b_id b = sql_uuid k"
| "addresses (Cancel u k) b \<longleftrightarrow> b_id b = sql_uuid k \<and> b_requesterId b = u"

fun enabled :: "lifecycle_op \<Rightarrow> int \<Rightarrow> booking \<Rightarrow> bool" where
  "enabled (Approve u k) now b \<longleftrightarrow> b_status b = PENDING \<and> now < booking_end b"
| "enabled (Reject u k reason) now b \<longleftrightarrow> b_status b = PENDING \<and> now < booking_end b"
| "enabled (RequestCheckIn u k) now b \<longleftrightarrow>
     b_status b = CONFIRMED \<and> b_checkInRequestedAt b = None \<and>
     booking_start b - 900000 \<le> now \<and> now < booking_end b"
| "enabled (ConfirmCheckIn u k code) now b \<longleftrightarrow>
     b_status b = CONFIRMED \<and> b_checkInCode b = Some code \<and>
     booking_start b - 900000 \<le> now \<and> now < booking_end b"
| "enabled (CheckOut u k) now b \<longleftrightarrow> b_status b = CHECKED_IN"
| "enabled (MarkNoShow u k) now b \<longleftrightarrow> b_status b = CONFIRMED \<and> booking_end b \<le> now"
| "enabled (Cancel u k) now b \<longleftrightarrow>
     b_status b \<in> {PENDING, CONFIRMED} \<and> b_checkInRequestedAt b = None \<and> now < booking_start b"

fun op_change :: "lifecycle_op \<Rightarrow> env \<Rightarrow> booking \<Rightarrow> booking" where
  "op_change (Approve u k) e = review_changes CONFIRMED (clock e) u None"
| "op_change (Reject u k reason) e = review_changes REJECTED (clock e) u (Some reason)"
| "op_change (RequestCheckIn u k) e = request_check_in_changes (check_in_code (random_int e)) (clock e)"
| "op_change (ConfirmCheckIn u k code) e = confirm_check_in_changes (clock e) u"
| "op_change (CheckOut u k) e = check_out_changes (clock e) u"
| "op_change (MarkNoShow u k) e = no_show_changes (clock e) u"
| "op_change (Cancel u k) e = cancel_changes (clock e)"

text \<open>Check-in does not change what is available, every other step is announced.\<close>

fun announced :: "lifecycle_op \<Rightarrow> booking \<Rightarrow> event list" where
  "announced (RequestCheckIn u k) b = []"
| "announced (ConfirmCheckIn u k code) b = []"
| "announced op b = [AvailabilityChanged (b_resourceId b) (b_date b)]"

inductive status_step :: "booking_status \<Rightarrow> booking_status \<Rightarrow> bool" where
  approve: "status_step PENDING CONFIRMED"
| reject: "status_step PENDING REJECTED"
| cancel_pending: "status_step PENDING CANCELLED"
| cancel_confirmed: "status_step CONFIRMED CANCELLED"
| check_in: "status_step CONFIRMED CHECKED_IN"
| no_show: "status_step CONFIRMED NO_SHOW"
| check_out: "status_step CHECKED_IN COMPLETED"

inductive_simps status_step_from:
  "status_step PENDING s" "status_step CONFIRMED s" "status_step CHECKED_IN s"
  "status_step COMPLETED s" "status_step NO_SHOW s" "status_step REJECTED s" "status_step CANCELLED s"

inductive_cases status_stepE: "status_step s t"

section \<open>What the history of a booking keeps\<close>

text \<open>
  The instants stored in a booking have passed, and a requested check-in that is still open has
  its code. The table's constraints do not say either.
\<close>

definition lived :: "int \<Rightarrow> booking \<Rightarrow> bool" where
  "lived now b \<longleftrightarrow>
     (case b_checkInRequestedAt b of None \<Rightarrow> True | Some t \<Rightarrow> t \<le> now) \<and>
     (case b_checkedInAt b of None \<Rightarrow> True | Some t \<Rightarrow> t \<le> now) \<and>
     (b_status b = CONFIRMED \<and> b_checkInRequestedAt b \<noteq> None \<longrightarrow> b_checkInCode b \<noteq> None)"

definition db_lived :: "int \<Rightarrow> db \<Rightarrow> bool" where
  "db_lived now d \<longleftrightarrow> (\<forall>b\<in>set (bookings d). lived now b)"

lemma lived_mono: "lived now b \<Longrightarrow> now \<le> now' \<Longrightarrow> lived now' b"
  by (auto simp: lived_def split: option.splits)

text \<open>What an operation needs from its caller: a known user, a checked reason, a random number.\<close>

fun op_sound :: "lifecycle_op \<Rightarrow> env \<Rightarrow> db \<Rightarrow> bool" where
  "op_sound (Approve u k) e d \<longleftrightarrow> known_user d u"
| "op_sound (Reject u k reason) e d \<longleftrightarrow> known_user d u \<and> rejection_reason_ok reason"
| "op_sound (RequestCheckIn u k) e d \<longleftrightarrow> random_int e < 1000000"
| "op_sound (ConfirmCheckIn u k code) e d \<longleftrightarrow> known_user d u"
| "op_sound (CheckOut u k) e d \<longleftrightarrow> known_user d u"
| "op_sound (MarkNoShow u k) e d \<longleftrightarrow> known_user d u"
| "op_sound (Cancel u k) e d \<longleftrightarrow> True"

text \<open>The error of a request that is not enabled.\<close>

fun refusal :: "lifecycle_op \<Rightarrow> int \<Rightarrow> booking \<Rightarrow> booking_error_code" where
  "refusal (Approve u k) now b =
     (if b_status b \<noteq> PENDING then BOOKING_NOT_PENDING else BOOKING_REVIEW_WINDOW_ENDED)"
| "refusal (Reject u k reason) now b =
     (if b_status b \<noteq> PENDING then BOOKING_NOT_PENDING else BOOKING_REVIEW_WINDOW_ENDED)"
| "refusal (RequestCheckIn u k) now b =
     (if b_checkInRequestedAt b \<noteq> None then CHECK_IN_ALREADY_REQUESTED else CHECK_IN_NOT_AVAILABLE)"
| "refusal (ConfirmCheckIn u k code) now b =
     (if b_status b = CONFIRMED \<and> b_checkInCode b \<noteq> None \<and>
         booking_start b - 900000 \<le> now \<and> now < booking_end b
      then INVALID_CHECK_IN_CODE else CHECK_IN_NOT_AVAILABLE)"
| "refusal (CheckOut u k) now b = BOOKING_NOT_CHECKED_IN"
| "refusal (MarkNoShow u k) now b = NO_SHOW_NOT_AVAILABLE"
| "refusal (Cancel u k) now b = BOOKING_NOT_CANCELLABLE"

section \<open>The service implements the machine\<close>

fun op_lock :: "lifecycle_op \<Rightarrow> db \<Rightarrow> booking option" where
  "op_lock (Approve u k) d = lockBooking k d"
| "op_lock (Reject u k reason) d = lockBooking k d"
| "op_lock (RequestCheckIn u k) d = lockStudentBooking u k d"
| "op_lock (ConfirmCheckIn u k code) d = lockBooking k d"
| "op_lock (CheckOut u k) d = lockBooking k d"
| "op_lock (MarkNoShow u k) d = lockBooking k d"
| "op_lock (Cancel u k) d = lockStudentBooking u k d"

lemma op_lock_iff:
  assumes "db_ok d"
  shows "op_lock op d = Some b \<longleftrightarrow> b \<in> set (bookings d) \<and> addresses op b"
proof -
  have inv: "distinct (map b_id (bookings d))" using assms by (auto simp: db_ok_def table_inv_def)
  have "lockBooking k d = Some b \<longleftrightarrow> b \<in> set (bookings d) \<and> b_id b = sql_uuid k" for k
    unfolding lockBooking_def by (rule row_at_Some_iff [OF inv])
  then show ?thesis by (cases op) (auto simp: lockStudentBooking_lock [OF assms])
qed

lemma op_lock_None: "db_ok d \<Longrightarrow> op_lock op d = None \<longleftrightarrow> (\<forall>b\<in>set (bookings d). \<not> addresses op b)"
  using op_lock_iff [of d op] by (metis not_Some_eq)

lemma op_lock_sound:
  assumes "db_ok d" "op_lock op d = Some b"
  shows "sound_booking b" "booking_rules b"
  using db_booking_sound [OF assms(1)] assms by (auto simp: op_lock_iff sound_booking_def)

lemma not_found:
  "op_lock op d = None \<Longrightarrow> run_lifecycle op e d = Inl (BookingDomainError BOOKING_NOT_FOUND ''Booking not found'')"
  by (cases op) (simp_all add: approve_def reject_def review_def requestCheckIn_def confirmCheckIn_def
      checkOut_def markNoShow_def cancel_def booking_not_found_def)

lemma refused:
  assumes d: "db_ok d" "op_lock op d = Some b" "\<not> enabled op (clock e) b"
  shows "\<exists>m. run_lifecycle op e d = Inl (BookingDomainError (refusal op (clock e) b) m)"
proof -
  note s = op_lock_sound [OF d(1,2)]
  note p = action_predicates [OF s(1)]
  have six: "b_status b = CONFIRMED \<Longrightarrow> b_checkInCode b = Some c \<Longrightarrow> truthy_text (Some c)" for c
    using s(2) six_digits_truthy by (auto simp: booking_rules_iff check_check_in_request_def)
  have code: "b_checkInCode b \<noteq> None \<Longrightarrow> b_checkInRequestedAt b \<noteq> None"
    using s(2) by (auto simp: booking_rules_iff check_check_in_request_def)
  have asked: "b_checkInRequestedAt b \<noteq> None \<or> truthy_text (b_checkInCode b) \<longleftrightarrow> b_checkInRequestedAt b \<noteq> None"
    using code by (cases "b_checkInCode b") (simp_all add: truthy_text_def)
  show ?thesis
  proof (cases op)
    case (RequestCheckIn u k)
    then have l: "lockStudentBooking u k d = Some b" using d(2) by simp
    have "\<not> canRequestCheckIn b (clock e)" using d(3) p(2) RequestCheckIn by (simp add: canRequestCheckIn_def)
    then show ?thesis
      unfolding RequestCheckIn run_lifecycle.simps requestCheckIn_def l option.case asked
      by simp
  next
    case (ConfirmCheckIn u k code)
    have l: "lockBooking k d = Some b" using d(2) ConfirmCheckIn by simp
    show ?thesis
    proof (cases "b_status b = CONFIRMED \<and> b_checkInCode b \<noteq> None \<and> isWithinCheckInWindow b (clock e)")
      case True
      then obtain c where "b_checkInCode b = Some c" "truthy_text (Some c)" using six by auto
      with True ConfirmCheckIn d p(2) show ?thesis by (auto simp: confirmCheckIn_def)
    next
      case False
      then have "b_status b \<noteq> CONFIRMED \<or> \<not> truthy_text (b_checkInCode b) \<or> \<not> isWithinCheckInWindow b (clock e)"
        by (cases "b_checkInCode b") (simp_all add: truthy_text_def)
      moreover have "refusal op (clock e) b = CHECK_IN_NOT_AVAILABLE"
        using False p(2) by (auto simp: ConfirmCheckIn)
      ultimately show ?thesis
        unfolding ConfirmCheckIn run_lifecycle.simps confirmCheckIn_def l option.case by simp
    qed
  qed (use d p in \<open>auto simp: approve_def reject_def review_def checkOut_def markNoShow_def cancel_def\<close>)
qed

lemma performed:
  assumes d: "db_ok d" "op_lock op d = Some b" "enabled op (clock e) b"
    and caller: "op_sound op e d" and past: "lived (clock e) b"
  shows "run_lifecycle op e d =
    (let r = rewritten (op_change op e) e d b in Inr (fst r, snd r, announced op (fst r)))"
proof -
  note s = op_lock_sound [OF d(1,2)]
  note p = action_predicates [OF s(1)]
  show ?thesis
  proof (cases op)
    case (Approve u k)
    with d p(3) caller show ?thesis
      by (simp add: approve_result [of d u k b] notify_booking_def Let_def)
  next
    case (Reject u k reason)
    with d p(3) caller show ?thesis
      by (simp add: reject_result [of d u k b] notify_booking_def Let_def)
  next
    case (RequestCheckIn u k)
    with d p(2) caller show ?thesis
      by (simp add: requestCheckIn_result [of d u k b] canRequestCheckIn_def quiet_booking_def Let_def)
  next
    case (ConfirmCheckIn u k code)
    then have c: "b_status b = CONFIRMED" "b_checkInCode b = Some code" using d by simp_all
    then obtain q where q: "b_checkInRequestedAt b = Some q"
      using s(2) by (auto simp: booking_rules_iff check_check_in_request_def)
    have "q \<le> clock e" using past q by (simp add: lived_def)
    moreover have "canConfirmCheckIn b (clock e)"
      using ConfirmCheckIn d p(2) c q by (simp add: canConfirmCheckIn_def)
    ultimately show ?thesis
      using ConfirmCheckIn d caller c q
      by (simp add: confirmCheckIn_result [of d u k b e code q] quiet_booking_def Let_def)
  next
    case (CheckOut u k)
    then have c: "b_status b = CHECKED_IN" using d by simp
    obtain q where q: "b_checkedInAt b = Some q" using checked_in_facts(5) [OF s(2) c] by blast
    have "q \<le> clock e" using past q by (simp add: lived_def)
    with CheckOut d caller c q show ?thesis
      by (simp add: checkOut_result [of d u k b q e] canCheckOut_def notify_booking_def Let_def)
  next
    case (MarkNoShow u k)
    with d p(4) caller show ?thesis
      by (simp add: markNoShow_result [of d u k b] notify_booking_def Let_def)
  next
    case (Cancel u k)
    with d p(1) show ?thesis
      by (simp add: cancel_result [of d u k b] notify_booking_def Let_def)
  qed
qed

end
