(* ===== verification/BookingProps.thy ===== *)
theory BookingProps
  imports Lifecycle
begin

text \<open>
  The properties of the booking component: the life cycle implements its abstract machine, the
  endpoints answer with the documented statuses, creation succeeds exactly for the slots that
  are shown as free, and the lists show what they promise.
\<close>

section \<open>The life cycle\<close>

lemma lifecycle_outcome:
  assumes "db_ok d" "db_lived (clock e) d" "op_sound op e d"
  shows "(\<forall>b\<in>set (bookings d). \<not> addresses op b) \<and>
      run_lifecycle op e d = Inl (BookingDomainError BOOKING_NOT_FOUND ''Booking not found'') \<or>
    (\<exists>b\<in>set (bookings d). addresses op b \<and>
      (if enabled op (clock e) b
       then run_lifecycle op e d =
         (let r = rewritten (op_change op e) e d b in Inr (fst r, snd r, announced op (fst r)))
       else \<exists>m. run_lifecycle op e d = Inl (BookingDomainError (refusal op (clock e) b) m)))"
proof (cases "op_lock op d")
  case None
  then show ?thesis using not_found [OF None] op_lock_None [OF assms(1)] by blast
next
  case (Some b)
  then have b: "b \<in> set (bookings d)" "addresses op b" by (simp_all add: op_lock_iff [OF assms(1)])
  then have "lived (clock e) b" using assms(2) by (simp add: db_lived_def)
  then show ?thesis
    using b performed [OF assms(1) Some _ assms(3)] refused [OF assms(1) Some] by auto
qed

lemma addresses_unique:
  assumes "db_ok d" "b \<in> set (bookings d)" "c \<in> set (bookings d)" "addresses op b" "addresses op c"
  shows "b = c"
  using assms op_lock_iff [OF assms(1), of op] by (metis option.inject)

text \<open>C2: A request on a booking (approve, reject, request or confirm check-in, check out, mark as
no-show, cancel) is carried out exactly when the abstract machine enables it at the clock's instant;
then the one addressed row changes as the machine says and the change is announced, and otherwise
the service refuses with the error the machine names. No constraint of the database can fail.\<close>

theorem lifecycle_refines_machine:
  assumes "db_ok d" "db_lived (clock e) d" "op_sound op e d" "b \<in> set (bookings d)" "addresses op b"
  shows "if enabled op (clock e) b
    then run_lifecycle op e d =
      (let r = rewritten (op_change op e) e d b in Inr (fst r, snd r, announced op (fst r)))
    else \<exists>m. run_lifecycle op e d = Inl (BookingDomainError (refusal op (clock e) b) m)"
  using lifecycle_outcome [OF assms(1-3)] addresses_unique [OF assms(1) assms(4) _ assms(5)] assms(4,5)
  by metis

lemma op_change_slot: "same_slot b (op_change op e b)"
  by (cases op) simp_all

lemma enabled_step:
  "enabled op now b \<Longrightarrow> b_status (op_change op e b) = b_status b \<or>
    status_step (b_status b) (b_status (op_change op e b))"
  by (cases op) (auto simp: change_defs intro: status_step.intros)

lemma run_lifecycle_Inr:
  assumes "db_ok d" "db_lived (clock e) d" "op_sound op e d" "run_lifecycle op e d = Inr (b', d', evs)"
  obtains b where "b \<in> set (bookings d)" "addresses op b" "enabled op (clock e) b"
    "(b', d') = rewritten (op_change op e) e d b" "evs = announced op b'"
proof -
  obtain b where b: "b \<in> set (bookings d)" "addresses op b" "enabled op (clock e) b"
    "run_lifecycle op e d =
      (let r = rewritten (op_change op e) e d b in Inr (fst r, snd r, announced op (fst r)))"
    using lifecycle_outcome [OF assms(1-3)] assms(4) by (auto split: if_splits)
  show ?thesis using b assms(4) by (intro that [OF b(1-3)]) (simp_all add: Let_def)
qed

lemma rewritten_rows:
  assumes "db_ok d" "b \<in> set (bookings d)" "(b', d') = rewritten f e d b" "x \<in> set (bookings d)"
    "\<And>x. same_slot x (f x)"
  shows "b' = (f b)\<lparr>b_updatedAt := db_now e\<rparr>"
    "row_at b_id (b_id x) (bookings d') = Some (if b_id x = b_id b then b' else x)"
    "users d' = users d" "resources d' = resources d" "buildings d' = buildings d" "closures d' = closures d"
proof -
  have key: "b_id ((f y)\<lparr>b_updatedAt := db_now e\<rparr>) = b_id y" for y
    using assms(5) [of y] by (simp add: same_slot_def)
  have inv: "distinct (map b_id (bookings d))" using assms(1) by (auto simp: db_ok_def table_inv_def)
  show b': "b' = (f b)\<lparr>b_updatedAt := db_now e\<rparr>" and "users d' = users d" "resources d' = resources d"
    "buildings d' = buildings d" "closures d' = closures d"
    using assms(3) by (simp_all add: rewritten_def Let_def)
  have "row_at b_id (b_id x) (bookings d') =
      (if b_id x = b_id b then map_option (\<lambda>y. (f y)\<lparr>b_updatedAt := db_now e\<rparr>) (row_at b_id (b_id x) (bookings d))
       else row_at b_id (b_id x) (bookings d))"
    using assms(3) row_at_patch [of b_id "\<lambda>y. (f y)\<lparr>b_updatedAt := db_now e\<rparr>", OF key]
    by (simp add: rewritten_def Let_def)
  moreover have "row_at b_id (b_id x) (bookings d) = Some x" by (rule row_at_mem [OF inv assms(4)])
  moreover have "x = b" if "b_id x = b_id b"
    using that row_at_mem [OF inv assms(2)] row_at_mem [OF inv assms(4)] by simp
  ultimately show "row_at b_id (b_id x) (bookings d') = Some (if b_id x = b_id b then b' else x)"
    using b' by auto
qed

lemma lifecycle_moves:
  assumes "db_ok d" "db_lived (clock e) d" "op_sound op e d" "run_lifecycle op e d = Inr (b', d', evs)"
    "x \<in> set (bookings d)"
  shows "\<exists>x'. row_at b_id (b_id x) (bookings d') = Some x' \<and> same_slot x x' \<and>
    (b_status x' = b_status x \<or> status_step (b_status x) (b_status x')) \<and>
    (b_id x \<noteq> b_id b' \<longrightarrow> x' = x)"
proof -
  obtain b where b: "b \<in> set (bookings d)" "enabled op (clock e) b"
    "(b', d') = rewritten (op_change op e) e d b"
    using assms(1-4) by (rule run_lifecycle_Inr)
  note rows = rewritten_rows [OF assms(1) b(1,3) assms(5) op_change_slot]
  have inv: "distinct (map b_id (bookings d))" using assms(1) by (auto simp: db_ok_def table_inv_def)
  have id: "b_id b' = b_id b" using op_change_slot [of b op e] by (simp add: rows(1) same_slot_def)
  show ?thesis
  proof (cases "b_id x = b_id b")
    case True
    then have "x = b" using row_at_mem [OF inv b(1)] row_at_mem [OF inv assms(5)] by simp
    then show ?thesis
      using rows(1,2) True id op_change_slot [of b op e] enabled_step [OF b(2)]
      by (auto simp: same_slot_def)
  next
    case False
    then show ?thesis using rows(2) by (auto simp: same_slot_def)
  qed
qed

text \<open>C3: A successful request moves the status of its booking along the state diagram, pending to
confirmed, rejected or cancelled, confirmed to checked in, no-show or cancelled, checked in to
completed, or leaves it (requesting a check-in code); it never changes the slot, the resource or the
requester of any booking, and every other booking keeps its whole row.\<close>

theorem lifecycle_moves_along_diagram:
  assumes "db_ok d" "db_lived (clock e) d" "op_sound op e d" "run_lifecycle op e d = Inr (b', d', evs)"
    "x \<in> set (bookings d)"
  shows "\<exists>x'. row_at b_id (b_id x) (bookings d') = Some x' \<and> same_slot x x' \<and>
    (b_status x' = b_status x \<or> status_step (b_status x) (b_status x')) \<and>
    (b_id x \<noteq> b_id b' \<longrightarrow> x' = x)"
  using lifecycle_moves [OF assms] .

section \<open>The endpoints\<close>

lemma joined_resource_Some:
  assumes "db_ok d" "b_resourceId b \<in> ids r_id (resources d)"
  shows "\<exists>res. joined_resource d b = Some res"
proof -
  obtain r where r: "row_at r_id (b_resourceId b) (resources d) = Some r"
    using assms(2) row_at_None [of r_id "b_resourceId b" "resources d"] by (auto simp: ids_def)
  then have "r \<in> set (resources d)" by (auto dest: row_at_SomeD)
  then have "r_buildingId r \<in> ids bl_id (buildings d)"
    using assms(1) by (auto simp: db_ok_def resource_ok_def dest: table_inv_ok)
  then obtain bl where "row_at bl_id (r_buildingId r) (buildings d) = Some bl"
    using row_at_None [of bl_id "r_buildingId r" "buildings d"] by (auto simp: ids_def)
  with r show ?thesis by (simp add: joined_resource_def)
qed

lemma joined_user_Some: "k \<in> ids u_id (users d) \<Longrightarrow> \<exists>u. joined_user d (Some k) = Some u"
  using row_at_None [of u_id k "users d"] by (auto simp: joined_user_def ids_def)

text \<open>Every stored booking has a body.\<close>

lemma responses_exist:
  assumes "db_ok d" "b_resourceId b \<in> ids r_id (resources d)" "b_requesterId b \<in> ids u_id (users d)"
  shows "succeeds (studentResponse d t b)" "succeeds (staffResponse d t b)"
  using joined_resource_Some [OF assms(1,2)] joined_user_Some [OF assms(3)]
  by (auto simp: studentResponse_def staffResponse_def)

lemma stored_relations:
  assumes "db_ok d" "b \<in> set (bookings d)"
  shows "b_resourceId b \<in> ids r_id (resources d)" "b_requesterId b \<in> ids u_id (users d)"
  using assms by (auto simp: db_ok_def booking_ok_def booking_users_known_def Let_def dest: table_inv_ok)

lemma all_responses_succeeds: "(\<And>x. x \<in> set xs \<Longrightarrow> succeeds (f x)) \<Longrightarrow> succeeds (all_responses f xs)"
proof (induction xs)
  case (Cons x xs)
  then have "succeeds (f x)" "succeeds (all_responses f xs)" by simp_all
  then obtain y ys where "f x = Inr y" "all_responses f xs = Inr ys" unfolding succeeds_iff by blast
  then show ?case by simp
qed simp

text \<open>The statuses an answered operation can have.\<close>

definition answered_with :: "nat set \<Rightarrow> 'a response \<Rightarrow> bool" where
  "answered_with codes r \<longleftrightarrow> (case r of Inl e \<Rightarrow> http_status e \<in> codes | Inr _ \<Rightarrow> True)"

lemma rewritten_body:
  assumes d: "db_ok d" and b: "b \<in> set (bookings d)" and r: "(b', d') = rewritten f e d b"
    and f: "\<And>x. same_slot x (f x)"
  shows "b_resourceId b' \<in> ids r_id (resources d')" "b_requesterId b' \<in> ids u_id (users d')"
proof -
  note rows = rewritten_rows [OF d b r b f]
  have "b_resourceId b' = b_resourceId b" "b_requesterId b' = b_requesterId b"
    using f [of b] by (simp_all add: rows(1) same_slot_def)
  then show "b_resourceId b' \<in> ids r_id (resources d')" "b_requesterId b' \<in> ids u_id (users d')"
    using stored_relations [OF d b] rows(3,4) by simp_all
qed

lemma update_and_reload_ok:
  assumes "db_ok d" "update_and_reload k f e d = Inr (b', d')" "\<And>x. same_slot x (f x)"
  shows "db_ok d'"
  by (rule update_and_reload_keeps(1) [OF assms(1,2)]) (use assms(3) in \<open>simp add: same_slot_def\<close>)

lemma lifecycle_db_ok:
  assumes d: "db_ok d" and run: "run_lifecycle op e d = Inr (b', d', evs)"
  shows "db_ok d'"
proof (cases "op_lock op d")
  case None
  then show ?thesis using run by (simp add: not_found)
next
  case (Some b)
  have "\<exists>b0. update_and_reload (b_id b) (op_change op e) e d = Inr (b0, d')"
    using run Some
    by (cases op)
      (auto simp: approve_def reject_def review_def requestCheckIn_def confirmCheckIn_def checkOut_def markNoShow_def
        cancel_def map_sum_Inr_iff notify_booking_def quiet_booking_def split: if_splits)
  then show ?thesis
    using update_and_reload_ok [OF d] op_change_slot by blast
qed

lemma lifecycle_answer:
  assumes d: "db_ok d" "db_lived (clock e) d" "op_sound op e d"
    and codes: "\<And>b m. http_status (f (BookingDomainError (refusal op (clock e) b) m)) \<in> codes"
      "\<And>m. http_status (f (BookingDomainError BOOKING_NOT_FOUND m)) \<in> codes"
    and body: "\<And>d b. db_ok d \<Longrightarrow> b_resourceId b \<in> ids r_id (resources d) \<Longrightarrow>
      b_requesterId b \<in> ids u_id (users d) \<Longrightarrow> succeeds (body d b)"
  shows "answered_with codes (answer f body (run_lifecycle op e d))"
proof (cases "run_lifecycle op e d")
  case (Inl err)
  then consider m where "err = BookingDomainError BOOKING_NOT_FOUND m"
    | b m where "err = BookingDomainError (refusal op (clock e) b) m"
    using lifecycle_outcome [OF d] by (auto simp: Let_def split: if_splits)
  then show ?thesis using codes Inl by cases (auto simp: answered_with_def answer_def)
next
  case (Inr r)
  obtain b' d' evs where r: "r = (b', d', evs)" by (cases r)
  obtain b where b: "b \<in> set (bookings d)" "(b', d') = rewritten (op_change op e) e d b"
    using d Inr unfolding r by (rule run_lifecycle_Inr)
  have d': "db_ok d'" using lifecycle_db_ok [OF d(1)] Inr r by blast
  have "succeeds (body d' b')"
    using rewritten_body [OF d(1) b op_change_slot] body [OF d'] by blast
  then show ?thesis using Inr r by (auto simp: answered_with_def answer_def succeeds_iff)
qed

lemma trimmed_reason_ok: "reject_dto_valid (js_trim s) \<Longrightarrow> rejection_reason_ok (js_trim s)"
proof -
  assume v: "reject_dto_valid (js_trim s)"
  then have ne: "js_trim s \<noteq> []" by (auto simp: reject_dto_valid_def)
  have blank: "is_space CHR '' ''" by (simp add: is_space_def)
  have "hd (js_trim s) \<noteq> CHR '' ''" "last (js_trim s) \<noteq> CHR '' ''"
    using js_trim_hd [OF ne] js_trim_last [OF ne] blank by auto
  then have "btrim (js_trim s) = js_trim s"
    using ne by (simp add: btrim_def dropWhile_id hd_rev)
  with v show ?thesis by (simp add: rejection_reason_ok_def reject_dto_valid_def pg_varchar_def)
qed

lemma answered_parse: "answered_with codes r \<Longrightarrow> 400 \<in> codes \<Longrightarrow> answered_with codes (parse_uuid isUUID k r)"
  by (simp add: parse_uuid_def answered_with_def)

text \<open>No request on an existing or unknown booking can fail with an internal error: the review,
check-in, check-out, no-show and cancellation endpoints answer with a body, or with 400, 404 or 409,
for every state of the database, every path, reason and code.\<close>

lemma lifecycle_endpoints_answer:
  assumes "db_ok d" "db_lived (clock e) d" "known_user d u" "random_int e < 1000000"
  shows "answered_with {400, 404, 409} (approveBooking isUUID u k e d) \<and>
    answered_with {400, 404, 409} (rejectBooking isUUID u k reason e d) \<and>
    answered_with {400, 404, 409} (confirmCheckInBooking isUUID u k code e d) \<and>
    answered_with {400, 404, 409} (checkOutBooking isUUID u k e d) \<and>
    answered_with {400, 404, 409} (markNoShowBooking isUUID u k e d) \<and>
    answered_with {400, 404, 409} (cancelMine isUUID u k e d) \<and>
    answered_with {400, 404, 409} (requestCheckInMine isUUID u k e d)"
proof -
  let ?C = "{400, 404, 409::nat}"
  note a = lifecycle_answer [OF assms(1,2), where codes = ?C]
  let ?staff = "\<lambda>d'. staffResponse d' (clock_after e)"
  let ?student = "\<lambda>d'. studentResponse d' (clock_after e)"
  have "answered_with ?C (approveBooking isUUID u k e d)"
    using a [of "Approve u k" mapReviewError ?staff, OF _ _ _ responses_exist(2)] assms(3)
    by (auto simp: approveBooking_def mapReviewError_def intro!: answered_parse)
  moreover have "answered_with ?C (rejectBooking isUUID u k reason e d)"
    using a [of "Reject u k (js_trim reason)" mapReviewError ?staff, OF _ _ _ responses_exist(2)] assms(3) trimmed_reason_ok [of reason]
    by (auto simp: rejectBooking_def mapReviewError_def Let_def answered_with_def parse_uuid_def)
  moreover have "answered_with ?C (confirmCheckInBooking isUUID u k code e d)"
    using a [of "ConfirmCheckIn u k code" mapLifecycleError ?staff, OF _ _ _ responses_exist(2)] assms(3)
    by (auto simp: confirmCheckInBooking_def mapLifecycleError_def answered_with_def parse_uuid_def)
  moreover have "answered_with ?C (checkOutBooking isUUID u k e d)"
    using a [of "CheckOut u k" mapLifecycleError ?staff, OF _ _ _ responses_exist(2)] assms(3)
    by (auto simp: checkOutBooking_def mapLifecycleError_def intro!: answered_parse)
  moreover have "answered_with ?C (markNoShowBooking isUUID u k e d)"
    using a [of "MarkNoShow u k" mapLifecycleError ?staff, OF _ _ _ responses_exist(2)] assms(3)
    by (auto simp: markNoShowBooking_def mapLifecycleError_def intro!: answered_parse)
  moreover have "answered_with ?C (cancelMine isUUID u k e d)"
    using a [of "Cancel u k" map_cancel_error ?student, OF _ _ _ responses_exist(1)]
    by (auto simp: cancelMine_def map_cancel_error_def intro!: answered_parse)
  moreover have "answered_with ?C (requestCheckInMine isUUID u k e d)"
    using a [of "RequestCheckIn u k" map_request_check_in_error ?student, OF _ _ _ responses_exist(1)] assms(4)
    by (auto simp: requestCheckInMine_def map_request_check_in_error_def intro!: answered_parse)
  ultimately show ?thesis by blast
qed

section \<open>Creation\<close>

lemma create_booking_errors:
  assumes "db_ok d" "known_user d u" "fresh_id e \<notin> ids b_id (bookings d)" "well_formed_request dto"
    "create_booking u dto e d = Inl err"
  shows "\<exists>code m. err = BookingDomainError code m \<and>
    code \<in> {INVALID_BOOKING_DATE, INVALID_BOOKING_RANGE, BOOKING_IN_PAST, RESOURCE_NOT_FOUND,
      RESOURCE_UNAVAILABLE, BOOKING_OVERLAP}"
proof -
  have v: "requireValidRequest dto (clock e) = Some x \<Longrightarrow> \<exists>code m. x = BookingDomainError code m \<and>
      code \<in> {INVALID_BOOKING_DATE, INVALID_BOOKING_RANGE, BOOKING_IN_PAST}" for x
    by (auto simp: requireValidRequest_def split: if_splits)
  have o: "requireOperationalAvailability r dto = Some x \<Longrightarrow>
      \<exists>m. x = BookingDomainError RESOURCE_UNAVAILABLE m" for r x
    by (auto simp: requireOperationalAvailability_def split: if_splits)
  show ?thesis
  proof (cases "row_at r_id (sql_uuid (cb_resourceId dto)) (resources d)")
    case None
    then show ?thesis using assms(5) v by (auto simp: create_booking_def split: option.splits)
  next
    case (Some r)
    show ?thesis
      using assms(5) v o [of r] unfolding create_booking_cases [OF assms(1-4) Some]
      by (auto split: option.splits if_splits)
  qed
qed

text \<open>A well-formed booking request never ends in an internal error: it is answered with the
created booking, or with 400 (not a real date, an empty interval, a start in the past), 404 (no such
resource) or 409 (not operational, closed, or taken).\<close>

lemma create_endpoint_answers:
  assumes "db_ok d" "known_user d u" "fresh_id e \<notin> ids b_id (bookings d)" "well_formed_request dto"
  shows "answered_with {400, 404, 409} (createBooking u dto e d)"
proof (cases "create_booking u dto e d")
  case (Inl err)
  with create_booking_errors [OF assms Inl] show ?thesis
    by (auto simp: createBooking_def answer_def answered_with_def map_create_http_error_def)
next
  case (Inr r)
  then show ?thesis by (cases r) (simp add: createBooking_def answer_def answered_with_def)
qed

lemma create_booking_db_ok:
  assumes "db_ok d" "create_booking u dto e d = Inr (b, d', evs)"
  shows "db_ok d'"
  using assms(2) insert_booking_keeps(1) [OF assms(1)]
  by (auto simp: create_booking_def Let_def split: option.splits if_splits sum.splits)

section \<open>The lists\<close>

lemma canReview_pending:
  assumes "campus_era now" "sound_booking b"
  shows "pending_where now b \<longleftrightarrow> canReview b now"
  using sql_after_now_iff [OF assms(1) sound_booking_times(4) [OF assms(2)] sound_booking_times(6) [OF assms(2)]]
  by (simp add: pending_where_def action_predicates(3) [OF assms(2)] booking_end_def)

text \<open>The orders of the lists are comparators, so that what is sorted by them is sorted.\<close>

interpretation pending_queue: comparator pending_order
  unfolding pending_order_def by (intro comparators)

interpretation timeline: comparator timeline_order
  unfolding timeline_order_def by (intro comparators)

interpretation history: comparator "cmp_desc (cmp_by bookingStart)"
  by (intro comparators)

text \<open>C7: The staff queue, all its pages one after the other, is exactly the pending requests that can
still be reviewed at the clock's instant, oldest first, and its total is their number; the SQL
condition on dates and times agrees with the millisecond check of the review itself.\<close>

theorem pending_queue_is_reviewable:
  assumes "db_ok d" "campus_era (clock e)" "0 < s"
  shows "let reviewable = filter (\<lambda>b. canReview b (clock e)) (bookings d) in
    sp_total (findPendingForStaff p s e d) = length reviewable \<and>
    concat (map (\<lambda>i. sp_bookings (findPendingForStaff (Suc i) s e d)) [0..<totalPagesFor (length reviewable) s])
      = sort_cmp pending_order reviewable \<and>
    sorted_wrt (\<lambda>a b. b_createdAt a \<le> b_createdAt b) (sort_cmp pending_order reviewable)"
proof -
  define reviewable where "reviewable = filter (\<lambda>b. canReview b (clock e)) (bookings d)"
  have eq: "filter (pending_where (clock e)) (bookings d) = reviewable"
    unfolding reviewable_def using canReview_pending [OF assms(2)] db_booking_sound [OF assms(1)]
    by (auto intro!: filter_cong)
  have pages: "concat (map (\<lambda>i. page_rows (Suc i) s (sort_cmp pending_order reviewable))
      [0..<totalPagesFor (length reviewable) s]) = sort_cmp pending_order reviewable"
    using pages_partition [OF assms(3), of "sort_cmp pending_order reviewable"] by simp
  have "sorted_wrt (\<lambda>a b. b_createdAt a \<le> b_createdAt b) (sort_cmp pending_order reviewable)"
    by (rule sorted_wrt_mono_rel [OF _ pending_queue.sorted])
      (auto simp: pending_order_def cmp_then_def cmp_by_def split: if_splits)
  with eq pages show ?thesis
    unfolding reviewable_def [symmetric] Let_def by (simp add: findPendingForStaff_def Let_def)
qed

text \<open>What the two lists of a timeline hold, and their orders.\<close>

lemma timeline_lists:
  fixes u e
  assumes "db_ok d"
  defines "l \<equiv> findForStudent u e d"
  shows "set (sb_upcoming l) = {b \<in> set (bookings d). b_requesterId b = u \<and>
        blocking (b_status b) \<and> clock e < booking_end b}"
    "set (sb_history l) = {b \<in> set (bookings d). b_requesterId b = u \<and>
        \<not> (blocking (b_status b) \<and> clock e < booking_end b)}"
    "distinct (map b_id (sb_upcoming l @ sb_history l))"
    "sorted_wrt (\<lambda>a b. timeline_order a b \<le> 0) (sb_upcoming l)"
    "sorted_wrt (\<lambda>a b. bookingStart b \<le> bookingStart a) (sb_history l)"
proof -
  define rows where "rows = sort_cmp timeline_order (filter (\<lambda>b. b_requesterId b = u) (bookings d))"
  define act where "act = (\<lambda>b. isActiveForStudent b (clock e))"
  have l: "sb_upcoming l = filter act rows"
    "sb_history l = sort_cmp (cmp_desc (cmp_by bookingStart)) (filter (\<lambda>b. \<not> act b) rows)"
    by (simp_all add: l_def findForStudent_def Let_def rows_def act_def)
  have act: "act b \<longleftrightarrow> blocking (b_status b) \<and> clock e < booking_end b" if "b \<in> set (bookings d)" for b
    using action_predicates(6) [OF db_booking_sound [OF assms(1) that]]
    by (auto simp: act_def isActiveForStudent_def blocking_def)
  have set: "set rows = {b \<in> set (bookings d). b_requesterId b = u}" by (auto simp: rows_def)
  have "distinct (map b_id (bookings d))" using assms(1) by (auto simp: db_ok_def table_inv_def)
  then have dist: "distinct (map b_id rows)" by (simp add: rows_def distinct_map_filter)
  have disj: "b_id ` set (filter act rows) \<inter> b_id ` set (filter (\<lambda>b. \<not> act b) rows) = {}"
    using dist by (auto simp: distinct_map inj_on_def)
  show "distinct (map b_id (sb_upcoming l @ sb_history l))"
    using dist disj by (simp add: l distinct_map_filter)
  show "set (sb_upcoming l) = {b \<in> set (bookings d). b_requesterId b = u \<and>
        blocking (b_status b) \<and> clock e < booking_end b}"
    "set (sb_history l) = {b \<in> set (bookings d). b_requesterId b = u \<and>
        \<not> (blocking (b_status b) \<and> clock e < booking_end b)}"
    using act by (auto simp: l set)
  show "sorted_wrt (\<lambda>a b. timeline_order a b \<le> 0) (sb_upcoming l)"
    using timeline.sorted by (simp add: l rows_def sorted_wrt_filter)
  show "sorted_wrt (\<lambda>a b. bookingStart b \<le> bookingStart a) (sb_history l)"
    unfolding l
    by (rule sorted_wrt_mono_rel [OF _ history.sorted])
      (auto simp: cmp_desc_def cmp_by_def split: if_splits)
qed

text \<open>A student's timeline shows each of the student's bookings once and no other: under upcoming
the pending, confirmed and checked-in ones whose slot has not ended, by date and start time, and under
history all the rest, latest start first.\<close>

lemma student_timeline:
  assumes "db_ok d"
  shows "let l = findForStudent u e d in
    set (sb_upcoming l) = {b \<in> set (bookings d). b_requesterId b = u \<and>
        blocking (b_status b) \<and> clock e < booking_end b} \<and>
    set (sb_history l) = {b \<in> set (bookings d). b_requesterId b = u \<and>
        \<not> (blocking (b_status b) \<and> clock e < booking_end b)} \<and>
    distinct (map b_id (sb_upcoming l @ sb_history l)) \<and>
    sorted_wrt (\<lambda>a b. sql_date (b_date a) \<le> sql_date (b_date b)) (sb_upcoming l) \<and>
    sorted_wrt (\<lambda>a b. bookingStart b \<le> bookingStart a) (sb_history l)"
proof -
  note l = timeline_lists [OF assms, of u e]
  have "sorted_wrt (\<lambda>a b. sql_date (b_date a) \<le> sql_date (b_date b)) (sb_upcoming (findForStudent u e d))"
    by (rule sorted_wrt_mono_rel [OF _ l(4)])
      (auto simp: timeline_order_def cmp_then_def cmp_by_def split: if_splits)
  with l show ?thesis unfolding Let_def by blast
qed

section \<open>Check-in codes\<close>

text \<open>C6: A check-in code (bookings.service.ts, requestCheckIn and confirmCheckIn) has six digits, its value is the
random number that was drawn, and it opens the check-in: after a successful request, confirming inside the
window succeeds with that code and with no other, which is refused as incorrect; confirming stores who did it and when, the code is gone,
and whoever tries again, with whatever code, at whatever time, is told that the booking cannot be checked in.\<close>

theorem check_in_code_protocol:
  assumes "db_ok d" "db_lived (clock e) d" "random_int e < 1000000"
    "requestCheckIn u k e d = Inr (b1, d1, evs1)"
    "known_user d s" "clock e \<le> clock e2" "clock e2 < booking_end b1"
  shows "b_checkInCode b1 = Some (check_in_code (random_int e)) \<and>
    six_digits (check_in_code (random_int e)) \<and>
    js_number (check_in_code (random_int e)) = random_int e \<and>
    (\<forall>code. code \<noteq> check_in_code (random_int e) \<longrightarrow>
       (\<exists>m. confirmCheckIn s k code e2 d1 = Inl (BookingDomainError INVALID_CHECK_IN_CODE m))) \<and>
    (\<exists>b2 d2. confirmCheckIn s k (check_in_code (random_int e)) e2 d1 = Inr (b2, d2, []) \<and>
       row_at b_id (b_id b1) (bookings d2) = Some b2 \<and> b_status b2 = CHECKED_IN \<and> b_checkInCode b2 = None \<and>
       b_checkedInAt b2 = Some (clock e2) \<and> b_checkedInById b2 = Some s \<and>
       (\<forall>s' code e3. \<exists>m. confirmCheckIn s' k code e3 d2 = Inl (BookingDomainError CHECK_IN_NOT_AVAILABLE m)))"
proof -
  let ?code = "check_in_code (random_int e)"
  have run: "run_lifecycle (RequestCheckIn u k) e d = Inr (b1, d1, evs1)" and "op_sound (RequestCheckIn u k) e d"
    using assms(3,4) by simp_all
  then obtain b where b: "b \<in> set (bookings d)" "addresses (RequestCheckIn u k) b" "enabled (RequestCheckIn u k) (clock e) b"
    "(b1, d1) = rewritten (op_change (RequestCheckIn u k) e) e d b"
    using run_lifecycle_Inr [OF assms(1,2)] by metis
  note rows1 = rewritten_rows [OF assms(1) b(1,4) b(1) op_change_slot]
  have b1: "b1 = (request_check_in_changes ?code (clock e) b)\<lparr>b_updatedAt := db_now e\<rparr>" using rows1(1) by simp
  have facts: "b_checkInCode b1 = Some ?code" "b_status b1 = CONFIRMED" "b_checkInRequestedAt b1 = Some (clock e)"
    "booking_start b1 = booking_start b" "booking_end b1 = booking_end b" "b_id b1 = b_id b"
    using b(3) by (simp_all add: b1 change_defs booking_start_def booking_end_def)
  have d1: "db_ok d1" by (rule lifecycle_db_ok [OF assms(1) run])
  have m1: "b1 \<in> set (bookings d1)" using rows1(2) by (auto dest: row_at_SomeD)
  have l1: "op_lock (ConfirmCheckIn s k code) d1 = Some b1" for code
    using m1 b(2) facts(6) by (simp only: op_lock_iff [OF d1]) simp
  have wrong: "\<exists>m. confirmCheckIn s k code e2 d1 = Inl (BookingDomainError INVALID_CHECK_IN_CODE m)" if "code \<noteq> ?code" for code
    using refused [OF d1 l1, of code e2] that facts b(3) assms(6,7) by simp
  have sound: "op_sound (ConfirmCheckIn s k ?code) e2 d1" "lived (clock e2) b1"
    using assms(5,6) facts(1-3) b1 b(1,3) assms(2) rows1(3-6)
    by (auto simp: known_user_def lived_def db_lived_def change_defs split: option.splits)
  have on: "enabled (ConfirmCheckIn s k ?code) (clock e2) b1" using facts b(3) assms(6,7) by simp
  obtain b2 d2 where r2: "(b2, d2) = rewritten (op_change (ConfirmCheckIn s k ?code) e2) e2 d1 b1"
    by (metis surj_pair)
  have run2: "run_lifecycle (ConfirmCheckIn s k ?code) e2 d1 = Inr (b2, d2, [])"
    using performed [OF d1 l1 on sound] unfolding r2 [symmetric] by (simp add: Let_def)
  note rows2 = rewritten_rows [OF d1 m1 r2 m1 op_change_slot]
  have b2: "b2 = (confirm_check_in_changes (clock e2) s b1)\<lparr>b_updatedAt := db_now e2\<rparr>" using rows2(1) by simp
  have d2: "db_ok d2" by (rule lifecycle_db_ok [OF d1 run2])
  have l2: "op_lock (ConfirmCheckIn s' k code) d2 = Some b2" for s' code
    using rows2(2) b(2) facts(6) by (simp only: op_lock_iff [OF d2]) (auto simp: b2 change_defs dest: row_at_SomeD)
  have "\<exists>m. confirmCheckIn s' k code e3 d2 = Inl (BookingDomainError CHECK_IN_NOT_AVAILABLE m)" for s' code e3
    using refused [OF d2 l2, of s' code e3] by (simp add: b2 change_defs)
  then show ?thesis
    using facts(1) check_in_code_digits [OF assms(3)] check_in_code_number wrong run2 rows2(2)
    by (simp add: b2 change_defs)
qed

end
