(* ===== verification/ResourceProps.thy ===== *)
theory ResourceProps
  imports Resources BookingProps
begin

text \<open>
  The properties of the resource component: what is shown as free is what can be booked, a search
  is a search for the typed text, a change that would strand an active booking is refused with the
  bookings in its way, and the writes keep the database's constraints.
\<close>

section \<open>Dates of stored rows\<close>

lemma closed_on_find:
  assumes "db_ok d" "pg_date date" "sql_uuid k = r_id r"
  shows "find_closure_on k date d = None \<longleftrightarrow> \<not> closed_on d (r_id r) date"
proof -
  have "c_date c = date \<longleftrightarrow> sql_date (c_date c) = sql_date date" if "c \<in> set (closures d)" for c
  proof -
    have "pg_date (c_date c)"
      using that assms(1) by (auto simp: db_ok_def closure_ok_def closure_typed_def dest: table_inv_ok)
    then show ?thesis using sql_date_inj [OF _ assms(2)] by blast
  qed
  then show ?thesis by (auto simp: find_closure_on_def find_None_iff closed_on_def assms(3))
qed

lemma booking_on_date:
  assumes "db_ok d" "pg_date date" "b \<in> set (bookings d)"
  shows "sql_date (b_date b) = sql_date date \<longleftrightarrow> b_date b = date"
  using sql_date_inj [OF sound_booking_times(4) [OF db_booking_sound [OF assms(1,3)]] assms(2)] by blast

lemma findBlockingBookings_set:
  assumes "db_ok d" "pg_date date"
  shows "set (findBlockingBookings k date d) =
    {b \<in> set (bookings d). b_resourceId b = sql_uuid k \<and> b_date b = date \<and> blocking (b_status b)}"
  using booking_on_date [OF assms] by (auto simp: findBlockingBookings_def blocking_def)

lemma hourlySlots_mem:
  assumes "resource_typed r" "resource_rules r" "h < 23"
  shows "\<lparr>s_startTime = hour_text h, s_endTime = hour_text (h + 1)\<rparr> \<in> set (hourlySlots (r_opensAt r) (r_closesAt r))
    \<longleftrightarrow> js_slice 0 5 (r_opensAt r) \<le> hour_text h \<and> hour_text (h + 1) \<le> js_slice 0 5 (r_closesAt r)"
proof -
  obtain a b where ab: "a < 24" "b < 24" "a < b" "b \<le> 23"
    "js_slice 0 5 (r_opensAt r) = hour_text a" "js_slice 0 5 (r_closesAt r) = hour_text b"
    "sql_time (r_opensAt r) = 3600 * int a" "sql_time (r_closesAt r) = 3600 * int b"
    "js_number (js_slice 0 2 (r_opensAt r)) = a" "js_number (js_slice 0 2 (r_closesAt r)) = b"
    using resource_hours [OF assms(1,2)] .
  have h: "h < 24" "h + 1 < 24" using assms(3) by simp_all
  have "\<lparr>s_startTime = hour_text h, s_endTime = hour_text (h + 1)\<rparr> \<in> set (hourlySlots (r_opensAt r) (r_closesAt r))
      \<longleftrightarrow> a \<le> h \<and> h < b"
  proof
    assume "\<lparr>s_startTime = hour_text h, s_endTime = hour_text (h + 1)\<rparr> \<in> set (hourlySlots (r_opensAt r) (r_closesAt r))"
    then obtain j where j: "a \<le> j" "j < b" "hour_text j = hour_text h"
      unfolding hourlySlots_def ab(9,10) by auto
    then have "j = h" using hour_text_inj [of j h] ab h by simp
    with j show "a \<le> h \<and> h < b" by simp
  next
    assume "a \<le> h \<and> h < b"
    then show "\<lparr>s_startTime = hour_text h, s_endTime = hour_text (h + 1)\<rparr> \<in> set (hourlySlots (r_opensAt r) (r_closesAt r))"
      unfolding hourlySlots_def ab(9,10) by auto
  qed
  also have "\<dots> \<longleftrightarrow> js_slice 0 5 (r_opensAt r) \<le> hour_text h \<and> hour_text (h + 1) \<le> js_slice 0 5 (r_closesAt r)"
    unfolding ab(5,6) using hour_text_le [OF ab(1) h(1)] hour_text_le [OF h(2) ab(2)] by auto
  finally show ?thesis .
qed

lemma blockedReason_None:
  "blockedReason r date cl = None \<longleftrightarrow>
     r_status r = ACTIVE \<and> cl = None \<and> dayOfWeekFor date \<in> set (r_operatingDays r)"
  by (cases "r_status r") (auto simp: blockedReason_def)

section \<open>What is shown as free can be booked\<close>

text \<open>An hour is offered exactly when it is bookable.\<close>

lemma offered_hour:
  assumes "db_ok d" "date_pattern date" "findAvailabilitySnapshot k date d = Inr (Some sn)" "h < 23"
  shows "real_date date" "row_at r_id (sql_uuid k) (resources d) = Some (sn_resource sn)"
    "\<lparr>s_startTime = hour_text h, s_endTime = hour_text (h + 1)\<rparr> \<in>
      set (av_slots (availability_fromResource (sn_resource sn) date (sn_closure sn) (sn_bookings sn) now))
    \<longleftrightarrow> bookable d (sn_resource sn)
      \<lparr>cb_resourceId = k, cb_date = date, cb_startTime = hour_text h, cb_endTime = hour_text (h + 1)\<rparr> now"
proof -
  let ?dto = "\<lparr>cb_resourceId = k, cb_date = date, cb_startTime = hour_text h, cb_endTime = hour_text (h + 1)\<rparr>"
  let ?slot = "\<lparr>s_startTime = hour_text h, s_endTime = hour_text (h + 1)\<rparr>"
  obtain r where real: "real_date date" and r: "row_at r_id (sql_uuid k) (resources d) = Some r"
    and sn: "sn_resource sn = r" "sn_closure sn = find_closure_on k date d" "sn_bookings sn = findBlockingBookings k date d"
    using assms(3)
    by (auto simp: findAvailabilitySnapshot_def requireValidDate_def findResourceById_def split: if_splits option.splits)
  show "real_date date" "row_at r_id (sql_uuid k) (resources d) = Some (sn_resource sn)" using real r sn by simp_all
  have rid: "sql_uuid k = r_id r" and mem: "r \<in> set (resources d)" using r by (auto dest: row_at_SomeD)
  have rok: "resource_typed r" "resource_rules r"
    using assms(1) mem by (auto simp: db_ok_def resource_ok_def dest: table_inv_ok)
  have pd: "pg_date date" by (rule real_date_pg [OF assms(2) real])
  have h: "h < 24" "h + 1 < 24" using assms(4) by simp_all
  have less: "hour_text h < hour_text (h + 1)" using hour_text_less [OF h] by simp
  have v: "requireValidRequest ?dto now = None \<longleftrightarrow> isFutureCampusTime date (hour_text h) now"
    using real less by (simp add: requireValidRequest_None)
  have free: "slot_free date (sn_bookings sn) now ?slot \<longleftrightarrow>
      isFutureCampusTime date (hour_text h) now \<and> \<not> taken d (r_id r) ?dto"
    using findBlockingBookings_set [OF assms(1) pd, of k]
    by (auto simp: slot_free_def taken_def sn rid)
  have "bookable d r ?dto now \<longleftrightarrow> isFutureCampusTime date (hour_text h) now \<and> r_status r = ACTIVE \<and>
      dayOfWeekFor date \<in> set (r_operatingDays r) \<and>
      (js_slice 0 5 (r_opensAt r) \<le> hour_text h \<and> hour_text (h + 1) \<le> js_slice 0 5 (r_closesAt r)) \<and>
      \<not> closed_on d (r_id r) date \<and> \<not> taken d (r_id r) ?dto"
    unfolding bookable_def v requireOperationalAvailability_None by auto
  also have "\<dots> \<longleftrightarrow> ?slot \<in> set (av_slots (availability_fromResource r date (sn_closure sn) (sn_bookings sn) now))"
    using blockedReason_None [of r date "sn_closure sn"] closed_on_find [OF assms(1) pd rid]
      hourlySlots_mem [OF rok assms(4)] free
    by (auto simp: availability_fromResource_def Let_def sn simp del: js_slice_0)
  finally show "?slot \<in> set (av_slots (availability_fromResource (sn_resource sn) date (sn_closure sn) (sn_bookings sn) now))
    \<longleftrightarrow> bookable d (sn_resource sn) ?dto now" using sn by simp
qed

text \<open>C4: An hour is offered in the availability of a resource on a date exactly when a student's
booking request for that resource, date and hour would be accepted at the same instant.\<close>

theorem offered_slot_iff_bookable:
  assumes "db_ok d" "known_user d u" "fresh_id e \<notin> ids b_id (bookings d)" "date_pattern date"
    "findAvailabilitySnapshot k date d = Inr (Some sn)" "h < 23"
  shows "\<lparr>s_startTime = hour_text h, s_endTime = hour_text (h + 1)\<rparr> \<in>
      set (av_slots (availability_fromResource (sn_resource sn) date (sn_closure sn) (sn_bookings sn) (clock e)))
    \<longleftrightarrow> succeeds (create_booking u
      \<lparr>cb_resourceId = k, cb_date = date, cb_startTime = hour_text h, cb_endTime = hour_text (h + 1)\<rparr> e d)"
proof -
  let ?dto = "\<lparr>cb_resourceId = k, cb_date = date, cb_startTime = hour_text h, cb_endTime = hour_text (h + 1)\<rparr>"
  note o = offered_hour [OF assms(1,4,5,6)]
  have "well_formed_request ?dto"
    using assms(4,6) hour_text_pattern [of h] hour_text_pattern [of "h + 1"] by (simp add: well_formed_request_def)
  from create_booking_succeeds [OF assms(1-3) this] o show ?thesis by simp
qed

lemma available_in_bookable:
  assumes d: "db_ok d" and mem: "r \<in> set (resources d)" and date: "date_pattern date" "real_date date"
    and h: "h < 24" "k < 24" "h < k"
  defines "dto \<equiv> \<lparr>cb_resourceId = r_id r, cb_date = date, cb_startTime = hour_text h, cb_endTime = hour_text k\<rparr>"
  shows "bookable d r dto now \<longleftrightarrow>
    isFutureCampusTime date (hour_text h) now \<and> r_status r = ACTIVE \<and>
    available_in d r (date, hour_text h, hour_text k)"
proof -
  have pd: "pg_date date" by (rule real_date_pg [OF date])
  have rok: "resource_typed r" "resource_rules r"
    using d mem by (auto simp: db_ok_def resource_ok_def dest: table_inv_ok)
  obtain a b where ab: "a < 24" "b < 24" "a < b" "b \<le> 23"
    "js_slice 0 5 (r_opensAt r) = hour_text a" "js_slice 0 5 (r_closesAt r) = hour_text b"
    "sql_time (r_opensAt r) = 3600 * int a" "sql_time (r_closesAt r) = 3600 * int b"
    using resource_hours [OF rok] by metis
  have open_hours: "js_slice 0 5 (r_opensAt r) \<le> hour_text h \<longleftrightarrow> sql_time (r_opensAt r) \<le> sql_time (hour_text h)"
    "hour_text k \<le> js_slice 0 5 (r_closesAt r) \<longleftrightarrow> sql_time (hour_text k) \<le> sql_time (r_closesAt r)"
    using ab h hour_text_le hour_text_shape(9) by simp_all
  have closed: "closed_on d (r_id r) date \<longleftrightarrow>
      (\<exists>c\<in>set (closures d). c_resourceId c = r_id r \<and> sql_date (c_date c) = sql_date date)"
    (is "_ \<longleftrightarrow> ?C")
  proof -
    have "sql_date (c_date c) = sql_date date \<longleftrightarrow> c_date c = date" if "c \<in> set (closures d)" for c
    proof -
      have "pg_date (c_date c)"
        using that d by (auto simp: db_ok_def closure_ok_def closure_typed_def dest: table_inv_ok)
      then show ?thesis using sql_date_inj [OF _ pd] by blast
    qed
    then show ?thesis by (auto simp: closed_on_def)
  qed
  have taken: "taken d (r_id r) dto \<longleftrightarrow>
      (\<exists>x\<in>set (bookings d). b_resourceId x = r_id r \<and> sql_date (b_date x) = sql_date date \<and>
         b_status x \<in> {PENDING, CONFIRMED, CHECKED_IN} \<and>
         sql_time (b_startTime x) < sql_time (hour_text k) \<and> sql_time (hour_text h) < sql_time (b_endTime x))"
  proof -
    have "normalizeTime (b_startTime x) < hour_text k \<longleftrightarrow> sql_time (b_startTime x) < sql_time (hour_text k)"
      "hour_text h < normalizeTime (b_endTime x) \<longleftrightarrow> sql_time (hour_text h) < sql_time (b_endTime x)"
      "sql_date (b_date x) = sql_date date \<longleftrightarrow> b_date x = date"
      if x: "x \<in> set (bookings d)" for x
    proof -
      obtain p q where "p < 24" "q < 24" "p < q" "js_slice 0 5 (b_startTime x) = hour_text p"
        "js_slice 0 5 (b_endTime x) = hour_text q" "sql_time (b_startTime x) = 3600 * int p"
        "sql_time (b_endTime x) = 3600 * int q"
        using booking_hours [OF db_booking_sound [OF d x]] .
      then show "normalizeTime (b_startTime x) < hour_text k \<longleftrightarrow> sql_time (b_startTime x) < sql_time (hour_text k)"
        "hour_text h < normalizeTime (b_endTime x) \<longleftrightarrow> sql_time (hour_text h) < sql_time (b_endTime x)"
        using h hour_text_less hour_text_shape(9) unfolding normalizeTime_def by simp_all
      show "sql_date (b_date x) = sql_date date \<longleftrightarrow> b_date x = date" by (rule booking_on_date [OF d pd x])
    qed
    then show ?thesis by (auto simp: taken_def blocking_def dto_def)
  qed
  have order: "hour_text h < hour_text k" using hour_text_less [OF h(1,2)] h(3) by simp
  show ?thesis
    unfolding bookable_def requireValidRequest_None requireOperationalAvailability_None available_in_def
    using closed taken open_hours order date(2) by (auto simp: dto_def simp del: js_slice_0)
qed

section \<open>Accepting a booking\<close>

text \<open>
  When a slot can be booked, in terms of the rows and of instants: the day exists, the interval is not empty
  and starts later than now, the resource is in use, operates on that day of the week and is open for the
  whole interval, and neither a closure of that day nor a booking that holds its slot is in the way.
\<close>

definition slot_open :: "db \<Rightarrow> resource \<Rightarrow> create_booking_dto \<Rightarrow> int \<Rightarrow> bool" where
  "slot_open d r dto now \<longleftrightarrow>
     pg_date (cb_date dto) \<and> sql_time (cb_startTime dto) < sql_time (cb_endTime dto) \<and>
     now < at_campus_zone (cb_date dto) (cb_startTime dto) \<and>
     r_status r = ACTIVE \<and> sql_dow (cb_date dto) \<in> set (r_operatingDays r) \<and>
     sql_time (r_opensAt r) \<le> sql_time (cb_startTime dto) \<and> sql_time (cb_endTime dto) \<le> sql_time (r_closesAt r) \<and>
     \<not> (\<exists>c\<in>set (closures d). c_resourceId c = r_id r \<and> sql_date (c_date c) = sql_date (cb_date dto)) \<and>
     \<not> (\<exists>b\<in>set (bookings d). b_resourceId b = r_id r \<and> b_status b \<in> {PENDING, CONFIRMED, CHECKED_IN} \<and>
          sql_date (b_date b) = sql_date (cb_date dto) \<and>
          sql_time (b_startTime b) < sql_time (cb_endTime dto) \<and> sql_time (cb_startTime dto) < sql_time (b_endTime b))"

lemma early_years:
  assumes "pg_date s" "\<not> real_date s"
  shows "sql_date s < 0"
proof -
  obtain y m d where n: "date_pattern s" "date_numbers s = Some (y, m, d)" "valid_ymd y (m - 1) d"
    using assms(1) by (rule pg_dateE)
  then have "y < 100" using real_date_iff [OF n(1,2)] assms(2) by simp
  have "sql_date s < day_from_year (y + 1)"
    using year_from_day_bounds(2) [of "sql_date s"] sql_date_fields(1) [OF n(2,3)] by simp
  also have "\<dots> \<le> day_from_year 100" using \<open>y < 100\<close> day_from_year_mono [of "y + 1" 100] by (cases "y = 99") auto
  finally show ?thesis by (simp add: day_from_year_def)
qed

lemma bookable_slot_open:
  assumes "db_ok d" "r \<in> set (resources d)" "well_formed_request dto" "0 \<le> now"
  shows "bookable d r dto now \<longleftrightarrow> slot_open d r dto now"
proof -
  obtain h k where hk: "date_pattern (cb_date dto)" "h < 24" "k < 24"
    "cb_startTime dto = hour_text h" "cb_endTime dto = hour_text k"
    using assms(3) by (rule well_formed_requestE)
  let ?dto = "\<lparr>cb_resourceId = r_id r, cb_date = cb_date dto, cb_startTime = hour_text h, cb_endTime = hour_text k\<rparr>"
  have same: "bookable d r dto now \<longleftrightarrow> bookable d r ?dto now"
    by (simp add: bookable_def requireValidRequest_None requireOperationalAvailability_None taken_def hk(4,5) del: js_slice_0)
  have valid: "bookable d r dto now \<Longrightarrow> real_date (cb_date dto) \<and> h < k"
    using hour_text_less [OF hk(2,3)] by (simp add: bookable_def requireValidRequest_None hk(4,5))
  have times: "sql_time (hour_text h) = 3600 * int h" "sql_time (hour_text k) = 3600 * int k"
    using hour_text_shape(9) hk(2,3) by simp_all
  have real: "slot_open d r dto now \<Longrightarrow> real_date (cb_date dto) \<and> h < k"
  proof -
    assume s: "slot_open d r dto now"
    have "\<not> sql_date (cb_date dto) < 0"
    proof
      assume "sql_date (cb_date dto) < 0"
      then have "at_campus_zone (cb_date dto) (cb_startTime dto) < 0"
        using hk(2,4) times by (simp add: at_campus_zone_def CAMPUS_OFFSET_MS_def)
      then show False using s assms(4) by (simp add: slot_open_def)
    qed
    then show ?thesis using s early_years [of "cb_date dto"] times by (auto simp: slot_open_def hk(4,5))
  qed
  show ?thesis
  proof (cases "real_date (cb_date dto) \<and> h < k")
    case True
    then have pd: "pg_date (cb_date dto)" using real_date_pg [OF hk(1)] by simp
    have "campusDateTimeMs (cb_date dto) (hour_text h) = Some (at_campus_zone (cb_date dto) (hour_text h))"
      using campusDateTimeMs_eq [OF pd] hour_text_shape(2) [OF hk(2)] clock_minutes_hour [OF hk(2)] times(1)
      by (simp add: at_campus_zone_def)
    then have later: "isFutureCampusTime (cb_date dto) (hour_text h) now \<longleftrightarrow> now < at_campus_zone (cb_date dto) (cb_startTime dto)"
      by (simp add: isFutureCampusTime_def hk(4))
    show ?thesis
      unfolding same using True
      by (subst available_in_bookable [OF assms(1,2) hk(1)])
        (auto simp: hk later slot_open_def available_in_def pd times dayOfWeekFor_eq [OF hk(1)])
  next
    case False
    then show ?thesis using valid real by blast
  qed
qed

text \<open>C1: A booking request with a date and whole hours in their formats is accepted exactly when its resource exists and the
slot is open: the day is a real one, the interval is not empty and starts in the future, the resource is active,
operates on that weekday and is open for the whole interval, is not closed that day, and no pending, confirmed or
checked-in booking of it overlaps. What is then stored is one new booking of the requester for that resource, day and
interval, pending or confirmed as the resource requires, untouched by review or check-in; nothing else changes, and the
resource and date are announced.\<close>

theorem create_accepts_exactly_bookable:
  assumes "db_ok d" "known_user d u" "fresh_id e \<notin> ids b_id (bookings d)" "well_formed_request dto" "0 \<le> clock e"
  shows "(succeeds (create_booking u dto e d) \<longleftrightarrow>
      (\<exists>r\<in>set (resources d). r_id r = sql_uuid (cb_resourceId dto) \<and> slot_open d r dto (clock e))) \<and>
    (\<forall>b d' evs. create_booking u dto e d = Inr (b, d', evs) \<longrightarrow>
      (\<exists>r row. r \<in> set (resources d) \<and> r_id r = sql_uuid (cb_resourceId dto) \<and>
         d' = d\<lparr>bookings := bookings d @ [row]\<rparr> \<and> evs = [AvailabilityChanged (r_id r) (cb_date dto)] \<and>
         b = row\<lparr>b_startTime := cb_startTime dto, b_endTime := cb_endTime dto\<rparr> \<and>
         b_id row = fresh_id e \<and> b_requesterId row = u \<and> b_resourceId row = r_id r \<and> b_date row = cb_date dto \<and>
         sql_time (b_startTime row) = sql_time (cb_startTime dto) \<and> sql_time (b_endTime row) = sql_time (cb_endTime dto) \<and>
         b_status row = (if r_requiresApproval r then PENDING else CONFIRMED) \<and>
         b_reviewedAt row = None \<and> b_cancelledAt row = None \<and> b_checkInRequestedAt row = None \<and> b_checkInCode row = None \<and>
         b_checkedInAt row = None \<and> b_checkedOutAt row = None \<and> b_noShowAt row = None \<and> b_createdAt row = db_now e))"
proof (intro conjI allI impI)
  have distinct: "distinct (map r_id (resources d))" using assms(1) by (auto simp: db_ok_def table_inv_def)
  have found: "row_at r_id k (resources d) = Some r \<longleftrightarrow> r \<in> set (resources d) \<and> r_id r = k" for k r
    by (rule row_at_Some_iff [OF distinct])
  show "succeeds (create_booking u dto e d) \<longleftrightarrow>
      (\<exists>r\<in>set (resources d). r_id r = sql_uuid (cb_resourceId dto) \<and> slot_open d r dto (clock e))"
    using create_booking_succeeds [OF assms(1-4)] bookable_slot_open [OF assms(1) _ assms(4,5)] by (auto simp: found)
  fix b d' evs assume run: "create_booking u dto e d = Inr (b, d', evs)"
  then obtain r where r: "row_at r_id (sql_uuid (cb_resourceId dto)) (resources d) = Some r" "bookable d r dto (clock e)"
    using create_booking_succeeds [OF assms(1-4)] by (auto simp: succeeds_iff)
  obtain h k where hk: "h < 24" "k < 24" "cb_startTime dto = hour_text h" "cb_endTime dto = hour_text k"
    using assms(4) by (rule well_formed_requestE)
  let ?row = "booking_columns (new_booking r u dto e)"
  have "b = new_booking r u dto e" "d' = d\<lparr>bookings := bookings d @ [?row]\<rparr>" "evs = [AvailabilityChanged (r_id r) (cb_date dto)]"
    using create_booking_cases [OF assms(1-4) r(1)] r(2) run by (simp_all add: bookable_def)
  then show "\<exists>r row. r \<in> set (resources d) \<and> r_id r = sql_uuid (cb_resourceId dto) \<and>
         d' = d\<lparr>bookings := bookings d @ [row]\<rparr> \<and> evs = [AvailabilityChanged (r_id r) (cb_date dto)] \<and>
         b = row\<lparr>b_startTime := cb_startTime dto, b_endTime := cb_endTime dto\<rparr> \<and>
         b_id row = fresh_id e \<and> b_requesterId row = u \<and> b_resourceId row = r_id r \<and> b_date row = cb_date dto \<and>
         sql_time (b_startTime row) = sql_time (cb_startTime dto) \<and> sql_time (b_endTime row) = sql_time (cb_endTime dto) \<and>
         b_status row = (if r_requiresApproval r then PENDING else CONFIRMED) \<and>
         b_reviewedAt row = None \<and> b_cancelledAt row = None \<and> b_checkInRequestedAt row = None \<and> b_checkInCode row = None \<and>
         b_checkedInAt row = None \<and> b_checkedOutAt row = None \<and> b_noShowAt row = None \<and> b_createdAt row = db_now e"
    using r(1) found hour_text_shape(7,9) hk
    by (intro exI [of _ r] exI [of _ ?row]) (simp add: booking_columns_def new_booking_def)
qed

text \<open>A query for an interval only.\<close>

definition interval_query :: "string \<Rightarrow> nat \<Rightarrow> nat \<Rightarrow> resource_sort \<Rightarrow> nat \<Rightarrow> nat \<Rightarrow> discover_query" where
  "interval_query date h k s p n =
     \<lparr>dq_q = None, dq_buildingId = None, dq_type = None, dq_minCapacity = None, dq_amenity = None,
      dq_date = Some date, dq_startTime = Some (hour_text h), dq_endTime = Some (hour_text k),
      dq_sort = s, dq_page = p, dq_pageSize = n\<rparr>"

text \<open>C5: Searching for an interval finds exactly the resources that can be booked for it at the same
instant: the total is their number, and the pages are the pages of the sorted list of them.\<close>

theorem discovery_finds_bookable:
  assumes "db_ok d" "date_pattern date" "real_date date" "h < 24" "k < 24" "h < k"
  shows "let found = filter (\<lambda>r. bookable d r \<lparr>cb_resourceId = r_id r, cb_date = date,
        cb_startTime = hour_text h, cb_endTime = hour_text k\<rparr> (clock e)) (resources d)
    in discover collate (interval_query date h k s p n) e d =
      Inr (page_rows p n (sort_cmp (discover_order collate s) found), length found)"
proof -
  define found where "found = filter (\<lambda>r. bookable d r \<lparr>cb_resourceId = r_id r, cb_date = date,
        cb_startTime = hour_text h, cb_endTime = hour_text k\<rparr> (clock e)) (resources d)"
  let ?q = "interval_query date h k s p n"
  have ne: "date \<noteq> []" "hour_text h \<noteq> []" "hour_text k \<noteq> []"
    using date_pattern_length [OF assms(2)] hour_text_shape(1) [OF assms(4)] hour_text_shape(1) [OF assms(5)] by auto
  then have iv: "query_interval ?q = Some (date, hour_text h, hour_text k)"
    by (simp add: query_interval_def interval_query_def truthy_def split: list.splits)
  have "hour_text h < hour_text k" using hour_text_less [OF assms(4,5)] assms(6) by simp
  then have valid: "requireValidInterval date (hour_text h) (hour_text k) = None"
    using assms(3) by (simp add: requireValidInterval_def requireValidDate_def)
  have wh: "discover_where ?q d r \<longleftrightarrow> r_status r = ACTIVE \<and> available_in d r (date, hour_text h, hour_text k)"
    if "r \<in> set (resources d)" for r
  proof -
    have "r_buildingId r \<in> ids bl_id (buildings d)"
      using that assms(1) by (auto simp: db_ok_def resource_ok_def dest: table_inv_ok)
    then obtain bl where "row_at bl_id (r_buildingId r) (buildings d) = Some bl"
      using row_at_None [of bl_id "r_buildingId r" "buildings d"] by (auto simp: ids_def)
    then show ?thesis
      using iv by (simp add: discover_where_def opt_holds_def) (simp add: interval_query_def truthy_def)
  qed
  have bk: "bookable d r \<lparr>cb_resourceId = r_id r, cb_date = date, cb_startTime = hour_text h, cb_endTime = hour_text k\<rparr> (clock e)
      \<longleftrightarrow> isFutureCampusTime date (hour_text h) (clock e) \<and> discover_where ?q d r"
    if "r \<in> set (resources d)" for r
    using available_in_bookable [OF assms(1) that assms(2-6), of "clock e"] wh [OF that] by simp
  have "discover collate ?q e d = Inr (page_rows p n (sort_cmp (discover_order collate s) found), length found)"
  proof (cases "isFutureCampusTime date (hour_text h) (clock e)")
    case True
    then have "filter (discover_where ?q d) (resources d) = found"
      unfolding found_def using bk by (auto intro!: filter_cong)
    with True iv valid show ?thesis
      by (simp add: discover_def discoverFrom_def Let_def) (simp add: interval_query_def)
  next
    case False
    then have "found = []" unfolding found_def using bk by (auto simp: filter_empty_conv)
    with False iv valid show ?thesis
      by (simp add: discover_def page_rows_def sort_cmp_def)
  qed
  then show ?thesis by (simp add: found_def Let_def)
qed

end
