(* ===== verification/Stranding.thy ===== *)
theory Stranding
  imports ResourceProps
begin

text \<open>
  No active booking is stranded: while a pending or confirmed booking has not ended, its resource
  is active, operates on its day, is open for its interval and is not closed on its date. Every
  operation keeps this, and so does the passing of time.
\<close>

section \<open>The invariant\<close>

definition serves :: "db \<Rightarrow> resource \<Rightarrow> booking \<Rightarrow> bool" where
  "serves d r b \<longleftrightarrow>
     r_status r = ACTIVE \<and> sql_dow (b_date b) \<in> set (r_operatingDays r) \<and>
     sql_time (r_opensAt r) \<le> sql_time (b_startTime b) \<and> sql_time (b_endTime b) \<le> sql_time (r_closesAt r) \<and>
     \<not> closed_on d (r_id r) (b_date b)"

definition active_at :: "int \<Rightarrow> booking \<Rightarrow> bool" where
  "active_at now b \<longleftrightarrow> reviewable_status (b_status b) \<and> now < booking_end b"

definition none_stranded :: "int \<Rightarrow> db \<Rightarrow> bool" where
  "none_stranded now d \<longleftrightarrow>
     (\<forall>b\<in>set (bookings d). active_at now b \<longrightarrow>
        (\<forall>r\<in>set (resources d). r_id r = b_resourceId b \<longrightarrow> serves d r b))"

lemma none_stranded_later: "none_stranded now d \<Longrightarrow> now \<le> now' \<Longrightarrow> none_stranded now' d"
  unfolding none_stranded_def active_at_def by (meson le_less_trans)

lemma ends_after_now_iff:
  "campus_era now \<Longrightarrow> sound_booking b \<Longrightarrow> ends_after_now now b \<longleftrightarrow> now < booking_end b"
  using sql_after_now_iff [OF _ sound_booking_times(4) sound_booking_times(6)]
  by (simp add: ends_after_now_def booking_end_def)

lemma requireNoActiveBookings_None:
  "requireNoActiveBookings d k P m = None \<longleftrightarrow>
     (\<forall>b\<in>set (bookings d). b_resourceId b = k \<longrightarrow> \<not> P b)"
  by (auto simp: requireNoActiveBookings_def Let_def filter_empty_conv)

section \<open>Bookings\<close>

lemma create_booking_serves:
  assumes d: "db_ok d" and c: "create_booking u dto e d = Inr (b, d', evs)" and wf: "well_formed_request dto"
    and s: "none_stranded now d"
  shows "none_stranded now d'"
proof -
  obtain r where v: "requireValidRequest dto (clock e) = None"
    and r: "row_at r_id (sql_uuid (cb_resourceId dto)) (resources d) = Some r"
    and o: "requireOperationalAvailability r dto = None" and cl: "\<not> closed_on d (r_id r) (cb_date dto)"
    and i: "insert_booking (new_booking r u dto e) d = Inr d'"
    using c by (auto simp: create_booking_def Let_def split: option.splits if_splits sum.splits)
  let ?n = "booking_columns (new_booking r u dto e)"
  have d': "d' = d\<lparr>bookings := bookings d @ [?n]\<rparr>" by (rule insert_booking_keeps(2) [OF d i])
  obtain h k where hk: "date_pattern (cb_date dto)" "h < 24" "k < 24"
    "cb_startTime dto = hour_text h" "cb_endTime dto = hour_text k"
    using wf by (rule well_formed_requestE)
  have mem: "r \<in> set (resources d)" using r by (auto dest: row_at_SomeD)
  have rok: "resource_typed r" "resource_rules r"
    using d mem by (auto simp: db_ok_def resource_ok_def dest: table_inv_ok)
  obtain a c where ac: "a < 24" "c < 24"
    "js_slice 0 5 (r_opensAt r) = hour_text a" "js_slice 0 5 (r_closesAt r) = hour_text c"
    "sql_time (r_opensAt r) = 3600 * int a" "sql_time (r_closesAt r) = 3600 * int c"
    using resource_hours [OF rok] by metis
  have n: "b_date ?n = cb_date dto" "sql_time (b_startTime ?n) = 3600 * int h"
    "sql_time (b_endTime ?n) = 3600 * int k" "b_resourceId ?n = r_id r"
    using hk hour_text_shape(7) [OF hk(2)] hour_text_shape(7) [OF hk(3)]
    by (simp_all add: booking_columns_def new_booking_def)
  have "serves d' r ?n"
    using v o cl ac hk n dayOfWeekFor_eq [of "cb_date dto"] hour_text_le [OF ac(1) hk(2)] hour_text_le [OF hk(3) ac(2)]
    unfolding requireValidRequest_None requireOperationalAvailability_None
    by (simp add: serves_def d' closed_on_def del: js_slice_0)
  moreover have "x = r" if "x \<in> set (resources d)" "r_id x = r_id r" for x
  proof -
    have "distinct (map r_id (resources d))" using d by (auto simp: db_ok_def table_inv_def)
    then show ?thesis using that mem by (metis row_at_mem option.inject)
  qed
  ultimately show ?thesis
    using s n(4) by (auto simp: none_stranded_def d' serves_def closed_on_def)
qed

lemma lifecycle_serves:
  assumes d: "db_ok d" "db_lived (clock e) d" "op_sound op e d"
    and run: "run_lifecycle op e d = Inr (b', d', evs)" and s: "none_stranded (clock e) d"
  shows "none_stranded (clock e) d'"
proof -
  obtain b where b: "b \<in> set (bookings d)" "enabled op (clock e) b"
    "(b', d') = rewritten (op_change op e) e d b"
    using d run by (rule run_lifecycle_Inr)
  note rows = rewritten_rows [OF d(1) b(1,3) b(1) op_change_slot]
  have mem: "x \<in> set (bookings d') \<Longrightarrow> x = b' \<or> x \<in> set (bookings d)" for x
    using b(3) rows(1) d(1) b(1)
    by (auto simp: rewritten_def Let_def set_patch_row db_ok_def table_inv_def split: if_splits)
      (metis row_at_mem option.inject)
  have slot: "same_slot b b'" using op_change_slot [of b op e] by (simp add: rows(1) same_slot_def)
  have "active_at (clock e) b' \<Longrightarrow> active_at (clock e) b"
    using b(2) slot
    by (cases op) (auto simp: rows(1) active_at_def reviewable_status_def change_defs booking_end_def)
  moreover have "serves d' r x \<longleftrightarrow> serves d r x" for r x
    by (simp add: serves_def closed_on_def rows(6))
  moreover have "serves d r b' \<longleftrightarrow> serves d r b" for r
    using slot by (simp add: serves_def same_slot_def)
  moreover have "b_resourceId b' = b_resourceId b" using slot by (simp add: same_slot_def)
  ultimately show ?thesis
    using s b(1) mem rows(4) unfolding none_stranded_def by metis
qed

section \<open>Resources and closures\<close>

lemma sql_time_text: "pg_time t \<Longrightarrow> sql_time (time_text t) = sql_time t"
  by (auto simp: time_text_def pg_time_def sql_time_def js_number_def digit_val_def split: list.splits)

lemma slice_time_text: "js_slice 0 5 (time_text t) = js_slice 0 5 t"
  by (simp add: time_text_def)

lemma patched_resource:
  assumes "db_ok d" "update_resource k f d = Inr d'" "\<And>x. r_id (f x) = r_id x"
    and "r \<in> set (resources d')"
  shows "\<exists>x\<in>set (resources d). r_id x = r_id r \<and> (if r_id r = k then r = resource_columns (f x) else r = x)"
proof -
  have "d' = d\<lparr>resources := patch_row r_id k (\<lambda>r. resource_columns (f r)) (resources d)\<rparr>"
    by (rule update_resource_keeps(2) [OF assms(1,2)]) (rule assms(3))
  then obtain x where x: "x \<in> set (resources d)" "r = (if r_id x = k then resource_columns (f x) else x)"
    using assms(4) by (auto simp: set_patch_row)
  have "r_id (resource_columns (f x)) = r_id x" by (simp add: resource_columns_def assms(3))
  with x show ?thesis by (intro bexI [of _ x]) auto
qed

lemma update_resource_frame:
  assumes "db_ok d" "update_resource k f d = Inr d'" "\<And>x. r_id (f x) = r_id x"
  shows "bookings d' = bookings d" "closures d' = closures d" "users d' = users d" "db_ok d'"
  using update_resource_keeps(2) [OF assms] update_resource_keeps(1) [OF assms] by simp_all

lemma status_serves:
  assumes d: "db_ok d" and era: "campus_era (clock e)" and s: "none_stranded (clock e) d"
    and run: "updateStatus_resource r status e d = Inr (r', d', evs)"
  shows "none_stranded (clock e) d'" "db_ok d'"
proof -
  let ?f = "\<lambda>x. x\<lparr>r_status := status, r_updatedAt := db_now e\<rparr>"
  obtain locked where l: "row_at r_id (r_id r) (resources d) = Some locked"
    and g: "status \<noteq> ACTIVE \<Longrightarrow> requireNoActiveBookings d (r_id locked)
      (\<lambda>b. reviewable_status (b_status b) \<and> ends_after_now (clock e) b \<or> b_status b = CHECKED_IN)
      (status_message status) = None"
    and u: "update_resource (r_id locked) ?f d = Inr d'"
    using run by (auto simp: updateStatus_resource_def reload_resource_def map_sum_Inr_iff
        split: option.splits if_splits sum.splits)
  note f = update_resource_frame [OF d u]
  show "db_ok d'" by (rule f(4)) simp
  have frame: "bookings d' = bookings d" "closures d' = closures d" by (rule f(1), simp) (rule f(2), simp)
  show "none_stranded (clock e) d'"
    unfolding none_stranded_def frame
  proof (intro ballI impI)
    fix b x
    assume b: "b \<in> set (bookings d)" "active_at (clock e) b" and x: "x \<in> set (resources d')" "r_id x = b_resourceId b"
    obtain y where y: "y \<in> set (resources d)" "r_id y = r_id x"
      "if r_id x = r_id locked then x = resource_columns (?f y) else x = y"
      using patched_resource [OF d u _ x(1)] by auto
    have sy: "serves d y b" using s b x(2) y(1,2) by (simp add: none_stranded_def)
    have yok: "pg_time (r_opensAt y)" "pg_time (r_closesAt y)"
      using d y(1) by (auto simp: db_ok_def resource_ok_def resource_typed_def dest: table_inv_ok)
    show "serves d' x b"
    proof (cases "r_id x = r_id locked")
      case True
      have "status = ACTIVE"
      proof (rule ccontr)
        assume "status \<noteq> ACTIVE"
        then have "\<not> (reviewable_status (b_status b) \<and> ends_after_now (clock e) b)"
          using g b(1) x(2) True by (simp add: requireNoActiveBookings_None)
        then show False
          using b(2) ends_after_now_iff [OF era db_booking_sound [OF d b(1)]] by (simp add: active_at_def)
      qed
      then show ?thesis
        using sy y True frame sql_time_text [OF yok(1)] sql_time_text [OF yok(2)]
        by (simp add: serves_def resource_columns_def closed_on_def)
    next
      case False
      with sy y frame show ?thesis by (simp add: serves_def closed_on_def)
    qed
  qed
qed

text \<open>The key of a list of weekdays determines the set of them.\<close>

lemma js_string_nonempty: "js_string n \<noteq> []"
  by (subst js_string.simps) simp

lemma join_comma_split:
  assumes "xs \<noteq> []" "\<forall>x\<in>set xs. CHR '','' \<notin> set x"
  shows "js_split CHR '','' (join_comma xs) = xs"
  using assms by (induction xs rule: join_comma.induct) (auto simp: js_split_no_sep js_split_sep)

lemma join_comma_empty: "\<forall>x\<in>set xs. x \<noteq> [] \<Longrightarrow> join_comma xs = [] \<Longrightarrow> xs = []"
  by (induction xs rule: join_comma.induct) auto

lemma daysKey_set:
  assumes "daysKey a = daysKey b" "\<forall>x\<in>set a. 0 \<le> x" "\<forall>x\<in>set b. 0 \<le> x"
  shows "set a = set b"
proof -
  define keys where "keys = (\<lambda>days. map (\<lambda>n. js_string (nat n)) (sort_cmp (\<lambda>x y. x - y) days))"
  have dig: "CHR '','' \<notin> set (js_string n)" for n
  proof
    assume "CHR '','' \<in> set (js_string n)"
    then have "is_digit CHR '',''" using js_string_digits by blast
    then show False by (simp add: is_digit_def)
  qed
  have sep: "\<forall>x\<in>set (keys days). CHR '','' \<notin> set x \<and> x \<noteq> []" for days
    using dig js_string_nonempty by (auto simp: keys_def)
  have key: "join_comma (keys a) = join_comma (keys b)" using assms(1) by (simp add: daysKey_def keys_def)
  have "keys a = keys b"
  proof (cases "keys a = [] \<or> keys b = []")
    case True
    then have "join_comma (keys a) = [] \<and> join_comma (keys b) = []" using key by auto
    then show ?thesis using join_comma_empty sep by metis
  next
    case False
    then have "js_split CHR '','' (join_comma (keys a)) = keys a" "js_split CHR '','' (join_comma (keys b)) = keys b"
      using sep by (auto intro!: join_comma_split)
    with key show ?thesis by metis
  qed
  then have "js_number ` set (keys a) = js_number ` set (keys b)" by simp
  then have "nat ` set a = nat ` set b" by (simp add: keys_def image_image js_number_string)
  then have "int ` nat ` set a = int ` nat ` set b" by simp
  moreover have "int ` nat ` set days = set days" if "\<forall>x\<in>set days. 0 \<le> x" for days
    using that unfolding image_image by (auto intro!: image_cong [of _ _ _ id, simplified])
  ultimately show ?thesis using assms(2,3) by metis
qed

lemma resource_days:
  assumes "db_ok d" "r \<in> set (resources d)"
  shows "\<forall>x\<in>set (r_operatingDays r). 0 \<le> x" "resource_typed r" "resource_rules r"
proof -
  have "resource_ok d r" using assms unfolding db_ok_def by (blast intro: table_inv_ok)
  then show ok: "resource_typed r" "resource_rules r" by (simp_all add: resource_ok_def)
  then have "set (r_operatingDays r) \<subseteq> {0, 1, 2, 3, 4, 5, 6}"
    by (simp add: resource_rules_def violated_check_None resource_checks_def)
  then show "\<forall>x\<in>set (r_operatingDays r). 0 \<le> x" by fastforce
qed

text \<open>A schedule as a set of days and two hours.\<close>

lemma hours_from_slice:
  assumes "resource_typed r" "resource_rules r" "resource_typed x" "resource_rules x"
  shows "js_slice 0 5 (r_opensAt r) = js_slice 0 5 (r_opensAt x) \<Longrightarrow> sql_time (r_opensAt r) = sql_time (r_opensAt x)"
    "js_slice 0 5 (r_closesAt r) = js_slice 0 5 (r_closesAt x) \<Longrightarrow> sql_time (r_closesAt r) = sql_time (r_closesAt x)"
    "sql_time (js_slice 0 5 (r_opensAt r)) = sql_time (r_opensAt r)"
    "sql_time (js_slice 0 5 (r_closesAt r)) = sql_time (r_closesAt r)"
proof -
  obtain a b where ab: "a < 24" "b < 24"
    "js_slice 0 5 (r_opensAt r) = hour_text a" "js_slice 0 5 (r_closesAt r) = hour_text b"
    "sql_time (r_opensAt r) = 3600 * int a" "sql_time (r_closesAt r) = 3600 * int b"
    using resource_hours [OF assms(1,2)] by metis
  obtain p q where pq: "p < 24" "q < 24"
    "js_slice 0 5 (r_opensAt x) = hour_text p" "js_slice 0 5 (r_closesAt x) = hour_text q"
    "sql_time (r_opensAt x) = 3600 * int p" "sql_time (r_closesAt x) = 3600 * int q"
    using resource_hours [OF assms(3,4)] by metis
  show "sql_time (js_slice 0 5 (r_opensAt r)) = sql_time (r_opensAt r)"
    "sql_time (js_slice 0 5 (r_closesAt r)) = sql_time (r_closesAt r)"
    unfolding ab(3-6) by (rule hour_text_shape(9) [OF ab(1)]) (rule hour_text_shape(9) [OF ab(2)])
  show "js_slice 0 5 (r_opensAt r) = js_slice 0 5 (r_opensAt x) \<Longrightarrow> sql_time (r_opensAt r) = sql_time (r_opensAt x)"
    "js_slice 0 5 (r_closesAt r) = js_slice 0 5 (r_closesAt x) \<Longrightarrow> sql_time (r_closesAt r) = sql_time (r_closesAt x)"
    unfolding ab(3-6) pq(3-6) using hour_text_inj ab(1,2) pq(1,2) by metis+
qed

lemma set_field_value: "f \<noteq> Null \<Longrightarrow> set_field f y = value_or f y"
  by (cases f) auto

text \<open>What an update of the details leaves of the schedule.\<close>

lemma write_changes_schedule:
  assumes d: "db_ok d" and y: "y \<in> set (resources d)"
    and w: "write_changes dto (r_id y) e d = Inr d'" and r: "r \<in> set (resources d')" "r_id r = r_id y"
  shows "set (r_operatingDays r) = set (value_or (ur_operatingDays dto) (r_operatingDays y))"
    "js_slice 0 5 (r_opensAt r) = normalizeTime (value_or (ur_opensAt dto) (r_opensAt y))"
    "js_slice 0 5 (r_closesAt r) = normalizeTime (value_or (ur_closesAt dto) (r_closesAt y))"
    "r_status r = r_status y" "r_operatingDays r = value_or (ur_operatingDays dto) (r_operatingDays y)"
proof -
  have uniq: "x = y" if "x \<in> set (resources d)" "r_id x = r_id y" for x
  proof -
    have "distinct (map r_id (resources d))" using d by (auto simp: db_ok_def table_inv_def)
    then show ?thesis using that y by (metis row_at_mem option.inject)
  qed
  have "r = y \<and> \<not> has_changes dto \<or> r = resource_columns ((detail_changes dto y)\<lparr>r_updatedAt := db_now e\<rparr>) \<and> \<not> nulls_column dto"
  proof (cases "has_changes dto")
    case False
    then show ?thesis using w r uniq by (simp add: write_changes_def)
  next
    case True
    then have n: "\<not> nulls_column dto"
      and u: "update_resource (r_id y) (\<lambda>r. (detail_changes dto r)\<lparr>r_updatedAt := db_now e\<rparr>) d = Inr d'"
      using w by (auto simp: write_changes_def split: if_splits)
    show ?thesis using patched_resource [OF d u _ r(1)] r(2) uniq n by (auto simp: detail_changes_def)
  qed
  then show "set (r_operatingDays r) = set (value_or (ur_operatingDays dto) (r_operatingDays y))"
    "js_slice 0 5 (r_opensAt r) = normalizeTime (value_or (ur_opensAt dto) (r_opensAt y))"
    "js_slice 0 5 (r_closesAt r) = normalizeTime (value_or (ur_closesAt dto) (r_closesAt y))"
    "r_status r = r_status y" "r_operatingDays r = value_or (ur_operatingDays dto) (r_operatingDays y)"
    by (auto simp: has_changes_def nulls_column_def normalizeTime_def resource_columns_def detail_changes_def
        slice_time_text set_field_value simp del: js_slice_0)
qed

lemma write_changes_frame:
  assumes d: "db_ok d" and w: "write_changes dto k e d = Inr d'"
  shows "db_ok d'" "bookings d' = bookings d" "closures d' = closures d"
    "r \<in> set (resources d') \<Longrightarrow> r_id r \<noteq> k \<Longrightarrow> r \<in> set (resources d)"
    "r \<in> set (resources d') \<Longrightarrow> \<exists>y\<in>set (resources d). r_id y = r_id r"
proof -
  let ?f = "\<lambda>r. (detail_changes dto r)\<lparr>r_updatedAt := db_now e\<rparr>"
  have id: "r_id (?f x) = r_id x" for x by (simp add: detail_changes_def)
  have all: "db_ok d' \<and> bookings d' = bookings d \<and> closures d' = closures d \<and>
    (\<forall>r\<in>set (resources d'). (r_id r \<noteq> k \<longrightarrow> r \<in> set (resources d)) \<and> (\<exists>y\<in>set (resources d). r_id y = r_id r))"
  proof (cases "d' = d")
    case True
    with d show ?thesis by blast
  next
    case False
    then have u: "update_resource k ?f d = Inr d'"
      using w by (simp add: write_changes_def split: if_splits)
    show ?thesis
      using update_resource_frame [OF d u id] patched_resource [OF d u id] by metis
  qed
  then show "db_ok d'" "bookings d' = bookings d" "closures d' = closures d" by blast+
  show "r \<in> set (resources d') \<Longrightarrow> r_id r \<noteq> k \<Longrightarrow> r \<in> set (resources d)"
    "r \<in> set (resources d') \<Longrightarrow> \<exists>y\<in>set (resources d). r_id y = r_id r"
    using all by blast+
qed

lemma update_details_serves:
  assumes d: "db_ok d" and era: "campus_era (clock e)" and s: "none_stranded (clock e) d"
    and run: "update_resource_details r0 dto e d = Inr (r', d', evs)"
  shows "none_stranded (clock e) d'" "db_ok d'"
proof -
  obtain locked where l: "row_at r_id (r_id r0) (resources d) = Some locked"
    and g: "case changedSchedule locked dto of None \<Rightarrow> True | Some sch \<Rightarrow>
        requireNoActiveBookings d (r_id locked)
          (\<lambda>b. reviewable_status (b_status b) \<and> ends_after_now (clock e) b \<and> outside_schedule sch b)
          update_message = None"
    and w: "write_changes dto (r_id locked) e d = Inr d'"
    using run by (auto simp: update_resource_details_def update_resource_locked_def reload_resource_def
        split: option.splits if_splits sum.splits)
  have lm: "locked \<in> set (resources d)" using l by (auto dest: row_at_SomeD)
  note f = write_changes_frame [OF d w]
  show ok: "db_ok d'" by (rule f(1))
  show "none_stranded (clock e) d'"
    unfolding none_stranded_def f(2)
  proof (intro ballI impI)
    fix b x
    assume b: "b \<in> set (bookings d)" "active_at (clock e) b"
      and x: "x \<in> set (resources d')" "r_id x = b_resourceId b"
    show "serves d' x b"
    proof (cases "r_id x = r_id locked")
      case False
      then have "x \<in> set (resources d)" using f(4) x(1) by blast
      then have "serves d x b" using s b x(2) by (simp add: none_stranded_def)
      then show ?thesis by (simp add: serves_def closed_on_def f(3))
    next
      case True
      note wc = write_changes_schedule [OF d lm w x(1) True]
      note lr = resource_days [OF d lm] and xr = resource_days [OF ok x(1)]
      have sl: "serves d locked b" using s b x(2) True lm by (simp add: none_stranded_def)
      show ?thesis
      proof (cases "changedSchedule locked dto")
        case None
        then have k: "daysKey (r_operatingDays x) = daysKey (r_operatingDays locked)"
          "js_slice 0 5 (r_opensAt x) = js_slice 0 5 (r_opensAt locked)"
          "js_slice 0 5 (r_closesAt x) = js_slice 0 5 (r_closesAt locked)"
          unfolding wc(5) wc(2) wc(3)
          by (auto simp: changedSchedule_def Let_def normalizeTime_def split: if_splits)
        have "set (r_operatingDays x) = set (r_operatingDays locked)"
          by (rule daysKey_set [OF k(1) xr(1) lr(1)])
        moreover have "sql_time (r_opensAt x) = sql_time (r_opensAt locked)"
          "sql_time (r_closesAt x) = sql_time (r_closesAt locked)"
          using hours_from_slice(1,2) [OF xr(2,3) lr(2,3)] k(2,3) by blast+
        ultimately show ?thesis
          using sl wc(4) True by (simp add: serves_def closed_on_def f(3))
      next
        case (Some sch)
        then have sch: "sd_operatingDays sch = r_operatingDays x" "sd_opensAt sch = js_slice 0 5 (r_opensAt x)"
          "sd_closesAt sch = js_slice 0 5 (r_closesAt x)"
          unfolding wc(5) wc(2) wc(3)
          by (auto simp: changedSchedule_def Let_def split: if_splits)
        have "\<not> outside_schedule sch b"
          using g Some b x(2) True ends_after_now_iff [OF era db_booking_sound [OF d b(1)]]
          by (auto simp: requireNoActiveBookings_None active_at_def)
        then show ?thesis
          using sl wc(4) True hours_from_slice(3,4) [OF xr(2,3) xr(2,3)]
          unfolding outside_schedule_def sch by (auto simp: serves_def closed_on_def f(3))
      qed
    qed
  qed
qed

lemma create_resource_serves:
  assumes d: "db_ok d" and s: "none_stranded now d" and run: "create_resource dto e d = Inr (r, d', evs)"
  shows "none_stranded now d'" "db_ok d'"
proof -
  have i: "insert_resource (new_resource dto e) d = Inr d'"
    using run by (auto simp: create_resource_def reload_resource_def map_sum_Inr_iff
        split: option.splits sum.splits)
  let ?n = "resource_columns (new_resource dto e)"
  have e: "d' = d\<lparr>resources := resources d @ [?n]\<rparr>" by (rule insert_resource_keeps(2) [OF d i])
  have fresh: "r_id ?n \<notin> ids r_id (resources d)"
    using i by (auto simp: insert_resource_def map_sum_Inr_iff insert_row_def resource_violation_def
        split: option.splits if_splits)
  show "db_ok d'" by (rule insert_resource_keeps(1) [OF d i])
  have "\<forall>b\<in>set (bookings d). r_id ?n \<noteq> b_resourceId b"
    using stored_relations(1) [OF d] fresh by metis
  then show "none_stranded now d'"
    using s by (auto simp: none_stranded_def e serves_def closed_on_def)
qed

lemma create_closure_serves:
  assumes d: "db_ok d" and era: "campus_era (clock e)" and s: "none_stranded (clock e) d"
    and run: "createClosure k dto e d = Inr (c, d', evs)"
  shows "none_stranded (clock e) d'" "db_ok d'"
proof -
  obtain c' where g: "requireNoActiveBookings d (sql_uuid k)
      (\<lambda>b. sql_date (b_date b) = sql_date (cc_date dto) \<and> blocking_status (b_status b) \<and> ends_after_now (clock e) b)
      (closure_message (cc_date dto)) = None"
    and i: "insert_closure c' d = Inr d'" "c_resourceId c' = sql_uuid k" "c_date c' = cc_date dto"
    using run by (auto simp: createClosure_def Let_def split: option.splits sum.splits)
  have e: "d' = d\<lparr>closures := closures d @ [c']\<rparr>" by (rule insert_closure_keeps(2) [OF d i(1)])
  show "db_ok d'" by (rule insert_closure_keeps(1) [OF d i(1)])
  have n: "\<forall>b\<in>set (bookings d). active_at (clock e) b \<longrightarrow> b_resourceId b = sql_uuid k \<longrightarrow> b_date b \<noteq> cc_date dto"
    using g ends_after_now_iff [OF era db_booking_sound [OF d]]
    by (auto simp: requireNoActiveBookings_None active_at_def blocking_status_def)
  show "none_stranded (clock e) d'"
    using s n by (auto simp: none_stranded_def e serves_def closed_on_def i(2,3))
qed

lemma delete_closure_serves:
  assumes d: "db_ok d" and s: "none_stranded now d" and run: "deleteClosure k c e d = Inr (x, d', evs)"
  shows "none_stranded now d'" "db_ok d'"
proof -
  obtain P where e: "d' = delete_closures P d"
    using run by (auto simp: deleteClosure_def Let_def split: option.splits)
  show "db_ok d'" unfolding e by (rule delete_closures_keeps [OF d])
  show "none_stranded now d'"
    using s by (auto simp: none_stranded_def e serves_def closed_on_def delete_closures_def)
qed

end
