(* ===== verification/Users.thy ===== *)
theory Users
  imports Resources BookingApi
begin

text \<open>
  User accounts (users/users.service.ts, users/admin-users.controller.ts and their DTOs): creation,
  the accounts provisioned at startup, the administration's list, and changes of role and access.
  The advisory lock of the active administrators has no trace in a sequence of whole transactions.
\<close>

section \<open>Data\<close>

record create_user_data =
  cu_email :: string
  cu_passwordHash :: string
  cu_fullName :: string
  cu_role :: "user_role option"

record bootstrap_account_data =
  ba_email :: string
  ba_fullName :: string
  ba_role :: user_role
  ba_passwordHash :: "string option"

datatype bootstrap_outcome =
  CREATED | PROMOTED | ALREADY_PROVISIONED | ADMIN_EXISTS | UNCHANGED | ACCOUNT_MISSING

record admin_users_query =
  au_q :: "string option"
  au_role :: "user_role option"
  au_isActive :: "bool option"
  au_page :: nat
  au_pageSize :: nat

text \<open>The row \<open>repository.create(data)\<close> is saved as, with the defaults of the columns.\<close>

definition new_user :: "create_user_data \<Rightarrow> env \<Rightarrow> user" where
  "new_user data e =
     \<lparr>u_id = fresh_id e, u_email = cu_email data, u_passwordHash = cu_passwordHash data,
      u_fullName = cu_fullName data, u_role = (case cu_role data of None \<Rightarrow> STUDENT | Some r \<Rightarrow> r),
      u_isActive = True, u_createdAt = db_now e, u_updatedAt = db_now e\<rparr>"

section \<open>Creating an account\<close>

definition isEmailUniqueConstraintViolation :: "app_error \<Rightarrow> bool" where
  "isEmailUniqueConstraintViolation err \<longleftrightarrow> err = QueryFailedError ''23505'' ''IDX_users_email''"

definition create_user :: "create_user_data \<Rightarrow> env \<Rightarrow> db \<Rightarrow> (app_error, user \<times> db) outcome" where
  "create_user data e d =
     (let u = new_user data e in
      case insert_user u d of
        Inl err \<Rightarrow> Inl (if isEmailUniqueConstraintViolation err then EmailAlreadyExistsError else err)
      | Inr d' \<Rightarrow> Inr (u, d'))"

section \<open>The accounts provisioned at startup\<close>

definition active_admin :: "user \<Rightarrow> bool" where
  "active_admin u \<longleftrightarrow> u_role u = ADMIN \<and> u_isActive u"

definition promoted :: "env \<Rightarrow> user \<Rightarrow> user" where
  "promoted e u = u\<lparr>u_role := ADMIN, u_isActive := True, u_updatedAt := db_now e\<rparr>"

text \<open>\<open>insert ... on conflict do nothing\<close>: a unique violation writes nothing.\<close>

definition insert_user_or_ignore :: "user \<Rightarrow> db \<Rightarrow> (app_error, bool \<times> db) outcome" where
  "insert_user_or_ignore u d =
     (case insert_user u d of
        Inr d' \<Rightarrow> Inr (True, d')
      | Inl (QueryFailedError code name) \<Rightarrow>
          if code = ''23505'' then Inr (False, d) else Inl (QueryFailedError code name)
      | Inl err \<Rightarrow> Inl err)"

definition provisionBootstrapAccount ::
  "bootstrap_account_data \<Rightarrow> env \<Rightarrow> db \<Rightarrow> (app_error, bootstrap_outcome \<times> db) outcome" where
  "provisionBootstrapAccount data e d =
     (case row_at u_email (ba_email data) (users d) of
        None \<Rightarrow>
          (case truthy (ba_passwordHash data) of
             None \<Rightarrow> Inr (ACCOUNT_MISSING, d)
           | Some hash \<Rightarrow>
               (case insert_user_or_ignore
                   (new_user \<lparr>cu_email = ba_email data, cu_passwordHash = hash,
                      cu_fullName = ba_fullName data, cu_role = Some (ba_role data)\<rparr> e) d of
                  Inl err \<Rightarrow> Inl err
                | Inr (inserted, d') \<Rightarrow> Inr (if inserted then CREATED else UNCHANGED, d')))
      | Some existing \<Rightarrow>
          if u_role existing = ba_role data \<and> u_isActive existing then Inr (ALREADY_PROVISIONED, d)
          else if ba_role data \<noteq> ADMIN then Inr (UNCHANGED, d)
          else if 0 < length (filter active_admin (users d)) then Inr (ADMIN_EXISTS, d)
          else map_sum id (\<lambda>d'. (PROMOTED, d')) (update_user (u_id existing) (promoted e) d))"

section \<open>Reading\<close>

definition findUserById :: "string \<Rightarrow> db \<Rightarrow> user option" where
  "findUserById k d = row_at u_id (sql_uuid k) (users d)"

definition findByEmailWithPassword :: "string \<Rightarrow> db \<Rightarrow> user option" where
  "findByEmailWithPassword email d = row_at u_email email (users d)"

definition admin_users_where :: "admin_users_query \<Rightarrow> user \<Rightarrow> bool" where
  "admin_users_where q u \<longleftrightarrow>
     opt_holds (truthy (au_q q)) (\<lambda>s.
       let p = ''%'' @ escapeLike s @ ''%'' in ilike (u_fullName u) p \<or> ilike (u_email u) p) \<and>
     opt_holds (au_role q) (\<lambda>r. u_role u = r) \<and>
     opt_holds (au_isActive q) (\<lambda>a. u_isActive u = a)"

definition admin_users_order :: "user \<Rightarrow> user \<Rightarrow> int" where
  "admin_users_order = cmp_then (cmp_desc (cmp_by u_createdAt)) (cmp_by u_id)"

record user_page =
  up_items :: "user list"
  up_total :: nat
  up_page :: nat
  up_pageSize :: nat
  up_totalPages :: nat

definition findForAdministration :: "admin_users_query \<Rightarrow> db \<Rightarrow> user_page" where
  "findForAdministration q d =
     (let rows = filter (admin_users_where q) (users d) in
      \<lparr>up_items = page_rows (au_page q) (au_pageSize q) (sort_cmp admin_users_order rows),
       up_total = length rows, up_page = au_page q, up_pageSize = au_pageSize q,
       up_totalPages = (if length rows = 0 then 0 else (length rows + au_pageSize q - 1) div au_pageSize q)\<rparr>)"

section \<open>Changing a managed account\<close>

text \<open>
  \<open>change\<close> gives the updated columns and whether an active administrator is removed. A save of
  unchanged columns issues no \<open>UPDATE\<close>. The locked rows are found by the SQL identifier, but
  compared with the texts of the request.
\<close>

definition updateManagedUser ::
  "string \<Rightarrow> string \<Rightarrow> (user \<Rightarrow> user \<times> bool) \<Rightarrow> env \<Rightarrow> db \<Rightarrow> (app_error, user \<times> db) outcome" where
  "updateManagedUser actorId targetId change e d =
     (if actorId = targetId then Inl SelfManagementNotAllowedError
      else
        let locked = sort_cmp (cmp_by u_id)
              (filter (\<lambda>u. u_id u \<in> {sql_uuid actorId, sql_uuid targetId}) (users d)) in
        case find (\<lambda>u. u_id u = targetId) locked of
          None \<Rightarrow> Inl UserNotFoundError
        | Some target \<Rightarrow>
            (case find (\<lambda>u. u_id u = actorId) locked of
               None \<Rightarrow> Inl SelfManagementNotAllowedError
             | Some actor \<Rightarrow>
                 if \<not> u_isActive actor \<or> u_role actor \<noteq> ADMIN then Inl SelfManagementNotAllowedError
                 else
                   let (changed, removesActiveAdmin) = change target in
                   if removesActiveAdmin \<and> length (filter active_admin (users d)) \<le> 1
                   then Inl LastActiveAdminError
                   else if changed = target then Inr (target, d)
                   else
                     let stamped = changed\<lparr>u_updatedAt := db_now e\<rparr> in
                     map_sum id (\<lambda>d'. (stamped, d')) (update_user targetId (\<lambda>_. stamped) d)))"

definition updateRole ::
  "string \<Rightarrow> string \<Rightarrow> user_role \<Rightarrow> env \<Rightarrow> db \<Rightarrow> (app_error, user \<times> db) outcome" where
  "updateRole actorId targetId role =
     updateManagedUser actorId targetId
       (\<lambda>target. (target\<lparr>u_role := role\<rparr>,
          if u_role target = ADMIN \<and> role \<noteq> ADMIN then u_isActive target else False))"

definition updateStatus_user ::
  "string \<Rightarrow> string \<Rightarrow> bool \<Rightarrow> env \<Rightarrow> db \<Rightarrow> (app_error, user effect) outcome" where
  "updateStatus_user actorId targetId isActive e d =
     (case updateManagedUser actorId targetId
         (\<lambda>target. (target\<lparr>u_isActive := isActive\<rparr>,
            u_role target = ADMIN \<and> u_isActive target \<and> \<not> isActive)) e d of
        Inl err \<Rightarrow> Inl err
      | Inr (updated, d') \<Rightarrow>
          Inr (updated, d', if \<not> u_isActive updated then [UserDeactivated (u_id updated)] else []))"

section \<open>The administration endpoints\<close>

record admin_user_response =
  ar_id :: string
  ar_email :: string
  ar_fullName :: string
  ar_role :: user_role
  ar_isActive :: bool
  ar_createdAt :: int
  ar_updatedAt :: int

definition admin_user_fromEntity :: "user \<Rightarrow> admin_user_response" where
  "admin_user_fromEntity u =
     \<lparr>ar_id = u_id u, ar_email = u_email u, ar_fullName = u_fullName u, ar_role = u_role u,
      ar_isActive = u_isActive u, ar_createdAt = u_createdAt u, ar_updatedAt = u_updatedAt u\<rparr>"

definition admin_users_query_valid :: "admin_users_query \<Rightarrow> bool" where
  "admin_users_query_valid q \<longleftrightarrow>
     opt_holds (au_q q) (\<lambda>s. CHR 0x00 \<notin> set s \<and> length s \<le> 120) \<and>
     1 \<le> au_page q \<and> 1 \<le> au_pageSize q \<and> au_pageSize q \<le> 50"

record admin_user_page =
  ap_items :: "admin_user_response list"
  ap_total :: nat
  ap_page :: nat
  ap_pageSize :: nat
  ap_totalPages :: nat

definition admin_users_findAll :: "admin_users_query \<Rightarrow> db \<Rightarrow> admin_user_page response" where
  "admin_users_findAll query d =
     (let q = query\<lparr>au_q := map_option js_trim (au_q query)\<rparr> in
      if \<not> admin_users_query_valid q then Inl (HttpException 400 None ''query'')
      else
        let p = findForAdministration q d in
        Inr \<lparr>ap_items = map admin_user_fromEntity (up_items p), ap_total = up_total p,
          ap_page = up_page p, ap_pageSize = up_pageSize p, ap_totalPages = up_totalPages p\<rparr>)"

definition translateUserErrors :: "app_error \<Rightarrow> http_error" where
  "translateUserErrors err =
     (case err of
        UserNotFoundError \<Rightarrow> HttpException 404 None ''User not found''
      | SelfManagementNotAllowedError \<Rightarrow>
          HttpException 400 None ''Administrators cannot change their own role or access status''
      | LastActiveAdminError \<Rightarrow> HttpException 400 None ''At least one active administrator must remain''
      | _ \<Rightarrow> InternalServerError err)"

definition admin_updateRole ::
  "(string \<Rightarrow> bool) \<Rightarrow> string \<Rightarrow> string \<Rightarrow> user_role \<Rightarrow> env \<Rightarrow> db \<Rightarrow> admin_user_response served" where
  "admin_updateRole isUUID actorId k role e d =
     parse_uuid isUUID k
       (case updateRole actorId k role e d of
          Inl err \<Rightarrow> Inl (translateUserErrors err)
        | Inr (u, d') \<Rightarrow> Inr (admin_user_fromEntity u, d', []))"

definition admin_updateUserStatus ::
  "(string \<Rightarrow> bool) \<Rightarrow> string \<Rightarrow> string \<Rightarrow> bool \<Rightarrow> env \<Rightarrow> db \<Rightarrow> admin_user_response served" where
  "admin_updateUserStatus isUUID actorId k isActive e d =
     parse_uuid isUUID k
       (case updateStatus_user actorId k isActive e d of
          Inl err \<Rightarrow> Inl (translateUserErrors err)
        | Inr (u, d', evs) \<Rightarrow> Inr (admin_user_fromEntity u, d', evs))"

end
