(* ===== verification/Config.thy ===== *)
theory Config
  imports Users
begin

text \<open>
  Configuration and the text utilities it rests on: durations (common/utils/duration.util.ts), the
  cookies of a raw header (common/utils/cookie.util.ts), normalisation (common/decorators), and the
  auth, app and bootstrap namespaces (config/*.config.ts). The process environment is a map from
  names to texts; numbers are exact, the validation of the environment admits safe integers only.
\<close>

section \<open>Durations\<close>

definition duration_unit :: "string \<Rightarrow> nat option" where
  "duration_unit u =
     (if u = ''ms'' then Some 1 else if u = ''s'' then Some 1000 else if u = ''m'' then Some 60000
      else if u = ''h'' then Some 3600000 else if u = ''d'' then Some 86400000 else None)"

definition all_digits :: "string \<Rightarrow> bool" where
  "all_digits s \<longleftrightarrow> s \<noteq> [] \<and> (\<forall>c\<in>set s. is_digit c)"

text \<open>\<open>DURATION_PATTERN.exec\<close>: the digits and the unit.\<close>

definition duration_match :: "string \<Rightarrow> (string \<times> nat) option" where
  "duration_match s =
     (if takeWhile is_digit s = [] then None
      else map_option (\<lambda>m. (takeWhile is_digit s, m)) (duration_unit (dropWhile is_digit s)))"

definition parseDuration :: "string \<Rightarrow> string option" where
  "parseDuration value =
     (let normalized = js_lower (js_trim value) in
      if all_digits normalized \<or> duration_match normalized \<noteq> None then Some normalized else None)"

definition durationToMs :: "string \<Rightarrow> nat option" where
  "durationToMs value =
     (case parseDuration value of
        None \<Rightarrow> None
      | Some duration \<Rightarrow>
          if all_digits duration then Some (js_number duration * 1000)
          else map_option (\<lambda>(amount, ms). js_number amount * ms) (duration_match duration))"

section \<open>Cookies of a header\<close>

definition js_indexOf :: "char \<Rightarrow> string \<Rightarrow> nat option" where
  "js_indexOf c s = (if c \<in> set s then Some (length (takeWhile (\<lambda>x. x \<noteq> c) s)) else None)"

fun cookie_of_parts :: "(string \<Rightarrow> string option) \<Rightarrow> string \<Rightarrow> string list \<Rightarrow> string option" where
  "cookie_of_parts decode name [] = None"
| "cookie_of_parts decode name (part # parts) =
     (case js_indexOf CHR ''='' part of
        None \<Rightarrow> cookie_of_parts decode name parts
      | Some separator \<Rightarrow>
          if js_trim (js_slice 0 separator part) \<noteq> name then cookie_of_parts decode name parts
          else
            let raw = js_trim (drop (separator + 1) part) in
            if raw = [] then None else decode raw)"

text \<open>\<open>decodeURIComponent\<close>, None where it throws, is a parameter: its results need not be Latin-1.\<close>

definition readCookie :: "(string \<Rightarrow> string option) \<Rightarrow> string option \<Rightarrow> string \<Rightarrow> string option" where
  "readCookie decode header name =
     (case truthy header of
        None \<Rightarrow> None
      | Some h \<Rightarrow> cookie_of_parts decode name (js_split CHR '';'' h))"

section \<open>Normalisation\<close>

definition normalizeEmailAddress :: "string \<Rightarrow> string" where
  "normalizeEmailAddress value = js_lower (js_trim value)"

section \<open>Namespaces\<close>

type_synonym process_env = "string \<Rightarrow> string option"

definition env_or :: "process_env \<Rightarrow> string \<Rightarrow> string \<Rightarrow> string" where
  "env_or penv name fallback = (case penv name of None \<Rightarrow> fallback | Some v \<Rightarrow> v)"

record cookie_options =
  co_maxAge :: "nat option"
  co_httpOnly :: bool
  co_secure :: bool
  co_sameSite :: string
  co_path :: string
  co_domain :: "string option"

record auth_config =
  ac_expiresIn :: string
  ac_cookieName :: string
  ac_cookie :: cookie_options

definition DEFAULT_AUTH_COOKIE_NAME :: string where
  "DEFAULT_AUTH_COOKIE_NAME = ''access_token''"

text \<open>None is the error that stops the boot.\<close>

definition authConfig :: "process_env \<Rightarrow> auth_config option" where
  "authConfig penv =
     (case parseDuration (env_or penv ''AUTH_TOKEN_EXPIRES_IN'' ''1d'') of
        None \<Rightarrow> None
      | Some expiresIn \<Rightarrow>
          map_option
            (\<lambda>maxAge.
               \<lparr>ac_expiresIn = expiresIn,
                ac_cookieName = env_or penv ''AUTH_COOKIE_NAME'' DEFAULT_AUTH_COOKIE_NAME,
                ac_cookie =
                  \<lparr>co_maxAge = Some maxAge, co_httpOnly = True,
                   co_secure =
                     (case truthy (penv ''AUTH_COOKIE_SECURE'') of
                        Some v \<Rightarrow> v = ''true''
                      | None \<Rightarrow> penv ''NODE_ENV'' = Some ''production''),
                   co_sameSite = env_or penv ''AUTH_COOKIE_SAME_SITE'' ''lax'',
                   co_path = ''/'', co_domain = truthy (penv ''AUTH_COOKIE_DOMAIN'')\<rparr>\<rparr>)
            (durationToMs expiresIn))"

definition corsOrigins :: "process_env \<Rightarrow> string list" where
  "corsOrigins penv =
     filter (\<lambda>origin. origin \<noteq> [])
       (map js_trim (js_split CHR '','' (env_or penv ''CORS_ORIGINS'' ''http://localhost:18321'')))"

record bootstrap_account_config =
  bc_email :: string
  bc_password :: "string option"
  bc_fullName :: string

definition bootstrap_account :: "process_env \<Rightarrow> string \<Rightarrow> string \<Rightarrow> bootstrap_account_config option" where
  "bootstrap_account penv pfx defaultName =
     (let email = normalizeEmailAddress (env_or penv (pfx @ ''_EMAIL'') '''') in
      if email = [] then None
      else
        let password = env_or penv (pfx @ ''_PASSWORD'') '''';
            fullName = js_trim (env_or penv (pfx @ ''_NAME'') '''')
        in Some \<lparr>bc_email = email, bc_password = (if password = [] then None else Some password),
             bc_fullName = (if fullName = [] then defaultName else fullName)\<rparr>)"

record bootstrap_config =
  bs_admin :: "bootstrap_account_config option"
  bs_staff :: "bootstrap_account_config option"

definition bootstrapConfig :: "process_env \<Rightarrow> bootstrap_config" where
  "bootstrapConfig penv =
     \<lparr>bs_admin = bootstrap_account penv ''BOOTSTRAP_ADMIN'' ''Campus Administrator'',
      bs_staff = bootstrap_account penv ''BOOTSTRAP_STAFF'' ''Campus Staff''\<rparr>"

end
