(* ===== verification/Auth.thy ===== *)
theory Auth
  imports Config
begin

text \<open>
  Authentication (auth/**, common/validators): the e-mail and password rules, registration and
  login, the session cookie, the re-check of the user on every request, the two global guards, and
  the startup accounts. bcrypt and the JWT library are the parameters \<open>hash\<close>, \<open>compare\<close>, \<open>sign\<close> and
  \<open>verify\<close>; times are those of the server clock.
\<close>

section \<open>Validators\<close>

definition STUDENT_EMAIL_SUFFIX :: string where
  "STUDENT_EMAIL_SUFFIX = ''@usth.edu.vn''"

definition js_endsWith :: "string \<Rightarrow> string \<Rightarrow> bool" where
  "js_endsWith s sfx \<longleftrightarrow>
     length sfx \<le> length s \<and> drop (length s - length sfx) s = sfx"

definition isStudentEmail :: "string \<Rightarrow> bool" where
  "isStudentEmail value \<longleftrightarrow>
     (let email = js_lower (js_trim value) in
      case js_indexOf CHR ''@'' email of
        None \<Rightarrow> False
      | Some atIndex \<Rightarrow>
          if atIndex = 0 \<or> js_indexOf CHR ''@'' (drop (atIndex + 1) email) \<noteq> None \<or>
             (\<exists>c\<in>set email. is_space c)
          then False
          else js_endsWith email STUDENT_EMAIL_SUFFIX)"

text \<open>\<open>Buffer.byteLength(value, 'utf8')\<close> of a Latin-1 text.\<close>

definition utf8_bytes :: "string \<Rightarrow> nat" where
  "utf8_bytes s = sum_list (map (\<lambda>c. if (of_char c :: nat) < 128 then 1 else 2) s)"

definition hasMaxUtf8ByteLength :: "string \<Rightarrow> nat \<Rightarrow> bool" where
  "hasMaxUtf8ByteLength s n \<longleftrightarrow> utf8_bytes s \<le> n"

section \<open>Bodies of the requests\<close>

record register_dto =
  rg_email :: string
  rg_password :: string
  rg_fullName :: string

record login_dto =
  lg_email :: string
  lg_password :: string

definition normalize_register :: "register_dto \<Rightarrow> register_dto" where
  "normalize_register b =
     b\<lparr>rg_email := normalizeEmailAddress (rg_email b), rg_fullName := js_trim (rg_fullName b)\<rparr>"

definition email_valid :: "string \<Rightarrow> bool" where
  "email_valid s \<longleftrightarrow> isStudentEmail s \<and> CHR 0x00 \<notin> set s \<and> length s \<le> 255"

definition register_dto_valid :: "register_dto \<Rightarrow> bool" where
  "register_dto_valid b \<longleftrightarrow>
     email_valid (rg_email b) \<and>
     8 \<le> length (rg_password b) \<and> hasMaxUtf8ByteLength (rg_password b) 72 \<and>
     CHR 0x00 \<notin> set (rg_fullName b) \<and> 1 \<le> length (rg_fullName b) \<and> length (rg_fullName b) \<le> 120"

definition normalize_login :: "login_dto \<Rightarrow> login_dto" where
  "normalize_login b = b\<lparr>lg_email := normalizeEmailAddress (lg_email b)\<rparr>"

definition login_dto_valid :: "login_dto \<Rightarrow> bool" where
  "login_dto_valid b \<longleftrightarrow>
     email_valid (lg_email b) \<and> 1 \<le> length (lg_password b) \<and> hasMaxUtf8ByteLength (lg_password b) 72"

section \<open>Tokens, passwords and the cookie\<close>

record jwt_payload =
  jp_sub :: string
  jp_email :: string
  jp_role :: user_role

record jwt_payload_timed = jwt_payload +
  jp_iat :: int
  jp_exp :: int

definition access_payload :: "user \<Rightarrow> jwt_payload" where
  "access_payload u = \<lparr>jp_sub = u_id u, jp_email = u_email u, jp_role = u_role u\<rparr>"

text \<open>\<open>compare\<close> runs against the dummy hash when there is no account.\<close>

definition password_compare :: "(string \<Rightarrow> string \<Rightarrow> bool) \<Rightarrow> string \<Rightarrow> string \<Rightarrow> string option \<Rightarrow> bool" where
  "password_compare compare dummyHash password h =
     compare password (case h of None \<Rightarrow> dummyHash | Some x \<Rightarrow> x)"

text \<open>What \<open>set\<close> and \<open>clear\<close> write to the response.\<close>

datatype cookie_write =
  SetCookie string string cookie_options
| ClearCookie string cookie_options

definition auth_cookie_set :: "auth_config \<Rightarrow> string \<Rightarrow> cookie_write" where
  "auth_cookie_set config token = SetCookie (ac_cookieName config) token (ac_cookie config)"

definition auth_cookie_clear :: "auth_config \<Rightarrow> cookie_write" where
  "auth_cookie_clear config = ClearCookie (ac_cookieName config) ((ac_cookie config)\<lparr>co_maxAge := None\<rparr>)"

section \<open>Registration and login\<close>

record session =
  se_user :: user
  se_token :: string

text \<open>
  Signing adds the instants of issue and of expiry to the payload, so \<open>sign\<close> takes the instant it runs at:
  the same account gets another token at another time.
\<close>

definition createSession :: "(int \<Rightarrow> jwt_payload \<Rightarrow> string) \<Rightarrow> int \<Rightarrow> user \<Rightarrow> session" where
  "createSession sign now u = \<lparr>se_user = u, se_token = sign now (access_payload u)\<rparr>"

definition register_account ::
  "(string \<Rightarrow> string) \<Rightarrow> (int \<Rightarrow> jwt_payload \<Rightarrow> string) \<Rightarrow> register_dto \<Rightarrow> env \<Rightarrow> db \<Rightarrow> (http_error, session \<times> db) outcome" where
  "register_account hash sign dto e d =
     (case create_user \<lparr>cu_email = rg_email dto, cu_passwordHash = hash (rg_password dto),
         cu_fullName = rg_fullName dto, cu_role = Some STUDENT\<rparr> e d of
        Inl EmailAlreadyExistsError \<Rightarrow> Inl (HttpException 409 None ''An account with this email already exists'')
      | Inl err \<Rightarrow> Inl (InternalServerError err)
      | Inr (u, d') \<Rightarrow> Inr (createSession sign (clock_after e) u, d'))"

definition login_account ::
  "(string \<Rightarrow> string \<Rightarrow> bool) \<Rightarrow> string \<Rightarrow> (int \<Rightarrow> jwt_payload \<Rightarrow> string) \<Rightarrow> login_dto \<Rightarrow> int \<Rightarrow> db \<Rightarrow>
     session response" where
  "login_account compare dummyHash sign dto now d =
     (let user = findByEmailWithPassword (lg_email dto) d;
          passwordMatches = password_compare compare dummyHash (lg_password dto) (map_option u_passwordHash user)
      in case user of
        None \<Rightarrow> Inl (HttpException 401 None ''Invalid email or password'')
      | Some u \<Rightarrow>
          if \<not> passwordMatches \<or> \<not> u_isActive u
          then Inl (HttpException 401 None ''Invalid email or password'')
          else Inr (createSession sign now u))"

record user_response =
  us_id :: string
  us_email :: string
  us_fullName :: string
  us_role :: user_role
  us_createdAt :: int

definition user_response_fromEntity :: "user \<Rightarrow> user_response" where
  "user_response_fromEntity u =
     \<lparr>us_id = u_id u, us_email = u_email u, us_fullName = u_fullName u, us_role = u_role u,
      us_createdAt = u_createdAt u\<rparr>"

definition issueSession :: "auth_config \<Rightarrow> session \<Rightarrow> user_response \<times> cookie_write" where
  "issueSession config s = (user_response_fromEntity (se_user s), auth_cookie_set config (se_token s))"

definition auth_register ::
  "(string \<Rightarrow> string) \<Rightarrow> (int \<Rightarrow> jwt_payload \<Rightarrow> string) \<Rightarrow> auth_config \<Rightarrow> register_dto \<Rightarrow> env \<Rightarrow> db \<Rightarrow>
     (http_error, (user_response \<times> cookie_write) \<times> db) outcome" where
  "auth_register hash sign config body e d =
     (let dto = normalize_register body in
      if \<not> register_dto_valid dto then Inl (HttpException 400 None ''register'')
      else case register_account hash sign dto e d of
        Inl err \<Rightarrow> Inl err
      | Inr (s, d') \<Rightarrow> Inr (issueSession config s, d'))"

definition auth_login ::
  "(string \<Rightarrow> string \<Rightarrow> bool) \<Rightarrow> string \<Rightarrow> (int \<Rightarrow> jwt_payload \<Rightarrow> string) \<Rightarrow> auth_config \<Rightarrow> login_dto \<Rightarrow> int \<Rightarrow> db \<Rightarrow>
     (user_response \<times> cookie_write) response" where
  "auth_login compare dummyHash sign config body now d =
     (let dto = normalize_login body in
      if \<not> login_dto_valid dto then Inl (HttpException 400 None ''login'')
      else map_sum id (issueSession config) (login_account compare dummyHash sign dto now d))"

definition auth_logout :: "auth_config \<Rightarrow> cookie_write" where
  "auth_logout config = auth_cookie_clear config"

definition auth_me :: "user \<Rightarrow> user_response" where
  "auth_me u = user_response_fromEntity u"

section \<open>The guards\<close>

text \<open>The strategy re-reads the user of a verified token.\<close>

definition jwt_validate :: "jwt_payload_timed \<Rightarrow> db \<Rightarrow> user response" where
  "jwt_validate payload d =
     (case findUserById (jp_sub payload) d of
        None \<Rightarrow> Inl (HttpException 401 None ''Session is no longer valid'')
      | Some u \<Rightarrow>
          if \<not> u_isActive u then Inl (HttpException 401 None ''Session is no longer valid'') else Inr u)"

text \<open>Passport: no token or a token the library rejects is unauthorized.\<close>

definition jwt_authenticate ::
  "(string \<Rightarrow> jwt_payload_timed option) \<Rightarrow> auth_config \<Rightarrow> (string \<Rightarrow> string option) \<Rightarrow> db \<Rightarrow> user response" where
  "jwt_authenticate verify config cookies d =
     (case cookies (ac_cookieName config) of
        None \<Rightarrow> Inl (HttpException 401 None ''Unauthorized'')
      | Some token \<Rightarrow>
          (case verify token of
             None \<Rightarrow> Inl (HttpException 401 None ''Unauthorized'')
           | Some payload \<Rightarrow> jwt_validate payload d))"

text \<open>\<open>getAllAndOverride\<close>: the metadata of the handler, else of its class.\<close>

definition getAllAndOverride :: "'a option \<Rightarrow> 'a option \<Rightarrow> 'a option" where
  "getAllAndOverride handler cls = (case handler of Some x \<Rightarrow> Some x | None \<Rightarrow> cls)"

record route =
  rt_public :: "bool option"
  rt_handler_roles :: "user_role list option"
  rt_class_roles :: "user_role list option"

definition JwtAuthGuard ::
  "(string \<Rightarrow> jwt_payload_timed option) \<Rightarrow> auth_config \<Rightarrow> route \<Rightarrow> (string \<Rightarrow> string option) \<Rightarrow> db \<Rightarrow> user option response" where
  "JwtAuthGuard verify config rt cookies d =
     (if getAllAndOverride (rt_public rt) None = Some True then Inr None
      else map_sum id Some (jwt_authenticate verify config cookies d))"

definition RolesGuard :: "route \<Rightarrow> user option \<Rightarrow> user option response" where
  "RolesGuard rt user =
     (case getAllAndOverride (rt_handler_roles rt) (rt_class_roles rt) of
        None \<Rightarrow> Inr user
      | Some requiredRoles \<Rightarrow>
          if requiredRoles = [] then Inr user
          else (case user of
              None \<Rightarrow> Inl (HttpException 403 None ''You do not have permission to access this resource'')
            | Some u \<Rightarrow>
                if u_role u \<notin> set requiredRoles
                then Inl (HttpException 403 None ''You do not have permission to access this resource'')
                else Inr (Some u)))"

text \<open>The guards in their registered order; the handler gets the user, if any.\<close>

definition guarded ::
  "(string \<Rightarrow> jwt_payload_timed option) \<Rightarrow> auth_config \<Rightarrow> route \<Rightarrow> (string \<Rightarrow> string option) \<Rightarrow> db \<Rightarrow> user option response" where
  "guarded verify config rt cookies d =
     (case JwtAuthGuard verify config rt cookies d of Inl err \<Rightarrow> Inl err | Inr user \<Rightarrow> RolesGuard rt user)"

text \<open>The routes of the controllers: their decorators.\<close>

definition class_route :: "user_role list option \<Rightarrow> route" where
  "class_route roles = \<lparr>rt_public = None, rt_handler_roles = None, rt_class_roles = roles\<rparr>"

definition public_route :: route where
  "public_route = \<lparr>rt_public = Some True, rt_handler_roles = None, rt_class_roles = None\<rparr>"

definition admin_route :: route where
  "admin_route = class_route (Some [ADMIN])"

definition staff_bookings_route :: route where
  "staff_bookings_route = class_route (Some [STAFF, ADMIN])"

definition student_bookings_route :: route where
  "student_bookings_route = class_route (Some [STUDENT])"

definition member_route :: route where
  "member_route = class_route None"

section \<open>The startup accounts\<close>

definition provision ::
  "(string \<Rightarrow> string) \<Rightarrow> user_role \<Rightarrow> bootstrap_account_config option \<Rightarrow> env \<Rightarrow> db \<Rightarrow>
     (app_error, bootstrap_outcome option \<times> db) outcome" where
  "provision hash role account e d =
     (case account of
        None \<Rightarrow> Inr (None, d)
      | Some a \<Rightarrow>
          map_sum id (\<lambda>(out, d'). (Some out, d'))
            (provisionBootstrapAccount
              \<lparr>ba_email = bc_email a, ba_fullName = bc_fullName a, ba_role = role,
               ba_passwordHash = map_option hash (truthy (bc_password a))\<rparr> e d))"

definition onApplicationBootstrap ::
  "(string \<Rightarrow> string) \<Rightarrow> bootstrap_config \<Rightarrow> env \<Rightarrow> env \<Rightarrow> db \<Rightarrow> (app_error, db) outcome" where
  "onApplicationBootstrap hash config e1 e2 d =
     (case provision hash ADMIN (bs_admin config) e1 d of
        Inl err \<Rightarrow> Inl err
      | Inr (_, d1) \<Rightarrow> map_sum id snd (provision hash STAFF (bs_staff config) e2 d1))"

end
