(* ===== verification/TextSearch.thy ===== *)
theory TextSearch
  imports Users
begin

text \<open>
  What the search boxes find: the escaped text between two percent signs, matched with ILIKE, is
  the search for the typed text itself, wherever it stands and whatever its letter case.
\<close>

definition contains_text :: "string \<Rightarrow> string \<Rightarrow> bool" where
  "contains_text t q \<longleftrightarrow> (\<exists>u v. js_lower t = u @ js_lower q @ v)"

lemma like_percent:
  "like_match (CHR ''%'' # p) t \<longleftrightarrow> (\<exists>u v. t = u @ v \<and> like_match p v)"
proof (induction t)
  case Nil
  show ?case by simp
next
  case (Cons y t)
  have "(\<exists>u v. y # t = u @ v \<and> like_match p v) \<longleftrightarrow>
      like_match p (y # t) \<or> (\<exists>u v. t = u @ v \<and> like_match p v)"
    by (auto simp: Cons_eq_append_conv)
  with Cons show ?case by simp
qed

lemma escapeLike_simps [simp]:
  "escapeLike [] = []"
  "escapeLike (c # q) = (if c \<in> {CHR 0x5C, CHR ''%'', CHR ''_''} then [CHR 0x5C, c] else [c]) @ escapeLike q"
  by (simp_all add: escapeLike_def)

lemma like_escaped:
  "like_match (escapeLike q @ p) t \<longleftrightarrow> (\<exists>v. t = q @ v \<and> like_match p v)"
proof (induction q arbitrary: t)
  case Nil
  show ?case by simp
next
  case (Cons c q)
  then show ?case by (cases t) auto
qed

lemma lower_special:
  "lower_char c \<in> {CHR 0x5C, CHR ''%'', CHR ''_''} \<longleftrightarrow> c \<in> {CHR 0x5C, CHR ''%'', CHR ''_''}"
  "c \<in> {CHR 0x5C, CHR ''%'', CHR ''_''} \<Longrightarrow> lower_char c = c"
  by (auto simp: char_eq_of_char of_lower_char Let_def split: if_splits)

lemma lower_escapeLike: "js_lower (escapeLike q) = escapeLike (js_lower q)"
proof (induction q)
  case (Cons c q)
  have bs: "lower_char (CHR 0x5C) = CHR 0x5C" using lower_special(2) by blast
  from Cons show ?case
    using lower_special [of c] bs by (auto simp: js_lower_def)
qed (simp add: js_lower_def)

lemma ilike_contains: "ilike t (''%'' @ escapeLike q @ ''%'') \<longleftrightarrow> contains_text t q"
proof -
  have pc: "lower_char CHR ''%'' = CHR ''%''" using lower_special(2) by blast
  have "js_lower (''%'' @ escapeLike q @ ''%'') = CHR ''%'' # escapeLike (js_lower q) @ ''%''"
    using lower_escapeLike [of q] by (simp add: js_lower_def pc)
  then have "ilike t (''%'' @ escapeLike q @ ''%'') \<longleftrightarrow>
      (\<exists>u v. js_lower t = u @ v \<and> (\<exists>w. v = js_lower q @ w \<and> like_match ''%'' w))"
    unfolding ilike_def by (simp only: like_percent like_escaped)
  also have "\<dots> \<longleftrightarrow> contains_text t q"
    by (auto simp: contains_text_def like_percent)
  finally show ?thesis .
qed

text \<open>The search box of the catalogue finds a resource exactly when the typed text, letter case
aside, is part of its name, code or location, or of its building's name or code; the characters that
SQL patterns give a meaning stand for themselves.\<close>

lemma catalogue_search_is_containment:
  "matches_search q r bl \<longleftrightarrow>
    (\<exists>t\<in>{r_name r, r_code r, r_location r, bl_name bl, bl_code bl}. contains_text t q)"
  unfolding matches_search_def Let_def ilike_contains by auto

lemma user_search_is_containment:
  "au_q q = Some (c # s) \<Longrightarrow> au_role q = None \<Longrightarrow> au_isActive q = None \<Longrightarrow>
   admin_users_where q u \<longleftrightarrow> contains_text (u_fullName u) (c # s) \<or> contains_text (u_email u) (c # s)"
  unfolding admin_users_where_def Let_def ilike_contains by (simp add: truthy_def opt_holds_def)

end
