(* ===== verification/UserProps.thy ===== *)
theory UserProps
  imports TextSearch BookingProps
begin

text \<open>
  The properties of the accounts: what a change of role or access does and to whom, that an active
  administrator always remains, what startup provisioning may and may not touch.
\<close>

section \<open>Changing a managed account\<close>

definition is_active_admin :: "db \<Rightarrow> string \<Rightarrow> bool" where
  "is_active_admin d k \<longleftrightarrow> (\<exists>u\<in>set (users d). u_id u = k \<and> active_admin u)"

lemma user_keys: "db_ok d \<Longrightarrow> distinct (map u_id (users d))"
  by (simp add: db_ok_def table_inv_def)

lemma user_row: "db_ok d \<Longrightarrow> row_at u_id k (users d) = Some u \<longleftrightarrow> u \<in> set (users d) \<and> u_id u = k"
  by (intro row_at_Some_iff user_keys)

lemma user_unique: "db_ok d \<Longrightarrow> x \<in> set (users d) \<Longrightarrow> y \<in> set (users d) \<Longrightarrow> u_id x = u_id y \<Longrightarrow> x = y"
  by (metis user_keys row_at_mem option.inject)

lemma find_unique:
  assumes "distinct (map key rows)" "set xs \<subseteq> set rows"
  shows "find (\<lambda>r. key r = k) xs = (case row_at key k rows of
    Some r \<Rightarrow> if r \<in> set xs then Some r else None | None \<Rightarrow> None)"
proof (cases "find (\<lambda>r. key r = k) xs")
  case None
  then have "k \<notin> key ` set xs" using row_at_None [of key k xs] by (simp add: row_at_def)
  then show ?thesis using None by (auto split: option.splits dest: row_at_SomeD)
next
  case (Some r)
  then have r: "r \<in> set xs" "key r = k" using row_at_SomeD [of key k xs] by (simp_all add: row_at_def)
  then have "row_at key k rows = Some r" using row_at_mem [OF assms(1)] assms(2) by auto
  with r Some show ?thesis by simp
qed

lemma patch_cong:
  assumes "db_ok d" "row_at u_id k (users d) = Some u" "f u = g u"
  shows "patch_row u_id k f (users d) = patch_row u_id k g (users d)"
proof -
  have u: "u \<in> set (users d)" "u_id u = k" using assms(2) by (auto dest: row_at_SomeD)
  have "f x = g x" if "x \<in> set (users d)" "u_id x = k" for x
    using user_unique [OF assms(1) that(1) u(1)] that(2) u(2) assms(3) by simp
  then show ?thesis by (auto simp: patch_row_def)
qed

lemma update_user_cong:
  assumes "db_ok d" "row_at u_id k (users d) = Some u" "f u = g u"
  shows "update_user k f d = update_user k g d"
  unfolding update_user_def update_row_def assms(2) option.case assms(3) patch_cong [OF assms(1,2), of f g, OF assms(3)] ..

lemma locked_user:
  assumes "db_ok d" "k = a \<or> k = b"
  shows "find (\<lambda>u. u_id u = k) (sort_cmp (cmp_by u_id)
      (filter (\<lambda>u. u_id u \<in> {sql_uuid a, sql_uuid b}) (users d))) =
    (if sql_uuid k = k then row_at u_id k (users d) else None)"
proof -
  define xs where "xs = sort_cmp (cmp_by u_id) (filter (\<lambda>u. u_id u \<in> {sql_uuid a, sql_uuid b}) (users d))"
  have set: "set xs = {u \<in> set (users d). u_id u \<in> {sql_uuid a, sql_uuid b}}" by (auto simp: xs_def)
  have mem: "u \<in> set xs \<longleftrightarrow> sql_uuid k = k" if "row_at u_id k (users d) = Some u" for u
    using row_at_SomeD [OF that] assms(2) unfolding set by (auto simp: sql_uuid_def)
  have "find (\<lambda>u. u_id u = k) xs = (case row_at u_id k (users d) of
      Some r \<Rightarrow> if r \<in> set xs then Some r else None | None \<Rightarrow> None)"
    by (rule find_unique [OF user_keys [OF assms(1)]]) (auto simp: set)
  also have "\<dots> = (if sql_uuid k = k then row_at u_id k (users d) else None)"
    using mem by (cases "row_at u_id k (users d)") simp_all
  finally show ?thesis unfolding xs_def .
qed

text \<open>
  A change of role or access touches neither the identifier nor a constrained column, and says that
  it removes an active administrator only of one.
\<close>

definition access_change :: "(user \<Rightarrow> user \<times> bool) \<Rightarrow> bool" where
  "access_change f \<longleftrightarrow>
     (\<forall>u. (\<exists>r a. fst (f u) = u\<lparr>u_role := r, u_isActive := a\<rparr>) \<and> (snd (f u) \<longrightarrow> active_admin u))"

lemma update_user_access:
  assumes "db_ok d" "u \<in> set (users d)"
  shows "update_user (u_id u) (\<lambda>_. u\<lparr>u_role := r, u_isActive := a, u_updatedAt := t\<rparr>) d =
    Inr (d\<lparr>users := patch_row u_id (u_id u) (\<lambda>_. u\<lparr>u_role := r, u_isActive := a, u_updatedAt := t\<rparr>) (users d)\<rparr>)"
proof -
  have inv: "table_inv u_id user_ok user_clash (users d)" using assms(1) by (simp add: db_ok_def)
  have row: "row_at u_id (u_id u) (users d) = Some u" using user_row [OF assms(1)] assms(2) by blast
  have ok: "user_typed u" using inv assms(2) by (auto simp: user_ok_def dest: table_inv_ok)
  have mail: "u_email u \<notin> u_email ` set (filter (\<lambda>x. u_id x \<noteq> u_id u) (users d))"
    using inv assms(2) by (auto simp: table_inv_def user_clash_def)
  have "user_violation (u\<lparr>u_role := r, u_isActive := a, u_updatedAt := t\<rparr>)
      (filter (\<lambda>x. u_id x \<noteq> u_id u) (users d)) = None"
    using ok mail by (auto simp: user_violation_def user_typed_def ids_def)
  then show ?thesis by (simp add: update_user_def update_row_def row)
qed

text \<open>
  What managing an account is: the actor must be an active administrator and not the target, the
  target must exist under the very text of the request, and then the target alone is rewritten,
  its modification time too unless nothing changes.
\<close>

definition managed :: "string \<Rightarrow> string \<Rightarrow> (user \<Rightarrow> user) \<Rightarrow> env \<Rightarrow> db \<Rightarrow> (app_error, user \<times> db) outcome" where
  "managed actor k f e d =
     (if actor = k then Inl SelfManagementNotAllowedError
      else if sql_uuid k \<noteq> k then Inl UserNotFoundError
      else case row_at u_id k (users d) of
        None \<Rightarrow> Inl UserNotFoundError
      | Some t \<Rightarrow>
          if \<not> is_active_admin d actor then Inl SelfManagementNotAllowedError
          else if f t = t then Inr (t, d)
          else let t' = (f t)\<lparr>u_updatedAt := db_now e\<rparr>
               in Inr (t', d\<lparr>users := patch_row u_id k (\<lambda>_. t') (users d)\<rparr>))"

lemma is_active_admin_row:
  assumes "db_ok d"
  shows "is_active_admin d k \<longleftrightarrow>
    (case row_at u_id k (users d) of None \<Rightarrow> False | Some u \<Rightarrow> active_admin u)"
proof (cases "row_at u_id k (users d)")
  case None
  then show ?thesis using row_at_None [of u_id k "users d"] by (auto simp: is_active_admin_def)
next
  case (Some u)
  then have "x = u" if "x \<in> set (users d)" "u_id x = k" for x
    using user_row [OF assms, of k x] that by simp
  with Some user_row [OF assms, of k u] show ?thesis by (auto simp: is_active_admin_def)
qed

lemma two_admins:
  assumes "a \<in> set rows" "t \<in> set rows" "a \<noteq> t" "P a" "P t"
  shows "2 \<le> length (filter P rows)"
proof -
  have "card {a, t} \<le> card (set (filter P rows))" by (rule card_mono) (use assms in auto)
  also have "\<dots> \<le> length (filter P rows)" by (rule card_length)
  finally show ?thesis using assms(3) by simp
qed

lemma updateManagedUser_locked:
  assumes "db_ok d"
  shows "updateManagedUser actorId k change e d =
    (if actorId = k then Inl SelfManagementNotAllowedError
     else case (if sql_uuid k = k then row_at u_id k (users d) else None) of
       None \<Rightarrow> Inl UserNotFoundError
     | Some target \<Rightarrow>
         (case (if sql_uuid actorId = actorId then row_at u_id actorId (users d) else None) of
            None \<Rightarrow> Inl SelfManagementNotAllowedError
          | Some actor \<Rightarrow>
              if \<not> u_isActive actor \<or> u_role actor \<noteq> ADMIN then Inl SelfManagementNotAllowedError
              else if snd (change target) \<and> length (filter active_admin (users d)) \<le> 1
              then Inl LastActiveAdminError
              else if fst (change target) = target then Inr (target, d)
              else map_sum id (\<lambda>d'. ((fst (change target))\<lparr>u_updatedAt := db_now e\<rparr>, d'))
                (update_user k (\<lambda>_. (fst (change target))\<lparr>u_updatedAt := db_now e\<rparr>) d)))"
  unfolding updateManagedUser_def Let_def case_prod_beta
  by (simp only: locked_user [OF assms disjI1 [OF refl]] locked_user [OF assms disjI2 [OF refl]])

lemma updateManagedUser_managed:
  assumes d: "db_ok d" and canon: "sql_uuid actor = actor" and c: "access_change change"
  shows "updateManagedUser actor k change e d = managed actor k (\<lambda>u. fst (change u)) e d"
proof (cases "actor \<noteq> k \<and> sql_uuid k = k \<and> is_active_admin d actor \<and> row_at u_id k (users d) \<noteq> None")
  case False
  then consider "actor = k" | "actor \<noteq> k" "sql_uuid k \<noteq> k" | "actor \<noteq> k" "sql_uuid k = k" "row_at u_id k (users d) = None"
    | "actor \<noteq> k" "sql_uuid k = k" "\<not> is_active_admin d actor" by blast
  then show ?thesis
    unfolding updateManagedUser_locked [OF d] managed_def is_active_admin_row [OF d]
    by cases (auto simp: canon active_admin_def split: option.splits)
next
  case True
  then obtain t a where t: "row_at u_id k (users d) = Some t" and a: "row_at u_id actor (users d) = Some a"
    and adm: "active_admin a" and k: "actor \<noteq> k" "sql_uuid k = k"
    unfolding is_active_admin_row [OF d] by (auto split: option.splits)
  have mem: "t \<in> set (users d)" "u_id t = k" "a \<in> set (users d)" "u_id a = actor"
    using t a by (auto dest: row_at_SomeD)
  have many: "\<not> (snd (change t) \<and> length (filter active_admin (users d)) \<le> 1)"
    using two_admins [of a "users d" t active_admin] mem adm c k(1) unfolding access_change_def by force
  obtain r b where ch: "fst (change t) = t\<lparr>u_role := r, u_isActive := b\<rparr>"
    using c unfolding access_change_def by blast
  obtain x y where xy: "change t = (x, y)" by (cases "change t")
  have u: "update_user k (\<lambda>_. x\<lparr>u_updatedAt := db_now e\<rparr>) d =
      Inr (d\<lparr>users := patch_row u_id k (\<lambda>_. x\<lparr>u_updatedAt := db_now e\<rparr>) (users d)\<rparr>)"
    using update_user_access [OF d mem(1), where r = r and a = b and t = "db_now e"] ch xy by (simp add: mem(2))
  show ?thesis
    unfolding updateManagedUser_locked [OF d] managed_def
    using many u adm True by (simp add: canon t a k xy active_admin_def Let_def)
qed

lemma access_changes:
  "access_change (\<lambda>t. (t\<lparr>u_role := r\<rparr>, if u_role t = ADMIN \<and> r \<noteq> ADMIN then u_isActive t else False))"
  "access_change (\<lambda>t. (t\<lparr>u_isActive := b\<rparr>, u_role t = ADMIN \<and> u_isActive t \<and> \<not> b))"
proof -
  have r: "\<exists>r' a. t\<lparr>u_role := r\<rparr> = t\<lparr>u_role := r', u_isActive := a\<rparr>" for t :: user
    by (intro exI [of _ r] exI [of _ "u_isActive t"]) simp
  have b: "\<exists>r' a. t\<lparr>u_isActive := b\<rparr> = t\<lparr>u_role := r', u_isActive := a\<rparr>" for t :: user
    by (intro exI [of _ "u_role t"] exI [of _ b]) simp
  show "access_change (\<lambda>t. (t\<lparr>u_role := r\<rparr>, if u_role t = ADMIN \<and> r \<noteq> ADMIN then u_isActive t else False))"
    using r by (simp add: access_change_def active_admin_def)
  show "access_change (\<lambda>t. (t\<lparr>u_isActive := b\<rparr>, u_role t = ADMIN \<and> u_isActive t \<and> \<not> b))"
    using b by (simp add: access_change_def active_admin_def)
qed

lemma updateRole_managed:
  "db_ok d \<Longrightarrow> sql_uuid actor = actor \<Longrightarrow>
    updateRole actor k role e d = managed actor k (\<lambda>t. t\<lparr>u_role := role\<rparr>) e d"
  using updateManagedUser_managed [OF _ _ access_changes(1)] by (simp add: updateRole_def)

lemma updateStatus_managed:
  "db_ok d \<Longrightarrow> sql_uuid actor = actor \<Longrightarrow>
    updateStatus_user actor k b e d =
      map_sum id (\<lambda>(u, d'). (u, d', if u_isActive u then [] else [UserDeactivated (u_id u)]))
        (managed actor k (\<lambda>t. t\<lparr>u_isActive := b\<rparr>) e d)"
  using updateManagedUser_managed [OF _ _ access_changes(2)]
  by (auto simp: updateStatus_user_def split: sum.splits)

lemma managed_Inr:
  assumes "db_ok d" "managed actor k f e d = Inr (u, d')"
    "\<And>u. \<exists>r a. f u = u\<lparr>u_role := r, u_isActive := a\<rparr>"
  obtains t where "actor \<noteq> k" "row_at u_id k (users d) = Some t" "is_active_admin d actor" "db_ok d'"
    "u_id u = k" "u_role u = u_role (f t)" "u_isActive u = u_isActive (f t)"
    "d' = d\<lparr>users := patch_row u_id k (\<lambda>_. u) (users d)\<rparr>"
proof -
  obtain t where t: "actor \<noteq> k" "row_at u_id k (users d) = Some t" "is_active_admin d actor"
    and r: "(if f t = t then Inr (t, d) else let t' = (f t)\<lparr>u_updatedAt := db_now e\<rparr>
      in Inr (t', d\<lparr>users := patch_row u_id k (\<lambda>_. t') (users d)\<rparr>)) = (Inr (u, d') :: (app_error, _) outcome)"
    using assms(2) unfolding managed_def by (auto split: if_splits option.splits)
  have id: "u_id t = k" "t \<in> set (users d)" using t(2) by (auto dest: row_at_SomeD)
  obtain r a where f: "f t = t\<lparr>u_role := r, u_isActive := a\<rparr>" using assms(3) by blast
  have same: "patch_row u_id k (\<lambda>_. t) (users d) = users d"
    unfolding patch_row_def
    by (rule map_idI) (use id user_unique [OF assms(1) _ id(2)] in \<open>auto split: if_splits\<close>)
  show ?thesis
  proof (cases "f t = t")
    case True
    then show ?thesis using r assms(1) same id by (intro that [OF t]) simp_all
  next
    case False
    let ?t = "(f t)\<lparr>u_updatedAt := db_now e\<rparr>"
    from False r have e: "u = ?t" "d' = d\<lparr>users := patch_row u_id k (\<lambda>_. ?t) (users d)\<rparr>"
      by (auto simp: Let_def)
    have "update_user k (\<lambda>_. ?t) d = Inr d'"
      using update_user_access [OF assms(1) id(2), where r = r and a = a and t = "db_now e"] f e id by simp
    moreover have "update_user k (\<lambda>_. ?t) d = update_user k (\<lambda>x. if u_id x = k then ?t else x) d"
      by (rule update_user_cong [OF assms(1) t(2)]) (simp add: id)
    ultimately have "db_ok d'"
      using update_user_keeps(1) [OF assms(1), of k "\<lambda>x. if u_id x = k then ?t else x" d'] f id by simp
    then show ?thesis using e f id by (intro that [OF t]) simp_all
  qed
qed

lemma managed_keeps_actor:
  assumes "db_ok d" "managed actor k f e d = Inr (u, d')" "\<And>u. \<exists>r a. f u = u\<lparr>u_role := r, u_isActive := a\<rparr>"
  shows "is_active_admin d' actor"
proof -
  obtain t where t: "actor \<noteq> k" "is_active_admin d actor" "d' = d\<lparr>users := patch_row u_id k (\<lambda>_. u) (users d)\<rparr>"
    using managed_Inr [OF assms] by metis
  then obtain a where a: "a \<in> set (users d)" "u_id a = actor" "active_admin a" by (auto simp: is_active_admin_def)
  then have "a \<in> set (users d')" using t(1,3) by (auto simp: set_patch_row)
  with a show ?thesis by (auto simp: is_active_admin_def)
qed

text \<open>C8: Managing an account does what it says: an active administrator changes the role or the
access of another account, found under the text of the request, and of no other; the account is
rewritten in the one column and stamped unless nothing changes, a deactivation is announced, and
every other request is refused, an unknown target as not found, the rest as self-management.\<close>

theorem managing_accounts:
  assumes "db_ok d" "sql_uuid actor = actor"
  shows "updateRole actor k role e d = managed actor k (\<lambda>t. t\<lparr>u_role := role\<rparr>) e d \<and>
    updateStatus_user actor k active e d =
      map_sum id (\<lambda>(u, d'). (u, d', if u_isActive u then [] else [UserDeactivated (u_id u)]))
        (managed actor k (\<lambda>t. t\<lparr>u_isActive := active\<rparr>) e d)"
  using updateRole_managed [OF assms] updateStatus_managed [OF assms] by simp

lemma access_updates:
  "\<exists>r a. (u\<lparr>u_role := role\<rparr> :: user) = u\<lparr>u_role := r, u_isActive := a\<rparr>"
  "\<exists>r a. (u\<lparr>u_isActive := active\<rparr> :: user) = u\<lparr>u_role := r, u_isActive := a\<rparr>"
  by (rule exI [of _ role], rule exI [of _ "u_isActive u"], simp)
    (rule exI [of _ "u_role u"], rule exI [of _ active], simp)

lemma managed_error: "managed actor k f e d \<noteq> Inl LastActiveAdminError"
  by (simp add: managed_def Let_def split: option.splits)

lemma updateRole_Inr:
  assumes "db_ok d" "sql_uuid actor = actor" "updateRole actor k role e d = Inr (u, d')"
  shows "db_ok d'" "is_active_admin d' actor"
    "d' = d\<lparr>users := patch_row u_id k (\<lambda>_. u) (users d)\<rparr> \<and> u_id u = k"
  using managed_Inr [OF assms(1) assms(3) [unfolded updateRole_managed [OF assms(1,2)]] access_updates(1)]
    managed_keeps_actor [OF assms(1) assms(3) [unfolded updateRole_managed [OF assms(1,2)]] access_updates(1)]
  by metis+

lemma updateStatus_Inr:
  assumes "db_ok d" "sql_uuid actor = actor" "updateStatus_user actor k b e d = Inr (u, d', evs)"
  shows "db_ok d'" "is_active_admin d' actor"
    "d' = d\<lparr>users := patch_row u_id k (\<lambda>_. u) (users d)\<rparr> \<and> u_id u = k"
    "u_isActive u = b" "evs = (if b then [] else [UserDeactivated k])"
proof -
  have m: "managed actor k (\<lambda>t. t\<lparr>u_isActive := b\<rparr>) e d = Inr (u, d')"
    "evs = (if u_isActive u then [] else [UserDeactivated (u_id u)])"
    using assms(3) unfolding updateStatus_managed [OF assms(1,2)] map_sum_Inr_iff by auto
  obtain t :: user where "db_ok d'" "u_id u = k" "u_isActive u = u_isActive (t\<lparr>u_isActive := b\<rparr>)"
    "d' = d\<lparr>users := patch_row u_id k (\<lambda>_. u) (users d)\<rparr>"
    using managed_Inr [OF assms(1) m(1) access_updates(2)] by metis
  then show "db_ok d'" "d' = d\<lparr>users := patch_row u_id k (\<lambda>_. u) (users d)\<rparr> \<and> u_id u = k"
    "u_isActive u = b" "evs = (if b then [] else [UserDeactivated k])" using m(2) by simp_all
  show "is_active_admin d' actor" by (rule managed_keeps_actor [OF assms(1) m(1) access_updates(2)])
qed

text \<open>C9: Whatever an administrator changes, an active administrator remains, namely the actor, so the
guard against removing the last one never has to refuse anything.\<close>

theorem an_administrator_remains:
  assumes "db_ok d" "sql_uuid actor = actor"
  shows "updateRole actor k role e d \<noteq> Inl LastActiveAdminError \<and>
    updateStatus_user actor k active e d \<noteq> Inl LastActiveAdminError \<and>
    (\<forall>u d'. updateRole actor k role e d = Inr (u, d') \<longrightarrow> is_active_admin d' actor) \<and>
    (\<forall>u d' evs. updateStatus_user actor k active e d = Inr (u, d', evs) \<longrightarrow> is_active_admin d' actor)"
proof (intro conjI allI impI)
  show "updateRole actor k role e d \<noteq> Inl LastActiveAdminError"
    "updateStatus_user actor k active e d \<noteq> Inl LastActiveAdminError"
    by (simp_all add: updateRole_managed [OF assms] updateStatus_managed [OF assms] map_sum_Inl_iff managed_error)
qed (rule updateRole_Inr(2) [OF assms] updateStatus_Inr(2) [OF assms], assumption)+

section \<open>Provisioning\<close>

lemma new_user_simps [simp]:
  "u_id (new_user data e) = fresh_id e" "u_email (new_user data e) = cu_email data"
  "u_isActive (new_user data e)" "u_passwordHash (new_user data e) = cu_passwordHash data"
  "u_role (new_user data e) = (case cu_role data of None \<Rightarrow> STUDENT | Some r \<Rightarrow> r)"
  by (simp_all add: new_user_def)

lemma update_user_promoted:
  assumes "db_ok d" "u \<in> set (users d)"
  shows "update_user (u_id u) (promoted e) d =
    Inr (d\<lparr>users := patch_row u_id (u_id u) (promoted e) (users d)\<rparr>)"
proof -
  have row: "row_at u_id (u_id u) (users d) = Some u" using user_row [OF assms(1)] assms(2) by blast
  show ?thesis
    using update_user_access [OF assms, where r = ADMIN and a = True and t = "db_now e"]
      update_user_cong [OF assms(1) row, of "promoted e" "\<lambda>_. promoted e u"]
      patch_cong [OF assms(1) row, of "promoted e" "\<lambda>_. promoted e u"]
    by (simp add: promoted_def)
qed

lemma provisioning_facts:
  assumes "db_ok d" "fresh_id e \<notin> ids u_id (users d)"
    "provisionBootstrapAccount data e d = Inr (out, d')"
  shows "db_ok d' \<and>
    (\<forall>u\<in>set (users d). u \<in> set (users d') \<or>
      out = PROMOTED \<and> \<not> (\<exists>a\<in>set (users d). active_admin a) \<and> u_email u = ba_email data \<and>
      ba_role data = ADMIN \<and> promoted e u \<in> set (users d')) \<and>
    (ba_role data = ADMIN \<and> out \<noteq> ACCOUNT_MISSING \<longrightarrow> (\<exists>a\<in>set (users d'). active_admin a)) \<and>
    (out = ACCOUNT_MISSING \<longrightarrow> truthy (ba_passwordHash data) = None)"
proof (cases "row_at u_email (ba_email data) (users d)")
  case None
  show ?thesis
  proof (cases "truthy (ba_passwordHash data)")
    case none: None
    then show ?thesis using assms(1,3) None by (auto simp: provisionBootstrapAccount_def)
  next
    case (Some hash)
    let ?u = "new_user \<lparr>cu_email = ba_email data, cu_passwordHash = hash, cu_fullName = ba_fullName data,
      cu_role = Some (ba_role data)\<rparr> e"
    have no: "u_id ?u \<notin> ids u_id (users d)" "u_email ?u \<notin> u_email ` set (users d)"
      using assms(2) None by (simp_all add: row_at_None)
    have "insert_user ?u d \<noteq> Inl (QueryFailedError ''23505'' name)" for name
      using no by (simp add: insert_user_def insert_row_def user_violation_def)
    then have "insert_user ?u d = Inr d'" "out = CREATED"
      using assms(3) None Some
      by (auto simp: provisionBootstrapAccount_def insert_user_or_ignore_def split: sum.splits app_error.splits if_splits)
    then have "db_ok d'" "users d' = users d @ [?u]" using insert_user_keeps(1) [OF assms(1)] insert_user_keeps(2) [OF assms(1), of ?u d'] by simp_all
    with \<open>out = CREATED\<close> show ?thesis by (auto simp: active_admin_def)
  qed
next
  case (Some x)
  then have x: "x \<in> set (users d)" "u_email x = ba_email data" by (auto dest: row_at_SomeD)
  have found: "provisionBootstrapAccount data e d =
      (if u_role x = ba_role data \<and> u_isActive x then Inr (ALREADY_PROVISIONED, d)
       else if ba_role data \<noteq> ADMIN then Inr (UNCHANGED, d)
       else if filter active_admin (users d) \<noteq> [] then Inr (ADMIN_EXISTS, d)
       else Inr (PROMOTED, d\<lparr>users := patch_row u_id (u_id x) (promoted e) (users d)\<rparr>))"
    unfolding provisionBootstrapAccount_def Some option.case update_user_promoted [OF assms(1) x(1)] by simp
  have none: "filter active_admin (users d) = [] \<longleftrightarrow> \<not> (\<exists>a\<in>set (users d). active_admin a)"
    by (simp add: filter_empty_conv)
  let ?same = "u_role x = ba_role data \<and> u_isActive x"
  let ?some = "\<exists>a\<in>set (users d). active_admin a"
  consider "?same" | "\<not> ?same" "ba_role data \<noteq> ADMIN" | "\<not> ?same" "ba_role data = ADMIN" "?some"
    | "\<not> ?same" "ba_role data = ADMIN" "\<not> ?some" by blast
  then show ?thesis
  proof cases
    case 1
    then have "out = ALREADY_PROVISIONED" "d' = d" using assms(3) found by simp_all
    with 1 assms(1) x show ?thesis by (auto simp: active_admin_def)
  next
    case 2
    then have "out = UNCHANGED" "d' = d" using assms(3) found by (simp_all split: if_splits)
    with 2 assms(1) show ?thesis by simp
  next
    case 3
    then have "out = ADMIN_EXISTS" "d' = d" using assms(3) found none by (simp_all split: if_splits)
    with 3 assms(1) show ?thesis by simp
  next
    case 4
    then have p4: "out = PROMOTED" "d' = d\<lparr>users := patch_row u_id (u_id x) (promoted e) (users d)\<rparr>"
      using assms(3) found none by (simp_all split: if_splits)
    have "db_ok d'"
      using update_user_keeps(1) [OF assms(1), of "u_id x" "promoted e" d'] update_user_promoted [OF assms(1) x(1)] p4(2)
      by (simp add: promoted_def)
    have p: "promoted e x \<in> set (users d')" using x(1) unfolding p4(2) by (auto simp: set_patch_row)
    have "u \<in> set (users d') \<or> u = x" if "u \<in> set (users d)" for u
    proof (cases "u_id u = u_id x")
      case True
      then show ?thesis using user_unique [OF assms(1) that x(1)] by simp
    next
      case False
      then show ?thesis using that unfolding p4(2) by (auto simp: set_patch_row)
    qed
    moreover have "active_admin (promoted e x)" by (simp add: promoted_def active_admin_def)
    ultimately show ?thesis using 4 p4(1) \<open>db_ok d'\<close> p x(2) by auto
  qed
qed

text \<open>Provisioning at startup never touches the password, e-mail, name or identifier of an existing
account, and changes a role or access only by promoting the configured administrator's account when
there is no active administrator; and once it has dealt with an administrator's account that exists
or has a password configured, there is one.\<close>

lemma provisioning_is_careful:
  assumes "db_ok d" "fresh_id e \<notin> ids u_id (users d)"
    "provisionBootstrapAccount data e d = Inr (out, d')"
  shows "db_ok d' \<and>
    (\<forall>u\<in>set (users d). u \<in> set (users d') \<or>
      out = PROMOTED \<and> \<not> (\<exists>a\<in>set (users d). active_admin a) \<and> u_email u = ba_email data \<and>
      ba_role data = ADMIN \<and> promoted e u \<in> set (users d')) \<and>
    (ba_role data = ADMIN \<and> out \<noteq> ACCOUNT_MISSING \<longrightarrow> (\<exists>a\<in>set (users d'). active_admin a)) \<and>
    (out = ACCOUNT_MISSING \<longrightarrow> truthy (ba_passwordHash data) = None)"
  using provisioning_facts [OF assms] .

end
