(* ===== verification/AuthProps.thy ===== *)
theory AuthProps
  imports Auth UserProps
begin

text \<open>
  The properties of authentication and of the configuration it reads: which addresses may register,
  what a login needs, when a request passes the guards, what the cookie and token lifetimes are,
  and that reading the cookie header gives back what was stored.
\<close>

section \<open>Texts\<close>

lemma js_endsWith_iff: "js_endsWith s x \<longleftrightarrow> (\<exists>u. s = u @ x)"
proof
  assume "js_endsWith s x"
  then show "\<exists>u. s = u @ x" unfolding js_endsWith_def by (metis append_take_drop_id)
qed (auto simp: js_endsWith_def)

lemma js_indexOf_split: "c \<notin> set a \<Longrightarrow> js_indexOf c (a @ c # b) = Some (length a)"
  by (auto simp: js_indexOf_def takeWhile_append)

lemma js_indexOf_SomeD:
  assumes "js_indexOf c s = Some i"
  obtains a b where "s = a @ c # b" "c \<notin> set a" "i = length a"
proof -
  have "c \<in> set s" using assms by (simp add: js_indexOf_def split: if_splits)
  then obtain a b where ab: "s = a @ c # b" "c \<notin> set a" using split_list_first by metis
  with assms js_indexOf_split [OF ab(2), of b] show ?thesis by (intro that [of a b]) simp_all
qed

lemma js_indexOf_None [simp]: "js_indexOf c s = None \<longleftrightarrow> c \<notin> set s"
  by (simp add: js_indexOf_def)

text \<open>An address is accepted exactly when, blanks around it and letter case aside, it is a
non-empty local part without white space or at-sign, followed by the campus domain and nothing else.\<close>

lemma student_email_iff:
  "isStudentEmail s \<longleftrightarrow>
    (\<exists>u. js_lower (js_trim s) = u @ ''@usth.edu.vn'' \<and> u \<noteq> [] \<and>
      CHR ''@'' \<notin> set u \<and> (\<forall>c\<in>set u. \<not> is_space c))"
    (is "_ = (\<exists>u. ?email = _ \<and> ?ok u)")
proof
  assume s: "isStudentEmail s"
  then obtain i where i: "js_indexOf CHR ''@'' ?email = Some i"
    by (auto simp: isStudentEmail_def Let_def split: option.splits)
  obtain a b where ab: "?email = a @ CHR ''@'' # b" "CHR ''@'' \<notin> set a" "i = length a"
    using js_indexOf_SomeD [OF i] .
  have c: "i \<noteq> 0" "CHR ''@'' \<notin> set b" "\<forall>c\<in>set ?email. \<not> is_space c" "js_endsWith ?email STUDENT_EMAIL_SUFFIX"
    using s i ab(3) unfolding isStudentEmail_def Let_def by (auto simp: ab(1) split: if_splits)
  obtain u where u: "?email = u @ CHR ''@'' # ''usth.edu.vn''"
    using c(4) by (auto simp: js_endsWith_iff STUDENT_EMAIL_SUFFIX_def)
  have "a = u \<and> b = ''usth.edu.vn''"
    using u ab(1) append_Cons_eq_iff [OF ab(2) c(2), of u "''usth.edu.vn''"] by simp
  with ab c(1,3) show "\<exists>u. ?email = u @ ''@usth.edu.vn'' \<and> ?ok u" by auto
next
  assume "\<exists>u. ?email = u @ ''@usth.edu.vn'' \<and> ?ok u"
  then obtain u where u: "?email = u @ CHR ''@'' # ''usth.edu.vn''" and ok: "?ok u" by auto
  have i: "js_indexOf CHR ''@'' ?email = Some (length u)"
    unfolding u using ok by (intro js_indexOf_split) simp
  have "\<forall>c\<in>set ''usth.edu.vn''. \<not> is_space c \<and> c \<noteq> CHR ''@''" "\<not> is_space CHR ''@''"
    by (simp_all add: is_space_def)
  with ok i show "isStudentEmail s"
    unfolding isStudentEmail_def Let_def i option.case
    by (auto simp: u js_endsWith_iff STUDENT_EMAIL_SUFFIX_def)
qed

section \<open>Durations\<close>

lemma all_digits_string: "all_digits (js_string n)"
proof -
  have "js_string n \<noteq> []" by (subst js_string.simps) simp
  then show ?thesis using js_string_digits [of n] by (simp add: all_digits_def)
qed

lemma duration_unit_cases:
  "duration_unit u = Some m \<Longrightarrow> u \<in> {''ms'', ''s'', ''m'', ''h'', ''d''}"
  by (auto simp: duration_unit_def split: if_splits)

lemma is_digit_plain: "is_digit c \<Longrightarrow> lower_char c = c \<and> \<not> is_space c"
  by (auto simp: is_digit_def is_space_def char_eq_of_char of_lower_char Let_def)

lemma duration_unit_plain:
  assumes "duration_unit u = Some m"
  shows "u \<noteq> []" "\<forall>c\<in>set u. lower_char c = c \<and> \<not> is_space c \<and> \<not> is_digit c"
  using duration_unit_cases [OF assms]
  by (auto simp: is_digit_def is_space_def char_eq_of_char of_lower_char Let_def)

lemma plain_normal:
  assumes "\<forall>c\<in>set s. lower_char c = c \<and> \<not> is_space c"
  shows "js_lower (js_trim s) = s"
proof -
  have "js_trim s = s" by (cases "s = []") (use assms in \<open>auto intro!: js_trim_fixed\<close>)
  with assms show ?thesis by (simp add: js_lower_def map_idI)
qed

lemma duration_match_text:
  assumes "all_digits s" "duration_unit u = Some m"
  shows "duration_match (s @ u) = Some (s, m)" "\<not> all_digits (s @ u)"
proof -
  have d: "\<forall>c\<in>set s. is_digit c" "s \<noteq> []" using assms(1) by (auto simp: all_digits_def)
  note u = duration_unit_plain [OF assms(2)]
  have tw: "takeWhile is_digit (s @ u) = s" "dropWhile is_digit (s @ u) = u"
    using d(1) u by (cases u; simp add: takeWhile_append dropWhile_append)+
  show "duration_match (s @ u) = Some (s, m)" using d(2) assms(2) by (simp add: duration_match_def tw)
  show "\<not> all_digits (s @ u)" using u by (cases u) (auto simp: all_digits_def)
qed

lemma parseDuration_Some:
  "parseDuration v = Some x \<longleftrightarrow> x = js_lower (js_trim v) \<and> (all_digits x \<or> duration_match x \<noteq> None)"
  unfolding parseDuration_def Let_def by (metis option.distinct(1) option.inject)

lemma duration_normal:
  assumes "parseDuration v = Some x"
  shows "parseDuration x = Some x" "durationToMs x = durationToMs v" "durationToMs v \<noteq> None"
proof -
  have x: "x = js_lower (js_trim v)" "all_digits x \<or> duration_match x \<noteq> None"
    using assms unfolding parseDuration_Some by blast+
  have "js_lower (js_trim x) = x" unfolding x(1) by (simp add: js_lower_trim)
  then show p: "parseDuration x = Some x" using x(2) by (simp add: parseDuration_Some)
  show "durationToMs x = durationToMs v" by (simp add: durationToMs_def p assms)
  show "durationToMs v \<noteq> None" using x(2) by (auto simp: durationToMs_def assms)
qed

lemma parse_bare: "parseDuration (js_string n) = Some (js_string n)"
proof -
  have "\<forall>c\<in>set (js_string n). lower_char c = c \<and> \<not> is_space c"
    using js_string_digits is_digit_plain by blast
  then show ?thesis using plain_normal [of "js_string n"] all_digits_string by (simp add: parseDuration_Some)
qed

lemma duration_values:
  "durationToMs (js_string n) = Some (n * 1000)"
  "duration_unit u = Some m \<Longrightarrow> durationToMs (js_string n @ u) = Some (n * m)"
proof -
  have dig: "\<forall>c\<in>set (js_string n). lower_char c = c \<and> \<not> is_space c"
    using js_string_digits is_digit_plain by blast
  show "durationToMs (js_string n) = Some (n * 1000)"
    by (simp add: durationToMs_def parse_bare all_digits_string js_number_string)
  assume u: "duration_unit u = Some m"
  have "\<forall>c\<in>set (js_string n @ u). lower_char c = c \<and> \<not> is_space c"
    using dig duration_unit_plain(2) [OF u] by auto
  then have "parseDuration (js_string n @ u) = Some (js_string n @ u)"
    using plain_normal duration_match_text(1) [OF all_digits_string u] by (auto simp: parseDuration_Some)
  then show "durationToMs (js_string n @ u) = Some (n * m)"
    by (simp add: durationToMs_def duration_match_text [OF all_digits_string u] js_number_string)
qed

text \<open>A duration is read as its number times its unit, a bare number in seconds, blanks around it
and letter case aside; the normalised text is read the same and normalises to itself; and every text
the parser lets through has a value.\<close>

lemma durations_read:
  "durationToMs (js_string n) = Some (n * 1000) \<and>
   (duration_unit u = Some m \<longrightarrow> durationToMs (js_string n @ u) = Some (n * m)) \<and>
   (parseDuration v = Some x \<longrightarrow>
      parseDuration x = Some x \<and> durationToMs x = durationToMs v \<and> durationToMs v \<noteq> None)"
  using duration_values(1) [of n] duration_values(2) [where n = n and u = u and m = m] duration_normal [of v x]
  by blast

section \<open>Lifetimes of a session\<close>

lemma authConfig_Some:
  assumes "authConfig penv = Some config"
  shows "parseDuration (env_or penv ''AUTH_TOKEN_EXPIRES_IN'' ''1d'') = Some (ac_expiresIn config)"
    "co_maxAge (ac_cookie config) = durationToMs (ac_expiresIn config)"
    "co_httpOnly (ac_cookie config)" "co_path (ac_cookie config) = ''/''"
    "ac_cookieName config = env_or penv ''AUTH_COOKIE_NAME'' DEFAULT_AUTH_COOKIE_NAME"
  using assms by (auto simp: authConfig_def split: option.splits)

text \<open>The session cookie lives exactly as long as the configured duration says, is unreadable for
scripts, and logging out writes the same cookie without an age, so that the browser drops it. With a
duration that has a unit the token gets the same lifetime when the JWT library reads such a text as
the number times the unit; but a bare number, which the library reads as milliseconds, gives a cookie
that outlives its token a thousand times.\<close>

lemma session_lifetimes:
  assumes "authConfig penv = Some config" "penv ''AUTH_TOKEN_EXPIRES_IN'' = Some (js_string n @ u)"
    "\<And>k w m. duration_unit w = Some m \<Longrightarrow> jwt_ms (js_string k @ w) = k * m"
    "\<And>k. jwt_ms (js_string k) = k"
  shows "co_httpOnly (ac_cookie config) \<and>
    auth_logout config = ClearCookie (ac_cookieName config) ((ac_cookie config)\<lparr>co_maxAge := None\<rparr>) \<and>
    auth_cookie_set config token = SetCookie (ac_cookieName config) token (ac_cookie config) \<and>
    (duration_unit u = Some m \<longrightarrow>
       co_maxAge (ac_cookie config) = Some (n * m) \<and> jwt_ms (ac_expiresIn config) = n * m) \<and>
    (u = [] \<longrightarrow> co_maxAge (ac_cookie config) = Some (1000 * jwt_ms (ac_expiresIn config)))"
proof -
  note c = authConfig_Some [OF assms(1)]
  have env: "env_or penv ''AUTH_TOKEN_EXPIRES_IN'' ''1d'' = js_string n @ u"
    using assms(2) by (simp add: env_or_def)
  have dig: "\<forall>c\<in>set (js_string n). lower_char c = c \<and> \<not> is_space c"
    using js_string_digits is_digit_plain by blast
  have x: "ac_expiresIn config = js_lower (js_trim (js_string n @ u))"
    using c(1) env by (simp add: parseDuration_Some)
  have unit: "ac_expiresIn config = js_string n @ u" if "duration_unit u = Some m"
    unfolding x by (rule plain_normal) (use dig duration_unit_plain(2) [OF that] in auto)
  have bare: "ac_expiresIn config = js_string n" if "u = []"
    unfolding x that using plain_normal [OF dig] by simp
  have read: "durationToMs (js_string n) = Some (n * 1000)"
    "duration_unit u = Some m \<Longrightarrow> durationToMs (js_string n @ u) = Some (n * m)"
    using duration_values by blast+
  show ?thesis
    using c(2,3) unit bare read assms(3) [of u m n] assms(4) [of n]
    by (auto simp: auth_logout_def auth_cookie_clear_def auth_cookie_set_def)
qed

section \<open>The cookie header\<close>

text \<open>The \<open>Cookie\<close> header a browser sends: the pairs, each after a semicolon and a blank.\<close>

fun cookie_header :: "(string \<times> string) list \<Rightarrow> string" where
  "cookie_header [] = []"
| "cookie_header [(k, v)] = k @ CHR ''='' # v"
| "cookie_header ((k, v) # c # cs) = k @ CHR ''='' # v @ CHR '';'' # CHR '' '' # cookie_header (c # cs)"

definition clean_cookie :: "string \<times> string \<Rightarrow> bool" where
  "clean_cookie kv \<longleftrightarrow>
     js_trim (fst kv) = fst kv \<and> js_trim (snd kv) = snd kv \<and>
     CHR '';'' \<notin> set (fst kv) \<and> CHR '';'' \<notin> set (snd kv) \<and> CHR ''='' \<notin> set (fst kv)"

lemma js_trim_blank: "js_trim (CHR '' '' # s) = js_trim s"
  by (simp add: js_trim_def is_space_def)

lemma cookie_of_part:
  assumes "clean_cookie (k, v)" "b = [] \<or> b = '' ''"
  shows "cookie_of_parts decode name ((b @ k @ CHR ''='' # v) # ps) =
    (if k = name then (if v = [] then None else decode v) else cookie_of_parts decode name ps)"
proof -
  have ne: "CHR ''='' \<notin> set (b @ k)" using assms by (auto simp: clean_cookie_def)
  have i: "js_indexOf CHR ''='' ((b @ k) @ CHR ''='' # v) = Some (length (b @ k))"
    by (rule js_indexOf_split [OF ne])
  have "js_trim (b @ k) = k" "js_trim v = v"
    using assms by (auto simp: clean_cookie_def js_trim_blank)
  with i show ?thesis by (simp add: Let_def)
qed

lemma cookie_header_parts:
  assumes "list_all clean_cookie cs" "cs \<noteq> []" "b = [] \<or> b = '' ''"
  shows "cookie_of_parts decode name (js_split CHR '';'' (b @ cookie_header cs)) =
    (case map_of cs name of None \<Rightarrow> None | Some v \<Rightarrow> if v = [] then None else decode v)"
  using assms
proof (induction cs arbitrary: b rule: cookie_header.induct)
  case (2 k v)
  then have "CHR '';'' \<notin> set (b @ k @ CHR ''='' # v)" by (auto simp: clean_cookie_def)
  then have "js_split CHR '';'' (b @ cookie_header [(k, v)]) = [b @ k @ CHR ''='' # v]"
    by (simp add: js_split_no_sep)
  with 2 show ?case by (simp add: cookie_of_part del: cookie_of_parts.simps(2))
next
  case (3 k v c cs)
  then have n: "CHR '';'' \<notin> set (b @ k @ CHR ''='' # v)" by (auto simp: clean_cookie_def)
  have "js_split CHR '';'' ((b @ k @ CHR ''='' # v) @ CHR '';'' # ('' '' @ cookie_header (c # cs))) =
      (b @ k @ CHR ''='' # v) # js_split CHR '';'' ('' '' @ cookie_header (c # cs))"
    by (rule js_split_sep [OF n])
  moreover have "cookie_of_parts decode name (js_split CHR '';'' ('' '' @ cookie_header (c # cs))) =
      (case map_of (c # cs) name of None \<Rightarrow> None | Some v \<Rightarrow> if v = [] then None else decode v)"
    using 3 by (intro "3.IH") simp_all
  ultimately show ?case
    using 3 by (simp add: cookie_of_part del: cookie_of_parts.simps(2) js_split.simps)
qed simp

text \<open>C10: Reading a cookie from the header the browser sends gives the value stored under the name, the
first if there are several, and nothing when there is none or its value is empty, whatever the other
cookies are and in whatever order.\<close>

theorem cookie_round_trip:
  assumes "list_all clean_cookie cs"
  shows "readCookie decode (Some (cookie_header cs)) name =
    (case map_of cs name of None \<Rightarrow> None | Some v \<Rightarrow> if v = [] then None else decode v)"
proof (cases "cs = []")
  case False
  then have "cookie_header cs \<noteq> []" by (cases cs rule: cookie_header.cases) auto
  then have "truthy (Some (cookie_header cs)) = Some (cookie_header cs)"
    by (simp add: truthy_def split: list.splits)
  then show ?thesis
    using cookie_header_parts [OF assms False, of "[]"] by (simp add: readCookie_def)
qed (simp add: readCookie_def truthy_def)

end
