(* ===== verification/Samples.thy ===== *)
theory Samples
  imports ResourceApi Stranding AuthProps
begin

text \<open>
  A small campus, on which the witnesses of the properties are evaluated: a student, a staff member
  and two administrators, one building with two rooms, a closure, and bookings in several states, on
  Monday 14 September 2026 at 08:50 campus time.
\<close>

definition person :: "string \<Rightarrow> string \<Rightarrow> user_role \<Rightarrow> bool \<Rightarrow> user" where
  "person k mail role active =
     \<lparr>u_id = k, u_email = mail, u_passwordHash = ''secret'', u_fullName = ''Name'', u_role = role,
      u_isActive = active, u_createdAt = 0, u_updatedAt = 0\<rparr>"

definition room :: "string \<Rightarrow> string \<Rightarrow> bool \<Rightarrow> resource" where
  "room k code approval =
     \<lparr>r_id = k, r_code = code, r_name = ''Room 1%'', r_description = None, r_type = ROOM, r_status = ACTIVE,
      r_capacity = 8, r_location = ''First floor'', r_amenities = [], r_requiresApproval = approval,
      r_operatingDays = [1, 2, 3, 4, 5], r_opensAt = ''08:00:00'', r_closesAt = ''12:00:00'',
      r_buildingId = ''b1'', r_createdAt = 0, r_updatedAt = 0\<rparr>"

definition plain_booking :: "string \<Rightarrow> string \<Rightarrow> string \<Rightarrow> string \<Rightarrow> string \<Rightarrow> booking_status \<Rightarrow> booking" where
  "plain_booking k r date s e st =
     \<lparr>b_id = k, b_resourceId = r, b_requesterId = ''u1'', b_date = date, b_startTime = s, b_endTime = e,
      b_status = st, b_cancelledAt = None, b_reviewedAt = None, b_reviewedById = None,
      b_rejectionReason = None, b_checkInCode = None, b_checkInRequestedAt = None, b_checkedInAt = None,
      b_checkedInById = None, b_checkedOutAt = None, b_checkedOutById = None, b_noShowAt = None,
      b_noShowById = None, b_createdAt = 0, b_updatedAt = 0\<rparr>"

definition sample_now :: int where
  "sample_now = 1789350600000"

definition sample_env :: env where
  "sample_env = \<lparr>clock = sample_now, clock_after = sample_now, db_now = sample_now,
     fresh_id = ''n1'', random_int = 123\<rparr>"

definition sample_building :: building where
  "sample_building = \<lparr>bl_id = ''b1'', bl_code = ''MAIN'', bl_name = ''Main'', bl_address = ''Street''\<rparr>"

definition pending_k1 :: booking where
  "pending_k1 = plain_booking ''k1'' ''r1'' ''2026-09-15'' ''09:00:00'' ''10:00:00'' PENDING"

definition confirmed_k2 :: booking where
  "confirmed_k2 = plain_booking ''k2'' ''r1'' ''2026-09-14'' ''09:00:00'' ''10:00:00'' CONFIRMED"

definition cancelled_k3 :: booking where
  "cancelled_k3 = (plain_booking ''k3'' ''r1'' ''2026-09-15'' ''09:00:00'' ''10:00:00'' CANCELLED)\<lparr>b_cancelledAt := Some 5\<rparr>"

definition sample_db :: db where
  "sample_db =
     \<lparr>users = [person ''u1'' ''nam@usth.edu.vn'' STUDENT True, person ''s1'' ''desk@usth.edu.vn'' STAFF True,
        person ''a1'' ''head@usth.edu.vn'' ADMIN True, person ''a2'' ''vice@usth.edu.vn'' ADMIN True],
      buildings = [sample_building],
      resources = [room ''r1'' ''ROOM-1'' True, room ''r2'' ''ROOM-2'' False],
      closures = [\<lparr>c_id = ''c1'', c_resourceId = ''r2'', c_date = ''2026-09-16'', c_reason = ''Paint'', c_createdAt = 0\<rparr>],
      bookings = [pending_k1, confirmed_k2, cancelled_k3]\<rparr>"

section \<open>The sample satisfies the invariants\<close>

lemma sample_bookings: "bookings sample_db = [pending_k1, confirmed_k2, cancelled_k3]"
  by (simp add: sample_db_def)

lemma sample_rules: "booking_rules pending_k1" "booking_rules confirmed_k2" "booking_rules cancelled_k3"
  by code_simp+

lemma sample_typed: "booking_typed pending_k1" "booking_typed confirmed_k2" "booking_typed cancelled_k3"
  by code_simp+

lemma sample_references:
  "b \<in> set (bookings sample_db) \<Longrightarrow> b_resourceId b \<in> ids r_id (resources sample_db) \<and> booking_users_known sample_db b"
  unfolding sample_bookings
  by (auto simp: pending_k1_def confirmed_k2_def cancelled_k3_def plain_booking_def booking_users_known_def
      null_or_in_def ids_def sample_db_def room_def person_def)

lemma sample_clashes:
  "\<not> booking_clash pending_k1 confirmed_k2" "\<not> booking_clash pending_k1 cancelled_k3"
  "\<not> booking_clash confirmed_k2 cancelled_k3"
  by code_simp+

lemma sample_ids: "b_id pending_k1 = ''k1''" "b_id confirmed_k2 = ''k2''" "b_id cancelled_k3 = ''k3''"
  by (simp_all add: pending_k1_def confirmed_k2_def cancelled_k3_def plain_booking_def)

lemma sample_booking_table: "table_inv b_id (booking_ok sample_db) booking_clash (bookings sample_db)"
  using sample_references sample_rules sample_typed sample_clashes sample_ids
  by (auto simp: table_inv_def booking_ok_def sample_bookings booking_clash_sym)

lemma sample_user_table: "table_inv u_id user_ok user_clash (users sample_db)"
  by code_simp

lemma sample_resource_table: "table_inv r_id (resource_ok sample_db) resource_clash (resources sample_db)"
  by code_simp

lemma sample_closure_table: "table_inv c_id (closure_ok sample_db) closure_clash (closures sample_db)"
  by code_simp

lemma sample_db_ok: "db_ok sample_db"
  by (simp add: db_ok_def sample_booking_table sample_user_table sample_resource_table sample_closure_table)

lemma sample_db_lived: "db_lived sample_now sample_db"
  by code_simp

lemma sample_known: "known_user sample_db ''u1''" "known_user sample_db ''s1''"
  by code_simp+

lemma sample_env_simps [simp]:
  "clock sample_env = sample_now" "clock_after sample_env = sample_now" "fresh_id sample_env = ''n1''"
  "random_int sample_env = 123" "db_now sample_env = sample_now"
  by (simp_all add: sample_env_def)

lemma sample_fresh: "fresh_id sample_env \<notin> ids b_id (bookings sample_db)"
  "fresh_id sample_env \<notin> ids u_id (users sample_db)"
  by code_simp+

end
