(* ===== verification/Witnesses.thy ===== *)
theory Witnesses
  imports Samples
begin

text \<open>
  The properties applied to concrete inputs: each theorem here discharges the hypotheses of one
  property on the sample campus, and states what the property then says.
\<close>

section \<open>Bookings\<close>

theorem lifecycle_refines_machine_witness:
  "enabled (Approve ''s1'' ''k1'') sample_now pending_k1 \<and>
   run_lifecycle (Approve ''s1'' ''k1'') sample_env sample_db =
     (let r = rewritten (op_change (Approve ''s1'' ''k1'') sample_env) sample_env sample_db pending_k1
      in Inr (fst r, snd r, announced (Approve ''s1'' ''k1'') (fst r)))"
proof -
  have en: "enabled (Approve ''s1'' ''k1'') sample_now pending_k1" by code_simp
  have "op_sound (Approve ''s1'' ''k1'') sample_env sample_db" "addresses (Approve ''s1'' ''k1'') pending_k1"
    by code_simp+
  then show ?thesis
    using lifecycle_refines_machine [of sample_db sample_env "Approve ''s1'' ''k1''" pending_k1] en
    by (simp add: sample_db_ok sample_db_lived sample_bookings)
qed

text \<open>A computed result, taken apart.\<close>

lemma outcome_InrE:
  assumes "(case r of Inl e \<Rightarrow> False | Inr x \<Rightarrow> P x)"
  obtains x where "r = Inr x" "P x"
  using assms by (auto split: sum.splits)

lemma sample_approved:
  "\<exists>b' d' evs. run_lifecycle (Approve ''s1'' ''k1'') sample_env sample_db = Inr (b', d', evs)"
proof -
  have "succeeds (run_lifecycle (Approve ''s1'' ''k1'') sample_env sample_db)" by code_simp
  then show ?thesis by (auto simp: succeeds_iff)
qed

theorem lifecycle_moves_along_diagram_witness:
  "\<exists>b' d' evs. run_lifecycle (Approve ''s1'' ''k1'') sample_env sample_db = Inr (b', d', evs) \<and>
    (\<exists>x'. row_at b_id ''k2'' (bookings d') = Some x' \<and> same_slot confirmed_k2 x')"
proof -
  obtain b' d' evs where r: "run_lifecycle (Approve ''s1'' ''k1'') sample_env sample_db = Inr (b', d', evs)"
    using sample_approved by blast
  have "op_sound (Approve ''s1'' ''k1'') sample_env sample_db" by code_simp
  then show ?thesis
    using lifecycle_moves_along_diagram [of sample_db sample_env "Approve ''s1'' ''k1''" b' d' evs confirmed_k2] r
    by (auto simp: sample_db_ok sample_db_lived sample_bookings sample_ids)
qed

definition sample_dto :: create_booking_dto where
  "sample_dto = \<lparr>cb_resourceId = ''r2'', cb_date = ''2026-09-15'', cb_startTime = ''09:00'', cb_endTime = ''10:00''\<rparr>"

lemma sample_dto_ok: "well_formed_request sample_dto"
  by code_simp

theorem create_accepts_exactly_bookable_witness:
  "slot_open sample_db (room ''r2'' ''ROOM-2'' False) sample_dto sample_now \<and>
   (\<exists>b row. create_booking ''u1'' sample_dto sample_env sample_db =
      Inr (b, sample_db\<lparr>bookings := bookings sample_db @ [row]\<rparr>, [AvailabilityChanged ''r2'' ''2026-09-15'']))"
proof -
  have k: "sql_uuid (cb_resourceId sample_dto) = ''r2''" "cb_date sample_dto = ''2026-09-15''" "clock sample_env = sample_now"
    by code_simp+
  have "(0::int) \<le> clock sample_env" by code_simp
  note C = create_accepts_exactly_bookable [OF sample_db_ok sample_known(1) sample_fresh(1) sample_dto_ok this, unfolded k]
  have "succeeds (create_booking ''u1'' sample_dto sample_env sample_db)" by code_simp
  then obtain b d' evs where run: "create_booking ''u1'' sample_dto sample_env sample_db = Inr (b, d', evs)"
    and s: "\<exists>r\<in>set (resources sample_db). r_id r = ''r2'' \<and> slot_open sample_db r sample_dto sample_now"
    using C [THEN conjunct1] by (auto simp: succeeds_iff)
  have only: "r = room ''r2'' ''ROOM-2'' False" if "r \<in> set (resources sample_db)" "r_id r = ''r2''" for r
    using that by (auto simp: sample_db_def room_def)
  obtain r :: resource and row where "r_id r = ''r2''" "d' = sample_db\<lparr>bookings := bookings sample_db @ [row]\<rparr>"
    "evs = [AvailabilityChanged (r_id r) ''2026-09-15'']"
    using C [THEN conjunct2, rule_format, OF run] by (elim exE conjE)
  with run have "create_booking ''u1'' sample_dto sample_env sample_db =
      Inr (b, sample_db\<lparr>bookings := bookings sample_db @ [row]\<rparr>, [AvailabilityChanged ''r2'' ''2026-09-15''])" by simp
  with s only show ?thesis by metis
qed

theorem pending_queue_is_reviewable_witness:
  "sp_total (findPendingForStaff 1 20 sample_env sample_db) = 1"
proof -
  have "campus_era sample_now" by code_simp
  moreover have "length (filter (\<lambda>b. canReview b sample_now) (bookings sample_db)) = 1" by code_simp
  ultimately show ?thesis
    using pending_queue_is_reviewable [of sample_db sample_env 20 1] by (simp add: sample_db_ok Let_def)
qed

theorem check_in_code_protocol_witness:
  "\<exists>b1 d1 evs b2 d2 m. requestCheckIn ''u1'' ''k2'' sample_env sample_db = Inr (b1, d1, evs) \<and>
    b_checkInCode b1 = Some ''000123'' \<and>
    confirmCheckIn ''s1'' ''k2'' ''000124'' sample_env d1 = Inl (BookingDomainError INVALID_CHECK_IN_CODE m) \<and>
    confirmCheckIn ''s1'' ''k2'' ''000123'' sample_env d1 = Inr (b2, d2, []) \<and> b_status b2 = CHECKED_IN"
proof -
  have code: "check_in_code 123 = ''000123''" by code_simp
  have "case requestCheckIn ''u1'' ''k2'' sample_env sample_db of
      Inl e \<Rightarrow> False | Inr x \<Rightarrow> sample_now < booking_end (fst x)" by code_simp
  then obtain b1 d1 evs where
    r: "requestCheckIn ''u1'' ''k2'' sample_env sample_db = Inr (b1, d1, evs)" "sample_now < booking_end b1"
    by (auto elim!: outcome_InrE)
  have "db_lived (clock sample_env) sample_db" "random_int sample_env < 1000000"
    "clock sample_env \<le> clock sample_env" "clock sample_env < booking_end b1"
    using r(2) by (simp_all add: sample_db_lived)
  note p = check_in_code_protocol [OF sample_db_ok this(1,2) r(1) sample_known(2) this(3,4), unfolded sample_env_simps code]
  have "''000124'' \<noteq> ''000123''" by simp
  from p [THEN conjunct2, THEN conjunct2, THEN conjunct2, THEN conjunct1, rule_format, OF this] obtain m where
    m: "confirmCheckIn ''s1'' ''k2'' ''000124'' sample_env d1 = Inl (BookingDomainError INVALID_CHECK_IN_CODE m)" ..
  from p [THEN conjunct2, THEN conjunct2, THEN conjunct2, THEN conjunct2] obtain b2 d2 where
    "confirmCheckIn ''s1'' ''k2'' ''000123'' sample_env d1 = Inr (b2, d2, [])" "b_status b2 = CHECKED_IN"
    by (elim exE conjE)
  with m r(1) p [THEN conjunct1] show ?thesis by (intro exI conjI)
qed

section \<open>Resources\<close>

theorem offered_slot_iff_bookable_witness:
  "\<exists>sn. findAvailabilitySnapshot ''r2'' ''2026-09-15'' sample_db = Inr (Some sn) \<and>
    \<lparr>s_startTime = hour_text 9, s_endTime = hour_text (9 + 1)\<rparr> \<in>
      set (av_slots (availability_fromResource (sn_resource sn) ''2026-09-15'' (sn_closure sn) (sn_bookings sn) sample_now))"
proof -
  have "case findAvailabilitySnapshot ''r2'' ''2026-09-15'' sample_db of
      Inl e \<Rightarrow> False | Inr x \<Rightarrow> \<not> Option.is_none x" by code_simp
  then obtain sn where sn: "findAvailabilitySnapshot ''r2'' ''2026-09-15'' sample_db = Inr (Some sn)"
    by (auto elim!: outcome_InrE simp: Option.is_none_def)
  have "succeeds (create_booking ''u1'' \<lparr>cb_resourceId = ''r2'', cb_date = ''2026-09-15'',
      cb_startTime = hour_text 9, cb_endTime = hour_text (9 + 1)\<rparr> sample_env sample_db)" by code_simp
  moreover have "date_pattern ''2026-09-15''" by code_simp
  ultimately show ?thesis
    using offered_slot_iff_bookable [OF sample_db_ok sample_known(1) sample_fresh(1) _ sn, of 9] sn by simp
qed

theorem discovery_finds_bookable_witness:
  "\<exists>rows. discover (\<lambda>s. s) (interval_query ''2026-09-16'' 9 11 NAME_ASC 1 9) sample_env sample_db = Inr (rows, 1)"
proof -
  have "length (filter (\<lambda>r. bookable sample_db r \<lparr>cb_resourceId = r_id r, cb_date = ''2026-09-16'',
      cb_startTime = hour_text 9, cb_endTime = hour_text 11\<rparr> sample_now) (resources sample_db)) = 1" by code_simp
  moreover have "date_pattern ''2026-09-16''" "real_date ''2026-09-16''" by code_simp+
  ultimately show ?thesis
    using discovery_finds_bookable [OF sample_db_ok, of "''2026-09-16''" 9 11 sample_env "\<lambda>s. s" NAME_ASC 1 9]
    by (simp add: Let_def)
qed

section \<open>Accounts and sessions\<close>

lemma sample_admin: "sql_uuid ''a1'' = ''a1''"
  by code_simp

theorem managing_accounts_witness:
  "updateRole ''a1'' ''u1'' STAFF sample_env sample_db =
     managed ''a1'' ''u1'' (\<lambda>t. t\<lparr>u_role := STAFF\<rparr>) sample_env sample_db"
  using managing_accounts [OF sample_db_ok sample_admin, of "''u1''" STAFF] by simp

theorem an_administrator_remains_witness:
  "\<exists>u d'. updateRole ''a1'' ''a2'' STUDENT sample_env sample_db = Inr (u, d') \<and> is_active_admin d' ''a1''"
proof -
  have "succeeds (updateRole ''a1'' ''a2'' STUDENT sample_env sample_db)" by code_simp
  then obtain u d' where r: "updateRole ''a1'' ''a2'' STUDENT sample_env sample_db = Inr (u, d')"
    by (auto simp: succeeds_iff)
  then have "is_active_admin d' ''a1''" using an_administrator_remains [OF sample_db_ok sample_admin] by blast
  with r show ?thesis by blast
qed

definition sample_bootstrap :: bootstrap_account_data where
  "sample_bootstrap = \<lparr>ba_email = ''root@usth.edu.vn'', ba_fullName = ''Root'', ba_role = ADMIN, ba_passwordHash = Some ''h''\<rparr>"

text \<open>A reading of lifetimes as the JWT library documents it: a unit text, or milliseconds.\<close>

definition sample_jwt_ms :: "string \<Rightarrow> nat" where
  "sample_jwt_ms s = (case duration_match s of Some (n, m) \<Rightarrow> js_number n * m | None \<Rightarrow> js_number s)"

theorem cookie_round_trip_witness:
  "readCookie Some (Some ''theme=dark; access_token=abc'') ''access_token'' = Some ''abc''"
proof -
  let ?cs = "[(''theme'', ''dark''), (''access_token'', ''abc'')]"
  have "list_all clean_cookie ?cs" by code_simp
  moreover have "cookie_header ?cs = ''theme=dark; access_token=abc''" by simp
  ultimately show ?thesis using cookie_round_trip [of ?cs Some "''access_token''"] by simp
qed

end
