(* ===== verification/SessionProps.thy ===== *)
theory SessionProps
  imports AuthProps
begin

text \<open>
  The properties of sessions: registration and login, what a request needs to pass the guards, and
  that the guards follow the database, not the token.
\<close>

section \<open>Registration and login\<close>

lemma normalize_email_idem [simp]: "normalizeEmailAddress (normalizeEmailAddress s) = normalizeEmailAddress s"
  by (simp add: normalizeEmailAddress_def js_lower_trim)

lemma register_login_valid:
  "register_dto_valid b \<Longrightarrow> login_dto_valid \<lparr>lg_email = rg_email b, lg_password = rg_password b\<rparr>"
  by (simp add: register_dto_valid_def login_dto_valid_def)

lemma register_account_Inr:
  assumes "db_ok d" "register_account hash sign dto e d = Inr (s, d')"
  defines "u \<equiv> new_user \<lparr>cu_email = rg_email dto, cu_passwordHash = hash (rg_password dto),
    cu_fullName = rg_fullName dto, cu_role = Some STUDENT\<rparr> e"
  shows "db_ok d'" "d' = d\<lparr>users := users d @ [u]\<rparr>" "s = createSession sign (clock_after e) u"
    "rg_email dto \<notin> u_email ` set (users d)"
proof -
  have i: "insert_user u d = Inr d'" and s: "s = createSession sign (clock_after e) u"
    using assms(2) unfolding register_account_def create_user_def u_def Let_def
    by (auto split: sum.splits if_splits app_error.splits)
  show "s = createSession sign (clock_after e) u" by (rule s)
  note k = insert_user_keeps [OF assms(1) i]
  show "db_ok d'" "d' = d\<lparr>users := users d @ [u]\<rparr>" by (rule k)+
  show "rg_email dto \<notin> u_email ` set (users d)"
    using k(3) by (auto simp: user_violation_def u_def split: if_splits)
qed

text \<open>A login succeeds exactly for the right password of an active account; an unknown address, a
wrong password and a deactivated account all get the very same answer, and a password is compared with
some hash in every case.\<close>

lemma login_exactly:
  assumes "login_dto_valid (normalize_login body)"
  shows "auth_login compare dummyHash sign config body now d =
    (case row_at u_email (normalizeEmailAddress (lg_email body)) (users d) of
       Some u \<Rightarrow>
         if u_isActive u \<and> compare (lg_password body) (u_passwordHash u)
         then Inr (issueSession config (createSession sign now u))
         else Inl (HttpException 401 None ''Invalid email or password'')
     | None \<Rightarrow> Inl (HttpException 401 None ''Invalid email or password''))"
proof -
  have "lg_email (normalize_login body) = normalizeEmailAddress (lg_email body)"
    "lg_password (normalize_login body) = lg_password body"
    by (simp_all add: normalize_login_def)
  with assms show ?thesis
    by (auto simp: auth_login_def Let_def login_account_def findByEmailWithPassword_def password_compare_def
        split: option.splits)
qed

section \<open>The guards\<close>

definition route_roles :: "route \<Rightarrow> user_role list" where
  "route_roles rt = (case getAllAndOverride (rt_handler_roles rt) (rt_class_roles rt) of None \<Rightarrow> [] | Some rs \<Rightarrow> rs)"

definition route_is_public :: "route \<Rightarrow> bool" where
  "route_is_public rt \<longleftrightarrow> rt_public rt = Some True"

lemma RolesGuard_cases:
  "RolesGuard rt user =
    (if route_roles rt = [] \<or> (\<exists>u. user = Some u \<and> u_role u \<in> set (route_roles rt)) then Inr user
     else Inl (HttpException 403 None ''You do not have permission to access this resource''))"
  by (auto simp: RolesGuard_def route_roles_def split: option.splits)

lemma public_guarded:
  "route_is_public rt \<Longrightarrow> guarded verify config rt cookies d = RolesGuard rt None"
  by (simp add: guarded_def JwtAuthGuard_def route_is_public_def getAllAndOverride_def)

lemma private_guarded:
  "\<not> route_is_public rt \<Longrightarrow> guarded verify config rt cookies d =
    (case jwt_authenticate verify config cookies d of Inl err \<Rightarrow> Inl err | Inr u \<Rightarrow> RolesGuard rt (Some u))"
  by (auto simp: guarded_def JwtAuthGuard_def route_is_public_def getAllAndOverride_def split: option.splits sum.splits)

lemma jwt_authenticate_Inr:
  "jwt_authenticate verify config cookies d = Inr u \<longleftrightarrow>
    (\<exists>token p. cookies (ac_cookieName config) = Some token \<and> verify token = Some p \<and>
      row_at u_id (sql_uuid (jp_sub p)) (users d) = Some u \<and> u_isActive u)"
  by (auto simp: jwt_authenticate_def jwt_validate_def findUserById_def split: option.splits)

lemma jwt_authenticate_Inl: "jwt_authenticate verify config cookies d = Inl err \<Longrightarrow> http_status err = 401"
  by (auto simp: jwt_authenticate_def jwt_validate_def split: option.splits if_splits)

lemma guarded_Inr:
  assumes "\<not> route_is_public rt" "guarded verify config rt cookies d = Inr user"
  obtains u token p where "user = Some u" "cookies (ac_cookieName config) = Some token" "verify token = Some p"
    "row_at u_id (sql_uuid (jp_sub p)) (users d) = Some u" "u_isActive u"
    "route_roles rt = [] \<or> u_role u \<in> set (route_roles rt)"
  using assms jwt_authenticate_Inr [of verify config cookies d]
  by (auto simp: private_guarded RolesGuard_cases split: sum.splits if_splits)

text \<open>C11: A request reaches the handler of a route that is not public exactly when its cookie holds a
token the library verifies, whose subject is the identifier of an account that is in the database now,
is active now, and has now one of the roles the route asks for, and that account is the one the handler
sees; without such a token the answer is 401, and with one but the wrong role 403.\<close>

theorem guards_follow_database:
  assumes "\<not> route_is_public rt"
  shows "(guarded verify config rt cookies d = Inr (Some u) \<longleftrightarrow>
      (\<exists>token p. cookies (ac_cookieName config) = Some token \<and> verify token = Some p \<and>
        row_at u_id (sql_uuid (jp_sub p)) (users d) = Some u \<and> u_isActive u \<and>
        (route_roles rt = [] \<or> u_role u \<in> set (route_roles rt)))) \<and>
    guarded verify config rt cookies d \<noteq> Inr None \<and>
    (\<forall>err. guarded verify config rt cookies d = Inl err \<longrightarrow>
       http_status err = (if succeeds (jwt_authenticate verify config cookies d) then 403 else 401))"
proof (cases "jwt_authenticate verify config cookies d")
  case (Inl e)
  with jwt_authenticate_Inr [of verify config cookies d u] jwt_authenticate_Inl [OF Inl] assms show ?thesis
    by (auto simp: private_guarded)
next
  case (Inr v)
  with jwt_authenticate_Inr [of verify config cookies d] assms show ?thesis
    by (auto simp: private_guarded RolesGuard_cases split: if_splits)
qed

text \<open>C12: As soon as an administrator has deactivated an account, every request with a token of that
account is refused with 401 on every route that is not public, however long the token is still valid;
and after a change of role the routes of the old role answer 403 at once.\<close>

theorem access_changes_bite:
  assumes "db_ok d" "sql_uuid actor = actor" "\<not> route_is_public rt"
    "cookies (ac_cookieName config) = Some token" "verify token = Some p" "sql_uuid (jp_sub p) = k"
  shows "(updateStatus_user actor k False e d = Inr (u, d', evs) \<longrightarrow>
      (\<exists>err. guarded verify config rt cookies d' = Inl err \<and> http_status err = 401)) \<and>
    (updateRole actor k role e d = Inr (u, d') \<and> u_isActive u \<and>
        route_roles rt \<noteq> [] \<and> role \<notin> set (route_roles rt) \<longrightarrow>
      (\<exists>err. guarded verify config rt cookies d' = Inl err \<and> http_status err = 403))"
proof (intro conjI impI)
  assume s: "updateStatus_user actor k False e d = Inr (u, d', evs)"
  note r = updateStatus_Inr [OF assms(1,2) s]
  have "\<not> u_isActive x" if "row_at u_id k (users d') = Some x" for x
    using that r(3,4) by (auto dest!: row_at_SomeD simp: set_patch_row split: if_splits)
  then have "\<not> succeeds (jwt_authenticate verify config cookies d')"
    using assms(4-6) by (auto simp: succeeds_iff jwt_authenticate_Inr)
  then obtain err where "jwt_authenticate verify config cookies d' = Inl err" by (auto simp: not_succeeds_iff)
  then show "\<exists>err. guarded verify config rt cookies d' = Inl err \<and> http_status err = 401"
    using assms(3) jwt_authenticate_Inl by (auto simp: private_guarded)
next
  assume a: "updateRole actor k role e d = Inr (u, d') \<and> u_isActive u \<and> route_roles rt \<noteq> [] \<and>
    role \<notin> set (route_roles rt)"
  then have u: "updateRole actor k role e d = Inr (u, d')" by simp
  note r = updateRole_Inr [OF assms(1,2) u]
  obtain t where t: "row_at u_id k (users d) = Some t" "u_role u = role"
    using managed_Inr [OF assms(1) u [unfolded updateRole_managed [OF assms(1,2)]] access_updates(1)] by force
  have "row_at u_id k (users d') = Some u"
  proof -
    have "t \<in> set (users d)" "u_id t = k" using t(1) by (auto dest: row_at_SomeD)
    then have "u \<in> set (users d')" "u_id u = k" using r(3) by (auto simp: set_patch_row)
    then show ?thesis using user_row [OF r(1)] by blast
  qed
  then have "jwt_authenticate verify config cookies d' = Inr u"
    using a assms(4-6) by (auto simp: jwt_authenticate_Inr)
  then show "\<exists>err. guarded verify config rt cookies d' = Inl err \<and> http_status err = 403"
    using a t(2) assms(3) by (auto simp: private_guarded RolesGuard_cases)
qed

section \<open>Registration, then login\<close>

lemma student_route: "\<not> route_is_public student_bookings_route" "route_roles student_bookings_route = [STUDENT]"
  by code_simp+

text \<open>C13: Who has just registered can log in (auth.service.ts, register and login): registration stores one new, active
student account under the normalised address; a login with that address, typed as it was, and that password answers
at any later instant with the same account and sets the session cookie to a fresh token of it, and any password that does not match the
stored hash is refused with 401; while the library accepts that token, a request that sends the cookie back passes the guards
of the student's routes as that account.\<close>

theorem register_then_login:
  assumes "db_ok d" "\<And>p. compare p (hash p)" "sql_uuid (fresh_id e) = fresh_id e"
    "auth_register hash sign config body e d = Inr ((answer_body, cookie), d')"
    and token: "token = sign now \<lparr>jp_sub = us_id answer_body, jp_email = us_email answer_body, jp_role = STUDENT\<rparr>"
    and accepted: "verify token = Some p" "jp_sub p = us_id answer_body"
  shows "db_ok d' \<and> us_email answer_body = normalizeEmailAddress (rg_email body) \<and>
    (\<exists>u. d' = d\<lparr>users := users d @ [u]\<rparr> \<and> user_response_fromEntity u = answer_body \<and> u_role u = STUDENT \<and> u_isActive u \<and>
       guarded verify config student_bookings_route [ac_cookieName config \<mapsto> token] d' = Inr (Some u)) \<and>
    auth_login compare dummyHash sign config \<lparr>lg_email = rg_email body, lg_password = rg_password body\<rparr> now d' =
      Inr (answer_body, SetCookie (ac_cookieName config) token (ac_cookie config)) \<and>
    (\<forall>wrong. login_dto_valid \<lparr>lg_email = normalizeEmailAddress (rg_email body), lg_password = wrong\<rparr> \<and>
       \<not> compare wrong (hash (rg_password body)) \<longrightarrow>
       auth_login compare dummyHash sign config \<lparr>lg_email = rg_email body, lg_password = wrong\<rparr> now d' =
         Inl (HttpException 401 None ''Invalid email or password''))"
proof -
  let ?dto = "normalize_register body"
  let ?mail = "normalizeEmailAddress (rg_email body)"
  have v: "register_dto_valid ?dto"
    using assms(4) by (auto simp: auth_register_def Let_def split: if_splits)
  obtain s where r: "register_account hash sign ?dto e d = Inr (s, d')" and c: "(answer_body, cookie) = issueSession config s"
    using assms(4) v by (auto simp: auth_register_def Let_def split: sum.splits)
  note k = register_account_Inr [OF assms(1) r]
  define u where "u = new_user \<lparr>cu_email = rg_email ?dto, cu_passwordHash = hash (rg_password ?dto),
    cu_fullName = rg_fullName ?dto, cu_role = Some STUDENT\<rparr> e"
  have mail: "rg_email ?dto = ?mail" "rg_password ?dto = rg_password body" "normalizeEmailAddress ?mail = ?mail"
    by (simp_all add: normalize_register_def normalizeEmailAddress_def js_lower_trim)
  have u: "u_email u = ?mail" "u_passwordHash u = hash (rg_password body)" "u_role u = STUDENT" "u_isActive u" "u_id u = fresh_id e"
    by (simp_all add: u_def new_user_def mail)
  have d': "d' = d\<lparr>users := users d @ [u]\<rparr>" "db_ok d'" using k(1,2) by (simp_all add: u_def)
  have body: "answer_body = user_response_fromEntity u"
    using c k(3) by (simp add: issueSession_def createSession_def u_def)
  have "row_at u_email ?mail (users d) = None" using k(4) by (simp add: row_at_None mail)
  then have found: "row_at u_email ?mail (users d') = Some u" by (simp add: d'(1) row_at_append u(1))
  have payload: "token = sign now (access_payload u)"
    using u by (simp add: token body user_response_fromEntity_def access_payload_def)
  have normal: "normalize_login \<lparr>lg_email = rg_email body, lg_password = w\<rparr> = \<lparr>lg_email = ?mail, lg_password = w\<rparr>" for w
    by (simp add: normalize_login_def)
  have "login_dto_valid \<lparr>lg_email = ?mail, lg_password = rg_password body\<rparr>"
    using register_login_valid [OF v] by (simp add: mail)
  then have login: "auth_login compare dummyHash sign config \<lparr>lg_email = rg_email body, lg_password = rg_password body\<rparr> now d' =
      Inr (answer_body, SetCookie (ac_cookieName config) token (ac_cookie config))"
    using login_exactly [of "\<lparr>lg_email = rg_email body, lg_password = rg_password body\<rparr>"] found u assms(2) [of "rg_password body"]
    by (simp add: normal issueSession_def createSession_def auth_cookie_set_def payload body)
  have wrong: "auth_login compare dummyHash sign config \<lparr>lg_email = rg_email body, lg_password = w\<rparr> now d' =
      Inl (HttpException 401 None ''Invalid email or password'')"
    if "login_dto_valid \<lparr>lg_email = ?mail, lg_password = w\<rparr>" "\<not> compare w (hash (rg_password body))" for w
    using login_exactly [of "\<lparr>lg_email = rg_email body, lg_password = w\<rparr>"] found u that by (simp add: normal)
  have "row_at u_id (fresh_id e) (users d') = Some u"
  proof -
    have "distinct (map u_id (users d'))" using d'(2) by (auto simp: db_ok_def table_inv_def)
    then show ?thesis using d'(1) u(5) by (simp add: row_at_Some_iff)
  qed
  moreover have "jp_sub p = fresh_id e" using accepted(2) u(5) by (simp add: body user_response_fromEntity_def)
  ultimately have "guarded verify config student_bookings_route [ac_cookieName config \<mapsto> token] d' = Inr (Some u)"
    using accepted(1) u(3,4) assms(3) jwt_authenticate_Inr [of verify config "[ac_cookieName config \<mapsto> token]" d' u]
    by (simp add: private_guarded RolesGuard_cases student_route)
  then show ?thesis using d' u body login wrong by (auto simp: user_response_fromEntity_def)
qed

section \<open>Registration answers\<close>

text \<open>Registering never ends in an internal error: the answer is the new session, 400 for an
invalid body, or 409 for an address that has an account.\<close>

lemma register_answers:
  assumes "fresh_id e \<notin> ids u_id (users d)" "\<And>p. pg_varchar 72 (hash p)"
  shows "answered_with {400, 409} (auth_register hash sign config body e d)"
proof -
  let ?dto = "normalize_register body"
  show ?thesis
  proof (cases "register_dto_valid ?dto")
    case False
    then show ?thesis by (simp add: auth_register_def Let_def answered_with_def)
  next
    case True
    let ?u = "new_user \<lparr>cu_email = rg_email ?dto, cu_passwordHash = hash (rg_password ?dto),
      cu_fullName = rg_fullName ?dto, cu_role = Some STUDENT\<rparr> e"
    have typed: "user_typed ?u"
      using True assms(2) by (simp add: user_typed_def new_user_def register_dto_valid_def email_valid_def pg_varchar_def)
    have "insert_user ?u d =
        (if rg_email ?dto \<in> u_email ` set (users d) then Inl (QueryFailedError ''23505'' ''IDX_users_email'')
         else Inr (d\<lparr>users := users d @ [?u]\<rparr>))"
      using typed assms(1) by (simp add: insert_user_def insert_row_def user_violation_def)
    then show ?thesis
      using True by (simp add: auth_register_def Let_def answered_with_def register_account_def create_user_def
          isEmailUniqueConstraintViolation_def)
  qed
qed

end
