(* ===== verification/AccessWitnesses.thy ===== *)
theory AccessWitnesses
  imports Witnesses SessionProps
begin

text \<open>
  The properties of sessions applied to concrete inputs: a configuration, a password hash and tokens
  that carry the account, on the sample campus.
\<close>

definition sample_config :: auth_config where
  "sample_config = \<lparr>ac_expiresIn = ''1d'', ac_cookieName = ''access_token'',
     ac_cookie = \<lparr>co_maxAge = Some 5, co_httpOnly = True, co_secure = False, co_sameSite = ''lax'',
       co_path = ''/'', co_domain = None\<rparr>\<rparr>"

definition sample_hash :: "string \<Rightarrow> string" where
  "sample_hash p = ''hash:'' @ filter (\<lambda>c. c \<noteq> CHR 0x00) (take 60 p)"

definition sample_compare :: "string \<Rightarrow> string \<Rightarrow> bool" where
  "sample_compare p h \<longleftrightarrow> h = sample_hash p"

definition sample_register :: register_dto where
  "sample_register = \<lparr>rg_email = '' Linh@USTH.edu.vn'', rg_password = ''long enough'', rg_fullName = ''Linh''\<rparr>"

definition sample_verify :: "string \<Rightarrow> jwt_payload_timed option" where
  "sample_verify token =
     Some \<lparr>jp_sub = token, jp_email = ''nam@usth.edu.vn'', jp_role = STUDENT, jp_iat = 0, jp_exp = 86400\<rparr>"

text \<open>A token that starts with the last bit of the second it was signed in, before the account, and a reader of such tokens.\<close>

definition sample_sign :: "int \<Rightarrow> jwt_payload \<Rightarrow> string" where
  "sample_sign now p = (if even (now div 1000) then ''0.'' else ''1.'') @ jp_sub p"

definition dated_verify :: "string \<Rightarrow> jwt_payload_timed option" where
  "dated_verify token =
     Some \<lparr>jp_sub = drop 2 token, jp_email = ''linh@usth.edu.vn'', jp_role = STUDENT,
       jp_iat = 0, jp_exp = 86400\<rparr>"

theorem register_then_login_witness:
  "\<exists>answer_body cookie d' u.
     auth_register sample_hash sample_sign sample_config sample_register sample_env sample_db = Inr ((answer_body, cookie), d') \<and>
     auth_login sample_compare ''dummy'' sample_sign sample_config
       \<lparr>lg_email = '' Linh@USTH.edu.vn'', lg_password = ''long enough''\<rparr> 1789350661000 d' =
       Inr (answer_body, SetCookie ''access_token'' ''1.n1'' (ac_cookie sample_config)) \<and>
     auth_login sample_compare ''dummy'' sample_sign sample_config
       \<lparr>lg_email = '' Linh@USTH.edu.vn'', lg_password = ''quite wrong''\<rparr> 1789350661000 d' =
       Inl (HttpException 401 None ''Invalid email or password'') \<and>
     guarded dated_verify sample_config student_bookings_route [''access_token'' \<mapsto> ''1.n1''] d' = Inr (Some u) \<and>
     u_email u = ''linh@usth.edu.vn''"
proof -
  have "succeeds (auth_register sample_hash sample_sign sample_config sample_register sample_env sample_db)" by code_simp
  then obtain answer_body cookie d' where
    r: "auth_register sample_hash sample_sign sample_config sample_register sample_env sample_db = Inr ((answer_body, cookie), d')"
    by (auto simp: succeeds_iff)
  have "map_sum id (\<lambda>t. us_id (fst (fst t))) (auth_register sample_hash sample_sign sample_config sample_register sample_env sample_db)
    = Inr ''n1''" by code_simp
  then have id: "us_id answer_body = ''n1''" by (simp add: r)
  have compare: "\<And>p. sample_compare p (sample_hash p)" by (simp add: sample_compare_def)
  have fresh: "sql_uuid (fresh_id sample_env) = fresh_id sample_env" by code_simp
  have token: "''1.n1'' = sample_sign 1789350661000 \<lparr>jp_sub = us_id answer_body, jp_email = us_email answer_body, jp_role = STUDENT\<rparr>"
    by (simp add: id sample_sign_def)
  have read: "dated_verify ''1.n1'' = Some \<lparr>jp_sub = ''n1'', jp_email = ''linh@usth.edu.vn'', jp_role = STUDENT,
      jp_iat = 0, jp_exp = 86400\<rparr>" by code_simp
  have wrong: "login_dto_valid \<lparr>lg_email = normalizeEmailAddress (rg_email sample_register), lg_password = ''quite wrong''\<rparr>"
    "\<not> sample_compare ''quite wrong'' (sample_hash (rg_password sample_register))"
    "normalizeEmailAddress (rg_email sample_register) = ''linh@usth.edu.vn''" by code_simp+
  have names: "rg_email sample_register = '' Linh@USTH.edu.vn''" "rg_password sample_register = ''long enough''"
    "ac_cookieName sample_config = ''access_token''" by (simp_all add: sample_register_def sample_config_def)
  note login = register_then_login [where dummyHash = "''dummy''" and compare = sample_compare and hash = sample_hash and
      sign = sample_sign and now = 1789350661000 and verify = dated_verify and token = "''1.n1''", OF sample_db_ok compare fresh r token read, simplified id, simplified]
  obtain u where u: "guarded dated_verify sample_config student_bookings_route [''access_token'' \<mapsto> ''1.n1''] d' = Inr (Some u)"
    "user_response_fromEntity u = answer_body" using login names(3) by auto
  from u(2) login wrong(3) have "u_email u = ''linh@usth.edu.vn''" by (auto simp: user_response_fromEntity_def)
  with r u(1) login wrong names show ?thesis by auto
qed

lemma sample_student: "row_at u_id ''u1'' (users sample_db) = Some (person ''u1'' ''nam@usth.edu.vn'' STUDENT True)"
  by code_simp

lemma sample_token:
  "sql_uuid (jp_sub \<lparr>jp_sub = ''u1'', jp_email = ''nam@usth.edu.vn'', jp_role = STUDENT, jp_iat = 0, jp_exp = 86400\<rparr>) = ''u1''"
  by code_simp

theorem guards_follow_database_witness:
  "guarded sample_verify sample_config student_bookings_route [''access_token'' \<mapsto> ''u1''] sample_db =
    Inr (Some (person ''u1'' ''nam@usth.edu.vn'' STUDENT True))"
proof -
  let ?u = "person ''u1'' ''nam@usth.edu.vn'' STUDENT True"
  have "\<not> route_is_public student_bookings_route" "route_roles student_bookings_route = [STUDENT]"
    "u_isActive ?u" "u_role ?u = STUDENT" "ac_cookieName sample_config = ''access_token''" by code_simp+
  then show ?thesis
    using guards_follow_database [of student_bookings_route sample_verify sample_config "[''access_token'' \<mapsto> ''u1'']" sample_db ?u]
      sample_student sample_token
    by (simp add: sample_verify_def)
qed

theorem access_changes_bite_witness:
  "\<exists>u d' evs err. updateStatus_user ''a1'' ''u1'' False sample_env sample_db = Inr (u, d', evs) \<and>
     guarded sample_verify sample_config student_bookings_route [''access_token'' \<mapsto> ''u1''] d' = Inl err \<and>
     http_status err = 401"
proof -
  have "succeeds (updateStatus_user ''a1'' ''u1'' False sample_env sample_db)" by code_simp
  then obtain u d' evs where r: "updateStatus_user ''a1'' ''u1'' False sample_env sample_db = Inr (u, d', evs)"
    by (auto simp: succeeds_iff)
  have "\<not> route_is_public student_bookings_route" by code_simp
  moreover have "[''access_token'' \<mapsto> ''u1''] (ac_cookieName sample_config) = Some ''u1''" by (simp add: sample_config_def)
  ultimately show ?thesis
    using access_changes_bite [of sample_db "''a1''" student_bookings_route "[''access_token'' \<mapsto> ''u1'']" sample_config
        "''u1''" sample_verify, OF sample_db_ok sample_admin _ _ sample_verify_def sample_token] r by blast
qed

end
