(* ===== verification/Service.thy ===== *)
theory Service
  imports ResourceApi Auth
begin

text \<open>
  The service as a whole: its state-changing endpoints behind the guards, the startup, and the steps
  of the running system, which are answered requests, restarts and the passing of time. The state is
  the instant and the database; a request that is refused leaves the database as it is.
\<close>

section \<open>Requests and their routes\<close>

datatype request =
  PostRegister register_dto
| PostBooking create_booking_dto
| PatchMyCancel string
| PatchMyCheckIn string
| PatchApprove string
| PatchReject string string
| PatchCheckIn string string
| PatchCheckOut string
| PatchNoShow string
| PostResource create_resource_dto
| PatchResource string update_resource_dto
| PatchResourceStatus string resource_status
| PostClosure string create_closure_dto
| DeleteResourceClosure string string
| PatchUserRole string user_role
| PatchUserStatus string bool

fun request_route :: "request \<Rightarrow> route" where
  "request_route (PostRegister body) = public_route"
| "request_route (PostBooking dto) = student_bookings_route"
| "request_route (PatchMyCancel k) = student_bookings_route"
| "request_route (PatchMyCheckIn k) = student_bookings_route"
| "request_route (PatchApprove k) = staff_bookings_route"
| "request_route (PatchReject k reason) = staff_bookings_route"
| "request_route (PatchCheckIn k code) = staff_bookings_route"
| "request_route (PatchCheckOut k) = staff_bookings_route"
| "request_route (PatchNoShow k) = staff_bookings_route"
| "request_route rq = admin_route"

text \<open>What the service gets from its libraries and its configuration.\<close>

record services =
  sv_hash :: "string \<Rightarrow> string"
  sv_sign :: "int \<Rightarrow> jwt_payload \<Rightarrow> string"
  sv_verify :: "string \<Rightarrow> jwt_payload_timed option"
  sv_isUUID :: "string \<Rightarrow> bool"
  sv_isDateString :: "string \<Rightarrow> bool"
  sv_config :: auth_config
  sv_bootstrap :: bootstrap_config

section \<open>Handlers\<close>

definition committed :: "'a served \<Rightarrow> (db \<times> event list) response" where
  "committed r = map_sum id snd r"

definition handle_student :: "services \<Rightarrow> string \<Rightarrow> request \<Rightarrow> env \<Rightarrow> db \<Rightarrow> (db \<times> event list) response" where
  "handle_student sv u rq e d =
     (case rq of
        PostBooking dto \<Rightarrow>
          if create_booking_dto_valid (sv_isUUID sv) (sv_isDateString sv) dto
          then committed (createBooking u dto e d) else Inl (HttpException 400 None ''booking'')
      | PatchMyCancel k \<Rightarrow> committed (cancelMine (sv_isUUID sv) u k e d)
      | PatchMyCheckIn k \<Rightarrow> committed (requestCheckInMine (sv_isUUID sv) u k e d)
      | _ \<Rightarrow> Inl (HttpException 404 None ''route''))"

definition handle_staff :: "services \<Rightarrow> string \<Rightarrow> request \<Rightarrow> env \<Rightarrow> db \<Rightarrow> (db \<times> event list) response" where
  "handle_staff sv u rq e d =
     (case rq of
        PatchApprove k \<Rightarrow> committed (approveBooking (sv_isUUID sv) u k e d)
      | PatchReject k reason \<Rightarrow> committed (rejectBooking (sv_isUUID sv) u k reason e d)
      | PatchCheckIn k code \<Rightarrow> committed (confirmCheckInBooking (sv_isUUID sv) u k code e d)
      | PatchCheckOut k \<Rightarrow> committed (checkOutBooking (sv_isUUID sv) u k e d)
      | PatchNoShow k \<Rightarrow> committed (markNoShowBooking (sv_isUUID sv) u k e d)
      | _ \<Rightarrow> Inl (HttpException 404 None ''route''))"

definition handle_admin :: "services \<Rightarrow> string \<Rightarrow> request \<Rightarrow> env \<Rightarrow> db \<Rightarrow> (db \<times> event list) response" where
  "handle_admin sv u rq e d =
     (case rq of
        PostResource dto \<Rightarrow> committed (admin_create (sv_isUUID sv) dto e d)
      | PatchResource k dto \<Rightarrow> committed (admin_update (sv_isUUID sv) k dto e d)
      | PatchResourceStatus k st \<Rightarrow> committed (admin_updateStatus (sv_isUUID sv) k st e d)
      | PostClosure k dto \<Rightarrow> committed (admin_createClosure (sv_isUUID sv) (sv_isDateString sv) k dto e d)
      | DeleteResourceClosure k c \<Rightarrow> committed (admin_deleteClosure (sv_isUUID sv) k c e d)
      | PatchUserRole k role \<Rightarrow> committed (admin_updateRole (sv_isUUID sv) u k role e d)
      | PatchUserStatus k active \<Rightarrow> committed (admin_updateUserStatus (sv_isUUID sv) u k active e d)
      | _ \<Rightarrow> Inl (HttpException 404 None ''route''))"

text \<open>
  The one public route that writes is the registration; the others see the user of the guards. The
  guards give a user for every route that is not public, so the case without one does not occur.
\<close>

definition handle :: "services \<Rightarrow> user option \<Rightarrow> request \<Rightarrow> env \<Rightarrow> db \<Rightarrow> (db \<times> event list) response" where
  "handle sv user rq e d =
     (case (rq, user) of
        (PostRegister body, _) \<Rightarrow>
          map_sum id (\<lambda>(answer_body, d'). (d', [])) (auth_register (sv_hash sv) (sv_sign sv) (sv_config sv) body e d)
      | (_, None) \<Rightarrow> Inl (InternalServerError (QueryFailedError ''TypeError'' ''user''))
      | (_, Some u) \<Rightarrow>
          if rt_class_roles (request_route rq) = Some [STUDENT] then handle_student sv (u_id u) rq e d
          else if rt_class_roles (request_route rq) = Some [STAFF, ADMIN] then handle_staff sv (u_id u) rq e d
          else handle_admin sv (u_id u) rq e d)"

definition serve ::
  "services \<Rightarrow> (string \<Rightarrow> string option) \<Rightarrow> request \<Rightarrow> env \<Rightarrow> db \<Rightarrow> (db \<times> event list) response" where
  "serve sv cookies rq e d =
     (case guarded (sv_verify sv) (sv_config sv) (request_route rq) cookies d of
        Inl err \<Rightarrow> Inl err
      | Inr user \<Rightarrow> handle sv user rq e d)"

section \<open>The running system\<close>

text \<open>
  What a step takes from outside: a clock that does not run backwards, a code below a million, new
  identifiers that no row of the accounts has.
\<close>

definition env_sound :: "int \<Rightarrow> env \<Rightarrow> db \<Rightarrow> bool" where
  "env_sound now e d \<longleftrightarrow>
     now \<le> clock e \<and> campus_era (clock e) \<and> random_int e < 1000000 \<and> fresh_id e \<notin> ids u_id (users d)"

inductive sys_step :: "services \<Rightarrow> int \<times> db \<Rightarrow> int \<times> db \<Rightarrow> bool" for sv where
  answered: "env_sound now e d \<Longrightarrow> serve sv cookies rq e d = Inr (d', evs) \<Longrightarrow>
     sys_step sv (now, d) (clock e, d')"
| restarted: "env_sound now e1 d \<Longrightarrow> env_sound (clock e1) e2 d \<Longrightarrow> fresh_id e1 \<noteq> fresh_id e2 \<Longrightarrow>
     onApplicationBootstrap (sv_hash sv) (sv_bootstrap sv) e1 e2 d = Inr d' \<Longrightarrow>
     sys_step sv (now, d) (clock e2, d')"
| waited: "now \<le> t \<Longrightarrow> campus_era t \<Longrightarrow> sys_step sv (now, d) (t, d)"

inductive_cases sys_stepE: "sys_step sv s s'"

text \<open>The database the migrations leave: two buildings and four resources, with the default schedule.\<close>

definition seeded_buildings :: "building list" where
  "seeded_buildings =
     [\<lparr>bl_id = ''10000000-0000-4000-8000-000000000001'', bl_code = ''MAIN'',
       bl_name = ''Main Academic Building'', bl_address = ''USTH Campus, Hanoi''\<rparr>,
      \<lparr>bl_id = ''10000000-0000-4000-8000-000000000002'', bl_code = ''LAB'',
       bl_name = ''Laboratory Building'', bl_address = ''USTH Campus, Hanoi''\<rparr>]"

definition seeded_resources :: "int \<Rightarrow> resource list" where
  "seeded_resources t =
     [\<lparr>r_id = ''20000000-0000-4000-8000-000000000001'', r_code = ''ROOM-A101'', r_name = ''Study Room A101'',
       r_description = Some ''A group study room for students.'', r_type = ROOM, r_status = ACTIVE, r_capacity = 8,
       r_location = ''First floor'', r_amenities = [''whiteboard'', ''display''], r_requiresApproval = False,
       r_operatingDays = [1, 2, 3, 4, 5, 6], r_opensAt = ''08:00:00'', r_closesAt = ''18:00:00'',
       r_buildingId = ''10000000-0000-4000-8000-000000000001'', r_createdAt = t, r_updatedAt = t\<rparr>,
      \<lparr>r_id = ''20000000-0000-4000-8000-000000000002'', r_code = ''ROOM-A102'', r_name = ''Study Room A102'',
       r_description = Some ''A quiet study room currently under maintenance.'', r_type = ROOM,
       r_status = MAINTENANCE, r_capacity = 6,
       r_location = ''First floor'', r_amenities = [''whiteboard''], r_requiresApproval = False,
       r_operatingDays = [1, 2, 3, 4, 5, 6], r_opensAt = ''08:00:00'', r_closesAt = ''18:00:00'',
       r_buildingId = ''10000000-0000-4000-8000-000000000001'', r_createdAt = t, r_updatedAt = t\<rparr>,
      \<lparr>r_id = ''20000000-0000-4000-8000-000000000003'', r_code = ''LAB-L201'', r_name = ''Teaching Laboratory L201'',
       r_description = Some ''A supervised laboratory for scheduled practical sessions.'', r_type = LABORATORY,
       r_status = ACTIVE, r_capacity = 24,
       r_location = ''Second floor'', r_amenities = [''workstations'', ''projector''], r_requiresApproval = True,
       r_operatingDays = [1, 2, 3, 4, 5, 6], r_opensAt = ''08:00:00'', r_closesAt = ''18:00:00'',
       r_buildingId = ''10000000-0000-4000-8000-000000000002'', r_createdAt = t, r_updatedAt = t\<rparr>,
      \<lparr>r_id = ''20000000-0000-4000-8000-000000000004'', r_code = ''EQUIP-PROJ-01'', r_name = ''Portable Projector 01'',
       r_description = Some ''A portable projector available from the equipment desk.'', r_type = EQUIPMENT,
       r_status = ACTIVE, r_capacity = 1,
       r_location = ''Equipment desk'', r_amenities = [''hdmi-cable'', ''carry-case''], r_requiresApproval = True,
       r_operatingDays = [1, 2, 3, 4, 5, 6], r_opensAt = ''08:00:00'', r_closesAt = ''18:00:00'',
       r_buildingId = ''10000000-0000-4000-8000-000000000001'', r_createdAt = t, r_updatedAt = t\<rparr>]"

definition seeded_db :: "int \<Rightarrow> db" where
  "seeded_db t = \<lparr>users = [], buildings = seeded_buildings, resources = seeded_resources t, closures = [], bookings = []\<rparr>"

text \<open>The states of a system that started on that database.\<close>

definition reachable :: "services \<Rightarrow> int \<times> db \<Rightarrow> bool" where
  "reachable sv s \<longleftrightarrow> (\<exists>t t0. campus_era t \<and> (sys_step sv)\<^sup>*\<^sup>* (t, seeded_db t0) s)"

end
