(* ===== verification/Events.thy ===== *)
theory Events
  imports Service
begin

text \<open>
  Real-time notifications (src/web-backend/src/events): the WebSocket gateway, its rooms, the expiry
  timers and the disconnection of deactivated accounts, and the service that emits the notifications.
  Of socket.io the model has what the gateway uses: the connected sockets, each with its set of rooms
  (its own identifier is one of them), disconnecting a socket, and emitting to rooms.
\<close>

section \<open>State\<close>

record socket =
  sk_id :: string
  sk_rooms :: "string list"
  sk_userId :: "string option"

text \<open>
  The connected sockets, the timers with the instants they are due at, and the connections whose
  handler has read the account and has yet to go on: socket, account and expiry of the token.
\<close>

record gateway =
  gw_sockets :: "socket list"
  gw_timers :: "(string \<times> int) list"
  gw_pending :: "(string \<times> string \<times> int) list"

definition MAX_AVAILABILITY_ROOMS_PER_SOCKET :: nat where
  "MAX_AVAILABILITY_ROOMS_PER_SOCKET = 20"

definition MAX_DASHBOARD_ROOMS_PER_SOCKET :: nat where
  "MAX_DASHBOARD_ROOMS_PER_SOCKET = 20"

definition MAX_TIMER_DELAY_MS :: int where
  "MAX_TIMER_DELAY_MS = 2147483647"

definition AVAILABILITY_ROOM_PREFIX :: string where
  "AVAILABILITY_ROOM_PREFIX = ''availability:''"

definition DASHBOARD_ROOM_PREFIX :: string where
  "DASHBOARD_ROOM_PREFIX = ''dashboard:availability:''"

definition userRoom :: "string \<Rightarrow> string" where
  "userRoom userId = ''user:'' @ userId"

section \<open>Sockets\<close>

definition connected :: "string \<Rightarrow> gateway \<Rightarrow> bool" where
  "connected sid gw \<longleftrightarrow> sid \<in> sk_id ` set (gw_sockets gw)"

definition patch_socket :: "string \<Rightarrow> (socket \<Rightarrow> socket) \<Rightarrow> gateway \<Rightarrow> gateway" where
  "patch_socket sid f gw = gw\<lparr>gw_sockets := patch_row sk_id sid f (gw_sockets gw)\<rparr>"

definition join_room :: "string \<Rightarrow> socket \<Rightarrow> socket" where
  "join_room room s = (if room \<in> set (sk_rooms s) then s else s\<lparr>sk_rooms := sk_rooms s @ [room]\<rparr>)"

definition leave_room :: "string \<Rightarrow> socket \<Rightarrow> socket" where
  "leave_room room s = s\<lparr>sk_rooms := removeAll room (sk_rooms s)\<rparr>"

definition clearExpiry :: "string \<Rightarrow> gateway \<Rightarrow> gateway" where
  "clearExpiry sid gw = gw\<lparr>gw_timers := filter (\<lambda>t. fst t \<noteq> sid) (gw_timers gw)\<rparr>"

definition handleDisconnect :: "string \<Rightarrow> gateway \<Rightarrow> gateway" where
  "handleDisconnect sid gw = clearExpiry sid gw"

text \<open>Disconnecting a socket runs the handler; a socket that is gone already stays gone.\<close>

definition disconnect :: "string \<Rightarrow> gateway \<Rightarrow> gateway" where
  "disconnect sid gw =
     (if connected sid gw
      then handleDisconnect sid (gw\<lparr>gw_sockets := filter (\<lambda>s. sk_id s \<noteq> sid) (gw_sockets gw)\<rparr>)
      else gw)"

definition scheduleExpiry :: "string \<Rightarrow> int option \<Rightarrow> int \<Rightarrow> gateway \<Rightarrow> gateway" where
  "scheduleExpiry sid exp now gw =
     (let cleared = clearExpiry sid gw in
      case exp of
        None \<Rightarrow> cleared
      | Some x \<Rightarrow>
          (let delay = max 0 (x * 1000 - now)
           in cleared\<lparr>gw_timers := gw_timers cleared @ [(sid, now + min delay MAX_TIMER_DELAY_MS)]\<rparr>))"

section \<open>Connections\<close>

text \<open>Up to the answer of the database; None is the disconnection.\<close>

definition connect_check ::
  "(string \<Rightarrow> string option) \<Rightarrow> services \<Rightarrow> string option \<Rightarrow> db \<Rightarrow> (string \<times> int) option" where
  "connect_check decode sv header d =
     (case truthy (readCookie decode header (ac_cookieName (sv_config sv))) of
        None \<Rightarrow> None
      | Some rawToken \<Rightarrow>
          (case sv_verify sv rawToken of
             None \<Rightarrow> None
           | Some payload \<Rightarrow>
               (case findUserById (jp_sub payload) d of
                  None \<Rightarrow> None
                | Some u \<Rightarrow> if \<not> u_isActive u then None else Some (u_id u, jp_exp payload))))"

text \<open>After it: the socket joins the room of its user, and its expiry is scheduled.\<close>

definition connect_join :: "string \<Rightarrow> string \<Rightarrow> int \<Rightarrow> int \<Rightarrow> gateway \<Rightarrow> gateway" where
  "connect_join sid userId exp now gw =
     scheduleExpiry sid (Some exp) now
       (patch_socket sid (\<lambda>s. join_room (userRoom userId) (s\<lparr>sk_userId := Some userId\<rparr>)) gw)"

text \<open>\<open>server.in(room).disconnectSockets(true)\<close>\<close>

definition disconnectUser :: "string \<Rightarrow> gateway \<Rightarrow> gateway" where
  "disconnectUser userId gw =
     fold disconnect (map sk_id (filter (\<lambda>s. userRoom userId \<in> set (sk_rooms s)) (gw_sockets gw))) gw"

section \<open>Subscriptions\<close>

text \<open>The body of a message, as far as the handlers look at it.\<close>

datatype json = JUndefined | JNull | JText string | JOther | JObject "(string \<times> json) list"

definition json_member :: "(string \<times> json) list \<Rightarrow> string \<Rightarrow> json" where
  "json_member ms name = (case map_of ms name of None \<Rightarrow> JUndefined | Some v \<Rightarrow> v)"

definition isCalendarDate :: "(string \<Rightarrow> bool) \<Rightarrow> json \<Rightarrow> bool" where
  "isCalendarDate isDateString v = (case v of JText s \<Rightarrow> date_pattern s \<and> isDateString s | _ \<Rightarrow> False)"

definition availabilitySubscription :: "services \<Rightarrow> json \<Rightarrow> (string \<times> string) option" where
  "availabilitySubscription sv payload =
     (case payload of
        JObject ms \<Rightarrow>
          (case (json_member ms ''resourceId'', json_member ms ''date'') of
             (JText resourceId, JText date) \<Rightarrow>
               if \<not> sv_isUUID sv resourceId \<or> \<not> isCalendarDate (sv_isDateString sv) (JText date) then None
               else Some (resourceId, date)
           | _ \<Rightarrow> None)
      | _ \<Rightarrow> None)"

definition dashboardDate :: "services \<Rightarrow> json \<Rightarrow> string option" where
  "dashboardDate sv payload =
     (case payload of
        JObject ms \<Rightarrow>
          (case json_member ms ''date'' of
             JText date \<Rightarrow> if isCalendarDate (sv_isDateString sv) (JText date) then Some date else None
           | _ \<Rightarrow> None)
      | _ \<Rightarrow> None)"

definition joinCapped :: "string \<Rightarrow> string \<Rightarrow> string \<Rightarrow> nat \<Rightarrow> gateway \<Rightarrow> gateway" where
  "joinCapped sid room pfx limit gw =
     (case row_at sk_id sid (gw_sockets gw) of
        None \<Rightarrow> gw
      | Some client \<Rightarrow>
          if room \<in> set (sk_rooms client) then gw
          else
            let joined = length (filter (\<lambda>existing. js_startsWith existing pfx) (sk_rooms client)) in
            if joined \<ge> limit then gw else patch_socket sid (join_room room) gw)"

definition availability_room :: "string \<Rightarrow> string \<Rightarrow> string" where
  "availability_room resourceId date = AVAILABILITY_ROOM_PREFIX @ resourceId @ '':'' @ date"

definition dashboard_room :: "string \<Rightarrow> string" where
  "dashboard_room date = DASHBOARD_ROOM_PREFIX @ date"

definition handleJoinAvailability :: "services \<Rightarrow> string \<Rightarrow> json \<Rightarrow> gateway \<Rightarrow> gateway" where
  "handleJoinAvailability sv sid payload gw =
     (case availabilitySubscription sv payload of
        None \<Rightarrow> gw
      | Some (resourceId, date) \<Rightarrow>
          joinCapped sid (availability_room resourceId date) AVAILABILITY_ROOM_PREFIX
            MAX_AVAILABILITY_ROOMS_PER_SOCKET gw)"

definition handleLeaveAvailability :: "services \<Rightarrow> string \<Rightarrow> json \<Rightarrow> gateway \<Rightarrow> gateway" where
  "handleLeaveAvailability sv sid payload gw =
     (case availabilitySubscription sv payload of
        None \<Rightarrow> gw
      | Some (resourceId, date) \<Rightarrow> patch_socket sid (leave_room (availability_room resourceId date)) gw)"

definition handleJoinDashboard :: "services \<Rightarrow> string \<Rightarrow> json \<Rightarrow> gateway \<Rightarrow> gateway" where
  "handleJoinDashboard sv sid payload gw =
     (case dashboardDate sv payload of
        None \<Rightarrow> gw
      | Some date \<Rightarrow>
          joinCapped sid (dashboard_room date) DASHBOARD_ROOM_PREFIX MAX_DASHBOARD_ROOMS_PER_SOCKET gw)"

definition handleLeaveDashboard :: "services \<Rightarrow> string \<Rightarrow> json \<Rightarrow> gateway \<Rightarrow> gateway" where
  "handleLeaveDashboard sv sid payload gw =
     (case dashboardDate sv payload of
        None \<Rightarrow> gw
      | Some date \<Rightarrow> patch_socket sid (leave_room (dashboard_room date)) gw)"

section \<open>Notifications\<close>

text \<open>The rooms a message goes to, None for every socket.\<close>

record message =
  ms_rooms :: "string list option"
  ms_event :: string
  ms_resourceId :: string
  ms_date :: "string option"

definition notifyAvailabilityChanged :: "string \<Rightarrow> string \<Rightarrow> message" where
  "notifyAvailabilityChanged resourceId date =
     \<lparr>ms_rooms = Some [''availability:'' @ resourceId @ '':'' @ date, ''dashboard:availability:'' @ date],
      ms_event = ''availability:changed'', ms_resourceId = resourceId, ms_date = Some date\<rparr>"

definition notifyResourceChanged :: "string \<Rightarrow> message" where
  "notifyResourceChanged resourceId =
     \<lparr>ms_rooms = None, ms_event = ''resource:changed'', ms_resourceId = resourceId, ms_date = None\<rparr>"

text \<open>A socket in several of the rooms gets a message once.\<close>

definition recipients :: "message \<Rightarrow> gateway \<Rightarrow> string list" where
  "recipients m gw =
     map sk_id (filter
       (\<lambda>s. case ms_rooms m of None \<Rightarrow> True | Some rooms \<Rightarrow> \<exists>room\<in>set rooms. room \<in> set (sk_rooms s))
       (gw_sockets gw))"

text \<open>What a request's notifications do: messages are emitted, deactivated users are disconnected.\<close>

fun publish :: "event \<Rightarrow> gateway \<Rightarrow> (message \<times> string list) list \<times> gateway" where
  "publish (AvailabilityChanged k date) gw =
     ([(notifyAvailabilityChanged k date, recipients (notifyAvailabilityChanged k date) gw)], gw)"
| "publish (ResourceChanged k) gw = ([(notifyResourceChanged k, recipients (notifyResourceChanged k) gw)], gw)"
| "publish (UserDeactivated k) gw = ([], disconnectUser k gw)"

fun publish_all :: "event list \<Rightarrow> gateway \<Rightarrow> (message \<times> string list) list \<times> gateway" where
  "publish_all [] gw = ([], gw)"
| "publish_all (ev # evs) gw =
     (let (out, gw1) = publish ev gw; (outs, gw2) = publish_all evs gw1 in (out @ outs, gw2))"

section \<open>What happens at the gateway\<close>

text \<open>
  A connection is handled in two turns, because the handler awaits the database: \<open>Checked\<close> is the
  answer of the database, \<open>Joined\<close> the rest. Anything may happen between the two.
\<close>

datatype gw_event =
  Opened string
| Checked string "string option" db
| Joined string int
| JoinAvailability string json
| LeaveAvailability string json
| JoinDashboard string json
| LeaveDashboard string json
| Closed string
| TimerFired string
| Published event

fun gw_step :: "(string \<Rightarrow> string option) \<Rightarrow> services \<Rightarrow> gw_event \<Rightarrow> gateway \<Rightarrow> gateway" where
  "gw_step decode sv (Opened sid) gw =
     (if connected sid gw then gw
      else gw\<lparr>gw_sockets := gw_sockets gw @ [\<lparr>sk_id = sid, sk_rooms = [sid], sk_userId = None\<rparr>]\<rparr>)"
| "gw_step decode sv (Checked sid header d) gw =
     (case connect_check decode sv header d of
        None \<Rightarrow> disconnect sid gw
      | Some (userId, exp) \<Rightarrow> gw\<lparr>gw_pending := gw_pending gw @ [(sid, userId, exp)]\<rparr>)"
| "gw_step decode sv (Joined sid now) gw =
     (case map_of (gw_pending gw) sid of
        None \<Rightarrow> gw
      | Some (userId, exp) \<Rightarrow>
          connect_join sid userId exp now
            (gw\<lparr>gw_pending := filter (\<lambda>p. fst p \<noteq> sid) (gw_pending gw)\<rparr>))"
| "gw_step decode sv (JoinAvailability sid payload) gw = handleJoinAvailability sv sid payload gw"
| "gw_step decode sv (LeaveAvailability sid payload) gw = handleLeaveAvailability sv sid payload gw"
| "gw_step decode sv (JoinDashboard sid payload) gw = handleJoinDashboard sv sid payload gw"
| "gw_step decode sv (LeaveDashboard sid payload) gw = handleLeaveDashboard sv sid payload gw"
| "gw_step decode sv (Closed sid) gw = disconnect sid gw"
| "gw_step decode sv (TimerFired sid) gw =
     (if sid \<in> fst ` set (gw_timers gw) then disconnect sid (clearExpiry sid gw) else gw)"
| "gw_step decode sv (Published ev) gw = snd (publish ev gw)"

definition gw_run :: "(string \<Rightarrow> string option) \<Rightarrow> services \<Rightarrow> gw_event list \<Rightarrow> gateway \<Rightarrow> gateway" where
  "gw_run decode sv evs gw = fold (gw_step decode sv) evs gw"

definition no_sockets :: gateway where
  "no_sockets = \<lparr>gw_sockets = [], gw_timers = [], gw_pending = []\<rparr>"

end
