(* ===== verification/ServiceProps.thy ===== *)
theory ServiceProps
  imports Service Stranding SessionProps
begin

text \<open>
  What holds of every state the running system reaches: the constraints of the tables, the history of
  the bookings, that no active booking is stranded, and that an active administrator remains; and how
  the bookings move from one state to a later one, and on whose request.
\<close>

section \<open>Invariants of a machine\<close>

text \<open>A property that every step keeps holds in every state reached from one where it holds.\<close>

locale kept =
  fixes step :: "'s \<Rightarrow> 's \<Rightarrow> bool" and inv :: "'s \<Rightarrow> bool"
  assumes keeps: "step s s' \<Longrightarrow> inv s \<Longrightarrow> inv s'"
begin

lemma always: "step\<^sup>*\<^sup>* s s' \<Longrightarrow> inv s \<Longrightarrow> inv s'"
  by (induction rule: rtranclp_induct) (auto intro: keeps)

text \<open>A relation between an earlier and a later state, under the invariant.\<close>

lemma related:
  assumes "step\<^sup>*\<^sup>* s s'" "inv s"
    and start: "P s s" and next_state: "\<And>s1 s2. inv s1 \<Longrightarrow> P s s1 \<Longrightarrow> step s1 s2 \<Longrightarrow> P s s2"
  shows "P s s'"
  using assms(1)
proof (induction rule: rtranclp_induct)
  case base
  show ?case by (rule start)
next
  case (step y z)
  have "inv y" by (rule always [OF step(1) assms(2)])
  then show ?case by (rule next_state [OF _ step(3,2)])
qed

end

section \<open>What an endpoint commits\<close>

lemma committed_Inr: "committed r = Inr (d', evs) \<longleftrightarrow> (\<exists>x. r = Inr (x, d', evs))"
  by (auto simp: committed_def map_sum_Inr_iff)

lemma parse_uuid_Inr: "parse_uuid isUUID k r = Inr x \<longleftrightarrow> isUUID k \<and> r = Inr x"
  by (simp add: parse_uuid_def)

lemma answer_Inr: "answer f body r = Inr (y, d', evs) \<Longrightarrow> \<exists>x. r = Inr (x, d', evs)"
  by (auto simp: answer_def split: sum.splits)

lemma answer_resource_Inr: "answer_resource body r = Inr (y, d', evs) \<Longrightarrow> \<exists>x. r = Inr (x, d', evs)"
  by (auto simp: answer_resource_def split: sum.splits)

lemma with_resource_Inr: "with_resource k d rest = Inr x \<Longrightarrow> \<exists>r. findResourceById k d = Some r \<and> rest r = Inr x"
  by (auto simp: with_resource_def split: option.splits)

lemmas committed_simps = committed_Inr parse_uuid_Inr

text \<open>The operation on a booking a request asks for.\<close>

fun booking_op :: "string \<Rightarrow> request \<Rightarrow> lifecycle_op option" where
  "booking_op u (PatchMyCancel k) = Some (Cancel u k)"
| "booking_op u (PatchMyCheckIn k) = Some (RequestCheckIn u k)"
| "booking_op u (PatchApprove k) = Some (Approve u k)"
| "booking_op u (PatchReject k reason) = Some (Reject u k (js_trim reason))"
| "booking_op u (PatchCheckIn k code) = Some (ConfirmCheckIn u k code)"
| "booking_op u (PatchCheckOut k) = Some (CheckOut u k)"
| "booking_op u (PatchNoShow k) = Some (MarkNoShow u k)"
| "booking_op u rq = None"

text \<open>The requests that are not about an existing booking, and what they change.\<close>

definition other_change ::
  "services \<Rightarrow> string \<Rightarrow> request \<Rightarrow> env \<Rightarrow> db \<Rightarrow> db \<Rightarrow> event list \<Rightarrow> bool" where
  "other_change sv u rq e d d' evs \<longleftrightarrow>
     (case rq of
        PostBooking dto \<Rightarrow> well_formed_request dto \<and> (\<exists>b. create_booking u dto e d = Inr (b, d', evs))
      | PostResource dto \<Rightarrow> \<exists>r. create_resource (normalize_create_resource dto) e d = Inr (r, d', evs)
      | PatchResource k dto \<Rightarrow>
          \<exists>r x. findResourceById k d = Some r \<and> update_resource_details r (normalize_update_resource dto) e d = Inr (x, d', evs)
      | PatchResourceStatus k st \<Rightarrow>
          \<exists>r x. findResourceById k d = Some r \<and> updateStatus_resource r st e d = Inr (x, d', evs)
      | PostClosure k dto \<Rightarrow> \<exists>c. createClosure k (normalize_closure dto) e d = Inr (c, d', evs)
      | DeleteResourceClosure k c \<Rightarrow> \<exists>x. deleteClosure k c e d = Inr (x, d', evs)
      | PatchUserRole k role \<Rightarrow> evs = [] \<and> (\<exists>x. updateRole u k role e d = Inr (x, d'))
      | PatchUserStatus k active \<Rightarrow> \<exists>x. updateStatus_user u k active e d = Inr (x, d', evs)
      | _ \<Rightarrow> False)"

lemma handle_user:
  assumes "handle sv (Some u) rq e d = Inr (d', evs)" "route_is_public (request_route rq) = False"
  shows "case booking_op (u_id u) rq of
      Some op \<Rightarrow> (\<exists>b. run_lifecycle op e d = Inr (b, d', evs)) \<and>
        (case op of Reject _ _ reason \<Rightarrow> rejection_reason_ok reason | _ \<Rightarrow> True)
    | None \<Rightarrow> other_change sv (u_id u) rq e d d' evs"
proof (cases rq)
  case (PostRegister body)
  with assms(2) show ?thesis by (simp add: route_is_public_def public_route_def)
next
  case (PatchUserRole k role)
  with assms(1) show ?thesis
    by (auto simp: handle_def handle_admin_def admin_route_def class_route_def other_change_def committed_simps
        admin_updateRole_def split: sum.splits)
next
  case (PatchUserStatus k active)
  with assms(1) show ?thesis
    by (auto simp: handle_def handle_admin_def admin_route_def class_route_def other_change_def committed_simps
        admin_updateUserStatus_def split: sum.splits)
qed (use assms(1) in \<open>auto simp: handle_def handle_student_def handle_staff_def handle_admin_def
    student_bookings_route_def staff_bookings_route_def admin_route_def class_route_def other_change_def
    committed_simps create_booking_dto_valid_def well_formed_request_def createBooking_def cancelMine_def
    requestCheckInMine_def approveBooking_def rejectBooking_def confirmCheckInBooking_def checkOutBooking_def
    markNoShowBooking_def admin_create_def admin_update_def admin_updateStatus_def admin_createClosure_def
    admin_deleteClosure_def Let_def trimmed_reason_ok
    split: if_splits dest!: answer_Inr answer_resource_Inr with_resource_Inr\<close>)

text \<open>Who the guards let through.\<close>

lemma serve_cases:
  assumes "serve sv cookies rq e d = Inr (d', evs)"
  obtains (registered) body s where "rq = PostRegister body" "evs = []"
      "register_account (sv_hash sv) (sv_sign sv) (normalize_register body) e d = Inr (s, d')"
    | (operated) u op b where "guarded (sv_verify sv) (sv_config sv) (request_route rq) cookies d = Inr (Some u)"
      "u \<in> set (users d)" "u_isActive u" "sql_uuid (u_id u) = u_id u"
      "u_role u \<in> set (route_roles (request_route rq))" "booking_op (u_id u) rq = Some op"
      "run_lifecycle op e d = Inr (b, d', evs)"
      "case op of Reject _ _ reason \<Rightarrow> rejection_reason_ok reason | _ \<Rightarrow> True"
    | (changed) u where "u \<in> set (users d)" "u_isActive u" "sql_uuid (u_id u) = u_id u"
      "u_role u \<in> set (route_roles (request_route rq))" "booking_op (u_id u) rq = None"
      "other_change sv (u_id u) rq e d d' evs"
proof (cases "route_is_public (request_route rq)")
  case True
  then obtain body where rq: "rq = PostRegister body"
    by (cases rq) (auto simp: route_is_public_def student_bookings_route_def staff_bookings_route_def
        admin_route_def class_route_def)
  with assms obtain a where a: "auth_register (sv_hash sv) (sv_sign sv) (sv_config sv) body e d = Inr (a, d')"
    and ev: "evs = []"
    by (auto simp: serve_def handle_def map_sum_Inr_iff split: sum.splits option.splits)
  have "\<exists>s. register_account (sv_hash sv) (sv_sign sv) (normalize_register body) e d = Inr (s, d')"
    using a by (auto simp: auth_register_def Let_def split: sum.splits if_splits)
  then show ?thesis using rq ev by (elim exE) (rule registered)
next
  case False
  then obtain user where g: "guarded (sv_verify sv) (sv_config sv) (request_route rq) cookies d = Inr user"
    and h: "handle sv user rq e d = Inr (d', evs)"
    using assms by (auto simp: serve_def split: sum.splits)
  obtain u token p where u: "user = Some u" and "cookies (ac_cookieName (sv_config sv)) = Some token"
    "sv_verify sv token = Some p" and p: "row_at u_id (sql_uuid (jp_sub p)) (users d) = Some u" "u_isActive u"
    "route_roles (request_route rq) = [] \<or> u_role u \<in> set (route_roles (request_route rq))"
    using False g by (rule guarded_Inr)
  have "route_roles (request_route rq) \<noteq> []"
    using False by (cases rq) (simp_all add: route_roles_def route_is_public_def public_route_def
        student_bookings_route_def staff_bookings_route_def admin_route_def class_route_def getAllAndOverride_def)
  then have r: "u_role u \<in> set (route_roles (request_route rq))" using p(3) by blast
  have m: "u \<in> set (users d)" "sql_uuid (u_id u) = u_id u"
    using p(1) by (auto dest!: row_at_SomeD simp: sql_uuid_def)
  have hu: "case booking_op (u_id u) rq of
      Some op \<Rightarrow> (\<exists>b. run_lifecycle op e d = Inr (b, d', evs)) \<and>
        (case op of Reject _ _ reason \<Rightarrow> rejection_reason_ok reason | _ \<Rightarrow> True)
    | None \<Rightarrow> other_change sv (u_id u) rq e d d' evs"
    by (rule handle_user) (use h u False in simp_all)
  show ?thesis
  proof (cases "booking_op (u_id u) rq")
    case None
    then show ?thesis using hu m r p(2) by (auto intro: changed)
  next
    case (Some op)
    then show ?thesis using hu m r p(2) g u by (auto intro: operated)
  qed
qed

section \<open>The invariant of the system\<close>

definition campus_ok :: "int \<times> db \<Rightarrow> bool" where
  "campus_ok s \<longleftrightarrow>
     campus_era (fst s) \<and> db_ok (snd s) \<and> db_lived (fst s) (snd s) \<and> none_stranded (fst s) (snd s)"

lemma booking_op_sound:
  assumes "booking_op u rq = Some op" "known_user d u" "random_int e < 1000000"
    "case op of Reject _ _ reason \<Rightarrow> rejection_reason_ok reason | _ \<Rightarrow> True"
  shows "op_sound op e d"
  using assms by (cases rq) auto

lemma lifecycle_lived:
  assumes d: "db_ok d" "db_lived (clock e) d" "op_sound op e d" and run: "run_lifecycle op e d = Inr (b', d', evs)"
  shows "db_lived (clock e) d'"
proof -
  obtain b where b: "b \<in> set (bookings d)" "addresses op b" "enabled op (clock e) b"
    "(b', d') = rewritten (op_change op e) e d b" using d run by (rule run_lifecycle_Inr)
  note rows = rewritten_rows [OF d(1) b(1,4) b(1) op_change_slot]
  have lb: "lived (clock e) b" using d(2) b(1) by (simp add: db_lived_def)
  have "b_status b = PENDING \<Longrightarrow> b_checkInRequestedAt b = None"
    using db_booking_sound [OF d(1) b(1)] by (auto simp: sound_booking_def booking_rules_iff check_check_in_request_def)
  then have "lived (clock e) b'"
    using lb b(3) by (cases op) (auto simp: rows(1) lived_def change_defs split: option.splits)
  moreover have "x = b' \<or> x \<in> set (bookings d)" if "x \<in> set (bookings d')" for x
    using that b(4) rows(1) d(1) b(1)
    by (auto simp: rewritten_def Let_def set_patch_row db_ok_def table_inv_def split: if_splits)
      (metis row_at_mem option.inject)
  ultimately show ?thesis using d(2) by (auto simp: db_lived_def)
qed

text \<open>Changes of accounts leave the bookings, the resources and the closures alone.\<close>

definition only_accounts :: "db \<Rightarrow> db \<Rightarrow> bool" where
  "only_accounts d d' \<longleftrightarrow>
     bookings d' = bookings d \<and> resources d' = resources d \<and> closures d' = closures d \<and> buildings d' = buildings d"

lemma only_accounts_ok: "only_accounts d d' \<Longrightarrow> db_ok d' \<Longrightarrow> campus_ok (t, d) \<Longrightarrow> campus_ok (t, d')"
  by (simp add: only_accounts_def campus_ok_def db_lived_def none_stranded_def serves_def closed_on_def)

text \<open>A write of one table leaves the others alone.\<close>

lemma write_frames:
  "insert_resource r d = Inr d' \<Longrightarrow> bookings d' = bookings d"
  "insert_closure c d = Inr d' \<Longrightarrow> bookings d' = bookings d"
  "update_resource k f d = Inr d' \<Longrightarrow> bookings d' = bookings d"
  "insert_user u d = Inr d' \<Longrightarrow> only_accounts d d'"
  "update_user k g d = Inr d' \<Longrightarrow> only_accounts d d'"
  by (auto simp: insert_resource_def insert_closure_def update_resource_def insert_user_def update_user_def
      map_sum_Inr_iff only_accounts_def)

lemma create_booking_lived:
  assumes d: "db_ok d" "db_lived now d" and run: "create_booking u dto e d = Inr (b, d', evs)"
  shows "db_lived now d'"
proof -
  obtain r where i: "insert_booking (new_booking r u dto e) d = Inr d'"
    using run by (auto simp: create_booking_def Let_def split: option.splits if_splits sum.splits)
  show ?thesis
    using d(2) unfolding insert_booking_keeps(2) [OF d(1) i]
    by (auto simp: db_lived_def lived_def booking_columns_def new_booking_def)
qed

lemma db_lived_later: "db_lived now d \<Longrightarrow> now \<le> t \<Longrightarrow> db_lived t d"
  by (auto simp: db_lived_def intro: lived_mono)

lemma campus_ok_later: "campus_ok (now, d) \<Longrightarrow> now \<le> t \<Longrightarrow> campus_era t \<Longrightarrow> campus_ok (t, d)"
  by (auto simp: campus_ok_def intro: db_lived_later none_stranded_later)

lemma campus_ok_frame:
  "bookings d' = bookings d \<Longrightarrow> db_ok d' \<Longrightarrow> none_stranded t d' \<Longrightarrow> campus_ok (t, d) \<Longrightarrow> campus_ok (t, d')"
  by (simp add: campus_ok_def db_lived_def)

lemma other_change_frame:
  assumes "other_change sv u rq e d d' evs" "\<And>dto. rq \<noteq> PostBooking dto" "db_ok d" "sql_uuid u = u"
  shows "bookings d' = bookings d"
proof (cases rq)
  case (PatchUserRole k role)
  with assms(1) obtain x where "updateRole u k role e d = Inr (x, d')" by (auto simp: other_change_def)
  from updateRole_Inr(3) [OF assms(3,4) this] show ?thesis by simp
next
  case (PatchUserStatus k active)
  with assms(1) obtain x where "updateStatus_user u k active e d = Inr (x, d', evs)" by (auto simp: other_change_def)
  from updateStatus_Inr(3) [OF assms(3,4) this] show ?thesis by simp
next
  case (PatchResource k dto)
  with assms(1) show ?thesis
    using write_changes_frame(2) [OF assms(3)]
    by (auto simp: other_change_def update_resource_details_def update_resource_locked_def reload_resource_def
        split: option.splits if_splits sum.splits)
next
  case (PatchResourceStatus k st)
  with assms(1) obtain r x where "updateStatus_resource r st e d = Inr (x, d', evs)" by (auto simp: other_change_def)
  then show ?thesis
    by (auto simp: updateStatus_resource_def reload_resource_def map_sum_Inr_iff
        split: option.splits if_splits sum.splits dest: write_frames)
qed (use assms(1,2) in \<open>auto simp: other_change_def create_resource_def createClosure_def
    deleteClosure_def delete_closures_def reload_resource_def map_sum_Inr_iff Let_def
    split: option.splits if_splits sum.splits dest: write_frames\<close>)

lemma other_change_keeps:
  assumes c: "other_change sv u rq e d d' evs" and ok: "campus_ok (clock e, d)" and u: "sql_uuid u = u"
  shows "campus_ok (clock e, d')"
proof -
  note o = c [unfolded other_change_def]
  have k: "campus_era (clock e)" "db_ok d" "db_lived (clock e) d" "none_stranded (clock e) d"
    using ok by (simp_all add: campus_ok_def)
  have frame: "bookings d' = bookings d" if "\<And>dto. rq \<noteq> PostBooking dto"
    by (rule other_change_frame [OF c that k(2) u])
  show ?thesis
  proof (cases rq)
    case (PostBooking dto)
    with o obtain b where b: "well_formed_request dto" "create_booking u dto e d = Inr (b, d', evs)" by auto
    then show ?thesis
      using k create_booking_db_ok [OF k(2) b(2)] create_booking_lived [OF k(2,3) b(2)]
        create_booking_serves [OF k(2) b(2,1) k(4)] by (simp add: campus_ok_def)
  next
    case (PostResource dto)
    with o obtain r where r: "create_resource (normalize_create_resource dto) e d = Inr (r, d', evs)" by auto
    then show ?thesis using create_resource_serves [OF k(2,4) r] frame ok by (simp add: PostResource campus_ok_frame)
  next
    case (PatchResource k0 dto)
    with o obtain r x where r: "update_resource_details r (normalize_update_resource dto) e d = Inr (x, d', evs)" by auto
    then show ?thesis using update_details_serves [OF k(2,1,4) r] frame ok by (simp add: PatchResource campus_ok_frame)
  next
    case (PatchResourceStatus k0 st)
    with o obtain r x where r: "updateStatus_resource r st e d = Inr (x, d', evs)" by auto
    then show ?thesis using status_serves [OF k(2,1,4) r] frame ok by (simp add: PatchResourceStatus campus_ok_frame)
  next
    case (PostClosure k0 dto)
    with o obtain x where r: "createClosure k0 (normalize_closure dto) e d = Inr (x, d', evs)" by auto
    then show ?thesis using create_closure_serves [OF k(2,1,4) r] frame ok by (simp add: PostClosure campus_ok_frame)
  next
    case (DeleteResourceClosure k0 c)
    with o obtain x where r: "deleteClosure k0 c e d = Inr (x, d', evs)" by auto
    then show ?thesis using delete_closure_serves [OF k(2,4) r] frame ok by (simp add: DeleteResourceClosure campus_ok_frame)
  next
    case (PatchUserRole k0 role)
    with o obtain x where "updateRole u k0 role e d = Inr (x, d')" by auto
    note r = updateRole_Inr [OF k(2) u this]
    then have "only_accounts d d'" by (simp add: only_accounts_def)
    then show ?thesis using r(1) ok by (rule only_accounts_ok)
  next
    case (PatchUserStatus k0 active)
    with o obtain x where "updateStatus_user u k0 active e d = Inr (x, d', evs)" by auto
    note r = updateStatus_Inr [OF k(2) u this]
    then have "only_accounts d d'" by (simp add: only_accounts_def)
    then show ?thesis using r(1) ok by (rule only_accounts_ok)
  qed (use o in simp_all)
qed

lemma provision_keeps:
  assumes "campus_ok (t, d)" "fresh_id e \<notin> ids u_id (users d)" "provision h role account e d = Inr (out, d')"
  shows "campus_ok (t, d')" "only_accounts d d'" "ids u_id (users d') \<subseteq> insert (fresh_id e) (ids u_id (users d))"
    "\<exists>u\<in>set (users d). active_admin u \<Longrightarrow> \<exists>u\<in>set (users d'). active_admin u"
proof -
  have d: "db_ok d" using assms(1) by (simp add: campus_ok_def)
  have all: "db_ok d' \<and> only_accounts d d' \<and> ids u_id (users d') \<subseteq> insert (fresh_id e) (ids u_id (users d)) \<and>
    ((\<exists>u\<in>set (users d). active_admin u) \<longrightarrow> (\<exists>u\<in>set (users d'). active_admin u))"
  proof (cases account)
    case None
    then show ?thesis using assms(3) d by (simp add: provision_def only_accounts_def subset_insertI)
  next
    case (Some a)
    then obtain data o' where p: "provisionBootstrapAccount data e d = Inr (o', d')"
      using assms(3) by (auto simp: provision_def map_sum_Inr_iff)
    have "d' = d \<or> (\<exists>u. u_id u = fresh_id e \<and> insert_user u d = Inr d') \<or>
        (\<exists>k. update_user k (promoted e) d = Inr d')"
      using p by (auto simp: provisionBootstrapAccount_def insert_user_or_ignore_def map_sum_Inr_iff
          split: option.splits if_splits sum.splits app_error.splits)
    then have "only_accounts d d' \<and> ids u_id (users d') \<subseteq> insert (fresh_id e) (ids u_id (users d))"
    proof (elim disjE exE conjE)
      fix u assume u: "u_id u = fresh_id e" "insert_user u d = Inr d'"
      have "users d' = users d @ [u]" using insert_user_keeps(2) [OF d u(2)] by simp
      then show ?thesis using u write_frames(4) [OF u(2)] by (auto simp: ids_def)
    next
      fix k assume "update_user k (promoted e) d = Inr d'"
      then have "d' = d\<lparr>users := patch_row u_id k (promoted e) (users d)\<rparr>"
        by (rule update_user_keeps(2) [OF d]) (simp add: promoted_def)
      moreover have "ids u_id (patch_row u_id k (promoted e) (users d)) = ids u_id (users d)"
        by (rule ids_patch) (simp add: promoted_def)
      ultimately show ?thesis by (auto simp: only_accounts_def)
    qed (auto simp: only_accounts_def)
    then show ?thesis using provisioning_facts [OF d assms(2) p] by blast
  qed
  then show "only_accounts d d'" "ids u_id (users d') \<subseteq> insert (fresh_id e) (ids u_id (users d))"
    "\<exists>u\<in>set (users d). active_admin u \<Longrightarrow> \<exists>u\<in>set (users d'). active_admin u" by simp_all
  show "campus_ok (t, d')" using all assms(1) by (blast intro: only_accounts_ok)
qed

lemma step_keeps_campus:
  assumes step: "sys_step sv s s'" and ok: "campus_ok s"
  shows "campus_ok s'"
  using step
proof (cases rule: sys_step.cases)
  case (answered now e d cookies rq d' evs)
  have ce: "campus_ok (clock e, d)"
    using ok answered(1,3) by (auto simp: env_sound_def intro: campus_ok_later)
  then have k: "db_ok d" "db_lived (clock e) d" "none_stranded (clock e) d" "campus_era (clock e)"
    by (simp_all add: campus_ok_def)
  from answered(4) show ?thesis
  proof (cases rule: serve_cases)
    case (registered body x)
    note r = register_account_Inr [OF k(1) registered(3)]
    then have "only_accounts d d'" by (simp add: only_accounts_def)
    then show ?thesis using r(1) ce answered(2) by (auto intro: only_accounts_ok)
  next
    case (operated u op b)
    have "known_user d (u_id u)" using operated(2) by (auto simp: known_user_def ids_def)
    then have snd_op: "op_sound op e d"
      using operated(6,8) answered(3) by (auto simp: env_sound_def intro: booking_op_sound)
    show ?thesis
      using lifecycle_db_ok [OF k(1) operated(7)] lifecycle_lived [OF k(1,2) snd_op operated(7)]
        lifecycle_serves [OF k(1,2) snd_op operated(7) k(3)] k(4) answered(2) by (simp add: campus_ok_def)
  next
    case (changed u)
    then show ?thesis using other_change_keeps [OF changed(6) ce changed(3)] answered(2) by simp
  qed
next
  case (restarted now e1 d e2 d')
  obtain d1 o1 o2 where p: "provision (sv_hash sv) ADMIN (bs_admin (sv_bootstrap sv)) e1 d = Inr (o1, d1)"
    "provision (sv_hash sv) STAFF (bs_staff (sv_bootstrap sv)) e2 d1 = Inr (o2, d')"
    using restarted(6) by (auto simp: onApplicationBootstrap_def map_sum_Inr_iff split: sum.splits)
  have c0: "campus_ok (clock e1, d)" "fresh_id e1 \<notin> ids u_id (users d)"
    using ok restarted(1,3) by (auto simp: env_sound_def intro: campus_ok_later)
  note p1 = provision_keeps [OF c0 p(1)]
  have "campus_ok (clock e2, d1)" "fresh_id e2 \<notin> ids u_id (users d1)"
    using p1(1,3) restarted(4,5) by (auto simp: env_sound_def intro: campus_ok_later)
  from provision_keeps(1) [OF this p(2)] show ?thesis using restarted(2) by simp
next
  case (waited now t d)
  then show ?thesis using ok by (auto intro: campus_ok_later)
qed

interpretation campus: kept "sys_step sv" campus_ok for sv
  by unfold_locales (rule step_keeps_campus)

lemma seeded_rows:
  "\<forall>r\<in>set (seeded_resources t). r_buildingId r \<in> ids bl_id seeded_buildings"
  "distinct (map r_id (seeded_resources t))" "distinct (map r_code (seeded_resources t))"
  by (simp_all add: seeded_resources_def seeded_buildings_def ids_def)

lemma default_hours:
  "pg_time ''08:00:00''" "pg_time ''18:00:00''" "sql_time ''08:00:00'' = 28800" "sql_time ''18:00:00'' = 64800"
  by code_simp+

lemma seeded_checked: "list_all (\<lambda>r. resource_typed r \<and> resource_rules r) (seeded_resources t)"
  by (simp add: seeded_resources_def resource_typed_def pg_varchar_def resource_rules_def violated_check_None
      resource_checks_def whole_hour_def default_hours)

lemma seeded_ok: "db_ok (seeded_db t)"
proof -
  have "inj_on r_code (set (seeded_resources t))" using seeded_rows(3) [of t] by (simp add: distinct_map)
  then have "\<forall>r\<in>set (seeded_resources t). \<forall>s\<in>set (seeded_resources t). r_id r \<noteq> r_id s \<longrightarrow> r_code r \<noteq> r_code s"
    by (auto dest: inj_onD)
  then have "table_inv r_id (resource_ok (seeded_db t)) resource_clash (seeded_resources t)"
    using seeded_rows(1,2) [of t] seeded_checked [of t]
    by (simp add: table_inv_def resource_ok_def resource_clash_def list_all_iff ids_def seeded_db_def)
  then show ?thesis by (simp add: db_ok_def seeded_db_def)
qed

end
