(* ===== verification/CampusProps.thy ===== *)
theory CampusProps
  imports ServiceProps
begin

text \<open>
  The properties of the running system: what holds in every state it reaches, how the rows of two
  states of one run are related, and on whose request a booking moves.
\<close>

section \<open>Every state\<close>

lemma reachable_ok:
  assumes "reachable sv s"
  shows "campus_ok s"
proof -
  obtain t t0 where "campus_era t" "(sys_step sv)\<^sup>*\<^sup>* (t, seeded_db t0) s"
    using assms by (auto simp: reachable_def)
  moreover have "campus_ok (t, seeded_db t0)"
    using \<open>campus_era t\<close> seeded_ok by (simp add: campus_ok_def db_lived_def none_stranded_def seeded_db_def)
  ultimately show ?thesis using campus.always by blast
qed

lemma blocking_apart:
  assumes d: "db_ok d" and b: "b \<in> set (bookings d)" "c \<in> set (bookings d)" "b \<noteq> c"
    "b_resourceId b = b_resourceId c" "blocking (b_status b)" "blocking (b_status c)"
  shows "booking_end b \<le> booking_start c \<or> booking_end c \<le> booking_start b"
proof -
  have inv: "table_inv b_id (booking_ok d) booking_clash (bookings d)" using d by (simp add: db_ok_def)
  then have "b_id b \<noteq> b_id c"
    using b(1-3) by (auto simp: table_inv_def distinct_map dest: inj_onD)
  then have "\<not> booking_clash b c" using inv b(1,2) by (simp add: table_inv_def)
  then have "\<not> periods_overlap (booking_period b) (booking_period c)"
    using b(4-6) by (simp add: booking_clash_def)
  moreover have "sql_time (b_startTime x) < sql_time (b_endTime x)" if "x \<in> set (bookings d)" for x
    using db_booking_sound [OF d that] by (simp add: sound_booking_def booking_rules_iff)
  ultimately show ?thesis
    using b(1,2)
    by (auto simp: periods_overlap_def booking_period_def booking_start_def booking_end_def at_campus_zone_def
        Let_def not_less)
qed

text \<open>C14: In every state the running system reaches, two bookings of one resource that are pending,
confirmed or checked in never overlap in time, and the resource of a pending or confirmed booking that
has not ended exists, is active, operates on the weekday of the booking, is open for all of it and is
not closed on its date, whatever students, staff and administrators did and in whatever order.\<close>

theorem reachable_states_serve:
  assumes "reachable sv (now, d)" "b \<in> set (bookings d)"
  shows "(\<forall>c\<in>set (bookings d). c \<noteq> b \<and> b_resourceId c = b_resourceId b \<and> blocking (b_status b) \<and> blocking (b_status c) \<longrightarrow>
      booking_end b \<le> booking_start c \<or> booking_end c \<le> booking_start b) \<and>
    (b_status b \<in> {PENDING, CONFIRMED} \<and> now < booking_end b \<longrightarrow>
      (\<exists>r\<in>set (resources d). r_id r = b_resourceId b \<and> r_status r = ACTIVE \<and>
         sql_dow (b_date b) \<in> set (r_operatingDays r) \<and>
         sql_time (r_opensAt r) \<le> sql_time (b_startTime b) \<and> sql_time (b_endTime b) \<le> sql_time (r_closesAt r) \<and>
         (\<forall>c\<in>set (closures d). c_resourceId c = r_id r \<longrightarrow> c_date c \<noteq> b_date b)))"
proof (intro conjI ballI impI)
  have ok: "db_ok d" "none_stranded now d" using reachable_ok [OF assms(1)] by (simp_all add: campus_ok_def)
  show "booking_end b \<le> booking_start c \<or> booking_end c \<le> booking_start b"
    if "c \<in> set (bookings d)" and "c \<noteq> b \<and> b_resourceId c = b_resourceId b \<and> blocking (b_status b) \<and> blocking (b_status c)"
    for c
    using that blocking_apart [OF ok(1) assms(2), of c] by auto
  assume a: "b_status b \<in> {PENDING, CONFIRMED} \<and> now < booking_end b"
  obtain r where r: "r \<in> set (resources d)" "r_id r = b_resourceId b"
    using stored_relations(1) [OF ok(1) assms(2)] by (auto simp: ids_def)
  have "serves d r b"
    using ok(2) assms(2) a r by (auto simp: none_stranded_def active_at_def reviewable_status_def)
  with r show "\<exists>r\<in>set (resources d). r_id r = b_resourceId b \<and> r_status r = ACTIVE \<and>
         sql_dow (b_date b) \<in> set (r_operatingDays r) \<and>
         sql_time (r_opensAt r) \<le> sql_time (b_startTime b) \<and> sql_time (b_endTime b) \<le> sql_time (r_closesAt r) \<and>
         (\<forall>c\<in>set (closures d). c_resourceId c = r_id r \<longrightarrow> c_date c \<noteq> b_date b)"
    by (auto simp: serves_def closed_on_def)
qed

section \<open>Two states of one run\<close>

text \<open>What one step does to a stored booking.\<close>

lemma other_change_bookings:
  assumes c: "other_change sv u rq e d d' evs" and d: "db_ok d" and u: "sql_uuid u = u"
  shows "\<exists>bs. bookings d' = bookings d @ bs"
proof (cases "\<exists>dto. rq = PostBooking dto")
  case True
  then obtain dto b where b: "create_booking u dto e d = Inr (b, d', evs)"
    using c by (auto simp: other_change_def)
  then obtain r where "insert_booking (new_booking r u dto e) d = Inr d'"
    by (auto simp: create_booking_def Let_def split: option.splits if_splits sum.splits)
  from insert_booking_keeps(2) [OF d this] show ?thesis by simp
next
  case False
  then show ?thesis using other_change_frame [OF c _ d u] by auto
qed

definition continues :: "booking \<Rightarrow> booking \<Rightarrow> bool" where
  "continues b b' \<longleftrightarrow> same_slot b b' \<and> status_step\<^sup>*\<^sup>* (b_status b) (b_status b')"

lemma continues_refl [simp]: "continues b b"
  by (simp add: continues_def same_slot_def)

lemma answered_bookings:
  assumes ok: "campus_ok (clock e, d)" and e: "random_int e < 1000000"
    and s: "serve sv cookies rq e d = Inr (d', evs)" and b: "b \<in> set (bookings d)"
  shows "\<exists>b'\<in>set (bookings d'). same_slot b b' \<and> (b_status b' = b_status b \<or> status_step (b_status b) (b_status b'))"
proof -
  have k: "db_ok d" "db_lived (clock e) d" using ok by (simp_all add: campus_ok_def)
  have same: "same_slot b b" by (simp add: same_slot_def)
  from s show ?thesis
  proof (cases rule: serve_cases)
    case (registered body x)
    then show ?thesis using register_account_Inr(2) [OF k(1) registered(3)] b same by auto
  next
    case (operated u op x)
    have "known_user d (u_id u)" using operated(2) by (auto simp: known_user_def ids_def)
    then have "op_sound op e d" using operated(6,8) e by (auto intro: booking_op_sound)
    from lifecycle_moves [OF k this operated(7) b] show ?thesis by (auto dest: row_at_SomeD)
  next
    case (changed u)
    then show ?thesis using other_change_bookings [OF changed(6) k(1) changed(3)] b same by auto
  qed
qed

text \<open>Writes of the other tables leave the accounts alone.\<close>

lemma write_users:
  "insert_booking b d = Inr d' \<Longrightarrow> users d' = users d"
  "insert_resource r d = Inr d' \<Longrightarrow> users d' = users d"
  "insert_closure c d = Inr d' \<Longrightarrow> users d' = users d"
  "update_resource k f d = Inr d' \<Longrightarrow> users d' = users d"
  by (auto simp: insert_booking_def insert_resource_def insert_closure_def update_resource_def map_sum_Inr_iff)

text \<open>A restart only touches accounts.\<close>

lemma restarted_keeps:
  assumes "campus_ok (t, d)" "fresh_id e1 \<notin> ids u_id (users d)" "fresh_id e2 \<notin> ids u_id (users d)"
    "fresh_id e1 \<noteq> fresh_id e2" "onApplicationBootstrap h config e1 e2 d = Inr d'"
  shows "only_accounts d d'" "\<exists>u\<in>set (users d). active_admin u \<Longrightarrow> \<exists>u\<in>set (users d'). active_admin u"
proof -
  obtain d1 o1 o2 where p: "provision h ADMIN (bs_admin config) e1 d = Inr (o1, d1)"
    "provision h STAFF (bs_staff config) e2 d1 = Inr (o2, d')"
    using assms(5) by (auto simp: onApplicationBootstrap_def map_sum_Inr_iff split: sum.splits)
  note p1 = provision_keeps [OF assms(1,2) p(1)]
  have "fresh_id e2 \<notin> ids u_id (users d1)" using p1(3) assms(3,4) by auto
  note p2 = provision_keeps [OF p1(1) this p(2)]
  show "only_accounts d d'" using p1(2) p2(2) by (simp add: only_accounts_def)
  show "\<exists>u\<in>set (users d). active_admin u \<Longrightarrow> \<exists>u\<in>set (users d'). active_admin u"
    using p1(4) p2(4) by blast
qed

lemma step_bookings:
  assumes step: "sys_step sv s s'" and ok: "campus_ok s" and b: "b \<in> set (bookings (snd s))"
  shows "\<exists>b'\<in>set (bookings (snd s')). same_slot b b' \<and> (b_status b' = b_status b \<or> status_step (b_status b) (b_status b'))"
proof -
  have same: "same_slot b b" by (simp add: same_slot_def)
  from step show ?thesis
  proof (cases rule: sys_step.cases)
    case (answered now e d cookies rq d' evs)
    have "campus_ok (clock e, d)" using ok answered(1,3) by (auto simp: env_sound_def intro: campus_ok_later)
    then show ?thesis
      using answered_bookings [OF _ _ answered(4), of b] answered(1-3) b by (simp add: env_sound_def)
  next
    case (restarted now e1 d e2 d')
    then have "bookings d' = bookings d"
      using restarted_keeps(1) [of now d e1 e2] ok by (simp add: env_sound_def only_accounts_def)
    then show ?thesis using b same restarted(1,2) by auto
  qed (use b same in auto)
qed

lemma step_continues:
  assumes "sys_step sv s s'" "campus_ok s" "\<forall>b\<in>B. \<exists>b1\<in>set (bookings (snd s)). continues b b1"
  shows "\<forall>b\<in>B. \<exists>b2\<in>set (bookings (snd s')). continues b b2"
proof
  fix b assume "b \<in> B"
  then obtain b1 where b1: "b1 \<in> set (bookings (snd s))" "continues b b1" using assms(3) by blast
  obtain b2 where "b2 \<in> set (bookings (snd s'))" "same_slot b1 b2"
    "b_status b2 = b_status b1 \<or> status_step (b_status b1) (b_status b2)"
    using step_bookings [OF assms(1,2) b1(1)] by blast
  with b1(2) show "\<exists>b2\<in>set (bookings (snd s')). continues b b2"
    by (intro bexI [of _ b2]) (auto simp: continues_def same_slot_def intro: rtranclp.rtrancl_into_rtrancl)
qed

lemma status_steps_final:
  assumes "status_step\<^sup>*\<^sup>* s t" "s \<in> {COMPLETED, NO_SHOW, REJECTED, CANCELLED}"
  shows "t = s"
  using assms by (induction rule: converse_rtranclp_induct) (auto elim: status_stepE)

text \<open>C15: No booking is ever lost or rewritten: from any state of the system to any later one, every
booking is still there, with its resource, requester, date and times, its status has only moved along
the state diagram, and a completed, missed, rejected or cancelled booking stays what it is for good.\<close>

theorem bookings_only_move_forward:
  assumes "reachable sv (now, d)" "(sys_step sv)\<^sup>*\<^sup>* (now, d) (now', d')" "b \<in> set (bookings d)"
  shows "\<exists>b'\<in>set (bookings d'). same_slot b b' \<and> status_step\<^sup>*\<^sup>* (b_status b) (b_status b') \<and>
    (b_status b \<in> {COMPLETED, NO_SHOW, REJECTED, CANCELLED} \<longrightarrow> b_status b' = b_status b)"
proof -
  have "\<forall>b\<in>set (bookings d). \<exists>b1\<in>set (bookings (snd (now', d'))). continues b b1"
  proof (rule campus.related [OF assms(2) reachable_ok [OF assms(1)]])
    show "\<forall>b\<in>set (bookings d). \<exists>b1\<in>set (bookings (snd (now, d))). continues b b1"
      using continues_refl by fastforce
  qed (rule step_continues)
  then show ?thesis using assms(3) status_steps_final by (fastforce simp: continues_def)
qed

section \<open>An administrator remains\<close>

lemma answered_admins:
  assumes ok: "campus_ok (clock e, d)" and e: "random_int e < 1000000"
    and s: "serve sv cookies rq e d = Inr (d', evs)" and a: "\<exists>u\<in>set (users d). active_admin u"
  shows "\<exists>u\<in>set (users d'). active_admin u"
proof -
  have k: "db_ok d" "db_lived (clock e) d" using ok by (simp_all add: campus_ok_def)
  have remains: "is_active_admin x k \<Longrightarrow> \<exists>u\<in>set (users x). active_admin u" for x k
    by (auto simp: is_active_admin_def)
  from s show ?thesis
  proof (cases rule: serve_cases)
    case (registered body x)
    then show ?thesis using register_account_Inr(2) [OF k(1) registered(3)] a by auto
  next
    case (operated u op x)
    have "known_user d (u_id u)" using operated(2) by (auto simp: known_user_def ids_def)
    then have "op_sound op e d" using operated(6,8) e by (auto intro: booking_op_sound)
    with k obtain b where "(x, d') = rewritten (op_change op e) e d b" using operated(7) by (rule run_lifecycle_Inr)
    then have "users d' = users d" by (simp add: rewritten_def Let_def)
    then show ?thesis using a by simp
  next
    case (changed u)
    show ?thesis
    proof (cases rq)
      case (PatchUserRole k0 role)
      with changed(6) obtain x where "updateRole (u_id u) k0 role e d = Inr (x, d')" by (auto simp: other_change_def)
      from updateRole_Inr(2) [OF k(1) changed(3) this] show ?thesis by (rule remains)
    next
      case (PatchUserStatus k0 active)
      with changed(6) obtain x where "updateStatus_user (u_id u) k0 active e d = Inr (x, d', evs)"
        by (auto simp: other_change_def)
      from updateStatus_Inr(2) [OF k(1) changed(3) this] show ?thesis by (rule remains)
    next
      case (PatchResource k0 dto)
      then have "users d' = users d"
        using changed(6) by (auto simp: other_change_def update_resource_details_def update_resource_locked_def
            reload_resource_def write_changes_def split: option.splits if_splits sum.splits dest: write_users)
      then show ?thesis using a by simp
    next
      case (PatchResourceStatus k0 st)
      then obtain r x where "updateStatus_resource r st e d = Inr (x, d', evs)"
        using changed(6) by (auto simp: other_change_def)
      then have "users d' = users d"
        by (auto simp: updateStatus_resource_def reload_resource_def map_sum_Inr_iff
            split: option.splits if_splits sum.splits dest: write_users)
      then show ?thesis using a by simp
    qed (use changed(6) a in \<open>auto simp: other_change_def create_booking_def create_resource_def createClosure_def
        deleteClosure_def delete_closures_def reload_resource_def map_sum_Inr_iff Let_def
        split: option.splits if_splits sum.splits dest!: write_users\<close>)
  qed
qed

lemma step_admins:
  assumes step: "sys_step sv s s'" and ok: "campus_ok s" and a: "\<exists>u\<in>set (users (snd s)). active_admin u"
  shows "\<exists>u\<in>set (users (snd s')). active_admin u"
  using step
proof (cases rule: sys_step.cases)
  case (answered now e d cookies rq d' evs)
  have "campus_ok (clock e, d)" using ok answered(1,3) by (auto simp: env_sound_def intro: campus_ok_later)
  then show ?thesis
    using answered_admins [OF _ _ answered(4)] answered(1-3) a by (simp add: env_sound_def)
next
  case (restarted now e1 d e2 d')
  then show ?thesis using restarted_keeps(2) [of now d e1 e2] ok a by (simp add: env_sound_def)
qed (use a in auto)

text \<open>C18: Once the system has an active administrator it has one for ever: no sequence of role changes,
deactivations, other requests and restarts leads to a state without.\<close>

theorem campus_keeps_an_administrator:
  assumes "reachable sv (now, d)" "\<exists>u\<in>set (users d). active_admin u" "(sys_step sv)\<^sup>*\<^sup>* (now, d) (now', d')"
  shows "\<exists>u\<in>set (users d'). active_admin u"
proof -
  have "\<exists>u\<in>set (users (snd (now', d'))). active_admin u"
    by (rule campus.related [OF assms(3) reachable_ok [OF assms(1)]]) (use assms(2) step_admins in auto)
  then show ?thesis by simp
qed

section \<open>On whose request\<close>

lemma route_roles_simps [simp]:
  "route_roles student_bookings_route = [STUDENT]" "route_roles staff_bookings_route = [STAFF, ADMIN]"
  "route_roles admin_route = [ADMIN]"
  by (simp_all add: route_roles_def getAllAndOverride_def class_route_def student_bookings_route_def
      staff_bookings_route_def admin_route_def)

lemma same_row: "db_ok d \<Longrightarrow> b \<in> set (bookings d) \<Longrightarrow> c \<in> set (bookings d) \<Longrightarrow> b_id b = b_id c \<Longrightarrow> b = c"
  by (auto simp: db_ok_def table_inv_def distinct_map dest: inj_onD)

text \<open>C16: The status of a booking changes only on a request of an account the guards have let through:
a cancellation is the requester's own, as a student; every other change is that of a member of the
staff or an administrator.\<close>

theorem who_moves_bookings:
  assumes "reachable sv (now, d)" "env_sound now e d" "serve sv cookies rq e d = Inr (d', evs)"
    "b \<in> set (bookings d)" "b' \<in> set (bookings d')" "b_id b' = b_id b" "b_status b' \<noteq> b_status b"
  shows "\<exists>u. guarded (sv_verify sv) (sv_config sv) (request_route rq) cookies d = Inr (Some u) \<and> u_isActive u \<and>
    (if b_status b' = CANCELLED then u_role u = STUDENT \<and> b_requesterId b = u_id u
     else u_role u \<in> {STAFF, ADMIN})"
proof -
  have ok: "campus_ok (clock e, d)"
    using reachable_ok [OF assms(1)] assms(2) by (auto simp: env_sound_def intro: campus_ok_later)
  then have k: "db_ok d" "db_lived (clock e) d" by (simp_all add: campus_ok_def)
  from assms(3) show ?thesis
  proof (cases rule: serve_cases)
    case (registered body s)
    then have "b' \<in> set (bookings d)" using register_account_Inr(2) [OF k(1) registered(3)] assms(5) by simp
    from same_row [OF k(1) assms(4) this] show ?thesis using assms(6,7) by simp
  next
    case (operated u op x)
    have "known_user d (u_id u)" using operated(2) by (auto simp: known_user_def ids_def)
    then have "op_sound op e d" using operated(6,8) assms(2) by (auto simp: env_sound_def intro: booking_op_sound)
    with k obtain c where c: "c \<in> set (bookings d)" "addresses op c" "enabled op (clock e) c"
      "(x, d') = rewritten (op_change op e) e d c" using operated(7) by (rule run_lifecycle_Inr)
    note rows = rewritten_rows [OF k(1) c(1,4) assms(4) op_change_slot]
    have "distinct (map b_id (bookings d'))"
      using lifecycle_db_ok [OF k(1) operated(7)] by (auto simp: db_ok_def table_inv_def)
    then have "row_at b_id (b_id b) (bookings d') = Some b'" using row_at_mem assms(5,6) by metis
    then have "b_id b = b_id c" "b' = x" using rows(2) assms(7) by (auto split: if_splits)
    then have bc: "b = c" "b' = (op_change op e c)\<lparr>b_updatedAt := db_now e\<rparr>"
      using same_row [OF k(1) assms(4) c(1)] rows(1) by simp_all
    have "if b_status b' = CANCELLED then u_role u = STUDENT \<and> b_requesterId b = u_id u
      else u_role u \<in> {STAFF, ADMIN}"
      using operated(5,6) c(2) bc assms(7) by (cases rq) (auto simp: change_defs)
    then show ?thesis using operated(1,3) by blast
  next
    case (changed u)
    obtain bs where bs: "bookings d' = bookings d @ bs" using other_change_bookings [OF changed(6) k(1) changed(3)] ..
    have "campus_ok (clock e, d')" by (rule other_change_keeps [OF changed(6) ok changed(3)])
    then have "db_ok d'" by (simp add: campus_ok_def)
    from same_row [OF this, of b b'] show ?thesis using assms(4-7) bs by auto
  qed
qed

end
