(* ===== verification/Announcements.thy ===== *)
theory Announcements
  imports CampusProps
begin

text \<open>
  The notifications and what they are for: whenever the availability of a resource on a date is no
  longer what it was, the request that changed it has sent a notification of that resource and date,
  or of the resource. The exception is a closure whose request spells the identifier in capitals.
\<close>

section \<open>What the availability depends on\<close>

definition seen :: "db \<Rightarrow> string \<Rightarrow> string \<Rightarrow> resource option \<times> closure list \<times> (string \<times> string) set" where
  "seen d k date =
     (row_at r_id k (resources d), filter (\<lambda>c. c_resourceId c = k \<and> c_date c = date) (closures d),
      {(b_startTime b, b_endTime b) | b.
         b \<in> set (bookings d) \<and> b_resourceId b = k \<and> b_date b = date \<and> blocking (b_status b)})"

lemma slot_free_times:
  "slot_free date bs now s \<longleftrightarrow>
     isFutureCampusTime date (s_startTime s) now \<and>
     \<not> (\<exists>(st, en)\<in>(\<lambda>b. (b_startTime b, b_endTime b)) ` set bs. normalizeTime st < s_endTime s \<and>
          normalizeTime en > s_startTime s)"
  by (auto simp: slot_free_def)

lemma find_as_filter: "find P xs = (case filter P xs of [] \<Rightarrow> None | x # _ \<Rightarrow> Some x)"
  by (induction xs) auto

lemma closure_on_date:
  assumes "db_ok d" "pg_date date" "c \<in> set (closures d)"
  shows "sql_date (c_date c) = sql_date date \<longleftrightarrow> c_date c = date"
proof -
  have "pg_date (c_date c)"
    using assms(1,3) by (auto simp: db_ok_def closure_ok_def closure_typed_def dest: table_inv_ok)
  then show ?thesis using sql_date_inj [OF _ assms(2)] by blast
qed

lemma availability_seen:
  assumes d: "db_ok d" "db_ok d'" and k: "sql_uuid k = k" and same: "seen d' k date = seen d k date"
  shows "resources_findAvailability isUUID isDateString k date e d' =
    resources_findAvailability isUUID isDateString k date e d"
proof (cases "date_pattern date \<and> real_date date")
  case False
  then show ?thesis
    by (auto simp: resources_findAvailability_def parse_uuid_def findAvailabilitySnapshot_def requireValidDate_def)
next
  case True
  then have pd: "pg_date date" by (blast intro: real_date_pg)
  have rows: "row_at r_id k (resources d') = row_at r_id k (resources d)" using same by (simp add: seen_def)
  have bs: "(\<lambda>b. (b_startTime b, b_endTime b)) ` set (findBlockingBookings k date d') =
      (\<lambda>b. (b_startTime b, b_endTime b)) ` set (findBlockingBookings k date d)"
    using same unfolding findBlockingBookings_set [OF d(1) pd] findBlockingBookings_set [OF d(2) pd] k seen_def
    by (simp add: image_Collect)
  have free: "slot_free date (findBlockingBookings k date d') now = slot_free date (findBlockingBookings k date d) now" for now
    by (rule ext) (simp only: slot_free_times bs)
  have cl: "find_closure_on k date x = find (\<lambda>c. c_resourceId c = k \<and> c_date c = date) (closures x)" if "db_ok x" for x
    unfolding find_closure_on_def k by (rule find_cong) (use closure_on_date [OF that pd] in auto)
  have "find_closure_on k date d' = find_closure_on k date d"
    unfolding cl [OF d(1)] cl [OF d(2)] find_as_filter using same by (simp add: seen_def)
  then show ?thesis
    by (simp add: resources_findAvailability_def parse_uuid_def findAvailabilitySnapshot_def findResourceById_def
        k rows availability_fromResource_def Let_def free split: option.splits)
qed

section \<open>Each change and its notification\<close>

definition announced_in :: "event list \<Rightarrow> string \<Rightarrow> string \<Rightarrow> bool" where
  "announced_in evs k date \<longleftrightarrow> AvailabilityChanged k date \<in> set evs \<or> ResourceChanged k \<in> set evs"

lemma seen_other_tables:
  assumes "resources d' = resources d" "closures d' = closures d" "bookings d' = bookings d"
  shows "seen d' k date = seen d k date"
  using assms by (simp add: seen_def)

lemma image_patch:
  assumes "\<And>x. x \<in> set rows \<Longrightarrow> P (h x) = P x" "\<And>x. f (h x) = f x"
  shows "{f x | x. x \<in> set (map h rows) \<and> P x} = {f x | x. x \<in> set rows \<and> P x}"
proof (intro equalityI subsetI)
  fix y assume "y \<in> {f x | x. x \<in> set (map h rows) \<and> P x}"
  then obtain x where "x \<in> set rows" "y = f (h x)" "P (h x)" by auto
  then show "y \<in> {f x | x. x \<in> set rows \<and> P x}" using assms by auto
next
  fix y assume "y \<in> {f x | x. x \<in> set rows \<and> P x}"
  then obtain x where x: "x \<in> set rows" "y = f x" "P x" by auto
  then have "y = f (h x)" "P (h x)" "h x \<in> set (map h rows)" using assms by auto
  then show "y \<in> {f x | x. x \<in> set (map h rows) \<and> P x}" by blast
qed

lemma lifecycle_announced:
  assumes d: "db_ok d" "db_lived (clock e) d" "op_sound op e d"
    and run: "run_lifecycle op e d = Inr (b', d', evs)" and no: "\<not> announced_in evs k date"
  shows "seen d' k date = seen d k date"
proof -
  obtain b where b: "b \<in> set (bookings d)" "addresses op b" "enabled op (clock e) b"
    "(b', d') = rewritten (op_change op e) e d b" "evs = announced op b'" using d run by (rule run_lifecycle_Inr)
  note rows = rewritten_rows [OF d(1) b(1,4) b(1) op_change_slot]
  let ?g = "\<lambda>x. (op_change op e x)\<lparr>b_updatedAt := db_now e\<rparr>"
  have slot: "same_slot x (?g x)" for x using op_change_slot [of x op e] by (simp add: same_slot_def)
  let ?in = "\<lambda>x. b_resourceId x = k \<and> b_date x = date \<and> blocking (b_status x)"
  have "?in (?g b) = ?in b"
  proof (cases "b_resourceId b = k \<and> b_date b = date")
    case True
    then have "b_resourceId b' = k \<and> b_date b' = date" using slot [of b] rows(1) by (simp add: same_slot_def)
    with no b(5) have "\<exists>u i c. op = RequestCheckIn u i \<or> op = ConfirmCheckIn u i c"
      by (cases op) (auto simp: announced_in_def)
    then have "blocking (b_status (?g b)) = blocking (b_status b)"
      using b(3) by (auto simp: change_defs blocking_def)
    then show ?thesis using slot [of b] by (simp add: same_slot_def)
  qed (use slot [of b] in \<open>auto simp: same_slot_def\<close>)
  then have h: "?in (if b_id x = b_id b then ?g x else x) = ?in x" if "x \<in> set (bookings d)" for x
    using same_row [OF d(1) that b(1)] by auto
  have t: "(b_startTime (if b_id x = b_id b then ?g x else x), b_endTime (if b_id x = b_id b then ?g x else x)) =
      (b_startTime x, b_endTime x)" for x using slot [of x] by (simp add: same_slot_def)
  have "bookings d' = map (\<lambda>x. if b_id x = b_id b then ?g x else x) (bookings d)"
    using b(4) by (simp add: rewritten_def Let_def patch_row_def)
  then have "{(b_startTime x, b_endTime x) | x. x \<in> set (bookings d') \<and> ?in x} =
      {(b_startTime x, b_endTime x) | x. x \<in> set (bookings d) \<and> ?in x}"
    using image_patch [of "bookings d" ?in "\<lambda>x. if b_id x = b_id b then ?g x else x" "\<lambda>x. (b_startTime x, b_endTime x)"] h t
    by simp
  then show ?thesis by (simp add: seen_def rows(4,6))
qed

text \<open>The closure endpoints notify with the identifier of the path, as it was typed.\<close>

fun typed_canonically :: "request \<Rightarrow> bool" where
  "typed_canonically (PostClosure k dto) \<longleftrightarrow> sql_uuid k = k"
| "typed_canonically (DeleteResourceClosure k c) \<longleftrightarrow> sql_uuid k = k"
| "typed_canonically rq \<longleftrightarrow> True"

lemma new_booking_slot: "b_resourceId (new_booking r u dto e) = r_id r" "b_date (new_booking r u dto e) = cb_date dto"
  by (simp_all add: new_booking_def)

lemma create_announced:
  assumes d: "db_ok d" and run: "create_booking u dto e d = Inr (b, d', evs)" and no: "\<not> announced_in evs k date"
  shows "seen d' k date = seen d k date"
proof -
  obtain r where r: "insert_booking (new_booking r u dto e) d = Inr d'"
    "evs = [AvailabilityChanged (r_id r) (cb_date dto)]"
    using run by (auto simp: create_booking_def new_booking_slot Let_def split: option.splits if_splits sum.splits)
  have "\<not> (r_id r = k \<and> cb_date dto = date)" using no r(2) by (auto simp: announced_in_def)
  then show ?thesis
    unfolding insert_booking_keeps(2) [OF d r(1)] by (auto simp: seen_def booking_columns_def new_booking_def)
qed

lemma resource_write_announced:
  assumes d: "db_ok d" and w: "update_resource j f d = Inr d'" "\<And>x. r_id (f x) = r_id x" and k: "k \<noteq> j"
  shows "seen d' k date = seen d k date"
proof -
  have e: "d' = d\<lparr>resources := patch_row r_id j (\<lambda>r. resource_columns (f r)) (resources d)\<rparr>"
    by (rule update_resource_keeps(2) [OF d w(1)]) (rule w(2))
  have "row_at r_id k (resources d') = row_at r_id k (resources d)"
    unfolding e using k row_at_patch [of r_id "\<lambda>r. resource_columns (f r)"] by (simp add: resource_columns_def w(2))
  then show ?thesis by (simp add: seen_def e)
qed

lemma update_announced:
  assumes d: "db_ok d" and run: "update_resource_details r dto e d = Inr (x, d', evs)" and no: "\<not> announced_in evs k date"
  shows "seen d' k date = seen d k date"
proof -
  obtain j where w: "write_changes dto j e d = Inr d'" "row_at r_id j (resources d') = Some x"
    "evs = [ResourceChanged (r_id x)]"
    using run by (auto simp: update_resource_details_def update_resource_locked_def reload_resource_def
        split: option.splits if_splits sum.splits)
  have "r_id x = j" using w(2) by (auto dest: row_at_SomeD)
  then have "k \<noteq> j" using no w(3) by (auto simp: announced_in_def)
  then show ?thesis
    using w(1) resource_write_announced [OF d]
    by (auto simp: write_changes_def detail_changes_def split: if_splits)
qed

lemma status_announced:
  assumes d: "db_ok d" and run: "updateStatus_resource r st e d = Inr (x, d', evs)" and no: "\<not> announced_in evs k date"
  shows "seen d' k date = seen d k date"
proof -
  obtain j where w: "update_resource j (\<lambda>x. x\<lparr>r_status := st, r_updatedAt := db_now e\<rparr>) d = Inr d'"
    "row_at r_id j (resources d') = Some x" "evs = [ResourceChanged (r_id x)]"
    using run by (auto simp: updateStatus_resource_def reload_resource_def map_sum_Inr_iff
        split: option.splits if_splits sum.splits)
  have "r_id x = j" using w(2) by (auto dest: row_at_SomeD)
  then have "k \<noteq> j" using no w(3) by (auto simp: announced_in_def)
  then show ?thesis using resource_write_announced [OF d w(1)] by simp
qed

lemma closure_announced:
  assumes d: "db_ok d" and j: "sql_uuid j = j"
    and run: "createClosure j dto e d = Inr (c, d', evs)" and no: "\<not> announced_in evs k date"
  shows "seen d' k date = seen d k date"
proof -
  obtain c' where i: "insert_closure c' d = Inr d'" "c_resourceId c' = j" "c_date c' = cc_date dto"
    "evs = [AvailabilityChanged j (cc_date dto)]"
    using run j by (auto simp: createClosure_def Let_def split: option.splits sum.splits)
  then show ?thesis
    using no unfolding insert_closure_keeps(2) [OF d i(1)] by (auto simp: seen_def announced_in_def)
qed

lemma reopening_announced:
  assumes d: "db_ok d" and j: "sql_uuid j = j"
    and run: "deleteClosure j c e d = Inr (x, d', evs)" and no: "\<not> announced_in evs k date"
  shows "seen d' k date = seen d k date"
proof -
  let ?mine = "\<lambda>x. c_id x = sql_uuid c \<and> c_resourceId x = j"
  have "(\<exists>x\<in>set (closures d). ?mine x)" if "find ?mine (closures d) = Some y" for y
    using that by (auto simp: find_Some_iff)
  then have e: "d' = delete_closures ?mine d"
    "evs = (case find ?mine (closures d) of Some y \<Rightarrow> [AvailabilityChanged j (c_date y)] | None \<Rightarrow> [])"
    using run by (auto simp: deleteClosure_def Let_def j split: option.splits if_splits)
  have "distinct (map c_id (closures d))" using d by (simp add: db_ok_def table_inv_def)
  then have one: "x = y" if "?mine x" "?mine y" "x \<in> set (closures d)" "y \<in> set (closures d)" for x y
    using that by (auto simp: distinct_map) (metis inj_onD)
  have "\<not> (c_resourceId x = k \<and> c_date x = date)" if x: "?mine x" "x \<in> set (closures d)" for x
  proof -
    obtain y where y: "find ?mine (closures d) = Some y"
      using x by (cases "find ?mine (closures d)") (auto simp: find_None_iff)
    then have "?mine y \<and> y \<in> set (closures d)" by (auto simp: find_Some_iff)
    then have "x = y" using one x by blast
    then show ?thesis using no e(2) y x by (auto simp: announced_in_def)
  qed
  then have "filter (\<lambda>x. c_resourceId x = k \<and> c_date x = date) (filter (\<lambda>x. \<not> ?mine x) (closures d)) =
      filter (\<lambda>x. c_resourceId x = k \<and> c_date x = date) (closures d)"
    by (auto simp: intro!: filter_cong)
  then show ?thesis by (simp add: seen_def e(1) delete_closures_def)
qed

lemma other_change_announced:
  assumes c: "other_change sv u rq e d d' evs" and d: "db_ok d" and u: "sql_uuid u = u"
    and path: "typed_canonically rq" and k: "k \<in> ids r_id (resources d)" and no: "\<not> announced_in evs k date"
  shows "seen d' k date = seen d k date"
proof (cases rq)
  case (PostBooking dto)
  then show ?thesis using c create_announced [OF d _ no] by (auto simp: other_change_def)
next
  case (PostResource dto)
  with c obtain r where r: "insert_resource r d = Inr d'"
    by (auto simp: other_change_def create_resource_def reload_resource_def map_sum_Inr_iff
        split: option.splits sum.splits)
  obtain x where "row_at r_id k (resources d) = Some x"
    using k row_at_None [of r_id k "resources d"] by (auto simp: ids_def)
  then show ?thesis unfolding insert_resource_keeps(2) [OF d r] by (simp add: seen_def row_at_append)
next
  case (PatchResource j dto)
  then show ?thesis using c update_announced [OF d _ no] by (auto simp: other_change_def)
next
  case (PatchResourceStatus j st)
  then show ?thesis using c status_announced [OF d _ no] by (auto simp: other_change_def)
next
  case (PostClosure j dto)
  then show ?thesis using c path closure_announced [OF d _ _ no] by (auto simp: other_change_def)
next
  case (DeleteResourceClosure j cl)
  then show ?thesis using c path reopening_announced [OF d _ _ no] by (auto simp: other_change_def)
next
  case (PatchUserRole j role)
  with c obtain x where "updateRole u j role e d = Inr (x, d')" by (auto simp: other_change_def)
  from updateRole_Inr(3) [OF d u this] show ?thesis by (intro seen_other_tables) auto
next
  case (PatchUserStatus j active)
  with c obtain x where "updateStatus_user u j active e d = Inr (x, d', evs)" by (auto simp: other_change_def)
  from updateStatus_Inr(3) [OF d u this] show ?thesis by (intro seen_other_tables) auto
qed (use c in \<open>simp_all add: other_change_def\<close>)

lemma availability_change_announced:
  assumes "reachable sv (now, d)" "env_sound now e d" "serve sv cookies rq e d = Inr (d', evs)"
    "typed_canonically rq" "k \<in> ids r_id (resources d)" "sql_uuid k = k"
    "resources_findAvailability isUUID isDateString k date e0 d' \<noteq>
     resources_findAvailability isUUID isDateString k date e0 d"
  shows "AvailabilityChanged k date \<in> set evs \<or> ResourceChanged k \<in> set evs"
proof (rule ccontr)
  assume "\<not> ?thesis"
  then have no: "\<not> announced_in evs k date" by (simp add: announced_in_def)
  have ok: "campus_ok (clock e, d)"
    using reachable_ok [OF assms(1)] assms(2) by (auto simp: env_sound_def intro: campus_ok_later)
  then have d: "db_ok d" "db_lived (clock e) d" by (simp_all add: campus_ok_def)
  have "sys_step sv (now, d) (clock e, d')" using assms(2,3) by (rule sys_step.answered)
  from step_keeps_campus [OF this reachable_ok [OF assms(1)]] have d': "db_ok d'" by (simp add: campus_ok_def)
  from assms(3) have "seen d' k date = seen d k date"
  proof (cases rule: serve_cases)
    case (registered body s)
    from register_account_Inr(2) [OF d(1) registered(3)] show ?thesis by (intro seen_other_tables) auto
  next
    case (operated u op b)
    have "known_user d (u_id u)" using operated(2) by (auto simp: known_user_def ids_def)
    then have "op_sound op e d" using operated(6,8) assms(2) by (auto simp: env_sound_def intro: booking_op_sound)
    from lifecycle_announced [OF d this operated(7) no] show ?thesis .
  next
    case (changed u)
    from other_change_announced [OF changed(6) d(1) changed(3) assms(4,5) no] show ?thesis .
  qed
  then show False using assms(7) availability_seen [OF d(1) d' assms(6)] by simp
qed

text \<open>C17: Nobody is left looking at old availability: when a request is answered after which the
availability of an existing resource on a date is no longer what it was at the same instant, the
request has announced that resource and date, or that resource, as long as a closure's path spells
the identifier in lower case.\<close>

theorem changes_are_announced:
  assumes "reachable sv (now, d)" "env_sound now e d" "serve sv cookies rq e d = Inr (d', evs)"
    "typed_canonically rq" "k \<in> ids r_id (resources d)" "sql_uuid k = k"
    "resources_findAvailability isUUID isDateString k date e0 d' \<noteq>
     resources_findAvailability isUUID isDateString k date e0 d"
  shows "AvailabilityChanged k date \<in> set evs \<or> ResourceChanged k \<in> set evs"
  using assms by (rule availability_change_announced)

text \<open>C19: A closure posted under the resource's identifier in capitals is stored for the resource, but
announced for the text that was typed, so to nobody who asked for the resource's own identifier.\<close>

theorem capitals_go_unannounced:
  assumes "db_ok d" "createClosure k dto e d = Inr (c, d', evs)" "sql_uuid k \<noteq> k"
  shows "closed_on d' (sql_uuid k) (cc_date dto) \<and> evs = [AvailabilityChanged k (cc_date dto)] \<and>
    \<not> announced_in evs (sql_uuid k) (cc_date dto)"
proof -
  obtain c' where i: "insert_closure c' d = Inr d'" "c_resourceId c' = sql_uuid k" "c_date c' = cc_date dto"
    "evs = [AvailabilityChanged k (cc_date dto)]"
    using assms(2) by (auto simp: createClosure_def Let_def split: option.splits sum.splits)
  then show ?thesis
    using assms(3) unfolding insert_closure_keeps(2) [OF assms(1) i(1)]
    by (auto simp: closed_on_def announced_in_def)
qed

end
