(* ===== verification/EventProps.thy ===== *)
theory EventProps
  imports Events Announcements
begin

text \<open>
  The properties of the gateway: rooms stay capped, admitted sockets expire, deactivated accounts are
  disconnected (unless their connection is still being handled), and whoever watches a resource and
  date gets a message when its availability changes.
\<close>

section \<open>Sockets through a run\<close>

lemma disconnect_sockets:
  "gw_sockets (disconnect sid gw) = filter (\<lambda>s. sk_id s \<noteq> sid) (gw_sockets gw)"
  "gw_pending (disconnect sid gw) = gw_pending gw"
  "connected sid gw \<Longrightarrow> gw_timers (disconnect sid gw) = filter (\<lambda>t. fst t \<noteq> sid) (gw_timers gw)"
  "\<not> connected sid gw \<Longrightarrow> disconnect sid gw = gw"
proof -
  have "\<forall>s\<in>set (gw_sockets gw). sk_id s \<noteq> sid" if "\<not> connected sid gw" using that by (auto simp: connected_def)
  then show "gw_sockets (disconnect sid gw) = filter (\<lambda>s. sk_id s \<noteq> sid) (gw_sockets gw)"
    by (auto simp: disconnect_def handleDisconnect_def clearExpiry_def)
qed (simp_all add: disconnect_def handleDisconnect_def clearExpiry_def)

lemma fold_disconnect_sockets:
  "gw_sockets (fold disconnect sids gw) = filter (\<lambda>s. sk_id s \<notin> set sids) (gw_sockets gw)"
  "gw_pending (fold disconnect sids gw) = gw_pending gw"
  by (induction sids arbitrary: gw) (auto simp: disconnect_sockets intro: filter_cong)

lemma fold_disconnect_timers:
  "set (gw_timers (fold disconnect sids gw)) =
    {t \<in> set (gw_timers gw). \<not> (fst t \<in> set sids \<and> connected (fst t) gw)}"
proof (induction sids arbitrary: gw)
  case (Cons sid sids)
  have c: "connected k (disconnect sid gw) \<longleftrightarrow> connected k gw \<and> k \<noteq> sid" for k
    by (auto simp: connected_def disconnect_sockets)
  show ?case
    by (cases "connected sid gw") (auto simp: Cons c disconnect_sockets(3,4))
qed simp

lemma disconnectUser_sockets:
  assumes "distinct (map sk_id (gw_sockets gw))"
  shows "gw_sockets (disconnectUser k gw) = filter (\<lambda>s. userRoom k \<notin> set (sk_rooms s)) (gw_sockets gw)"
  unfolding disconnectUser_def fold_disconnect_sockets
proof (rule filter_cong)
  fix s assume s: "s \<in> set (gw_sockets gw)"
  show "(sk_id s \<notin> set (map sk_id (filter (\<lambda>s. userRoom k \<in> set (sk_rooms s)) (gw_sockets gw)))) =
      (userRoom k \<notin> set (sk_rooms s))"
    using s assms by (auto simp: distinct_map dest: inj_onD)
qed simp

text \<open>What a step makes of the sockets, apart from opening one.\<close>

definition touched :: "(socket \<Rightarrow> socket) \<Rightarrow> bool" where
  "touched f \<longleftrightarrow> (\<forall>s. sk_id (f s) = sk_id s)"

lemma joinCapped_cases:
  "joinCapped sid room pfx limit gw = gw \<or>
    (\<exists>s. row_at sk_id sid (gw_sockets gw) = Some s \<and>
       length (filter (\<lambda>r. js_startsWith r pfx) (sk_rooms s)) < limit \<and>
       joinCapped sid room pfx limit gw = patch_socket sid (join_room room) gw)"
  by (auto simp: joinCapped_def Let_def split: option.splits)

lemma patch_socket_set:
  "s \<in> set (gw_sockets (patch_socket sid f gw)) \<longleftrightarrow>
    (\<exists>x\<in>set (gw_sockets gw). s = (if sk_id x = sid then f x else x))"
  by (auto simp: patch_socket_def set_patch_row)

lemma patch_socket_frame [simp]:
  "gw_timers (patch_socket sid f gw) = gw_timers gw" "gw_pending (patch_socket sid f gw) = gw_pending gw"
  by (simp_all add: patch_socket_def)

lemma patch_socket_ids:
  "touched f \<Longrightarrow> map sk_id (gw_sockets (patch_socket sid f gw)) = map sk_id (gw_sockets gw)"
  by (simp add: touched_def patch_socket_def patch_row_keys)

lemma touched_room [simp]: "touched (join_room room)" "touched (leave_room room)"
  by (simp_all add: touched_def join_room_def leave_room_def)

lemma scheduleExpiry_sockets [simp]: "gw_sockets (scheduleExpiry sid exp now gw) = gw_sockets gw"
  "gw_pending (scheduleExpiry sid exp now gw) = gw_pending gw"
  by (auto simp: scheduleExpiry_def clearExpiry_def Let_def split: option.splits)

section \<open>Rooms stay capped\<close>

definition capped :: "socket \<Rightarrow> bool" where
  "capped s \<longleftrightarrow>
     length (filter (\<lambda>r. js_startsWith r AVAILABILITY_ROOM_PREFIX) (sk_rooms s)) \<le> 20 \<and>
     length (filter (\<lambda>r. js_startsWith r DASHBOARD_ROOM_PREFIX) (sk_rooms s)) \<le> 20"

lemma room_prefixes:
  "js_startsWith (availability_room k date) AVAILABILITY_ROOM_PREFIX"
  "\<not> js_startsWith (availability_room k date) DASHBOARD_ROOM_PREFIX"
  "js_startsWith (dashboard_room date) DASHBOARD_ROOM_PREFIX"
  "\<not> js_startsWith (dashboard_room date) AVAILABILITY_ROOM_PREFIX"
  "\<not> js_startsWith (userRoom u) AVAILABILITY_ROOM_PREFIX"
  "\<not> js_startsWith (userRoom u) DASHBOARD_ROOM_PREFIX"
  by (simp_all add: js_startsWith_def availability_room_def dashboard_room_def userRoom_def
      AVAILABILITY_ROOM_PREFIX_def DASHBOARD_ROOM_PREFIX_def)

lemma capped_leave: "capped s \<Longrightarrow> capped (leave_room room s)"
proof -
  have "length (filter P (removeAll room xs)) \<le> length (filter P xs)" for P and xs :: "string list"
    by (induction xs) auto
  then show "capped s \<Longrightarrow> capped (leave_room room s)"
    by (auto simp: capped_def leave_room_def intro: le_trans)
qed

lemma capped_user: "capped s \<Longrightarrow> capped (join_room (userRoom u) (s\<lparr>sk_userId := x\<rparr>))"
  by (simp add: capped_def join_room_def room_prefixes)

definition rooms_inv :: "gateway \<Rightarrow> bool" where
  "rooms_inv gw \<longleftrightarrow> distinct (map sk_id (gw_sockets gw)) \<and> (\<forall>s\<in>set (gw_sockets gw). capped s)"

lemma rooms_inv_patch: "rooms_inv gw \<Longrightarrow> touched f \<Longrightarrow> (\<And>s. s \<in> set (gw_sockets gw) \<Longrightarrow> sk_id s = sid \<Longrightarrow> capped (f s)) \<Longrightarrow>
    rooms_inv (patch_socket sid f gw)"
  by (auto simp: rooms_inv_def patch_socket_ids patch_socket_set)

lemma rooms_inv_filter: "rooms_inv gw \<Longrightarrow> gw_sockets gw' = filter P (gw_sockets gw) \<Longrightarrow> rooms_inv gw'"
  by (auto simp: rooms_inv_def distinct_map_filter)

lemma rooms_inv_same: "rooms_inv gw \<Longrightarrow> gw_sockets gw' = gw_sockets gw \<Longrightarrow> rooms_inv gw'"
  by (simp add: rooms_inv_def)

lemma rooms_inv_join:
  assumes "rooms_inv gw" and room: "\<And>s. length (filter (\<lambda>r. js_startsWith r pfx) (sk_rooms s)) < 20 \<Longrightarrow> capped s \<Longrightarrow>
    capped (join_room room s)"
  shows "rooms_inv (joinCapped sid room pfx 20 gw)"
  using joinCapped_cases [of sid room pfx 20 gw]
proof (elim disjE exE conjE)
  fix c
  assume c: "row_at sk_id sid (gw_sockets gw) = Some c" "length (filter (\<lambda>r. js_startsWith r pfx) (sk_rooms c)) < 20"
    and j: "joinCapped sid room pfx 20 gw = patch_socket sid (join_room room) gw"
  have m: "c \<in> set (gw_sockets gw)" "sk_id c = sid" using c(1) by (auto dest: row_at_SomeD)
  have "s = c" if "s \<in> set (gw_sockets gw)" "sk_id s = sid" for s
    using assms(1) m that by (auto simp: rooms_inv_def distinct_map dest: inj_onD)
  then show ?thesis
    unfolding j using assms(1) m by (intro rooms_inv_patch) (auto simp: rooms_inv_def intro: room c(2))
qed (use assms(1) in simp)

lemma joined_capped:
  "length (filter (\<lambda>r. js_startsWith r AVAILABILITY_ROOM_PREFIX) (sk_rooms s)) < 20 \<Longrightarrow> capped s \<Longrightarrow>
    capped (join_room (availability_room k date) s)"
  "length (filter (\<lambda>r. js_startsWith r DASHBOARD_ROOM_PREFIX) (sk_rooms s)) < 20 \<Longrightarrow> capped s \<Longrightarrow>
    capped (join_room (dashboard_room date) s)"
  by (simp_all add: capped_def join_room_def room_prefixes)

text \<open>Identifiers of sockets are not names of rooms.\<close>

definition plain_open :: "gw_event \<Rightarrow> bool" where
  "plain_open ev \<longleftrightarrow>
     (case ev of Opened sid \<Rightarrow> \<not> js_startsWith sid AVAILABILITY_ROOM_PREFIX \<and> \<not> js_startsWith sid DASHBOARD_ROOM_PREFIX \<and>
         \<not> js_startsWith sid ''user:''
      | _ \<Rightarrow> True)"

lemma rooms_inv_step:
  assumes "rooms_inv gw" "plain_open ev"
  shows "rooms_inv (gw_step decode sv ev gw)"
proof (cases ev)
  case (Opened sid)
  with assms show ?thesis
    by (auto simp: rooms_inv_def connected_def capped_def plain_open_def)
next
  case (Checked sid header d)
  with assms(1) show ?thesis
    by (auto intro: rooms_inv_filter [OF _ disconnect_sockets(1)] rooms_inv_same split: option.splits)
next
  case (Joined sid now)
  show ?thesis
  proof (cases "map_of (gw_pending gw) sid")
    case (Some p)
    obtain u exp where p: "p = (u, exp)" by (cases p)
    have "rooms_inv (patch_socket sid (\<lambda>s. join_room (userRoom u) (s\<lparr>sk_userId := Some u\<rparr>)) gw')"
      if "rooms_inv gw'" for gw'
      by (rule rooms_inv_patch [OF that]) (use that in \<open>auto simp: touched_def rooms_inv_def intro: capped_user, simp add: join_room_def\<close>)
    moreover have "rooms_inv (gw\<lparr>gw_pending := filter (\<lambda>p. fst p \<noteq> sid) (gw_pending gw)\<rparr>)"
      using assms(1) by (simp add: rooms_inv_def)
    ultimately show ?thesis
      unfolding Joined gw_step.simps Some p option.case prod.case connect_join_def
      by (intro rooms_inv_same [OF _ scheduleExpiry_sockets(1)]) blast
  qed (use Joined assms(1) in simp)
next
  case (JoinAvailability sid payload)
  with assms(1) show ?thesis
    by (auto simp: handleJoinAvailability_def MAX_AVAILABILITY_ROOMS_PER_SOCKET_def split: option.splits
        intro!: rooms_inv_join joined_capped)
next
  case (JoinDashboard sid payload)
  with assms(1) show ?thesis
    by (auto simp: handleJoinDashboard_def MAX_DASHBOARD_ROOMS_PER_SOCKET_def split: option.splits
        intro!: rooms_inv_join joined_capped)
next
  case (LeaveAvailability sid payload)
  with assms(1) show ?thesis
    by (auto simp: handleLeaveAvailability_def split: option.splits intro!: rooms_inv_patch capped_leave)
      (auto simp: rooms_inv_def)
next
  case (LeaveDashboard sid payload)
  with assms(1) show ?thesis
    by (auto simp: handleLeaveDashboard_def split: option.splits intro!: rooms_inv_patch capped_leave)
      (auto simp: rooms_inv_def)
next
  case (Published e)
  then show ?thesis
    using assms(1) by (cases e) (auto simp: disconnectUser_def intro: rooms_inv_filter [OF _ fold_disconnect_sockets(1)])
next
  case (TimerFired sid)
  have "rooms_inv (clearExpiry sid gw)" using assms(1) by (simp add: rooms_inv_def clearExpiry_def)
  then have "rooms_inv (disconnect sid (clearExpiry sid gw))" by (rule rooms_inv_filter [OF _ disconnect_sockets(1)])
  then show ?thesis using assms(1) TimerFired by simp
qed (use assms(1) in \<open>auto intro: rooms_inv_filter [OF _ disconnect_sockets(1)]\<close>)

lemma rooms_inv_run: "list_all plain_open evs \<Longrightarrow> rooms_inv (gw_run decode sv evs no_sockets)"
  unfolding gw_run_def
  by (rule fold_invariant [where Q = plain_open])
    (simp_all add: list_all_iff rooms_inv_step, simp add: rooms_inv_def no_sockets_def)

text \<open>C23: Whatever messages sockets send, in whatever order, a socket is never in more than twenty rooms of
resources and dates and never in more than twenty dashboard rooms, and no two sockets have the same
identifier; and a join below the cap is carried out.\<close>

theorem rooms_stay_capped:
  assumes "list_all plain_open evs" "s \<in> set (gw_sockets (gw_run decode sv evs no_sockets))"
  shows "length (filter (\<lambda>r. js_startsWith r ''availability:'') (sk_rooms s)) \<le> 20 \<and>
    length (filter (\<lambda>r. js_startsWith r ''dashboard:availability:'') (sk_rooms s)) \<le> 20 \<and>
    row_at sk_id (sk_id s) (gw_sockets (gw_run decode sv evs no_sockets)) = Some s \<and>
    (availabilitySubscription sv payload = Some (k, date) \<and>
        length (filter (\<lambda>r. js_startsWith r ''availability:'') (sk_rooms s)) < 20 \<longrightarrow>
      (\<exists>x\<in>set (gw_sockets (gw_step decode sv (JoinAvailability (sk_id s) payload) (gw_run decode sv evs no_sockets))).
         sk_id x = sk_id s \<and> availability_room k date \<in> set (sk_rooms x)))"
proof -
  let ?gw = "gw_run decode sv evs no_sockets"
  have inv: "rooms_inv ?gw" using assms(1) by (rule rooms_inv_run)
  then have row: "row_at sk_id (sk_id s) (gw_sockets ?gw) = Some s"
    using assms(2) by (auto simp: rooms_inv_def intro: row_at_mem)
  have "\<exists>x\<in>set (gw_sockets (gw_step decode sv (JoinAvailability (sk_id s) payload) ?gw)).
      sk_id x = sk_id s \<and> availability_room k date \<in> set (sk_rooms x)"
    if "availabilitySubscription sv payload = Some (k, date)"
      "length (filter (\<lambda>r. js_startsWith r ''availability:'') (sk_rooms s)) < 20"
  proof (cases "availability_room k date \<in> set (sk_rooms s)")
    case True
    then show ?thesis using that row assms(2) by (auto simp: handleJoinAvailability_def joinCapped_def)
  next
    case False
    have "gw_step decode sv (JoinAvailability (sk_id s) payload) ?gw =
        patch_socket (sk_id s) (join_room (availability_room k date)) ?gw"
      using that row False
      by (simp add: handleJoinAvailability_def joinCapped_def AVAILABILITY_ROOM_PREFIX_def
          MAX_AVAILABILITY_ROOMS_PER_SOCKET_def Let_def)
    moreover have "join_room (availability_room k date) s \<in>
        set (gw_sockets (patch_socket (sk_id s) (join_room (availability_room k date)) ?gw))"
      unfolding patch_socket_set using assms(2) by (intro bexI [of _ s]) simp_all
    ultimately show ?thesis using False by (intro bexI [of _ "join_room (availability_room k date) s"]) (simp_all add: join_room_def)
  qed
  then show ?thesis
    using inv assms(2) row by (auto simp: rooms_inv_def capped_def AVAILABILITY_ROOM_PREFIX_def DASHBOARD_ROOM_PREFIX_def)
qed

section \<open>Admitted sockets expire\<close>

definition timed :: "gateway \<Rightarrow> bool" where
  "timed gw \<longleftrightarrow> (\<forall>s\<in>set (gw_sockets gw). sk_userId s \<noteq> None \<longrightarrow> (\<exists>t. (sk_id s, t) \<in> set (gw_timers gw)))"

lemma timed_disconnect: "timed gw \<Longrightarrow> timed (disconnect sid gw)"
  by (cases "connected sid gw") (auto simp: timed_def disconnect_sockets(1,3,4))

lemma timed_fold_disconnect: "timed gw \<Longrightarrow> timed (fold disconnect sids gw)"
  by (induction sids arbitrary: gw) (simp_all add: timed_disconnect)

lemma timed_patch: "timed gw \<Longrightarrow> (\<And>s. sk_id (f s) = sk_id s \<and> sk_userId (f s) = sk_userId s) \<Longrightarrow> timed (patch_socket sid f gw)"
  by (auto simp: timed_def patch_socket_set split: if_splits)

lemma timed_join: "timed gw \<Longrightarrow> timed (joinCapped sid room pfx limit gw)"
  using joinCapped_cases [of sid room pfx limit gw] by (auto simp: join_room_def intro!: timed_patch)

lemma scheduled:
  "set (gw_timers (scheduleExpiry sid (Some exp) now gw)) =
    insert (sid, now + min (max 0 (exp * 1000 - now)) MAX_TIMER_DELAY_MS) {t \<in> set (gw_timers gw). fst t \<noteq> sid}"
  by (auto simp: scheduleExpiry_def clearExpiry_def Let_def)

lemma timed_step: "timed gw \<Longrightarrow> timed (gw_step decode sv ev gw)"
proof (cases ev)
  case (Joined sid now)
  assume t: "timed gw"
  show ?thesis
  proof (cases "map_of (gw_pending gw) sid")
    case (Some p)
    obtain u exp where p: "p = (u, exp)" by (cases p)
    let ?gw = "gw\<lparr>gw_pending := filter (\<lambda>p. fst p \<noteq> sid) (gw_pending gw)\<rparr>"
    have "timed (connect_join sid u exp now ?gw)"
      unfolding timed_def connect_join_def scheduleExpiry_sockets scheduled patch_socket_frame
    proof (intro ballI impI)
      fix s assume s: "s \<in> set (gw_sockets (patch_socket sid (\<lambda>s. join_room (userRoom u) (s\<lparr>sk_userId := Some u\<rparr>)) ?gw))"
        "sk_userId s \<noteq> None"
      show "\<exists>t. (sk_id s, t) \<in> insert (sid, now + min (max 0 (exp * 1000 - now)) MAX_TIMER_DELAY_MS)
          {t \<in> set (gw_timers ?gw). fst t \<noteq> sid}"
        using s t by (cases "sk_id s = sid") (auto simp: patch_socket_set timed_def join_room_def split: if_splits)
    qed
    then show ?thesis by (simp add: Joined Some p)
  qed (use t Joined in simp)
next
  case (TimerFired sid)
  assume t: "timed gw"
  have "timed (disconnect sid (clearExpiry sid gw))"
    using t by (cases "connected sid gw")
      (auto simp: timed_def disconnect_sockets(1) disconnect_def handleDisconnect_def clearExpiry_def connected_def)
  then show ?thesis using t TimerFired by simp
next
  case (Published e)
  assume t: "timed gw"
  then show ?thesis using Published by (cases e) (simp_all add: disconnectUser_def timed_fold_disconnect)
next
  case (Checked sid header d)
  assume t: "timed gw"
  then have "timed (gw\<lparr>gw_pending := ps\<rparr>)" for ps by (simp add: timed_def)
  then show ?thesis using t Checked by (auto simp: timed_disconnect split: option.splits)
next
  case (Opened sid)
  assume "timed gw"
  then show ?thesis using Opened by (auto simp: timed_def)
qed (auto simp: timed_disconnect handleJoinAvailability_def handleLeaveAvailability_def handleJoinDashboard_def
    handleLeaveDashboard_def leave_room_def split: option.splits intro!: timed_join timed_patch)

text \<open>C24: At every moment every socket that was admitted for a user has a timer, and the timer of a socket
that joins is due exactly when its token expires (at once if it has expired already, after at most 2147483647
milliseconds if that is sooner) and disconnects it.\<close>

theorem admitted_sockets_expire:
  assumes "map_of (gw_pending (gw_run decode sv evs no_sockets)) sid = Some (k, exp)"
  defines "gw \<equiv> gw_run decode sv evs no_sockets"
  shows "(\<forall>s\<in>set (gw_sockets gw). sk_userId s \<noteq> None \<longrightarrow> (\<exists>t. (sk_id s, t) \<in> set (gw_timers gw))) \<and>
    {t. (sid, t) \<in> set (gw_timers (gw_step decode sv (Joined sid now) gw))} =
      {if exp * 1000 \<le> now then now else min (exp * 1000) (now + 2147483647)} \<and>
    \<not> connected sid (gw_step decode sv (TimerFired sid) (gw_step decode sv (Joined sid now) gw))"
proof (intro conjI)
  have "timed gw"
    unfolding gw_def gw_run_def
    by (rule fold_invariant [where Q = "\<lambda>_. True"]) (simp_all add: timed_step, simp add: timed_def no_sockets_def)
  then show "\<forall>s\<in>set (gw_sockets gw). sk_userId s \<noteq> None \<longrightarrow> (\<exists>t. (sk_id s, t) \<in> set (gw_timers gw))"
    by (simp add: timed_def)
  have "now + min (max 0 (exp * 1000 - now)) 2147483647 =
      (if exp * 1000 \<le> now then now else min (exp * 1000) (now + 2147483647))" by (simp add: min_def max_def)
  then have s: "set (gw_timers (gw_step decode sv (Joined sid now) gw)) =
      insert (sid, if exp * 1000 \<le> now then now else min (exp * 1000) (now + 2147483647)) {t \<in> set (gw_timers gw). fst t \<noteq> sid}"
    using assms(1) by (simp add: gw_def connect_join_def scheduled MAX_TIMER_DELAY_MS_def)
  then show "{t. (sid, t) \<in> set (gw_timers (gw_step decode sv (Joined sid now) gw))} =
      {if exp * 1000 \<le> now then now else min (exp * 1000) (now + 2147483647)}" by auto
  have "sid \<in> fst ` set (gw_timers (gw_step decode sv (Joined sid now) gw))" unfolding s by simp
  then have "gw_step decode sv (TimerFired sid) (gw_step decode sv (Joined sid now) gw) =
      disconnect sid (clearExpiry sid (gw_step decode sv (Joined sid now) gw))"
    unfolding gw_step.simps(9) by simp
  then show "\<not> connected sid (gw_step decode sv (TimerFired sid) (gw_step decode sv (Joined sid now) gw))"
    by (auto simp: connected_def disconnect_sockets(1))
qed

section \<open>Deactivated accounts\<close>

text \<open>No socket was admitted for the account or is in its room, and none is about to be.\<close>

definition shut_out :: "string \<Rightarrow> gateway \<Rightarrow> bool" where
  "shut_out k gw \<longleftrightarrow>
     (\<forall>s\<in>set (gw_sockets gw). userRoom k \<notin> set (sk_rooms s) \<and> sk_userId s \<noteq> Some k) \<and>
     (\<forall>p\<in>set (gw_pending gw). fst (snd p) \<noteq> k)"

definition still_inactive :: "string \<Rightarrow> gw_event \<Rightarrow> bool" where
  "still_inactive k ev \<longleftrightarrow>
     plain_open ev \<and>
     (case ev of Checked sid header d \<Rightarrow> \<forall>u\<in>set (users d). u_id u = k \<longrightarrow> \<not> u_isActive u | _ \<Rightarrow> True)"

lemma connect_check_Some:
  "connect_check decode sv header d = Some (k, exp) \<Longrightarrow> \<exists>u\<in>set (users d). u_id u = k \<and> u_isActive u"
  by (auto simp: connect_check_def findUserById_def dest!: row_at_SomeD split: option.splits if_splits)

lemma other_rooms:
  "userRoom k \<noteq> availability_room r date" "userRoom k \<noteq> dashboard_room date" "userRoom k = userRoom j \<longleftrightarrow> k = j"
  by (auto simp: userRoom_def availability_room_def dashboard_room_def AVAILABILITY_ROOM_PREFIX_def DASHBOARD_ROOM_PREFIX_def)

lemma shut_out_patch:
  "shut_out k gw \<Longrightarrow>
    (\<And>s. userRoom k \<notin> set (sk_rooms s) \<and> sk_userId s \<noteq> Some k \<Longrightarrow>
       userRoom k \<notin> set (sk_rooms (f s)) \<and> sk_userId (f s) \<noteq> Some k) \<Longrightarrow>
    shut_out k (patch_socket sid f gw)"
  by (auto simp: shut_out_def patch_socket_set split: if_splits)

lemma shut_out_joinCapped:
  "shut_out k gw \<Longrightarrow> room \<noteq> userRoom k \<Longrightarrow> shut_out k (joinCapped sid room pfx limit gw)"
  using joinCapped_cases [of sid room pfx limit gw] by (auto simp: join_room_def intro!: shut_out_patch split: if_splits)

lemma shut_out_disconnect: "shut_out k gw \<Longrightarrow> shut_out k (disconnect sid gw)"
  by (auto simp: shut_out_def disconnect_sockets(1,2))

lemma shut_out_fold_disconnect: "shut_out k gw \<Longrightarrow> shut_out k (fold disconnect sids gw)"
  by (induction sids arbitrary: gw) (simp_all add: shut_out_disconnect)

lemma shut_out_step:
  assumes "shut_out k gw" "still_inactive k ev"
  shows "shut_out k (gw_step decode sv ev gw)"
proof (cases ev)
  case (Opened sid)
  then have "userRoom k \<noteq> sid" using assms(2) by (auto simp: still_inactive_def plain_open_def userRoom_def js_startsWith_def)
  then show ?thesis using assms(1) Opened by (auto simp: shut_out_def)
next
  case (Checked sid header d)
  then have "connect_check decode sv header d \<noteq> Some (k, exp)" for exp
    using assms(2) connect_check_Some by (fastforce simp: still_inactive_def)
  then show ?thesis
    using assms(1) Checked by (auto simp: shut_out_disconnect shut_out_def [of k "gw\<lparr>gw_pending := _\<rparr>"] shut_out_def [of k gw]
        split: option.splits)
next
  case (Joined sid now)
  show ?thesis
  proof (cases "map_of (gw_pending gw) sid")
    case (Some p)
    obtain u exp where p: "p = (u, exp)" by (cases p)
    have "u \<noteq> k" using Some p assms(1) by (auto simp: shut_out_def dest!: map_of_SomeD)
    then have "shut_out k (patch_socket sid (\<lambda>s. join_room (userRoom u) (s\<lparr>sk_userId := Some u\<rparr>)) gw)"
      by (intro shut_out_patch [OF assms(1)]) (auto simp: join_room_def other_rooms split: if_splits)
    then show ?thesis
      using assms(1) by (auto simp: Joined Some p connect_join_def shut_out_def patch_socket_def)
  qed (use Joined assms(1) in simp)
next
  case (TimerFired sid)
  have "shut_out k (clearExpiry sid gw)" using assms(1) by (simp add: shut_out_def clearExpiry_def)
  then show ?thesis using assms(1) TimerFired by (simp add: shut_out_disconnect)
next
  case (Published e)
  then show ?thesis using assms(1) by (cases e) (simp_all add: disconnectUser_def shut_out_fold_disconnect)
qed (use assms(1) in \<open>auto simp: shut_out_disconnect handleJoinAvailability_def handleLeaveAvailability_def
    handleJoinDashboard_def handleLeaveDashboard_def leave_room_def split: option.splits
    intro!: shut_out_joinCapped shut_out_patch other_rooms(1,2) [symmetric]\<close>)

lemma shut_out_run: "shut_out k gw \<Longrightarrow> list_all (still_inactive k) evs \<Longrightarrow> shut_out k (gw_run decode sv evs gw)"
  unfolding gw_run_def by (induction evs arbitrary: gw) (simp_all add: shut_out_step)

text \<open>
  A socket is in the room of an account exactly when it was admitted for it, as long as the gateway handles
  each connection once: the handler runs once for a socket, so its identifier is checked once.
\<close>

fun checks :: "gw_event \<Rightarrow> string list" where
  "checks (Checked sid header d) = [sid]"
| "checks ev = []"

definition admitted_ok :: "string list \<Rightarrow> gateway \<Rightarrow> bool" where
  "admitted_ok checked gw \<longleftrightarrow>
     (\<forall>s\<in>set (gw_sockets gw). \<forall>k. userRoom k \<in> set (sk_rooms s) \<longleftrightarrow> sk_userId s = Some k) \<and>
     (\<forall>s\<in>set (gw_sockets gw). sk_userId s \<noteq> None \<longrightarrow> sk_id s \<in> set checked) \<and>
     distinct (map fst (gw_pending gw)) \<and> fst ` set (gw_pending gw) \<subseteq> set checked \<and>
     (\<forall>p\<in>set (gw_pending gw). \<forall>s\<in>set (gw_sockets gw). sk_id s = fst p \<longrightarrow> sk_userId s = None)"

lemma admitted_frame:
  assumes "admitted_ok checked gw" "gw_pending gw' = gw_pending gw"
    "\<And>s'. s' \<in> set (gw_sockets gw') \<Longrightarrow> \<exists>s\<in>set (gw_sockets gw). sk_id s' = sk_id s \<and> sk_userId s' = sk_userId s \<and>
      (\<forall>k. userRoom k \<in> set (sk_rooms s') \<longleftrightarrow> userRoom k \<in> set (sk_rooms s))"
  shows "admitted_ok checked gw'"
  unfolding admitted_ok_def assms(2)
proof (intro conjI ballI allI impI)
  fix s' assume "s' \<in> set (gw_sockets gw')"
  then obtain s where s: "s \<in> set (gw_sockets gw)" "sk_id s' = sk_id s" "sk_userId s' = sk_userId s"
    "\<forall>k. userRoom k \<in> set (sk_rooms s') \<longleftrightarrow> userRoom k \<in> set (sk_rooms s)" using assms(3) by blast
  show "userRoom k \<in> set (sk_rooms s') \<longleftrightarrow> sk_userId s' = Some k" for k
    using s assms(1) by (simp add: admitted_ok_def)
  show "sk_userId s' \<noteq> None \<Longrightarrow> sk_id s' \<in> set checked" using s assms(1) by (simp add: admitted_ok_def)
  show "sk_userId s' = None" if "p \<in> set (gw_pending gw)" "sk_id s' = fst p" for p
    using s assms(1) that by (simp add: admitted_ok_def)
qed (use assms(1) in \<open>simp_all add: admitted_ok_def\<close>)

lemma admitted_disconnect: "admitted_ok checked gw \<Longrightarrow> admitted_ok checked (disconnect sid gw)"
  by (rule admitted_frame) (auto simp: disconnect_sockets(1,2))

lemma admitted_rooms:
  assumes "admitted_ok checked gw" "\<And>s. sk_id (f s) = sk_id s \<and> sk_userId (f s) = sk_userId s \<and>
    (\<forall>k. userRoom k \<in> set (sk_rooms (f s)) \<longleftrightarrow> userRoom k \<in> set (sk_rooms s))"
  shows "admitted_ok checked (patch_socket sid f gw)"
  using assms by (intro admitted_frame [OF assms(1)]) (auto simp: patch_socket_set)

lemma room_moves:
  assumes "\<And>k. userRoom k \<noteq> room"
  shows "sk_id (join_room room s) = sk_id s \<and> sk_userId (join_room room s) = sk_userId s \<and>
      (\<forall>k. userRoom k \<in> set (sk_rooms (join_room room s)) \<longleftrightarrow> userRoom k \<in> set (sk_rooms s))"
    "sk_id (leave_room room s) = sk_id s \<and> sk_userId (leave_room room s) = sk_userId s \<and>
      (\<forall>k. userRoom k \<in> set (sk_rooms (leave_room room s)) \<longleftrightarrow> userRoom k \<in> set (sk_rooms s))"
  using assms by (auto simp: join_room_def leave_room_def)

lemma admitted_joinCapped:
  assumes "admitted_ok checked gw" "\<And>k. userRoom k \<noteq> room"
  shows "admitted_ok checked (joinCapped sid room pfx limit gw)"
proof -
  have "admitted_ok checked (patch_socket sid (join_room room) gw)"
    using assms(1) by (rule admitted_rooms) (rule room_moves(1) [OF assms(2)])
  then show ?thesis using joinCapped_cases [of sid room pfx limit gw] assms(1) by auto
qed

lemma admitted_step:
  assumes ok: "admitted_ok checked gw" and ev: "plain_open ev" and once: "distinct (checked @ checks ev)"
  shows "admitted_ok (checked @ checks ev) (gw_step decode sv ev gw)"
proof (cases ev)
  case (Opened sid)
  then have "userRoom k \<noteq> sid" for k using ev by (auto simp: plain_open_def userRoom_def js_startsWith_def)
  moreover have "s \<in> set (gw_sockets gw) \<Longrightarrow> sk_id s = sid \<Longrightarrow> connected sid gw" for s by (auto simp: connected_def)
  ultimately show ?thesis using ok Opened by (auto simp: admitted_ok_def)
next
  case (Checked sid header d)
  have more: "admitted_ok (checked @ [sid]) gw" using ok by (auto simp: admitted_ok_def)
  have new: "sid \<notin> set checked" using once Checked by simp
  show ?thesis
  proof (cases "connect_check decode sv header d")
    case None
    then show ?thesis using Checked more by (simp add: admitted_disconnect)
  next
    case (Some p)
    obtain u exp where p: "p = (u, exp)" by (cases p)
    have "sk_userId s = None" if "s \<in> set (gw_sockets gw)" "sk_id s = sid" for s
      using ok that new unfolding admitted_ok_def by blast
    moreover have "sid \<notin> fst ` set (gw_pending gw)" using ok new by (auto simp: admitted_ok_def)
    ultimately show ?thesis using Checked Some p more by (auto simp: admitted_ok_def)
  qed
next
  case (Joined sid now)
  show ?thesis
  proof (cases "map_of (gw_pending gw) sid")
    case None
    then show ?thesis using Joined ok by simp
  next
    case (Some p)
    obtain u exp where p: "p = (u, exp)" by (cases p)
    have mem: "(sid, u, exp) \<in> set (gw_pending gw)" using Some p by (auto dest: map_of_SomeD)
    let ?gw = "gw_step decode sv (Joined sid now) gw"
    have pending: "gw_pending ?gw = filter (\<lambda>p. fst p \<noteq> sid) (gw_pending gw)"
      by (simp add: Some p connect_join_def)
    have sockets: "s' \<in> set (gw_sockets ?gw) \<longleftrightarrow>
        (\<exists>s\<in>set (gw_sockets gw). s' = (if sk_id s = sid then join_room (userRoom u) (s\<lparr>sk_userId := Some u\<rparr>) else s))" for s'
      by (simp add: Some p connect_join_def patch_socket_def set_patch_row)
    have none: "sk_userId s = None \<and> (\<forall>k. userRoom k \<notin> set (sk_rooms s))" if "s \<in> set (gw_sockets gw)" "sk_id s = sid" for s
      using ok mem that by (fastforce simp: admitted_ok_def)
    have known: "sid \<in> set checked" using ok mem by (force simp: admitted_ok_def)
    have "admitted_ok checked ?gw"
      unfolding admitted_ok_def pending
    proof (intro conjI ballI allI impI)
      fix s' assume "s' \<in> set (gw_sockets ?gw)"
      then obtain s where s: "s \<in> set (gw_sockets gw)"
        "s' = (if sk_id s = sid then join_room (userRoom u) (s\<lparr>sk_userId := Some u\<rparr>) else s)" using sockets by blast
      show "userRoom k \<in> set (sk_rooms s') \<longleftrightarrow> sk_userId s' = Some k" for k
        using s none [OF s(1)] ok by (auto simp: admitted_ok_def join_room_def other_rooms(3))
      show "sk_userId s' \<noteq> None \<Longrightarrow> sk_id s' \<in> set checked"
        using s known ok by (auto simp: admitted_ok_def join_room_def split: if_splits)
      show "sk_userId s' = None" if "q \<in> set (filter (\<lambda>p. fst p \<noteq> sid) (gw_pending gw))" "sk_id s' = fst q" for q
        using s ok that by (auto simp: admitted_ok_def join_room_def split: if_splits)
    qed (use ok in \<open>auto simp: admitted_ok_def distinct_map_filter\<close>)
    then show ?thesis using Joined by simp
  qed
next
  case (TimerFired sid)
  have "admitted_ok checked (clearExpiry sid gw)" using ok by (simp add: admitted_ok_def clearExpiry_def)
  then show ?thesis using ok TimerFired by (simp add: admitted_disconnect)
next
  case (Published e)
  have "admitted_ok checked (disconnectUser k gw)" for k
    by (rule admitted_frame [OF ok]) (auto simp: disconnectUser_def fold_disconnect_sockets)
  then show ?thesis using ok Published by (cases e) simp_all
qed (use ok in \<open>auto simp: admitted_disconnect handleJoinAvailability_def handleLeaveAvailability_def
    handleJoinDashboard_def handleLeaveDashboard_def other_rooms(1,2) split: option.splits
    intro!: admitted_joinCapped admitted_rooms room_moves(2)\<close>)

lemma admitted_run:
  "list_all plain_open evs \<Longrightarrow> distinct (concat (map checks evs)) \<Longrightarrow>
   admitted_ok (concat (map checks evs)) (gw_run decode sv evs no_sockets)"
proof (induction evs rule: rev_induct)
  case (snoc ev evs)
  then show ?case using admitted_step [of "concat (map checks evs)" _ ev decode sv] by (simp add: gw_run_def)
qed (simp add: gw_run_def no_sockets_def admitted_ok_def)

text \<open>C22: When an account is deactivated while no connection of it is being handled, every socket that was admitted for the
account is disconnected, no other socket is, and as long as the account stays inactive no socket is
admitted for it again, whatever else happens at the gateway.\<close>

theorem deactivation_disconnects:
  assumes "list_all plain_open before" "distinct (concat (map checks before))"
    "\<forall>p\<in>set (gw_pending (gw_run decode sv before no_sockets)). fst (snd p) \<noteq> k"
    "list_all (still_inactive k) later"
  defines "gw \<equiv> gw_run decode sv before no_sockets"
  shows "(\<forall>s\<in>set (gw_sockets gw). s \<in> set (gw_sockets (gw_step decode sv (Published (UserDeactivated k)) gw)) \<longleftrightarrow>
      sk_userId s \<noteq> Some k) \<and>
    (\<forall>s\<in>set (gw_sockets (gw_run decode sv later (gw_step decode sv (Published (UserDeactivated k)) gw))).
      sk_userId s \<noteq> Some k \<and> userRoom k \<notin> set (sk_rooms s))"
proof -
  have "distinct (map sk_id (gw_sockets gw))" using rooms_inv_run [OF assms(1)] by (simp add: rooms_inv_def gw_def)
  note d = disconnectUser_sockets [OF this, of k]
  have room: "userRoom k \<in> set (sk_rooms s) \<longleftrightarrow> sk_userId s = Some k" if "s \<in> set (gw_sockets gw)" for s
    using admitted_run [OF assms(1,2), of decode sv] that by (simp add: admitted_ok_def gw_def)
  have "gw_pending (disconnectUser k gw) = gw_pending gw" by (simp add: disconnectUser_def fold_disconnect_sockets(2))
  then have "shut_out k (disconnectUser k gw)" using assms(3) room unfolding shut_out_def d by (auto simp: gw_def)
  then have "shut_out k (gw_run decode sv later (disconnectUser k gw))" using assms(4) by (rule shut_out_run)
  moreover have "s \<in> set (gw_sockets (disconnectUser k gw)) \<longleftrightarrow> sk_userId s \<noteq> Some k"
    if "s \<in> set (gw_sockets gw)" for s unfolding d using that room by simp
  ultimately show ?thesis by (simp add: shut_out_def)
qed

text \<open>C25: A deactivation between the two turns of a connection goes by unnoticed: the socket joins the room of
the deactivated account after the gateway has disconnected that room, and stays.\<close>

theorem late_join_survives_deactivation:
  assumes "connect_check decode sv header d = Some (k, exp)" "s \<in> set (gw_sockets gw)" "distinct (map sk_id (gw_sockets gw))"
    "userRoom k \<notin> set (sk_rooms s)" "map_of (gw_pending gw) (sk_id s) = None"
  shows "\<exists>x\<in>set (gw_sockets (gw_run decode sv
      [Checked (sk_id s) header d, Published (UserDeactivated k), Joined (sk_id s) now] gw)).
      sk_id x = sk_id s \<and> sk_userId x = Some k \<and> userRoom k \<in> set (sk_rooms x)"
proof -
  let ?g1 = "gw\<lparr>gw_pending := gw_pending gw @ [(sk_id s, k, exp)]\<rparr>"
  have p: "map_of (gw_pending (disconnectUser k ?g1)) (sk_id s) = Some (k, exp)"
    using assms(5) by (simp add: disconnectUser_def fold_disconnect_sockets(2) map_add_Some_iff)
  have "s \<in> set (gw_sockets (disconnectUser k ?g1))"
    using disconnectUser_sockets [of ?g1 k] assms(2-4) by simp
  then have "join_room (userRoom k) (s\<lparr>sk_userId := Some k\<rparr>) \<in>
      set (gw_sockets (gw_step decode sv (Joined (sk_id s) now) (disconnectUser k ?g1)))"
    by (auto simp: p connect_join_def patch_socket_set intro!: bexI [of _ s])
  then show ?thesis
    using assms(1,4) by (intro bexI [of _ "join_room (userRoom k) (s\<lparr>sk_userId := Some k\<rparr>)"])
      (simp_all add: gw_run_def join_room_def)
qed

section \<open>Whoever watches is told\<close>

lemma serve_one_event:
  assumes "serve sv cookies rq e d = Inr (d', evs)"
  shows "length evs \<le> 1"
  using assms
proof (cases rule: serve_cases)
  case (operated u op b)
  then show ?thesis
    by (cases op) (auto simp: approve_def reject_def review_def requestCheckIn_def confirmCheckIn_def checkOut_def
        markNoShow_def cancel_def map_sum_Inr_iff notify_booking_def quiet_booking_def split: option.splits if_splits)
next
  case (changed u)
  then show ?thesis
  proof (cases rq)
    case (PatchResourceStatus k st)
    with changed(6) obtain r x where "updateStatus_resource r st e d = Inr (x, d', evs)" by (auto simp: other_change_def)
    then show ?thesis by (auto simp: updateStatus_resource_def map_sum_Inr_iff split: option.splits if_splits sum.splits)
  qed (use changed(6) in \<open>auto simp: other_change_def create_booking_def create_resource_def update_resource_details_def
      createClosure_def deleteClosure_def updateStatus_user_def map_sum_Inr_iff Let_def
      split: option.splits if_splits sum.splits\<close>)
qed simp

text \<open>Who watches a resource on a date, or the dashboard of the date, gets a message of it.\<close>

lemma watchers_told:
  assumes "reachable sv (now, d)" "env_sound now e d" "serve sv cookies rq e d = Inr (d', evs)"
    "typed_canonically rq" "k \<in> ids r_id (resources d)" "sql_uuid k = k"
    "resources_findAvailability isUUID isDateString k date e0 d' \<noteq>
     resources_findAvailability isUUID isDateString k date e0 d"
    "s \<in> set (gw_sockets gw)"
    "availability_room k date \<in> set (sk_rooms s) \<or> dashboard_room date \<in> set (sk_rooms s)"
  shows "\<exists>(m, sids)\<in>set (fst (publish_all evs gw)). sk_id s \<in> set sids \<and>
    (m = notifyAvailabilityChanged k date \<or> m = notifyResourceChanged k)"
proof -
  have "evs = [AvailabilityChanged k date] \<or> evs = [ResourceChanged k]"
    using availability_change_announced [OF assms(1-7)] serve_one_event [OF assms(3)]
    by (cases evs) auto
  then show ?thesis
    using assms(8,9)
    by (auto simp: notifyAvailabilityChanged_def notifyResourceChanged_def recipients_def availability_room_def
        dashboard_room_def AVAILABILITY_ROOM_PREFIX_def DASHBOARD_ROOM_PREFIX_def)
qed

end
