(* ===== verification/CampusWitnesses.thy ===== *)
theory CampusWitnesses
  imports Announcements Samples
begin

text \<open>
  A run of the system, evaluated: a student registers on the seeded database and books a room, and
  the properties of the running system are applied to its states.
\<close>

section \<open>The run\<close>

definition run_verify :: "string \<Rightarrow> jwt_payload_timed option" where
  "run_verify token = Some \<lparr>jp_sub = token, jp_email = ''nam@usth.edu.vn'', jp_role = STUDENT, jp_iat = 0, jp_exp = 9\<rparr>"

definition run_services :: services where
  "run_services = \<lparr>sv_hash = (\<lambda>p. ''h''), sv_sign = (\<lambda>now. jp_sub), sv_verify = run_verify, sv_isUUID = (\<lambda>s. True),
     sv_isDateString = (\<lambda>s. True),
     sv_config = \<lparr>ac_expiresIn = ''1d'', ac_cookieName = ''access_token'',
       ac_cookie = \<lparr>co_maxAge = Some 5, co_httpOnly = True, co_secure = False, co_sameSite = ''lax'',
         co_path = ''/'', co_domain = None\<rparr>\<rparr>,
     sv_bootstrap = \<lparr>bs_admin = Some \<lparr>bc_email = ''head@usth.edu.vn'', bc_password = Some ''pw'', bc_fullName = ''Head''\<rparr>,
       bs_staff = None\<rparr>\<rparr>"

definition run_env :: "string \<Rightarrow> env" where
  "run_env k = \<lparr>clock = sample_now, clock_after = sample_now, db_now = sample_now, fresh_id = k, random_int = 123\<rparr>"

definition run_student :: user where
  "run_student = \<lparr>u_id = ''u1'', u_email = ''nam@usth.edu.vn'', u_passwordHash = ''h'', u_fullName = ''Nam'', u_role = STUDENT,
     u_isActive = True, u_createdAt = sample_now, u_updatedAt = sample_now\<rparr>"

definition run_registered :: db where
  "run_registered = (seeded_db 0)\<lparr>users := [run_student]\<rparr>"

definition run_register :: request where
  "run_register = PostRegister \<lparr>rg_email = ''nam@usth.edu.vn'', rg_password = ''long enough'', rg_fullName = ''Nam''\<rparr>"

lemma run_first: "serve run_services Map.empty run_register (run_env ''u1'') (seeded_db 0) = Inr (run_registered, [])"
  by code_simp

definition run_post :: request where
  "run_post = PostBooking \<lparr>cb_resourceId = ''20000000-0000-4000-8000-000000000001'', cb_date = ''2026-09-15'',
     cb_startTime = ''09:00'', cb_endTime = ''10:00''\<rparr>"

definition run_booking :: booking where
  "run_booking = (plain_booking ''k1'' ''20000000-0000-4000-8000-000000000001'' ''2026-09-15'' ''09:00:00'' ''10:00:00'' CONFIRMED)
     \<lparr>b_createdAt := sample_now, b_updatedAt := sample_now\<rparr>"

definition run_booked :: db where
  "run_booked = run_registered\<lparr>bookings := [run_booking]\<rparr>"

lemma run_second: "serve run_services [''access_token'' \<mapsto> ''u1''] run_post (run_env ''k1'') run_registered =
  Inr (run_booked, [AvailabilityChanged ''20000000-0000-4000-8000-000000000001'' ''2026-09-15''])"
  by code_simp

lemma run_env_sound:
  "env_sound sample_now (run_env ''u1'') (seeded_db 0)" "env_sound sample_now (run_env ''k1'') run_registered"
  "env_sound sample_now (run_env ''n9'') run_booked"
  by (simp_all add: env_sound_def run_env_def sample_now_def campus_era_def ids_def seeded_db_def run_registered_def
      run_booked_def run_student_def)

lemma run_clock [simp]: "clock (run_env k) = sample_now"
  by (simp add: run_env_def)

lemma run_steps:
  "sys_step run_services (sample_now, seeded_db 0) (sample_now, run_registered)"
  "sys_step run_services (sample_now, run_registered) (sample_now, run_booked)"
  using sys_step.answered [OF run_env_sound(1) run_first] sys_step.answered [OF run_env_sound(2) run_second]
  by simp_all

lemma run_reachable: "reachable run_services (sample_now, run_registered)" "reachable run_services (sample_now, run_booked)"
proof -
  have era: "campus_era sample_now" by code_simp
  from run_steps have "(sys_step run_services)\<^sup>*\<^sup>* (sample_now, seeded_db 0) (sample_now, run_booked)" by auto
  then show "reachable run_services (sample_now, run_booked)" using era unfolding reachable_def by blast
  show "reachable run_services (sample_now, run_registered)"
    using era run_steps(1) unfolding reachable_def by blast
qed

lemma run_booking_row: "bookings run_booked = [run_booking]"
  by (simp add: run_booked_def)

section \<open>The properties\<close>

theorem reachable_states_serve_witness:
  "\<exists>r\<in>set (resources run_booked). r_id r = b_resourceId run_booking \<and> r_status r = ACTIVE"
proof -
  have "b_status run_booking \<in> {PENDING, CONFIRMED} \<and> sample_now < booking_end run_booking" by code_simp
  moreover have "run_booking \<in> set (bookings run_booked)" by (simp add: run_booking_row)
  ultimately show ?thesis using reachable_states_serve [OF run_reachable(2)] by blast
qed

theorem bookings_only_move_forward_witness:
  "\<exists>d' b'. sys_step run_services (sample_now, run_booked) (sample_now + 60000, d') \<and> b' \<in> set (bookings d') \<and>
     same_slot run_booking b'"
proof -
  have "sample_now \<le> sample_now + 60000" "campus_era (sample_now + 60000)" by code_simp+
  then have s: "sys_step run_services (sample_now, run_booked) (sample_now + 60000, run_booked)"
    by (rule sys_step.waited)
  then have "(sys_step run_services)\<^sup>*\<^sup>* (sample_now, run_booked) (sample_now + 60000, run_booked)" by blast
  from bookings_only_move_forward [OF run_reachable(2) this] s show ?thesis by (auto simp: run_booking_row)
qed

definition run_cancelled :: booking where
  "run_cancelled = run_booking\<lparr>b_status := CANCELLED, b_cancelledAt := Some sample_now\<rparr>"

lemma run_third:
  "serve run_services [''access_token'' \<mapsto> ''u1''] (PatchMyCancel ''k1'') (run_env ''n9'') run_booked =
    Inr (run_booked\<lparr>bookings := [run_cancelled]\<rparr>,
      [AvailabilityChanged ''20000000-0000-4000-8000-000000000001'' ''2026-09-15''])"
  by code_simp

theorem who_moves_bookings_witness:
  "\<exists>u. guarded run_verify (sv_config run_services) student_bookings_route [''access_token'' \<mapsto> ''u1''] run_booked =
      Inr (Some u) \<and> u_role u = STUDENT \<and> b_requesterId run_booking = u_id u"
proof -
  have row: "run_booking \<in> set (bookings run_booked)" by (simp add: run_booking_row)
  have "b_id run_cancelled = b_id run_booking" "b_status run_cancelled = CANCELLED" "b_status run_booking = CONFIRMED"
    by (simp_all add: run_cancelled_def run_booking_def plain_booking_def)
  then show ?thesis
    using who_moves_bookings [OF run_reachable(2) run_env_sound(3) run_third row, of run_cancelled]
    by (auto simp: run_services_def)
qed

lemma run_canonical:
  "typed_canonically run_post" "''20000000-0000-4000-8000-000000000001'' \<in> ids r_id (resources run_registered)"
  "sql_uuid ''20000000-0000-4000-8000-000000000001'' = ''20000000-0000-4000-8000-000000000001''"
proof -
  show "''20000000-0000-4000-8000-000000000001'' \<in> ids r_id (resources run_registered)"
    by (simp add: run_registered_def seeded_db_def seeded_resources_def ids_def)
  show "sql_uuid ''20000000-0000-4000-8000-000000000001'' = ''20000000-0000-4000-8000-000000000001''" by code_simp
qed (simp add: run_post_def)

lemma run_availability_differs:
  "resources_findAvailability (\<lambda>_. True) (\<lambda>_. True) ''20000000-0000-4000-8000-000000000001'' ''2026-09-15'' sample_env run_booked \<noteq>
   resources_findAvailability (\<lambda>_. True) (\<lambda>_. True) ''20000000-0000-4000-8000-000000000001'' ''2026-09-15'' sample_env run_registered"
proof -
  let ?k = "''20000000-0000-4000-8000-000000000001''"
  have "map_sum (\<lambda>_. ()) (\<lambda>a. length (av_slots a))
      (resources_findAvailability (\<lambda>_. True) (\<lambda>_. True) ?k ''2026-09-15'' sample_env run_booked) \<noteq>
    map_sum (\<lambda>_. ()) (\<lambda>a. length (av_slots a))
      (resources_findAvailability (\<lambda>_. True) (\<lambda>_. True) ?k ''2026-09-15'' sample_env run_registered)"
    by code_simp
  then show ?thesis by metis
qed

theorem changes_are_announced_witness:
  "\<exists>evs. serve run_services [''access_token'' \<mapsto> ''u1''] run_post (run_env ''k1'') run_registered = Inr (run_booked, evs) \<and>
     (AvailabilityChanged ''20000000-0000-4000-8000-000000000001'' ''2026-09-15'' \<in> set evs \<or>
      ResourceChanged ''20000000-0000-4000-8000-000000000001'' \<in> set evs)"
  using changes_are_announced [OF run_reachable(1) run_env_sound(2) run_second run_canonical run_availability_differs]
    run_second by blast

theorem capitals_go_unannounced_witness:
  "\<exists>c d'. createClosure ''R2'' \<lparr>cc_date = ''2026-09-17'', cc_reason = ''Works''\<rparr> sample_env sample_db =
     Inr (c, d', [AvailabilityChanged ''R2'' ''2026-09-17'']) \<and> closed_on d' ''r2'' ''2026-09-17''"
proof -
  let ?dto = "\<lparr>cc_date = ''2026-09-17'', cc_reason = ''Works''\<rparr>"
  have "succeeds (createClosure ''R2'' ?dto sample_env sample_db)" by code_simp
  then obtain c d' evs where c: "createClosure ''R2'' ?dto sample_env sample_db = Inr (c, d', evs)"
    by (auto simp: succeeds_iff)
  have k: "sql_uuid ''R2'' = ''r2''" by code_simp
  then have "sql_uuid ''R2'' \<noteq> ''R2''" by simp
  from capitals_go_unannounced [OF sample_db_ok c this] c k show ?thesis by auto
qed

definition run_admin :: user where
  "run_admin = \<lparr>u_id = ''a1'', u_email = ''head@usth.edu.vn'', u_passwordHash = ''h'', u_fullName = ''Head'', u_role = ADMIN,
     u_isActive = True, u_createdAt = sample_now, u_updatedAt = sample_now\<rparr>"

lemma run_restart:
  "onApplicationBootstrap (sv_hash run_services) (sv_bootstrap run_services) (run_env ''a1'') (run_env ''a2'') (seeded_db 0) =
    Inr ((seeded_db 0)\<lparr>users := [run_admin]\<rparr>)"
  by code_simp

theorem campus_keeps_an_administrator_witness:
  "\<exists>d'. sys_step run_services (sample_now, seeded_db 0) (sample_now, d') \<and> (\<exists>u\<in>set (users d'). active_admin u)"
proof -
  let ?d = "(seeded_db 0)\<lparr>users := [run_admin]\<rparr>"
  have e: "env_sound sample_now (run_env ''a1'') (seeded_db 0)" "env_sound (clock (run_env ''a1'')) (run_env ''a2'') (seeded_db 0)"
    "fresh_id (run_env ''a1'') \<noteq> fresh_id (run_env ''a2'')"
    by (simp_all add: env_sound_def run_env_def sample_now_def campus_era_def ids_def seeded_db_def)
  have s: "sys_step run_services (sample_now, seeded_db 0) (sample_now, ?d)"
    using sys_step.restarted [OF e run_restart] by simp
  then have "reachable run_services (sample_now, ?d)"
    unfolding reachable_def by (intro exI [of _ sample_now] exI [of _ 0]) (auto simp: campus_era_def sample_now_def)
  moreover have "\<exists>u\<in>set (users ?d). active_admin u" by (simp add: run_admin_def active_admin_def)
  ultimately have "\<exists>u\<in>set (users ?d). active_admin u"
    using campus_keeps_an_administrator [where now' = sample_now and d' = ?d] by blast
  with s show ?thesis by blast
qed

end
