(* ===== verification/EventWitnesses.thy ===== *)
theory EventWitnesses
  imports EventProps CampusWitnesses
begin

text \<open>
  The properties of the gateway applied to concrete inputs: one student's socket that opens, is
  admitted, watches a room on a date, expires and is disconnected.
\<close>

definition one_student :: db where
  "one_student = \<lparr>users = [run_student], buildings = [], resources = [], closures = [], bookings = []\<rparr>"

definition watch_body :: json where
  "watch_body = JObject [(''resourceId'', JText ''r2''), (''date'', JText ''2026-09-15'')]"

definition arrival :: "gw_event list" where
  "arrival = [Opened ''s1'', JoinAvailability ''s1'' watch_body]"

definition watching :: socket where
  "watching = \<lparr>sk_id = ''s1'', sk_rooms = [''s1'', ''availability:r2:2026-09-15''], sk_userId = None\<rparr>"

lemma arrival_run: "gw_run Some run_services arrival no_sockets = \<lparr>gw_sockets = [watching], gw_timers = [], gw_pending = []\<rparr>"
  by code_simp

lemma arrival_plain: "list_all plain_open arrival"
  by code_simp

theorem rooms_stay_capped_witness:
  "length (filter (\<lambda>r. js_startsWith r ''availability:'') (sk_rooms watching)) \<le> 20 \<and>
   row_at sk_id ''s1'' (gw_sockets (gw_run Some run_services arrival no_sockets)) = Some watching"
proof -
  have "watching \<in> set (gw_sockets (gw_run Some run_services arrival no_sockets))" by (simp add: arrival_run)
  moreover have "sk_id watching = ''s1''" by (simp add: watching_def)
  ultimately show ?thesis using rooms_stay_capped [OF arrival_plain] by metis
qed

definition admission :: "gw_event list" where
  "admission = [Opened ''s1'', Checked ''s1'' (Some ''access_token=u1'') one_student]"

lemma admission_run: "gw_run Some run_services admission no_sockets =
    \<lparr>gw_sockets = [\<lparr>sk_id = ''s1'', sk_rooms = [''s1''], sk_userId = None\<rparr>], gw_timers = [], gw_pending = [(''s1'', ''u1'', 9)]\<rparr>"
  by code_simp

theorem admitted_sockets_expire_witness:
  "{t. (''s1'', t) \<in> set (gw_timers (gw_step Some run_services (Joined ''s1'' 5000)
      (gw_run Some run_services admission no_sockets)))} = {9000}"
proof -
  have "map_of (gw_pending (gw_run Some run_services admission no_sockets)) ''s1'' = Some (''u1'', 9)"
    by (simp add: admission_run)
  from admitted_sockets_expire [OF this, of 5000] show ?thesis by simp
qed

text \<open>Two tabs: the first is the student's and was admitted, the second has no account.\<close>

definition two_tabs :: "gw_event list" where
  "two_tabs = admission @ [Joined ''s1'' 5000, Opened ''s2'']"

definition signed_in_tab :: socket where
  "signed_in_tab = \<lparr>sk_id = ''s1'', sk_rooms = [''s1'', ''user:u1''], sk_userId = Some ''u1''\<rparr>"

definition other_tab :: socket where
  "other_tab = \<lparr>sk_id = ''s2'', sk_rooms = [''s2''], sk_userId = None\<rparr>"

definition student_shut_out :: db where
  "student_shut_out = one_student\<lparr>users := [run_student\<lparr>u_isActive := False\<rparr>]\<rparr>"

definition retry :: "gw_event list" where
  "retry = [Opened ''s3'', Checked ''s3'' (Some ''access_token=u1'') student_shut_out, Joined ''s3'' 6000]"

lemma two_tabs_run: "gw_run Some run_services two_tabs no_sockets =
    \<lparr>gw_sockets = [signed_in_tab, other_tab], gw_timers = [(''s1'', 9000)], gw_pending = []\<rparr>"
  by code_simp

theorem deactivation_disconnects_witness:
  "signed_in_tab \<in> set (gw_sockets (gw_run Some run_services two_tabs no_sockets)) \<and>
   signed_in_tab \<notin> set (gw_sockets (gw_step Some run_services (Published (UserDeactivated ''u1''))
     (gw_run Some run_services two_tabs no_sockets))) \<and>
   other_tab \<in> set (gw_sockets (gw_step Some run_services (Published (UserDeactivated ''u1''))
     (gw_run Some run_services two_tabs no_sockets))) \<and>
   Some ''u1'' \<notin> sk_userId ` set (gw_sockets (gw_run Some run_services retry
      (gw_step Some run_services (Published (UserDeactivated ''u1'')) (gw_run Some run_services two_tabs no_sockets))))"
proof -
  have plain: "list_all plain_open two_tabs" "distinct (concat (map checks two_tabs))" by code_simp+
  have pending: "\<forall>p\<in>set (gw_pending (gw_run Some run_services two_tabs no_sockets)). fst (snd p) \<noteq> ''u1''"
    by (simp add: two_tabs_run)
  have retry: "list_all (still_inactive ''u1'') retry" by code_simp
  have tabs: "signed_in_tab \<in> set (gw_sockets (gw_run Some run_services two_tabs no_sockets))"
    "other_tab \<in> set (gw_sockets (gw_run Some run_services two_tabs no_sockets))"
    "sk_userId signed_in_tab = Some ''u1''" "sk_userId other_tab \<noteq> Some ''u1''"
    by (simp_all add: two_tabs_run signed_in_tab_def other_tab_def)
  note gone = deactivation_disconnects [OF plain pending retry]
  from gone tabs show ?thesis by (auto simp only: image_iff)
qed

theorem late_join_survives_deactivation_witness:
  "\<exists>x\<in>set (gw_sockets (gw_run Some run_services
      [Checked ''s1'' (Some ''access_token=u1'') one_student, Published (UserDeactivated ''u1''), Joined ''s1'' 5000]
      (gw_run Some run_services arrival no_sockets))).
    sk_userId x = Some ''u1'' \<and> userRoom ''u1'' \<in> set (sk_rooms x)"
proof -
  let ?gw = "gw_run Some run_services arrival no_sockets"
  have c: "connect_check Some run_services (Some ''access_token=u1'') one_student = Some (''u1'', 9)" by code_simp
  have "watching \<in> set (gw_sockets ?gw)" "distinct (map sk_id (gw_sockets ?gw))" "sk_id watching = ''s1''"
    "userRoom ''u1'' \<notin> set (sk_rooms watching)" "map_of (gw_pending ?gw) (sk_id watching) = None"
    by (simp_all add: arrival_run watching_def userRoom_def)
  with late_join_survives_deactivation [OF c this(1,2,4,5), of 5000] show ?thesis by auto
qed

end
