(* ===== verification/Analytics.thy ===== *)
theory Analytics
  imports Complex_Main Resources BookingApi
begin

text \<open>
  The administrators' figures (src/web-backend/src/analytics): the validation of the range, the
  grouped counts, the hours booked and the hours there were to book. Hours and percentages are
  rational numbers; the code's percentages are IEEE doubles, which can differ from the rational value
  in the last tenth where it lies exactly between two tenths.
\<close>

section \<open>Statuses\<close>

definition STATUS_ORDER :: "booking_status list" where
  "STATUS_ORDER = [PENDING, CONFIRMED, CHECKED_IN, COMPLETED, NO_SHOW, REJECTED, CANCELLED]"

definition DEMAND_STATUSES :: "booking_status list" where
  "DEMAND_STATUSES = [PENDING, CONFIRMED, CHECKED_IN, COMPLETED, NO_SHOW]"

definition UTILIZATION_STATUSES :: "booking_status list" where
  "UTILIZATION_STATUSES = [PENDING, CONFIRMED, CHECKED_IN, COMPLETED]"

section \<open>Queries\<close>

text \<open>\<open>booking.date BETWEEN :from AND :to\<close>\<close>

definition in_range :: "string \<Rightarrow> string \<Rightarrow> string \<Rightarrow> bool" where
  "in_range from_date to_date date \<longleftrightarrow> sql_date from_date \<le> sql_date date \<and> sql_date date \<le> sql_date to_date"

text \<open>\<open>EXTRACT(EPOCH FROM (end - start)) / 3600\<close>\<close>

definition booked_hours :: "booking \<Rightarrow> rat" where
  "booked_hours b = of_int (sql_time (b_endTime b) - sql_time (b_startTime b)) / 3600"

definition statusCounts :: "string \<Rightarrow> string \<Rightarrow> db \<Rightarrow> (booking_status \<times> nat) list" where
  "statusCounts from_date to_date d =
     (let rows = filter (\<lambda>b. in_range from_date to_date (b_date b)) (bookings d) in
      map (\<lambda>st. (st, length (filter (\<lambda>b. b_status b = st) rows)))
        (filter (\<lambda>st. \<exists>b\<in>set rows. b_status b = st) STATUS_ORDER))"

definition demanded :: "string \<Rightarrow> string \<Rightarrow> db \<Rightarrow> booking list" where
  "demanded from_date to_date d =
     filter (\<lambda>b. in_range from_date to_date (b_date b) \<and> b_status b \<in> set DEMAND_STATUSES) (bookings d)"

record popular_row =
  po_id :: string
  po_code :: string
  po_name :: string
  po_building :: string
  po_bookingCount :: nat
  po_bookedHours :: rat

definition popular_row_of :: "string \<Rightarrow> string \<Rightarrow> db \<Rightarrow> resource \<Rightarrow> building \<Rightarrow> popular_row" where
  "popular_row_of from_date to_date d r bl =
     (let rows = filter (\<lambda>b. b_resourceId b = r_id r) (demanded from_date to_date d) in
      \<lparr>po_id = r_id r, po_code = r_code r, po_name = r_name r, po_building = bl_name bl,
       po_bookingCount = length rows, po_bookedHours = sum_list (map booked_hours rows)\<rparr>)"

definition popular_order :: "(string \<Rightarrow> string) \<Rightarrow> popular_row \<Rightarrow> popular_row \<Rightarrow> int" where
  "popular_order collate =
     cmp_then (cmp_desc (cmp_by po_bookingCount))
       (cmp_then (cmp_by (\<lambda>p. collate (po_name p))) (cmp_by (\<lambda>p. collate (po_code p))))"

definition popularResources :: "(string \<Rightarrow> string) \<Rightarrow> string \<Rightarrow> string \<Rightarrow> db \<Rightarrow> popular_row list" where
  "popularResources collate from_date to_date d =
     sort_cmp (popular_order collate)
       (filter (\<lambda>p. 0 < po_bookingCount p)
         (concat (map (\<lambda>r. case row_at bl_id (r_buildingId r) (buildings d) of
             None \<Rightarrow> []
           | Some bl \<Rightarrow> [popular_row_of from_date to_date d r bl]) (resources d))))"

text \<open>\<open>generate_series(EXTRACT(HOUR FROM start), EXTRACT(HOUR FROM end) - 1)\<close>\<close>

definition hours_of :: "booking \<Rightarrow> int list" where
  "hours_of b = [sql_time (b_startTime b) div 3600..sql_time (b_endTime b) div 3600 - 1]"

definition peakHours :: "string \<Rightarrow> string \<Rightarrow> db \<Rightarrow> (int \<times> nat) list" where
  "peakHours from_date to_date d =
     (let hours = concat (map hours_of (demanded from_date to_date d)) in
      map (\<lambda>h. (h, count_list hours h)) (filter (\<lambda>h. h \<in> set hours) [0..23]))"

definition utilized :: "string \<Rightarrow> string \<Rightarrow> db \<Rightarrow> booking list" where
  "utilized from_date to_date d =
     filter (\<lambda>b. in_range from_date to_date (b_date b) \<and> b_status b \<in> set UTILIZATION_STATUSES \<and>
         (case row_at r_id (b_resourceId b) (resources d) of Some r \<Rightarrow> r_status r = ACTIVE | None \<Rightarrow> False)) (bookings d)"

definition scheduledHours :: "string \<Rightarrow> string \<Rightarrow> db \<Rightarrow> rat" where
  "scheduledHours from_date to_date d = sum_list (map booked_hours (utilized from_date to_date d))"

section \<open>Capacity\<close>

definition hour_number :: "string \<Rightarrow> int" where
  "hour_number value = int (js_number (js_slice 0 2 value))"

text \<open>The generator of the dates, by the day numbers of its two instants.\<close>

function dates_from :: "int \<Rightarrow> int \<Rightarrow> string list" where
  "dates_from current last_day =
     (if current \<le> last_day
      then js_slice 0 10 (toISOString (current * 86400000)) # dates_from (current + 1) last_day
      else [])"
  by pat_completeness auto

termination
  by (relation "measure (\<lambda>(current, last_day). nat (last_day + 1 - current))") auto

declare dates_from.simps [simp del]

definition dates :: "string \<Rightarrow> string \<Rightarrow> string list" where
  "dates from_date to_date = dates_from (sql_date from_date) (sql_date to_date)"

definition closed_key :: "string \<Rightarrow> string \<Rightarrow> string" where
  "closed_key resourceId date = resourceId @ '':'' @ date"

definition capacity_on :: "string set \<Rightarrow> resource \<Rightarrow> string \<Rightarrow> int" where
  "capacity_on shut r date =
     (if campusDateOf (r_createdAt r) \<le> date \<and> sql_dow date \<in> set (r_operatingDays r) \<and>
         closed_key (r_id r) date \<notin> shut
      then hour_number (r_closesAt r) - hour_number (r_opensAt r) else 0)"

text \<open>
  The closures are raw rows: \<open>date_text\<close> is the text a template literal makes of what the database
  driver returns for a \<open>date\<close> column. An entity's date is converted to a text by the mapper, a raw one
  is whatever the driver's parser makes of it.
\<close>

definition capacityHours ::
  "(string \<Rightarrow> string) \<Rightarrow> string \<Rightarrow> string \<Rightarrow> resource list \<Rightarrow> closure list \<Rightarrow> int" where
  "capacityHours date_text from_date to_date rs cs =
     (let shut = (\<lambda>c. closed_key (c_resourceId c) (date_text (c_date c))) ` set cs in
      sum_list (map (\<lambda>r. sum_list (map (capacity_on shut r) (dates from_date to_date))) rs))"

section \<open>The summary\<close>

definition percentage :: "rat \<Rightarrow> rat \<Rightarrow> rat" where
  "percentage numerator denominator =
     (if denominator = 0 then 0 else of_int \<lfloor>numerator / denominator * 1000 + 1 / 2\<rfloor> / 10)"

record analytics_summary =
  an_from :: string
  an_to :: string
  an_timeZone :: string
  an_totalBookings :: nat
  an_cancelledBookings :: nat
  an_cancellationRate :: rat
  an_scheduledHours :: rat
  an_capacityHours :: int
  an_utilizationRate :: "rat option"
  an_resourcesRepresented :: nat
  an_statuses :: "(booking_status \<times> nat \<times> rat) list"
  an_popularResources :: "popular_row list"
  an_peakHours :: "(int \<times> string \<times> nat) list"

definition count_at :: "(booking_status \<times> nat) list \<Rightarrow> booking_status \<Rightarrow> nat" where
  "count_at counts st = (case map_of counts st of Some n \<Rightarrow> n | None \<Rightarrow> 0)"

definition getSummary ::
  "(string \<Rightarrow> string) \<Rightarrow> (string \<Rightarrow> string) \<Rightarrow> string \<Rightarrow> string \<Rightarrow> db \<Rightarrow> analytics_summary" where
  "getSummary date_text collate from_date to_date d =
     (let counts = statusCounts from_date to_date d;
          popular = popularResources collate from_date to_date d;
          peaks = peakHours from_date to_date d;
          scheduled = scheduledHours from_date to_date d;
          rs = filter (\<lambda>r. r_status r = ACTIVE) (resources d);
          cs = filter (\<lambda>c. in_range from_date to_date (c_date c)) (closures d);
          all_bookings = fold (\<lambda>st s. s + count_at counts st) STATUS_ORDER 0;
          cancelled = count_at counts CANCELLED;
          capacity = capacityHours date_text from_date to_date rs cs
      in \<lparr>an_from = from_date, an_to = to_date, an_timeZone = CAMPUS_TIME_ZONE,
          an_totalBookings = all_bookings, an_cancelledBookings = cancelled,
          an_cancellationRate = percentage (of_nat cancelled) (of_nat all_bookings),
          an_scheduledHours = scheduled, an_capacityHours = capacity,
          an_utilizationRate = (if capacity = 0 then None else Some (percentage scheduled (of_int capacity))),
          an_resourcesRepresented = length popular,
          an_statuses = map (\<lambda>st. (st, count_at counts st,
            percentage (of_nat (count_at counts st)) (of_nat all_bookings))) STATUS_ORDER,
          an_popularResources = take 5 popular,
          an_peakHours = map (\<lambda>(h, n). (h, pad_start 2 CHR ''0'' (js_string (nat h)) @ '':00'', n)) peaks\<rparr>)"

section \<open>The endpoint\<close>

definition analytics_query_valid :: "(string \<Rightarrow> bool) \<Rightarrow> string \<Rightarrow> string \<Rightarrow> bool" where
  "analytics_query_valid isDateString from_date to_date \<longleftrightarrow>
     date_pattern from_date \<and> isDateString from_date \<and> date_pattern to_date \<and> isDateString to_date"

definition analytics_getSummary ::
  "(string \<Rightarrow> bool) \<Rightarrow> (string \<Rightarrow> string) \<Rightarrow> (string \<Rightarrow> string) \<Rightarrow> string \<Rightarrow> string \<Rightarrow> db \<Rightarrow> analytics_summary response" where
  "analytics_getSummary isDateString date_text collate from_date to_date d =
     (if \<not> analytics_query_valid isDateString from_date to_date then Inl (HttpException 400 None ''query'')
      else if to_date < from_date
        then Inl (HttpException 400 None ''The start date must not be after the end date'')
      else if 366 < sql_date to_date - sql_date from_date + 1
        then Inl (HttpException 400 None ''The date range cannot exceed 366 days'')
      else Inr (getSummary date_text collate from_date to_date d))"

end
