(* ===== verification/AnalyticsProps.thy ===== *)
theory AnalyticsProps
  imports Analytics Stranding
begin

text \<open>
  The figures fit together: the statuses add up to the total, the popular resources and the peak hours
  count the same bookings and hours, and the hours booked stay within the hours there are as long as
  no two of the counted bookings overlap, which an early check-out allows.
\<close>

section \<open>The figures add up\<close>

lemma status_in_order: "st \<in> set STATUS_ORDER"
  by (cases st) (simp_all add: STATUS_ORDER_def)

lemma distinct_order: "distinct STATUS_ORDER"
  by (simp add: STATUS_ORDER_def)

lemma count_at_statusCounts:
  "count_at (statusCounts from_date to_date d) st =
    length (filter (\<lambda>b. in_range from_date to_date (b_date b) \<and> b_status b = st) (bookings d))"
proof -
  let ?rows = "filter (\<lambda>b. in_range from_date to_date (b_date b)) (bookings d)"
  have "map_of (map (\<lambda>st. (st, f st)) sts) st = (if st \<in> set sts then Some (f st) else None)"
    for sts and f :: "booking_status \<Rightarrow> nat"
    by (induction sts) auto
  then have "count_at (statusCounts from_date to_date d) st =
      (if \<exists>b\<in>set ?rows. b_status b = st then length (filter (\<lambda>b. b_status b = st) ?rows) else 0)"
    by (simp add: count_at_def statusCounts_def Let_def status_in_order)
  also have "\<dots> = length (filter (\<lambda>b. b_status b = st) ?rows)"
    by (auto simp: filter_empty_conv)
  finally show ?thesis by (simp add: conj_commute)
qed

lemma sum_by_status:
  "sum_list (map (\<lambda>st. length (filter (\<lambda>b. P b \<and> b_status b = st) bs)) STATUS_ORDER) = length (filter P bs)"
proof (induction bs)
  case (Cons b bs)
  have "sum_list (map (\<lambda>st. length (filter (\<lambda>x. P x \<and> b_status x = st) (b # bs))) STATUS_ORDER) =
      (if P b then 1 else 0) + sum_list (map (\<lambda>st. length (filter (\<lambda>x. P x \<and> b_status x = st) bs)) STATUS_ORDER)"
    by (cases "b_status b") (simp_all add: STATUS_ORDER_def)
  then show ?case using Cons by simp
qed (simp add: STATUS_ORDER_def)

lemma fold_plus: "fold (\<lambda>st s. s + f st) xs (n :: nat) = n + sum_list (map f xs)"
  by (induction xs arbitrary: n) simp_all

text \<open>Whole hours.\<close>

lemma booked_hours_whole:
  assumes "sound_booking b"
  shows "booked_hours b = of_nat (length (hours_of b))" "set (hours_of b) \<subseteq> {0..23}"
proof -
  obtain h k where hk: "h < 24" "k < 24" "h < k" "sql_time (b_startTime b) = 3600 * int h"
    "sql_time (b_endTime b) = 3600 * int k" using booking_hours [OF assms] by metis
  have "of_int (3600 * int k - 3600 * int h) / 3600 = (of_nat (k - h) :: rat)"
    using hk(3) by (simp add: of_nat_diff field_simps)
  then show "booked_hours b = of_nat (length (hours_of b))"
    using hk(3) by (simp add: booked_hours_def hours_of_def hk(4,5) of_nat_diff)
  show "set (hours_of b) \<subseteq> {0..23}" using hk by (auto simp: hours_of_def)
qed

lemma sum_count_list:
  assumes "set xs \<subseteq> set ys" "distinct ys"
  shows "sum_list (map (count_list xs) (filter (\<lambda>y. y \<in> set xs) ys)) = length xs"
proof -
  have "sum_list (map (count_list xs) (filter (\<lambda>y. y \<in> set xs) ys)) = (\<Sum>y\<in>set xs. count_list xs y)"
    using assms by (subst sum_list_distinct_conv_sum_set) (auto intro: sum.cong)
  then show ?thesis by (simp add: sum_count_set)
qed

lemma sum_list_single:
  fixes c :: "'c :: comm_monoid_add"
  assumes "distinct (map key rs)" "r \<in> set rs" "k = key r"
  shows "sum_list (map (\<lambda>x. if k = key x then c else 0) rs) = c"
  using assms(1,2)
proof (induction rs)
  case (Cons x xs)
  have "k \<notin> key ` set ys \<Longrightarrow> sum_list (map (\<lambda>x. if k = key x then c else 0) ys) = 0" for ys
    by (induction ys) auto
  with Cons assms(3) show ?case by (cases "x = r") (auto simp: image_iff)
qed simp

lemma sum_sort_cmp:
  fixes f :: "'a \<Rightarrow> 'c :: comm_monoid_add"
  shows "sum_list (map f (sort_cmp cmp xs)) = sum_list (map f xs)"
proof -
  have "sum_list (map f (insert_cmp cmp x ys)) = f x + sum_list (map f ys)" for x ys
    by (induction ys) (simp_all add: ac_simps)
  then show ?thesis by (induction xs) (simp_all add: sort_cmp_def)
qed

lemma of_nat_sum_list_rat: "(of_nat (sum_list xs) :: rat) = sum_list (map of_nat xs)"
  by (induction xs) simp_all

lemma int_sum_list: "int (sum_list xs) = sum_list (map int xs)"
  by (induction xs) simp_all

lemma sum_list_nonzero:
  fixes f :: "'a \<Rightarrow> 'c :: comm_monoid_add"
  shows "(\<And>x. x \<in> set xs \<Longrightarrow> \<not> P x \<Longrightarrow> f x = 0) \<Longrightarrow> sum_list (map f (filter P xs)) = sum_list (map f xs)"
  by (induction xs) auto

lemma sum_group_rows:
  fixes f :: "'b \<Rightarrow> 'c :: comm_monoid_add"
  assumes "distinct (map key rs)" "\<And>b. b \<in> set bs \<Longrightarrow> g b \<in> key ` set rs"
  shows "sum_list (map (\<lambda>r. sum_list (map f (filter (\<lambda>b. g b = key r) bs))) rs) = sum_list (map f bs)"
  using assms(2)
proof (induction bs)
  case (Cons b bs)
  obtain r where r: "r \<in> set rs" "g b = key r" using Cons.prems by auto
  have "sum_list (map (\<lambda>r. sum_list (map f (filter (\<lambda>x. g x = key r) (b # bs)))) rs) =
      sum_list (map (\<lambda>r. (if g b = key r then f b else 0) + sum_list (map f (filter (\<lambda>x. g x = key r) bs))) rs)"
    by (intro arg_cong [of _ _ sum_list] map_cong) auto
  also have "\<dots> = sum_list (map (\<lambda>r. if g b = key r then f b else 0) rs) +
      sum_list (map (\<lambda>r. sum_list (map f (filter (\<lambda>x. g x = key r) bs))) rs)"
    by (simp add: sum_list_addf)
  also have "sum_list (map (\<lambda>r. if g b = key r then f b else 0) rs) = f b"
    by (rule sum_list_single [OF assms(1) r])
  finally show ?case using Cons by simp
qed simp

text \<open>The rows of the popular resources, before those without a booking are dropped and the rest sorted.\<close>

lemma popular_rows:
  assumes "db_ok d"
  shows "concat (map (\<lambda>r. case row_at bl_id (r_buildingId r) (buildings d) of
        None \<Rightarrow> [] | Some bl \<Rightarrow> [popular_row_of from_date to_date d r bl]) (resources d)) =
    map (\<lambda>r. popular_row_of from_date to_date d r (the (row_at bl_id (r_buildingId r) (buildings d)))) (resources d)"
proof -
  have "\<exists>bl. row_at bl_id (r_buildingId r) (buildings d) = Some bl" if "r \<in> set (resources d)" for r
  proof -
    have "r_buildingId r \<in> ids bl_id (buildings d)"
      using assms that by (auto simp: db_ok_def resource_ok_def dest: table_inv_ok)
    then show ?thesis using row_at_None [of bl_id "r_buildingId r" "buildings d"] by (auto simp: ids_def)
  qed
  then have "(case row_at bl_id (r_buildingId r) (buildings d) of
        None \<Rightarrow> [] | Some bl \<Rightarrow> [popular_row_of from_date to_date d r bl]) =
      [popular_row_of from_date to_date d r (the (row_at bl_id (r_buildingId r) (buildings d)))]"
    if "r \<in> set (resources d)" for r using that by force
  then show ?thesis by (simp add: concat_map_singleton cong: map_cong)
qed

lemma popular_sum:
  fixes g :: "popular_row \<Rightarrow> 'c :: comm_monoid_add"
  assumes d: "db_ok d"
    and g: "\<And>r bl. g (popular_row_of from_date to_date d r bl) =
      sum_list (map f (filter (\<lambda>b. b_resourceId b = r_id r) (demanded from_date to_date d)))"
  shows "sum_list (map g (popularResources collate from_date to_date d)) =
    sum_list (map f (demanded from_date to_date d))"
proof -
  let ?row = "\<lambda>r. popular_row_of from_date to_date d r (the (row_at bl_id (r_buildingId r) (buildings d)))"
  have z: "g (?row r) = 0" if "\<not> 0 < po_bookingCount (?row r)" for r
    using that unfolding g by (simp add: popular_row_of_def Let_def)
  have known: "b_resourceId b \<in> r_id ` set (resources d)" if "b \<in> set (demanded from_date to_date d)" for b
    using stored_relations(1) [OF d] that by (auto simp: demanded_def ids_def)
  have dist: "distinct (map r_id (resources d))" using d by (simp add: db_ok_def table_inv_def)
  have "sum_list (map g (popularResources collate from_date to_date d)) = sum_list (map g (map ?row (resources d)))"
    unfolding popularResources_def popular_rows [OF d] sum_sort_cmp
    by (rule sum_list_nonzero) (use z in auto)
  also have "\<dots> = sum_list (map (\<lambda>r. sum_list (map f (filter (\<lambda>b. b_resourceId b = r_id r) (demanded from_date to_date d)))) (resources d))"
    by (simp add: g comp_def)
  also have "\<dots> = sum_list (map f (demanded from_date to_date d))" by (rule sum_group_rows [OF dist known])
  finally show ?thesis .
qed

text \<open>C26: The figures fit together: the counts of the statuses, listed in their fixed order, add up to the
number of bookings in the range; the popular resources (all, not only the first five) count every
demanded booking once, and their hours add up to what the peak hours add up to, the hours demanded.\<close>

theorem figures_add_up:
  assumes "db_ok d"
  shows "an_totalBookings (getSummary date_text collate from_date to_date d) =
      length (filter (\<lambda>b. in_range from_date to_date (b_date b)) (bookings d)) \<and>
    map fst (an_statuses (getSummary date_text collate from_date to_date d)) = STATUS_ORDER \<and>
    sum_list (map (\<lambda>(st, n, p). n) (an_statuses (getSummary date_text collate from_date to_date d))) =
      an_totalBookings (getSummary date_text collate from_date to_date d) \<and>
    sum_list (map po_bookingCount (popularResources collate from_date to_date d)) = length (demanded from_date to_date d) \<and>
    sum_list (map po_bookedHours (popularResources collate from_date to_date d)) =
      sum_list (map booked_hours (demanded from_date to_date d)) \<and>
    of_nat (sum_list (map snd (peakHours from_date to_date d))) =
      sum_list (map booked_hours (demanded from_date to_date d))"
proof -
  let ?f = "\<lambda>st. length (filter (\<lambda>b. in_range from_date to_date (b_date b) \<and> b_status b = st) (bookings d))"
  have at: "count_at (statusCounts from_date to_date d) = ?f" by (rule ext) (rule count_at_statusCounts)
  have sum: "sum_list (map ?f STATUS_ORDER) = length (filter (\<lambda>b. in_range from_date to_date (b_date b)) (bookings d))"
    by (rule sum_by_status)
  have counts: "sum_list (map po_bookingCount (popularResources collate from_date to_date d)) =
      sum_list (map (\<lambda>_. 1) (demanded from_date to_date d))"
    by (rule popular_sum [OF assms]) (simp add: popular_row_of_def Let_def sum_list_triv)
  have hours: "sum_list (map po_bookedHours (popularResources collate from_date to_date d)) =
      sum_list (map booked_hours (demanded from_date to_date d))"
    by (rule popular_sum [OF assms]) (simp add: popular_row_of_def Let_def)
  have sound: "sound_booking b" if "b \<in> set (demanded from_date to_date d)" for b
    using db_booking_sound [OF assms] that by (simp add: demanded_def)
  let ?hs = "concat (map hours_of (demanded from_date to_date d))"
  have "set ?hs \<subseteq> set [0..23]" using booked_hours_whole(2) [OF sound] by fastforce
  then have "sum_list (map snd (peakHours from_date to_date d)) = length ?hs"
    using sum_count_list [of ?hs "[0..23]"] by (simp add: peakHours_def Let_def comp_def)
  also have "of_nat (length ?hs) = sum_list (map (\<lambda>b. of_nat (length (hours_of b)) :: rat) (demanded from_date to_date d))"
    by (simp add: length_concat comp_def of_nat_sum_list_rat)
  also have "\<dots> = sum_list (map booked_hours (demanded from_date to_date d))"
    using booked_hours_whole(1) [OF sound] by (intro arg_cong [of _ _ sum_list] map_cong) simp_all
  finally show ?thesis
    using sum counts hours
    by (simp add: getSummary_def Let_def at fold_plus comp_def sum_list_triv)
qed

section \<open>Within capacity\<close>

lemma set_dates_from: "set (dates_from a b) = (\<lambda>n. js_slice 0 10 (toISOString (n * 86400000))) ` {a..b}"
proof (induction a b rule: dates_from.induct)
  case (1 a b)
  show ?case
  proof (cases "a \<le> b")
    case True
    then have "{a..b} = insert a {a + 1..b}" by auto
    with True 1 show ?thesis by (subst dates_from.simps) simp
  next
    case False
    then show ?thesis by (subst dates_from.simps) simp
  qed
qed

lemma dates_mem:
  assumes "pg_date s" "1 \<le> sql_date from_date" "in_range from_date to_date s"
  shows "s \<in> set (dates from_date to_date)"
proof -
  have "1 \<le> sql_date s" using assms(2,3) by (simp add: in_range_def)
  from date_of_day [OF assms(1) this] show ?thesis
    unfolding dates_def set_dates_from using assms(3) by (intro image_eqI [of _ _ "sql_date s"]) (simp_all add: in_range_def)
qed

lemma closed_key_inj: "length a = length b \<Longrightarrow> closed_key k a = closed_key j b \<longleftrightarrow> k = j \<and> a = b"
  unfolding closed_key_def by (metis append_assoc append_eq_append_conv length_append same_append_eq append.simps(1) append_same_eq)

lemma dates_are_dates:
  assumes "1 \<le> sql_date from_date" "pg_date to_date" "s \<in> set (dates from_date to_date)"
  shows "pg_date s \<and> in_range from_date to_date s"
proof -
  obtain n where n: "s = js_slice 0 10 (toISOString (n * 86400000))" "sql_date from_date \<le> n" "n \<le> sql_date to_date"
    using assms(3) by (auto simp: dates_def set_dates_from)
  then have b: "1 \<le> n" "n < 2932897" using assms(1) sql_date_bound [OF assms(2)] by linarith+
  show ?thesis using day_text [OF b] n by (simp add: in_range_def)
qed

text \<open>
  What a driver may do with a raw date: hand on the text of the column, or make an instant of it,
  whose text ends in the name of the time zone.
\<close>

definition reads_dates :: "(string \<Rightarrow> string) \<Rightarrow> bool" where
  "reads_dates date_text \<longleftrightarrow> (\<forall>s. pg_date s \<longrightarrow> date_text s = s)"

definition prints_instants :: "(string \<Rightarrow> string) \<Rightarrow> bool" where
  "prints_instants date_text \<longleftrightarrow> (\<forall>s. pg_date s \<longrightarrow> date_text s \<noteq> [] \<and> \<not> is_digit (last (date_text s)))"

lemma pg_date_last:
  assumes "pg_date s"
  shows "s \<noteq> []" "is_digit (last s)"
proof -
  have "date_pattern s" using assms by (simp add: pg_date_def)
  then show "s \<noteq> []" "is_digit (last s)" by (auto elim!: date_patternE)
qed

lemma key_reads: "reads_dates date_text \<Longrightarrow> pg_date s \<Longrightarrow> pg_date t \<Longrightarrow>
    closed_key k s = closed_key j (date_text t) \<longleftrightarrow> k = j \<and> s = t"
  by (simp add: reads_dates_def closed_key_inj pg_date_length)

lemma key_prints:
  assumes "prints_instants date_text" "pg_date s" "pg_date t"
  shows "closed_key k s \<noteq> closed_key j (date_text t)"
proof
  assume "closed_key k s = closed_key j (date_text t)"
  then have "last (closed_key k s) = last (closed_key j (date_text t))" by simp
  then have "last s = last (date_text t)"
    using assms by (simp add: closed_key_def prints_instants_def pg_date_last(1))
  then show False using assms pg_date_last(2) [OF assms(2)] by (simp add: prints_instants_def)
qed

lemma key_sound:
  assumes "reads_dates date_text \<or> prints_instants date_text" "pg_date s" "pg_date t"
    "closed_key k s = closed_key j (date_text t)"
  shows "k = j \<and> s = t"
  using assms(1)
proof
  assume "reads_dates date_text"
  from key_reads [OF this assms(2,3), of k j] assms(4) show ?thesis by simp
next
  assume "prints_instants date_text"
  from key_prints [OF this assms(2,3), of k j] assms(4) show ?thesis by simp
qed

text \<open>Hours as cells of resource, date and hour.\<close>

definition cells :: "string \<Rightarrow> string \<Rightarrow> int \<Rightarrow> int \<Rightarrow> (string \<times> string \<times> int) set" where
  "cells k date a b = (\<lambda>h. (k, date, h)) ` {a..<b}"

lemma card_cells: "card (cells k date a b) = nat (b - a)" "finite (cells k date a b)"
  by (simp_all add: cells_def card_image inj_on_def)

lemma card_UN_list:
  assumes "\<And>x. finite (A x)"
  shows "card (\<Union>x\<in>set xs. A x) \<le> sum_list (map (\<lambda>x. card (A x)) xs)" "finite (\<Union>x\<in>set xs. A x)"
proof (induction xs)
  case (Cons x xs)
  { case 1
    have "card (A x \<union> (\<Union>x\<in>set xs. A x)) \<le> card (A x) + card (\<Union>x\<in>set xs. A x)" by (rule card_Un_le)
    also have "\<dots> \<le> card (A x) + sum_list (map (\<lambda>x. card (A x)) xs)" using Cons(1) by simp
    finally show ?case by simp }
  { case 2 show ?case using assms by simp }
qed simp_all

lemma card_disjoint_list:
  assumes "distinct xs" "\<And>x. finite (A x)" "\<And>x y. x \<in> set xs \<Longrightarrow> y \<in> set xs \<Longrightarrow> x \<noteq> y \<Longrightarrow> A x \<inter> A y = {}"
  shows "card (\<Union>x\<in>set xs. A x) = sum_list (map (\<lambda>x. card (A x)) xs)"
proof -
  have "card (\<Union>x\<in>set xs. A x) = (\<Sum>x\<in>set xs. card (A x))"
    using assms(2,3) by (intro card_UN_disjoint) auto
  then show ?thesis using assms(1) by (simp add: sum_list_distinct_conv_sum_set)
qed

definition booking_cells :: "booking \<Rightarrow> (string \<times> string \<times> int) set" where
  "booking_cells b =
     cells (b_resourceId b) (b_date b) (sql_time (b_startTime b) div 3600) (sql_time (b_endTime b) div 3600)"

lemma booked_hours_cells: "sound_booking b \<Longrightarrow> booked_hours b = of_nat (card (booking_cells b))"
  using booked_hours_whole(1) [of b] by (simp add: booking_cells_def card_cells hours_of_def)

lemma scheduled_cells:
  assumes d: "db_ok d"
    and apart: "\<And>b c. b \<in> set (utilized from_date to_date d) \<Longrightarrow> c \<in> set (utilized from_date to_date d) \<Longrightarrow> b \<noteq> c \<Longrightarrow>
      b_resourceId b = b_resourceId c \<Longrightarrow> b_date b = b_date c \<Longrightarrow>
      sql_time (b_endTime b) \<le> sql_time (b_startTime c) \<or> sql_time (b_endTime c) \<le> sql_time (b_startTime b)"
  shows "scheduledHours from_date to_date d =
    of_nat (card (\<Union>b\<in>set (utilized from_date to_date d). booking_cells b))"
proof -
  let ?u = "utilized from_date to_date d"
  have sound: "sound_booking b" if "b \<in> set ?u" for b
    using db_booking_sound [OF d] that by (simp add: utilized_def)
  have dist: "distinct ?u" using d by (auto simp: utilized_def db_ok_def table_inv_def distinct_map)
  have "booking_cells b \<inter> booking_cells c = {}" if bc: "b \<in> set ?u" "c \<in> set ?u" "b \<noteq> c" for b c
  proof (cases "b_resourceId b = b_resourceId c \<and> b_date b = b_date c")
    case True
    then have "sql_time (b_endTime b) \<le> sql_time (b_startTime c) \<or> sql_time (b_endTime c) \<le> sql_time (b_startTime b)"
      using apart bc by blast
    then have "sql_time (b_endTime b) div 3600 \<le> sql_time (b_startTime c) div 3600 \<or>
        sql_time (b_endTime c) div 3600 \<le> sql_time (b_startTime b) div 3600"
      by (auto intro: zdiv_mono1)
    then show ?thesis by (auto simp: booking_cells_def cells_def)
  qed (auto simp: booking_cells_def cells_def)
  then have "card (\<Union>b\<in>set ?u. booking_cells b) = sum_list (map (\<lambda>b. card (booking_cells b)) ?u)"
    by (intro card_disjoint_list dist) (auto simp: booking_cells_def card_cells)
  then have "of_nat (card (\<Union>b\<in>set ?u. booking_cells b)) = sum_list (map (\<lambda>b. of_nat (card (booking_cells b)) :: rat) ?u)"
    by (simp add: of_nat_sum_list_rat comp_def)
  also have "\<dots> = scheduledHours from_date to_date d"
    unfolding scheduledHours_def using booked_hours_cells [OF sound] by (intro arg_cong [of _ _ sum_list] map_cong) simp_all
  finally show ?thesis by simp
qed

definition open_cells :: "string set \<Rightarrow> resource \<Rightarrow> string \<Rightarrow> (string \<times> string \<times> int) set" where
  "open_cells keys r date =
     (if capacity_on keys r date = 0 then {}
      else cells (r_id r) date (hour_number (r_opensAt r)) (hour_number (r_closesAt r)))"

lemma resource_hour_numbers:
  assumes "resource_typed r" "resource_rules r"
  shows "sql_time (r_opensAt r) = 3600 * hour_number (r_opensAt r)" "sql_time (r_closesAt r) = 3600 * hour_number (r_closesAt r)"
    "hour_number (r_opensAt r) < hour_number (r_closesAt r)"
proof -
  obtain a b where "a < b" "sql_time (r_opensAt r) = 3600 * int a" "sql_time (r_closesAt r) = 3600 * int b"
    "js_number (js_slice 0 2 (r_opensAt r)) = a" "js_number (js_slice 0 2 (r_closesAt r)) = b"
    using resource_hours [OF assms] by metis
  then show "sql_time (r_opensAt r) = 3600 * hour_number (r_opensAt r)"
    "sql_time (r_closesAt r) = 3600 * hour_number (r_closesAt r)"
    "hour_number (r_opensAt r) < hour_number (r_closesAt r)" by (simp_all add: hour_number_def)
qed

lemma card_open_cells:
  assumes "resource_typed r" "resource_rules r"
  shows "int (card (open_cells keys r date)) = capacity_on keys r date"
  using resource_hour_numbers(3) [OF assms]
  by (simp add: open_cells_def card_cells capacity_on_def split: if_splits)

lemma capacity_cells:
  assumes rs: "\<And>r. r \<in> set rs \<Longrightarrow> resource_typed r \<and> resource_rules r"
    and keys: "keys = (\<lambda>c. closed_key (c_resourceId c) (date_text (c_date c))) ` set cs"
  shows "int (card (\<Union>r\<in>set rs. \<Union>date\<in>set (dates from_date to_date). open_cells keys r date)) \<le>
    capacityHours date_text from_date to_date rs cs"
proof -
  let ?ds = "dates from_date to_date"
  have fin: "finite (open_cells keys r date)" for r date by (simp add: open_cells_def card_cells)
  have "card (\<Union>r\<in>set rs. \<Union>date\<in>set ?ds. open_cells keys r date) \<le>
      sum_list (map (\<lambda>r. card (\<Union>date\<in>set ?ds. open_cells keys r date)) rs)"
    by (rule card_UN_list(1)) (rule card_UN_list(2) [OF fin])
  also have "\<dots> \<le> sum_list (map (\<lambda>r. sum_list (map (\<lambda>date. card (open_cells keys r date)) ?ds)) rs)"
    by (intro sum_list_mono card_UN_list(1) fin)
  finally have "int (card (\<Union>r\<in>set rs. \<Union>date\<in>set ?ds. open_cells keys r date)) \<le>
      int (sum_list (map (\<lambda>r. sum_list (map (\<lambda>date. card (open_cells keys r date)) ?ds)) rs))"
    by (rule of_nat_mono)
  also have "\<dots> = sum_list (map (\<lambda>r. sum_list (map (\<lambda>date. int (card (open_cells keys r date))) ?ds)) rs)"
    by (simp add: int_sum_list comp_def)
  also have "\<dots> = capacityHours date_text from_date to_date rs cs"
    using card_open_cells rs unfolding capacityHours_def Let_def keys
    by (intro arg_cong [of _ _ sum_list] map_cong) auto
  finally show ?thesis .
qed

text \<open>Where a served booking lies.\<close>

lemma served_cells:
  assumes d: "db_ok d" and b: "b \<in> set (utilized from_date to_date d)" and from_date: "1 \<le> sql_date from_date"
    and fits: "\<And>r. r \<in> set (resources d) \<Longrightarrow> r_id r = b_resourceId b \<Longrightarrow>
      serves d r b \<and> campusDateOf (r_createdAt r) \<le> b_date b"
    and keys: "keys = (\<lambda>c. closed_key (c_resourceId c) (date_text (c_date c))) `
      set (filter (\<lambda>c. in_range from_date to_date (c_date c)) (closures d))"
    and driver: "reads_dates date_text \<or> prints_instants date_text"
  shows "booking_cells b \<subseteq> (\<Union>r\<in>set (filter (\<lambda>r. r_status r = ACTIVE) (resources d)).
    \<Union>date\<in>set (dates from_date to_date). open_cells keys r date)"
proof -
  have m: "b \<in> set (bookings d)" "in_range from_date to_date (b_date b)" using b by (simp_all add: utilized_def)
  obtain r where r: "r \<in> set (resources d)" "r_id r = b_resourceId b" "r_status r = ACTIVE"
    using b by (auto simp: utilized_def dest: row_at_SomeD split: option.splits)
  have rok: "resource_typed r" "resource_rules r" by (rule resource_days(2,3) [OF d r(1)])+
  note hn = resource_hour_numbers [OF rok]
  have sb: "sound_booking b" by (rule db_booking_sound [OF d m(1)])
  have pd: "pg_date (b_date b)" by (rule sound_booking_times(4) [OF sb])
  have dm: "b_date b \<in> set (dates from_date to_date)" by (rule dates_mem [OF pd from_date m(2)])
  have s: "serves d r b" "campusDateOf (r_createdAt r) \<le> b_date b" using fits [OF r(1,2)] by simp_all
  have "closed_key (r_id r) (b_date b) \<notin> keys"
  proof
    assume "closed_key (r_id r) (b_date b) \<in> keys"
    then obtain c where c: "c \<in> set (closures d)" "closed_key (r_id r) (b_date b) = closed_key (c_resourceId c) (date_text (c_date c))"
      by (auto simp: keys)
    have "pg_date (c_date c)"
      using c(1) d by (auto simp: db_ok_def closure_ok_def closure_typed_def dest: table_inv_ok)
    then have "c_resourceId c = r_id r" "c_date c = b_date b" using key_sound [OF driver pd _ c(2)] by simp_all
    then show False using s(1) c(1) by (auto simp: serves_def closed_on_def)
  qed
  then have cap: "capacity_on keys r (b_date b) = hour_number (r_closesAt r) - hour_number (r_opensAt r)"
    using s by (simp add: capacity_on_def serves_def)
  have "booking_cells b \<subseteq> open_cells keys r (b_date b)"
  proof -
    obtain h k where hk: "sql_time (b_startTime b) = 3600 * int h" "sql_time (b_endTime b) = 3600 * int k"
      using booking_hours [OF sb] by metis
    have "hour_number (r_opensAt r) \<le> int h" "int k \<le> hour_number (r_closesAt r)"
      using s(1) hn(1,2) hk by (simp_all add: serves_def)
    then show ?thesis using cap hn(3) r(2) by (auto simp: booking_cells_def open_cells_def cells_def hk)
  qed
  then show ?thesis using r dm by auto
qed

text \<open>C27: As long as no two of the counted bookings overlap and each lies within the current schedule of
its resource, after its creation and not on a closure, the scheduled hours do not exceed the
capacity, and the utilization lies between nothing and one hundred percent.\<close>

theorem utilization_within_capacity:
  assumes "db_ok d" "1 \<le> sql_date from_date"
    "\<And>b c. b \<in> set (utilized from_date to_date d) \<Longrightarrow> c \<in> set (utilized from_date to_date d) \<Longrightarrow> b \<noteq> c \<Longrightarrow>
      b_resourceId b = b_resourceId c \<Longrightarrow> b_date b = b_date c \<Longrightarrow>
      sql_time (b_endTime b) \<le> sql_time (b_startTime c) \<or> sql_time (b_endTime c) \<le> sql_time (b_startTime b)"
    "\<And>b r. b \<in> set (utilized from_date to_date d) \<Longrightarrow> r \<in> set (resources d) \<Longrightarrow> r_id r = b_resourceId b \<Longrightarrow>
      serves d r b \<and> campusDateOf (r_createdAt r) \<le> b_date b"
    "reads_dates date_text \<or> prints_instants date_text"
  shows "an_scheduledHours (getSummary date_text collate from_date to_date d) \<le>
      of_int (an_capacityHours (getSummary date_text collate from_date to_date d)) \<and>
    (case an_utilizationRate (getSummary date_text collate from_date to_date d) of Some p \<Rightarrow> 0 \<le> p \<and> p \<le> 100 | None \<Rightarrow> True)"
proof -
  let ?rs = "filter (\<lambda>r. r_status r = ACTIVE) (resources d)"
  let ?cs = "filter (\<lambda>c. in_range from_date to_date (c_date c)) (closures d)"
  define keys where "keys = (\<lambda>c. closed_key (c_resourceId c) (date_text (c_date c))) ` set ?cs"
  let ?all = "\<Union>r\<in>set ?rs. \<Union>date\<in>set (dates from_date to_date). open_cells keys r date"
  let ?used = "\<Union>b\<in>set (utilized from_date to_date d). booking_cells b"
  define s where "s = scheduledHours from_date to_date d"
  define c where "c = capacityHours date_text from_date to_date ?rs ?cs"
  have "?used \<subseteq> ?all"
    using served_cells [OF assms(1) _ assms(2) assms(4) keys_def assms(5)] by blast
  moreover have "finite ?all" by (auto simp: open_cells_def card_cells)
  ultimately have "card ?used \<le> card ?all" by (rule card_mono [rotated])
  then have "int (card ?used) \<le> int (card ?all)" by simp
  also have "\<dots> \<le> c"
    unfolding c_def using resource_days(2,3) [OF assms(1)] by (intro capacity_cells keys_def) auto
  finally have "(of_int (int (card ?used)) :: rat) \<le> of_int c" by (rule of_int_le_iff [THEN iffD2])
  moreover have "s = of_nat (card ?used)" unfolding s_def by (rule scheduled_cells [OF assms(1,3)])
  ultimately have le: "s \<le> of_int c" "0 \<le> s" by simp_all
  have "0 \<le> percentage s (of_int c) \<and> percentage s (of_int c) \<le> 100" if "c \<noteq> 0"
  proof -
    have pos: "0 < (of_int c :: rat)" using le that by auto
    then have "0 \<le> s / of_int c" "s / of_int c \<le> 1" using le by simp_all
    then have "0 \<le> \<lfloor>s / of_int c * 1000 + 1 / 2\<rfloor>" "\<lfloor>s / of_int c * 1000 + 1 / 2\<rfloor> \<le> 1000"
      by (simp_all add: floor_le_iff le_floor_iff)
    then have "0 \<le> (of_int \<lfloor>s / of_int c * 1000 + 1 / 2\<rfloor> :: rat)" "(of_int \<lfloor>s / of_int c * 1000 + 1 / 2\<rfloor> :: rat) \<le> 1000"
      by simp_all
    then show ?thesis using that by (simp add: percentage_def)
  qed
  then show ?thesis
    using le(1) by (simp add: getSummary_def Let_def s_def [symmetric] c_def [symmetric])
qed

section \<open>What closures do to the capacity\<close>

text \<open>The bookable hours of a resource on a date, closures aside.\<close>

definition day_hours :: "resource \<Rightarrow> string \<Rightarrow> int" where
  "day_hours r date =
     (if campusDateOf (r_createdAt r) \<le> date \<and> sql_dow date \<in> set (r_operatingDays r)
      then hour_number (r_closesAt r) - hour_number (r_opensAt r) else 0)"

lemma capacity_by_days:
  assumes "db_ok d" "pg_date to_date" "1 \<le> sql_date from_date"
    and hours: "\<And>r date. r \<in> set (resources d) \<Longrightarrow> date \<in> set (dates from_date to_date) \<Longrightarrow>
      closed_key (r_id r) date \<in> (\<lambda>c. closed_key (c_resourceId c) (date_text (c_date c))) `
        set (filter (\<lambda>c. in_range from_date to_date (c_date c)) (closures d)) \<longleftrightarrow> P r date"
  shows "an_capacityHours (getSummary date_text collate from_date to_date d) =
    (\<Sum>r\<leftarrow>filter (\<lambda>r. r_status r = ACTIVE) (resources d).
      \<Sum>date\<leftarrow>dates from_date to_date. if P r date then 0 else day_hours r date)"
proof -
  have "capacity_on ((\<lambda>c. closed_key (c_resourceId c) (date_text (c_date c))) `
      set (filter (\<lambda>c. in_range from_date to_date (c_date c)) (closures d))) r date =
      (if P r date then 0 else day_hours r date)"
    if "r \<in> set (resources d)" "date \<in> set (dates from_date to_date)" for r date
    unfolding capacity_on_def day_hours_def hours [OF that] by simp
  then show ?thesis
    unfolding getSummary_def Let_def capacityHours_def analytics_summary.select_convs
    by (intro arg_cong [of _ _ sum_list] map_cong refl) simp
qed

text \<open>If the driver hands on the text of a raw date, the capacity of a range is the sum of the bookable
hours of the active resources over its days, but for the days on which a resource is closed. If the
driver makes an instant of it, no closure is ever recognised: the capacity counts the closed days as
well.\<close>

lemma closures_and_capacity:
  assumes "db_ok d" "pg_date to_date" "1 \<le> sql_date from_date"
  shows "(reads_dates date_text \<longrightarrow> an_capacityHours (getSummary date_text collate from_date to_date d) =
      (\<Sum>r\<leftarrow>filter (\<lambda>r. r_status r = ACTIVE) (resources d).
        \<Sum>date\<leftarrow>dates from_date to_date. if closed_on d (r_id r) date then 0 else day_hours r date)) \<and>
    (prints_instants date_text \<longrightarrow> an_capacityHours (getSummary date_text collate from_date to_date d) =
      (\<Sum>r\<leftarrow>filter (\<lambda>r. r_status r = ACTIVE) (resources d).
        \<Sum>date\<leftarrow>dates from_date to_date. day_hours r date))"
proof -
  have cd: "pg_date (c_date c)" if "c \<in> set (closures d)" for c
    using that assms(1) by (auto simp: db_ok_def closure_ok_def closure_typed_def dest: table_inv_ok)
  note dd = dates_are_dates [OF assms(3,2)]
  show ?thesis
  proof (intro conjI impI)
    assume reads: "reads_dates date_text"
    show "an_capacityHours (getSummary date_text collate from_date to_date d) =
      (\<Sum>r\<leftarrow>filter (\<lambda>r. r_status r = ACTIVE) (resources d).
        \<Sum>date\<leftarrow>dates from_date to_date. if closed_on d (r_id r) date then 0 else day_hours r date)"
    proof (rule capacity_by_days [OF assms])
      fix r date assume "date \<in> set (dates from_date to_date)"
      then show "closed_key (r_id r) date \<in> (\<lambda>c. closed_key (c_resourceId c) (date_text (c_date c))) `
          set (filter (\<lambda>c. in_range from_date to_date (c_date c)) (closures d)) \<longleftrightarrow> closed_on d (r_id r) date"
        using key_reads [OF reads] dd cd by (auto simp: closed_on_def image_iff)
    qed
  next
    assume prints: "prints_instants date_text"
    show "an_capacityHours (getSummary date_text collate from_date to_date d) =
      (\<Sum>r\<leftarrow>filter (\<lambda>r. r_status r = ACTIVE) (resources d).
        \<Sum>date\<leftarrow>dates from_date to_date. day_hours r date)"
    proof (rule capacity_by_days [OF assms, of date_text "\<lambda>r date. False", unfolded if_False])
      fix r date assume "date \<in> set (dates from_date to_date)"
      then show "closed_key (r_id r) date \<in> (\<lambda>c. closed_key (c_resourceId c) (date_text (c_date c))) `
          set (filter (\<lambda>c. in_range from_date to_date (c_date c)) (closures d)) \<longleftrightarrow> False"
        using key_prints [OF prints] dd cd by auto
    qed
  qed
qed

end
