(* ===== verification/AnalyticsWitnesses.thy ===== *)
theory AnalyticsWitnesses
  imports AnalyticsProps Samples
begin

text \<open>
  The figures on concrete databases: the sample campus, with a closure a driver may hide, and a room whose student checks out early, so
  that the rest of the morning is booked, and counted, again.
\<close>

theorem figures_add_up_witness:
  "an_totalBookings (getSummary (\<lambda>s. s) (\<lambda>s. s) ''2026-09-01'' ''2026-09-30'' sample_db) = 3"
proof -
  have "length (filter (\<lambda>b. in_range ''2026-09-01'' ''2026-09-30'' (b_date b)) (bookings sample_db)) = 3" by code_simp
  then show ?thesis using figures_add_up [OF sample_db_ok] by simp
qed

theorem utilization_within_capacity_witness:
  "an_scheduledHours (getSummary (\<lambda>s. s) (\<lambda>s. s) ''2026-09-14'' ''2026-09-15'' sample_db) \<le>
    of_int (an_capacityHours (getSummary (\<lambda>s. s) (\<lambda>s. s) ''2026-09-14'' ''2026-09-15'' sample_db))"
proof -
  have u: "utilized ''2026-09-14'' ''2026-09-15'' sample_db = [pending_k1, confirmed_k2]" by code_simp
  have rs: "resources sample_db = [room ''r1'' ''ROOM-1'' True, room ''r2'' ''ROOM-2'' False]" by (simp add: sample_db_def)
  have dates: "b_date pending_k1 \<noteq> b_date confirmed_k2" "b_resourceId pending_k1 = ''r1''" "b_resourceId confirmed_k2 = ''r1''"
    by (simp_all add: pending_k1_def confirmed_k2_def plain_booking_def)
  have fits: "serves sample_db (room ''r1'' ''ROOM-1'' True) pending_k1"
    "serves sample_db (room ''r1'' ''ROOM-1'' True) confirmed_k2"
    "campusDateOf (r_createdAt (room ''r1'' ''ROOM-1'' True)) \<le> b_date pending_k1"
    "campusDateOf (r_createdAt (room ''r1'' ''ROOM-1'' True)) \<le> b_date confirmed_k2"
    by code_simp+
  have "1 \<le> sql_date ''2026-09-14''" by code_simp
  moreover have "serves sample_db r b \<and> campusDateOf (r_createdAt r) \<le> b_date b"
    if "b \<in> set (utilized ''2026-09-14'' ''2026-09-15'' sample_db)" "r \<in> set (resources sample_db)" "r_id r = b_resourceId b" for b r
    using that fits dates unfolding u rs by (auto simp: room_def)
  moreover have "b = c \<or> b_date b \<noteq> b_date c"
    if "b \<in> set (utilized ''2026-09-14'' ''2026-09-15'' sample_db)" "c \<in> set (utilized ''2026-09-14'' ''2026-09-15'' sample_db)" for b c
    using that dates(1) unfolding u by auto
  moreover have "reads_dates (\<lambda>s. s) \<or> prints_instants (\<lambda>s. s)" by (simp add: reads_dates_def)
  ultimately show ?thesis
    by (intro utilization_within_capacity [OF sample_db_ok, THEN conjunct1]) blast+
qed

section \<open>An early check-out\<close>

definition morning_room :: resource where
  "morning_room = (room ''r1'' ''ROOM-1'' False)\<lparr>r_opensAt := ''09:00:00''\<rparr>"

definition long_morning :: booking where
  "long_morning = (plain_booking ''k1'' ''r1'' ''2026-09-15'' ''09:00:00'' ''12:00:00'' CHECKED_IN)
     \<lparr>b_checkInRequestedAt := Some 1789437300000, b_checkedInAt := Some 1789437400000, b_checkedInById := Some ''s1''\<rparr>"

definition morning_db :: db where
  "morning_db = \<lparr>users = [person ''u1'' ''nam@usth.edu.vn'' STUDENT True, person ''s1'' ''desk@usth.edu.vn'' STAFF True],
     buildings = [sample_building], resources = [morning_room], closures = [], bookings = [long_morning]\<rparr>"

definition morning_env :: env where
  "morning_env = \<lparr>clock = 1789438200000, clock_after = 1789438200000, db_now = 1789438200000,
     fresh_id = ''k2'', random_int = 7\<rparr>"

lemma morning_ok: "db_ok morning_db"
proof -
  have b: "booking_rules long_morning" "booking_typed long_morning" by code_simp+
  have u: "booking_users_known morning_db long_morning"
    by (simp add: booking_users_known_def null_or_in_def ids_def morning_db_def person_def long_morning_def plain_booking_def Let_def)
  have "resource_typed morning_room" "resource_rules morning_room" by code_simp+
  moreover have "table_inv u_id user_ok user_clash (users morning_db)" by code_simp
  ultimately show ?thesis
    using b u by (simp add: db_ok_def table_inv_def booking_ok_def resource_ok_def ids_def)
      (simp add: morning_db_def morning_room_def room_def sample_building_def long_morning_def plain_booking_def)
qed

definition morning_left :: booking where
  "morning_left = long_morning\<lparr>b_status := COMPLETED, b_checkedOutAt := Some 1789438200000,
     b_checkedOutById := Some ''s1'', b_updatedAt := 1789438200000\<rparr>"

definition later_morning :: booking where
  "later_morning = (plain_booking ''k2'' ''r1'' ''2026-09-15'' ''10:00:00'' ''12:00:00'' CONFIRMED)
     \<lparr>b_createdAt := 1789438200000, b_updatedAt := 1789438200000\<rparr>"

definition later_dto :: create_booking_dto where
  "later_dto = \<lparr>cb_resourceId = ''r1'', cb_date = ''2026-09-15'', cb_startTime = ''10:00'', cb_endTime = ''12:00''\<rparr>"

lemma morning_checked_out:
  "checkOut ''s1'' ''k1'' morning_env morning_db =
    Inr (morning_left, morning_db\<lparr>bookings := [morning_left]\<rparr>,
      [AvailabilityChanged ''r1'' ''2026-09-15''])"
  by code_simp

lemma morning_rebooked:
  "create_booking ''u1'' later_dto morning_env (morning_db\<lparr>bookings := [morning_left]\<rparr>) =
    Inr (later_morning\<lparr>b_startTime := ''10:00'', b_endTime := ''12:00''\<rparr>,
      morning_db\<lparr>bookings := [morning_left, later_morning]\<rparr>,
      [AvailabilityChanged ''r1'' ''2026-09-15''])"
  by code_simp

lemma morning_utilized:
  "utilized ''2026-09-15'' ''2026-09-15'' (morning_db\<lparr>bookings := [morning_left, later_morning]\<rparr>) = [morning_left, later_morning]"
  by code_simp

lemma morning_times:
  "sql_time (b_startTime morning_left) = 32400" "sql_time (b_endTime morning_left) = 43200"
  "sql_time (b_startTime later_morning) = 36000" "sql_time (b_endTime later_morning) = 43200"
  by code_simp+

lemma morning_capacity: "capacityHours (\<lambda>s. s) ''2026-09-15'' ''2026-09-15'' [morning_room] [] = 3"
proof -
  have "sql_date ''2026-09-15'' = 20711" by code_simp
  moreover have "js_slice 0 10 (toISOString (20711 * 86400000)) = ''2026-09-15''" by code_simp
  ultimately have "dates ''2026-09-15'' ''2026-09-15'' = [''2026-09-15'']"
    by (simp add: dates_def dates_from.simps)
  moreover have "capacity_on {} morning_room ''2026-09-15'' = 3" by code_simp
  ultimately show ?thesis by (simp add: capacityHours_def)
qed

text \<open>C28: An early check-out frees the rest of its slot for a new booking, and both are counted in full: in a
database that satisfies every constraint, a check-out followed by a booking leaves a morning of three
hours with five scheduled hours, a utilization of more than one hundred percent.\<close>

theorem early_checkout_counts_twice:
  "\<exists>d dto e b1 d1 evs1 b2 d2 evs2. db_ok d \<and> checkOut ''s1'' ''k1'' e d = Inr (b1, d1, evs1) \<and>
    create_booking ''u1'' dto e d1 = Inr (b2, d2, evs2) \<and>
    an_scheduledHours (getSummary (\<lambda>s. s) (\<lambda>s. s) ''2026-09-15'' ''2026-09-15'' d2) = 5 \<and>
    an_capacityHours (getSummary (\<lambda>s. s) (\<lambda>s. s) ''2026-09-15'' ''2026-09-15'' d2) = 3"
proof -
  let ?d = "morning_db\<lparr>bookings := [morning_left, later_morning]\<rparr>"
  have "scheduledHours ''2026-09-15'' ''2026-09-15'' ?d = 5"
    unfolding scheduledHours_def morning_utilized by (simp add: booked_hours_def morning_times)
  moreover have "filter (\<lambda>r. r_status r = ACTIVE) (resources ?d) = [morning_room]" "closures ?d = []"
    by (simp_all add: morning_db_def morning_room_def room_def)
  ultimately have "an_scheduledHours (getSummary (\<lambda>s. s) (\<lambda>s. s) ''2026-09-15'' ''2026-09-15'' ?d) = 5"
    "an_capacityHours (getSummary (\<lambda>s. s) (\<lambda>s. s) ''2026-09-15'' ''2026-09-15'' ?d) = 3"
    by (simp_all add: getSummary_def Let_def morning_capacity)
  with morning_ok morning_checked_out morning_rebooked show ?thesis by blast
qed

end
