(* ===== verification/WebValues.thy ===== *)
theory WebValues
  imports Complex_Main ResourceApi Auth
begin

text \<open>
  The values the web frontend reads from the service: what \<open>JSON.parse\<close> gives back for what the
  service's response objects are serialised to, and the tests the frontend's parsers
  (features/*/schema.ts in src/web-frontend) share. A missing property reads as \<open>undefined\<close>; numbers
  are rationals, which holds every number the service sends.
\<close>

section \<open>Values\<close>

datatype js_value =
  JUndefined
| JNull
| JBool bool
| JNumber rat
| JString string
| JArray "js_value list"
| JObject "(string \<times> js_value) list"

definition isRecord :: "js_value \<Rightarrow> bool" where
  "isRecord v \<longleftrightarrow> (case v of JObject fs \<Rightarrow> True | _ \<Rightarrow> False)"

text \<open>\<open>value.k\<close> of a record.\<close>

definition js_get :: "js_value \<Rightarrow> string \<Rightarrow> js_value" where
  "js_get v k = (case v of
     JObject fs \<Rightarrow> (case map_of fs k of None \<Rightarrow> JUndefined | Some x \<Rightarrow> x)
   | _ \<Rightarrow> JUndefined)"

definition has_key :: "js_value \<Rightarrow> string \<Rightarrow> bool" where
  "has_key v k \<longleftrightarrow> (case v of JObject fs \<Rightarrow> k \<in> fst ` set fs | _ \<Rightarrow> False)"

text \<open>\<open>typeof x === "string"\<close> and its like, with the value they narrow to.\<close>

definition as_string :: "js_value \<Rightarrow> string option" where
  "as_string v = (case v of JString s \<Rightarrow> Some s | _ \<Rightarrow> None)"

definition as_bool :: "js_value \<Rightarrow> bool option" where
  "as_bool v = (case v of JBool b \<Rightarrow> Some b | _ \<Rightarrow> None)"

definition as_number :: "js_value \<Rightarrow> rat option" where
  "as_number v = (case v of JNumber x \<Rightarrow> Some x | _ \<Rightarrow> None)"

definition as_array :: "js_value \<Rightarrow> js_value list option" where
  "as_array v = (case v of JArray xs \<Rightarrow> Some xs | _ \<Rightarrow> None)"

text \<open>\<open>Number.isInteger\<close>\<close>

definition as_integer :: "js_value \<Rightarrow> int option" where
  "as_integer v = (case v of JNumber x \<Rightarrow> if of_int \<lfloor>x\<rfloor> = x then Some \<lfloor>x\<rfloor> else None | _ \<Rightarrow> None)"

text \<open>\<open>x === null || test(x)\<close>\<close>

definition nullable :: "(js_value \<Rightarrow> 'a option) \<Rightarrow> js_value \<Rightarrow> 'a option option" where
  "nullable f v = (if v = JNull then Some None else map_option Some (f v))"

text \<open>Mapping a parser over an array; one null result spoils it.\<close>

fun all_parsed :: "('a \<Rightarrow> 'b option) \<Rightarrow> 'a list \<Rightarrow> 'b list option" where
  "all_parsed f [] = Some []"
| "all_parsed f (x # xs) =
     (case f x of None \<Rightarrow> None | Some y \<Rightarrow> map_option (Cons y) (all_parsed f xs))"

definition guard_that :: "bool \<Rightarrow> unit option" where
  "guard_that b = (if b then Some () else None)"

section \<open>Texts\<close>

definition is_hex :: "char \<Rightarrow> bool" where
  "is_hex c \<longleftrightarrow> (let n = (of_char c :: nat) in
     (48 \<le> n \<and> n \<le> 57) \<or> (65 \<le> n \<and> n \<le> 70) \<or> (97 \<le> n \<and> n \<le> 102))"

text \<open>\<open>/^[0-9a-f]{8}-[0-9a-f]{4}-[0-9a-f]{4}-[0-9a-f]{4}-[0-9a-f]{12}$/i\<close>\<close>

definition uuid_pattern :: "string \<Rightarrow> bool" where
  "uuid_pattern s \<longleftrightarrow>
     map length (js_split CHR ''-'' s) = [8, 4, 4, 4, 12] \<and>
     (\<forall>part\<in>set (js_split CHR ''-'' s). \<forall>c\<in>set part. is_hex c)"

text \<open>\<open>/^[0-9a-f]{8}-[0-9a-f]{4}-[1-8][0-9a-f]{3}-[89ab][0-9a-f]{3}-[0-9a-f]{12}$/i\<close>\<close>

definition uuid_version_pattern :: "string \<Rightarrow> bool" where
  "uuid_version_pattern s \<longleftrightarrow> uuid_pattern s \<and>
     hd (js_split CHR ''-'' s ! 2) \<in> set ''12345678'' \<and> hd (js_split CHR ''-'' s ! 3) \<in> set ''89abAB''"

definition six_digit_pattern :: "string \<Rightarrow> bool" where
  "six_digit_pattern s \<longleftrightarrow> length s = 6 \<and> (\<forall>c\<in>set s. is_digit c)"

definition web_isCalendarDate :: "string \<Rightarrow> bool" where
  "web_isCalendarDate s \<longleftrightarrow> date_pattern s \<and> real_date s"

section \<open>Instants\<close>

text \<open>
  \<open>Date.parse\<close> on the form \<open>toISOString\<close> writes; on any other text it is what the engine makes of it,
  the parameter \<open>other\<close>. \<open>None\<close> is \<open>NaN\<close>.
\<close>

definition iso_instant :: "string \<Rightarrow> int option" where
  "iso_instant s =
     (let date = js_slice 0 10 s; clock = js_slice 11 16 s;
          seconds = js_slice 17 19 s; millis = js_slice 20 23 s
      in if length s = 24 \<and> date_pattern date \<and> js_slice 10 11 s = ''T'' \<and> clock_pattern clock \<and>
            js_slice 16 17 s = '':'' \<and> (\<forall>c\<in>set seconds. is_digit c) \<and> js_number seconds < 60 \<and>
            js_slice 19 20 s = ''.'' \<and> (\<forall>c\<in>set millis. is_digit c) \<and> js_slice 23 24 s = ''Z''
         then (case date_numbers date of
             Some (year, month, day) \<Rightarrow>
               if 1 \<le> month \<and> month \<le> 12 \<and> 1 \<le> day \<and> day \<le> 31
               then Some (make_day year (month - 1) day * 86400000 + int (clock_minutes clock) * 60000
                      + int (js_number seconds) * 1000 + int (js_number millis))
               else None
           | None \<Rightarrow> None)
         else None)"

definition date_parse :: "(string \<Rightarrow> int option) \<Rightarrow> string \<Rightarrow> int option" where
  "date_parse other s = (case iso_instant s of Some t \<Rightarrow> Some t | None \<Rightarrow> other s)"

definition as_timestamp :: "(string \<Rightarrow> int option) \<Rightarrow> js_value \<Rightarrow> string option" where
  "as_timestamp other v =
     (case as_string v of
        None \<Rightarrow> None
      | Some s \<Rightarrow> if date_parse other s = None then None else Some s)"

text \<open>A comparison with \<open>NaN\<close> is false.\<close>

definition isAtOrAfter :: "(string \<Rightarrow> int option) \<Rightarrow> string option \<Rightarrow> string option \<Rightarrow> bool" where
  "isAtOrAfter other left right \<longleftrightarrow>
     (case (left, right) of
        (Some l, Some r) \<Rightarrow>
          (case (date_parse other l, date_parse other r) of (Some a, Some b) \<Rightarrow> b \<le> a | _ \<Rightarrow> False)
      | _ \<Rightarrow> True)"

section \<open>Enumerations\<close>

definition status_of_text :: "string \<Rightarrow> booking_status option" where
  "status_of_text s =
     map_of (map (\<lambda>st. (booking_status_text st, st))
       [PENDING, CONFIRMED, CHECKED_IN, COMPLETED, NO_SHOW, REJECTED, CANCELLED]) s"

definition resource_type_of_text :: "string \<Rightarrow> resource_type option" where
  "resource_type_of_text s = map_of (map (\<lambda>t. (resource_type_text t, t)) [ROOM, LABORATORY, EQUIPMENT]) s"

definition resource_status_of_text :: "string \<Rightarrow> resource_status option" where
  "resource_status_of_text s = map_of (map (\<lambda>t. (resource_status_text t, t)) [ACTIVE, MAINTENANCE, INACTIVE]) s"

definition role_of_text :: "string \<Rightarrow> user_role option" where
  "role_of_text s = map_of (map (\<lambda>r. (user_role_text r, r)) [STUDENT, STAFF, ADMIN]) s"

section \<open>Serialising\<close>

text \<open>\<open>JSON.stringify\<close> calls \<open>toISOString\<close> on a date; an absent value was set to null.\<close>

definition js_date :: "int \<Rightarrow> js_value" where
  "js_date t = JString (toISOString t)"

definition or_jnull :: "('a \<Rightarrow> js_value) \<Rightarrow> 'a option \<Rightarrow> js_value" where
  "or_jnull f x = (case x of None \<Rightarrow> JNull | Some y \<Rightarrow> f y)"

definition js_int :: "int \<Rightarrow> js_value" where
  "js_int n = JNumber (of_int n)"

end
