(* ===== verification/WebInstants.thy ===== *)
theory WebInstants
  imports WebValues
begin

text \<open>
  Instants and dates as texts: \<open>Date.parse\<close> reads back what \<open>toISOString\<close> writes, and the order of the
  texts is the order of the dates, of the times of day and of the instants, from 1970 to 9999.
\<close>

section \<open>Texts of one length\<close>

lemma append_less_iff:
  fixes a b c d :: string
  assumes "length a = length c"
  shows "a @ b < c @ d \<longleftrightarrow> a < c \<or> a = c \<and> b < d"
  using assms by (induction a c rule: list_induct2) auto

lemma js_number_Cons: "js_number (c # s) = digit_val c * 10 ^ length s + js_number s"
proof (induction s rule: rev_induct)
  case (snoc x s)
  have "js_number (c # s @ [x]) = 10 * js_number (c # s) + digit_val x"
    using js_number_snoc [of "c # s" x] by simp
  then show ?case by (simp add: snoc js_number_snoc algebra_simps)
qed (simp add: js_number_def)

lemma js_number_bound: "\<forall>c\<in>set s. is_digit c \<Longrightarrow> js_number s < 10 ^ length s"
proof (induction s)
  case (Cons c s)
  then have "digit_val c < 10" "js_number s < 10 ^ length s" by (simp_all add: digit_val_less)
  then have "digit_val c * 10 ^ length s + js_number s < (digit_val c + 1) * 10 ^ length s" by simp
  also have "\<dots> \<le> 10 * 10 ^ length s" using \<open>digit_val c < 10\<close> by (intro mult_right_mono) simp_all
  finally show ?case by (simp add: js_number_Cons)
qed (simp add: js_number_def)

lemma digits_less_iff:
  assumes "length s = length t" "\<forall>c\<in>set s. is_digit c" "\<forall>c\<in>set t. is_digit c"
  shows "s < t \<longleftrightarrow> js_number s < js_number t"
  using assms
proof (induction s t rule: list_induct2)
  case (Cons a s b t)
  let ?n = "10 ^ length t :: nat"
  have l: "js_number s < ?n" "js_number t < ?n"
    using js_number_bound [of s] js_number_bound [of t] Cons by simp_all
  have "digit_val a * ?n + js_number s < digit_val b * ?n + js_number t \<longleftrightarrow>
      digit_val a < digit_val b \<or> digit_val a = digit_val b \<and> js_number s < js_number t"
  proof (cases "digit_val a" "digit_val b" rule: linorder_cases)
    case less
    then have "(digit_val a + 1) * ?n \<le> digit_val b * ?n" by (intro mult_right_mono) simp_all
    then show ?thesis using less l by simp
  next
    case greater
    then have "(digit_val b + 1) * ?n \<le> digit_val a * ?n" by (intro mult_right_mono) simp_all
    then show ?thesis using greater l by simp
  qed simp
  moreover have "a < b \<longleftrightarrow> digit_val a < digit_val b" "a = b \<longleftrightarrow> digit_val a = digit_val b"
    using digit_less_iff [of a b] digit_eq_iff [of a b] Cons.prems by auto
  moreover have "s < t \<longleftrightarrow> js_number s < js_number t" using Cons by simp
  ultimately show ?case using Cons.hyps by (simp only: Cons_less_Cons js_number_Cons)
qed (simp add: js_number_def)

text \<open>A number padded to its width.\<close>

definition wide :: "nat \<Rightarrow> nat \<Rightarrow> string" where
  "wide k n = pad_start k CHR ''0'' (js_string n)"

lemma wide_number [simp]: "js_number (wide k n) = n"
  by (simp add: wide_def js_number_pad js_number_string)

lemma wide_digits: "c \<in> set (wide k n) \<Longrightarrow> is_digit c"
  using js_string_digits by (auto simp: wide_def pad_start_def is_digit_def)

lemma wide_length: "n < 10 ^ k \<Longrightarrow> 0 < k \<Longrightarrow> length (wide k n) = k"
  using js_string_length [of n k] by (simp add: wide_def pad_start_def)

lemma wide_less_iff: "m < 10 ^ k \<Longrightarrow> n < 10 ^ k \<Longrightarrow> 0 < k \<Longrightarrow> wide k m < wide k n \<longleftrightarrow> m < n"
  by (subst digits_less_iff) (auto simp: wide_length wide_digits)

lemma wide_eq_iff: "wide k m = wide k n \<longleftrightarrow> m = n"
  by (metis wide_number)

section \<open>Dates\<close>

lemma make_day_less:
  assumes v: "valid_ymd y m d" "valid_ymd y' m' d'" and l: "y < y' \<or> y = y' \<and> (m < m' \<or> m = m' \<and> d < d')"
  shows "make_day y m d < make_day y' m' d'"
proof -
  have f: "year_from_day (make_day y m d) = y" "year_from_day (make_day y' m' d') = y'"
    by (rule make_day_fields(1) [OF v(1)], rule make_day_fields(1) [OF v(2)])
  from l consider "y < y'" | "y = y'" "m < m'" | "y = y'" "m = m'" "d < d'" by blast
  then show ?thesis
  proof cases
    case 1
    have "make_day y m d < day_from_year (y + 1)" using year_from_day_bounds(2) [of "make_day y m d"] f by simp
    also have "\<dots> \<le> day_from_year y'" using 1 day_from_year_mono [of "y + 1" y'] by (cases "y + 1 = y'") auto
    also have "\<dots> \<le> make_day y' m' d'" using year_from_day_bounds(1) [of "make_day y' m' d'"] f by simp
    finally show ?thesis .
  next
    case 2
    have b: "0 \<le> m" "m < 12" "0 \<le> m'" "m' < 12" "1 \<le> d'" "d \<le> month_length (leap_year y) m"
      using v by (auto simp: valid_ymd_def)
    have ms: "month_start l (m + 1) \<le> month_start l m'" for l
    proof -
      have "m + 1 \<in> set [1..12]" "m' \<in> set [1..11]" using b 2(2) by auto
      then show ?thesis using 2(2) by (auto simp: upto.simps)
    qed
    show ?thesis using b 2 ms [of "leap_year y"] by (simp add: make_day_def month_length_def)
  next
    case 3
    then show ?thesis by (simp add: make_day_def Let_def)
  qed
qed

lemma make_day_less_iff:
  assumes "valid_ymd y m d" "valid_ymd y' m' d'"
  shows "make_day y m d < make_day y' m' d' \<longleftrightarrow> y < y' \<or> y = y' \<and> (m < m' \<or> m = m' \<and> d < d')"
  using make_day_less [OF assms] make_day_less [OF assms(2,1)]
  by (metis less_asym linorder_neqE_linordered_idom less_irrefl)

lemma date_less_iff:
  assumes "pg_date s" "pg_date t"
  shows "s < t \<longleftrightarrow> sql_date s < sql_date t"
proof -
  obtain y m d where s: "date_pattern s" "date_numbers s = Some (y, m, d)" "valid_ymd y (m - 1) d"
    using assms(1) by (rule pg_dateE)
  obtain y' m' d' where t: "date_pattern t" "date_numbers t = Some (y', m', d')" "valid_ymd y' (m' - 1) d'"
    using assms(2) by (rule pg_dateE)
  have split: "\<exists>Y M D. r = Y @ ''-'' @ M @ ''-'' @ D \<and> length Y = 4 \<and> length M = 2 \<and> length D = 2 \<and>
      (\<forall>c\<in>set Y \<union> set M \<union> set D. is_digit c) \<and> js_slice 0 4 r = Y \<and> js_slice 5 7 r = M \<and> js_slice 8 10 r = D"
    if "date_pattern r" for r
    using that by (intro exI [of _ "js_slice 0 4 r"] exI [of _ "js_slice 5 7 r"] exI [of _ "js_slice 8 10 r"])
      (auto elim!: date_patternE simp: js_slice_def)
  obtain Y M D where ss: "s = Y @ ''-'' @ M @ ''-'' @ D" "length Y = 4" "length M = 2" "length D = 2"
    "\<forall>c\<in>set Y \<union> set M \<union> set D. is_digit c" "js_slice 0 4 s = Y" "js_slice 5 7 s = M" "js_slice 8 10 s = D"
    using split [OF s(1)] by blast
  obtain Y' M' D' where tt: "t = Y' @ ''-'' @ M' @ ''-'' @ D'" "length Y' = 4" "length M' = 2" "length D' = 2"
    "\<forall>c\<in>set Y' \<union> set M' \<union> set D'. is_digit c" "js_slice 0 4 t = Y'" "js_slice 5 7 t = M'" "js_slice 8 10 t = D'"
    using split [OF t(1)] by blast
  have n: "y = int (js_number Y)" "m = int (js_number M)" "d = int (js_number D)"
    "y' = int (js_number Y')" "m' = int (js_number M')" "d' = int (js_number D')"
    using s(2) t(2) date_numbers_pattern [OF s(1)] date_numbers_pattern [OF t(1)] ss(6-8) tt(6-8) by simp_all
  have less: "a < b \<longleftrightarrow> js_number a < js_number b" "a = b \<longleftrightarrow> js_number a = js_number b"
    if "length a = length b" "\<forall>c\<in>set a. is_digit c" "\<forall>c\<in>set b. is_digit c" for a b
  proof -
    show l: "a < b \<longleftrightarrow> js_number a < js_number b" by (rule digits_less_iff [OF that])
    have "b < a \<longleftrightarrow> js_number b < js_number a" using that by (intro digits_less_iff) simp_all
    with l show "a = b \<longleftrightarrow> js_number a = js_number b" by (metis less_irrefl linorder_neqE)
  qed
  have Y: "Y < Y' \<longleftrightarrow> y < y'" "Y = Y' \<longleftrightarrow> y = y'" and M: "M < M' \<longleftrightarrow> m < m'" "M = M' \<longleftrightarrow> m = m'"
    and D: "D < D' \<longleftrightarrow> d < d'"
    using less [of Y Y'] less [of M M'] less [of D D'] ss(2-5) tt(2-5) by (simp_all add: n)
  have "s < t \<longleftrightarrow> y < y' \<or> y = y' \<and> (m < m' \<or> m = m' \<and> d < d')"
    unfolding ss(1) tt(1) using ss(2-4) tt(2-4) by (simp add: append_less_iff Y M D)
  also have "\<dots> \<longleftrightarrow> sql_date s < sql_date t"
    using make_day_less_iff [OF s(3) t(3)] by (simp add: sql_date_def s(2) t(2))
  finally show ?thesis .
qed

lemma date_le_iff: "pg_date s \<Longrightarrow> pg_date t \<Longrightarrow> s \<le> t \<longleftrightarrow> sql_date s \<le> sql_date t"
  using date_less_iff [of t s] by (simp add: not_less [symmetric])

section \<open>Instants\<close>

lemma iso_pair_wide: "iso_pair n = wide 2 (nat n)"
  by (simp add: iso_pair_def wide_def)

text \<open>The two halves of the text of an instant.\<close>

definition iso_clock :: "int \<Rightarrow> string" where
  "iso_clock t = iso_pair (hour_from_time t) @ '':'' @ iso_pair (min_from_time t) @ '':'' @
     iso_pair (sec_from_time t) @ ''.'' @ wide 3 (nat (t mod 1000)) @ ''Z''"

definition iso_day :: "int \<Rightarrow> string" where
  "iso_day t = iso_year (year_from_day (day_of_time t)) @ ''-'' @ iso_pair (month_from_day (day_of_time t) + 1) @ ''-'' @
     iso_pair (date_from_day (day_of_time t))"

lemma toISOString_parts: "toISOString t = iso_day t @ ''T'' @ iso_clock t"
  by (simp add: toISOString_def Let_def iso_day_def iso_clock_def wide_def)

definition iso_era :: "int \<Rightarrow> bool" where
  "iso_era t \<longleftrightarrow> -62135596800000 \<le> t \<and> t < 253402300800000"

lemma campus_iso_era: "campus_era t \<Longrightarrow> iso_era t"
  by (simp add: campus_era_def iso_era_def)

lemma iso_era_year:
  assumes "iso_era t"
  shows "1 \<le> year_from_day (day_of_time t)" "year_from_day (day_of_time t) \<le> 9999"
proof -
  let ?n = "day_of_time t"
  have n: "-719162 \<le> ?n" "?n < 2932897"
    using assms div_bounds [of 86400000 t] unfolding iso_era_def day_of_time_def by linarith+
  show "1 \<le> year_from_day ?n"
  proof (rule ccontr)
    assume "\<not> 1 \<le> year_from_day ?n"
    then have "day_from_year (year_from_day ?n + 1) \<le> day_from_year 1"
      using day_from_year_mono [of "year_from_day ?n + 1" 1] by (cases "year_from_day ?n = 0") auto
    then show False using year_from_day_bounds(2) [of ?n] n(1) by (simp add: day_from_year_def)
  qed
  show "year_from_day ?n \<le> 9999"
  proof (rule ccontr)
    assume "\<not> year_from_day ?n \<le> 9999"
    then have "day_from_year 10000 \<le> day_from_year (year_from_day ?n)"
      using day_from_year_mono [of 10000 "year_from_day ?n"] by (cases "year_from_day ?n = 10000") auto
    then show False using year_from_day_bounds(1) [of ?n] n(2) by (simp add: day_from_year_def)
  qed
qed

lemma iso_day_date:
  assumes "iso_era t"
  shows "pg_date (iso_day t)" "sql_date (iso_day t) = day_of_time t"
proof -
  let ?n = "day_of_time t"
  note y = iso_era_year [OF assms]
  have v: "valid_ymd (year_from_day ?n) (month_from_day ?n) (date_from_day ?n)" by (rule day_fields_valid)
  then have r: "0 \<le> month_from_day ?n + 1" "month_from_day ?n + 1 < 100" "0 \<le> date_from_day ?n" "date_from_day ?n < 100"
    using valid_ymd_ranges [of "year_from_day ?n" "month_from_day ?n + 1" "date_from_day ?n"] by simp_all
  obtain a b c d where Y: "iso_year (year_from_day ?n) = [a, b, c, d]"
    "is_digit a" "is_digit b" "is_digit c" "is_digit d" "int (js_number [a, b, c, d]) = year_from_day ?n"
  proof -
    have "nat (year_from_day ?n) < 10000" using y by simp
    then show ?thesis
      using y by (elim four_char) (auto intro!: that simp: iso_year_def simp del: js_number_four)
  qed
  obtain e f where M: "iso_pair (month_from_day ?n + 1) = [e, f]" "is_digit e" "is_digit f"
    "int (10 * digit_val e + digit_val f) = month_from_day ?n + 1"
    using iso_pair_chars [OF r(1,2)] .
  obtain g h where D: "iso_pair (date_from_day ?n) = [g, h]" "is_digit g" "is_digit h"
    "int (10 * digit_val g + digit_val h) = date_from_day ?n"
    using iso_pair_chars [OF r(3,4)] .
  have date: "iso_day t = [a, b, c, d, CHR ''-'', e, f, CHR ''-'', g, h]"
    by (simp add: iso_day_def Y(1) M(1) D(1))
  have p: "date_pattern (iso_day t)" by (simp add: date Y M D)
  have nums: "date_numbers (iso_day t) = Some (year_from_day ?n, month_from_day ?n + 1, date_from_day ?n)"
    using date_numbers_pattern [OF p] Y(6) M(4) D(4) by (simp add: date js_slice_def)
  show "pg_date (iso_day t)" using y v by (simp add: pg_date_iff [OF p nums])
  show "sql_date (iso_day t) = ?n" using day_fields_make [of ?n] by (simp add: sql_date_def nums)
qed

text \<open>The parts of a time of day.\<close>

lemma clock_parts:
  fixes t :: int
  shows "0 \<le> hour_from_time t" "hour_from_time t < 24" "0 \<le> min_from_time t" "min_from_time t < 60"
    "0 \<le> sec_from_time t" "sec_from_time t < 60" "0 \<le> t mod 1000" "t mod 1000 < 1000"
    "t mod 86400000 = hour_from_time t * 3600000 + min_from_time t * 60000 + sec_from_time t * 1000 + t mod 1000"
proof -
  let ?m = "t mod 86400000"
  have "?m div 60000 = 60 * hour_from_time t + min_from_time t" using minutes_of_day [of t] by simp
  moreover have "?m div 1000 = 60 * (?m div 60000) + sec_from_time t"
  proof -
    have "?m div 60000 = ?m div 1000 div 60" by (simp add: zdiv_zmult2_eq [symmetric])
    then show ?thesis by (simp add: sec_from_time_def)
  qed
  moreover have "?m = 1000 * (?m div 1000) + t mod 1000"
  proof -
    have "?m mod 1000 = t mod 1000" by (rule mod_mod_cancel) simp
    then show ?thesis using mult_div_mod_eq [of 1000 ?m] by simp
  qed
  ultimately show "?m = hour_from_time t * 3600000 + min_from_time t * 60000 + sec_from_time t * 1000 + t mod 1000"
    by simp
qed (use day_part_bounds [of t] in \<open>simp_all add: sec_from_time_def\<close>)

lemma iso_clock_wide:
  "iso_clock t = wide 2 (nat (hour_from_time t)) @ '':'' @ wide 2 (nat (min_from_time t)) @ '':'' @
     wide 2 (nat (sec_from_time t)) @ ''.'' @ wide 3 (nat (t mod 1000)) @ ''Z''"
  by (simp add: iso_clock_def iso_pair_wide)

lemma lex_clock:
  fixes h m s f h' m' s' f' :: int
  assumes "0 \<le> m" "m < 60" "0 \<le> m'" "m' < 60" "0 \<le> s" "s < 60" "0 \<le> s'" "s' < 60"
    "0 \<le> f" "f < 1000" "0 \<le> f'" "f' < 1000"
  shows "h * 3600000 + m * 60000 + s * 1000 + f < h' * 3600000 + m' * 60000 + s' * 1000 + f' \<longleftrightarrow>
    h < h' \<or> h = h' \<and> (m < m' \<or> m = m' \<and> (s < s' \<or> s = s' \<and> f < f'))"
proof (cases h h' rule: linorder_cases)
  case equal
  then show ?thesis
  proof (cases m m' rule: linorder_cases)
    case equal
    then show ?thesis using assms \<open>h = h'\<close> by (cases s s' rule: linorder_cases) auto
  qed (use assms \<open>h = h'\<close> in auto)
qed (use assms in auto)

lemma iso_clock_less_iff: "iso_clock t < iso_clock u \<longleftrightarrow> t mod 86400000 < u mod 86400000"
proof -
  note c = clock_parts [of t] and d = clock_parts [of u]
  have w: "length (wide 2 (nat (hour_from_time x))) = 2" "length (wide 2 (nat (min_from_time x))) = 2"
    "length (wide 2 (nat (sec_from_time x))) = 2" "length (wide 3 (nat (x mod 1000))) = 3" for x
    using clock_parts [of x] by (auto intro!: wide_length)
  have l: "wide 2 (nat (hour_from_time t)) < wide 2 (nat (hour_from_time u)) \<longleftrightarrow> hour_from_time t < hour_from_time u"
    "wide 2 (nat (min_from_time t)) < wide 2 (nat (min_from_time u)) \<longleftrightarrow> min_from_time t < min_from_time u"
    "wide 2 (nat (sec_from_time t)) < wide 2 (nat (sec_from_time u)) \<longleftrightarrow> sec_from_time t < sec_from_time u"
    "wide 3 (nat (t mod 1000)) < wide 3 (nat (u mod 1000)) \<longleftrightarrow> t mod 1000 < u mod 1000"
    using c d by (auto simp: wide_less_iff)
  have e: "wide 2 (nat (hour_from_time t)) = wide 2 (nat (hour_from_time u)) \<longleftrightarrow> hour_from_time t = hour_from_time u"
    "wide 2 (nat (min_from_time t)) = wide 2 (nat (min_from_time u)) \<longleftrightarrow> min_from_time t = min_from_time u"
    "wide 2 (nat (sec_from_time t)) = wide 2 (nat (sec_from_time u)) \<longleftrightarrow> sec_from_time t = sec_from_time u"
    using c d by (simp_all add: wide_eq_iff eq_nat_nat_iff)
  have "iso_clock t < iso_clock u \<longleftrightarrow> hour_from_time t < hour_from_time u \<or> hour_from_time t = hour_from_time u \<and>
      (min_from_time t < min_from_time u \<or> min_from_time t = min_from_time u \<and>
      (sec_from_time t < sec_from_time u \<or> sec_from_time t = sec_from_time u \<and> t mod 1000 < u mod 1000))"
    unfolding iso_clock_wide using w by (simp add: append_less_iff l e)
  then show ?thesis
    unfolding c(9) d(9) by (subst lex_clock) (use c d in auto)
qed

text \<open>The order of the texts is the order of the instants.\<close>

lemma iso_less_iff:
  assumes "iso_era t" "iso_era u"
  shows "toISOString t < toISOString u \<longleftrightarrow> t < u"
proof -
  note T = iso_day_date [OF assms(1)] and U = iso_day_date [OF assms(2)]
  have l: "length (iso_day t) = 10" "length (iso_day u) = 10" using T(1) U(1) by (simp_all add: pg_date_length)
  have d: "iso_day t < iso_day u \<longleftrightarrow> day_of_time t < day_of_time u" using date_less_iff [OF T(1) U(1)] T U by simp
  have e: "iso_day t = iso_day u \<longleftrightarrow> day_of_time t = day_of_time u"
    using sql_date_inj [OF T(1) U(1)] T U by auto
  have "toISOString t < toISOString u \<longleftrightarrow>
      day_of_time t < day_of_time u \<or> day_of_time t = day_of_time u \<and> t mod 86400000 < u mod 86400000"
    unfolding toISOString_parts using l by (simp add: append_less_iff d e iso_clock_less_iff)
  also have "\<dots> \<longleftrightarrow> t < u"
  proof -
    have "x = 86400000 * day_of_time x + x mod 86400000" "0 \<le> x mod 86400000" "x mod 86400000 < 86400000" for x
      by (simp_all add: day_of_time_def)
    from this [of t] this [of u] show ?thesis
      by (cases "day_of_time t" "day_of_time u" rule: linorder_cases) linarith+
  qed
  finally show ?thesis .
qed

lemma iso_le_iff: "iso_era t \<Longrightarrow> iso_era u \<Longrightarrow> toISOString t \<le> toISOString u \<longleftrightarrow> t \<le> u"
  using iso_less_iff [of u t] by (simp add: not_less [symmetric])

text \<open>Reading the text of an instant back.\<close>

lemma wide2: "n < 100 \<Longrightarrow> \<exists>a b. wide 2 n = [a, b] \<and> is_digit a \<and> is_digit b \<and> 10 * digit_val a + digit_val b = n"
proof -
  assume n: "n < 100"
  then have "length (wide 2 n) = 2" by (intro wide_length) simp_all
  then obtain a b where ab: "wide 2 n = [a, b]" by (auto simp: numeral_2_eq_2 length_Suc_conv)
  then have "is_digit a" "is_digit b" using wide_digits [of _ 2 n] by auto
  moreover have "10 * digit_val a + digit_val b = n" using wide_number [of 2 n] ab by simp
  ultimately show ?thesis using ab by blast
qed

lemma iso_clock_chars:
  obtains h1 h2 m1 m2 s1 s2 f where
    "iso_clock t = [h1, h2, CHR '':'', m1, m2, CHR '':'', s1, s2, CHR ''.''] @ f @ ''Z''" "length f = 3"
    "clock_pattern [h1, h2, CHR '':'', m1, m2]" "\<forall>c\<in>set (s1 # s2 # f). is_digit c"
    "int (clock_minutes [h1, h2, CHR '':'', m1, m2]) = hour_from_time t * 60 + min_from_time t"
    "int (js_number [s1, s2]) = sec_from_time t" "int (js_number f) = t mod 1000"
proof -
  note c = clock_parts [of t]
  obtain h1 h2 where h: "wide 2 (nat (hour_from_time t)) = [h1, h2]" "is_digit h1" "is_digit h2"
    "10 * digit_val h1 + digit_val h2 = nat (hour_from_time t)"
    using wide2 [of "nat (hour_from_time t)"] c(2) by fastforce
  obtain m1 m2 where m: "wide 2 (nat (min_from_time t)) = [m1, m2]" "is_digit m1" "is_digit m2"
    "10 * digit_val m1 + digit_val m2 = nat (min_from_time t)"
    using wide2 [of "nat (min_from_time t)"] c(4) by fastforce
  obtain s1 s2 where s: "wide 2 (nat (sec_from_time t)) = [s1, s2]" "is_digit s1" "is_digit s2"
    "10 * digit_val s1 + digit_val s2 = nat (sec_from_time t)"
    using wide2 [of "nat (sec_from_time t)"] c(6) by fastforce
  let ?f = "wide 3 (nat (t mod 1000))"
  have f: "length ?f = 3" using c(8) by (intro wide_length) simp_all
  show ?thesis
  proof (rule that [of h1 h2 m1 m2 s1 s2 ?f])
    show "iso_clock t = [h1, h2, CHR '':'', m1, m2, CHR '':'', s1, s2, CHR ''.''] @ ?f @ ''Z''"
      by (simp add: iso_clock_wide h m s)
    show "clock_pattern [h1, h2, CHR '':'', m1, m2]" using h m c by (simp add: nat_less_iff)
    have "clock_minutes [h1, h2, CHR '':'', m1, m2] = 60 * nat (hour_from_time t) + nat (min_from_time t)"
      using h(4) m(4) by (simp add: clock_minutes_def js_slice_def)
    then show "int (clock_minutes [h1, h2, CHR '':'', m1, m2]) = hour_from_time t * 60 + min_from_time t"
      using c by simp
    show "int (js_number [s1, s2]) = sec_from_time t" using s(4) c(5) by simp
  qed (use f s wide_digits c in auto)
qed

lemma iso_instant_iso:
  assumes "iso_era t"
  shows "iso_instant (toISOString t) = Some t"
proof -
  note D = iso_day_date [OF assms]
  obtain h1 h2 m1 m2 s1 s2 f where C: "iso_clock t = [h1, h2, CHR '':'', m1, m2, CHR '':'', s1, s2, CHR ''.''] @ f @ ''Z''"
    "length f = 3" "clock_pattern [h1, h2, CHR '':'', m1, m2]" "\<forall>c\<in>set (s1 # s2 # f). is_digit c"
    "int (clock_minutes [h1, h2, CHR '':'', m1, m2]) = hour_from_time t * 60 + min_from_time t"
    "int (js_number [s1, s2]) = sec_from_time t" "int (js_number f) = t mod 1000"
    by (rule iso_clock_chars)
  obtain y m d where N: "date_pattern (iso_day t)" "date_numbers (iso_day t) = Some (y, m, d)" "valid_ymd y (m - 1) d"
    using D(1) by (rule pg_dateE)
  have len: "length (iso_day t) = 10" by (rule pg_date_length [OF D(1)])
  obtain f1 f2 f3 where f: "f = [f1, f2, f3]" using C(2) by (auto simp: numeral_3_eq_3 length_Suc_conv)
  let ?s = "toISOString t"
  have slices: "length ?s = 24" "js_slice 0 10 ?s = iso_day t" "js_slice 10 11 ?s = ''T''"
    "js_slice 11 16 ?s = [h1, h2, CHR '':'', m1, m2]" "js_slice 16 17 ?s = '':''" "js_slice 17 19 ?s = [s1, s2]"
    "js_slice 19 20 ?s = ''.''" "js_slice 20 23 ?s = f" "js_slice 23 24 ?s = ''Z''"
    unfolding toISOString_parts C(1) f by (simp_all add: len js_slice_def)
  have r: "1 \<le> m \<and> m \<le> 12 \<and> 1 \<le> d \<and> d \<le> 31" by (rule valid_ymd_ranges [OF N(3)])
  have day: "make_day y (m - 1) d = day_of_time t" using D(2) by (simp add: sql_date_def N(2))
  have sec: "js_number [s1, s2] < 60" using C(6) clock_parts(6) [of t] by linarith
  have "iso_instant ?s = Some (day_of_time t * 86400000 + int (clock_minutes [h1, h2, CHR '':'', m1, m2]) * 60000
      + int (js_number [s1, s2]) * 1000 + int (js_number f))"
    unfolding iso_instant_def Let_def slices N(2) using N(1) C(3,4) sec r
    by (simp add: day del: js_number_two clock_pattern.simps)
  also have "\<dots> = Some t"
    unfolding C(5-7) using clock_parts(9) [of t] mult_div_mod_eq [of 86400000 t] by (simp add: day_of_time_def)
  finally show ?thesis .
qed

lemma date_parse_iso [simp]: "iso_era t \<Longrightarrow> date_parse other (toISOString t) = Some t"
  by (simp add: date_parse_def iso_instant_iso)

lemma as_timestamp_date [simp]: "iso_era t \<Longrightarrow> as_timestamp other (js_date t) = Some (toISOString t)"
  by (simp add: as_timestamp_def js_date_def as_string_def)

end
