(* ===== verification/WebState.thy ===== *)
theory WebState
  imports CampusProps WebInstants
begin

text \<open>
  What the rows of the running system are besides the constraints of their tables: the dates are real
  days, the instants it stored are instants of its clock, the addresses and names of the accounts, the
  texts of the resources and the reasons of the closures were normalised and passed their validators. The
  web frontend's parsers and forms test these again.
\<close>

section \<open>Rows as the validators left them\<close>

definition stored_instants :: "booking \<Rightarrow> int option list" where
  "stored_instants b =
     [b_cancelledAt b, b_reviewedAt b, b_checkInRequestedAt b, b_checkedInAt b, b_checkedOutAt b, b_noShowAt b]"

definition booking_recorded :: "booking \<Rightarrow> bool" where
  "booking_recorded b \<longleftrightarrow> real_date (b_date b) \<and> (\<forall>t. Some t \<in> set (stored_instants b) \<longrightarrow> campus_era t)"

definition campus_address :: "string \<Rightarrow> bool" where
  "campus_address s \<longleftrightarrow> isStudentEmail s \<and> normalizeEmailAddress s = s"

definition user_recorded :: "user \<Rightarrow> bool" where
  "user_recorded u \<longleftrightarrow> campus_address (u_email u) \<and> js_trim (u_fullName u) \<noteq> []"

definition closure_recorded :: "closure \<Rightarrow> bool" where
  "closure_recorded c \<longleftrightarrow> real_date (c_date c) \<and> 2 \<le> length (js_trim (c_reason c))"

definition plain_text :: "string \<Rightarrow> bool" where
  "plain_text s \<longleftrightarrow> js_trim s = s \<and> 2 \<le> length s"

definition plain_description :: "string option \<Rightarrow> bool" where
  "plain_description s \<longleftrightarrow> (case s of None \<Rightarrow> True | Some x \<Rightarrow> js_trim x = x \<and> x \<noteq> [])"

definition plain_amenities :: "string list \<Rightarrow> bool" where
  "plain_amenities xs \<longleftrightarrow> length xs \<le> 20 \<and> distinct xs \<and>
     (\<forall>a\<in>set xs. js_trim a = a \<and> js_lower a = a \<and> a \<noteq> [] \<and> length a \<le> 50)"

definition resource_recorded :: "resource \<Rightarrow> bool" where
  "resource_recorded r \<longleftrightarrow>
     valid_code (r_code r) \<and> plain_text (r_name r) \<and> plain_text (r_location r) \<and>
     plain_description (r_description r) \<and> plain_amenities (r_amenities r)"

lemma resource_recorded_texts: "resource_recorded r \<Longrightarrow> r_code r \<noteq> [] \<and> r_name r \<noteq> []"
  by (auto simp: resource_recorded_def valid_code_def plain_text_def)

text \<open>What the normalisation and the validators leave.\<close>

lemma plain_trimmed: "plain_description (or_null (Some (js_trim s)))"
proof (cases "js_trim s = []")
  case False
  then have "or_null (Some (js_trim s)) = Some (js_trim s)" by (auto simp: or_null_def truthy_def split: list.split)
  then show ?thesis using False by (simp add: plain_description_def)
qed (simp add: or_null_def truthy_def plain_description_def)

lemma plain_texts:
  "valid_title (js_trim s) \<Longrightarrow> plain_text (js_trim s)"
  "plain_description (or_null (map_option js_trim x))"
  "valid_amenities (map (\<lambda>x. js_lower (js_trim x)) xs) \<Longrightarrow> plain_amenities (map (\<lambda>x. js_lower (js_trim x)) xs)"
proof -
  show "valid_title (js_trim s) \<Longrightarrow> plain_text (js_trim s)" by (simp add: valid_title_def plain_text_def)
  show "plain_description (or_null (map_option js_trim x))"
    using plain_trimmed by (cases x) (simp_all add: or_null_def truthy_def plain_description_def [of None])
  show "valid_amenities (map (\<lambda>x. js_lower (js_trim x)) xs) \<Longrightarrow> plain_amenities (map (\<lambda>x. js_lower (js_trim x)) xs)"
    by (auto simp: valid_amenities_def plain_amenities_def js_lower_trim)
qed

definition building_recorded :: "building \<Rightarrow> bool" where
  "building_recorded bl \<longleftrightarrow> bl_name bl \<noteq> []"

definition recorded :: "db \<Rightarrow> bool" where
  "recorded d \<longleftrightarrow>
     (\<forall>b\<in>set (bookings d). booking_recorded b) \<and> (\<forall>u\<in>set (users d). user_recorded u) \<and>
     (\<forall>c\<in>set (closures d). closure_recorded c) \<and> (\<forall>r\<in>set (resources d). resource_recorded r) \<and>
     (\<forall>bl\<in>set (buildings d). building_recorded bl)"

text \<open>The startup accounts as the environment's rules leave them.\<close>

definition account_recorded :: "bootstrap_account_config \<Rightarrow> bool" where
  "account_recorded a \<longleftrightarrow> campus_address (bc_email a) \<and> js_trim (bc_fullName a) \<noteq> []"

definition accounts_recorded :: "bootstrap_config \<Rightarrow> bool" where
  "accounts_recorded c \<longleftrightarrow> opt_holds (bs_admin c) account_recorded \<and> opt_holds (bs_staff c) account_recorded"

section \<open>Writes of recorded rows\<close>

lemma insert_row_set: "insert_row viol r rows = Inr rows' \<Longrightarrow> set rows' = insert r (set rows)"
  by (auto simp: insert_row_def split: option.splits)

lemma update_row_all:
  assumes "update_row viol key k f rows = Inr rows'" "\<forall>x\<in>set rows. P x" "\<And>x. P x \<Longrightarrow> P (f x)"
  shows "\<forall>x\<in>set rows'. P x"
  using assms by (auto simp: update_row_def set_patch_row split: option.splits)

lemma recorded_rows:
  assumes "recorded d"
  shows "b \<in> set (bookings d) \<Longrightarrow> booking_recorded b" "u \<in> set (users d) \<Longrightarrow> user_recorded u"
    "c \<in> set (closures d) \<Longrightarrow> closure_recorded c" "r \<in> set (resources d) \<Longrightarrow> resource_recorded r"
    "bl \<in> set (buildings d) \<Longrightarrow> building_recorded bl"
  using assms by (simp_all add: recorded_def)

lemma recorded_writes:
  assumes "recorded d"
  shows "\<forall>u\<in>set us. user_recorded u \<Longrightarrow> recorded (d\<lparr>users := us\<rparr>)"
    "\<forall>r\<in>set rs. resource_recorded r \<Longrightarrow> recorded (d\<lparr>resources := rs\<rparr>)"
    "\<forall>c\<in>set cs. closure_recorded c \<Longrightarrow> recorded (d\<lparr>closures := cs\<rparr>)"
    "\<forall>b\<in>set bs. booking_recorded b \<Longrightarrow> recorded (d\<lparr>bookings := bs\<rparr>)"
  using assms by (simp_all add: recorded_def)

lemma recorded_columns [simp]:
  "resource_recorded (resource_columns r) \<longleftrightarrow> resource_recorded r"
  "booking_recorded (booking_columns b) \<longleftrightarrow> booking_recorded b"
  by (simp_all add: resource_columns_def booking_columns_def resource_recorded_def booking_recorded_def
      stored_instants_def)

lemma insert_row_all:
  "insert_row viol r rows = Inr rows' \<Longrightarrow> \<forall>x\<in>set rows. P x \<Longrightarrow> P r \<Longrightarrow> \<forall>x\<in>set rows'. P x"
  by (simp add: insert_row_set)

lemma insert_recorded:
  "insert_user u d = Inr d' \<Longrightarrow> recorded d \<Longrightarrow> user_recorded u \<Longrightarrow> recorded d'"
  "insert_resource r d = Inr d' \<Longrightarrow> recorded d \<Longrightarrow> resource_recorded r \<Longrightarrow> recorded d'"
  "insert_closure c d = Inr d' \<Longrightarrow> recorded d \<Longrightarrow> closure_recorded c \<Longrightarrow> recorded d'"
  "insert_booking b d = Inr d' \<Longrightarrow> recorded d \<Longrightarrow> booking_recorded b \<Longrightarrow> recorded d'"
  unfolding insert_user_def insert_resource_def insert_closure_def insert_booking_def map_sum_Inr_iff
  by (elim exE conjE, hypsubst, rule recorded_writes, assumption, erule insert_row_all,
      simp_all add: recorded_rows)+

lemma update_recorded:
  "update_user k f d = Inr d' \<Longrightarrow> recorded d \<Longrightarrow> (\<And>u. user_recorded u \<Longrightarrow> user_recorded (f u)) \<Longrightarrow> recorded d'"
  "update_resource k g d = Inr d' \<Longrightarrow> recorded d \<Longrightarrow>
     (\<And>r. resource_recorded r \<Longrightarrow> resource_recorded (g r)) \<Longrightarrow> recorded d'"
  unfolding update_user_def update_resource_def map_sum_Inr_iff
  by (elim exE conjE, hypsubst, rule recorded_writes, assumption, erule update_row_all,
      simp_all add: recorded_rows)+

section \<open>The operations\<close>

lemma lifecycle_recorded:
  assumes d: "db_ok d" "db_lived (clock e) d" "op_sound op e d" and run: "run_lifecycle op e d = Inr (b', d', evs)"
    and r: "recorded d" and c: "campus_era (clock e)"
  shows "recorded d'"
proof -
  obtain b where b: "b \<in> set (bookings d)" "(b', d') = rewritten (op_change op e) e d b"
    using d run by (rule run_lifecycle_Inr)
  have old: "booking_recorded x" if "x \<in> set (bookings d)" for x using r that by (simp add: recorded_def)
  have "booking_recorded ((op_change op e x)\<lparr>b_updatedAt := db_now e\<rparr>)" if "x \<in> set (bookings d)" for x
    using old [OF that] c by (cases op) (auto simp: booking_recorded_def stored_instants_def change_defs)
  then have "\<forall>x\<in>set (bookings d'). booking_recorded x"
    using b(2) old by (auto simp: rewritten_def Let_def set_patch_row)
  moreover have "d' = d\<lparr>bookings := bookings d'\<rparr>" using b(2) by (simp add: rewritten_def Let_def)
  then have "users d' = users d" "closures d' = closures d" "resources d' = resources d" "buildings d' = buildings d"
    by (metis db.ext_inject db.surjective db.update_convs(5))+
  ultimately show ?thesis using r by (simp add: recorded_def)
qed

lemma create_booking_recorded:
  assumes run: "create_booking u dto e d = Inr (b, d', evs)" and r: "recorded d"
  shows "recorded d'"
proof -
  obtain x where i: "insert_booking (new_booking x u dto e) d = Inr d'" and v: "real_date (cb_date dto)"
    using run by (auto simp: create_booking_def requireValidRequest_def Let_def
        split: option.splits if_splits sum.splits)
  show ?thesis
    using i r by (rule insert_recorded(4)) (use v in \<open>simp add: booking_recorded_def stored_instants_def new_booking_def\<close>)
qed

lemma create_resource_recorded:
  assumes "create_resource dto e d = Inr (x, d', evs)" "resource_recorded (new_resource dto e)" "recorded d"
  shows "recorded d'"
proof -
  have "insert_resource (new_resource dto e) d = Inr d'"
    using assms(1) by (auto simp: create_resource_def reload_resource_def map_sum_Inr_iff
        split: option.splits if_splits sum.splits)
  then show ?thesis using assms(3,2) by (rule insert_recorded(2))
qed

lemma write_changes_recorded:
  assumes "write_changes dto k e d = Inr d'" "\<And>x. resource_recorded x \<Longrightarrow> resource_recorded (detail_changes dto x)"
    "recorded d"
  shows "recorded d'"
proof -
  have s: "resource_recorded x \<Longrightarrow> resource_recorded ((detail_changes dto x)\<lparr>r_updatedAt := db_now e\<rparr>)" for x
    using assms(2) [of x] by (simp add: resource_recorded_def)
  from assms(1,3) show ?thesis
    by (auto simp: write_changes_def split: if_splits dest: update_recorded(2) intro: s)
qed

lemma update_details_recorded:
  assumes "update_resource_details r dto e d = Inr (x, d', evs)"
    "\<And>x. resource_recorded x \<Longrightarrow> resource_recorded (detail_changes dto x)" "recorded d"
  shows "recorded d'"
  using assms(1) write_changes_recorded [OF _ assms(2,3)]
  by (auto simp: update_resource_details_def update_resource_locked_def reload_resource_def
      split: option.splits if_splits sum.splits)

lemma status_recorded:
  assumes "updateStatus_resource r st e d = Inr (x, d', evs)" "recorded d"
  shows "recorded d'"
proof -
  have "d' = d \<or> (\<exists>k. update_resource k (\<lambda>r. r\<lparr>r_status := st, r_updatedAt := db_now e\<rparr>) d = Inr d')"
    using assms(1) by (auto simp: updateStatus_resource_def reload_resource_def map_sum_Inr_iff
        split: option.splits if_splits sum.splits)
  then show ?thesis using assms(2) by (auto simp: resource_recorded_def dest: update_recorded(2))
qed

lemma create_closure_recorded:
  assumes "createClosure k dto e d = Inr (x, d', evs)" "2 \<le> length (js_trim (cc_reason dto))" "recorded d"
  shows "recorded d'"
proof -
  obtain c where c: "insert_closure c d = Inr d'" "c_date c = cc_date dto" "c_reason c = cc_reason dto"
    and v: "real_date (cc_date dto)"
    using assms(1) by (auto simp: createClosure_def requireValidDate_def map_sum_Inr_iff Let_def
        split: option.splits if_splits sum.splits)
  show ?thesis
    using c(1) assms(3) by (rule insert_recorded(3)) (use c(2,3) v assms(2) in \<open>simp add: closure_recorded_def\<close>)
qed

lemma delete_closure_recorded: "deleteClosure k c e d = Inr (x, d', evs) \<Longrightarrow> recorded d \<Longrightarrow> recorded d'"
  by (auto simp: deleteClosure_def delete_closures_def recorded_def Let_def split: option.splits if_splits)

lemma find_mem: "find P xs = Some x \<Longrightarrow> x \<in> set xs"
  by (auto simp: find_Some_iff)

lemma managed_recorded:
  assumes "updateManagedUser actor k change e d = Inr (u, d')" "recorded d"
    "\<And>t. u_email (fst (change t)) = u_email t \<and> u_fullName (fst (change t)) = u_fullName t"
  shows "recorded d'"
proof -
  have "d' = d \<or> (\<exists>t c w. t \<in> set (users d) \<and> change t = (c, w) \<and>
      update_user k (\<lambda>_. c\<lparr>u_updatedAt := db_now e\<rparr>) d = Inr d')"
    using assms(1) by (simp add: updateManagedUser_def Let_def map_sum_Inr_iff
        split: option.splits if_splits prod.splits) (auto dest!: find_mem, blast+)
  then show ?thesis
  proof (elim disjE exE conjE)
    fix t c w assume t: "t \<in> set (users d)" "change t = (c, w)"
      and upd: "update_user k (\<lambda>_. c\<lparr>u_updatedAt := db_now e\<rparr>) d = Inr d'"
    have "user_recorded (c\<lparr>u_updatedAt := db_now e\<rparr>)"
      using assms(2) assms(3) [of t] t by (simp add: recorded_def user_recorded_def)
    with upd assms(2) show ?thesis by (rule update_recorded(1))
  qed (use assms(2) in simp)
qed

lemma access_recorded:
  "updateRole actor k role e d = Inr (x, d') \<Longrightarrow> recorded d \<Longrightarrow> recorded d'"
  "updateStatus_user actor k active e d = Inr (x, d', evs) \<Longrightarrow> recorded d \<Longrightarrow> recorded d'"
  by (auto simp: updateRole_def updateStatus_user_def split: sum.splits elim!: managed_recorded)

section \<open>Every state of the system\<close>

text \<open>What the pipe has checked of a request that is answered.\<close>

lemma served_closure:
  assumes "serve sv cookies (PostClosure k dto) e d = Inr (d', evs)"
  shows "2 \<le> length (js_trim (cc_reason (normalize_closure dto)))"
  using assms by (auto simp: serve_def handle_def handle_admin_def admin_route_def class_route_def committed_simps
      admin_createClosure_def Let_def create_closure_dto_valid_def normalize_closure_def
      split: sum.splits option.splits if_splits)

lemma served_resource:
  assumes "serve sv cookies (PostResource dto) e d = Inr (d', evs)"
  shows "resource_recorded (new_resource (normalize_create_resource dto) e0)"
proof -
  let ?dto = "normalize_create_resource dto"
  have v: "create_resource_dto_valid (sv_isUUID sv) ?dto"
    using assms by (auto simp: serve_def handle_def handle_admin_def admin_route_def class_route_def committed_simps
        admin_create_def Let_def split: sum.splits option.splits if_splits)
  have amenities: "plain_amenities (case_option [] id (cr_amenities ?dto))"
    using v by (cases "cr_amenities dto")
      (auto simp: create_resource_dto_valid_def normalize_create_resource_def opt_holds_def plain_amenities_def [of "[]"]
        intro: plain_texts(3))
  show ?thesis
    using v amenities plain_texts(1) plain_texts(2) [of "cr_description dto"]
    by (simp add: resource_recorded_def new_resource_def create_resource_dto_valid_def normalize_create_resource_def)
qed

lemma served_changes:
  assumes "serve sv cookies (PatchResource k dto) e d = Inr (d', evs)" "resource_recorded x"
  shows "resource_recorded (detail_changes (normalize_update_resource dto) x)"
proof -
  let ?dto = "normalize_update_resource dto"
  have v: "update_resource_dto_valid (sv_isUUID sv) ?dto"
    using assms(1) by (auto simp: serve_def handle_def handle_admin_def admin_route_def class_route_def committed_simps
        admin_update_def Let_def split: sum.splits option.splits if_splits)
  have old: "valid_code (r_code x)" "plain_text (r_name x)" "plain_text (r_location x)"
    "plain_description (r_description x)" "plain_amenities (r_amenities x)"
    using assms(2) by (simp_all add: resource_recorded_def)
  have "valid_code (set_field (ur_code ?dto) (r_code x))"
    using v old by (cases "ur_code dto") (simp_all add: update_resource_dto_valid_def normalize_update_resource_def)
  moreover have "plain_text (set_field (ur_name ?dto) (r_name x))"
    using v old plain_texts(1) by (cases "ur_name dto") (simp_all add: update_resource_dto_valid_def normalize_update_resource_def)
  moreover have "plain_text (set_field (ur_location ?dto) (r_location x))"
    using v old plain_texts(1) by (cases "ur_location dto") (simp_all add: update_resource_dto_valid_def normalize_update_resource_def)
  moreover have "plain_amenities (set_field (ur_amenities ?dto) (r_amenities x))"
    using v old plain_texts(3) by (cases "ur_amenities dto") (simp_all add: update_resource_dto_valid_def normalize_update_resource_def)
  moreover have "plain_description (r_description (detail_changes ?dto x))"
    using old plain_trimmed by (cases "ur_description dto")
      (simp_all add: detail_changes_def normalize_update_resource_def plain_description_def)
  ultimately show ?thesis by (simp add: resource_recorded_def detail_changes_def)
qed

lemma served_register:
  assumes "serve sv cookies (PostRegister body) e d = Inr (d', evs)"
  shows "campus_address (rg_email (normalize_register body))" "js_trim (rg_fullName (normalize_register body)) \<noteq> []"
  using assms by (auto simp: serve_def handle_def map_sum_Inr_iff auth_register_def Let_def register_dto_valid_def
      email_valid_def campus_address_def normalize_register_def normalizeEmailAddress_def js_lower_trim
      split: sum.splits option.splits if_splits)

lemma change_recorded:
  assumes c: "other_change sv u rq e d d' evs" and s: "serve sv cookies rq e d = Inr (d', evs)" and r: "recorded d"
  shows "recorded d'"
proof (cases rq)
  case (PostBooking dto)
  with c show ?thesis by (auto simp: other_change_def intro: create_booking_recorded r)
next
  case (PostResource dto)
  with c s served_resource show ?thesis
    by (auto simp: other_change_def intro: create_resource_recorded r)
next
  case (PatchResource k dto)
  with c s served_changes show ?thesis
    by (auto simp: other_change_def intro: update_details_recorded r)
next
  case (PatchResourceStatus k st)
  with c show ?thesis by (auto simp: other_change_def intro: status_recorded r)
next
  case (PostClosure k dto)
  with c s served_closure show ?thesis by (auto simp: other_change_def intro: create_closure_recorded r)
next
  case (DeleteResourceClosure k x)
  with c show ?thesis by (auto simp: other_change_def intro: delete_closure_recorded r)
qed (use c in \<open>auto simp: other_change_def intro: access_recorded r\<close>)

lemma provision_recorded:
  assumes "provision h role account e d = Inr (out, d')" "opt_holds account account_recorded" "recorded d"
  shows "recorded d'"
proof (cases account)
  case None
  then show ?thesis using assms(1,3) by (simp add: provision_def)
next
  case (Some a)
  let ?p = "\<lparr>ba_email = bc_email a, ba_fullName = bc_fullName a, ba_role = role,
    ba_passwordHash = map_option h (truthy (bc_password a))\<rparr>"
  obtain out' where p: "provisionBootstrapAccount ?p e d = Inr (out', d')"
    using assms(1) Some by (auto simp: provision_def map_sum_Inr_iff)
  have "d' = d \<or> (\<exists>u. u_email u = bc_email a \<and> u_fullName u = bc_fullName a \<and> insert_user u d = Inr d') \<or>
      (\<exists>k. update_user k (promoted e) d = Inr d')"
    using p by (auto simp: provisionBootstrapAccount_def insert_user_or_ignore_def map_sum_Inr_iff new_user_def
        split: option.splits if_splits sum.splits app_error.splits)
  then show ?thesis
  proof (elim disjE exE conjE)
    fix u assume "u_email u = bc_email a" "u_fullName u = bc_fullName a" "insert_user u d = Inr d'"
    then show ?thesis using assms(2,3) Some
      by (auto simp: opt_holds_def account_recorded_def user_recorded_def intro: insert_recorded(1))
  next
    fix k assume "update_user k (promoted e) d = Inr d'"
    then show ?thesis using assms(3) by (rule update_recorded(1)) (simp add: promoted_def user_recorded_def)
  qed (use assms(3) in simp)
qed

definition campus_recorded :: "int \<times> db \<Rightarrow> bool" where
  "campus_recorded s \<longleftrightarrow> campus_ok s \<and> recorded (snd s)"

lemma answered_recorded:
  assumes ok: "campus_ok (clock e, d)" and e: "random_int e < 1000000"
    and s: "serve sv cookies rq e d = Inr (d', evs)" and r: "recorded d"
  shows "recorded d'"
proof -
  have k: "db_ok d" "db_lived (clock e) d" "campus_era (clock e)" using ok by (simp_all add: campus_ok_def)
  from s show ?thesis
  proof (cases rule: serve_cases)
    case (registered body x)
    note i = register_account_Inr(2) [OF k(1) registered(3)]
    have "campus_address (rg_email (normalize_register body))" "js_trim (rg_fullName (normalize_register body)) \<noteq> []"
      using served_register s registered(1) by blast+
    then show ?thesis using r unfolding i
      by (intro recorded_writes(1)) (auto dest: recorded_rows(2) simp: user_recorded_def new_user_def)
  next
    case (operated u op x)
    have "known_user d (u_id u)" using operated(2) by (auto simp: known_user_def ids_def)
    then have "op_sound op e d" using operated(6,8) e by (auto intro: booking_op_sound)
    from lifecycle_recorded [OF k(1,2) this operated(7) r k(3)] show ?thesis .
  next
    case (changed u)
    then show ?thesis using change_recorded s r by blast
  qed
qed

text \<open>The startup accounts are part of the configuration, so the invariant is of the steps under a sound one.\<close>

definition configured_step :: "services \<Rightarrow> int \<times> db \<Rightarrow> int \<times> db \<Rightarrow> bool" where
  "configured_step sv s s' \<longleftrightarrow> accounts_recorded (sv_bootstrap sv) \<and> sys_step sv s s'"

lemma step_keeps_recorded:
  assumes "configured_step sv s s'" "campus_recorded s"
  shows "campus_recorded s'"
proof -
  have step: "sys_step sv s s'" and boot: "accounts_recorded (sv_bootstrap sv)"
    using assms(1) by (simp_all add: configured_step_def)
  have ok: "campus_ok s" "recorded (snd s)" using assms(2) by (simp_all add: campus_recorded_def)
  from step have "recorded (snd s')"
  proof (cases rule: sys_step.cases)
    case (answered now e d cookies rq d' evs)
    have "campus_ok (clock e, d)" using ok(1) answered(1,3) by (auto simp: env_sound_def intro: campus_ok_later)
    then show ?thesis
      using answered_recorded [OF _ _ answered(4)] answered(1-3) ok(2) by (simp add: env_sound_def)
  next
    case (restarted now e1 d e2 d')
    obtain d1 o1 o2 where p: "provision (sv_hash sv) ADMIN (bs_admin (sv_bootstrap sv)) e1 d = Inr (o1, d1)"
      "provision (sv_hash sv) STAFF (bs_staff (sv_bootstrap sv)) e2 d1 = Inr (o2, d')"
      using restarted(6) by (auto simp: onApplicationBootstrap_def map_sum_Inr_iff split: sum.splits)
    have "recorded d1" using provision_recorded [OF p(1)] boot ok(2) restarted(1) by (simp add: accounts_recorded_def)
    then show ?thesis using provision_recorded [OF p(2)] boot restarted(2) by (simp add: accounts_recorded_def)
  qed (use ok in auto)
  then show ?thesis using step_keeps_campus [OF step ok(1)] by (simp add: campus_recorded_def)
qed

interpretation recording: kept "configured_step sv" campus_recorded for sv
  by unfold_locales (rule step_keeps_recorded)

lemma seeded_recorded: "recorded (seeded_db t)"
proof -
  have "list_all resource_recorded (seeded_resources t)" by code_simp
  then show ?thesis by (simp add: list_all_iff recorded_def seeded_db_def seeded_buildings_def building_recorded_def)
qed

lemma reachable_recorded:
  assumes "reachable sv (now, d)" "accounts_recorded (sv_bootstrap sv)"
  shows "recorded d"
proof -
  obtain t t0 where t: "campus_era t" "(sys_step sv)\<^sup>*\<^sup>* (t, seeded_db t0) (now, d)"
    using assms(1) by (auto simp: reachable_def)
  have "configured_step sv = sys_step sv" using assms(2) by (auto simp: configured_step_def fun_eq_iff)
  moreover have "reachable sv (t, seeded_db t0)" using t(1) by (auto simp: reachable_def)
  then have "campus_recorded (t, seeded_db t0)"
    using reachable_ok seeded_recorded by (simp add: campus_recorded_def)
  ultimately have "campus_recorded (now, d)" using recording.always [of sv] t(2) by metis
  then show ?thesis by (simp add: campus_recorded_def)
qed

end
