(* ===== verification/WebBookings.thy ===== *)
theory WebBookings
  imports WebValues "HOL-Library.Monad_Syntax"
begin

text \<open>
  What the service's booking bodies are serialised to (bookings/dto, bookings/*.controller.ts), and
  the parsers the web frontend reads them with (features/bookings/schema.ts, features/bookings/types.ts).
  A parser gives \<open>None\<close> where the source returns null; the page then shows an error instead.
\<close>

section \<open>The bodies as values\<close>

definition booking_resource_json :: "booking_resource_dto \<Rightarrow> js_value" where
  "booking_resource_json r = JObject
     [(''id'', JString (rd_id r)), (''code'', JString (rd_code r)), (''name'', JString (rd_name r)),
      (''type'', JString (rd_type r)), (''location'', JString (rd_location r)),
      (''buildingCode'', JString (rd_buildingCode r)), (''buildingName'', JString (rd_buildingName r))]"

definition booking_json :: "booking_response \<Rightarrow> js_value" where
  "booking_json b = JObject
     [(''id'', JString (br_id b)), (''resourceId'', JString (br_resourceId b)),
      (''requesterId'', JString (br_requesterId b)), (''date'', JString (br_date b)),
      (''startTime'', JString (br_startTime b)), (''endTime'', JString (br_endTime b)),
      (''timeZone'', JString (br_timeZone b)), (''status'', JString (booking_status_text (br_status b))),
      (''createdAt'', js_date (br_createdAt b))]"

definition student_booking_json :: "student_booking_response \<Rightarrow> js_value" where
  "student_booking_json b = JObject
     [(''id'', JString (sr_id b)), (''date'', JString (sr_date b)), (''startTime'', JString (sr_startTime b)),
      (''endTime'', JString (sr_endTime b)), (''timeZone'', JString (sr_timeZone b)),
      (''status'', JString (booking_status_text (sr_status b))), (''canCancel'', JBool (sr_canCancel b)),
      (''canRequestCheckIn'', JBool (sr_canRequestCheckIn b)), (''hasEnded'', JBool (sr_hasEnded b)),
      (''checkInCode'', or_jnull JString (sr_checkInCode b)),
      (''checkInRequestedAt'', or_jnull js_date (sr_checkInRequestedAt b)),
      (''checkedInAt'', or_jnull js_date (sr_checkedInAt b)),
      (''checkedOutAt'', or_jnull js_date (sr_checkedOutAt b)), (''noShowAt'', or_jnull js_date (sr_noShowAt b)),
      (''cancelledAt'', or_jnull js_date (sr_cancelledAt b)), (''reviewedAt'', or_jnull js_date (sr_reviewedAt b)),
      (''rejectionReason'', or_jnull JString (sr_rejectionReason b)), (''createdAt'', js_date (sr_createdAt b)),
      (''resource'', booking_resource_json (sr_resource b))]"

definition timeline_json :: "student_booking_response list \<times> student_booking_response list \<Rightarrow> js_value" where
  "timeline_json t = JObject
     [(''upcoming'', JArray (map student_booking_json (fst t))),
      (''history'', JArray (map student_booking_json (snd t)))]"

definition person_json :: "person_dto \<Rightarrow> js_value" where
  "person_json p = JObject
     [(''id'', JString (pd_id p)), (''email'', JString (pd_email p)), (''fullName'', JString (pd_fullName p))]"

definition staff_booking_json :: "staff_booking_response \<Rightarrow> js_value" where
  "staff_booking_json b = JObject
     [(''id'', JString (st_id b)), (''date'', JString (st_date b)), (''startTime'', JString (st_startTime b)),
      (''endTime'', JString (st_endTime b)), (''timeZone'', JString (st_timeZone b)),
      (''status'', JString (booking_status_text (st_status b))), (''createdAt'', js_date (st_createdAt b)),
      (''reviewedAt'', or_jnull js_date (st_reviewedAt b)),
      (''rejectionReason'', or_jnull JString (st_rejectionReason b)), (''canReview'', JBool (st_canReview b)),
      (''checkInRequested'', JBool (st_checkInRequested b)),
      (''canConfirmCheckIn'', JBool (st_canConfirmCheckIn b)), (''canCheckOut'', JBool (st_canCheckOut b)),
      (''canMarkNoShow'', JBool (st_canMarkNoShow b)), (''checkedInAt'', or_jnull js_date (st_checkedInAt b)),
      (''checkedOutAt'', or_jnull js_date (st_checkedOutAt b)), (''noShowAt'', or_jnull js_date (st_noShowAt b)),
      (''resource'', booking_resource_json (st_resource b)), (''requester'', person_json (st_requester b)),
      (''reviewer'', or_jnull person_json (st_reviewer b))]"

definition staff_queue_json :: "staff_queue_body \<Rightarrow> js_value" where
  "staff_queue_json q = JObject
     [(''items'', JArray (map staff_booking_json (qb_items q))), (''total'', js_int (int (qb_total q))),
      (''page'', js_int (int (qb_page q))), (''pageSize'', js_int (int (qb_pageSize q))),
      (''totalPages'', js_int (int (qb_totalPages q)))]"

definition staff_operations_json :: "staff_operations_body \<Rightarrow> js_value" where
  "staff_operations_json q = JObject
     [(''items'', JArray (map staff_booking_json (ob_items q))), (''total'', js_int (int (ob_total q))),
      (''page'', js_int (int (ob_page q))), (''pageSize'', js_int (int (ob_pageSize q))),
      (''totalPages'', js_int (int (ob_totalPages q))), (''campusDate'', JString (ob_campusDate q))]"

definition staff_schedule_json :: "staff_schedule_body \<Rightarrow> js_value" where
  "staff_schedule_json s = JObject
     [(''resourceId'', JString (sc_resourceId s)), (''date'', JString (sc_date s)),
      (''bookings'', JArray (map staff_booking_json (sc_bookings s)))]"

section \<open>The frontend's data\<close>

record web_resource =
  wr_id :: string
  wr_code :: string
  wr_name :: string
  wr_type :: resource_type
  wr_location :: string
  wr_buildingCode :: string
  wr_buildingName :: string

record booking_request_input =
  bi_resourceId :: string
  bi_date :: string
  bi_startTime :: string
  bi_endTime :: string

record web_request_result =
  wq_id :: string
  wq_resourceId :: string
  wq_requesterId :: string
  wq_date :: string
  wq_startTime :: string
  wq_endTime :: string
  wq_timeZone :: string
  wq_status :: booking_status
  wq_createdAt :: string

record web_student_booking =
  ws_id :: string
  ws_date :: string
  ws_startTime :: string
  ws_endTime :: string
  ws_timeZone :: string
  ws_status :: booking_status
  ws_canCancel :: bool
  ws_canRequestCheckIn :: bool
  ws_hasEnded :: bool
  ws_checkInCode :: "string option"
  ws_checkInRequestedAt :: "string option"
  ws_checkedInAt :: "string option"
  ws_checkedOutAt :: "string option"
  ws_noShowAt :: "string option"
  ws_cancelledAt :: "string option"
  ws_reviewedAt :: "string option"
  ws_rejectionReason :: "string option"
  ws_createdAt :: string
  ws_resource :: web_resource

record web_person =
  wp_id :: string
  wp_email :: string
  wp_fullName :: string

record web_staff_booking =
  wf_id :: string
  wf_date :: string
  wf_startTime :: string
  wf_endTime :: string
  wf_timeZone :: string
  wf_status :: booking_status
  wf_createdAt :: string
  wf_reviewedAt :: "string option"
  wf_rejectionReason :: "string option"
  wf_canReview :: bool
  wf_checkInRequested :: bool
  wf_canConfirmCheckIn :: bool
  wf_canCheckOut :: bool
  wf_canMarkNoShow :: bool
  wf_checkedInAt :: "string option"
  wf_checkedOutAt :: "string option"
  wf_noShowAt :: "string option"
  wf_resource :: web_resource
  wf_requester :: web_person
  wf_reviewer :: "web_person option"

record web_page =
  pg_total :: int
  pg_page :: int
  pg_pageSize :: int
  pg_totalPages :: int

section \<open>The parsers\<close>

definition ACTIVE_STATUSES :: "booking_status list" where
  "ACTIVE_STATUSES = [PENDING, CONFIRMED]"

text \<open>\<open>new Date(`${date}T${endTime}:00+07:00`)\<close>, as in \<open>campusDateTimeMs\<close> of the service.\<close>

definition campusBookingEndMs :: "string \<Rightarrow> string \<Rightarrow> int option" where
  "campusBookingEndMs date endTime = campusDateTimeMs date endTime"

text \<open>\<open>new Date(a).getTime() < b\<close>, false on \<open>NaN\<close>.\<close>

definition earlier :: "int option \<Rightarrow> int option \<Rightarrow> bool" where
  "earlier a b \<longleftrightarrow> (case (a, b) of (Some x, Some y) \<Rightarrow> x < y | _ \<Rightarrow> False)"

definition parseBookingResource :: "js_value \<Rightarrow> web_resource option" where
  "parseBookingResource value = do {
     guard_that (isRecord value);
     i \<leftarrow> as_string (js_get value ''id'');
     guard_that (uuid_pattern i);
     code \<leftarrow> as_string (js_get value ''code'');
     name \<leftarrow> as_string (js_get value ''name'');
     type_text \<leftarrow> as_string (js_get value ''type'');
     type \<leftarrow> resource_type_of_text type_text;
     loc \<leftarrow> as_string (js_get value ''location'');
     buildingCode \<leftarrow> as_string (js_get value ''buildingCode'');
     buildingName \<leftarrow> as_string (js_get value ''buildingName'');
     Some \<lparr>wr_id = i, wr_code = code, wr_name = name, wr_type = type, wr_location = loc,
       wr_buildingCode = buildingCode, wr_buildingName = buildingName\<rparr>
   }"

definition parseBookingRequestResult ::
  "(string \<Rightarrow> int option) \<Rightarrow> js_value \<Rightarrow> booking_request_input \<Rightarrow> string \<Rightarrow> web_request_result option" where
  "parseBookingRequestResult other value input requesterId = do {
     guard_that (isRecord value);
     i \<leftarrow> as_string (js_get value ''id'');
     guard_that (uuid_pattern i);
     guard_that (js_get value ''resourceId'' = JString (bi_resourceId input));
     guard_that (js_get value ''requesterId'' = JString requesterId);
     guard_that (js_get value ''date'' = JString (bi_date input));
     guard_that (js_get value ''startTime'' = JString (bi_startTime input));
     guard_that (js_get value ''endTime'' = JString (bi_endTime input));
     guard_that (web_isCalendarDate (bi_date input));
     guard_that (hour_pattern (bi_startTime input) \<and> hour_pattern (bi_endTime input));
     guard_that (bi_startTime input < bi_endTime input);
     guard_that (js_get value ''timeZone'' = JString CAMPUS_TIME_ZONE);
     status_text \<leftarrow> as_string (js_get value ''status'');
     status \<leftarrow> status_of_text status_text;
     guard_that (status \<in> set ACTIVE_STATUSES);
     createdAt \<leftarrow> as_timestamp other (js_get value ''createdAt'');
     Some \<lparr>wq_id = i, wq_resourceId = bi_resourceId input, wq_requesterId = requesterId,
       wq_date = bi_date input, wq_startTime = bi_startTime input, wq_endTime = bi_endTime input,
       wq_timeZone = CAMPUS_TIME_ZONE, wq_status = status, wq_createdAt = createdAt\<rparr>
   }"

text \<open>The conditions on a student's booking that relate its fields.\<close>

definition student_booking_refused :: "(string \<Rightarrow> int option) \<Rightarrow> web_student_booking \<Rightarrow> bool" where
  "student_booking_refused other b \<longleftrightarrow>
     (if ws_status b = CANCELLED then ws_canCancel b \<or> ws_cancelledAt b = None else ws_cancelledAt b \<noteq> None) \<or>
     (if ws_status b = REJECTED then ws_canCancel b \<or> ws_reviewedAt b = None \<or> \<not> truthy_text (ws_rejectionReason b)
      else ws_rejectionReason b \<noteq> None) \<or>
     (if ws_checkInRequestedAt b = None
      then ws_checkInCode b \<noteq> None \<or> ws_status b = CHECKED_IN \<or> ws_status b = COMPLETED
      else if ws_status b = CONFIRMED then ws_checkInCode b = None
      else ws_status b \<notin> {CHECKED_IN, COMPLETED, NO_SHOW} \<or> ws_checkInCode b \<noteq> None) \<or>
     (if ws_status b = CHECKED_IN
      then ws_checkedInAt b = None \<or> ws_checkInRequestedAt b = None \<or> ws_checkedOutAt b \<noteq> None \<or> ws_noShowAt b \<noteq> None
      else if ws_status b = COMPLETED
      then ws_checkedInAt b = None \<or> ws_checkInRequestedAt b = None \<or> ws_checkedOutAt b = None \<or> ws_noShowAt b \<noteq> None
      else if ws_status b = NO_SHOW
      then ws_noShowAt b = None \<or> ws_checkedInAt b \<noteq> None \<or> ws_checkedOutAt b \<noteq> None
      else ws_checkedInAt b \<noteq> None \<or> ws_checkedOutAt b \<noteq> None \<or> ws_noShowAt b \<noteq> None) \<or>
     \<not> isAtOrAfter other (ws_checkedInAt b) (ws_checkInRequestedAt b) \<or>
     \<not> isAtOrAfter other (ws_checkedOutAt b) (ws_checkedInAt b) \<or>
     (case ws_noShowAt b of None \<Rightarrow> False
      | Some s \<Rightarrow> earlier (date_parse other s) (campusBookingEndMs (ws_date b) (ws_endTime b))) \<or>
     (ws_canRequestCheckIn b \<and> (ws_status b \<noteq> CONFIRMED \<or> ws_checkInRequestedAt b \<noteq> None)) \<or>
     (ws_hasEnded b \<and> (ws_canCancel b \<or> ws_canRequestCheckIn b))"

definition parseStudentBooking :: "(string \<Rightarrow> int option) \<Rightarrow> js_value \<Rightarrow> web_student_booking option" where
  "parseStudentBooking other value = do {
     guard_that (isRecord value);
     res \<leftarrow> parseBookingResource (js_get value ''resource'');
     i \<leftarrow> as_string (js_get value ''id'');
     guard_that (uuid_pattern i);
     date \<leftarrow> as_string (js_get value ''date'');
     guard_that (web_isCalendarDate date);
     startTime \<leftarrow> as_string (js_get value ''startTime'');
     endTime \<leftarrow> as_string (js_get value ''endTime'');
     guard_that (hour_pattern startTime \<and> hour_pattern endTime \<and> startTime < endTime);
     guard_that (js_get value ''timeZone'' = JString CAMPUS_TIME_ZONE);
     status_text \<leftarrow> as_string (js_get value ''status'');
     status \<leftarrow> status_of_text status_text;
     can_cancel \<leftarrow> as_bool (js_get value ''canCancel'');
     can_request \<leftarrow> as_bool (js_get value ''canRequestCheckIn'');
     ended \<leftarrow> as_bool (js_get value ''hasEnded'');
     code \<leftarrow> nullable as_string (js_get value ''checkInCode'');
     guard_that (case code of None \<Rightarrow> True | Some s \<Rightarrow> six_digit_pattern s);
     requestedAt \<leftarrow> nullable (as_timestamp other) (js_get value ''checkInRequestedAt'');
     checkedInAt \<leftarrow> nullable (as_timestamp other) (js_get value ''checkedInAt'');
     checkedOutAt \<leftarrow> nullable (as_timestamp other) (js_get value ''checkedOutAt'');
     noShowAt \<leftarrow> nullable (as_timestamp other) (js_get value ''noShowAt'');
     cancelledAt \<leftarrow> nullable (as_timestamp other) (js_get value ''cancelledAt'');
     reviewedAt \<leftarrow> nullable (as_timestamp other) (js_get value ''reviewedAt'');
     reason \<leftarrow> nullable as_string (js_get value ''rejectionReason'');
     createdAt \<leftarrow> as_timestamp other (js_get value ''createdAt'');
     let b = \<lparr>ws_id = i, ws_date = date, ws_startTime = startTime, ws_endTime = endTime,
         ws_timeZone = CAMPUS_TIME_ZONE, ws_status = status, ws_canCancel = can_cancel,
         ws_canRequestCheckIn = can_request, ws_hasEnded = ended, ws_checkInCode = code,
         ws_checkInRequestedAt = requestedAt, ws_checkedInAt = checkedInAt, ws_checkedOutAt = checkedOutAt,
         ws_noShowAt = noShowAt, ws_cancelledAt = cancelledAt, ws_reviewedAt = reviewedAt,
         ws_rejectionReason = reason, ws_createdAt = createdAt, ws_resource = res\<rparr>;
     guard_that (\<not> student_booking_refused other b);
     Some b
   }"

definition web_bookingStart :: "web_student_booking \<Rightarrow> string" where
  "web_bookingStart b = ws_date b @ ''T'' @ ws_startTime b"

text \<open>\<open>isChronological\<close>: neighbours compared.\<close>

fun isChronological :: "bool \<Rightarrow> web_student_booking list \<Rightarrow> bool" where
  "isChronological ascending (a # b # bs) \<longleftrightarrow>
     (if ascending then web_bookingStart a \<le> web_bookingStart b else web_bookingStart b \<le> web_bookingStart a) \<and>
     isChronological ascending (b # bs)"
| "isChronological ascending bs \<longleftrightarrow> True"

definition parseStudentBookingTimeline ::
  "(string \<Rightarrow> int option) \<Rightarrow> js_value \<Rightarrow> (web_student_booking list \<times> web_student_booking list) option" where
  "parseStudentBookingTimeline other value = do {
     guard_that (isRecord value);
     up \<leftarrow> as_array (js_get value ''upcoming'');
     hist \<leftarrow> as_array (js_get value ''history'');
     upcoming \<leftarrow> all_parsed (parseStudentBooking other) up;
     history \<leftarrow> all_parsed (parseStudentBooking other) hist;
     guard_that (\<forall>b\<in>set upcoming. \<not> ws_hasEnded b \<and> ws_status b \<in> {PENDING, CONFIRMED, CHECKED_IN});
     guard_that (\<forall>b\<in>set history. ws_status b \<in> {PENDING, CONFIRMED, CHECKED_IN} \<longrightarrow> ws_hasEnded b);
     guard_that (distinct (map ws_id (upcoming @ history)));
     guard_that (isChronological True upcoming \<and> isChronological False history);
     Some (upcoming, history)
   }"

definition parseStaffBookingPerson :: "js_value \<Rightarrow> web_person option" where
  "parseStaffBookingPerson value = do {
     guard_that (isRecord value);
     i \<leftarrow> as_string (js_get value ''id'');
     guard_that (uuid_pattern i);
     email \<leftarrow> as_string (js_get value ''email'');
     guard_that (js_endsWith email ''@usth.edu.vn'');
     fullName \<leftarrow> as_string (js_get value ''fullName'');
     guard_that (fullName \<noteq> []);
     Some \<lparr>wp_id = i, wp_email = email, wp_fullName = fullName\<rparr>
   }"

text \<open>The conditions on a staff member's view of a booking that relate its fields.\<close>

definition staff_booking_refused :: "(string \<Rightarrow> int option) \<Rightarrow> web_staff_booking \<Rightarrow> bool" where
  "staff_booking_refused other b \<longleftrightarrow>
     ((wf_reviewedAt b = None) \<noteq> (wf_reviewer b = None)) \<or>
     (if wf_status b = PENDING
      then wf_reviewedAt b \<noteq> None \<or> wf_reviewer b \<noteq> None \<or> wf_rejectionReason b \<noteq> None
      else wf_canReview b) \<or>
     (if wf_status b = REJECTED
      then wf_reviewedAt b = None \<or> wf_reviewer b = None \<or> \<not> truthy_text (wf_rejectionReason b)
      else wf_rejectionReason b \<noteq> None) \<or>
     (if wf_status b = CHECKED_IN
      then wf_checkedInAt b = None \<or> \<not> wf_checkInRequested b \<or> wf_checkedOutAt b \<noteq> None \<or> wf_noShowAt b \<noteq> None
      else if wf_status b = COMPLETED
      then wf_checkedInAt b = None \<or> \<not> wf_checkInRequested b \<or> wf_checkedOutAt b = None \<or> wf_noShowAt b \<noteq> None
      else if wf_status b = NO_SHOW
      then wf_noShowAt b = None \<or> wf_checkedInAt b \<noteq> None \<or> wf_checkedOutAt b \<noteq> None
      else wf_checkedInAt b \<noteq> None \<or> wf_checkedOutAt b \<noteq> None \<or> wf_noShowAt b \<noteq> None) \<or>
     \<not> isAtOrAfter other (wf_checkedOutAt b) (wf_checkedInAt b) \<or>
     (case wf_noShowAt b of None \<Rightarrow> False
      | Some s \<Rightarrow> earlier (date_parse other s) (campusBookingEndMs (wf_date b) (wf_endTime b))) \<or>
     (wf_canConfirmCheckIn b \<and> (wf_status b \<noteq> CONFIRMED \<or> \<not> wf_checkInRequested b)) \<or>
     (wf_canConfirmCheckIn b \<and> wf_canMarkNoShow b) \<or>
     wf_canCheckOut b \<noteq> (wf_status b = CHECKED_IN) \<or>
     (wf_canMarkNoShow b \<and> wf_status b \<noteq> CONFIRMED)"

definition parseStaffBooking :: "(string \<Rightarrow> int option) \<Rightarrow> js_value \<Rightarrow> web_staff_booking option" where
  "parseStaffBooking other value = do {
     guard_that (isRecord value);
     res \<leftarrow> parseBookingResource (js_get value ''resource'');
     requester \<leftarrow> parseStaffBookingPerson (js_get value ''requester'');
     reviewer \<leftarrow> nullable parseStaffBookingPerson (js_get value ''reviewer'');
     i \<leftarrow> as_string (js_get value ''id'');
     guard_that (uuid_pattern i);
     date \<leftarrow> as_string (js_get value ''date'');
     guard_that (web_isCalendarDate date);
     startTime \<leftarrow> as_string (js_get value ''startTime'');
     endTime \<leftarrow> as_string (js_get value ''endTime'');
     guard_that (hour_pattern startTime \<and> hour_pattern endTime \<and> startTime < endTime);
     guard_that (js_get value ''timeZone'' = JString CAMPUS_TIME_ZONE);
     status_text \<leftarrow> as_string (js_get value ''status'');
     status \<leftarrow> status_of_text status_text;
     createdAt \<leftarrow> as_timestamp other (js_get value ''createdAt'');
     reviewedAt \<leftarrow> nullable (as_timestamp other) (js_get value ''reviewedAt'');
     reason \<leftarrow> nullable as_string (js_get value ''rejectionReason'');
     guard_that (case reason of None \<Rightarrow> True | Some s \<Rightarrow> 3 \<le> length s \<and> length s \<le> 500);
     can_review \<leftarrow> as_bool (js_get value ''canReview'');
     requested \<leftarrow> as_bool (js_get value ''checkInRequested'');
     can_confirm \<leftarrow> as_bool (js_get value ''canConfirmCheckIn'');
     can_check_out \<leftarrow> as_bool (js_get value ''canCheckOut'');
     can_mark \<leftarrow> as_bool (js_get value ''canMarkNoShow'');
     checkedInAt \<leftarrow> nullable (as_timestamp other) (js_get value ''checkedInAt'');
     checkedOutAt \<leftarrow> nullable (as_timestamp other) (js_get value ''checkedOutAt'');
     noShowAt \<leftarrow> nullable (as_timestamp other) (js_get value ''noShowAt'');
     let b = \<lparr>wf_id = i, wf_date = date, wf_startTime = startTime, wf_endTime = endTime,
         wf_timeZone = CAMPUS_TIME_ZONE, wf_status = status, wf_createdAt = createdAt,
         wf_reviewedAt = reviewedAt, wf_rejectionReason = reason, wf_canReview = can_review,
         wf_checkInRequested = requested, wf_canConfirmCheckIn = can_confirm, wf_canCheckOut = can_check_out,
         wf_canMarkNoShow = can_mark, wf_checkedInAt = checkedInAt, wf_checkedOutAt = checkedOutAt,
         wf_noShowAt = noShowAt, wf_resource = res, wf_requester = requester, wf_reviewer = reviewer\<rparr>;
     guard_that (\<not> staff_booking_refused other b);
     Some b
   }"

definition hasUniqueStaffBookingIds :: "web_staff_booking list \<Rightarrow> bool" where
  "hasUniqueStaffBookingIds bs \<longleftrightarrow> distinct (map wf_id bs)"

fun isStaffBookingOrderStable :: "(web_staff_booking \<Rightarrow> string) \<Rightarrow> web_staff_booking list \<Rightarrow> bool" where
  "isStaffBookingOrderStable key (a # b # bs) \<longleftrightarrow> key a \<le> key b \<and> isStaffBookingOrderStable key (b # bs)"
| "isStaffBookingOrderStable key bs \<longleftrightarrow> True"

definition parseStaffQueuePage :: "js_value \<Rightarrow> int \<Rightarrow> web_page option" where
  "parseStaffQueuePage value itemCount = do {
     total_rows \<leftarrow> as_integer (js_get value ''total'');
     guard_that (0 \<le> total_rows);
     page \<leftarrow> as_integer (js_get value ''page'');
     guard_that (1 \<le> page);
     pageSize \<leftarrow> as_integer (js_get value ''pageSize'');
     guard_that (1 \<le> pageSize \<and> pageSize \<le> 50);
     totalPages \<leftarrow> as_number (js_get value ''totalPages'');
     guard_that (totalPages = of_int \<lceil>of_int total_rows / of_int pageSize :: rat\<rceil>);
     let offset = (page - 1) * pageSize;
     guard_that (itemCount = (if total_rows \<le> offset then 0 else min pageSize (total_rows - offset)));
     Some \<lparr>pg_total = total_rows, pg_page = page, pg_pageSize = pageSize, pg_totalPages = \<lfloor>totalPages\<rfloor>\<rparr>
   }"

definition parseStaffBookingQueue ::
  "(string \<Rightarrow> int option) \<Rightarrow> js_value \<Rightarrow> (web_staff_booking list \<times> web_page) option" where
  "parseStaffBookingQueue other value = do {
     guard_that (isRecord value);
     rows \<leftarrow> as_array (js_get value ''items'');
     items \<leftarrow> all_parsed (parseStaffBooking other) rows;
     page \<leftarrow> parseStaffQueuePage value (int (length rows));
     guard_that (\<forall>b\<in>set items. wf_status b = PENDING \<and> wf_canReview b);
     guard_that (hasUniqueStaffBookingIds items);
     guard_that (isStaffBookingOrderStable wf_createdAt items);
     Some (items, page)
   }"

definition parseStaffOperationsQueue ::
  "(string \<Rightarrow> int option) \<Rightarrow> js_value \<Rightarrow> (web_staff_booking list \<times> web_page \<times> string) option" where
  "parseStaffOperationsQueue other value = do {
     guard_that (isRecord value);
     rows \<leftarrow> as_array (js_get value ''items'');
     campusDate \<leftarrow> as_string (js_get value ''campusDate'');
     guard_that (web_isCalendarDate campusDate);
     items \<leftarrow> all_parsed (parseStaffBooking other) rows;
     page \<leftarrow> parseStaffQueuePage value (int (length rows));
     guard_that (\<forall>b\<in>set items. wf_date b \<le> campusDate \<and> (wf_status b = CONFIRMED \<or> wf_status b = CHECKED_IN));
     guard_that (hasUniqueStaffBookingIds items);
     guard_that (isStaffBookingOrderStable
       (\<lambda>b. wf_date b @ '':'' @ wf_startTime b @ '':'' @ wf_createdAt b) items);
     Some (items, page, campusDate)
   }"

definition parseStaffResourceSchedule ::
  "(string \<Rightarrow> int option) \<Rightarrow> js_value \<Rightarrow> string \<Rightarrow> string \<Rightarrow> web_staff_booking list option" where
  "parseStaffResourceSchedule other value resourceId date = do {
     guard_that (isRecord value);
     guard_that (js_get value ''resourceId'' = JString resourceId);
     guard_that (js_get value ''date'' = JString date);
     rows \<leftarrow> as_array (js_get value ''bookings'');
     bookings \<leftarrow> all_parsed (parseStaffBooking other) rows;
     guard_that (\<forall>b\<in>set bookings. wr_id (wf_resource b) = resourceId \<and> wf_date b = date);
     guard_that (hasUniqueStaffBookingIds bookings);
     guard_that (isStaffBookingOrderStable (\<lambda>b. wf_startTime b @ '':'' @ wf_createdAt b) bookings);
     Some bookings
   }"

end
