(* ===== verification/WebReads.thy ===== *)
theory WebReads
  imports WebState WebBookings
begin

text \<open>
  The web frontend reads every booking body the service sends: the parsers of
  features/bookings/schema.ts accept the bodies of the student and the staff endpoints and give back
  what was sent, in every state the system reaches.
\<close>

section \<open>Running a parser\<close>

text \<open>A parser is run from its first test to its last.\<close>

lemma read_cong: "x = y \<Longrightarrow> Option.bind x f = Option.bind y f"
  by simp

lemma bind_guard [simp]: "Option.bind (guard_that p) f = (if p then f () else None)"
  by (simp add: guard_that_def)

lemma js_get_record [simp]: "js_get (JObject fs) k = (case map_of fs k of None \<Rightarrow> JUndefined | Some x \<Rightarrow> x)"
  by (simp add: js_get_def)

lemma js_reads [simp]:
  "isRecord (JObject fs)" "as_string (JString s) = Some s" "as_bool (JBool p) = Some p"
  "as_number (JNumber x) = Some x" "as_array (JArray vs) = Some vs" "as_integer (js_int n) = Some n"
  by (simp_all add: isRecord_def as_string_def as_bool_def as_number_def as_array_def as_integer_def js_int_def)

lemma nullable_or_jnull [simp]:
  assumes "\<And>y. x = Some y \<Longrightarrow> f (g y) = Some (h y)" "\<And>y. x = Some y \<Longrightarrow> g y \<noteq> JNull"
  shows "nullable f (or_jnull g x) = Some (map_option h x)"
  using assms by (cases x) (auto simp: nullable_def or_jnull_def)

lemma nullable_text [simp]: "nullable as_string (or_jnull JString x) = Some x"
  by (cases x) (simp_all add: nullable_def or_jnull_def)

lemma nullable_date [simp]:
  "\<forall>t. x = Some t \<longrightarrow> iso_era t \<Longrightarrow>
     nullable (as_timestamp other) (or_jnull js_date x) = Some (map_option toISOString x)"
  by (intro nullable_or_jnull) (simp_all, simp add: js_date_def)

lemma text_codes [simp]:
  "status_of_text (booking_status_text st) = Some st"
  "resource_type_of_text (resource_type_text rt) = Some rt"
  "resource_status_of_text (resource_status_text rs) = Some rs"
  "role_of_text (user_role_text role) = Some role"
  by (cases st, simp_all add: status_of_text_def, cases rt, simp_all add: resource_type_of_text_def,
      cases rs, simp_all add: resource_status_of_text_def, cases role, simp_all add: role_of_text_def)

lemma all_parsed_map: "(\<And>x. x \<in> set xs \<Longrightarrow> p (f x) = Some (g x)) \<Longrightarrow> all_parsed p (map f xs) = Some (map g xs)"
  by (induction xs) simp_all

text \<open>Neighbours in order, in a list that is sorted.\<close>

lemma chronological:
  "sorted_wrt (\<lambda>a b. if up then web_bookingStart a \<le> web_bookingStart b else web_bookingStart b \<le> web_bookingStart a) bs \<Longrightarrow>
     isChronological up bs"
  by (induction up bs rule: isChronological.induct) simp_all

lemma order_stable: "sorted_wrt (\<lambda>a b. key a \<le> key b) bs \<Longrightarrow> isStaffBookingOrderStable key bs"
  by (induction key bs rule: isStaffBookingOrderStable.induct) simp_all

section \<open>What the database makes\<close>

text \<open>
  Identifiers are random version 4 UUIDs, the instants of the rows are those of the database's clock:
  a row is created in the years a date can be written with four digits, and updated no earlier.
\<close>

definition database_made :: "db \<Rightarrow> bool" where
  "database_made d \<longleftrightarrow>
     (\<forall>b\<in>set (bookings d). uuid_version_pattern (b_id b) \<and> iso_era (b_createdAt b)) \<and>
     (\<forall>u\<in>set (users d). uuid_version_pattern (u_id u) \<and> iso_era (u_createdAt u) \<and> iso_era (u_updatedAt u) \<and>
        u_createdAt u \<le> u_updatedAt u) \<and>
     (\<forall>r\<in>set (resources d). uuid_version_pattern (r_id r) \<and> iso_era (r_createdAt r) \<and> iso_era (r_updatedAt r)) \<and>
     (\<forall>bl\<in>set (buildings d). uuid_version_pattern (bl_id bl)) \<and>
     (\<forall>c\<in>set (closures d). uuid_version_pattern (c_id c) \<and> iso_era (c_createdAt c))"

lemma uuid_version: "uuid_version_pattern s \<Longrightarrow> uuid_pattern s"
  by (simp add: uuid_version_pattern_def)

section \<open>The frontend's view of a body\<close>

definition web_resource_of :: "booking_resource_dto \<Rightarrow> web_resource" where
  "web_resource_of r =
     \<lparr>wr_id = rd_id r, wr_code = rd_code r, wr_name = rd_name r, wr_type = the (resource_type_of_text (rd_type r)),
      wr_location = rd_location r, wr_buildingCode = rd_buildingCode r, wr_buildingName = rd_buildingName r\<rparr>"

definition web_student_of :: "student_booking_response \<Rightarrow> web_student_booking" where
  "web_student_of b =
     \<lparr>ws_id = sr_id b, ws_date = sr_date b, ws_startTime = sr_startTime b, ws_endTime = sr_endTime b,
      ws_timeZone = sr_timeZone b, ws_status = sr_status b, ws_canCancel = sr_canCancel b,
      ws_canRequestCheckIn = sr_canRequestCheckIn b, ws_hasEnded = sr_hasEnded b,
      ws_checkInCode = sr_checkInCode b,
      ws_checkInRequestedAt = map_option toISOString (sr_checkInRequestedAt b),
      ws_checkedInAt = map_option toISOString (sr_checkedInAt b),
      ws_checkedOutAt = map_option toISOString (sr_checkedOutAt b),
      ws_noShowAt = map_option toISOString (sr_noShowAt b),
      ws_cancelledAt = map_option toISOString (sr_cancelledAt b),
      ws_reviewedAt = map_option toISOString (sr_reviewedAt b), ws_rejectionReason = sr_rejectionReason b,
      ws_createdAt = toISOString (sr_createdAt b), ws_resource = web_resource_of (sr_resource b)\<rparr>"

definition web_person_of :: "person_dto \<Rightarrow> web_person" where
  "web_person_of p = \<lparr>wp_id = pd_id p, wp_email = pd_email p, wp_fullName = pd_fullName p\<rparr>"

definition web_staff_of :: "staff_booking_response \<Rightarrow> web_staff_booking" where
  "web_staff_of b =
     \<lparr>wf_id = st_id b, wf_date = st_date b, wf_startTime = st_startTime b, wf_endTime = st_endTime b,
      wf_timeZone = st_timeZone b, wf_status = st_status b, wf_createdAt = toISOString (st_createdAt b),
      wf_reviewedAt = map_option toISOString (st_reviewedAt b), wf_rejectionReason = st_rejectionReason b,
      wf_canReview = st_canReview b, wf_checkInRequested = st_checkInRequested b,
      wf_canConfirmCheckIn = st_canConfirmCheckIn b, wf_canCheckOut = st_canCheckOut b,
      wf_canMarkNoShow = st_canMarkNoShow b, wf_checkedInAt = map_option toISOString (st_checkedInAt b),
      wf_checkedOutAt = map_option toISOString (st_checkedOutAt b),
      wf_noShowAt = map_option toISOString (st_noShowAt b), wf_resource = web_resource_of (st_resource b),
      wf_requester = web_person_of (st_requester b), wf_reviewer = map_option web_person_of (st_reviewer b)\<rparr>"

section \<open>One booking\<close>

lemma booking_slot_texts:
  assumes "sound_booking b"
  shows "hour_pattern (js_slice 0 5 (b_startTime b))" "hour_pattern (js_slice 0 5 (b_endTime b))"
    "js_slice 0 5 (b_startTime b) < js_slice 0 5 (b_endTime b)"
proof -
  obtain h k where hk: "h < 24" "k < 24" "h < k"
    "js_slice 0 5 (b_startTime b) = hour_text h" "js_slice 0 5 (b_endTime b) = hour_text k"
    using booking_hours [OF assms] .
  note p = hour_text_pattern [OF hk(1)] hour_text_pattern [OF hk(2)]
  show "hour_pattern (js_slice 0 5 (b_startTime b))" "hour_pattern (js_slice 0 5 (b_endTime b))"
    unfolding hk(4,5) by (rule p)+
  show "js_slice 0 5 (b_startTime b) < js_slice 0 5 (b_endTime b)"
    unfolding hk(4,5) clock_less_iff [OF hour_pattern_clock [OF p(1)] hour_pattern_clock [OF p(2)]]
    using hk(1-3) by (simp add: clock_minutes_hour)
qed

lemma read_booking_resource:
  assumes "joined_resource d b = Some res" "database_made d"
  shows "parseBookingResource (booking_resource_json res) = Some (web_resource_of res)"
proof -
  obtain r bl where r: "r \<in> set (resources d)" "res = booking_resource_fromEntity r bl"
    using assms(1) by (auto simp: joined_resource_def split: option.splits dest!: row_at_SomeD)
  have "uuid_pattern (r_id r)" using assms(2) r(1) by (auto simp: database_made_def intro: uuid_version)
  then show ?thesis
    by (simp add: r(2) parseBookingResource_def booking_resource_json_def booking_resource_fromEntity_def web_resource_of_def)
qed

text \<open>The facts a parser tests again.\<close>

lemma booking_facts:
  assumes "campus_ok (now, d)" "recorded d" "database_made d" "b \<in> set (bookings d)"
  shows "sound_booking b" "lived now b" "web_isCalendarDate (b_date b)" "uuid_pattern (b_id b)" "iso_era (b_createdAt b)"
    "\<forall>t. b_cancelledAt b = Some t \<longrightarrow> iso_era t" "\<forall>t. b_reviewedAt b = Some t \<longrightarrow> iso_era t"
    "\<forall>t. b_checkInRequestedAt b = Some t \<longrightarrow> iso_era t" "\<forall>t. b_checkedInAt b = Some t \<longrightarrow> iso_era t"
    "\<forall>t. b_checkedOutAt b = Some t \<longrightarrow> iso_era t" "\<forall>t. b_noShowAt b = Some t \<longrightarrow> iso_era t"
proof -
  have ok: "db_ok d" "db_lived now d" using assms(1) by (simp_all add: campus_ok_def)
  show s: "sound_booking b" by (rule db_booking_sound [OF ok(1) assms(4)])
  show "lived now b" using ok(2) assms(4) by (simp add: db_lived_def)
  have r: "booking_recorded b" by (rule recorded_rows(1) [OF assms(2,4)])
  show "web_isCalendarDate (b_date b)"
    using sound_booking_times(4) [OF s] r by (simp add: web_isCalendarDate_def booking_recorded_def pg_date_def)
  show "uuid_pattern (b_id b)" "iso_era (b_createdAt b)"
    using assms(3,4) by (auto simp: database_made_def intro: uuid_version)
  show "\<forall>t. b_cancelledAt b = Some t \<longrightarrow> iso_era t" "\<forall>t. b_reviewedAt b = Some t \<longrightarrow> iso_era t"
    "\<forall>t. b_checkInRequestedAt b = Some t \<longrightarrow> iso_era t" "\<forall>t. b_checkedInAt b = Some t \<longrightarrow> iso_era t"
    "\<forall>t. b_checkedOutAt b = Some t \<longrightarrow> iso_era t" "\<forall>t. b_noShowAt b = Some t \<longrightarrow> iso_era t"
    using r by (auto simp: booking_recorded_def stored_instants_def intro: campus_iso_era)
qed

text \<open>The constraints of the table, as the conditions of the parsers.\<close>

lemma truthy_reason: "3 \<le> length (btrim s) \<Longrightarrow> s \<noteq> []"
  by (auto simp: btrim_def)

lemma stored_states:
  assumes "sound_booking b"
  shows "if b_status b = CANCELLED then b_cancelledAt b \<noteq> None else b_cancelledAt b = None"
    "if b_status b = REJECTED then b_reviewedAt b \<noteq> None \<and> truthy_text (b_rejectionReason b) else b_rejectionReason b = None"
    "b_status b = PENDING \<Longrightarrow> b_reviewedAt b = None"
    "b_reviewedAt b = None \<longleftrightarrow> b_reviewedById b = None"
    "if b_checkInRequestedAt b = None then b_checkInCode b = None \<and> b_status b \<notin> {CHECKED_IN, COMPLETED}
     else b_status b = CONFIRMED \<or> b_status b \<in> {CHECKED_IN, COMPLETED, NO_SHOW} \<and> b_checkInCode b = None"
    "b_checkedInAt b \<noteq> None \<longleftrightarrow> b_status b \<in> {CHECKED_IN, COMPLETED}"
    "b_checkedOutAt b \<noteq> None \<longleftrightarrow> b_status b = COMPLETED"
    "b_noShowAt b \<noteq> None \<longleftrightarrow> b_status b = NO_SHOW"
proof -
  have rules: "check_cancellation_state b" "check_check_in_request b" "check_checked_in_state b"
    "check_checkout_state b" "check_no_show_state b" "check_pending_unreviewed b"
    "check_rejection_reason_content b" "check_rejection_state b" "check_review_pair b"
    using assms by (simp_all add: sound_booking_def booking_rules_iff)
  show "if b_status b = CANCELLED then b_cancelledAt b \<noteq> None else b_cancelledAt b = None"
    using rules(1) by (auto simp: check_cancellation_state_def)
  show "if b_status b = REJECTED then b_reviewedAt b \<noteq> None \<and> truthy_text (b_rejectionReason b)
      else b_rejectionReason b = None"
    using rules(7,8) by (cases "b_rejectionReason b")
      (auto simp: check_rejection_state_def check_rejection_reason_content_def truthy_text_def dest: truthy_reason)
  show "b_status b = PENDING \<Longrightarrow> b_reviewedAt b = None" using rules(6) by (simp add: check_pending_unreviewed_def)
  show "b_reviewedAt b = None \<longleftrightarrow> b_reviewedById b = None" using rules(9) by (auto simp: check_review_pair_def)
  show "if b_checkInRequestedAt b = None then b_checkInCode b = None \<and> b_status b \<notin> {CHECKED_IN, COMPLETED}
     else b_status b = CONFIRMED \<or> b_status b \<in> {CHECKED_IN, COMPLETED, NO_SHOW} \<and> b_checkInCode b = None"
    using rules(2,3) by (auto simp: check_check_in_request_def check_checked_in_state_def)
  show "b_checkedInAt b \<noteq> None \<longleftrightarrow> b_status b \<in> {CHECKED_IN, COMPLETED}"
    using rules(3) by (auto simp: check_checked_in_state_def)
  show "b_checkedOutAt b \<noteq> None \<longleftrightarrow> b_status b = COMPLETED" using rules(4) by (auto simp: check_checkout_state_def)
  show "b_noShowAt b \<noteq> None \<longleftrightarrow> b_status b = NO_SHOW" using rules(5) by (auto simp: check_no_show_state_def)
qed

lemma stored_order:
  assumes "campus_ok (now, d)" "recorded d" "database_made d" "b \<in> set (bookings d)"
  shows "isAtOrAfter other (map_option toISOString (b_checkedInAt b)) (map_option toISOString (b_checkInRequestedAt b))"
    "isAtOrAfter other (map_option toISOString (b_checkedOutAt b)) (map_option toISOString (b_checkedInAt b))"
    "\<not> (case map_option toISOString (b_noShowAt b) of None \<Rightarrow> False
       | Some s \<Rightarrow> earlier (date_parse other s) (campusBookingEndMs (b_date b) (js_slice 0 5 (b_endTime b))))"
proof -
  note f = booking_facts [OF assms]
  have t: "check_check_in_timeline b" "check_no_show_timeline b"
    using f(1) by (simp_all add: sound_booking_def booking_rules_iff)
  have end_ms: "campusBookingEndMs (b_date b) (js_slice 0 5 (b_endTime b)) = Some (booking_end b)"
    using sound_booking_times(2) [OF f(1)] by (simp add: campusBookingEndMs_def bookingEndMs_def)
  show "isAtOrAfter other (map_option toISOString (b_checkedInAt b)) (map_option toISOString (b_checkInRequestedAt b))"
    "isAtOrAfter other (map_option toISOString (b_checkedOutAt b)) (map_option toISOString (b_checkedInAt b))"
    using t(1) f(8-10) by (auto simp: isAtOrAfter_def check_check_in_timeline_def split: option.splits)
  show "\<not> (case map_option toISOString (b_noShowAt b) of None \<Rightarrow> False
       | Some s \<Rightarrow> earlier (date_parse other s) (campusBookingEndMs (b_date b) (js_slice 0 5 (b_endTime b))))"
    using t(2) f(11) end_ms by (auto simp: earlier_def check_no_show_timeline_def split: option.splits)
qed

lemma open_check_in_code: "lived now b \<Longrightarrow> b_status b = CONFIRMED \<Longrightarrow> b_checkInRequestedAt b \<noteq> None \<Longrightarrow> b_checkInCode b \<noteq> None"
  by (simp add: lived_def)

lemma read_student_booking:
  assumes "campus_ok (now, d)" "recorded d" "database_made d" "b \<in> set (bookings d)"
    "joined_resource d b = Some res"
  defines "r \<equiv> student_booking_fromEntity b res (canCancel b now) (canRequestCheckIn b now) (hasEnded b now)"
  shows "parseStudentBooking other (student_booking_json r) = Some (web_student_of r)"
proof -
  note f = booking_facts [OF assms(1-4)]
  note t = booking_slot_texts [OF f(1)] and a = action_predicates [OF f(1), of now] and z = sound_booking_times [OF f(1)]
  have code: "case b_checkInCode b of None \<Rightarrow> True | Some s \<Rightarrow> six_digit_pattern s"
    using f(1) by (auto simp: sound_booking_def booking_rules_iff check_check_in_request_def six_digit_pattern_def six_digits_def
        split: option.splits)
  note state = stored_states [OF f(1)] stored_order [OF assms(1-4), of other] open_check_in_code [OF f(2)] z(3) a(1,2,5)
  have sane: "\<not> student_booking_refused other (web_student_of r)"
    unfolding student_booking_refused_def r_def web_student_of_def student_booking_fromEntity_def
    using state by (cases "b_status b"; cases "b_checkInRequestedAt b") (simp_all add: canRequestCheckIn_def cong: option.case_cong)
  show ?thesis
    unfolding r_def parseStudentBooking_def student_booking_json_def
    using t f(3-11) code sane [unfolded r_def web_student_of_def student_booking_fromEntity_def]
    by (simp add: web_student_of_def student_booking_fromEntity_def read_booking_resource [OF assms(5,3)] cong: read_cong)
qed

section \<open>A student's timeline\<close>

lemma all_responses_map: "(\<And>x. x \<in> set xs \<Longrightarrow> f x = Inr (g x)) \<Longrightarrow> all_responses f xs = Inr (map g xs)"
  by (induction xs) simp_all

lemma joined_stored: "db_ok d \<Longrightarrow> b \<in> set (bookings d) \<Longrightarrow> joined_resource d b = Some (the (joined_resource d b))"
  using joined_resource_Some stored_relations(1) by fastforce

definition student_body :: "db \<Rightarrow> int \<Rightarrow> booking \<Rightarrow> student_booking_response" where
  "student_body d now b = student_booking_fromEntity b (the (joined_resource d b)) (canCancel b now)
     (canRequestCheckIn b now) (hasEnded b now)"

lemma student_bodies:
  assumes "db_ok d" "set bs \<subseteq> set (bookings d)"
  shows "all_responses (studentResponse d now) bs = Inr (map (student_body d now) bs)"
proof (rule all_responses_map)
  fix b assume "b \<in> set bs"
  then have "joined_resource d b = Some (the (joined_resource d b))" using assms by (auto intro: joined_stored)
  then show "studentResponse d now b = Inr (student_body d now b)"
    unfolding studentResponse_def student_body_def by (metis option.simps(5))
qed

lemma sql_time_hours:
  assumes "sound_booking a" "sound_booking b"
  shows "js_slice 0 5 (b_startTime a) \<le> js_slice 0 5 (b_startTime b) \<longleftrightarrow> sql_time (b_startTime a) \<le> sql_time (b_startTime b)"
proof -
  obtain h where h: "h < 24" "js_slice 0 5 (b_startTime a) = hour_text h" "sql_time (b_startTime a) = 3600 * int h"
    using booking_hours [OF assms(1)] by metis
  obtain k where k: "k < 24" "js_slice 0 5 (b_startTime b) = hour_text k" "sql_time (b_startTime b) = 3600 * int k"
    using booking_hours [OF assms(2)] by metis
  note p = hour_pattern_clock [OF hour_text_pattern [OF h(1)]] hour_pattern_clock [OF hour_text_pattern [OF k(1)]]
  show ?thesis unfolding h(2,3) k(2,3) clock_le_iff [OF p] using h(1) k(1) by (simp add: clock_minutes_hour)
qed

lemma lex_not_less:
  fixes x y u v :: "'a::linorder"
  shows "\<not> (y < x \<or> y = x \<and> v < u) \<longleftrightarrow> x < y \<or> x = y \<and> u \<le> v"
  by auto

text \<open>The texts of two starts compare as their dates and times.\<close>

lemma bookingStart_le_iff:
  assumes "sound_booking a" "sound_booking b"
  shows "bookingStart a \<le> bookingStart b \<longleftrightarrow>
    sql_date (b_date a) < sql_date (b_date b) \<or>
    sql_date (b_date a) = sql_date (b_date b) \<and> sql_time (b_startTime a) \<le> sql_time (b_startTime b)"
proof -
  note d = sound_booking_times(4) [OF assms(1)] sound_booking_times(4) [OF assms(2)]
  have l: "length (b_date a) = length (b_date b)" using d by (simp add: pg_date_length)
  have "bookingStart b < bookingStart a \<longleftrightarrow> b_date b < b_date a \<or>
      b_date b = b_date a \<and> js_slice 0 5 (b_startTime b) < js_slice 0 5 (b_startTime a)"
    unfolding bookingStart_def by (subst append_less_iff) (use l in auto)
  also have "\<dots> \<longleftrightarrow> sql_date (b_date b) < sql_date (b_date a) \<or>
      sql_date (b_date b) = sql_date (b_date a) \<and> sql_time (b_startTime b) < sql_time (b_startTime a)"
  proof -
    have "b_date b = b_date a \<longleftrightarrow> sql_date (b_date b) = sql_date (b_date a)" using sql_date_inj [OF d(2,1)] by metis
    moreover have "js_slice 0 5 (b_startTime b) < js_slice 0 5 (b_startTime a) \<longleftrightarrow>
        sql_time (b_startTime b) < sql_time (b_startTime a)"
      using sql_time_hours [OF assms] by (simp only: not_le [symmetric])
    ultimately show ?thesis using date_less_iff [OF d(2,1)] by (simp only:)
  qed
  finally have "bookingStart a \<le> bookingStart b \<longleftrightarrow> \<not> (sql_date (b_date b) < sql_date (b_date a) \<or>
      sql_date (b_date b) = sql_date (b_date a) \<and> sql_time (b_startTime b) < sql_time (b_startTime a))"
    by (metis not_le)
  then show ?thesis by (simp only: lex_not_less)
qed

lemma sorted_rows_mono:
  assumes "sorted_wrt P bs" "\<And>a b. a \<in> set bs \<Longrightarrow> b \<in> set bs \<Longrightarrow> P a b \<Longrightarrow> Q (f a) (f b)"
  shows "sorted_wrt Q (map f bs)"
  unfolding sorted_wrt_map by (rule sorted_wrt_mono_rel [OF _ assms(1)]) (use assms(2) in blast)

lemma web_start [simp]: "web_bookingStart (web_student_of (student_body d now b)) = bookingStart b"
  by (simp add: web_bookingStart_def web_student_of_def student_body_def student_booking_fromEntity_def bookingStart_def)

lemma read_timeline:
  assumes "all_parsed (parseStudentBooking other) (map student_booking_json (fst t)) = Some up"
    "all_parsed (parseStudentBooking other) (map student_booking_json (snd t)) = Some hist"
    "\<forall>b\<in>set up. \<not> ws_hasEnded b \<and> ws_status b \<in> {PENDING, CONFIRMED, CHECKED_IN}"
    "\<forall>b\<in>set hist. ws_status b \<in> {PENDING, CONFIRMED, CHECKED_IN} \<longrightarrow> ws_hasEnded b"
    "distinct (map ws_id (up @ hist))" "isChronological True up" "isChronological False hist"
  shows "parseStudentBookingTimeline other (timeline_json t) = Some (up, hist)"
  unfolding parseStudentBookingTimeline_def timeline_json_def
  by (simp add: assms(1,2) cong: read_cong) (use assms(3-7) in auto)

text \<open>C29: A student's timeline reaches the page: in every state of the system the service answers the
request for the own bookings, and the frontend's parser, which tests every field again, the relations
between them, the split into upcoming and past and the order of the two lists, accepts the answer and
gives back exactly what was sent.\<close>

theorem web_reads_timeline:
  assumes "reachable sv (now, d)" "accounts_recorded (sv_bootstrap sv)" "database_made d" "env_sound now e d"
  shows "\<exists>t. findMine u e d = Inr t \<and>
    parseStudentBookingTimeline other (timeline_json t) = Some (map web_student_of (fst t), map web_student_of (snd t))"
proof -
  have ok: "campus_ok (clock e, d)"
    using reachable_ok [OF assms(1)] assms(4) by (auto simp: env_sound_def intro: campus_ok_later)
  then have db: "db_ok d" by (simp add: campus_ok_def)
  have rec: "recorded d" by (rule reachable_recorded [OF assms(1,2)])
  define l where "l = findForStudent u e d"
  define up where "up = sb_upcoming l"
  define hist where "hist = sb_history l"
  note T = timeline_lists [OF db, of u e, folded l_def up_def hist_def]
  have sets: "set up \<subseteq> set (bookings d)" "set hist \<subseteq> set (bookings d)" using T by blast+
  have eval: "sb_evaluatedAt l = clock e" by (simp add: l_def findForStudent_def Let_def)
  let ?t = "(map (student_body d (clock e)) up, map (student_body d (clock e)) hist)"
  have answer: "findMine u e d = Inr ?t"
    using student_bodies [OF db sets(1)] student_bodies [OF db sets(2)]
    by (simp add: findMine_def Let_def l_def [symmetric] up_def [symmetric] hist_def [symmetric] eval)
  let ?w = "\<lambda>b. web_student_of (student_body d (clock e) b)"
  have parsed: "all_parsed (parseStudentBooking other) (map student_booking_json (map (student_body d (clock e)) bs))
      = Some (map ?w bs)" if "set bs \<subseteq> set (bookings d)" for bs
    unfolding map_map comp_def student_body_def
    by (rule all_parsed_map, rule read_student_booking [OF ok rec assms(3)])
      (use that joined_stored [OF db] in auto)
  have sound: "sound_booking b" if "b \<in> set (bookings d)" for b by (rule db_booking_sound [OF db that])
  have fields: "ws_hasEnded (?w b) \<longleftrightarrow> booking_end b \<le> clock e" "ws_status (?w b) = b_status b" "ws_id (?w b) = b_id b"
    if "b \<in> set (bookings d)" for b
    using action_predicates(5) [OF sound [OF that]]
    by (simp_all add: web_student_of_def student_body_def student_booking_fromEntity_def)
  have split: "\<forall>b\<in>set (map ?w up). \<not> ws_hasEnded b \<and> ws_status b \<in> {PENDING, CONFIRMED, CHECKED_IN}"
    "\<forall>b\<in>set (map ?w hist). ws_status b \<in> {PENDING, CONFIRMED, CHECKED_IN} \<longrightarrow> ws_hasEnded b"
    using T fields by (auto simp: blocking_def)
  have ids: "map ws_id (map ?w up @ map ?w hist) = map b_id (up @ hist)"
    using fields(3) sets by auto
  have "sorted_wrt (\<lambda>a b. bookingStart a \<le> bookingStart b) (map id up)"
    using T(4)
    by (rule sorted_rows_mono)
      (use sets sound in \<open>auto simp: subset_iff bookingStart_le_iff timeline_order_def cmp_then_def cmp_by_def split: if_splits\<close>)
  then have order: "isChronological True (map ?w up)" "isChronological False (map ?w hist)"
    using T by (auto intro!: chronological simp: sorted_wrt_map)
  have "parseStudentBookingTimeline other (timeline_json ?t) = Some (map ?w up, map ?w hist)"
    by (rule read_timeline)
      (use parsed [OF sets(1)] parsed [OF sets(2)] split order T in \<open>simp_all only: ids fst_conv snd_conv\<close>)
  then show ?thesis using answer by (intro exI [of _ ?t]) (simp add: comp_def)
qed

end
