(* ===== verification/WebStaffReads.thy ===== *)
theory WebStaffReads
  imports WebReads
begin

text \<open>
  The staff pages read every body of the staff endpoints: the queue of requests, the operations queue
  and the schedule of a resource.
\<close>

section \<open>One booking\<close>

lemma campus_address_text:
  assumes "campus_address s"
  obtains w where "s = w @ ''@usth.edu.vn''" "w \<noteq> []" "CHR ''@'' \<notin> set w" "\<forall>c\<in>set w. \<not> is_space c"
proof -
  have "js_lower (js_trim s) = s" using assms by (simp add: campus_address_def normalizeEmailAddress_def)
  then show ?thesis using assms that by (auto simp: campus_address_def student_email_iff)
qed

lemma campus_address_ends: "campus_address s \<Longrightarrow> js_endsWith s ''@usth.edu.vn''"
  by (erule campus_address_text) (simp add: js_endsWith_iff)

lemma read_person:
  assumes "recorded d" "database_made d" "u \<in> set (users d)"
  shows "parseStaffBookingPerson (person_json (person_fromEntity u)) = Some (web_person_of (person_fromEntity u))"
proof -
  have r: "user_recorded u" by (rule recorded_rows(2) [OF assms(1,3)])
  have "uuid_pattern (u_id u)" using assms(2,3) by (auto simp: database_made_def intro: uuid_version)
  moreover have "js_endsWith (u_email u) ''@usth.edu.vn''" using r by (simp add: user_recorded_def campus_address_ends)
  moreover have "u_fullName u \<noteq> []" using r by (auto simp: user_recorded_def js_trim_def)
  ultimately show ?thesis
    by (simp add: parseStaffBookingPerson_def person_json_def person_fromEntity_def web_person_of_def)
qed

lemma person_json_not_null: "person_json p \<noteq> JNull"
  by (simp add: person_json_def)

lemma stored_reviewer:
  assumes "db_ok d" "b \<in> set (bookings d)"
  shows "joined_user d (b_reviewedById b) = None \<longleftrightarrow> b_reviewedById b = None"
proof -
  have "null_or_in (b_reviewedById b) (ids u_id (users d))"
    using assms by (auto simp: db_ok_def booking_ok_def booking_users_known_def Let_def dest: table_inv_ok)
  then show ?thesis
    using joined_user_Some by (cases "b_reviewedById b") (fastforce simp: null_or_in_def joined_user_def)+
qed

lemma joined_user_mem: "joined_user d k = Some u \<Longrightarrow> u \<in> set (users d)"
  by (auto simp: joined_user_def split: option.splits dest: row_at_SomeD)

lemma reason_length:
  assumes "sound_booking b"
  shows "case b_rejectionReason b of None \<Rightarrow> True | Some s \<Rightarrow> 3 \<le> length s \<and> length s \<le> 500"
proof -
  have c: "check_rejection_reason_content b" "check_rejection_state b" "booking_typed b"
    using assms by (simp_all add: sound_booking_def booking_rules_iff)
  have "length (btrim s) \<le> length s" for s
    unfolding btrim_def by (metis length_dropWhile_le length_rev le_trans)
  then show ?thesis
    using c by (auto simp: check_rejection_reason_content_def check_rejection_state_def booking_typed_def
        pg_varchar_def split: option.splits intro: order_trans)
qed

definition staff_body :: "db \<Rightarrow> int \<Rightarrow> booking \<Rightarrow> staff_booking_response" where
  "staff_body d now b =
     staff_booking_fromEntity b (the (joined_resource d b)) (the (joined_user d (Some (b_requesterId b))))
       (joined_user d (b_reviewedById b))
       \<lparr>ac_canReview = canReview b now, ac_canConfirmCheckIn = canConfirmCheckIn b now,
        ac_canCheckOut = canCheckOut b, ac_canMarkNoShow = canMarkNoShow b now\<rparr>"

lemma read_staff_booking:
  assumes "campus_ok (now, d)" "recorded d" "database_made d" "b \<in> set (bookings d)"
  shows "parseStaffBooking other (staff_booking_json (staff_body d now b)) = Some (web_staff_of (staff_body d now b))"
proof -
  have db: "db_ok d" using assms(1) by (simp add: campus_ok_def)
  obtain res where res: "joined_resource d b = Some res" using joined_stored [OF db assms(4)] by blast
  obtain u where u: "joined_user d (Some (b_requesterId b)) = Some u"
    using joined_user_Some [OF stored_relations(2) [OF db assms(4)]] by blast
  define v where "v = joined_user d (b_reviewedById b)"
  have read_v: "nullable parseStaffBookingPerson (or_jnull person_json (map_option person_fromEntity v)) =
      Some (map_option web_person_of (map_option person_fromEntity v))"
    by (rule nullable_or_jnull)
      (auto simp: v_def person_json_not_null dest!: joined_user_mem intro: read_person [OF assms(2,3)])
  note f = booking_facts [OF assms(1-4)]
  note t = booking_slot_texts [OF f(1)] and a = action_predicates(2-5) [OF f(1), of now]
  note state = stored_states [OF f(1)] stored_order [OF assms(1-4), of other]
  have rv: "v = None \<longleftrightarrow> b_reviewedById b = None" using stored_reviewer [OF db assms(4)] by (simp add: v_def)
  have body: "staff_body d now b = staff_booking_fromEntity b res u v
       \<lparr>ac_canReview = canReview b now, ac_canConfirmCheckIn = canConfirmCheckIn b now,
        ac_canCheckOut = canCheckOut b, ac_canMarkNoShow = canMarkNoShow b now\<rparr>"
    by (simp add: staff_body_def res u v_def)
  have sane: "\<not> staff_booking_refused other (web_staff_of (staff_body d now b))"
    unfolding body staff_booking_refused_def web_staff_of_def staff_booking_fromEntity_def
    using state rv a by (cases "b_status b"; cases "b_checkInRequestedAt b")
      (simp_all add: canConfirmCheckIn_def canCheckOut_def cong: option.case_cong)
  show ?thesis
    unfolding body parseStaffBooking_def staff_booking_json_def
    using t f(3-11) reason_length [OF f(1)] sane [unfolded body web_staff_of_def staff_booking_fromEntity_def] read_v
    by (simp add: web_staff_of_def staff_booking_fromEntity_def read_booking_resource [OF res assms(3)]
        read_person [OF assms(2,3) joined_user_mem [OF u]] cong: read_cong)
qed

lemma staff_bodies:
  assumes "db_ok d" "set bs \<subseteq> set (bookings d)"
  shows "all_responses (staffResponse d now) bs = Inr (map (staff_body d now) bs)"
proof (rule all_responses_map)
  fix b assume "b \<in> set bs"
  then have b: "b \<in> set (bookings d)" using assms(2) by blast
  obtain res u where "joined_resource d b = Some res" "joined_user d (Some (b_requesterId b)) = Some u"
    using joined_stored [OF assms(1) b] joined_user_Some [OF stored_relations(2) [OF assms(1) b]] by blast
  then show "staffResponse d now b = Inr (staff_body d now b)" by (simp add: staffResponse_def staff_body_def)
qed

lemma staff_views:
  assumes "campus_ok (now, d)" "recorded d" "database_made d" "set bs \<subseteq> set (bookings d)"
  shows "all_parsed (parseStaffBooking other) (map staff_booking_json (map (staff_body d now) bs)) =
    Some (map (\<lambda>b. web_staff_of (staff_body d now b)) bs)"
  unfolding map_map comp_def by (rule all_parsed_map, rule read_staff_booking [OF assms(1-3)]) (use assms(4) in auto)

lemma staff_fields [simp]:
  "wf_id (web_staff_of (staff_body d now b)) = b_id b"
  "wf_date (web_staff_of (staff_body d now b)) = b_date b"
  "wf_startTime (web_staff_of (staff_body d now b)) = js_slice 0 5 (b_startTime b)"
  "wf_status (web_staff_of (staff_body d now b)) = b_status b"
  "wf_createdAt (web_staff_of (staff_body d now b)) = toISOString (b_createdAt b)"
  "wf_canReview (web_staff_of (staff_body d now b)) = canReview b now"
  by (simp_all add: web_staff_of_def staff_body_def staff_booking_fromEntity_def)

section \<open>Pages\<close>

text \<open>The numbers of a page, and how many rows it has.\<close>

lemma total_pages_ceiling:
  assumes "0 < s"
  shows "\<lceil>of_int (int n) / of_int (int s) :: rat\<rceil> = int (totalPagesFor n s)"
proof -
  have "int (totalPagesFor n s) = (int n + int s - 1) div int s"
    using assms by (cases "n = 0") (auto simp: totalPagesFor_def zdiv_int of_nat_diff)
  also have "\<dots> = - (- int n div int s)"
  proof -
    let ?q = "(int n + int s - 1) div int s" and ?r = "(int n + int s - 1) mod int s"
    have "int n + int s - 1 = int s * ?q + ?r" by simp
    moreover have "0 \<le> ?r" "?r < int s" using assms by simp_all
    ultimately have "- int n div int s = - ?q"
      by (intro int_div_pos_eq [of _ _ _ "int s - 1 - ?r"]) (simp_all add: algebra_simps)
    then show ?thesis by simp
  qed
  finally show ?thesis by (simp only: ceiling_divide_eq_div)
qed

lemma page_rows_count:
  assumes "1 \<le> p"
  shows "int (length (page_rows p s rows)) =
    (if int (length rows) \<le> (int p - 1) * int s then 0 else min (int s) (int (length rows) - (int p - 1) * int s))"
proof -
  define k where "k = (p - 1) * s"
  have k: "(int p - 1) * int s = int k" using assms by (simp add: k_def of_nat_diff)
  show ?thesis
    unfolding k page_rows_def k_def [symmetric]
    by (cases "length rows \<le> k") (simp_all add: min_def of_nat_diff, linarith)
qed

definition web_page_of :: "nat \<Rightarrow> page_query \<Rightarrow> web_page" where
  "web_page_of n q = \<lparr>pg_total = int n, pg_page = int (q_page q), pg_pageSize = int (q_pageSize q),
     pg_totalPages = int (totalPagesFor n (q_pageSize q))\<rparr>"

lemma as_number_int [simp]: "as_number (js_int n) = Some (of_int n)"
  by (simp add: js_int_def)

lemma read_page:
  assumes "page_query_valid q" "js_get v ''total'' = js_int (int (length rows))"
    "js_get v ''page'' = js_int (int (q_page q))" "js_get v ''pageSize'' = js_int (int (q_pageSize q))"
    "js_get v ''totalPages'' = js_int (int (totalPagesFor (length rows) (q_pageSize q)))"
  shows "parseStaffQueuePage v (int (length (page_rows (q_page q) (q_pageSize q) rows))) = Some (web_page_of (length rows) q)"
proof -
  have v: "1 \<le> q_page q" "1 \<le> q_pageSize q" "q_pageSize q \<le> 50"
    using assms(1) by (simp_all add: page_query_valid_def MAX_PAGE_SIZE_def)
  have c: "\<lceil>of_int (int (length rows)) / of_int (int (q_pageSize q)) :: rat\<rceil> = int (totalPagesFor (length rows) (q_pageSize q))"
    using v by (intro total_pages_ceiling) simp
  show ?thesis
    unfolding parseStaffQueuePage_def assms(2-5) page_rows_count [OF v(1)]
    using v c by (simp add: web_page_of_def Let_def cong: read_cong)
qed

section \<open>The staff endpoints\<close>

lemma append_le_iff:
  fixes a b c d :: string
  shows "length a = length c \<Longrightarrow> a @ b \<le> c @ d \<longleftrightarrow> a < c \<or> a = c \<and> b \<le> d"
  using append_less_iff [of c a d b] by (auto simp: not_less [symmetric])

lemma campusDateOf_day: "campusDateOf now = iso_day (now + CAMPUS_OFFSET_MS)" if "campus_era now"
proof -
  have "iso_era (now + CAMPUS_OFFSET_MS)" using that by (simp add: iso_era_def campus_era_def CAMPUS_OFFSET_MS_def)
  then have "length (iso_day (now + CAMPUS_OFFSET_MS)) = 10" using iso_day_date(1) by (simp add: pg_date_length)
  then show ?thesis by (simp add: campusDateOf_def toISOString_parts)
qed

text \<open>A day from 1970 on is one JavaScript reads back.\<close>

lemma recent_date_real:
  assumes "pg_date s" "0 \<le> sql_date s"
  shows "web_isCalendarDate s"
proof -
  obtain y m d where s: "date_pattern s" "date_numbers s = Some (y, m, d)" "valid_ymd y (m - 1) d"
    using assms(1) by (rule pg_dateE)
  have day: "sql_date s = make_day y (m - 1) d" by (simp add: sql_date_def s(2))
  have "100 \<le> y"
  proof (rule ccontr)
    assume "\<not> 100 \<le> y"
    moreover have "sql_date s < day_from_year (y + 1)"
      using year_from_day_bounds(2) [of "sql_date s"] make_day_fields(1) [OF s(3)] by (simp add: day)
    ultimately have "sql_date s < day_from_year 100"
      using day_from_year_mono [of "y + 1" 100] by (cases "y + 1 = 100") auto
    then show False using assms(2) by (simp add: day_from_year_def)
  qed
  then show ?thesis using s(1,3) real_date_iff [OF s(1,2)] by (simp add: web_isCalendarDate_def)
qed

lemma campus_today:
  assumes "campus_era now"
  shows "pg_date (campusDateOf now)" "web_isCalendarDate (campusDateOf now)"
proof -
  show p: "pg_date (campusDateOf now)" by (rule iso_text(1) [OF assms])
  have "0 \<le> sql_date (campusDateOf now)"
    using assms unfolding iso_text(2) [OF assms] by (simp add: campus_era_def CAMPUS_OFFSET_MS_def pos_imp_zdiv_nonneg_iff)
  with p show "web_isCalendarDate (campusDateOf now)" by (rule recent_date_real)
qed

interpretation operations: comparator operations_order
  unfolding operations_order_def timeline_order_def by (intro comparators)

interpretation schedule: comparator "cmp_then (cmp_by (\<lambda>b. sql_time (b_startTime b))) (cmp_by b_createdAt)"
  by (intro comparators)

lemma page_rows_sorted: "sorted_wrt P rows \<Longrightarrow> sorted_wrt P (page_rows p s rows)"
  by (simp add: page_rows_def sorted_wrt_take sorted_wrt_drop)

lemma page_rows_distinct: "distinct (map f rows) \<Longrightarrow> distinct (map f (page_rows p s rows))"
  by (simp add: page_rows_def take_map [symmetric] drop_map [symmetric] distinct_take distinct_drop)

lemma read_queue:
  assumes "all_parsed (parseStaffBooking other) (map staff_booking_json (qb_items q)) = Some bs"
    "parseStaffQueuePage (staff_queue_json q) (int (length (qb_items q))) = Some p"
    "\<forall>b\<in>set bs. wf_status b = PENDING \<and> wf_canReview b" "distinct (map wf_id bs)"
    "sorted_wrt (\<lambda>a b. wf_createdAt a \<le> wf_createdAt b) bs"
  shows "parseStaffBookingQueue other (staff_queue_json q) = Some (bs, p)"
  using assms(2) unfolding parseStaffBookingQueue_def staff_queue_json_def
  by (simp add: assms(1) cong: read_cong) (use assms(3-5) in \<open>auto simp: hasUniqueStaffBookingIds_def intro: order_stable\<close>)

lemma read_operations:
  assumes "all_parsed (parseStaffBooking other) (map staff_booking_json (ob_items q)) = Some bs"
    "parseStaffQueuePage (staff_operations_json q) (int (length (ob_items q))) = Some p"
    "web_isCalendarDate (ob_campusDate q)"
    "\<forall>b\<in>set bs. wf_date b \<le> ob_campusDate q \<and> (wf_status b = CONFIRMED \<or> wf_status b = CHECKED_IN)"
    "distinct (map wf_id bs)"
    "sorted_wrt (\<lambda>a b. wf_date a @ '':'' @ wf_startTime a @ '':'' @ wf_createdAt a
       \<le> wf_date b @ '':'' @ wf_startTime b @ '':'' @ wf_createdAt b) bs"
  shows "parseStaffOperationsQueue other (staff_operations_json q) = Some (bs, p, ob_campusDate q)"
  using assms(2) unfolding parseStaffOperationsQueue_def staff_operations_json_def
  by (simp add: assms(1,3) cong: read_cong) (use assms(4-6) in \<open>auto simp: hasUniqueStaffBookingIds_def intro: order_stable\<close>)

lemma read_schedule:
  assumes "all_parsed (parseStaffBooking other) (map staff_booking_json (sc_bookings q)) = Some bs"
    "\<forall>b\<in>set bs. wr_id (wf_resource b) = sc_resourceId q \<and> wf_date b = sc_date q"
    "distinct (map wf_id bs)"
    "sorted_wrt (\<lambda>a b. wf_startTime a @ '':'' @ wf_createdAt a \<le> wf_startTime b @ '':'' @ wf_createdAt b) bs"
  shows "parseStaffResourceSchedule other (staff_schedule_json q) (sc_resourceId q) (sc_date q) = Some bs"
  unfolding parseStaffResourceSchedule_def staff_schedule_json_def
  by (simp add: assms(1) cong: read_cong) (use assms(2-4) in \<open>auto simp: hasUniqueStaffBookingIds_def intro: order_stable\<close>)

lemma created_le:
  "database_made d \<Longrightarrow> a \<in> set (bookings d) \<Longrightarrow> b \<in> set (bookings d) \<Longrightarrow>
     toISOString (b_createdAt a) \<le> toISOString (b_createdAt b) \<longleftrightarrow> b_createdAt a \<le> b_createdAt b"
  by (rule iso_le_iff) (auto simp: database_made_def)

lemma start_text_length: "sound_booking b \<Longrightarrow> length (js_slice 0 5 (b_startTime b)) = 5"
  by (rule hour_pattern_length [OF booking_slot_texts(1)])

text \<open>The keys the page compares, in the order the query sorts by.\<close>

lemma schedule_key_le:
  assumes "sound_booking a" "sound_booking b" "toISOString (b_createdAt a) \<le> toISOString (b_createdAt b) \<longleftrightarrow> b_createdAt a \<le> b_createdAt b"
  shows "js_slice 0 5 (b_startTime a) @ '':'' @ toISOString (b_createdAt a) \<le>
      js_slice 0 5 (b_startTime b) @ '':'' @ toISOString (b_createdAt b) \<longleftrightarrow>
    sql_time (b_startTime a) < sql_time (b_startTime b) \<or>
    sql_time (b_startTime a) = sql_time (b_startTime b) \<and> b_createdAt a \<le> b_createdAt b"
proof -
  let ?s = "\<lambda>b. js_slice 0 5 (b_startTime b)"
  have l: "length (?s a) = length (?s b)" using assms(1,2) by (simp only: start_text_length)
  have le: "?s x \<le> ?s y \<longleftrightarrow> sql_time (b_startTime x) \<le> sql_time (b_startTime y)"
    if "sound_booking x" "sound_booking y" for x y by (rule sql_time_hours [OF that])
  have "?s a < ?s b \<longleftrightarrow> sql_time (b_startTime a) < sql_time (b_startTime b)"
    using le [OF assms(2,1)] by (simp only: not_le [symmetric])
  moreover have "?s a = ?s b \<longleftrightarrow> sql_time (b_startTime a) = sql_time (b_startTime b)"
    using le [OF assms(1,2)] le [OF assms(2,1)] by (metis order_antisym order_refl)
  moreover have "'':'' @ x \<le> '':'' @ y \<longleftrightarrow> x \<le> y" for x y :: string by simp
  ultimately show ?thesis using assms(3) by (simp only: append_le_iff [OF l])
qed

lemma operations_key_le:
  assumes "sound_booking a" "sound_booking b" "toISOString (b_createdAt a) \<le> toISOString (b_createdAt b) \<longleftrightarrow> b_createdAt a \<le> b_createdAt b"
    "operations_order a b \<le> 0"
  shows "b_date a @ '':'' @ js_slice 0 5 (b_startTime a) @ '':'' @ toISOString (b_createdAt a) \<le>
      b_date b @ '':'' @ js_slice 0 5 (b_startTime b) @ '':'' @ toISOString (b_createdAt b)"
proof -
  note d = sound_booking_times(4) [OF assms(1)] sound_booking_times(4) [OF assms(2)]
  have l: "length (b_date a) = length (b_date b)" using d by (simp add: pg_date_length)
  have e: "b_date a = b_date b \<longleftrightarrow> sql_date (b_date a) = sql_date (b_date b)" using sql_date_inj [OF d] by metis
  have c: "'':'' @ x \<le> '':'' @ y \<longleftrightarrow> x \<le> y" for x y :: string by simp
  have "sql_date (b_date a) < sql_date (b_date b) \<or> sql_date (b_date a) = sql_date (b_date b) \<and>
      (sql_time (b_startTime a) < sql_time (b_startTime b) \<or>
       sql_time (b_startTime a) = sql_time (b_startTime b) \<and> b_createdAt a \<le> b_createdAt b)"
    using assms(4) by (auto simp: operations_order_def timeline_order_def cmp_then_def cmp_by_def split: if_splits)
  then show ?thesis
    by (simp only: append_le_iff [OF l] e date_less_iff [OF d] c schedule_key_le [OF assms(1-3)])
qed

lemma booking_keys: "db_ok d \<Longrightarrow> distinct (map b_id (bookings d))"
  by (simp add: db_ok_def table_inv_def)

lemma queue_read:
  assumes "campus_ok (now, d)" "recorded d" "database_made d" "clock e = now" "page_query_valid q"
  defines "rows \<equiv> sort_cmp pending_order (filter (pending_where now) (bookings d))"
  shows "\<exists>body. findPending q e d = Inr body \<and> parseStaffBookingQueue other (staff_queue_json body) =
    Some (map web_staff_of (qb_items body), web_page_of (qb_total body) q)"
proof -
  have db: "db_ok d" and era: "campus_era now" using assms(1) by (simp_all add: campus_ok_def)
  have sound: "sound_booking b" if "b \<in> set (bookings d)" for b by (rule db_booking_sound [OF db that])
  let ?bs = "page_rows (q_page q) (q_pageSize q) rows"
  have bs: "set ?bs \<subseteq> set (bookings d)" "\<And>b. b \<in> set ?bs \<Longrightarrow> pending_where now b"
    using page_rows_set [of "q_page q" "q_pageSize q" rows] by (auto simp: rows_def)
  let ?body = "\<lparr>qb_items = map (staff_body d now) ?bs, qb_total = length rows, qb_page = q_page q,
    qb_pageSize = q_pageSize q, qb_totalPages = totalPagesFor (length rows) (q_pageSize q)\<rparr>"
  have answer: "findPending q e d = Inr ?body"
    using staff_bodies [OF db bs(1)]
    by (simp add: findPending_def findPendingForStaff_def Let_def assms(4) rows_def)
  have page: "parseStaffQueuePage (staff_queue_json ?body) (int (length (qb_items ?body))) = Some (web_page_of (length rows) q)"
    using read_page [OF assms(5), of "staff_queue_json ?body" rows] by (simp add: staff_queue_json_def)
  have "parseStaffBookingQueue other (staff_queue_json ?body) =
      Some (map (\<lambda>b. web_staff_of (staff_body d now b)) ?bs, web_page_of (length rows) q)"
  proof (rule read_queue [OF _ page])
    show "all_parsed (parseStaffBooking other) (map staff_booking_json (qb_items ?body)) =
        Some (map (\<lambda>b. web_staff_of (staff_body d now b)) ?bs)"
      using staff_views [OF assms(1-3) bs(1)] by simp
    show "\<forall>b\<in>set (map (\<lambda>b. web_staff_of (staff_body d now b)) ?bs). wf_status b = PENDING \<and> wf_canReview b"
      using bs canReview_pending [OF era sound] by (auto simp: subset_iff pending_where_def)
    show "distinct (map wf_id (map (\<lambda>b. web_staff_of (staff_body d now b)) ?bs))"
      using booking_keys [OF db] by (simp add: comp_def page_rows_distinct rows_def distinct_map_filter)
    have "sorted_wrt (\<lambda>a b. pending_order a b \<le> 0) ?bs"
      unfolding rows_def by (intro page_rows_sorted pending_queue.sorted)
    then show "sorted_wrt (\<lambda>a b. wf_createdAt a \<le> wf_createdAt b) (map (\<lambda>b. web_staff_of (staff_body d now b)) ?bs)"
      by (rule sorted_rows_mono)
        (use bs(1) in \<open>auto simp: subset_iff created_le [OF assms(3)] pending_order_def cmp_then_def cmp_by_def split: if_splits\<close>)
  qed
  with answer show ?thesis by (intro exI [of _ ?body]) (simp add: comp_def)
qed

lemma operations_read:
  assumes "campus_ok (now, d)" "recorded d" "database_made d" "clock e = now" "page_query_valid q"
  defines "rows \<equiv> sort_cmp operations_order (filter (\<lambda>b. sql_date (b_date b) \<le> sql_date (campusDateOf now) \<and>
      (b_status b = CONFIRMED \<or> b_status b = CHECKED_IN)) (bookings d))"
  shows "\<exists>body. findOperations q e d = Inr body \<and> parseStaffOperationsQueue other (staff_operations_json body) =
    Some (map web_staff_of (ob_items body), web_page_of (ob_total body) q, campusDateOf now)"
proof -
  have db: "db_ok d" and era: "campus_era now" using assms(1) by (simp_all add: campus_ok_def)
  have sound: "sound_booking b" if "b \<in> set (bookings d)" for b by (rule db_booking_sound [OF db that])
  let ?bs = "page_rows (q_page q) (q_pageSize q) rows"
  have bs: "set ?bs \<subseteq> set (bookings d)" "\<And>b. b \<in> set ?bs \<Longrightarrow> sql_date (b_date b) \<le> sql_date (campusDateOf now) \<and>
      (b_status b = CONFIRMED \<or> b_status b = CHECKED_IN)"
    using page_rows_set [of "q_page q" "q_pageSize q" rows] by (auto simp: rows_def)
  let ?body = "\<lparr>ob_items = map (staff_body d now) ?bs, ob_total = length rows, ob_page = q_page q,
    ob_pageSize = q_pageSize q, ob_totalPages = totalPagesFor (length rows) (q_pageSize q),
    ob_campusDate = campusDateOf now\<rparr>"
  have answer: "findOperations q e d = Inr ?body"
    using staff_bodies [OF db bs(1)]
    by (simp add: findOperations_def findOperationsForStaff_def Let_def assms(4) rows_def)
  have page: "parseStaffQueuePage (staff_operations_json ?body) (int (length (ob_items ?body))) = Some (web_page_of (length rows) q)"
    using read_page [OF assms(5), of "staff_operations_json ?body" rows] by (simp add: staff_operations_json_def)
  have day: "b_date b \<le> campusDateOf now" if "b \<in> set ?bs" for b
    using bs that date_le_iff [OF sound_booking_times(4) [OF sound] campus_today(1) [OF era]] by blast
  have "parseStaffOperationsQueue other (staff_operations_json ?body) =
      Some (map (\<lambda>b. web_staff_of (staff_body d now b)) ?bs, web_page_of (length rows) q, ob_campusDate ?body)"
  proof (rule read_operations [OF _ page])
    show "all_parsed (parseStaffBooking other) (map staff_booking_json (ob_items ?body)) =
        Some (map (\<lambda>b. web_staff_of (staff_body d now b)) ?bs)"
      using staff_views [OF assms(1-3) bs(1)] by simp
    show "web_isCalendarDate (ob_campusDate ?body)" using campus_today(2) [OF era] by simp
    show "\<forall>b\<in>set (map (\<lambda>b. web_staff_of (staff_body d now b)) ?bs).
        wf_date b \<le> ob_campusDate ?body \<and> (wf_status b = CONFIRMED \<or> wf_status b = CHECKED_IN)"
      using bs(2) day by auto
    show "distinct (map wf_id (map (\<lambda>b. web_staff_of (staff_body d now b)) ?bs))"
      using booking_keys [OF db] by (simp add: comp_def page_rows_distinct rows_def distinct_map_filter)
    have "sorted_wrt (\<lambda>a b. operations_order a b \<le> 0) ?bs"
      unfolding rows_def by (intro page_rows_sorted operations.sorted)
    then show "sorted_wrt (\<lambda>a b. wf_date a @ '':'' @ wf_startTime a @ '':'' @ wf_createdAt a
        \<le> wf_date b @ '':'' @ wf_startTime b @ '':'' @ wf_createdAt b) (map (\<lambda>b. web_staff_of (staff_body d now b)) ?bs)"
      by (rule sorted_rows_mono)
        (use bs(1) in \<open>auto simp: subset_iff simp del: append.simps js_slice_0
          intro!: operations_key_le sound created_le [OF assms(3)]\<close>)
  qed
  with answer show ?thesis by (intro exI [of _ ?body]) (simp add: comp_def)
qed

lemma staff_resource_id:
  assumes "db_ok d" "b \<in> set (bookings d)"
  shows "wr_id (wf_resource (web_staff_of (staff_body d now b))) = b_resourceId b"
proof -
  obtain res where "joined_resource d b = Some res" using joined_stored [OF assms] by blast
  then show ?thesis
    by (auto simp: staff_body_def staff_booking_fromEntity_def web_staff_of_def web_resource_of_def joined_resource_def
        booking_resource_fromEntity_def split: option.splits dest!: row_at_SomeD)
qed

lemma schedule_read:
  assumes "campus_ok (now, d)" "recorded d" "database_made d" "clock e = now"
    "isUUID k" "sql_uuid k = k" "pg_date date"
  shows "\<exists>body. findSchedule isUUID k date e d = Inr body \<and>
    parseStaffResourceSchedule other (staff_schedule_json body) k date = Some (map web_staff_of (sc_bookings body))"
proof -
  have db: "db_ok d" using assms(1) by (simp add: campus_ok_def)
  have sound: "sound_booking b" if "b \<in> set (bookings d)" for b by (rule db_booking_sound [OF db that])
  let ?order = "cmp_then (cmp_by (\<lambda>b. sql_time (b_startTime b))) (cmp_by b_createdAt)"
  define bs where "bs = sort_cmp ?order
    (filter (\<lambda>b. b_resourceId b = sql_uuid k \<and> sql_date (b_date b) = sql_date date) (bookings d))"
  have sub: "set bs \<subseteq> set (bookings d)" by (auto simp: bs_def)
  have date: "b_resourceId b = k \<and> b_date b = date" if "b \<in> set bs" for b
    using that sql_date_inj [OF sound_booking_times(4) [OF sound] assms(7), of b] assms(6) by (auto simp: bs_def)
  let ?body = "\<lparr>sc_resourceId = k, sc_date = date, sc_bookings = map (staff_body d now) bs\<rparr>"
  have answer: "findSchedule isUUID k date e d = Inr ?body"
    using staff_bodies [OF db sub] assms(4,5)
    by (simp add: findSchedule_def findResourceSchedule_def parse_uuid_def Let_def bs_def)
  have "parseStaffResourceSchedule other (staff_schedule_json ?body) (sc_resourceId ?body) (sc_date ?body) =
      Some (map (\<lambda>b. web_staff_of (staff_body d now b)) bs)"
  proof (rule read_schedule)
    show "all_parsed (parseStaffBooking other) (map staff_booking_json (sc_bookings ?body)) =
        Some (map (\<lambda>b. web_staff_of (staff_body d now b)) bs)"
      using staff_views [OF assms(1-3) sub] by simp
    show "\<forall>b\<in>set (map (\<lambda>b. web_staff_of (staff_body d now b)) bs).
        wr_id (wf_resource b) = sc_resourceId ?body \<and> wf_date b = sc_date ?body"
      using date sub staff_resource_id [OF db] by auto
    show "distinct (map wf_id (map (\<lambda>b. web_staff_of (staff_body d now b)) bs))"
      using booking_keys [OF db] by (simp add: comp_def bs_def distinct_map_filter)
    have "sorted_wrt (\<lambda>a b. ?order a b \<le> 0) bs" unfolding bs_def by (rule schedule.sorted)
    then show "sorted_wrt (\<lambda>a b. wf_startTime a @ '':'' @ wf_createdAt a \<le> wf_startTime b @ '':'' @ wf_createdAt b)
        (map (\<lambda>b. web_staff_of (staff_body d now b)) bs)"
      by (rule sorted_rows_mono)
        (use sub in \<open>auto simp: subset_iff sound schedule_key_le created_le [OF assms(3)] cmp_then_def cmp_by_def
          simp del: append.simps js_slice_0 split: if_splits\<close>)
  qed
  with answer show ?thesis by (intro exI [of _ ?body]) (simp add: comp_def)
qed

text \<open>C30: The staff pages read what the staff endpoints send: in every state of the system the queue of
requests, the operations queue and the schedule of a resource are answered, and the frontend's parsers,
which test each booking, the numbers of the page against the number of its rows, the statuses, the
identifiers and the order, accept the answers and give back the bookings as they were sent.\<close>

theorem web_reads_staff:
  assumes "reachable sv (now, d)" "accounts_recorded (sv_bootstrap sv)" "database_made d" "env_sound now e d"
    "page_query_valid q" "isUUID k" "sql_uuid k = k" "pg_date date"
  shows "(\<exists>body. findPending q e d = Inr body \<and> parseStaffBookingQueue other (staff_queue_json body) =
      Some (map web_staff_of (qb_items body), web_page_of (qb_total body) q)) \<and>
    (\<exists>body. findOperations q e d = Inr body \<and> parseStaffOperationsQueue other (staff_operations_json body) =
      Some (map web_staff_of (ob_items body), web_page_of (ob_total body) q, campusDateOf (clock e))) \<and>
    (\<exists>body. findSchedule isUUID k date e d = Inr body \<and>
      parseStaffResourceSchedule other (staff_schedule_json body) k date = Some (map web_staff_of (sc_bookings body)))"
proof -
  have "campus_ok (clock e, d)"
    using reachable_ok [OF assms(1)] assms(4) by (auto simp: env_sound_def intro: campus_ok_later)
  from this reachable_recorded [OF assms(1,2)] assms(3) show ?thesis
    by (intro conjI queue_read operations_read schedule_read) (use assms(5-8) in simp_all)
qed

end
