(* ===== verification/WebResources.thy ===== *)
theory WebResources
  imports WebBookings
begin

text \<open>
  The resource bodies of the service (resources/dto) as values, and the frontend's parsers of them
  (features/resources/schema.ts, features/resources/types.ts).
\<close>

section \<open>The bodies as values\<close>

definition building_json :: "building_response \<Rightarrow> js_value" where
  "building_json b = JObject
     [(''id'', JString (bo_id b)), (''code'', JString (bo_code b)), (''name'', JString (bo_name b)),
      (''address'', JString (bo_address b))]"

definition resource_json :: "resource_response \<Rightarrow> js_value" where
  "resource_json r = JObject
     [(''id'', JString (rr_id r)), (''code'', JString (rr_code r)), (''name'', JString (rr_name r)),
      (''description'', or_jnull JString (rr_description r)), (''type'', JString (resource_type_text (rr_type r))),
      (''status'', JString (resource_status_text (rr_status r))), (''capacity'', js_int (rr_capacity r)),
      (''location'', JString (rr_location r)), (''amenities'', JArray (map JString (rr_amenities r))),
      (''requiresApproval'', JBool (rr_requiresApproval r)),
      (''operatingDays'', JArray (map js_int (rr_operatingDays r))), (''opensAt'', JString (rr_opensAt r)),
      (''closesAt'', JString (rr_closesAt r)), (''building'', building_json (rr_building r)),
      (''createdAt'', js_date (rr_createdAt r)), (''updatedAt'', js_date (rr_updatedAt r))]"

definition resource_page_json :: "resource_page \<Rightarrow> js_value" where
  "resource_page_json p = JObject
     [(''items'', JArray (map resource_json (rp_items p))), (''total'', js_int (int (rp_total p))),
      (''page'', js_int (int (rp_page p))), (''pageSize'', js_int (int (rp_pageSize p))),
      (''totalPages'', js_int (int (rp_totalPages p)))]"

definition slot_json :: "slot \<Rightarrow> js_value" where
  "slot_json s = JObject [(''startTime'', JString (s_startTime s)), (''endTime'', JString (s_endTime s))]"

fun blocked_reason_text :: "blocked_reason \<Rightarrow> string" where
  "blocked_reason_text BLOCKED_MAINTENANCE = ''maintenance''"
| "blocked_reason_text BLOCKED_INACTIVE = ''inactive''"
| "blocked_reason_text BLOCKED_CLOSURE = ''closure''"
| "blocked_reason_text BLOCKED_CLOSED_DAY = ''closed_day''"

definition availability_json :: "availability_response \<Rightarrow> js_value" where
  "availability_json a = JObject
     [(''resourceId'', JString (av_resourceId a)), (''date'', JString (av_date a)),
      (''timeZone'', JString (av_timeZone a)), (''status'', JString (resource_status_text (av_status a))),
      (''operatingDays'', JArray (map js_int (av_operatingDays a))), (''opensAt'', JString (av_opensAt a)),
      (''closesAt'', JString (av_closesAt a)),
      (''blockedReason'', or_jnull (\<lambda>r. JString (blocked_reason_text r)) (av_blockedReason a)),
      (''closureReason'', or_jnull JString (av_closureReason a)),
      (''requiresApproval'', JBool (av_requiresApproval a)), (''slots'', JArray (map slot_json (av_slots a)))]"

definition closure_json :: "closure_response \<Rightarrow> js_value" where
  "closure_json c = JObject
     [(''id'', JString (cl_id c)), (''resourceId'', JString (cl_resourceId c)), (''date'', JString (cl_date c)),
      (''reason'', JString (cl_reason c)), (''createdAt'', js_date (cl_createdAt c))]"

definition conflict_summary_json :: "conflict_summary \<Rightarrow> js_value" where
  "conflict_summary_json s = JObject
     [(''id'', JString (cs_id s)), (''date'', JString (cs_date s)), (''startTime'', JString (cs_startTime s)),
      (''endTime'', JString (cs_endTime s)), (''status'', JString (booking_status_text (cs_status s)))]"

text \<open>The body of the conflict \<open>translateErrors\<close> answers with.\<close>

definition conflict_json :: "string \<Rightarrow> nat \<Rightarrow> conflict_summary list \<Rightarrow> js_value" where
  "conflict_json message n cs = JObject
     [(''code'', JString ''RESOURCE_HAS_ACTIVE_BOOKINGS''), (''message'', JString message),
      (''conflictCount'', js_int (int n)), (''conflictingBookings'', JArray (map conflict_summary_json cs))]"

section \<open>The frontend's data\<close>

record web_building =
  wb_id :: string
  wb_code :: string
  wb_name :: string
  wb_address :: string

record web_catalogue_entry =
  we_id :: string
  we_code :: string
  we_name :: string
  we_description :: "string option"
  we_type :: resource_type
  we_status :: resource_status
  we_capacity :: int
  we_location :: string
  we_amenities :: "string list"
  we_requiresApproval :: bool
  we_operatingDays :: "int list"
  we_opensAt :: string
  we_closesAt :: string
  we_building :: web_building
  we_createdAt :: string
  we_updatedAt :: string

record web_slot =
  sl_startTime :: string
  sl_endTime :: string

record web_availability =
  wa_resourceId :: string
  wa_date :: string
  wa_timeZone :: string
  wa_status :: resource_status
  wa_operatingDays :: "int list"
  wa_opensAt :: string
  wa_closesAt :: string
  wa_blockedReason :: "blocked_reason option"
  wa_closureReason :: "string option"
  wa_requiresApproval :: bool
  wa_slots :: "web_slot list"

record web_closure =
  wc_id :: string
  wc_resourceId :: string
  wc_date :: string
  wc_reason :: string
  wc_createdAt :: string

record web_conflict =
  wx_id :: string
  wx_date :: string
  wx_startTime :: string
  wx_endTime :: string
  wx_status :: booking_status

section \<open>The parsers\<close>

definition timeInMinutes :: "string \<Rightarrow> nat" where
  "timeInMinutes s = clock_minutes s"

definition blocked_reason_of_text :: "string \<Rightarrow> blocked_reason option" where
  "blocked_reason_of_text s = map_of (map (\<lambda>r. (blocked_reason_text r, r))
     [BLOCKED_MAINTENANCE, BLOCKED_INACTIVE, BLOCKED_CLOSURE, BLOCKED_CLOSED_DAY]) s"

text \<open>The operating days of a resource: one to seven different weekdays.\<close>

definition parse_operating_days :: "js_value \<Rightarrow> int list option" where
  "parse_operating_days value = do {
     rows \<leftarrow> as_array value;
     guard_that (1 \<le> length rows \<and> length rows \<le> 7);
     days \<leftarrow> all_parsed as_integer rows;
     guard_that (\<forall>n\<in>set days. 0 \<le> n \<and> n \<le> 6);
     guard_that (distinct days);
     Some days
   }"

definition parseBuilding :: "js_value \<Rightarrow> web_building option" where
  "parseBuilding value = do {
     guard_that (isRecord value);
     i \<leftarrow> as_string (js_get value ''id'');
     guard_that (uuid_pattern i);
     code \<leftarrow> as_string (js_get value ''code'');
     name \<leftarrow> as_string (js_get value ''name'');
     address \<leftarrow> as_string (js_get value ''address'');
     Some \<lparr>wb_id = i, wb_code = code, wb_name = name, wb_address = address\<rparr>
   }"

definition web_parseResource :: "(string \<Rightarrow> int option) \<Rightarrow> js_value \<Rightarrow> web_catalogue_entry option" where
  "web_parseResource other value = do {
     guard_that (isRecord value);
     building \<leftarrow> parseBuilding (js_get value ''building'');
     i \<leftarrow> as_string (js_get value ''id'');
     guard_that (uuid_pattern i);
     code \<leftarrow> as_string (js_get value ''code'');
     name \<leftarrow> as_string (js_get value ''name'');
     description \<leftarrow> nullable as_string (js_get value ''description'');
     type_text \<leftarrow> as_string (js_get value ''type'');
     type \<leftarrow> resource_type_of_text type_text;
     status_text \<leftarrow> as_string (js_get value ''status'');
     status \<leftarrow> resource_status_of_text status_text;
     capacity \<leftarrow> as_integer (js_get value ''capacity'');
     guard_that (1 \<le> capacity \<and> capacity \<le> 10000);
     loc \<leftarrow> as_string (js_get value ''location'');
     amenity_rows \<leftarrow> as_array (js_get value ''amenities'');
     amenities \<leftarrow> all_parsed as_string amenity_rows;
     approval \<leftarrow> as_bool (js_get value ''requiresApproval'');
     days \<leftarrow> parse_operating_days (js_get value ''operatingDays'');
     opensAt \<leftarrow> as_string (js_get value ''opensAt'');
     closesAt \<leftarrow> as_string (js_get value ''closesAt'');
     guard_that (hour_pattern opensAt \<and> hour_pattern closesAt \<and> opensAt < closesAt);
     createdAt \<leftarrow> as_timestamp other (js_get value ''createdAt'');
     updatedAt \<leftarrow> as_timestamp other (js_get value ''updatedAt'');
     Some \<lparr>we_id = i, we_code = code, we_name = name, we_description = description, we_type = type,
       we_status = status, we_capacity = capacity, we_location = loc, we_amenities = amenities,
       we_requiresApproval = approval, we_operatingDays = days, we_opensAt = opensAt, we_closesAt = closesAt,
       we_building = building, we_createdAt = createdAt, we_updatedAt = updatedAt\<rparr>
   }"

definition parseBuildings :: "js_value \<Rightarrow> web_building list option" where
  "parseBuildings value = do { rows \<leftarrow> as_array value; all_parsed parseBuilding rows }"

definition parseResources :: "(string \<Rightarrow> int option) \<Rightarrow> js_value \<Rightarrow> web_catalogue_entry list option" where
  "parseResources other value = do { rows \<leftarrow> as_array value; all_parsed (web_parseResource other) rows }"

definition parseAvailabilitySlot :: "js_value \<Rightarrow> web_slot option" where
  "parseAvailabilitySlot value = do {
     guard_that (isRecord value);
     startTime \<leftarrow> as_string (js_get value ''startTime'');
     endTime \<leftarrow> as_string (js_get value ''endTime'');
     guard_that (hour_pattern startTime \<and> hour_pattern endTime \<and> startTime < endTime);
     Some \<lparr>sl_startTime = startTime, sl_endTime = endTime\<rparr>
   }"

definition status_reason_consistent :: "resource_status \<Rightarrow> blocked_reason option \<Rightarrow> bool" where
  "status_reason_consistent status reason \<longleftrightarrow>
     (status = ACTIVE \<and> reason \<noteq> Some BLOCKED_MAINTENANCE \<and> reason \<noteq> Some BLOCKED_INACTIVE) \<or>
     (status = MAINTENANCE \<and> reason = Some BLOCKED_MAINTENANCE) \<or>
     (status = INACTIVE \<and> reason = Some BLOCKED_INACTIVE)"

text \<open>Each slot lasts an hour within the opening hours and starts after the one before it ends.\<close>

fun slots_in_order :: "nat \<Rightarrow> nat \<Rightarrow> web_slot option \<Rightarrow> web_slot list \<Rightarrow> bool" where
  "slots_in_order opens closes previous [] \<longleftrightarrow> True"
| "slots_in_order opens closes previous (s # ss) \<longleftrightarrow>
     timeInMinutes (sl_endTime s) = timeInMinutes (sl_startTime s) + 60 \<and>
     opens \<le> timeInMinutes (sl_startTime s) \<and> timeInMinutes (sl_endTime s) \<le> closes \<and>
     (case previous of None \<Rightarrow> True | Some p \<Rightarrow> timeInMinutes (sl_endTime p) \<le> timeInMinutes (sl_startTime s)) \<and>
     slots_in_order opens closes (Some s) ss"

definition parse_blocked_reason :: "js_value \<Rightarrow> blocked_reason option option" where
  "parse_blocked_reason value =
     nullable (\<lambda>v. Option.bind (as_string v) blocked_reason_of_text) value"

definition parseResourceAvailability :: "js_value \<Rightarrow> web_availability option" where
  "parseResourceAvailability value = do {
     guard_that (isRecord value);
     k \<leftarrow> as_string (js_get value ''resourceId'');
     guard_that (uuid_pattern k);
     date \<leftarrow> as_string (js_get value ''date'');
     guard_that (web_isCalendarDate date);
     guard_that (js_get value ''timeZone'' = JString CAMPUS_TIME_ZONE);
     status_text \<leftarrow> as_string (js_get value ''status'');
     status \<leftarrow> resource_status_of_text status_text;
     days \<leftarrow> parse_operating_days (js_get value ''operatingDays'');
     opensAt \<leftarrow> as_string (js_get value ''opensAt'');
     closesAt \<leftarrow> as_string (js_get value ''closesAt'');
     guard_that (hour_pattern opensAt \<and> hour_pattern closesAt \<and> opensAt < closesAt);
     reason \<leftarrow> parse_blocked_reason (js_get value ''blockedReason'');
     closure \<leftarrow> nullable as_string (js_get value ''closureReason'');
     guard_that (if reason = Some BLOCKED_CLOSURE then truthy_text closure else closure = None);
     approval \<leftarrow> as_bool (js_get value ''requiresApproval'');
     rows \<leftarrow> as_array (js_get value ''slots'');
     slots \<leftarrow> all_parsed parseAvailabilitySlot rows;
     guard_that (status_reason_consistent status reason);
     guard_that (reason = None \<or> slots = []);
     guard_that (slots_in_order (timeInMinutes opensAt) (timeInMinutes closesAt) None slots);
     Some \<lparr>wa_resourceId = k, wa_date = date, wa_timeZone = CAMPUS_TIME_ZONE, wa_status = status,
       wa_operatingDays = days, wa_opensAt = opensAt, wa_closesAt = closesAt, wa_blockedReason = reason,
       wa_closureReason = closure, wa_requiresApproval = approval, wa_slots = slots\<rparr>
   }"

definition parseResourceClosure :: "(string \<Rightarrow> int option) \<Rightarrow> js_value \<Rightarrow> web_closure option" where
  "parseResourceClosure other value = do {
     guard_that (isRecord value);
     i \<leftarrow> as_string (js_get value ''id'');
     k \<leftarrow> as_string (js_get value ''resourceId'');
     guard_that (uuid_pattern i \<and> uuid_pattern k);
     date \<leftarrow> as_string (js_get value ''date'');
     guard_that (web_isCalendarDate date);
     reason \<leftarrow> as_string (js_get value ''reason'');
     guard_that (2 \<le> length (js_trim reason));
     createdAt \<leftarrow> as_timestamp other (js_get value ''createdAt'');
     Some \<lparr>wc_id = i, wc_resourceId = k, wc_date = date, wc_reason = reason, wc_createdAt = createdAt\<rparr>
   }"

definition parseResourceClosures :: "(string \<Rightarrow> int option) \<Rightarrow> js_value \<Rightarrow> web_closure list option" where
  "parseResourceClosures other value = do { rows \<leftarrow> as_array value; all_parsed (parseResourceClosure other) rows }"

text \<open>The default of \<open>maxPageSize\<close> is 24.\<close>

definition parseResourcePage ::
  "(string \<Rightarrow> int option) \<Rightarrow> js_value \<Rightarrow> int \<Rightarrow> (web_catalogue_entry list \<times> web_page) option" where
  "parseResourcePage other value maxPageSize = do {
     guard_that (isRecord value);
     items \<leftarrow> parseResources other (js_get value ''items'');
     total_rows \<leftarrow> as_integer (js_get value ''total'');
     guard_that (0 \<le> total_rows);
     page \<leftarrow> as_integer (js_get value ''page'');
     guard_that (1 \<le> page);
     pageSize \<leftarrow> as_integer (js_get value ''pageSize'');
     guard_that (1 \<le> pageSize \<and> pageSize \<le> maxPageSize);
     totalPages \<leftarrow> as_integer (js_get value ''totalPages'');
     guard_that (0 \<le> totalPages \<and> totalPages = \<lceil>of_int total_rows / of_int pageSize :: rat\<rceil>);
     let offset = (page - 1) * pageSize;
     guard_that (int (length items) = (if total_rows \<le> offset then 0 else min pageSize (total_rows - offset)));
     Some (items, \<lparr>pg_total = total_rows, pg_page = page, pg_pageSize = pageSize, pg_totalPages = totalPages\<rparr>)
   }"

definition CONFLICT_STATUSES :: "booking_status list" where
  "CONFLICT_STATUSES = [PENDING, CONFIRMED, CHECKED_IN]"

definition parseResourceConflictBooking :: "js_value \<Rightarrow> web_conflict option" where
  "parseResourceConflictBooking value = do {
     guard_that (isRecord value);
     i \<leftarrow> as_string (js_get value ''id'');
     guard_that (uuid_pattern i);
     date \<leftarrow> as_string (js_get value ''date'');
     guard_that (web_isCalendarDate date);
     startTime \<leftarrow> as_string (js_get value ''startTime'');
     endTime \<leftarrow> as_string (js_get value ''endTime'');
     guard_that (clock_pattern startTime \<and> clock_pattern endTime \<and> startTime < endTime);
     status_text \<leftarrow> as_string (js_get value ''status'');
     status \<leftarrow> status_of_text status_text;
     guard_that (status \<in> set CONFLICT_STATUSES);
     Some \<lparr>wx_id = i, wx_date = date, wx_startTime = startTime, wx_endTime = endTime, wx_status = status\<rparr>
   }"

definition parseResourceBookingConflict :: "js_value \<Rightarrow> (string \<times> int \<times> web_conflict list) option" where
  "parseResourceBookingConflict value = do {
     guard_that (isRecord value);
     guard_that (js_get value ''code'' = JString ''RESOURCE_HAS_ACTIVE_BOOKINGS'');
     message \<leftarrow> as_string (js_get value ''message'');
     guard_that (js_trim message \<noteq> []);
     n \<leftarrow> as_integer (js_get value ''conflictCount'');
     guard_that (1 \<le> n);
     rows \<leftarrow> as_array (js_get value ''conflictingBookings'');
     guard_that (length rows \<le> 10 \<and> int (length rows) \<le> n);
     bookings \<leftarrow> all_parsed parseResourceConflictBooking rows;
     guard_that (distinct (map wx_id bookings));
     Some (js_trim message, n, bookings)
   }"

end
