(* ===== verification/WebResourceReads.thy ===== *)
theory WebResourceReads
  imports WebStaffReads WebResources
begin

text \<open>
  The resource pages read every body of the resource endpoints: the catalogue and its administration,
  the free hours of a day, the closures, and the conflict that lists the bookings in the way.
\<close>

section \<open>The frontend's view of a body\<close>

definition web_building_of :: "building_response \<Rightarrow> web_building" where
  "web_building_of b = \<lparr>wb_id = bo_id b, wb_code = bo_code b, wb_name = bo_name b, wb_address = bo_address b\<rparr>"

definition web_entry_of :: "resource_response \<Rightarrow> web_catalogue_entry" where
  "web_entry_of r =
     \<lparr>we_id = rr_id r, we_code = rr_code r, we_name = rr_name r, we_description = rr_description r,
      we_type = rr_type r, we_status = rr_status r, we_capacity = rr_capacity r, we_location = rr_location r,
      we_amenities = rr_amenities r, we_requiresApproval = rr_requiresApproval r,
      we_operatingDays = rr_operatingDays r, we_opensAt = rr_opensAt r, we_closesAt = rr_closesAt r,
      we_building = web_building_of (rr_building r), we_createdAt = toISOString (rr_createdAt r),
      we_updatedAt = toISOString (rr_updatedAt r)\<rparr>"

definition web_slot_of :: "slot \<Rightarrow> web_slot" where
  "web_slot_of s = \<lparr>sl_startTime = s_startTime s, sl_endTime = s_endTime s\<rparr>"

definition web_availability_of :: "availability_response \<Rightarrow> web_availability" where
  "web_availability_of a =
     \<lparr>wa_resourceId = av_resourceId a, wa_date = av_date a, wa_timeZone = av_timeZone a, wa_status = av_status a,
      wa_operatingDays = av_operatingDays a, wa_opensAt = av_opensAt a, wa_closesAt = av_closesAt a,
      wa_blockedReason = av_blockedReason a, wa_closureReason = av_closureReason a,
      wa_requiresApproval = av_requiresApproval a, wa_slots = map web_slot_of (av_slots a)\<rparr>"

definition web_closure_of :: "closure_response \<Rightarrow> web_closure" where
  "web_closure_of c = \<lparr>wc_id = cl_id c, wc_resourceId = cl_resourceId c, wc_date = cl_date c,
     wc_reason = cl_reason c, wc_createdAt = toISOString (cl_createdAt c)\<rparr>"

definition web_conflict_of :: "conflict_summary \<Rightarrow> web_conflict" where
  "web_conflict_of s = \<lparr>wx_id = cs_id s, wx_date = cs_date s, wx_startTime = cs_startTime s,
     wx_endTime = cs_endTime s, wx_status = cs_status s\<rparr>"

section \<open>Resources\<close>

lemma stored_resource:
  assumes "db_ok d" "r \<in> set (resources d)"
  shows "resource_typed r" "resource_rules r" "r_buildingId r \<in> ids bl_id (buildings d)"
  using assms by (auto simp: db_ok_def resource_ok_def dest: table_inv_ok)

text \<open>The days of a resource are different weekdays.\<close>

lemma stored_days:
  assumes "resource_rules r"
  shows "distinct (r_operatingDays r)" "\<forall>n\<in>set (r_operatingDays r). 0 \<le> n \<and> n \<le> 6"
    "1 \<le> length (r_operatingDays r)" "length (r_operatingDays r) \<le> 7"
proof -
  let ?ns = "r_operatingDays r"
  have c: "0 < length ?ns" "set ?ns \<subseteq> {0, 1, 2, 3, 4, 5, 6}" "\<forall>n\<in>{0, 1, 2, 3, 4, 5, 6}. count_list ?ns n \<le> 1"
    using assms by (simp_all add: resource_rules_def violated_check_None resource_checks_def)
  have dup: "\<exists>n\<in>set ns. 2 \<le> count_list ns n" if "\<not> distinct ns" for ns :: "int list"
    using that
  proof (induction ns)
    case (Cons a ns)
    show ?case
    proof (cases "a \<in> set ns")
      case True
      then have "count_list ns a \<noteq> 0" by (simp add: count_list_0_iff)
      then show ?thesis by (intro bexI [of _ a]) simp_all
    next
      case False
      then show ?thesis using Cons by auto
    qed
  qed simp
  show d: "distinct ?ns"
  proof (rule ccontr)
    assume "\<not> distinct ?ns"
    then obtain n where "n \<in> set ?ns" "2 \<le> count_list ?ns n" using dup by blast
    moreover have "count_list ?ns n \<le> 1" using c(2,3) \<open>n \<in> set ?ns\<close> by blast
    ultimately show False by simp
  qed
  show "\<forall>n\<in>set ?ns. 0 \<le> n \<and> n \<le> 6" using c(2) by auto
  show "1 \<le> length ?ns" using c(1) by (simp add: Suc_le_eq)
  have "length ?ns = card (set ?ns)" using d by (simp add: distinct_card)
  also have "\<dots> \<le> card {0 :: int, 1, 2, 3, 4, 5, 6}" using c(2) by (intro card_mono) simp_all
  also have "\<dots> = 7" by simp
  finally show "length ?ns \<le> 7" .
qed

lemma read_days:
  "resource_rules r \<Longrightarrow> parse_operating_days (JArray (map js_int (r_operatingDays r))) = Some (r_operatingDays r)"
  using stored_days all_parsed_map [of "r_operatingDays r" as_integer js_int id]
  by (simp add: parse_operating_days_def)

lemma opening_texts:
  assumes "resource_typed r" "resource_rules r"
  shows "hour_pattern (js_slice 0 5 (r_opensAt r))" "hour_pattern (js_slice 0 5 (r_closesAt r))"
    "js_slice 0 5 (r_opensAt r) < js_slice 0 5 (r_closesAt r)"
proof -
  obtain a b where ab: "a < 24" "b < 24" "a < b"
    "js_slice 0 5 (r_opensAt r) = hour_text a" "js_slice 0 5 (r_closesAt r) = hour_text b"
    by (rule resource_hours [OF assms])
  note p = hour_text_pattern [OF ab(1)] hour_text_pattern [OF ab(2)]
  show "hour_pattern (js_slice 0 5 (r_opensAt r))" "hour_pattern (js_slice 0 5 (r_closesAt r))"
    unfolding ab(4,5) by (rule p)+
  show "js_slice 0 5 (r_opensAt r) < js_slice 0 5 (r_closesAt r)"
    unfolding ab(4,5) clock_less_iff [OF hour_pattern_clock [OF p(1)] hour_pattern_clock [OF p(2)]]
    using ab(1-3) by (simp add: clock_minutes_hour)
qed

lemma read_building:
  "uuid_version_pattern (bl_id bl) \<Longrightarrow>
     parseBuilding (building_json (building_fromEntity bl)) = Some (web_building_of (building_fromEntity bl))"
  by (simp add: parseBuilding_def building_json_def building_fromEntity_def web_building_of_def uuid_version)

lemma read_resource:
  assumes "db_ok d" "database_made d" "r \<in> set (resources d)" "bl \<in> set (buildings d)"
  shows "web_parseResource other (resource_json (resource_fromEntity r bl)) = Some (web_entry_of (resource_fromEntity r bl))"
proof -
  note s = stored_resource [OF assms(1,3)]
  have made: "uuid_pattern (r_id r)" "iso_era (r_createdAt r)" "iso_era (r_updatedAt r)" "uuid_version_pattern (bl_id bl)"
    using assms(2-4) by (auto simp: database_made_def intro: uuid_version)
  have cap: "1 \<le> r_capacity r \<and> r_capacity r \<le> 10000"
    using s(2) by (simp add: resource_rules_def violated_check_None resource_checks_def)
  have texts: "all_parsed as_string (map JString xs) = Some xs" for xs
    using all_parsed_map [of xs as_string JString id] by simp
  show ?thesis
    unfolding web_parseResource_def resource_json_def
    using made cap opening_texts [OF s(1,2)]
    by (simp add: resource_fromEntity_def web_entry_of_def read_building read_days [OF s(2)] texts cong: read_cong)
qed

section \<open>Pages of resources\<close>

definition resource_entry :: "db \<Rightarrow> resource \<Rightarrow> resource_response" where
  "resource_entry d r = resource_fromEntity r (the (row_at bl_id (r_buildingId r) (buildings d)))"

lemma stored_building:
  assumes "db_ok d" "r \<in> set (resources d)"
  obtains bl where "row_at bl_id (r_buildingId r) (buildings d) = Some bl" "bl \<in> set (buildings d)"
proof -
  have "r_buildingId r \<in> bl_id ` set (buildings d)" using stored_resource(3) [OF assms] by (simp add: ids_def)
  then obtain bl where "row_at bl_id (r_buildingId r) (buildings d) = Some bl"
    using row_at_None [of bl_id "r_buildingId r" "buildings d"] by auto
  then show ?thesis using that by (auto dest: row_at_SomeD)
qed

lemma resource_bodies:
  assumes "db_ok d" "set rs \<subseteq> set (resources d)"
  shows "all_responses (resource_body d) rs = Inr (map (resource_entry d) rs)"
proof (rule all_responses_map)
  fix r assume "r \<in> set rs"
  then have "r \<in> set (resources d)" using assms(2) by blast
  then obtain bl where "row_at bl_id (r_buildingId r) (buildings d) = Some bl" using stored_building [OF assms(1)] by blast
  then show "resource_body d r = Inr (resource_entry d r)" by (simp add: resource_body_def resource_entry_def)
qed

lemma read_resources:
  assumes "db_ok d" "database_made d" "set rs \<subseteq> set (resources d)"
  shows "parseResources other (JArray (map resource_json (map (resource_entry d) rs))) =
    Some (map web_entry_of (map (resource_entry d) rs))"
proof -
  have "web_parseResource other (resource_json (resource_entry d r)) = Some (web_entry_of (resource_entry d r))"
    if "r \<in> set rs" for r
  proof -
    have r: "r \<in> set (resources d)" using assms(3) that by blast
    obtain bl where "row_at bl_id (r_buildingId r) (buildings d) = Some bl" "bl \<in> set (buildings d)"
      using stored_building [OF assms(1) r] .
    then show ?thesis using read_resource [OF assms(1,2) r] by (simp add: resource_entry_def)
  qed
  then show ?thesis unfolding parseResources_def map_map comp_def by (simp add: all_parsed_map)
qed

definition web_numbers_of :: "nat \<Rightarrow> nat \<Rightarrow> nat \<Rightarrow> web_page" where
  "web_numbers_of n p s = \<lparr>pg_total = int n, pg_page = int p, pg_pageSize = int s, pg_totalPages = int (totalPagesFor n s)\<rparr>"

lemma total_pages_div: "0 < s \<Longrightarrow> (n + s - 1) div s = totalPagesFor n s"
  by (cases "n = 0") (simp_all add: totalPagesFor_def)

lemma read_resource_page:
  assumes d: "db_ok d" "database_made d" and rows: "set rows \<subseteq> set (resources d)"
    and q: "1 \<le> p" "1 \<le> s" "int s \<le> k"
    and body: "resource_page_fromEntities d (page_rows p s rows) (length rows) p s = Inr page"
  shows "parseResourcePage other (resource_page_json page) k =
    Some (map web_entry_of (rp_items page), web_numbers_of (rp_total page) p s)"
proof -
  have sub: "set (page_rows p s rows) \<subseteq> set (resources d)" using rows page_rows_set by fastforce
  note r = read_resources [OF d sub, of other]
  have page: "page = \<lparr>rp_items = map (resource_entry d) (page_rows p s rows), rp_total = length rows, rp_page = p,
      rp_pageSize = s, rp_totalPages = totalPagesFor (length rows) s\<rparr>"
    using body unfolding resource_page_fromEntities_def resource_bodies [OF d(1) sub] sum.case
    using q(2) total_pages_div [of s "length rows"] by simp
  have c: "\<lceil>of_int (int (length rows)) / of_int (int s) :: rat\<rceil> = int (totalPagesFor (length rows) s)"
    using q(2) by (intro total_pages_ceiling) simp
  have n: "int (length (map web_entry_of (map (resource_entry d) (page_rows p s rows)))) =
      (if int (length rows) \<le> (int p - 1) * int s then 0 else min (int s) (int (length rows) - (int p - 1) * int s))"
    using page_rows_count [OF q(1), of s rows] by simp
  show ?thesis
    unfolding parseResourcePage_def resource_page_json_def page
    using q r c n by (simp add: web_numbers_of_def Let_def del: of_int_of_nat_eq cong: read_cong)
qed

lemma read_empty_page:
  assumes "1 \<le> p" "1 \<le> s" "int s \<le> k" "resource_page_fromEntities d [] 0 p s = Inr page"
  shows "parseResourcePage other (resource_page_json page) k = Some ([], web_numbers_of 0 p s)"
  using assms unfolding parseResourcePage_def resource_page_json_def
  by (auto simp: resource_page_fromEntities_def parseResources_def web_numbers_of_def totalPagesFor_def Let_def cong: read_cong)

section \<open>The free hours of a day\<close>

lemma hourly_web_slots:
  assumes "a \<le> l" "b \<le> 23" "\<forall>p. previous = Some p \<longrightarrow> timeInMinutes (sl_endTime p) \<le> 60 * l"
  shows "slots_in_order (60 * a) (60 * b) previous
    (map web_slot_of (filter P (map (\<lambda>h. \<lparr>s_startTime = hour_text h, s_endTime = hour_text (h + 1)\<rparr>) [l..<b])))"
  using assms
proof (induction "b - l" arbitrary: l previous)
  case (Suc n)
  then have l: "l < b" by simp
  let ?s = "\<lparr>s_startTime = hour_text l, s_endTime = hour_text (l + 1)\<rparr>"
  have m: "timeInMinutes (hour_text l) = 60 * l" "timeInMinutes (hour_text (l + 1)) = 60 * l + 60"
    using l Suc.prems(2) clock_minutes_hour [of l] clock_minutes_hour [of "l + 1"] by (simp_all add: timeInMinutes_def)
  have rest: "slots_in_order (60 * a) (60 * b) q
      (map web_slot_of (filter P (map (\<lambda>h. \<lparr>s_startTime = hour_text h, s_endTime = hour_text (h + 1)\<rparr>) [Suc l..<b])))"
    if "\<forall>p. q = Some p \<longrightarrow> timeInMinutes (sl_endTime p) \<le> 60 * Suc l" for q
    using Suc.hyps Suc.prems that by auto
  show ?case
    using l m rest [of previous] rest [of "Some (web_slot_of ?s)"] Suc.prems
    by (cases previous) (auto simp: upt_rec [of l] web_slot_of_def)
qed simp

lemma read_slots:
  assumes "\<And>s. s \<in> set ss \<Longrightarrow> \<exists>h < 23. s = \<lparr>s_startTime = hour_text h, s_endTime = hour_text (h + 1)\<rparr>"
  shows "all_parsed parseAvailabilitySlot (map slot_json ss) = Some (map web_slot_of ss)"
proof (rule all_parsed_map)
  fix s assume "s \<in> set ss"
  then obtain h where h: "h < 23" "s = \<lparr>s_startTime = hour_text h, s_endTime = hour_text (h + 1)\<rparr>" using assms by blast
  have p: "hour_pattern (hour_text h)" "hour_pattern (hour_text (h + 1))" using h(1) by (simp_all add: hour_text_pattern)
  have "hour_text h < hour_text (h + 1)"
    unfolding clock_less_iff [OF hour_pattern_clock [OF p(1)] hour_pattern_clock [OF p(2)]]
    using h(1) clock_minutes_hour [of h] clock_minutes_hour [of "h + 1"] by simp
  with p show "parseAvailabilitySlot (slot_json s) = Some (web_slot_of s)"
    by (simp add: h(2) parseAvailabilitySlot_def slot_json_def web_slot_of_def cong: read_cong)
qed

lemma read_blocked_reason [simp]:
  "parse_blocked_reason (or_jnull (\<lambda>r. JString (blocked_reason_text r)) x) = Some x"
proof (cases x)
  case (Some r)
  then show ?thesis
    by (cases r) (simp_all add: parse_blocked_reason_def nullable_def or_jnull_def blocked_reason_of_text_def)
qed (simp add: parse_blocked_reason_def nullable_def or_jnull_def)

lemma read_availability:
  assumes d: "db_ok d" "recorded d" "database_made d" and r: "r \<in> set (resources d)"
    and cl: "\<forall>c. cl = Some c \<longrightarrow> c \<in> set (closures d)" and date: "web_isCalendarDate date"
  shows "parseResourceAvailability (availability_json (availability_fromResource r date cl bs now)) =
    Some (web_availability_of (availability_fromResource r date cl bs now))"
proof -
  note s = stored_resource(1,2) [OF d(1) r]
  have k: "uuid_pattern (r_id r)" using d(3) r by (auto simp: database_made_def intro: uuid_version)
  obtain a b where ab: "a < 24" "a < b" "b \<le> 23" "js_slice 0 5 (r_opensAt r) = hour_text a"
    "js_slice 0 5 (r_closesAt r) = hour_text b" "js_number (js_slice 0 2 (r_opensAt r)) = a" "js_number (js_slice 0 2 (r_closesAt r)) = b"
    by (rule resource_hours [OF s])
  define ss where "ss = (if blockedReason r date cl = None
    then filter (slot_free date bs now) (hourlySlots (r_opensAt r) (r_closesAt r)) else [])"
  have read_ss: "all_parsed parseAvailabilitySlot (map slot_json ss) = Some (map web_slot_of ss)"
  proof (rule read_slots)
    fix s assume "s \<in> set ss"
    then have "s \<in> set (map (\<lambda>h. \<lparr>s_startTime = hour_text h, s_endTime = hour_text (h + 1)\<rparr>) [a..<b])"
      unfolding ss_def hourlySlots_def ab(6,7) by (auto split: if_splits)
    then obtain h where "h < b" "s = \<lparr>s_startTime = hour_text h, s_endTime = hour_text (h + 1)\<rparr>" by auto
    then show "\<exists>h<23. s = \<lparr>s_startTime = hour_text h, s_endTime = hour_text (h + 1)\<rparr>"
      using ab(3) by (intro exI [of _ h]) simp
  qed
  have m: "timeInMinutes (hour_text a) = 60 * a" "timeInMinutes (hour_text b) = 60 * b"
    using ab by (simp_all add: timeInMinutes_def clock_minutes_hour)
  have "slots_in_order (60 * a) (60 * b) None (map web_slot_of ss)"
  proof (cases "blockedReason r date cl = None")
    case True
    then have e: "ss = filter (slot_free date bs now)
        (map (\<lambda>h. \<lparr>s_startTime = hour_text h, s_endTime = hour_text (h + 1)\<rparr>) [a..<b])"
      by (simp only: ss_def hourlySlots_def ab(6,7) simp_thms if_True)
    show ?thesis unfolding e by (rule hourly_web_slots) (use ab in simp_all)
  next
    case False
    then have "ss = []" unfolding ss_def by (rule if_not_P)
    then show ?thesis by simp
  qed
  then have order: "slots_in_order (timeInMinutes (hour_text a)) (timeInMinutes (hour_text b)) None (map web_slot_of ss)"
    by (simp only: m)
  have "\<forall>c. cl = Some c \<longrightarrow> c_reason c \<noteq> []"
    using cl recorded_rows(3) [OF d(2)] by (fastforce simp: closure_recorded_def js_trim_def)
  then have reason: "if blockedReason r date cl = Some BLOCKED_CLOSURE then truthy_text (map_option c_reason cl) else True"
    by (auto simp: blockedReason_def truthy_text_def split: option.splits)
  have consistent: "status_reason_consistent (r_status r) (blockedReason r date cl)"
    by (cases "r_status r") (simp_all add: status_reason_consistent_def blockedReason_def)
  have empty: "blockedReason r date cl = None \<or> ss = []" by (auto simp: ss_def)
  have texts: "hour_pattern (hour_text a)" "hour_pattern (hour_text b)" "hour_text a < hour_text b"
    using opening_texts [OF s] by (simp_all only: ab(4,5))
  let ?v = "\<lparr>av_resourceId = r_id r, av_date = date, av_timeZone = CAMPUS_TIME_ZONE, av_status = r_status r,
       av_operatingDays = r_operatingDays r, av_opensAt = hour_text a, av_closesAt = hour_text b,
       av_blockedReason = blockedReason r date cl,
       av_closureReason = (if blockedReason r date cl = Some BLOCKED_CLOSURE then map_option c_reason cl else None),
       av_requiresApproval = r_requiresApproval r, av_slots = ss\<rparr>"
  have v: "availability_fromResource r date cl bs now = ?v"
    unfolding availability_fromResource_def Let_def normalizeTime_def ab(4,5) ss_def ..
  show ?thesis
    unfolding v parseResourceAvailability_def availability_json_def
    using k date texts reason consistent empty order read_ss
    by (simp add: web_availability_of_def read_days [OF s(2)] cong: read_cong)
qed

section \<open>Closures and conflicts\<close>

lemma read_closure:
  assumes "db_ok d" "recorded d" "database_made d" "c \<in> set (closures d)"
  shows "parseResourceClosure other (closure_json (closure_fromEntity c)) = Some (web_closure_of (closure_fromEntity c))"
proof -
  have ok: "closure_ok d c" using assms(1,4) by (auto simp: db_ok_def dest: table_inv_ok)
  have "c_resourceId c \<in> ids r_id (resources d)" using ok by (simp add: closure_ok_def)
  then have made: "uuid_pattern (c_id c)" "uuid_pattern (c_resourceId c)" "iso_era (c_createdAt c)"
    using assms(3,4) by (auto simp: database_made_def ids_def intro: uuid_version)
  have "web_isCalendarDate (c_date c)" "2 \<le> length (js_trim (c_reason c))"
    using recorded_rows(3) [OF assms(2,4)] ok
    by (simp_all add: closure_recorded_def web_isCalendarDate_def closure_ok_def closure_typed_def pg_date_def)
  with made show ?thesis
    by (simp add: parseResourceClosure_def closure_json_def closure_fromEntity_def web_closure_of_def cong: read_cong)
qed

lemma read_conflict:
  assumes "campus_ok (now, d)" "recorded d" "database_made d" "b \<in> set (bookings d)" "b_status b \<in> {PENDING, CONFIRMED, CHECKED_IN}"
  shows "parseResourceConflictBooking (conflict_summary_json (conflict_summary_of b)) = Some (web_conflict_of (conflict_summary_of b))"
proof -
  note f = booking_facts [OF assms(1-4)]
  note t = booking_slot_texts [OF f(1)]
  show ?thesis
    using f(3,4) t hour_pattern_clock [OF t(1)] hour_pattern_clock [OF t(2)] assms(5)
    by (simp add: parseResourceConflictBooking_def conflict_summary_json_def conflict_summary_of_def web_conflict_of_def
        normalizeTime_def CONFLICT_STATUSES_def cong: read_cong)
qed

lemma no_active_bookings_conflict:
  assumes "requireNoActiveBookings d k P message = Some err"
  obtains rows where "rows = filter (\<lambda>b. b_resourceId b = k \<and> P b) (bookings d)" "rows \<noteq> []"
    "err = ResourceHasActiveBookingsError (message (length rows)) (length rows)
       (map conflict_summary_of (take MAX_LISTED_CONFLICTS (sort_cmp conflict_order rows)))"
  using assms by (auto simp: requireNoActiveBookings_def Let_def split: if_splits)

lemma read_booking_conflict:
  assumes d: "campus_ok (now, d)" "recorded d" "database_made d"
    and c: "requireNoActiveBookings d k P message = Some (ResourceHasActiveBookingsError m n cs)"
    and P: "\<And>b. P b \<Longrightarrow> b_status b \<in> {PENDING, CONFIRMED, CHECKED_IN}"
    and m: "\<And>n. js_trim (message n) \<noteq> []"
  shows "parseResourceBookingConflict (conflict_json m n cs) = Some (js_trim m, int n, map web_conflict_of cs)"
proof -
  obtain rows where rows: "rows = filter (\<lambda>b. b_resourceId b = k \<and> P b) (bookings d)" "rows \<noteq> []"
    "ResourceHasActiveBookingsError m n cs = ResourceHasActiveBookingsError (message (length rows)) (length rows)
       (map conflict_summary_of (take MAX_LISTED_CONFLICTS (sort_cmp conflict_order rows)))"
    using c by (rule no_active_bookings_conflict)
  let ?bs = "take MAX_LISTED_CONFLICTS (sort_cmp conflict_order rows)"
  have cs: "cs = map conflict_summary_of ?bs" "n = length rows" "m = message (length rows)" using rows(3) by simp_all
  have mem: "b \<in> set (bookings d) \<and> b_status b \<in> {PENDING, CONFIRMED, CHECKED_IN}" if "b \<in> set ?bs" for b
    using in_set_takeD [OF that] P by (auto simp: rows(1))
  have db: "db_ok d" using d(1) by (simp add: campus_ok_def)
  have all: "all_parsed parseResourceConflictBooking (map conflict_summary_json cs) = Some (map web_conflict_of cs)"
    unfolding cs(1) map_map comp_def by (rule all_parsed_map, rule read_conflict [OF d]) (use mem in auto)
  have "distinct (map b_id (sort_cmp conflict_order rows))"
    using booking_keys [OF db] by (simp add: rows(1) distinct_map_filter)
  then have "distinct (map b_id ?bs)" by (simp add: take_map [symmetric] distinct_take)
  then have keys: "distinct (map wx_id (map web_conflict_of cs))"
    by (simp add: cs(1) comp_def web_conflict_of_def conflict_summary_of_def)
  have len: "length cs \<le> 10" "length cs \<le> n" "1 \<le> n"
    using rows(2) by (simp_all add: cs MAX_LISTED_CONFLICTS_def Suc_le_eq)
  show ?thesis
    unfolding parseResourceBookingConflict_def conflict_json_def
    using all keys len m by (simp add: cs(3) cong: read_cong)
qed

section \<open>The resource endpoints\<close>

text \<open>The whole endpoints: a search, the administration's catalogue, the free hours and the closures.\<close>

lemma page_numbers: "resource_page_fromEntities d rs n p s = Inr page \<Longrightarrow> rp_page page = p \<and> rp_pageSize page = s \<and> rp_total page = n"
  by (auto simp: resource_page_fromEntities_def split: sum.splits)

lemma read_discovered:
  assumes d: "db_ok d" "database_made d" and a: "resources_discover isUUID isDateString collate q e d = Inr page"
  shows "parseResourcePage other (resource_page_json page) 24 =
    Some (map web_entry_of (rp_items page), web_numbers_of (rp_total page) (rp_page page) (rp_pageSize page))"
proof -
  define nq where "nq = normalize_discover q"
  have v: "1 \<le> dq_page nq" "1 \<le> dq_pageSize nq" "int (dq_pageSize nq) \<le> 24"
    using a by (auto simp: resources_discover_def nq_def Let_def discover_query_valid_def split: if_splits)
  obtain items n where f: "discover collate nq e d = Inr (items, n)"
    "resource_page_fromEntities d items n (dq_page nq) (dq_pageSize nq) = Inr page"
    using a by (auto simp: resources_discover_def nq_def Let_def split: if_splits sum.splits)
  consider "items = []" "n = 0" | rows where "set rows \<subseteq> set (resources d)" "n = length rows"
    "items = page_rows (dq_page nq) (dq_pageSize nq) rows"
  proof -
    have "items = [] \<and> n = 0 \<or> discoverFrom collate nq d = (items, n)"
      using f(1) by (auto simp: discover_def split: option.splits if_splits)
    then show ?thesis
      using that(1) that(2) [of "sort_cmp (discover_order collate (dq_sort nq)) (filter (discover_where nq d) (resources d))"]
      by (auto simp: discoverFrom_def Let_def)
  qed
  then show ?thesis
  proof cases
    case 1
    then have p: "resource_page_fromEntities d [] 0 (dq_page nq) (dq_pageSize nq) = Inr page" using f(2) by simp
    then have "rp_items page = []" by (auto simp: resource_page_fromEntities_def)
    then show ?thesis using read_empty_page [OF v p] page_numbers [OF p] by simp
  next
    case (2 rows)
    then show ?thesis using read_resource_page [OF d 2(1) v] f(2) page_numbers [OF f(2)] by simp
  qed
qed

lemma read_catalogue_page:
  assumes d: "db_ok d" "database_made d" and a: "page_query_valid aq" "admin_findAll collate aq d = Inr page"
  shows "parseResourcePage other (resource_page_json page) 50 =
    Some (map web_entry_of (rp_items page), web_numbers_of (rp_total page) (rp_page page) (rp_pageSize page))"
proof -
  have v: "1 \<le> q_page aq" "1 \<le> q_pageSize aq" "int (q_pageSize aq) \<le> 50"
    using a(1) by (simp_all add: page_query_valid_def MAX_PAGE_SIZE_def)
  let ?rows = "sort_cmp (page_order collate) (resources d)"
  have p: "resource_page_fromEntities d (page_rows (q_page aq) (q_pageSize aq) ?rows) (length ?rows) (q_page aq) (q_pageSize aq) = Inr page"
    using a(2) by (simp add: admin_findAll_def findPage_def)
  have "set ?rows \<subseteq> set (resources d)" by simp
  from read_resource_page [OF d this v p] page_numbers [OF p] show ?thesis by simp
qed

lemma read_free_hours:
  assumes d: "db_ok d" "recorded d" "database_made d" and a: "resources_findAvailability isUUID isDateString k date e d = Inr a"
  shows "parseResourceAvailability (availability_json a) = Some (web_availability_of a)"
proof -
  obtain sn where sn: "date_pattern date" "findAvailabilitySnapshot k date d = Inr (Some sn)"
    "a = availability_fromResource (sn_resource sn) date (sn_closure sn) (sn_bookings sn) (clock e)"
    using a by (auto simp: resources_findAvailability_def parse_uuid_def split: if_splits sum.splits option.splits)
  then have "real_date date" "findResourceById k d = Some (sn_resource sn)" "sn_closure sn = find_closure_on k date d"
    by (auto simp: findAvailabilitySnapshot_def requireValidDate_def split: if_splits option.splits)
  then have "web_isCalendarDate date" "sn_resource sn \<in> set (resources d)" "\<forall>c. sn_closure sn = Some c \<longrightarrow> c \<in> set (closures d)"
    using sn(1) by (auto simp: web_isCalendarDate_def findResourceById_def find_closure_on_def dest: row_at_SomeD find_mem)
  then show ?thesis unfolding sn(3) by (intro read_availability [OF d])
qed

lemma read_listed_closures:
  assumes d: "db_ok d" "recorded d" "database_made d" and a: "admin_findClosures isUUID k d = Inr cs"
  shows "parseResourceClosures other (JArray (map closure_json cs)) = Some (map web_closure_of cs)"
proof -
  have cs: "cs = map closure_fromEntity (findClosures k d)"
    using a by (auto simp: admin_findClosures_def parse_uuid_def with_resource_def split: if_splits option.splits)
  have "set (findClosures k d) \<subseteq> set (closures d)" by (auto simp: findClosures_def)
  then have "all_parsed (parseResourceClosure other) (map closure_json cs) = Some (map web_closure_of cs)"
    unfolding cs map_map comp_def by (intro all_parsed_map read_closure [OF d]) auto
  then show ?thesis by (simp add: parseResourceClosures_def)
qed

text \<open>C31: The resource pages read what the resource endpoints send: in every state of the system whatever
page of the catalogue or of its administration, free hours of a day or list of closures is answered is
accepted by the frontend's parsers, which test every field again, the numbers of the page, that the
status agrees with the reason no hour is offered, and that the hours are single, ordered and within the
opening times; what they give back is what was sent.\<close>

theorem web_reads_resources:
  assumes "reachable sv (now, d)" "accounts_recorded (sv_bootstrap sv)" "database_made d" "env_sound now e d"
  shows "(resources_discover isUUID isDateString collate q e d = Inr page \<longrightarrow>
      parseResourcePage other (resource_page_json page) 24 =
        Some (map web_entry_of (rp_items page), web_numbers_of (rp_total page) (rp_page page) (rp_pageSize page))) \<and>
    (page_query_valid aq \<and> admin_findAll collate aq d = Inr page \<longrightarrow>
      parseResourcePage other (resource_page_json page) 50 =
        Some (map web_entry_of (rp_items page), web_numbers_of (rp_total page) (rp_page page) (rp_pageSize page))) \<and>
    (resources_findAvailability isUUID isDateString k date e d = Inr a \<longrightarrow>
      parseResourceAvailability (availability_json a) = Some (web_availability_of a)) \<and>
    (admin_findClosures isUUID k d = Inr cs \<longrightarrow>
      parseResourceClosures other (JArray (map closure_json cs)) = Some (map web_closure_of cs))"
proof -
  have db: "db_ok d" using reachable_ok [OF assms(1)] by (simp add: campus_ok_def)
  note d = db reachable_recorded [OF assms(1,2)] assms(3)
  show ?thesis
    by (intro conjI impI; (elim conjE)?)
      (rule read_discovered [OF d(1,3)] read_catalogue_page [OF d(1,3)] read_free_hours [OF d] read_listed_closures [OF d]; assumption)+
qed

text \<open>Where the conflict comes from: the guard of the three changes that could strand bookings.\<close>

lemma violations_are_query_errors:
  "resource_violation d r rows = Some err \<Longrightarrow> \<exists>code name. err = QueryFailedError code name"
  "closure_violation d c cs = Some err \<Longrightarrow> \<exists>code name. err = QueryFailedError code name"
  by (auto simp: resource_violation_def closure_violation_def split: if_splits option.splits)

lemma write_errors:
  "update_resource k f d = Inl err \<Longrightarrow> \<exists>code name. err = QueryFailedError code name"
  "insert_closure c d = Inl err \<Longrightarrow> \<exists>code name. err = QueryFailedError code name"
  by (auto simp: update_resource_def insert_closure_def map_sum_Inl_iff update_row_def insert_row_def
      split: option.splits dest: violations_are_query_errors)

lemma reload_no_conflict: "reload_resource k d \<noteq> Inl (ResourceHasActiveBookingsError m n cs)"
  by (auto simp: reload_resource_def split: option.splits)

lemma rethrow_conflict: "rethrowPersistenceError err = ResourceHasActiveBookingsError m n cs \<longleftrightarrow>
    err = ResourceHasActiveBookingsError m n cs"
  by (auto simp: rethrowPersistenceError_def)

lemma closure_error_conflict: "map_closure_error err = ResourceHasActiveBookingsError m n cs \<longleftrightarrow>
    err = ResourceHasActiveBookingsError m n cs"
  by (auto simp: map_closure_error_def)

lemma guarded_changes:
  "update_resource_details r dto e d = Inl (ResourceHasActiveBookingsError m n cs) \<Longrightarrow>
     \<exists>k P. requireNoActiveBookings d k P update_message = Some (ResourceHasActiveBookingsError m n cs) \<and>
       (\<forall>b. P b \<longrightarrow> b_status b \<in> {PENDING, CONFIRMED, CHECKED_IN})"
  "updateStatus_resource r st e d = Inl (ResourceHasActiveBookingsError m n cs) \<Longrightarrow>
     \<exists>k P. requireNoActiveBookings d k P (status_message st) = Some (ResourceHasActiveBookingsError m n cs) \<and>
       (\<forall>b. P b \<longrightarrow> b_status b \<in> {PENDING, CONFIRMED, CHECKED_IN})"
  "createClosure k cdto e d = Inl (ResourceHasActiveBookingsError m n cs) \<Longrightarrow>
     \<exists>k P. requireNoActiveBookings d k P (closure_message (cc_date cdto)) = Some (ResourceHasActiveBookingsError m n cs) \<and>
       (\<forall>b. P b \<longrightarrow> b_status b \<in> {PENDING, CONFIRMED, CHECKED_IN})"
proof -
  assume "update_resource_details r dto e d = Inl (ResourceHasActiveBookingsError m n cs)"
  then obtain locked where l: "update_resource_locked locked dto e d = Inl (ResourceHasActiveBookingsError m n cs)"
    by (auto simp: update_resource_details_def requireBuilding_def rethrow_conflict split: option.splits if_splits sum.splits)
  have w: "write_changes dto j e d \<noteq> Inl (ResourceHasActiveBookingsError m n cs)" for j
    by (auto simp: write_changes_def dest: write_errors(1))
  obtain s where "requireNoActiveBookings d (r_id locked)
      (\<lambda>b. reviewable_status (b_status b) \<and> ends_after_now (clock e) b \<and> outside_schedule s b) update_message =
      Some (ResourceHasActiveBookingsError m n cs)"
    using l w by (auto simp: update_resource_locked_def requireValidOperatingHours_def reload_no_conflict
        split: option.splits if_splits sum.splits)
  then show "\<exists>k P. requireNoActiveBookings d k P update_message = Some (ResourceHasActiveBookingsError m n cs) \<and>
       (\<forall>b. P b \<longrightarrow> b_status b \<in> {PENDING, CONFIRMED, CHECKED_IN})"
    by (auto simp: reviewable_status_def intro!: exI)
next
  assume a: "updateStatus_resource r st e d = Inl (ResourceHasActiveBookingsError m n cs)"
  have w: "update_resource k f d \<noteq> Inl (ResourceHasActiveBookingsError m n cs)" for k f by (auto dest: write_errors(1))
  obtain locked :: resource where "requireNoActiveBookings d (r_id locked)
      (\<lambda>b. reviewable_status (b_status b) \<and> ends_after_now (clock e) b \<or> b_status b = CHECKED_IN) (status_message st) =
      Some (ResourceHasActiveBookingsError m n cs)"
    using a w by (auto simp: updateStatus_resource_def map_sum_Inl_iff reload_no_conflict split: option.splits if_splits sum.splits)
  then show "\<exists>k P. requireNoActiveBookings d k P (status_message st) = Some (ResourceHasActiveBookingsError m n cs) \<and>
       (\<forall>b. P b \<longrightarrow> b_status b \<in> {PENDING, CONFIRMED, CHECKED_IN})"
    by (auto simp: reviewable_status_def intro!: exI)
next
  assume a: "createClosure k cdto e d = Inl (ResourceHasActiveBookingsError m n cs)"
  have w: "insert_closure c d \<noteq> Inl (ResourceHasActiveBookingsError m n cs)" for c by (auto dest: write_errors(2))
  have "requireNoActiveBookings d (sql_uuid k)
      (\<lambda>b. sql_date (b_date b) = sql_date (cc_date cdto) \<and> blocking_status (b_status b) \<and> ends_after_now (clock e) b)
      (closure_message (cc_date cdto)) = Some (ResourceHasActiveBookingsError m n cs)"
    using a w by (auto simp: createClosure_def requireValidDate_def closure_error_conflict Let_def
        split: option.splits if_splits sum.splits)
  then show "\<exists>k P. requireNoActiveBookings d k P (closure_message (cc_date cdto)) = Some (ResourceHasActiveBookingsError m n cs) \<and>
       (\<forall>b. P b \<longrightarrow> b_status b \<in> {PENDING, CONFIRMED, CHECKED_IN})"
    by (auto simp: blocking_status_def reviewable_status_def intro!: exI)
qed

lemma message_texts:
  "js_trim (update_message n) = update_message n" "js_trim (status_message st n) = status_message st n"
  "js_trim (closure_message date n) = closure_message date n"
  "update_message n \<noteq> []" "status_message st n \<noteq> []" "closure_message date n \<noteq> []"
  by (rule js_trim_fixed, simp add: update_message_def is_space_def)
    (rule js_trim_fixed, simp add: status_message_def is_space_def,
     rule js_trim_fixed, simp add: closure_message_def is_space_def,
     simp_all add: update_message_def status_message_def closure_message_def)

text \<open>The conflict an administrator gets reaches the page: whenever a change of a schedule, of a status or
a closure is refused because of active bookings, the frontend's parser of the refusal accepts its body,
with the message, the number of bookings in the way and the first ten of them, each still pending,
confirmed or checked in.\<close>

lemma web_reads_conflicts:
  assumes "reachable sv (now, d)" "accounts_recorded (sv_bootstrap sv)" "database_made d" "env_sound now e d"
    "admin_update isUUID k dto e d = Inl (ActiveBookingsConflict m n cs) \<or>
     admin_updateStatus isUUID k st e d = Inl (ActiveBookingsConflict m n cs) \<or>
     admin_createClosure isUUID isDateString k cdto e d = Inl (ActiveBookingsConflict m n cs)"
  shows "parseResourceBookingConflict (conflict_json m n cs) = Some (m, int n, map web_conflict_of cs) \<and>
    length cs = min n 10 \<and> n \<noteq> 0"
proof -
  have ok: "campus_ok (now, d)" by (rule reachable_ok [OF assms(1)])
  note rec = reachable_recorded [OF assms(1,2)] and made = assms(3)
  have t: "translateErrors err = ActiveBookingsConflict m n cs \<longleftrightarrow> err = ResourceHasActiveBookingsError m n cs" for err
    by (auto simp: translateErrors_def split: app_error.splits)
  have answers: "answer_resource body r = Inl (ActiveBookingsConflict m n cs) \<longrightarrow>
      r = Inl (ResourceHasActiveBookingsError m n cs)" if "\<And>d x. body d x \<noteq> Inl (ActiveBookingsConflict m n cs)"
    for body :: "db \<Rightarrow> 'x \<Rightarrow> 'y response" and r
    using that by (auto simp: answer_resource_def t split: sum.splits)
  have b1: "resource_body d r \<noteq> Inl (ActiveBookingsConflict m n cs)" for d r
    by (simp add: resource_body_def missing_relation_def split: option.splits)
  have "\<exists>k P message. requireNoActiveBookings d k P message = Some (ResourceHasActiveBookingsError m n cs) \<and>
      (\<forall>b. P b \<longrightarrow> b_status b \<in> {PENDING, CONFIRMED, CHECKED_IN}) \<and> (\<forall>n. js_trim (message n) = message n \<and> message n \<noteq> [])"
    using assms(5)
  proof (elim disjE)
    assume "admin_update isUUID k dto e d = Inl (ActiveBookingsConflict m n cs)"
    then obtain r dto' where "update_resource_details r dto' e d = Inl (ResourceHasActiveBookingsError m n cs)"
      using answers [of resource_body] b1
      by (auto simp: admin_update_def parse_uuid_def with_resource_def Let_def split: if_splits option.splits)
    from guarded_changes(1) [OF this] show ?thesis using message_texts by blast
  next
    assume "admin_updateStatus isUUID k st e d = Inl (ActiveBookingsConflict m n cs)"
    then obtain r where "updateStatus_resource r st e d = Inl (ResourceHasActiveBookingsError m n cs)"
      using answers [of resource_body] b1
      by (auto simp: admin_updateStatus_def parse_uuid_def with_resource_def split: if_splits option.splits)
    from guarded_changes(2) [OF this] show ?thesis using message_texts by blast
  next
    assume "admin_createClosure isUUID isDateString k cdto e d = Inl (ActiveBookingsConflict m n cs)"
    then obtain cdto' where "createClosure k cdto' e d = Inl (ResourceHasActiveBookingsError m n cs)"
      using answers [of "\<lambda>d' c. Inr (closure_fromEntity c)"]
      by (auto simp: admin_createClosure_def parse_uuid_def with_resource_def Let_def split: if_splits option.splits)
    from guarded_changes(3) [OF this] show ?thesis using message_texts by blast
  qed
  then obtain j P message where c: "requireNoActiveBookings d j P message = Some (ResourceHasActiveBookingsError m n cs)"
    "\<And>b. P b \<Longrightarrow> b_status b \<in> {PENDING, CONFIRMED, CHECKED_IN}" "\<And>n. js_trim (message n) = message n" "\<And>n. message n \<noteq> []"
    by blast
  obtain rows where rows: "rows \<noteq> []" "ResourceHasActiveBookingsError m n cs = ResourceHasActiveBookingsError (message (length rows)) (length rows)
       (map conflict_summary_of (take MAX_LISTED_CONFLICTS (sort_cmp conflict_order rows)))"
    using c(1) by (rule no_active_bookings_conflict)
  have "parseResourceBookingConflict (conflict_json m n cs) = Some (js_trim m, int n, map web_conflict_of cs)"
    by (rule read_booking_conflict [OF ok rec made c(1)]) (use c in simp_all)
  then show ?thesis using rows c(3) by (simp add: MAX_LISTED_CONFLICTS_def min.commute)
qed

end
