(* ===== verification/WebAccounts.thy ===== *)
theory WebAccounts
  imports WebBookings Analytics
begin

text \<open>
  The bodies about accounts and the analytics summary as values, and the frontend's parsers of them
  (features/auth/schema.ts, features/users/schema.ts, features/analytics/schema.ts).
\<close>

section \<open>The bodies as values\<close>

definition user_json :: "user_response \<Rightarrow> js_value" where
  "user_json u = JObject
     [(''id'', JString (us_id u)), (''email'', JString (us_email u)), (''fullName'', JString (us_fullName u)),
      (''role'', JString (user_role_text (us_role u))), (''createdAt'', js_date (us_createdAt u))]"

definition admin_user_json :: "admin_user_response \<Rightarrow> js_value" where
  "admin_user_json u = JObject
     [(''id'', JString (ar_id u)), (''email'', JString (ar_email u)), (''fullName'', JString (ar_fullName u)),
      (''role'', JString (user_role_text (ar_role u))), (''isActive'', JBool (ar_isActive u)),
      (''createdAt'', js_date (ar_createdAt u)), (''updatedAt'', js_date (ar_updatedAt u))]"

definition admin_user_page_json :: "admin_user_page \<Rightarrow> js_value" where
  "admin_user_page_json p = JObject
     [(''items'', JArray (map admin_user_json (ap_items p))), (''total'', js_int (int (ap_total p))),
      (''page'', js_int (int (ap_page p))), (''pageSize'', js_int (int (ap_pageSize p))),
      (''totalPages'', js_int (int (ap_totalPages p)))]"

text \<open>The explanation sent with the figures; its typographic apostrophe is the plain one here.\<close>

definition DEFINITION :: string where
  "DEFINITION = ''Bookings are grouped by scheduled campus date. Total and status figures include every request. Popular resources and peak hours include pending or accepted requests, including no-shows; cancelled and rejected requests are excluded. Scheduled utilization includes pending through completed bookings for resources in the current active catalog; cancelled, rejected, and no-show requests are excluded. Capacity uses those resources' current configured operating days and hours from their creation date, less full-day closures.''"

definition status_json :: "booking_status \<times> nat \<times> rat \<Rightarrow> js_value" where
  "status_json s = (case s of (st, n, p) \<Rightarrow> JObject
     [(''status'', JString (booking_status_text st)), (''count'', js_int (int n)), (''percentage'', JNumber p)])"

definition popular_json :: "popular_row \<Rightarrow> js_value" where
  "popular_json p = JObject
     [(''id'', JString (po_id p)), (''code'', JString (po_code p)), (''name'', JString (po_name p)),
      (''building'', JString (po_building p)), (''bookingCount'', js_int (int (po_bookingCount p))),
      (''bookedHours'', JNumber (po_bookedHours p))]"

definition peak_json :: "int \<times> string \<times> nat \<Rightarrow> js_value" where
  "peak_json p = (case p of (h, label, n) \<Rightarrow> JObject
     [(''hour'', js_int h), (''label'', JString label), (''bookingCount'', js_int (int n))])"

definition summary_json :: "analytics_summary \<Rightarrow> js_value" where
  "summary_json a = JObject
     [(''from'', JString (an_from a)), (''to'', JString (an_to a)), (''timeZone'', JString (an_timeZone a)),
      (''totalBookings'', js_int (int (an_totalBookings a))),
      (''cancelledBookings'', js_int (int (an_cancelledBookings a))),
      (''cancellationRate'', JNumber (an_cancellationRate a)), (''scheduledHours'', JNumber (an_scheduledHours a)),
      (''capacityHours'', js_int (an_capacityHours a)), (''utilizationRate'', or_jnull JNumber (an_utilizationRate a)),
      (''resourcesRepresented'', js_int (int (an_resourcesRepresented a))),
      (''statuses'', JArray (map status_json (an_statuses a))),
      (''popularResources'', JArray (map popular_json (an_popularResources a))),
      (''peakHours'', JArray (map peak_json (an_peakHours a))), (''definition'', JString DEFINITION)]"

section \<open>Accounts\<close>

record web_user =
  wu_id :: string
  wu_email :: string
  wu_fullName :: string
  wu_role :: user_role
  wu_createdAt :: string

record web_admin_user =
  wm_id :: string
  wm_email :: string
  wm_fullName :: string
  wm_role :: user_role
  wm_isActive :: bool
  wm_createdAt :: string
  wm_updatedAt :: string

text \<open>\<open>/^[^\s@]+@usth\.edu\.vn$/i\<close> of the trimmed text.\<close>

definition isUsthEmail :: "string \<Rightarrow> bool" where
  "isUsthEmail value \<longleftrightarrow>
     (let s = js_trim value; n = length s - length ''@usth.edu.vn'' in
      length ''@usth.edu.vn'' < length s \<and> js_lower (drop n s) = ''@usth.edu.vn'' \<and>
      (\<forall>c\<in>set (take n s). \<not> is_space c \<and> c \<noteq> CHR ''@''))"

definition getUtf8ByteLength :: "string \<Rightarrow> nat" where
  "getUtf8ByteLength s = utf8_bytes s"

definition isValidRegistrationPassword :: "string \<Rightarrow> bool" where
  "isValidRegistrationPassword s \<longleftrightarrow> 8 \<le> length s \<and> getUtf8ByteLength s \<le> 72"

definition parseUser :: "(string \<Rightarrow> int option) \<Rightarrow> js_value \<Rightarrow> web_user option" where
  "parseUser other value = do {
     guard_that (isRecord value);
     i \<leftarrow> as_string (js_get value ''id'');
     guard_that (uuid_version_pattern i);
     email \<leftarrow> as_string (js_get value ''email'');
     guard_that (isUsthEmail email);
     fullName \<leftarrow> as_string (js_get value ''fullName'');
     guard_that (js_trim fullName \<noteq> []);
     role_text \<leftarrow> as_string (js_get value ''role'');
     role \<leftarrow> role_of_text role_text;
     createdAt \<leftarrow> as_timestamp other (js_get value ''createdAt'');
     Some \<lparr>wu_id = i, wu_email = email, wu_fullName = fullName, wu_role = role, wu_createdAt = createdAt\<rparr>
   }"

definition parseAdminUser :: "(string \<Rightarrow> int option) \<Rightarrow> js_value \<Rightarrow> web_admin_user option" where
  "parseAdminUser other value = do {
     guard_that (isRecord value \<and> \<not> has_key value ''passwordHash'');
     i \<leftarrow> as_string (js_get value ''id'');
     guard_that (uuid_version_pattern i);
     email \<leftarrow> as_string (js_get value ''email'');
     guard_that (isUsthEmail email);
     fullName \<leftarrow> as_string (js_get value ''fullName'');
     guard_that (js_trim fullName \<noteq> []);
     role_text \<leftarrow> as_string (js_get value ''role'');
     role \<leftarrow> role_of_text role_text;
     active \<leftarrow> as_bool (js_get value ''isActive'');
     createdAt \<leftarrow> as_timestamp other (js_get value ''createdAt'');
     updatedAt \<leftarrow> as_timestamp other (js_get value ''updatedAt'');
     guard_that (\<not> earlier (date_parse other updatedAt) (date_parse other createdAt));
     Some \<lparr>wm_id = i, wm_email = email, wm_fullName = fullName, wm_role = role, wm_isActive = active,
       wm_createdAt = createdAt, wm_updatedAt = updatedAt\<rparr>
   }"

text \<open>Two neighbours of the page are out of order; a difference with \<open>NaN\<close> is neither negative nor zero.\<close>

definition out_of_order :: "(string \<Rightarrow> int option) \<Rightarrow> web_admin_user \<Rightarrow> web_admin_user \<Rightarrow> bool" where
  "out_of_order other previous user \<longleftrightarrow>
     (case (date_parse other (wm_createdAt previous), date_parse other (wm_createdAt user)) of
        (Some a, Some b) \<Rightarrow> a < b \<or> (a = b \<and> wm_id user < wm_id previous)
      | _ \<Rightarrow> False)"

fun users_in_order :: "(string \<Rightarrow> int option) \<Rightarrow> web_admin_user list \<Rightarrow> bool" where
  "users_in_order other (a # b # us) \<longleftrightarrow> \<not> out_of_order other a b \<and> users_in_order other (b # us)"
| "users_in_order other us \<longleftrightarrow> True"

definition parseAdminUserPage :: "(string \<Rightarrow> int option) \<Rightarrow> js_value \<Rightarrow> (web_admin_user list \<times> web_page) option" where
  "parseAdminUserPage other value = do {
     guard_that (isRecord value);
     rows \<leftarrow> as_array (js_get value ''items'');
     items \<leftarrow> all_parsed (parseAdminUser other) rows;
     total_rows \<leftarrow> as_integer (js_get value ''total'');
     guard_that (0 \<le> total_rows);
     page \<leftarrow> as_integer (js_get value ''page'');
     guard_that (1 \<le> page);
     pageSize \<leftarrow> as_integer (js_get value ''pageSize'');
     guard_that (1 \<le> pageSize \<and> pageSize \<le> 50);
     totalPages \<leftarrow> as_integer (js_get value ''totalPages'');
     guard_that (totalPages = \<lceil>of_int total_rows / of_int pageSize :: rat\<rceil>);
     let offset = (page - 1) * pageSize;
     guard_that (int (length items) = (if total_rows \<le> offset then 0 else min pageSize (total_rows - offset)));
     guard_that (distinct (map wm_id items));
     guard_that (users_in_order other items);
     Some (items, \<lparr>pg_total = total_rows, pg_page = page, pg_pageSize = pageSize, pg_totalPages = totalPages\<rparr>)
   }"

section \<open>The analytics summary\<close>

record web_popular =
  wo_id :: string
  wo_code :: string
  wo_name :: string
  wo_building :: string
  wo_bookingCount :: int
  wo_bookedHours :: int

record web_summary =
  wy_from :: string
  wy_to :: string
  wy_totalBookings :: int
  wy_cancelledBookings :: int
  wy_cancellationRate :: rat
  wy_scheduledHours :: int
  wy_capacityHours :: int
  wy_utilizationRate :: "rat option"
  wy_resourcesRepresented :: int
  wy_statuses :: "(booking_status \<times> int \<times> rat) list"
  wy_popularResources :: "web_popular list"
  wy_peakHours :: "(int \<times> string \<times> int) list"
  wy_definition :: string

definition as_count :: "js_value \<Rightarrow> int option" where
  "as_count v = (case as_integer v of None \<Rightarrow> None | Some n \<Rightarrow> if 0 \<le> n then Some n else None)"

definition as_rate :: "js_value \<Rightarrow> rat option" where
  "as_rate v = (case as_number v of None \<Rightarrow> None | Some x \<Rightarrow> if 0 \<le> x \<and> x \<le> 100 then Some x else None)"

definition as_nonNegative :: "js_value \<Rightarrow> rat option" where
  "as_nonNegative v = (case as_number v of None \<Rightarrow> None | Some x \<Rightarrow> if 0 \<le> x then Some x else None)"

definition web_percentage :: "int \<Rightarrow> int \<Rightarrow> rat" where
  "web_percentage numerator denominator =
     (if denominator = 0 then 0
      else of_int \<lfloor>of_int numerator / of_int denominator * 1000 + 1 / 2 :: rat\<rfloor> / 10)"

text \<open>The day is read as its first instant and printed again.\<close>

definition validDate :: "string \<Rightarrow> bool" where
  "validDate s \<longleftrightarrow> date_pattern s \<and>
     (case date_numbers s of
        Some (year, month, day) \<Rightarrow> 1 \<le> month \<and> month \<le> 12 \<and> 1 \<le> day \<and> day \<le> 31 \<and>
          js_slice 0 10 (toISOString (make_day year (month - 1) day * 86400000)) = s
      | None \<Rightarrow> False)"

definition parseStatus :: "js_value \<Rightarrow> (booking_status \<times> int \<times> rat) option" where
  "parseStatus value = do {
     guard_that (isRecord value);
     status_text \<leftarrow> as_string (js_get value ''status'');
     status \<leftarrow> status_of_text status_text;
     n \<leftarrow> as_count (js_get value ''count'');
     share \<leftarrow> as_rate (js_get value ''percentage'');
     Some (status, n, share)
   }"

definition parsePopular :: "js_value \<Rightarrow> web_popular option" where
  "parsePopular value = do {
     guard_that (isRecord value);
     i \<leftarrow> as_string (js_get value ''id'');
     guard_that (uuid_version_pattern i);
     code \<leftarrow> as_string (js_get value ''code'');
     name \<leftarrow> as_string (js_get value ''name'');
     building \<leftarrow> as_string (js_get value ''building'');
     guard_that (code \<noteq> [] \<and> name \<noteq> [] \<and> building \<noteq> []);
     n \<leftarrow> as_count (js_get value ''bookingCount'');
     hours \<leftarrow> as_count (js_get value ''bookedHours'');
     guard_that (0 < n \<and> 0 < hours);
     Some \<lparr>wo_id = i, wo_code = code, wo_name = name, wo_building = building, wo_bookingCount = n, wo_bookedHours = hours\<rparr>
   }"

definition parsePeak :: "js_value \<Rightarrow> (int \<times> string \<times> int) option" where
  "parsePeak value = do {
     guard_that (isRecord value);
     hour \<leftarrow> as_count (js_get value ''hour'');
     guard_that (hour \<le> 22);
     label \<leftarrow> as_string (js_get value ''label'');
     guard_that (label = pad_start 2 CHR ''0'' (js_string (nat hour)) @ '':00'');
     n \<leftarrow> as_count (js_get value ''bookingCount'');
     guard_that (0 < n);
     Some (hour, label, n)
   }"

text \<open>Each element but the first compared with the one before it.\<close>

fun all_neighbours :: "('a \<Rightarrow> 'a \<Rightarrow> bool) \<Rightarrow> 'a list \<Rightarrow> bool" where
  "all_neighbours P (a # b # xs) \<longleftrightarrow> P a b \<and> all_neighbours P (b # xs)"
| "all_neighbours P xs \<longleftrightarrow> True"

definition summary_lists_refused ::
  "int \<Rightarrow> int \<Rightarrow> int \<Rightarrow> (booking_status \<times> int \<times> rat) list \<Rightarrow> web_popular list \<Rightarrow>
     (int \<times> string \<times> int) list \<Rightarrow> bool" where
  "summary_lists_refused totalBookings cancelledBookings represented statuses popular peaks \<longleftrightarrow>
     map fst statuses \<noteq> STATUS_ORDER \<or>
     sum_list (map (\<lambda>(st, n, p). n) statuses) \<noteq> totalBookings \<or>
     (\<exists>(st, n, p)\<in>set statuses. p \<noteq> web_percentage n totalBookings) \<or>
     (case map_of statuses CANCELLED of Some (n, p) \<Rightarrow> n \<noteq> cancelledBookings | None \<Rightarrow> True) \<or>
     5 < length popular \<or> \<not> distinct (map wo_id popular) \<or> \<not> distinct (map wo_code popular) \<or>
     int (length popular) \<noteq> min represented 5 \<or>
     totalBookings < sum_list (map wo_bookingCount popular) \<or>
     (\<exists>r\<in>set popular. totalBookings < wo_bookingCount r) \<or>
     \<not> all_neighbours (\<lambda>a b. wo_bookingCount b \<le> wo_bookingCount a) popular \<or>
     \<not> all_neighbours (\<lambda>a b. fst a < fst b) peaks \<or>
     (\<exists>(h, label, n)\<in>set peaks. totalBookings < n)"

definition parseAnalyticsSummary :: "js_value \<Rightarrow> web_summary option" where
  "parseAnalyticsSummary value = do {
     guard_that (isRecord value);
     from_date \<leftarrow> as_string (js_get value ''from'');
     to_date \<leftarrow> as_string (js_get value ''to'');
     guard_that (validDate from_date \<and> validDate to_date \<and> from_date \<le> to_date);
     guard_that (js_get value ''timeZone'' = JString CAMPUS_TIME_ZONE);
     totalBookings \<leftarrow> as_count (js_get value ''totalBookings'');
     cancelledBookings \<leftarrow> as_count (js_get value ''cancelledBookings'');
     guard_that (cancelledBookings \<le> totalBookings);
     cancellationRate \<leftarrow> as_rate (js_get value ''cancellationRate'');
     guard_that (cancellationRate = web_percentage cancelledBookings totalBookings);
     scheduledHours \<leftarrow> as_count (js_get value ''scheduledHours'');
     capacityHours \<leftarrow> as_count (js_get value ''capacityHours'');
     utilizationRate \<leftarrow> nullable as_nonNegative (js_get value ''utilizationRate'');
     guard_that (if capacityHours = 0 then scheduledHours = 0 \<and> utilizationRate = None
       else utilizationRate = Some (web_percentage scheduledHours capacityHours));
     represented \<leftarrow> as_count (js_get value ''resourcesRepresented'');
     guard_that (represented \<le> totalBookings);
     status_rows \<leftarrow> as_array (js_get value ''statuses'');
     popular_rows \<leftarrow> as_array (js_get value ''popularResources'');
     peak_rows \<leftarrow> as_array (js_get value ''peakHours'');
     explanation \<leftarrow> as_string (js_get value ''definition'');
     guard_that (40 \<le> length explanation);
     statuses \<leftarrow> all_parsed parseStatus status_rows;
     popular \<leftarrow> all_parsed parsePopular popular_rows;
     peaks \<leftarrow> all_parsed parsePeak peak_rows;
     guard_that (\<not> summary_lists_refused totalBookings cancelledBookings represented statuses popular peaks);
     Some \<lparr>wy_from = from_date, wy_to = to_date, wy_totalBookings = totalBookings,
       wy_cancelledBookings = cancelledBookings, wy_cancellationRate = cancellationRate,
       wy_scheduledHours = scheduledHours, wy_capacityHours = capacityHours, wy_utilizationRate = utilizationRate,
       wy_resourcesRepresented = represented, wy_statuses = statuses, wy_popularResources = popular,
       wy_peakHours = peaks, wy_definition = explanation\<rparr>
   }"

end
