(* ===== verification/WebAccountReads.thy ===== *)
theory WebAccountReads
  imports WebResourceReads WebAccounts AnalyticsProps
begin

text \<open>
  The account pages read every account the service sends, and the analytics page reads every summary
  but one kind: the parser refuses a summary of a range without capacity in which hours were booked.
\<close>

section \<open>The frontend's view of a body\<close>

definition web_user_of :: "user_response \<Rightarrow> web_user" where
  "web_user_of u = \<lparr>wu_id = us_id u, wu_email = us_email u, wu_fullName = us_fullName u, wu_role = us_role u,
     wu_createdAt = toISOString (us_createdAt u)\<rparr>"

definition web_admin_user_of :: "admin_user_response \<Rightarrow> web_admin_user" where
  "web_admin_user_of u = \<lparr>wm_id = ar_id u, wm_email = ar_email u, wm_fullName = ar_fullName u, wm_role = ar_role u,
     wm_isActive = ar_isActive u, wm_createdAt = toISOString (ar_createdAt u), wm_updatedAt = toISOString (ar_updatedAt u)\<rparr>"

section \<open>Accounts\<close>

lemma campus_address_usth:
  assumes "campus_address s"
  shows "isUsthEmail s"
proof -
  obtain w where w: "s = w @ ''@usth.edu.vn''" "w \<noteq> []" "CHR ''@'' \<notin> set w" "\<forall>c\<in>set w. \<not> is_space c"
    using assms by (rule campus_address_text)
  have "\<not> is_space (hd s)" "\<not> is_space (last s)" using w by (simp_all add: is_space_def)
  then have t: "js_trim s = s" using js_trim_fixed by blast
  have "length s = length w + 12" by (simp add: w(1))
  moreover have "take (length w) s = w" "drop (length w) s = ''@usth.edu.vn''" by (simp_all add: w(1))
  moreover have "js_lower ''@usth.edu.vn'' = ''@usth.edu.vn''" by code_simp
  ultimately show ?thesis using w(2-4) by (auto simp: isUsthEmail_def t Let_def)
qed

lemma account_facts:
  assumes "recorded d" "database_made d" "u \<in> set (users d)"
  shows "isUsthEmail (u_email u)" "js_trim (u_fullName u) \<noteq> []" "uuid_version_pattern (u_id u)"
    "iso_era (u_createdAt u)" "iso_era (u_updatedAt u)" "u_createdAt u \<le> u_updatedAt u"
  using recorded_rows(2) [OF assms(1,3)] assms(2,3)
  by (simp_all add: user_recorded_def database_made_def campus_address_usth)

lemma read_user:
  assumes "recorded d" "database_made d" "u \<in> set (users d)"
  shows "parseUser other (user_json (user_response_fromEntity u)) = Some (web_user_of (user_response_fromEntity u))"
  using account_facts [OF assms]
  by (simp add: parseUser_def user_json_def user_response_fromEntity_def web_user_of_def cong: read_cong)

lemma read_admin_user:
  assumes "recorded d" "database_made d" "u \<in> set (users d)"
  shows "parseAdminUser other (admin_user_json (admin_user_fromEntity u)) = Some (web_admin_user_of (admin_user_fromEntity u))"
  using account_facts [OF assms]
  by (simp add: parseAdminUser_def admin_user_json_def admin_user_fromEntity_def web_admin_user_of_def has_key_def
      earlier_def cong: read_cong)

interpretation admin_users: comparator admin_users_order
  unfolding admin_users_order_def by (intro comparators)

lemma users_sorted:
  assumes "\<forall>u\<in>set us. iso_era (u_createdAt u)" "sorted_wrt (\<lambda>a b. admin_users_order a b \<le> 0) us"
  shows "users_in_order other (map (\<lambda>u. web_admin_user_of (admin_user_fromEntity u)) us)"
  using assms
proof (induction us rule: induct_list012)
  case (3 a b us)
  then have "\<not> out_of_order other (web_admin_user_of (admin_user_fromEntity a)) (web_admin_user_of (admin_user_fromEntity b))"
    by (auto simp: out_of_order_def web_admin_user_of_def admin_user_fromEntity_def admin_users_order_def
        cmp_then_def cmp_desc_def cmp_by_def split: if_splits)
  with 3 show ?case by simp
qed simp_all

text \<open>The account pages read what the account endpoints send: in every state of the system the account a
session belongs to and every page of the administration's list, whatever its filters, are accepted by
the frontend's parsers, which test the identifiers, the campus addresses, the names, the roles and the
times of each account, that no password hash is sent, the numbers of the page and the order of its rows.\<close>

lemma web_reads_accounts:
  assumes "reachable sv (now, d)" "accounts_recorded (sv_bootstrap sv)" "database_made d"
  shows "(guarded (sv_verify sv) (sv_config sv) rt cookies d = Inr (Some u) \<longrightarrow>
      parseUser other (user_json (auth_me u)) = Some (web_user_of (auth_me u))) \<and>
    (admin_users_findAll q d = Inr page \<longrightarrow>
      parseAdminUserPage other (admin_user_page_json page) =
        Some (map web_admin_user_of (ap_items page), web_numbers_of (ap_total page) (ap_page page) (ap_pageSize page)))"
proof (intro conjI impI)
  note rec = reachable_recorded [OF assms(1,2)] and made = assms(3)
  have db: "db_ok d" using reachable_ok [OF assms(1)] by (simp add: campus_ok_def)
  assume "guarded (sv_verify sv) (sv_config sv) rt cookies d = Inr (Some u)"
  then have "u \<in> set (users d)"
    by (auto simp: guarded_def JwtAuthGuard_def RolesGuard_def jwt_authenticate_def jwt_validate_def findUserById_def
        split: sum.splits option.splits if_splits dest: row_at_SomeD)
  then show "parseUser other (user_json (auth_me u)) = Some (web_user_of (auth_me u))"
    unfolding auth_me_def by (rule read_user [OF rec made])
next
  note rec = reachable_recorded [OF assms(1,2)] and made = assms(3)
  have db: "db_ok d" using reachable_ok [OF assms(1)] by (simp add: campus_ok_def)
  assume a: "admin_users_findAll q d = Inr page"
  define f where "f = q\<lparr>au_q := map_option js_trim (au_q q)\<rparr>"
  define rows where "rows = sort_cmp admin_users_order (filter (admin_users_where f) (users d))"
  let ?p = "au_page f" and ?s = "au_pageSize f"
  let ?us = "page_rows ?p ?s rows"
  have v: "1 \<le> ?p" "1 \<le> ?s" "?s \<le> 50" "0 < ?s"
    using a by (auto simp: admin_users_findAll_def f_def [symmetric] Let_def admin_users_query_valid_def split: if_splits)
  have page: "page = \<lparr>ap_items = map admin_user_fromEntity ?us, ap_total = length rows, ap_page = ?p, ap_pageSize = ?s,
      ap_totalPages = totalPagesFor (length rows) ?s\<rparr>"
    using a by (auto simp: admin_users_findAll_def f_def [symmetric] Let_def findForAdministration_def rows_def totalPagesFor_def
        split: if_splits)
  have mem: "u \<in> set (users d)" if "u \<in> set ?us" for u
    using subsetD [OF page_rows_set that] by (simp add: rows_def)
  have items: "all_parsed (parseAdminUser other) (map admin_user_json (ap_items page)) = Some (map web_admin_user_of (ap_items page))"
    unfolding page by (simp add: comp_def) (rule all_parsed_map, rule read_admin_user [OF rec made mem])
  have "distinct (map u_id (users d))" using db by (simp add: db_ok_def table_inv_def)
  then have keys: "distinct (map wm_id (map web_admin_user_of (ap_items page)))"
    by (simp add: page comp_def web_admin_user_of_def admin_user_fromEntity_def page_rows_distinct rows_def distinct_map_filter)
  have "sorted_wrt (\<lambda>a b. admin_users_order a b \<le> 0) ?us" unfolding rows_def by (intro page_rows_sorted admin_users.sorted)
  then have order: "users_in_order other (map web_admin_user_of (ap_items page))"
    using users_sorted [of ?us other] mem account_facts(4) [OF rec made] by (simp add: page comp_def)
  have c: "\<lceil>of_int (int (length rows)) / of_int (int ?s) :: rat\<rceil> = int (totalPagesFor (length rows) ?s)"
    using v by (intro total_pages_ceiling) simp
  have n: "int (length (map web_admin_user_of (ap_items page))) =
      (if int (length rows) \<le> (int ?p - 1) * int ?s then 0 else min (int ?s) (int (length rows) - (int ?p - 1) * int ?s))"
    using page_rows_count [OF v(1), of ?s rows] by (simp add: page)
  show "parseAdminUserPage other (admin_user_page_json page) =
        Some (map web_admin_user_of (ap_items page), web_numbers_of (ap_total page) (ap_page page) (ap_pageSize page))"
    using items keys order c n v unfolding parseAdminUserPage_def admin_user_page_json_def
    by (simp add: page web_numbers_of_def Let_def del: of_int_of_nat_eq cong: read_cong)
qed

end
