(* ===== verification/WebSummaryReads.thy ===== *)
theory WebSummaryReads
  imports WebAccountReads
begin

text \<open>
  The analytics page reads a summary exactly when it has capacity or no hours: a range without capacity
  in which hours were booked, which the service answers for, is refused by the page's parser.
\<close>

section \<open>The frontend's view of a summary\<close>

definition web_popular_of :: "popular_row \<Rightarrow> web_popular" where
  "web_popular_of p = \<lparr>wo_id = po_id p, wo_code = po_code p, wo_name = po_name p, wo_building = po_building p,
     wo_bookingCount = int (po_bookingCount p), wo_bookedHours = \<lfloor>po_bookedHours p\<rfloor>\<rparr>"

definition web_summary_of :: "analytics_summary \<Rightarrow> web_summary" where
  "web_summary_of a =
     \<lparr>wy_from = an_from a, wy_to = an_to a, wy_totalBookings = int (an_totalBookings a),
      wy_cancelledBookings = int (an_cancelledBookings a), wy_cancellationRate = an_cancellationRate a,
      wy_scheduledHours = \<lfloor>an_scheduledHours a\<rfloor>, wy_capacityHours = an_capacityHours a,
      wy_utilizationRate = an_utilizationRate a, wy_resourcesRepresented = int (an_resourcesRepresented a),
      wy_statuses = map (\<lambda>(st, n, p). (st, int n, p)) (an_statuses a),
      wy_popularResources = map web_popular_of (an_popularResources a),
      wy_peakHours = map (\<lambda>(h, label, n). (h, label, int n)) (an_peakHours a), wy_definition = DEFINITION\<rparr>"

section \<open>Numbers\<close>

lemma web_percentage_eq: "web_percentage (int n) (int m) = percentage (of_nat n) (of_nat m)"
  by (simp add: web_percentage_def percentage_def)

lemma percentage_bounds:
  assumes "n \<le> m"
  shows "0 \<le> percentage (of_nat n) (of_nat m)" "percentage (of_nat n) (of_nat m) \<le> 100"
proof -
  have b: "0 \<le> of_nat n / (of_nat m :: rat)" "of_nat n / (of_nat m :: rat) \<le> 1"
    using assms by (cases "m = 0", simp_all add: divide_le_eq_1)+
  then have "0 \<le> \<lfloor>of_nat n / (of_nat m :: rat) * 1000 + 1 / 2\<rfloor>" by (simp add: le_floor_iff)
  moreover have "\<lfloor>of_nat n / (of_nat m :: rat) * 1000 + 1 / 2\<rfloor> < 1001"
    using b(2) by (simp add: floor_less_iff)
  ultimately show "0 \<le> percentage (of_nat n) (of_nat m)" "percentage (of_nat n) (of_nat m) \<le> 100"
    by (simp_all add: percentage_def)
qed

lemma reads_numbers [simp]:
  "as_count (js_int (int n)) = Some (int n)" "as_count (JNumber (of_nat n)) = Some (int n)"
  "0 \<le> x \<Longrightarrow> x \<le> 100 \<Longrightarrow> as_rate (JNumber x) = Some x"
  by (simp_all add: as_count_def as_rate_def) (simp add: as_integer_def)

lemma valid_date_text:
  assumes "pg_date s"
  shows "validDate s"
proof -
  obtain y m d where s: "date_pattern s" "date_numbers s = Some (y, m, d)" "1 \<le> y" "y \<le> 9999" "valid_ymd y (m - 1) d"
    using assms by (rule pg_dateE)
  have day: "sql_date s = make_day y (m - 1) d" by (simp add: sql_date_def s(2))
  have "-719162 \<le> sql_date s"
  proof -
    have "day_from_year y \<le> sql_date s"
      using year_from_day_bounds(1) [of "sql_date s"] make_day_fields(1) [OF s(5)] by (simp add: day)
    moreover have "day_from_year 1 \<le> day_from_year y" using s(3) day_from_year_mono [of 1 y] by (cases "y = 1") auto
    ultimately show ?thesis by (simp add: day_from_year_def)
  qed
  then have era: "iso_era (sql_date s * 86400000)" using sql_date_bound [OF assms] by (simp add: iso_era_def)
  have "day_of_time (sql_date s * 86400000) = sql_date s" by (simp add: day_of_time_def)
  then have "iso_day (sql_date s * 86400000) = s"
    using sql_date_inj [OF iso_day_date(1) [OF era] assms] iso_day_date(2) [OF era] by simp
  then have "js_slice 0 10 (toISOString (sql_date s * 86400000)) = s"
    using pg_date_length [OF assms] by (simp add: toISOString_parts)
  then show ?thesis using s valid_ymd_ranges [OF s(5)] by (simp add: validDate_def day)
qed

section \<open>The popular resources\<close>

lemma popular_mem:
  assumes "db_ok d" "p \<in> set (popularResources collate from_date to_date d)"
  obtains r bl where "r \<in> set (resources d)" "bl \<in> set (buildings d)" "p = popular_row_of from_date to_date d r bl"
    "0 < po_bookingCount p"
proof -
  obtain r where r: "r \<in> set (resources d)" "0 < po_bookingCount p"
    "p = popular_row_of from_date to_date d r (the (row_at bl_id (r_buildingId r) (buildings d)))"
    using assms(2) unfolding popularResources_def popular_rows [OF assms(1)] by auto
  obtain bl where "row_at bl_id (r_buildingId r) (buildings d) = Some bl" "bl \<in> set (buildings d)"
    using stored_building [OF assms(1) r(1)] .
  with r show ?thesis by (intro that [of r bl]) simp_all
qed

lemma popular_distinct:
  assumes "db_ok d"
  shows "distinct (map po_id (popularResources collate from_date to_date d))"
    "distinct (map po_code (popularResources collate from_date to_date d))"
proof -
  have inv: "table_inv r_id (resource_ok d) resource_clash (resources d)" using assms by (simp add: db_ok_def)
  then have keys: "distinct (map r_id (resources d))" by (simp add: table_inv_def)
  have "inj_on r_code (set (resources d))"
  proof (rule inj_onI)
    fix x y assume xy: "x \<in> set (resources d)" "y \<in> set (resources d)" "r_code x = r_code y"
    then have "r_id x = r_id y" using inv by (auto simp: table_inv_def resource_clash_def)
    then show "x = y" using keys xy by (auto simp: distinct_map dest: inj_onD)
  qed
  then have codes: "distinct (map r_code (resources d))" using keys by (simp add: distinct_map)
  show "distinct (map po_id (popularResources collate from_date to_date d))"
    "distinct (map po_code (popularResources collate from_date to_date d))"
    unfolding popularResources_def popular_rows [OF assms] distinct_sort_cmp
    by (rule distinct_map_filter, use keys in \<open>simp add: comp_def popular_row_of_def Let_def\<close>)
      (rule distinct_map_filter, use codes in \<open>simp add: comp_def popular_row_of_def Let_def\<close>)
qed

lemma whole_hours_sum:
  assumes "\<And>b. b \<in> set bs \<Longrightarrow> sound_booking b"
  shows "sum_list (map booked_hours bs) = of_nat (sum_list (map (\<lambda>b. length (hours_of b)) bs))"
  using assms by (induction bs) (simp_all add: booked_hours_whole(1))

lemma hours_of_nonempty: "sound_booking b \<Longrightarrow> 0 < length (hours_of b)"
proof -
  assume "sound_booking b"
  then obtain h k where "h < k" "sql_time (b_startTime b) = 3600 * int h" "sql_time (b_endTime b) = 3600 * int k"
    using booking_hours by metis
  then show ?thesis by (simp add: hours_of_def)
qed

lemma read_popular:
  assumes "db_ok d" "recorded d" "database_made d" "p \<in> set (popularResources collate from_date to_date d)"
  shows "parsePopular (popular_json p) = Some (web_popular_of p)"
proof -
  obtain r bl where p: "r \<in> set (resources d)" "bl \<in> set (buildings d)" "p = popular_row_of from_date to_date d r bl"
    "0 < po_bookingCount p" using assms(1,4) by (rule popular_mem)
  define bs where "bs = filter (\<lambda>b. b_resourceId b = r_id r) (demanded from_date to_date d)"
  have sound: "sound_booking b" if "b \<in> set bs" for b
    using db_booking_sound [OF assms(1)] that by (simp add: bs_def demanded_def)
  define n where "n = sum_list (map (\<lambda>b. length (hours_of b)) bs)"
  have hours: "po_bookedHours p = of_nat n" and count: "po_bookingCount p = length bs"
    using whole_hours_sum [OF sound] by (simp_all add: p(3) popular_row_of_def Let_def bs_def [symmetric] n_def)
  have "0 < n"
  proof -
    obtain b where "b \<in> set bs" using p(4) count by (cases bs) auto
    then have "length (hours_of b) \<le> n" unfolding n_def by (intro member_le_sum_list) auto
    then show ?thesis using hours_of_nonempty [OF sound [OF \<open>b \<in> set bs\<close>]] by linarith
  qed
  moreover have "uuid_version_pattern (po_id p)" "po_code p \<noteq> []" "po_name p \<noteq> []" "po_building p \<noteq> []"
    using assms(3) recorded_rows(4,5) [OF assms(2)] resource_recorded_texts p(1,2)
    by (auto simp: p(3) popular_row_of_def Let_def database_made_def building_recorded_def)
  ultimately show ?thesis
    using p(4) hours by (simp add: parsePopular_def popular_json_def web_popular_of_def cong: read_cong)
qed

section \<open>The peak hours\<close>

lemma hours_of_distinct: "distinct (hours_of b)"
  by (simp add: hours_of_def)

lemma hours_of_bound:
  assumes "sound_booking b" "h \<in> set (hours_of b)"
  shows "0 \<le> h" "h \<le> 22"
proof -
  obtain m k where mk: "m < 24" "k < 24" "m < k" "sql_time (b_startTime b) = 3600 * int m" "sql_time (b_endTime b) = 3600 * int k"
    using booking_hours [OF assms(1)] by metis
  show "0 \<le> h" "h \<le> 22" using assms(2) mk by (auto simp: hours_of_def)
qed

lemma count_distinct: "distinct xs \<Longrightarrow> count_list xs x \<le> 1"
proof (induction xs)
  case (Cons y ys)
  then show ?case by (cases "x = y") (simp_all add: count_list_0_iff)
qed simp

lemma count_concat_le:
  assumes "\<And>b. distinct (f b)"
  shows "count_list (concat (map f bs)) h \<le> length bs"
proof (induction bs)
  case (Cons b bs)
  have "count_list (f b) h \<le> 1" by (rule count_distinct [OF assms])
  then show ?case using Cons by simp
qed simp

lemma peak_facts:
  assumes "db_ok d"
  shows "\<And>h n. (h, n) \<in> set (peakHours from_date to_date d) \<Longrightarrow> 0 \<le> h \<and> h \<le> 22 \<and> 0 < n \<and> n \<le> length (demanded from_date to_date d)"
    "sorted_wrt (\<lambda>a b. fst a < fst b) (peakHours from_date to_date d)"
proof -
  let ?hs = "concat (map hours_of (demanded from_date to_date d))"
  have sound: "sound_booking b" if "b \<in> set (demanded from_date to_date d)" for b
    using db_booking_sound [OF assms] that by (simp add: demanded_def)
  show "0 \<le> h \<and> h \<le> 22 \<and> 0 < n \<and> n \<le> length (demanded from_date to_date d)"
    if "(h, n) \<in> set (peakHours from_date to_date d)" for h n
  proof -
    have h: "h \<in> set ?hs" "n = count_list ?hs h" using that by (auto simp: peakHours_def Let_def)
    then obtain b where "b \<in> set (demanded from_date to_date d)" "h \<in> set (hours_of b)" by auto
    then have "0 \<le> h" "h \<le> 22" using hours_of_bound [OF sound] by blast+
    moreover have "n \<noteq> 0" using h by (simp add: count_list_0_iff)
    moreover have "n \<le> length (demanded from_date to_date d)"
      unfolding h(2) by (rule count_concat_le) (rule hours_of_distinct)
    ultimately show ?thesis by simp
  qed
  show "sorted_wrt (\<lambda>a b. fst a < fst b) (peakHours from_date to_date d)"
    using sorted_wrt_filter [OF sorted_wrt_upto] by (simp add: peakHours_def Let_def sorted_wrt_map)
qed

lemma neighbours: "sorted_wrt P xs \<Longrightarrow> all_neighbours P xs"
  by (induction P xs rule: all_neighbours.induct) simp_all

section \<open>The summary\<close>

lemma definition_long: "40 \<le> length DEFINITION"
  by (simp add: DEFINITION_def)

text \<open>What the figures are, from the rows of the range.\<close>

lemma summary_figures:
  fixes from_date to_date d date_text collate
  defines "rows \<equiv> filter (\<lambda>b. in_range from_date to_date (b_date b)) (bookings d)"
    and "n \<equiv> \<lambda>st. length (filter (\<lambda>b. in_range from_date to_date (b_date b) \<and> b_status b = st) (bookings d))"
    and "a \<equiv> getSummary date_text collate from_date to_date d"
  shows "an_totalBookings a = length rows" "an_cancelledBookings a = n CANCELLED"
    "an_cancellationRate a = percentage (of_nat (n CANCELLED)) (of_nat (length rows))"
    "an_statuses a = map (\<lambda>st. (st, n st, percentage (of_nat (n st)) (of_nat (length rows)))) STATUS_ORDER"
    "n st \<le> length rows" "sum_list (map n STATUS_ORDER) = length rows"
    "length (demanded from_date to_date d) \<le> length rows"
proof -
  have at: "count_at (statusCounts from_date to_date d) = n" by (rule ext) (simp add: count_at_statusCounts n_def)
  show sum: "sum_list (map n STATUS_ORDER) = length rows" unfolding n_def rows_def by (rule sum_by_status)
  show "an_totalBookings a = length rows" "an_cancelledBookings a = n CANCELLED"
    "an_cancellationRate a = percentage (of_nat (n CANCELLED)) (of_nat (length rows))"
    "an_statuses a = map (\<lambda>st. (st, n st, percentage (of_nat (n st)) (of_nat (length rows)))) STATUS_ORDER"
    by (simp_all add: a_def getSummary_def Let_def at fold_plus sum)
  have "n st = length (filter (\<lambda>b. b_status b = st) rows)" by (simp add: n_def rows_def conj_commute)
  then show "n st \<le> length rows" by simp
  have "demanded from_date to_date d = filter (\<lambda>b. b_status b \<in> set DEMAND_STATUSES) rows"
    by (simp add: demanded_def rows_def conj_commute)
  then show "length (demanded from_date to_date d) \<le> length rows" by simp
qed

lemma popular_counts:
  assumes "db_ok d"
  shows "sum_list (map po_bookingCount (popularResources collate from_date to_date d)) = length (demanded from_date to_date d)"
proof -
  have "sum_list (map po_bookingCount (popularResources collate from_date to_date d)) =
      sum_list (map (\<lambda>_. 1) (demanded from_date to_date d))"
    by (rule popular_sum [OF assms]) (simp add: popular_row_of_def Let_def sum_list_triv)
  then show ?thesis by (simp add: sum_list_triv)
qed

lemma sum_take_le: "sum_list (take k xs) \<le> (sum_list xs :: nat)"
  by (metis append_take_drop_id le_add1 sum_list_append)

lemma length_le_sum: "(\<And>x. x \<in> set xs \<Longrightarrow> 1 \<le> f x) \<Longrightarrow> length xs \<le> (sum_list (map f xs) :: nat)"
  by (induction xs) (simp_all, fastforce)

lemma web_popular_sum: "sum_list (map wo_bookingCount (map web_popular_of ps)) = int (sum_list (map po_bookingCount ps))"
  by (induction ps) (simp_all add: web_popular_of_def)

interpretation popular: comparator "popular_order collate" for collate
  unfolding popular_order_def by (intro comparators)

lemma lists_accepted:
  fixes from_date to_date date_text collate
  assumes d: "db_ok d"
  defines "a \<equiv> getSummary date_text collate from_date to_date d"
  shows "\<not> summary_lists_refused (int (an_totalBookings a)) (int (an_cancelledBookings a)) (int (an_resourcesRepresented a))
    (map (\<lambda>(st, n, p). (st, int n, p)) (an_statuses a)) (map web_popular_of (an_popularResources a))
    (map (\<lambda>(h, label, n). (h, label, int n)) (an_peakHours a))" "an_resourcesRepresented a \<le> an_totalBookings a"
proof -
  note f = summary_figures(1-4) [where date_text = date_text and collate = collate and from_date = from_date and to_date = to_date and d = d,
      folded a_def]
  define rows where "rows = filter (\<lambda>b. in_range from_date to_date (b_date b)) (bookings d)"
  define n where "n st = length (filter (\<lambda>b. in_range from_date to_date (b_date b) \<and> b_status b = st) (bookings d))" for st
  note g = f [folded rows_def n_def]
    summary_figures(5-7) [where from_date = from_date and to_date = to_date and d = d, folded rows_def n_def]
  define ps where "ps = popularResources collate from_date to_date d"
  have a: "an_popularResources a = take 5 ps" "an_resourcesRepresented a = length ps"
    "an_peakHours a = map (\<lambda>(h, n). (h, pad_start 2 CHR ''0'' (js_string (nat h)) @ '':00'', n)) (peakHours from_date to_date d)"
    by (simp_all add: a_def getSummary_def Let_def ps_def)
  have sum: "sum_list (map po_bookingCount ps) \<le> length rows" using popular_counts [OF d] g(7) by (simp add: ps_def)
  have pos: "1 \<le> po_bookingCount p" if "p \<in> set ps" for p
    using popular_mem [OF d, of p collate from_date to_date] that unfolding ps_def by (metis One_nat_def Suc_leI)
  show represented: "an_resourcesRepresented a \<le> an_totalBookings a"
    using length_le_sum [of ps po_bookingCount] pos sum by (simp add: a g(1))
  have "sum_list (map po_bookingCount (take 5 ps)) \<le> length rows"
    using sum_take_le [of 5 "map po_bookingCount ps"] sum by (simp add: take_map)
  then have psum: "sum_list (map wo_bookingCount (map web_popular_of (take 5 ps))) \<le> int (length rows)"
    by (simp only: web_popular_sum of_nat_le_iff)
  have each: "po_bookingCount p \<le> length rows" if "p \<in> set (take 5 ps)" for p
    using member_le_sum_list [of "po_bookingCount p" "map po_bookingCount ps"] in_set_takeD [OF that] sum by fastforce
  then have each_web: "\<not> (\<exists>r\<in>set (map web_popular_of (take 5 ps)). int (length rows) < wo_bookingCount r)"
    by (auto simp: web_popular_of_def not_less)
  have keys: "distinct (map wo_id (map web_popular_of (take 5 ps)))" "distinct (map wo_code (map web_popular_of (take 5 ps)))"
    using popular_distinct [OF d, of collate from_date to_date]
    by (simp_all add: comp_def web_popular_of_def ps_def take_map [symmetric] distinct_take)
  have "sorted_wrt (\<lambda>p q. popular_order collate p q \<le> 0) (take 5 ps)"
    unfolding ps_def popularResources_def by (rule sorted_wrt_take [OF popular.sorted])
  then have "sorted_wrt (\<lambda>a b. wo_bookingCount b \<le> wo_bookingCount a) (map web_popular_of (take 5 ps))"
    by (rule sorted_rows_mono)
      (auto simp: popular_order_def web_popular_of_def cmp_then_def cmp_desc_def cmp_by_def split: if_splits)
  then have desc: "all_neighbours (\<lambda>a b. wo_bookingCount b \<le> wo_bookingCount a) (map web_popular_of (take 5 ps))"
    by (rule neighbours)
  have asc: "all_neighbours (\<lambda>a b. fst a < fst b) (map (\<lambda>(h, label, n). (h, label, int n)) (an_peakHours a))"
    using peak_facts(2) [OF d, of from_date to_date] unfolding a(3)
    by (intro neighbours) (simp add: sorted_wrt_map case_prod_beta)
  have peaks: "\<forall>(h, label, m)\<in>set (map (\<lambda>(h, label, n). (h, label, int n)) (an_peakHours a)). m \<le> int (length rows)"
    using peak_facts(1) [OF d, of _ _ from_date to_date] g(7) unfolding a(3) by fastforce
  have statuses: "map fst (map (\<lambda>(st, n, p). (st, int n, p)) (an_statuses a)) = STATUS_ORDER"
    "sum_list (map (\<lambda>(st, n, p). n) (map (\<lambda>(st, n, p). (st, int n, p)) (an_statuses a))) = int (length rows)"
    "\<forall>(st, k, p)\<in>set (map (\<lambda>(st, n, p). (st, int n, p)) (an_statuses a)). p = web_percentage k (int (length rows))"
    "map_of (map (\<lambda>(st, n, p). (st, int n, p)) (an_statuses a)) CANCELLED =
      Some (int (n CANCELLED), percentage (of_nat (n CANCELLED)) (of_nat (length rows)))"
    unfolding g(4) using g(6) by (simp_all add: comp_def web_percentage_eq STATUS_ORDER_def)
  show "\<not> summary_lists_refused (int (an_totalBookings a)) (int (an_cancelledBookings a)) (int (an_resourcesRepresented a))
    (map (\<lambda>(st, n, p). (st, int n, p)) (an_statuses a)) (map web_popular_of (an_popularResources a))
    (map (\<lambda>(h, label, n). (h, label, int n)) (an_peakHours a))"
    unfolding summary_lists_refused_def g(1,2) a(1,2) de_Morgan_disj not_not
    using statuses psum keys desc asc peaks each_web
    by (intro conjI) (simp_all add: not_less del: map_map set_map, auto)
qed

lemma capacity_nonneg:
  assumes "\<And>r. r \<in> set rs \<Longrightarrow> resource_typed r \<and> resource_rules r"
  shows "0 \<le> capacityHours date_text from_date to_date rs cs"
proof -
  have "0 \<le> capacity_on shut r date" if "r \<in> set rs" for shut r date
  proof -
    have t: "resource_typed r" "resource_rules r" using assms [OF that] by simp_all
    obtain x y where "x < y" "js_number (js_slice 0 2 (r_opensAt r)) = x" "js_number (js_slice 0 2 (r_closesAt r)) = y"
      by (rule resource_hours [OF t])
    then show ?thesis by (simp add: capacity_on_def hour_number_def)
  qed
  then have "0 \<le> sum_list (map (capacity_on shut r) (dates from_date to_date))" if "r \<in> set rs" for shut r
    using that by (intro sum_list_nonneg) auto
  then show ?thesis unfolding capacityHours_def Let_def by (intro sum_list_nonneg) auto
qed

lemma percentage_int: "percentage (of_nat n) (of_int c) = web_percentage (int n) c"
  by (simp add: web_percentage_def percentage_def)

lemma percentage_nonneg: "0 \<le> x \<Longrightarrow> 0 \<le> y \<Longrightarrow> 0 \<le> percentage x y"
proof -
  assume "0 \<le> x" "0 \<le> y"
  then have "0 \<le> x / y * 1000 + 1 / 2" by simp
  then have "0 \<le> \<lfloor>x / y * 1000 + 1 / 2\<rfloor>" by (simp only: zero_le_floor)
  then show ?thesis by (simp add: percentage_def)
qed

lemma read_summary_body:
  assumes "validDate (an_from a)" "validDate (an_to a)" "an_from a \<le> an_to a" "an_timeZone a = CAMPUS_TIME_ZONE"
    "an_cancelledBookings a \<le> an_totalBookings a"
    "an_cancellationRate a = percentage (of_nat (an_cancelledBookings a)) (of_nat (an_totalBookings a))"
    "an_scheduledHours a = of_nat m" "0 \<le> an_capacityHours a"
    "an_utilizationRate a = (if an_capacityHours a = 0 then None else Some (percentage (of_nat m) (of_int (an_capacityHours a))))"
    "an_resourcesRepresented a \<le> an_totalBookings a"
    "all_parsed parseStatus (map status_json (an_statuses a)) = Some (map (\<lambda>(st, n, p). (st, int n, p)) (an_statuses a))"
    "all_parsed parsePopular (map popular_json (an_popularResources a)) = Some (map web_popular_of (an_popularResources a))"
    "all_parsed parsePeak (map peak_json (an_peakHours a)) = Some (map (\<lambda>(h, label, n). (h, label, int n)) (an_peakHours a))"
    "\<not> summary_lists_refused (int (an_totalBookings a)) (int (an_cancelledBookings a)) (int (an_resourcesRepresented a))
      (map (\<lambda>(st, n, p). (st, int n, p)) (an_statuses a)) (map web_popular_of (an_popularResources a))
      (map (\<lambda>(h, label, n). (h, label, int n)) (an_peakHours a))"
  shows "parseAnalyticsSummary (summary_json a) =
    (if an_capacityHours a = 0 \<and> m \<noteq> 0 then None else Some (web_summary_of a))"
proof -
  have rate: "as_rate (JNumber (an_cancellationRate a)) = Some (an_cancellationRate a)"
    using percentage_bounds [OF assms(5)] by (simp add: assms(6))
  have wrate: "an_cancellationRate a = web_percentage (int (an_cancelledBookings a)) (int (an_totalBookings a))"
    by (simp only: assms(6) web_percentage_eq)
  have cap: "as_count (js_int (an_capacityHours a)) = Some (an_capacityHours a)"
    using assms(8) by (simp add: as_count_def)
  have nonneg: "as_nonNegative (JNumber (percentage (of_nat m) (of_int (an_capacityHours a)))) =
      Some (percentage (of_nat m) (of_int (an_capacityHours a)))"
    using percentage_nonneg [of "of_nat m" "of_int (an_capacityHours a)"] assms(8) by (simp add: as_nonNegative_def)
  have util: "nullable as_nonNegative (or_jnull JNumber (an_utilizationRate a)) = Some (an_utilizationRate a)"
    using nonneg by (simp add: assms(9) nullable_def or_jnull_def)
  show ?thesis
    unfolding parseAnalyticsSummary_def summary_json_def
    using assms(1-5,10-14) rate wrate cap util definition_long
    by (simp add: assms(7,9) web_summary_of_def percentage_int cong: read_cong)
qed

text \<open>C32: The analytics page shows every summary the service answers with, except one kind: it refuses the
summary, and shows an error, exactly when the range has no capacity but hours were booked in it, which
the service reports as it is.\<close>

theorem web_reads_summary:
  assumes "reachable sv (now, d)" "accounts_recorded (sv_bootstrap sv)" "database_made d"
    "analytics_getSummary isDateString date_text collate from_date to_date d = Inr a" "pg_date from_date" "pg_date to_date"
  shows "parseAnalyticsSummary (summary_json a) =
    (if an_capacityHours a = 0 \<and> an_scheduledHours a \<noteq> 0 then None else Some (web_summary_of a))"
proof -
  have db: "db_ok d" using reachable_ok [OF assms(1)] by (simp add: campus_ok_def)
  note rec = reachable_recorded [OF assms(1,2)] and made = assms(3)
  have a: "a = getSummary date_text collate from_date to_date d" and order: "\<not> to_date < from_date"
    using assms(4) by (simp_all add: analytics_getSummary_def split: if_splits)
  define m where "m = sum_list (map (\<lambda>b. length (hours_of b)) (utilized from_date to_date d))"
  have "sound_booking b" if "b \<in> set (utilized from_date to_date d)" for b
    using db_booking_sound [OF db] that by (simp add: utilized_def)
  then have hours: "an_scheduledHours a = of_nat m"
    using whole_hours_sum by (simp add: a getSummary_def Let_def scheduledHours_def m_def)
  note f = summary_figures(1-4) [where date_text = date_text and collate = collate and from_date = from_date and to_date = to_date and d = d,
      folded a] summary_figures(5) [where from_date = from_date and to_date = to_date and d = d]
  have "parseAnalyticsSummary (summary_json a) = (if an_capacityHours a = 0 \<and> m \<noteq> 0 then None else Some (web_summary_of a))"
  proof (rule read_summary_body)
    show "validDate (an_from a)" "validDate (an_to a)"
      using valid_date_text assms(5,6) by (simp_all add: a getSummary_def Let_def)
    show "an_from a \<le> an_to a" "an_timeZone a = CAMPUS_TIME_ZONE" using order by (simp_all add: a getSummary_def Let_def)
    show "an_cancelledBookings a \<le> an_totalBookings a" unfolding f(1,2) by (rule f(5))
    show "an_cancellationRate a = percentage (of_nat (an_cancelledBookings a)) (of_nat (an_totalBookings a))"
      by (simp only: f(1-3))
    show "an_scheduledHours a = of_nat m" by (rule hours)
    show "0 \<le> an_capacityHours a"
      using stored_resource(1,2) [OF db] by (auto simp: a getSummary_def Let_def intro!: capacity_nonneg)
    show "an_utilizationRate a = (if an_capacityHours a = 0 then None else Some (percentage (of_nat m) (of_int (an_capacityHours a))))"
      using hours by (simp add: a getSummary_def Let_def)
    show "an_resourcesRepresented a \<le> an_totalBookings a" unfolding a by (rule lists_accepted(2) [OF db])
    show "all_parsed parseStatus (map status_json (an_statuses a)) = Some (map (\<lambda>(st, n, p). (st, int n, p)) (an_statuses a))"
    proof (rule all_parsed_map)
      fix s assume "s \<in> set (an_statuses a)"
      then obtain st n p where s: "s = (st, n, p)" "0 \<le> p" "p \<le> 100"
        using f(5) percentage_bounds unfolding f(4) by auto
      then show "parseStatus (status_json s) = Some (case s of (st, n, p) \<Rightarrow> (st, int n, p))"
        by (simp add: parseStatus_def status_json_def cong: read_cong)
    qed
    have "set (an_popularResources a) \<subseteq> set (popularResources collate from_date to_date d)"
      by (auto simp: a getSummary_def Let_def dest: in_set_takeD)
    then show "all_parsed parsePopular (map popular_json (an_popularResources a)) = Some (map web_popular_of (an_popularResources a))"
      by (intro all_parsed_map read_popular [OF db rec made]) auto
    show "all_parsed parsePeak (map peak_json (an_peakHours a)) = Some (map (\<lambda>(h, label, n). (h, label, int n)) (an_peakHours a))"
    proof (rule all_parsed_map)
      fix s assume "s \<in> set (an_peakHours a)"
      then obtain h n where s: "s = (h, pad_start 2 CHR ''0'' (js_string (nat h)) @ '':00'', n)" "0 \<le> h" "h \<le> 22" "0 < n"
        using peak_facts(1) [OF db] by (fastforce simp: a getSummary_def Let_def)
      have "as_count (js_int h) = Some h" using s(2) by (simp add: as_count_def)
      then show "parsePeak (peak_json s) = Some (case s of (h, label, n) \<Rightarrow> (h, label, int n))"
        using s(2-4) by (simp add: s(1) parsePeak_def peak_json_def cong: read_cong)
    qed
    show "\<not> summary_lists_refused (int (an_totalBookings a)) (int (an_cancelledBookings a)) (int (an_resourcesRepresented a))
      (map (\<lambda>(st, n, p). (st, int n, p)) (an_statuses a)) (map web_popular_of (an_popularResources a))
      (map (\<lambda>(h, label, n). (h, label, int n)) (an_peakHours a))"
      unfolding a by (rule lists_accepted(1) [OF db])
  qed
  then show ?thesis by (simp add: hours)
qed

end
