(* ===== verification/WebWitnesses.thy ===== *)
theory WebWitnesses
  imports WebSummaryReads CampusWitnesses
begin

text \<open>
  A run whose identifiers are those the database draws: the administrator of the configuration opens a
  room on Sundays, a student books the next Sunday, and when that Sunday is over the administrator
  closes the room on Sundays again. The pages of the web frontend are read at its states.
\<close>

section \<open>The run\<close>

definition web_admin_id :: string where
  "web_admin_id = ''30000000-0000-4000-8000-00000000000a''"

definition web_student_id :: string where
  "web_student_id = ''30000000-0000-4000-8000-00000000000b''"

definition web_booking_id :: string where
  "web_booking_id = ''40000000-0000-4000-8000-000000000001''"

definition web_room :: string where
  "web_room = ''20000000-0000-4000-8000-000000000001''"

definition web_env :: "int \<Rightarrow> string \<Rightarrow> env" where
  "web_env now k = \<lparr>clock = now, clock_after = now, db_now = now, fresh_id = k, random_int = 123\<rparr>"

definition web_after :: int where
  "web_after = sample_now + 6 * 86400000 + 2 * 3600000"

definition web_admin :: user where
  "web_admin = run_admin\<lparr>u_id := web_admin_id\<rparr>"

definition web_student :: user where
  "web_student = run_student\<lparr>u_id := web_student_id\<rparr>"

definition web_booking :: booking where
  "web_booking = (plain_booking web_booking_id web_room ''2026-09-20'' ''09:00:00'' ''10:00:00'' CONFIRMED)
     \<lparr>b_requesterId := web_student_id, b_createdAt := sample_now, b_updatedAt := sample_now\<rparr>"

definition no_changes :: update_resource_dto where
  "no_changes = \<lparr>ur_code = Undefined, ur_name = Undefined, ur_description = Undefined, ur_type = Undefined,
     ur_capacity = Undefined, ur_location = Undefined, ur_amenities = Undefined, ur_requiresApproval = Undefined,
     ur_operatingDays = Undefined, ur_opensAt = Undefined, ur_closesAt = Undefined, ur_buildingId = Undefined\<rparr>"

definition web_open :: request where
  "web_open = PatchResource web_room (no_changes\<lparr>ur_operatingDays := Val [0, 1, 2, 3, 4, 5, 6]\<rparr>)"

definition web_close :: request where
  "web_close = PatchResource web_room (no_changes\<lparr>ur_operatingDays := Val [1, 2, 3, 4, 5, 6]\<rparr>)"

definition web_post :: request where
  "web_post = PostBooking \<lparr>cb_resourceId = web_room, cb_date = ''2026-09-20'', cb_startTime = ''09:00'', cb_endTime = ''10:00''\<rparr>"

text \<open>The first room with its days, after a patch at an instant.\<close>

definition web_rooms :: "int list \<Rightarrow> int \<Rightarrow> resource list" where
  "web_rooms days now =
     (hd (seeded_resources 0))\<lparr>r_operatingDays := days, r_updatedAt := now\<rparr> # tl (seeded_resources 0)"

definition web_d1 :: db where "web_d1 = (seeded_db 0)\<lparr>users := [web_admin]\<rparr>"
definition web_d2 :: db where "web_d2 = (seeded_db 0)\<lparr>users := [web_admin, web_student]\<rparr>"
definition web_d3 :: db where "web_d3 = web_d2\<lparr>resources := web_rooms [0, 1, 2, 3, 4, 5, 6] sample_now\<rparr>"
definition web_d4 :: db where "web_d4 = web_d3\<lparr>bookings := [web_booking]\<rparr>"
definition web_d5 :: db where "web_d5 = web_d4\<lparr>resources := web_rooms [1, 2, 3, 4, 5, 6] web_after\<rparr>"

lemma web_started:
  "onApplicationBootstrap (sv_hash run_services) (sv_bootstrap run_services) (web_env sample_now web_admin_id)
     (web_env sample_now ''x'') (seeded_db 0) = Inr web_d1"
  by code_simp

lemma web_registered:
  "serve run_services Map.empty run_register (web_env sample_now web_student_id) web_d1 = Inr (web_d2, [])"
  by code_simp

lemma web_opened:
  "serve run_services [''access_token'' \<mapsto> web_admin_id] web_open (web_env sample_now ''x'') web_d2 =
     Inr (web_d3, [ResourceChanged web_room])"
  by code_simp

lemma web_booked:
  "serve run_services [''access_token'' \<mapsto> web_student_id] web_post (web_env sample_now web_booking_id) web_d3 =
     Inr (web_d4, [AvailabilityChanged web_room ''2026-09-20''])"
  by code_simp

lemma web_closed:
  "serve run_services [''access_token'' \<mapsto> web_admin_id] web_close (web_env web_after ''x'') web_d4 =
     Inr (web_d5, [ResourceChanged web_room])"
  by code_simp

lemma web_env_clock [simp]: "clock (web_env t k) = t"
  by (simp add: web_env_def)

lemma web_users:
  "users (seeded_db 0) = []" "users web_d1 = [web_admin]" "users web_d2 = [web_admin, web_student]"
  "users web_d3 = [web_admin, web_student]" "users web_d4 = [web_admin, web_student]" "users web_d5 = [web_admin, web_student]"
  by (simp_all add: seeded_db_def web_d1_def web_d2_def web_d3_def web_d4_def web_d5_def)

lemma web_ids: "u_id web_admin = web_admin_id" "u_id web_student = web_student_id" "''x'' \<noteq> web_admin_id" "''x'' \<noteq> web_student_id"
  "web_student_id \<noteq> web_admin_id" "web_booking_id \<noteq> web_admin_id" "web_booking_id \<noteq> web_student_id"
  by (simp_all add: web_admin_def web_student_def web_admin_id_def web_student_id_def web_booking_id_def)

lemma web_era: "campus_era sample_now" "campus_era web_after" "sample_now \<le> web_after"
  by (simp_all add: campus_era_def sample_now_def web_after_def)

lemma web_sound:
  "env_sound sample_now (web_env sample_now web_admin_id) (seeded_db 0)" "env_sound sample_now (web_env sample_now ''x'') (seeded_db 0)"
  "env_sound sample_now (web_env sample_now web_student_id) web_d1" "env_sound sample_now (web_env sample_now ''x'') web_d2"
  "env_sound sample_now (web_env sample_now web_booking_id) web_d3" "env_sound sample_now (web_env sample_now ''x'') web_d4"
  "env_sound sample_now (web_env web_after ''x'') web_d4"
  using web_era web_ids by (auto simp: env_sound_def ids_def web_users web_env_def)

lemma web_reachable: "reachable run_services (sample_now, web_d4)" "reachable run_services (web_after, web_d5)"
proof -
  let ?step = "sys_step run_services"
  have s1: "?step (sample_now, seeded_db 0) (sample_now, web_d1)"
    using sys_step.restarted [OF web_sound(1) _ _ web_started] web_sound(2) web_ids by (auto simp: web_env_def)
  have s2: "?step (sample_now, web_d1) (sample_now, web_d2)" using sys_step.answered [OF web_sound(3) web_registered] by simp
  have s3: "?step (sample_now, web_d2) (sample_now, web_d3)" using sys_step.answered [OF web_sound(4) web_opened] by simp
  have s4: "?step (sample_now, web_d3) (sample_now, web_d4)" using sys_step.answered [OF web_sound(5) web_booked] by simp
  have s5: "?step (sample_now, web_d4) (web_after, web_d5)" using sys_step.answered [OF web_sound(7) web_closed] by simp
  have r: "?step\<^sup>*\<^sup>* (sample_now, seeded_db 0) (sample_now, web_d4)"
    using s1 s2 s3 s4 by (meson converse_rtranclp_into_rtranclp rtranclp.rtrancl_refl)
  then show "reachable run_services (sample_now, web_d4)" using web_era(1) unfolding reachable_def by blast
  from r s5 have "?step\<^sup>*\<^sup>* (sample_now, seeded_db 0) (web_after, web_d5)" by (rule rtranclp.rtrancl_into_rtrancl)
  then show "reachable run_services (web_after, web_d5)" using web_era(1) unfolding reachable_def by blast
qed

text \<open>The identifiers and instants are those of a database.\<close>

definition database_rows_made :: "db \<Rightarrow> bool" where
  "database_rows_made d \<longleftrightarrow>
     list_all (\<lambda>b. uuid_version_pattern (b_id b) \<and> iso_era (b_createdAt b)) (bookings d) \<and>
     list_all (\<lambda>u. uuid_version_pattern (u_id u) \<and> iso_era (u_createdAt u) \<and> iso_era (u_updatedAt u) \<and>
        u_createdAt u \<le> u_updatedAt u) (users d) \<and>
     list_all (\<lambda>r. uuid_version_pattern (r_id r) \<and> iso_era (r_createdAt r) \<and> iso_era (r_updatedAt r)) (resources d) \<and>
     list_all (\<lambda>bl. uuid_version_pattern (bl_id bl)) (buildings d) \<and>
     list_all (\<lambda>c. uuid_version_pattern (c_id c) \<and> iso_era (c_createdAt c)) (closures d)"

lemma web_made: "database_made web_d4" "database_made web_d5"
proof -
  have "database_rows_made web_d4" "database_rows_made web_d5" by code_simp+
  then show "database_made web_d4" "database_made web_d5"
    by (simp_all add: database_rows_made_def database_made_def list_all_iff)
qed

lemma web_accounts: "accounts_recorded (sv_bootstrap run_services)"
proof -
  have "js_trim ''Head'' \<noteq> [] \<and> isStudentEmail ''head@usth.edu.vn'' \<and> normalizeEmailAddress ''head@usth.edu.vn'' = ''head@usth.edu.vn''"
    by code_simp
  then show ?thesis by (simp add: accounts_recorded_def account_recorded_def campus_address_def run_services_def opt_holds_def)
qed

section \<open>The pages\<close>

theorem web_reads_timeline_witness:
  "\<exists>t. findMine web_student_id (web_env sample_now ''x'') web_d4 = Inr t \<and> length (fst t) = 1 \<and>
     parseStudentBookingTimeline (\<lambda>s. None) (timeline_json t) = Some (map web_student_of (fst t), map web_student_of (snd t))"
proof -
  have "map_sum id (\<lambda>t. length (fst t)) (findMine web_student_id (web_env sample_now ''x'') web_d4) = Inr 1" by code_simp
  then show ?thesis
    using web_reads_timeline [OF web_reachable(1) web_accounts web_made(1) web_sound(6), of web_student_id "\<lambda>s. None"] by auto
qed

lemma web_room_key: "sql_uuid web_room = web_room" "pg_date ''2026-09-20''"
  by code_simp+

theorem web_reads_staff_witness:
  "\<exists>body. findSchedule (\<lambda>s. True) web_room ''2026-09-20'' (web_env sample_now ''x'') web_d4 = Inr body \<and>
     parseStaffResourceSchedule (\<lambda>s. None) (staff_schedule_json body) web_room ''2026-09-20'' =
       Some (map web_staff_of (sc_bookings body)) \<and> length (sc_bookings body) = 1"
proof -
  have "map_sum id (\<lambda>s. length (sc_bookings s)) (findSchedule (\<lambda>s. True) web_room ''2026-09-20'' (web_env sample_now ''x'') web_d4) = Inr 1"
    by code_simp
  moreover have q: "page_query_valid \<lparr>q_page = 1, q_pageSize = 10\<rparr>" by code_simp
  ultimately show ?thesis
    using web_reads_staff [OF web_reachable(1) web_accounts web_made(1) web_sound(6) q _ web_room_key,
        where isUUID = "\<lambda>s. True" and other = "\<lambda>s. None"] by auto
qed

theorem web_reads_resources_witness:
  "\<exists>a. resources_findAvailability (\<lambda>s. True) (\<lambda>s. True) web_room ''2026-09-20'' (web_env sample_now ''x'') web_d4 = Inr a \<and>
     parseResourceAvailability (availability_json a) = Some (web_availability_of a) \<and> length (av_slots a) = 9"
proof -
  have "map_sum id (\<lambda>a. length (av_slots a))
      (resources_findAvailability (\<lambda>s. True) (\<lambda>s. True) web_room ''2026-09-20'' (web_env sample_now ''x'') web_d4) = Inr 9"
    by code_simp
  then show ?thesis
    using web_reads_resources [OF web_reachable(1) web_accounts web_made(1) web_sound(6)] by (auto simp: map_sum_Inr_iff)
qed

text \<open>Sunday is over and no longer a day of the room: an hour was booked on it and none was offered.\<close>

theorem web_reads_summary_witness:
  "\<exists>a. analytics_getSummary (\<lambda>s. True) (\<lambda>s. s) (\<lambda>s. s) ''2026-09-20'' ''2026-09-20'' web_d5 = Inr a \<and>
     an_scheduledHours a = 1 \<and> parseAnalyticsSummary (summary_json a) = None"
proof -
  have "sql_date ''2026-09-20'' = 20716" "js_slice 0 10 (toISOString (20716 * 86400000)) = ''2026-09-20''" by code_simp+
  then have day: "dates ''2026-09-20'' ''2026-09-20'' = [''2026-09-20'']" by (simp add: dates_def dates_from.simps)
  have "sql_dow ''2026-09-20'' = 0" by code_simp
  then have none: "capacity_on shut r ''2026-09-20'' = 0" if "r \<in> set (resources web_d5)" for shut r
    using that by (auto simp: capacity_on_def web_d5_def web_rooms_def seeded_resources_def)
  let ?a = "getSummary (\<lambda>s. s) (\<lambda>s. s) ''2026-09-20'' ''2026-09-20'' web_d5"
  have "capacityHours f ''2026-09-20'' ''2026-09-20'' (filter P (resources web_d5)) cs = 0" for f P cs
  proof -
    have "sum_list (map (\<lambda>r. capacity_on shut r ''2026-09-20'') rs) = 0" if "set rs \<subseteq> set (resources web_d5)" for shut rs
      using that by (induction rs) (simp_all add: none)
    then show ?thesis by (simp add: capacityHours_def Let_def day)
  qed
  then have c: "an_capacityHours ?a = 0" by (simp add: getSummary_def Let_def)
  have "scheduledHours ''2026-09-20'' ''2026-09-20'' web_d5 = 1" by code_simp
  then have h: "an_scheduledHours ?a = 1" by (simp add: getSummary_def Let_def)
  have "date_pattern ''2026-09-20''" by code_simp
  then have a: "analytics_getSummary (\<lambda>s. True) (\<lambda>s. s) (\<lambda>s. s) ''2026-09-20'' ''2026-09-20'' web_d5 = Inr ?a"
    by (simp add: analytics_getSummary_def analytics_query_valid_def)
  from web_reads_summary [OF web_reachable(2) web_accounts web_made(2) a web_room_key(2) web_room_key(2)] a c h
  show ?thesis by auto
qed

end
