(* ===== verification/Catalog.thy ===== *)
theory Catalog
  imports Service
begin

text \<open>
  The demo catalogue (scripts/demo-catalog.ts): its data, the validation it must pass before anything
  is written, and the resolution of a closure's day offset; and the two commands that write it to the
  database and take it out again (scripts/catalog-import.ts).
\<close>

section \<open>Catalogues\<close>

record catalog_building =
  kb_code :: string
  kb_name :: string
  kb_address :: string

record catalog_closure =
  kc_dayOffset :: int
  kc_reason :: string

text \<open>An absent list of closures is read as the empty one.\<close>

record catalog_resource =
  kr_code :: string
  kr_name :: string
  kr_description :: "string option"
  kr_type :: resource_type
  kr_status :: resource_status
  kr_capacity :: int
  kr_location :: string
  kr_amenities :: "string list"
  kr_requiresApproval :: bool
  kr_operatingDays :: "int list"
  kr_opensAt :: string
  kr_closesAt :: string
  kr_buildingCode :: string
  kr_closures :: "catalog_closure list"

record catalog =
  kt_buildings :: "catalog_building list"
  kt_resources :: "catalog_resource list"

section \<open>The data\<close>

definition WEEKDAYS :: "int list" where "WEEKDAYS = [1, 2, 3, 4, 5]"
definition MON_SAT :: "int list" where "MON_SAT = [1, 2, 3, 4, 5, 6]"
definition ALL_WEEK :: "int list" where "ALL_WEEK = [0, 1, 2, 3, 4, 5, 6]"
definition WEEKEND :: "int list" where "WEEKEND = [0, 6]"
definition TUE_THU :: "int list" where "TUE_THU = [2, 4]"
definition MON_WED_FRI :: "int list" where "MON_WED_FRI = [1, 3, 5]"
definition FRI_SAT :: "int list" where "FRI_SAT = [5, 6]"

definition catalog_buildings :: "catalog_building list" where
  "catalog_buildings =
    [\<lparr>kb_code = ''LHC'', kb_name = ''Lecture Hall Complex'', kb_address = ''Lecture Hall Complex, USTH Campus, Hanoi''\<rparr>,
     \<lparr>kb_code = ''LCM'', kb_name = ''Learning Commons'', kb_address = ''Learning Commons, USTH Campus, Hanoi''\<rparr>,
     \<lparr>kb_code = ''SIC'', kb_name = ''Science and Innovation Centre'', kb_address = ''Science and Innovation Centre, USTH Campus, Hanoi''\<rparr>,
     \<lparr>kb_code = ''EWB'', kb_name = ''Engineering Workshop Block'', kb_address = ''Engineering Workshop Block, USTH Campus, Hanoi''\<rparr>,
     \<lparr>kb_code = ''SEO'', kb_name = ''Space and Earth Observation Centre'', kb_address = ''Space and Earth Observation Centre, USTH Campus, Hanoi''\<rparr>,
     \<lparr>kb_code = ''SMH'', kb_name = ''Student Media and Equipment Hub'', kb_address = ''Student Media and Equipment Hub, USTH Campus, Hanoi''\<rparr>]"

definition lecture_hall_resources :: "catalog_resource list" where
  "lecture_hall_resources =
    [
     \<lparr>kr_code = ''LHC-AUD'', kr_name = ''Grand Auditorium'',
      kr_description = Some ''Tiered auditorium for conferences, guest lectures, and ceremonies. Bookings are reviewed by campus operations.'',
      kr_type = ROOM, kr_status = ACTIVE, kr_capacity = 450, kr_location = ''Ground floor, main entrance'',
      kr_amenities = [''stage-lighting'', ''dual-projectors'', ''wireless-microphones'', ''lecture-capture'', ''hearing-loop'', ''wheelchair-seating''],
      kr_requiresApproval = True, kr_operatingDays = MON_SAT, kr_opensAt = ''07:00'', kr_closesAt = ''22:00'',
      kr_buildingCode = ''LHC'', kr_closures = [\<lparr>kc_dayOffset = 14, kc_reason = ''Graduation ceremony rehearsal''\<rparr>]\<rparr>,
     \<lparr>kr_code = ''LHC-H101'', kr_name = ''Lecture Hall H101'',
      kr_description = Some ''Tiered lecture hall with a lectern and document camera.'',
      kr_type = ROOM, kr_status = ACTIVE, kr_capacity = 220, kr_location = ''First floor, east wing'',
      kr_amenities = [''projector'', ''pa-system'', ''document-camera'', ''tiered-seating''],
      kr_requiresApproval = False, kr_operatingDays = WEEKDAYS, kr_opensAt = ''07:00'', kr_closesAt = ''19:00'',
      kr_buildingCode = ''LHC'', kr_closures = [\<lparr>kc_dayOffset = 10, kc_reason = ''Mid-term examination period''\<rparr>]\<rparr>,
     \<lparr>kr_code = ''LHC-H102'', kr_name = ''Lecture Hall H102'',
      kr_description = Some ''Mid-sized lecture hall used for evening courses and review sessions.'',
      kr_type = ROOM, kr_status = ACTIVE, kr_capacity = 160, kr_location = ''First floor, west wing'',
      kr_amenities = [''projector'', ''pa-system'', ''lecture-capture''],
      kr_requiresApproval = False, kr_operatingDays = MON_SAT, kr_opensAt = ''07:00'', kr_closesAt = ''21:00'',
      kr_buildingCode = ''LHC'', kr_closures = [\<lparr>kc_dayOffset = 11, kc_reason = ''Mid-term examination period''\<rparr>]\<rparr>,
     \<lparr>kr_code = ''LHC-C201'', kr_name = ''Classroom C201'',
      kr_description = Some ''Flexible classroom with movable desks for group work.'',
      kr_type = ROOM, kr_status = ACTIVE, kr_capacity = 48, kr_location = ''Second floor'',
      kr_amenities = [''whiteboard'', ''projector'', ''movable-desks''],
      kr_requiresApproval = False, kr_operatingDays = WEEKDAYS, kr_opensAt = ''08:00'', kr_closesAt = ''18:00'',
      kr_buildingCode = ''LHC'', kr_closures = []\<rparr>,
     \<lparr>kr_code = ''LHC-C202'', kr_name = ''Classroom C202'',
      kr_description = Some ''Standard classroom. Temporarily unavailable while the air-conditioning is replaced.'',
      kr_type = ROOM, kr_status = MAINTENANCE, kr_capacity = 40, kr_location = ''Second floor'',
      kr_amenities = [''whiteboard'', ''projector''],
      kr_requiresApproval = False, kr_operatingDays = WEEKDAYS, kr_opensAt = ''08:00'', kr_closesAt = ''18:00'',
      kr_buildingCode = ''LHC'', kr_closures = []\<rparr>,
     \<lparr>kr_code = ''LHC-C203'', kr_name = ''Language Practice Classroom C203'',
      kr_description = Some ''Afternoon-only classroom with headsets for language and pronunciation practice.'',
      kr_type = ROOM, kr_status = ACTIVE, kr_capacity = 30, kr_location = ''Second floor'',
      kr_amenities = [''headsets'', ''audio-console'', ''whiteboard''],
      kr_requiresApproval = False, kr_operatingDays = MON_SAT, kr_opensAt = ''13:00'', kr_closesAt = ''17:00'',
      kr_buildingCode = ''LHC'', kr_closures = []\<rparr>,
     \<lparr>kr_code = ''LHC-S301'', kr_name = ''Seminar Room S301'',
      kr_description = Some ''Round-table seminar room with hybrid meeting equipment.'',
      kr_type = ROOM, kr_status = ACTIVE, kr_capacity = 24, kr_location = ''Third floor'',
      kr_amenities = [''round-table'', ''smart-display'', ''video-conferencing''],
      kr_requiresApproval = False, kr_operatingDays = MON_SAT, kr_opensAt = ''08:00'', kr_closesAt = ''20:00'',
      kr_buildingCode = ''LHC'', kr_closures = []\<rparr>,
     \<lparr>kr_code = ''LHC-ATRIUM'', kr_name = ''Atrium Multipurpose Event Space'',
      kr_description = Some ''Open atrium for exhibitions, club fairs, and receptions. Layout and catering requests are confirmed during approval.'',
      kr_type = ROOM, kr_status = ACTIVE, kr_capacity = 250, kr_location = ''Ground floor atrium'',
      kr_amenities = [''modular-staging'', ''pa-system'', ''led-wall'', ''catering-area'', ''flexible-seating''],
      kr_requiresApproval = True, kr_operatingDays = ALL_WEEK, kr_opensAt = ''08:00'', kr_closesAt = ''23:00'',
      kr_buildingCode = ''LHC'', kr_closures = []\<rparr>]"

definition learning_commons_resources :: "catalog_resource list" where
  "learning_commons_resources =
    [
     \<lparr>kr_code = ''LCM-G01'', kr_name = ''Group Study Room G01'',
      kr_description = Some ''Late-opening group study room close to the library desk.'',
      kr_type = ROOM, kr_status = ACTIVE, kr_capacity = 6, kr_location = ''Ground floor, library side'',
      kr_amenities = [''whiteboard'', ''display''],
      kr_requiresApproval = False, kr_operatingDays = ALL_WEEK, kr_opensAt = ''07:00'', kr_closesAt = ''23:00'',
      kr_buildingCode = ''LCM'', kr_closures = [\<lparr>kc_dayOffset = 3, kc_reason = ''Deep cleaning of carpets''\<rparr>]\<rparr>,
     \<lparr>kr_code = ''LCM-G02'', kr_name = ''Group Study Room G02'',
      kr_description = Some ''Compact study room for pairs and small project teams.'',
      kr_type = ROOM, kr_status = ACTIVE, kr_capacity = 4, kr_location = ''Ground floor, library side'',
      kr_amenities = [''whiteboard''],
      kr_requiresApproval = False, kr_operatingDays = ALL_WEEK, kr_opensAt = ''07:00'', kr_closesAt = ''22:00'',
      kr_buildingCode = ''LCM'', kr_closures = []\<rparr>,
     \<lparr>kr_code = ''LCM-G03'', kr_name = ''Group Study Room G03'',
      kr_description = None,
      kr_type = ROOM, kr_status = ACTIVE, kr_capacity = 8, kr_location = ''First floor'',
      kr_amenities = [],
      kr_requiresApproval = False, kr_operatingDays = MON_SAT, kr_opensAt = ''07:00'', kr_closesAt = ''22:00'',
      kr_buildingCode = ''LCM'', kr_closures = []\<rparr>,
     \<lparr>kr_code = ''LCM-POD1'', kr_name = ''Quiet Study Pod 1'',
      kr_description = Some ''Enclosed single-person pod for focused study or online interviews.'',
      kr_type = ROOM, kr_status = ACTIVE, kr_capacity = 1, kr_location = ''Second floor, silent zone'',
      kr_amenities = [''desk-lamp'', ''power-outlet'', ''noise-dampening''],
      kr_requiresApproval = False, kr_operatingDays = ALL_WEEK, kr_opensAt = ''06:00'', kr_closesAt = ''23:00'',
      kr_buildingCode = ''LCM'', kr_closures = []\<rparr>,
     \<lparr>kr_code = ''LCM-POD2'', kr_name = ''Quiet Study Pod 2'',
      kr_description = Some ''Single-person pod retired from service pending replacement.'',
      kr_type = ROOM, kr_status = INACTIVE, kr_capacity = 1, kr_location = ''Second floor, silent zone'',
      kr_amenities = [''desk-lamp'', ''power-outlet''],
      kr_requiresApproval = False, kr_operatingDays = ALL_WEEK, kr_opensAt = ''06:00'', kr_closesAt = ''23:00'',
      kr_buildingCode = ''LCM'', kr_closures = []\<rparr>,
     \<lparr>kr_code = ''LCM-M01'', kr_name = ''Meeting Room M01'',
      kr_description = Some ''Meeting room for student clubs and project reviews. Requests are approved by Learning Commons staff.'',
      kr_type = ROOM, kr_status = ACTIVE, kr_capacity = 12, kr_location = ''First floor'',
      kr_amenities = [''conference-phone'', ''smart-display'', ''whiteboard''],
      kr_requiresApproval = True, kr_operatingDays = WEEKDAYS, kr_opensAt = ''08:00'', kr_closesAt = ''17:00'',
      kr_buildingCode = ''LCM'', kr_closures = []\<rparr>,
     \<lparr>kr_code = ''LCM-REC'', kr_name = ''Recording Booth'',
      kr_description = Some ''Acoustically treated booth for podcasts and voice-overs, open to students on weekends.'',
      kr_type = ROOM, kr_status = ACTIVE, kr_capacity = 3, kr_location = ''Basement, media corridor'',
      kr_amenities = [''condenser-microphones'', ''audio-interface'', ''acoustic-panels''],
      kr_requiresApproval = True, kr_operatingDays = WEEKEND, kr_opensAt = ''09:00'', kr_closesAt = ''18:00'',
      kr_buildingCode = ''LCM'', kr_closures = []\<rparr>]"

definition science_centre_resources :: "catalog_resource list" where
  "science_centre_resources =
    [
     \<lparr>kr_code = ''SIC-CHEM1'', kr_name = ''General Chemistry Laboratory'',
      kr_description = Some ''Teaching laboratory for practical chemistry sessions. Lab coat and goggles required.'',
      kr_type = LABORATORY, kr_status = ACTIVE, kr_capacity = 30, kr_location = ''First floor, room 110'',
      kr_amenities = [''fume-hoods'', ''safety-shower'', ''eyewash-station'', ''analytical-balances''],
      kr_requiresApproval = True, kr_operatingDays = WEEKDAYS, kr_opensAt = ''08:00'', kr_closesAt = ''17:00'',
      kr_buildingCode = ''SIC'', kr_closures = [\<lparr>kc_dayOffset = 7, kc_reason = ''Annual fume hood safety inspection''\<rparr>]\<rparr>,
     \<lparr>kr_code = ''SIC-BIO1'', kr_name = ''Molecular Biology Laboratory'',
      kr_description = Some ''Supervised laboratory for DNA extraction, PCR, and electrophoresis.'',
      kr_type = LABORATORY, kr_status = ACTIVE, kr_capacity = 20, kr_location = ''Second floor, room 205'',
      kr_amenities = [''biosafety-cabinet'', ''pcr-thermocycler'', ''centrifuge'', ''ultra-low-freezer''],
      kr_requiresApproval = True, kr_operatingDays = WEEKDAYS, kr_opensAt = ''07:00'', kr_closesAt = ''18:00'',
      kr_buildingCode = ''SIC'', kr_closures = []\<rparr>,
     \<lparr>kr_code = ''SIC-MICRO'', kr_name = ''Microbiology Laboratory'',
      kr_description = Some ''Containment laboratory for culture work. Closed while biosafety cabinets are recertified.'',
      kr_type = LABORATORY, kr_status = MAINTENANCE, kr_capacity = 16, kr_location = ''Second floor, room 212'',
      kr_amenities = [''biosafety-cabinet'', ''autoclave'', ''incubators''],
      kr_requiresApproval = True, kr_operatingDays = WEEKDAYS, kr_opensAt = ''08:00'', kr_closesAt = ''17:00'',
      kr_buildingCode = ''SIC'', kr_closures = []\<rparr>,
     \<lparr>kr_code = ''SIC-PHYS'', kr_name = ''Physics and Optics Laboratory'',
      kr_description = Some ''Optics benches and a darkroom for interference and spectroscopy experiments.'',
      kr_type = LABORATORY, kr_status = ACTIVE, kr_capacity = 24, kr_location = ''Third floor, room 301'',
      kr_amenities = [''optical-tables'', ''laser-safety-eyewear'', ''darkroom''],
      kr_requiresApproval = True, kr_operatingDays = MON_WED_FRI, kr_opensAt = ''08:00'', kr_closesAt = ''17:00'',
      kr_buildingCode = ''SIC'', kr_closures = []\<rparr>,
     \<lparr>kr_code = ''SIC-PHARM'', kr_name = ''Pharmacology Laboratory'',
      kr_description = Some ''Morning-only sessions for formulation and dissolution practicals.'',
      kr_type = LABORATORY, kr_status = ACTIVE, kr_capacity = 18, kr_location = ''Third floor, room 315'',
      kr_amenities = [''hplc-system'', ''dissolution-tester'', ''laminar-flow-hood''],
      kr_requiresApproval = True, kr_operatingDays = TUE_THU, kr_opensAt = ''08:00'', kr_closesAt = ''12:00'',
      kr_buildingCode = ''SIC'', kr_closures = []\<rparr>,
     \<lparr>kr_code = ''SIC-MAT'', kr_name = ''Materials Characterisation Laboratory'',
      kr_description = Some ''Sample preparation and mechanical testing for materials science projects.'',
      kr_type = LABORATORY, kr_status = ACTIVE, kr_capacity = 12, kr_location = ''Ground floor, room 020'',
      kr_amenities = [''tensile-tester'', ''polishing-station'', ''hardness-tester''],
      kr_requiresApproval = True, kr_operatingDays = WEEKDAYS, kr_opensAt = ''09:00'', kr_closesAt = ''17:00'',
      kr_buildingCode = ''SIC'', kr_closures = []\<rparr>,
     \<lparr>kr_code = ''SIC-ENV'', kr_name = ''Environmental and Water Quality Laboratory'',
      kr_description = Some ''Water sampling and analysis laboratory with Saturday access for field campaigns.'',
      kr_type = LABORATORY, kr_status = ACTIVE, kr_capacity = 16, kr_location = ''Ground floor, room 030'',
      kr_amenities = [''water-sampling-kits'', ''ph-meters'', ''turbidity-meters'', ''field-coolers''],
      kr_requiresApproval = True, kr_operatingDays = MON_SAT, kr_opensAt = ''07:00'', kr_closesAt = ''16:00'',
      kr_buildingCode = ''SIC'', kr_closures = []\<rparr>,
     \<lparr>kr_code = ''SIC-ENERGY'', kr_name = ''Renewable Energy Laboratory'',
      kr_description = Some ''Photovoltaic and battery testing benches for energy engineering courses.'',
      kr_type = LABORATORY, kr_status = ACTIVE, kr_capacity = 20, kr_location = ''Fourth floor, room 402'',
      kr_amenities = [''solar-simulator'', ''battery-test-bench'', ''power-analyzers''],
      kr_requiresApproval = True, kr_operatingDays = WEEKDAYS, kr_opensAt = ''08:00'', kr_closesAt = ''18:00'',
      kr_buildingCode = ''SIC'', kr_closures = []\<rparr>,
     \<lparr>kr_code = ''SIC-MICROSCOPE-01'', kr_name = ''Fluorescence Microscope'',
      kr_description = Some ''Research-grade fluorescence microscope. Training sign-off required before first use.'',
      kr_type = EQUIPMENT, kr_status = ACTIVE, kr_capacity = 1, kr_location = ''Imaging room 214'',
      kr_amenities = [''camera-module'', ''image-analysis-software''],
      kr_requiresApproval = True, kr_operatingDays = WEEKDAYS, kr_opensAt = ''09:00'', kr_closesAt = ''17:00'',
      kr_buildingCode = ''SIC'', kr_closures = []\<rparr>,
     \<lparr>kr_code = ''SIC-SPEC-01'', kr_name = ''UV-Vis Spectrophotometer'',
      kr_description = Some ''Benchtop spectrophotometer for absorbance measurements.'',
      kr_type = EQUIPMENT, kr_status = ACTIVE, kr_capacity = 1, kr_location = ''Instrument room 118'',
      kr_amenities = [''quartz-cuvettes'', ''analysis-software''],
      kr_requiresApproval = True, kr_operatingDays = MON_SAT, kr_opensAt = ''08:00'', kr_closesAt = ''17:00'',
      kr_buildingCode = ''SIC'', kr_closures = []\<rparr>]"

definition workshop_resources :: "catalog_resource list" where
  "workshop_resources =
    [
     \<lparr>kr_code = ''EWB-CL1'', kr_name = ''Computer Laboratory CL1'',
      kr_description = Some ''Open-access computer laboratory with programming and data science software.'',
      kr_type = LABORATORY, kr_status = ACTIVE, kr_capacity = 60, kr_location = ''Ground floor'',
      kr_amenities = [''workstations'', ''dual-monitors'', ''projector'', ''printing''],
      kr_requiresApproval = False, kr_operatingDays = ALL_WEEK, kr_opensAt = ''07:00'', kr_closesAt = ''23:00'',
      kr_buildingCode = ''EWB'', kr_closures = [\<lparr>kc_dayOffset = 5, kc_reason = ''Software image update and deep cleaning''\<rparr>]\<rparr>,
     \<lparr>kr_code = ''EWB-CL2'', kr_name = ''Computer Laboratory CL2'',
      kr_description = Some ''Linux teaching laboratory for systems and networking.'',
      kr_type = LABORATORY, kr_status = ACTIVE, kr_capacity = 40, kr_location = ''First floor'',
      kr_amenities = [''workstations'', ''linux-images'', ''network-rack'', ''projector''],
      kr_requiresApproval = False, kr_operatingDays = MON_SAT, kr_opensAt = ''08:00'', kr_closesAt = ''20:00'',
      kr_buildingCode = ''EWB'', kr_closures = []\<rparr>,
     \<lparr>kr_code = ''EWB-ELEC'', kr_name = ''Electronics Laboratory'',
      kr_description = Some ''Circuit prototyping benches with soldering and test gear.'',
      kr_type = LABORATORY, kr_status = ACTIVE, kr_capacity = 28, kr_location = ''Second floor'',
      kr_amenities = [''soldering-stations'', ''bench-power-supplies'', ''function-generators'', ''esd-mats''],
      kr_requiresApproval = True, kr_operatingDays = WEEKDAYS, kr_opensAt = ''08:00'', kr_closesAt = ''18:00'',
      kr_buildingCode = ''EWB'', kr_closures = []\<rparr>,
     \<lparr>kr_code = ''EWB-ROBO'', kr_name = ''Robotics and Automation Laboratory'',
      kr_description = Some ''Robot arms and a fenced test arena for automation and control projects.'',
      kr_type = LABORATORY, kr_status = ACTIVE, kr_capacity = 15, kr_location = ''Ground floor, high bay'',
      kr_amenities = [''robot-arms'', ''motion-capture'', ''test-arena''],
      kr_requiresApproval = True, kr_operatingDays = MON_SAT, kr_opensAt = ''09:00'', kr_closesAt = ''21:00'',
      kr_buildingCode = ''EWB'', kr_closures = []\<rparr>,
     \<lparr>kr_code = ''EWB-MAKER'', kr_name = ''Maker Space'',
      kr_description = Some ''Open fabrication space with hand tools and laser cutting for student projects.'',
      kr_type = LABORATORY, kr_status = ACTIVE, kr_capacity = 20, kr_location = ''Ground floor, workshop'',
      kr_amenities = [''laser-cutter'', ''hand-tools'', ''workbenches''],
      kr_requiresApproval = False, kr_operatingDays = ALL_WEEK, kr_opensAt = ''10:00'', kr_closesAt = ''22:00'',
      kr_buildingCode = ''EWB'', kr_closures = []\<rparr>,
     \<lparr>kr_code = ''EWB-3DP-01'', kr_name = ''Resin 3D Printer'',
      kr_description = Some ''High-detail resin printer. Staff review print files before approval.'',
      kr_type = EQUIPMENT, kr_status = ACTIVE, kr_capacity = 1, kr_location = ''Maker Space fabrication bay'',
      kr_amenities = [''wash-station'', ''uv-curing-unit''],
      kr_requiresApproval = True, kr_operatingDays = ALL_WEEK, kr_opensAt = ''08:00'', kr_closesAt = ''22:00'',
      kr_buildingCode = ''EWB'', kr_closures = []\<rparr>,
     \<lparr>kr_code = ''EWB-OSC-01'', kr_name = ''Digital Oscilloscope'',
      kr_description = Some ''Four-channel oscilloscope available for bench loans.'',
      kr_type = EQUIPMENT, kr_status = ACTIVE, kr_capacity = 1, kr_location = ''Electronics Laboratory store'',
      kr_amenities = [''passive-probes'', ''usb-logging''],
      kr_requiresApproval = False, kr_operatingDays = WEEKDAYS, kr_opensAt = ''08:00'', kr_closesAt = ''18:00'',
      kr_buildingCode = ''EWB'', kr_closures = []\<rparr>]"

definition observation_resources :: "catalog_resource list" where
  "observation_resources =
    [
     \<lparr>kr_code = ''SEO-RS'', kr_name = ''Remote Sensing Laboratory'',
      kr_description = Some ''GIS workstations for satellite image processing and mapping projects.'',
      kr_type = LABORATORY, kr_status = ACTIVE, kr_capacity = 22, kr_location = ''First floor'',
      kr_amenities = [''gis-workstations'', ''satellite-data-access'', ''large-format-display''],
      kr_requiresApproval = True, kr_operatingDays = WEEKDAYS, kr_opensAt = ''08:00'', kr_closesAt = ''17:00'',
      kr_buildingCode = ''SEO'', kr_closures = []\<rparr>,
     \<lparr>kr_code = ''SEO-GS'', kr_name = ''Ground Station Control Room'',
      kr_description = Some ''Control room for tracking satellite passes, available around the clock by approval.'',
      kr_type = LABORATORY, kr_status = ACTIVE, kr_capacity = 8, kr_location = ''Rooftop level'',
      kr_amenities = [''tracking-antenna'', ''sdr-receivers'', ''telemetry-consoles''],
      kr_requiresApproval = True, kr_operatingDays = ALL_WEEK, kr_opensAt = ''00:00'', kr_closesAt = ''23:00'',
      kr_buildingCode = ''SEO'', kr_closures = [\<lparr>kc_dayOffset = 21, kc_reason = ''Antenna calibration''\<rparr>]\<rparr>,
     \<lparr>kr_code = ''SEO-CLEAN'', kr_name = ''CubeSat Integration Cleanroom'',
      kr_description = Some ''Cleanroom for small-satellite assembly. Gowning briefing required.'',
      kr_type = LABORATORY, kr_status = ACTIVE, kr_capacity = 6, kr_location = ''Ground floor, integration hall'',
      kr_amenities = [''iso-7-cleanroom'', ''esd-protection'', ''thermal-chamber''],
      kr_requiresApproval = True, kr_operatingDays = TUE_THU, kr_opensAt = ''09:00'', kr_closesAt = ''16:00'',
      kr_buildingCode = ''SEO'', kr_closures = []\<rparr>,
     \<lparr>kr_code = ''SEO-OBS'', kr_name = ''Rooftop Observatory Deck'',
      kr_description = Some ''Evening observing sessions for astronomy courses and clubs, weather permitting.'',
      kr_type = LABORATORY, kr_status = ACTIVE, kr_capacity = 10, kr_location = ''Roof terrace'',
      kr_amenities = [''telescope-mounts'', ''red-light-kit''],
      kr_requiresApproval = True, kr_operatingDays = FRI_SAT, kr_opensAt = ''18:00'', kr_closesAt = ''23:00'',
      kr_buildingCode = ''SEO'', kr_closures = []\<rparr>]"

definition media_hub_resources :: "catalog_resource list" where
  "media_hub_resources =
    [
     \<lparr>kr_code = ''SMH-PROJ-4K'', kr_name = ''Portable 4K Projector'',
      kr_description = Some ''Compact projector for presentations outside lecture halls.'',
      kr_type = EQUIPMENT, kr_status = ACTIVE, kr_capacity = 1, kr_location = ''Equipment loan desk'',
      kr_amenities = [''hdmi-cable'', ''usb-c-adapter'', ''carry-case''],
      kr_requiresApproval = False, kr_operatingDays = WEEKDAYS, kr_opensAt = ''08:00'', kr_closesAt = ''18:00'',
      kr_buildingCode = ''SMH'', kr_closures = []\<rparr>,
     \<lparr>kr_code = ''SMH-CAM-01'', kr_name = ''Mirrorless Camera Kit'',
      kr_description = Some ''Camera kit for photo and video coursework.'',
      kr_type = EQUIPMENT, kr_status = ACTIVE, kr_capacity = 1, kr_location = ''Equipment loan desk'',
      kr_amenities = [''zoom-lens'', ''tripod'', ''spare-batteries'', ''sd-cards''],
      kr_requiresApproval = True, kr_operatingDays = MON_SAT, kr_opensAt = ''08:00'', kr_closesAt = ''20:00'',
      kr_buildingCode = ''SMH'', kr_closures = []\<rparr>,
     \<lparr>kr_code = ''SMH-DRONE-01'', kr_name = ''Survey Drone'',
      kr_description = Some ''Mapping drone for supervised field surveys. A trained pilot must attend each flight.'',
      kr_type = EQUIPMENT, kr_status = ACTIVE, kr_capacity = 1, kr_location = ''Secure equipment cage'',
      kr_amenities = [''rtk-module'', ''spare-propellers'', ''flight-case''],
      kr_requiresApproval = True, kr_operatingDays = WEEKDAYS, kr_opensAt = ''08:00'', kr_closesAt = ''16:00'',
      kr_buildingCode = ''SMH'', kr_closures = [\<lparr>kc_dayOffset = 4, kc_reason = ''Firmware update and airworthiness check''\<rparr>]\<rparr>,
     \<lparr>kr_code = ''SMH-VR-SET'', kr_name = ''VR Headset Set'',
      kr_description = Some ''Set of six standalone VR headsets for immersive teaching.'',
      kr_type = EQUIPMENT, kr_status = ACTIVE, kr_capacity = 6, kr_location = ''Equipment loan desk'',
      kr_amenities = [''six-headsets'', ''charging-case'', ''hygiene-covers''],
      kr_requiresApproval = True, kr_operatingDays = MON_SAT, kr_opensAt = ''09:00'', kr_closesAt = ''19:00'',
      kr_buildingCode = ''SMH'', kr_closures = []\<rparr>,
     \<lparr>kr_code = ''SMH-LAPTOP-CART'', kr_name = ''Laptop Cart'',
      kr_description = Some ''Mobile cart of thirty laptops for in-class assessments and workshops.'',
      kr_type = EQUIPMENT, kr_status = ACTIVE, kr_capacity = 30, kr_location = ''Equipment store, ground floor'',
      kr_amenities = [''thirty-laptops'', ''charging-cart'', ''preconfigured-wifi''],
      kr_requiresApproval = False, kr_operatingDays = WEEKDAYS, kr_opensAt = ''07:00'', kr_closesAt = ''18:00'',
      kr_buildingCode = ''SMH'', kr_closures = []\<rparr>,
     \<lparr>kr_code = ''SMH-PA-01'', kr_name = ''Portable PA System'',
      kr_description = Some ''Battery-powered speaker set for outdoor and club events.'',
      kr_type = EQUIPMENT, kr_status = ACTIVE, kr_capacity = 1, kr_location = ''Equipment loan desk'',
      kr_amenities = [''wireless-microphones'', ''speaker-stands'', ''mixer''],
      kr_requiresApproval = False, kr_operatingDays = ALL_WEEK, kr_opensAt = ''07:00'', kr_closesAt = ''23:00'',
      kr_buildingCode = ''SMH'', kr_closures = []\<rparr>]"

definition DEMO_CATALOG :: catalog where
  "DEMO_CATALOG =
     \<lparr>kt_buildings = catalog_buildings,
      kt_resources = lecture_hall_resources @ learning_commons_resources @ science_centre_resources @
        workshop_resources @ observation_resources @ media_hub_resources\<rparr>"

section \<open>Validation\<close>

definition RESERVED_BUILDING_CODES :: "string list" where
  "RESERVED_BUILDING_CODES = [''MAIN'', ''LAB'', ''DEMO'']"

definition RESERVED_RESOURCE_CODES :: "string list" where
  "RESERVED_RESOURCE_CODES = [''ROOM-A101'', ''ROOM-A102'', ''LAB-L201'', ''EQUIP-PROJ-01'']"

definition RESERVED_RESOURCE_PREFIX :: string where
  "RESERVED_RESOURCE_PREFIX = ''DEMO-''"

definition MAX_AMENITIES :: nat where "MAX_AMENITIES = 20"
definition MAX_CLOSURE_OFFSET_DAYS :: int where "MAX_CLOSURE_OFFSET_DAYS = 365"

text \<open>\<open>/^[A-Z0-9]+(?:-[A-Z0-9]+)*$/\<close> and \<open>/^[a-z0-9]+(?:-[a-z0-9]+)*$/\<close>\<close>

definition catalog_code_char :: "char \<Rightarrow> bool" where
  "catalog_code_char c \<longleftrightarrow> is_digit c \<or> (let n = (of_char c :: nat) in 65 \<le> n \<and> n \<le> 90)"

definition lower_kebab_char :: "char \<Rightarrow> bool" where
  "lower_kebab_char c \<longleftrightarrow> is_digit c \<or> (let n = (of_char c :: nat) in 97 \<le> n \<and> n \<le> 122)"

definition hyphenated :: "(char \<Rightarrow> bool) \<Rightarrow> string \<Rightarrow> bool" where
  "hyphenated ok s \<longleftrightarrow> (\<forall>part\<in>set (js_split CHR ''-'' s). part \<noteq> [] \<and> (\<forall>c\<in>set part. ok c))"

definition hasText :: "string \<Rightarrow> nat \<Rightarrow> nat \<Rightarrow> bool" where
  "hasText value m n \<longleftrightarrow> CHR 0x00 \<notin> set value \<and> value = js_trim value \<and> m \<le> length value \<and> length value \<le> n"

text \<open>\<open>if (bad) errors.push(message)\<close>\<close>

definition problem :: "bool \<Rightarrow> string \<Rightarrow> string list" where
  "problem bad message = (if bad then [message] else [])"

definition building_problems :: "string set \<Rightarrow> catalog_building \<Rightarrow> string list" where
  "building_problems seen b =
     (let label = ''building '' @ kb_code b in
      problem (\<not> hasText (kb_code b) 2 20 \<or> \<not> hyphenated catalog_code_char (kb_code b))
        (label @ '': code must be 2-20 uppercase letters/digits'') @
      problem (kb_code b \<in> set RESERVED_BUILDING_CODES) (label @ '': code is reserved'') @
      problem (kb_code b \<in> seen) (label @ '': duplicate code'') @
      problem (\<not> hasText (kb_name b) 2 120) (label @ '': name must be 2-120 trimmed characters'') @
      problem (\<not> hasText (kb_address b) 2 255) (label @ '': address must be 2-255 trimmed characters''))"

fun all_building_problems :: "string set \<Rightarrow> catalog_building list \<Rightarrow> string list" where
  "all_building_problems seen [] = []"
| "all_building_problems seen (b # bs) =
     building_problems seen b @ all_building_problems (insert (kb_code b) seen) bs"

fun closure_problems :: "string \<Rightarrow> int set \<Rightarrow> catalog_closure list \<Rightarrow> string list" where
  "closure_problems label offsets [] = []"
| "closure_problems label offsets (c # cs) =
     problem (kc_dayOffset c < 1 \<or> MAX_CLOSURE_OFFSET_DAYS < kc_dayOffset c)
       (label @ '': closure dayOffset must be an integer from 1 to 365'') @
     problem (kc_dayOffset c \<in> offsets) (label @ '': duplicate closure dayOffset'') @
     problem (\<not> hasText (kc_reason c) 2 255) (label @ '': closure reason must be 2-255 trimmed characters'') @
     closure_problems label (insert (kc_dayOffset c) offsets) cs"

definition amenity_problems :: "string \<Rightarrow> string list \<Rightarrow> string list" where
  "amenity_problems label amenities =
     problem (MAX_AMENITIES < length amenities) (label @ '': at most 20 amenities'') @
     problem (\<not> distinct amenities) (label @ '': duplicate amenities'') @
     concat (map (\<lambda>a. problem (\<not> hasText a 1 50 \<or> \<not> hyphenated lower_kebab_char a)
       (label @ '': amenity '' @ [CHR 0x22] @ a @ [CHR 0x22] @ '' must be 1-50 lowercase kebab-case characters'')) amenities)"

definition hours_problems :: "string \<Rightarrow> string \<Rightarrow> string \<Rightarrow> string list" where
  "hours_problems label opensAt closesAt =
     (if \<not> hour_pattern opensAt \<or> \<not> hour_pattern closesAt
      then [label @ '': opensAt/closesAt must be whole hours 00:00-23:00'']
      else problem (closesAt \<le> opensAt) (label @ '': opensAt must be before closesAt''))"

text \<open>
  The checks that a type, a status, a whole capacity or a boolean is one are those of the model's types.
\<close>

definition resource_problems :: "string set \<Rightarrow> string set \<Rightarrow> catalog_resource \<Rightarrow> string list" where
  "resource_problems buildingCodes seen r =
     (let label = ''resource '' @ kr_code r; days = kr_operatingDays r in
      problem (\<not> hasText (kr_code r) 2 30 \<or> \<not> hyphenated catalog_code_char (kr_code r))
        (label @ '': code must be 2-30 uppercase letters, digits, and single hyphens'') @
      problem (kr_code r \<in> set RESERVED_RESOURCE_CODES \<or> js_startsWith (kr_code r) RESERVED_RESOURCE_PREFIX)
        (label @ '': code is reserved'') @
      problem (kr_code r \<in> seen) (label @ '': duplicate code'') @
      problem (\<not> hasText (kr_name r) 2 120) (label @ '': name must be 2-120 trimmed characters'') @
      problem (case kr_description r of None \<Rightarrow> False | Some s \<Rightarrow> \<not> hasText s 1 1000)
        (label @ '': description must be null or 1-1000 characters'') @
      problem (kr_capacity r < 1 \<or> 10000 < kr_capacity r) (label @ '': capacity must be an integer from 1 to 10000'') @
      problem (\<not> hasText (kr_location r) 2 120) (label @ '': location must be 2-120 trimmed characters'') @
      amenity_problems label (kr_amenities r) @
      problem (length days < 1 \<or> 7 < length days \<or> \<not> distinct days \<or> \<not> list_all (\<lambda>day. 0 \<le> day \<and> day \<le> 6) days)
        (label @ '': operatingDays must be 1-7 unique integers from 0 (Sunday) to 6'') @
      hours_problems label (kr_opensAt r) (kr_closesAt r) @
      problem (kr_buildingCode r \<notin> buildingCodes) (label @ '': unknown building '' @ kr_buildingCode r) @
      closure_problems label {} (kr_closures r))"

fun all_resource_problems :: "string set \<Rightarrow> string set \<Rightarrow> catalog_resource list \<Rightarrow> string list" where
  "all_resource_problems buildingCodes seen [] = []"
| "all_resource_problems buildingCodes seen (r # rs) =
     resource_problems buildingCodes seen r @ all_resource_problems buildingCodes (insert (kr_code r) seen) rs"

text \<open>A JavaScript set keeps the first occurrence.\<close>

definition validateCatalog :: "catalog \<Rightarrow> string list" where
  "validateCatalog catalog =
     (let codes = rev (remdups (rev (map kb_code (kt_buildings catalog)))) in
      all_building_problems {} (kt_buildings catalog) @
      all_resource_problems (set codes) {} (kt_resources catalog) @
      concat (map (\<lambda>code. problem (code \<notin> kr_buildingCode ` set (kt_resources catalog))
        (''building '' @ code @ '': has no resources'')) codes))"

section \<open>The date of a closure\<close>

definition weekdayOf :: "string \<Rightarrow> int" where
  "weekdayOf date =
     (case date_numbers date of
        Some (year, month, day) \<Rightarrow> week_day (date_utc year (month - 1) day)
      | None \<Rightarrow> 0)"

definition addDays :: "string \<Rightarrow> int \<Rightarrow> string" where
  "addDays date days =
     (case date_numbers date of
        Some (year, month, day) \<Rightarrow> js_slice 0 10 (toISOString (date_utc year (month - 1) (day + days) * 86400000))
      | None \<Rightarrow> [])"

text \<open>The loop, with the steps it has left.\<close>

fun closure_search :: "nat \<Rightarrow> int list \<Rightarrow> string \<Rightarrow> string option" where
  "closure_search 0 operatingDays date = None"
| "closure_search (Suc steps) operatingDays date =
     (if weekdayOf date \<in> set operatingDays then Some date
      else closure_search steps operatingDays (addDays date 1))"

definition resolveClosureDate :: "string \<Rightarrow> int \<Rightarrow> int list \<Rightarrow> string" where
  "resolveClosureDate today dayOffset operatingDays =
     (case closure_search 7 operatingDays (addDays today dayOffset) of
        Some date \<Rightarrow> date
      | None \<Rightarrow> addDays today dayOffset)"

section \<open>Importing\<close>

definition ACTIVE_BOOKING_STATUSES :: "booking_status list" where
  "ACTIVE_BOOKING_STATUSES = [PENDING, CONFIRMED, CHECKED_IN]"

text \<open>The identifiers the database draws for what an import inserts.\<close>

record draws =
  dr_building :: "string \<Rightarrow> string"
  dr_resource :: "string \<Rightarrow> string"
  dr_closure :: "string \<Rightarrow> string \<Rightarrow> string"

definition building_columns_ok :: "catalog_building \<Rightarrow> bool" where
  "building_columns_ok b \<longleftrightarrow>
     pg_varchar 20 (kb_code b) \<and> pg_varchar 120 (kb_name b) \<and> pg_varchar 255 (kb_address b)"

definition upsert_building :: "draws \<Rightarrow> catalog_building \<Rightarrow> db \<Rightarrow> (app_error, string \<times> db) outcome" where
  "upsert_building dr b d =
     (if \<not> building_columns_ok b then Inl (QueryFailedError ''22001'' '''')
      else case row_at bl_code (kb_code b) (buildings d) of
        Some x \<Rightarrow> Inr (bl_id x, d\<lparr>buildings :=
          patch_row bl_code (kb_code b) (\<lambda>x. x\<lparr>bl_name := kb_name b, bl_address := kb_address b\<rparr>) (buildings d)\<rparr>)
      | None \<Rightarrow>
          let k = dr_building dr (kb_code b) in
          if k \<in> ids bl_id (buildings d) then Inl (QueryFailedError ''23505'' ''PK_buildings_id'')
          else Inr (k, d\<lparr>buildings := buildings d @
            [\<lparr>bl_id = k, bl_code = kb_code b, bl_name = kb_name b, bl_address = kb_address b\<rparr>]\<rparr>))"

fun upsert_buildings ::
  "draws \<Rightarrow> catalog_building list \<Rightarrow> (string \<rightharpoonup> string) \<Rightarrow> db \<Rightarrow> (app_error, (string \<rightharpoonup> string) \<times> db) outcome" where
  "upsert_buildings dr [] buildingIds d = Inr (buildingIds, d)"
| "upsert_buildings dr (b # bs) buildingIds d =
     (case upsert_building dr b d of
        Inl err \<Rightarrow> Inl err
      | Inr (k, d1) \<Rightarrow> upsert_buildings dr bs (buildingIds(kb_code b \<mapsto> k)) d1)"

text \<open>The columns an upsert sets, on the row of the conflict or on the row it inserts.\<close>

definition set_catalog_columns :: "catalog_resource \<Rightarrow> string \<Rightarrow> int \<Rightarrow> resource \<Rightarrow> resource" where
  "set_catalog_columns c buildingId now r =
     r\<lparr>r_name := kr_name c, r_description := kr_description c, r_type := kr_type c, r_status := kr_status c,
       r_capacity := kr_capacity c, r_location := kr_location c, r_amenities := kr_amenities c,
       r_requiresApproval := kr_requiresApproval c, r_operatingDays := kr_operatingDays c,
       r_opensAt := kr_opensAt c, r_closesAt := kr_closesAt c, r_buildingId := buildingId, r_updatedAt := now\<rparr>"

definition catalog_row :: "string \<Rightarrow> catalog_resource \<Rightarrow> string \<Rightarrow> int \<Rightarrow> resource" where
  "catalog_row k c buildingId now =
     \<lparr>r_id = k, r_code = kr_code c, r_name = kr_name c, r_description = kr_description c, r_type = kr_type c,
      r_status = kr_status c, r_capacity = kr_capacity c, r_location = kr_location c, r_amenities = kr_amenities c,
      r_requiresApproval = kr_requiresApproval c, r_operatingDays = kr_operatingDays c, r_opensAt = kr_opensAt c,
      r_closesAt = kr_closesAt c, r_buildingId = buildingId, r_createdAt = now, r_updatedAt = now\<rparr>"

definition held :: "db \<Rightarrow> string \<Rightarrow> bool" where
  "held d k \<longleftrightarrow> (\<exists>b\<in>set (bookings d). b_resourceId b = k \<and> b_status b \<in> set ACTIVE_BOOKING_STATUSES)"

datatype upserted = INSERTED string | UPDATED string | SKIPPED string

fun upserted_id :: "upserted \<Rightarrow> string" where
  "upserted_id (INSERTED k) = k"
| "upserted_id (UPDATED k) = k"
| "upserted_id (SKIPPED k) = k"

text \<open>The proposed row is checked before the conflict on its code is looked for.\<close>

definition upsert_resource ::
  "draws \<Rightarrow> catalog_resource \<Rightarrow> string option \<Rightarrow> int \<Rightarrow> db \<Rightarrow> (app_error, upserted \<times> db) outcome" where
  "upsert_resource dr c buildingId now d =
     (case buildingId of
        None \<Rightarrow> Inl (QueryFailedError ''23502'' ''building_id'')
      | Some bid \<Rightarrow>
          let row = catalog_row (dr_resource dr (kr_code c)) c bid now in
          if \<not> resource_typed row then Inl (QueryFailedError ''22001'' '''')
          else case violated_check resource_checks row of
            Some name \<Rightarrow> Inl (QueryFailedError ''23514'' name)
          | None \<Rightarrow>
              (case row_at r_code (kr_code c) (resources d) of
                 None \<Rightarrow> map_sum id (Pair (INSERTED (r_id row))) (insert_resource row d)
               | Some r \<Rightarrow>
                   if held d (r_id r) then Inr (SKIPPED (r_id r), d)
                   else map_sum id (Pair (UPDATED (r_id r)))
                     (update_resource (r_id r) (set_catalog_columns c bid now) d)))"

definition booked_on :: "db \<Rightarrow> string \<Rightarrow> string \<Rightarrow> bool" where
  "booked_on d k date \<longleftrightarrow>
     (\<exists>b\<in>set (bookings d). b_resourceId b = k \<and> b_date b = date \<and> b_status b \<in> set ACTIVE_BOOKING_STATUSES)"

definition add_closure ::
  "draws \<Rightarrow> string \<Rightarrow> string \<Rightarrow> string \<Rightarrow> int \<Rightarrow> db \<Rightarrow> (app_error, bool \<times> db) outcome" where
  "add_closure dr k date reason now d =
     (if booked_on d k date then Inr (False, d)
      else
        let row = \<lparr>c_id = dr_closure dr k date, c_resourceId = k, c_date = date, c_reason = reason, c_createdAt = now\<rparr> in
        if \<not> closure_typed row then Inl (QueryFailedError ''22001'' '''')
        else case violated_check closure_checks row of
          Some name \<Rightarrow> Inl (QueryFailedError ''23514'' name)
        | None \<Rightarrow>
            if \<exists>x\<in>set (closures d). closure_clash row x then Inr (False, d)
            else map_sum id (Pair True) (insert_closure row d))"

record import_counts =
  ic_buildings :: nat
  ic_inserted :: nat
  ic_updated :: nat
  ic_skipped :: "string list"
  ic_closuresAdded :: nat
  ic_closuresSkipped :: nat

fun count_upsert :: "catalog_resource \<Rightarrow> upserted \<Rightarrow> import_counts \<Rightarrow> import_counts" where
  "count_upsert c (INSERTED k) n = n\<lparr>ic_inserted := Suc (ic_inserted n)\<rparr>"
| "count_upsert c (UPDATED k) n = n\<lparr>ic_updated := Suc (ic_updated n)\<rparr>"
| "count_upsert c (SKIPPED k) n = n\<lparr>ic_skipped := ic_skipped n @ [kr_code c]\<rparr>"

definition count_closure :: "bool \<Rightarrow> import_counts \<Rightarrow> import_counts" where
  "count_closure added n =
     (if added then n\<lparr>ic_closuresAdded := Suc (ic_closuresAdded n)\<rparr>
      else n\<lparr>ic_closuresSkipped := Suc (ic_closuresSkipped n)\<rparr>)"

fun add_closures ::
  "draws \<Rightarrow> string \<Rightarrow> int list \<Rightarrow> string \<Rightarrow> int \<Rightarrow> catalog_closure list \<Rightarrow> import_counts \<Rightarrow> db \<Rightarrow>
   (app_error, import_counts \<times> db) outcome" where
  "add_closures dr k days today now [] n d = Inr (n, d)"
| "add_closures dr k days today now (c # cs) n d =
     (case add_closure dr k (resolveClosureDate today (kc_dayOffset c) days) (kc_reason c) now d of
        Inl err \<Rightarrow> Inl err
      | Inr (added, d1) \<Rightarrow> add_closures dr k days today now cs (count_closure added n) d1)"

fun import_resources ::
  "draws \<Rightarrow> (string \<rightharpoonup> string) \<Rightarrow> string \<Rightarrow> int \<Rightarrow> catalog_resource list \<Rightarrow> import_counts \<Rightarrow> db \<Rightarrow>
   (app_error, import_counts \<times> db) outcome" where
  "import_resources dr buildingIds today now [] n d = Inr (n, d)"
| "import_resources dr buildingIds today now (c # cs) n d =
     (case upsert_resource dr c (buildingIds (kr_buildingCode c)) now d of
        Inl err \<Rightarrow> Inl err
      | Inr (what, d1) \<Rightarrow>
          (case add_closures dr (upserted_id what) (kr_operatingDays c) today now (kr_closures c) (count_upsert c what n) d1 of
             Inl err \<Rightarrow> Inl err
           | Inr (n1, d2) \<Rightarrow> import_resources dr buildingIds today now cs n1 d2))"

text \<open>One transaction: an error leaves the database as it was. \<open>now\<close> is its instant.\<close>

definition importCatalog :: "draws \<Rightarrow> int \<Rightarrow> catalog \<Rightarrow> db \<Rightarrow> (app_error, import_counts \<times> db) outcome" where
  "importCatalog dr now catalog d =
     (case upsert_buildings dr (kt_buildings catalog) Map.empty d of
        Inl err \<Rightarrow> Inl err
      | Inr (buildingIds, d1) \<Rightarrow>
          import_resources dr buildingIds (campusDateOf now) now (kt_resources catalog)
            \<lparr>ic_buildings = length (kt_buildings catalog), ic_inserted = 0, ic_updated = 0, ic_skipped = [],
             ic_closuresAdded = 0, ic_closuresSkipped = 0\<rparr> d1)"

section \<open>Cleaning\<close>

record clean_report =
  cl_removedResources :: "string list"
  cl_keptResources :: "string list"
  cl_removedBuildings :: "string list"
  cl_keptBuildings :: "string list"

text \<open>Closures are deleted with their resource. The lists of what is kept are ordered by \<open>collate\<close>.\<close>

definition cleanCatalog :: "(string \<Rightarrow> string) \<Rightarrow> catalog \<Rightarrow> db \<Rightarrow> clean_report \<times> db" where
  "cleanCatalog collate catalog d =
     (let listed = (\<lambda>r. r_code r \<in> kr_code ` set (kt_resources catalog));
          gone = (\<lambda>r. listed r \<and> (\<forall>b\<in>set (bookings d). b_resourceId b \<noteq> r_id r));
          d1 = d\<lparr>resources := filter (\<lambda>r. \<not> gone r) (resources d),
             closures := filter (\<lambda>c. c_resourceId c \<notin> ids r_id (filter gone (resources d))) (closures d)\<rparr>;
          own = (\<lambda>bl. bl_code bl \<in> kb_code ` set (kt_buildings catalog));
          empty = (\<lambda>bl. own bl \<and> (\<forall>r\<in>set (resources d1). r_buildingId r \<noteq> bl_id bl));
          d2 = d1\<lparr>buildings := filter (\<lambda>bl. \<not> empty bl) (buildings d)\<rparr>
      in (\<lparr>cl_removedResources = map r_code (filter gone (resources d)),
           cl_keptResources = sort_key collate (map r_code (filter listed (resources d1))),
           cl_removedBuildings = map bl_code (filter empty (buildings d)),
           cl_keptBuildings = sort_key collate (map bl_code (filter own (buildings d2)))\<rparr>, d2))"

end
