(* ===== verification/CatalogProps.thy ===== *)
theory CatalogProps
  imports Catalog CampusProps
begin

text \<open>
  The demo catalogue: a catalogue without problems satisfies every constraint of the tables, a closure
  lands on the next operating day, and importing such a catalogue into a campus in use, or cleaning it
  out again, succeeds and strands nobody.
\<close>

section \<open>What validation promises\<close>

lemma problem_Nil [simp]: "problem bad message = [] \<longleftrightarrow> \<not> bad"
  by (simp add: problem_def)

definition building_fits :: "catalog_building \<Rightarrow> bool" where
  "building_fits b \<longleftrightarrow> hasText (kb_code b) 2 20 \<and> hasText (kb_name b) 2 120 \<and> hasText (kb_address b) 2 255"

definition closure_fits :: "catalog_closure \<Rightarrow> bool" where
  "closure_fits c \<longleftrightarrow> 1 \<le> kc_dayOffset c \<and> kc_dayOffset c \<le> 365 \<and> hasText (kc_reason c) 2 255"

definition resource_fits :: "catalog_resource \<Rightarrow> bool" where
  "resource_fits r \<longleftrightarrow>
     hasText (kr_code r) 2 30 \<and> hasText (kr_name r) 2 120 \<and> hasText (kr_location r) 2 120 \<and>
     (\<forall>s. kr_description r = Some s \<longrightarrow> hasText s 1 1000) \<and> (\<forall>a\<in>set (kr_amenities r). hasText a 1 50) \<and>
     1 \<le> kr_capacity r \<and> kr_capacity r \<le> 10000 \<and>
     kr_operatingDays r \<noteq> [] \<and> distinct (kr_operatingDays r) \<and> set (kr_operatingDays r) \<subseteq> {0..6} \<and>
     hour_pattern (kr_opensAt r) \<and> hour_pattern (kr_closesAt r) \<and> kr_opensAt r < kr_closesAt r \<and>
     (\<forall>c\<in>set (kr_closures r). closure_fits c)"

lemma closure_problems_Nil: "closure_problems label offsets cs = [] \<Longrightarrow> \<forall>c\<in>set cs. closure_fits c"
  by (induction cs arbitrary: offsets) (auto simp: closure_fits_def MAX_CLOSURE_OFFSET_DAYS_def not_less)

lemma resource_problems_Nil:
  "resource_problems codes seen r = [] \<Longrightarrow>
     resource_fits r \<and> kr_code r \<notin> seen \<and> kr_buildingCode r \<in> codes \<and>
     kr_code r \<notin> set RESERVED_RESOURCE_CODES \<and> \<not> js_startsWith (kr_code r) RESERVED_RESOURCE_PREFIX"
  using closure_problems_Nil
  by (auto simp: resource_problems_def resource_fits_def Let_def amenity_problems_def hours_problems_def list_all_iff
      not_less not_le split: option.splits if_splits)

lemma all_resource_problems_Nil:
  "all_resource_problems codes seen rs = [] \<Longrightarrow>
     (\<forall>r\<in>set rs. resource_fits r \<and> kr_buildingCode r \<in> codes \<and> kr_code r \<notin> seen)"
  by (induction rs arbitrary: seen) (fastforce dest: resource_problems_Nil)+

lemma all_resource_problems_distinct: "all_resource_problems codes seen rs = [] \<Longrightarrow> distinct (map kr_code rs)"
  by (induction rs arbitrary: seen) (fastforce dest: all_resource_problems_Nil)+

lemma all_building_problems_Nil:
  "all_building_problems seen bs = [] \<Longrightarrow> (\<forall>b\<in>set bs. building_fits b)"
  by (induction bs arbitrary: seen) (auto simp: building_problems_def building_fits_def Let_def)

lemma validated:
  assumes "validateCatalog c = []"
  shows "\<forall>b\<in>set (kt_buildings c). building_fits b" "\<forall>r\<in>set (kt_resources c). resource_fits r"
    "\<forall>r\<in>set (kt_resources c). kr_buildingCode r \<in> kb_code ` set (kt_buildings c)"
    "distinct (map kr_code (kt_resources c))"
  using assms all_building_problems_Nil [of "{}" "kt_buildings c"]
    all_resource_problems_Nil [of "kb_code ` set (kt_buildings c)" "{}" "kt_resources c"]
    all_resource_problems_distinct [of "kb_code ` set (kt_buildings c)" "{}" "kt_resources c"]
  by (simp_all add: validateCatalog_def Let_def)

section \<open>Texts and rows\<close>

lemma hasText_varchar: "hasText s m n \<Longrightarrow> n \<le> k \<Longrightarrow> pg_varchar k s"
  by (simp add: hasText_def pg_varchar_def)

lemma trimmed_strip:
  assumes "js_trim s = s"
  shows "strip_space s = s"
proof -
  have space: "posix_space x \<Longrightarrow> is_space x" for x
    by (auto simp: posix_space_def is_space_def Let_def)
  show ?thesis
  proof (cases "s = []")
    case False
    then have "\<not> posix_space (hd s)" "\<not> posix_space (last s)"
      using js_trim_hd [of s] js_trim_last [of s] assms space by auto
    then show ?thesis by (simp add: strip_space_def dropWhile_id hd_rev)
  qed (simp add: strip_space_def)
qed

lemma closure_row_fits:
  assumes "closure_fits c" "pg_date date"
  shows "closure_typed \<lparr>c_id = k, c_resourceId = r, c_date = date, c_reason = kc_reason c, c_createdAt = now\<rparr>"
    "violated_check closure_checks \<lparr>c_id = k, c_resourceId = r, c_date = date, c_reason = kc_reason c, c_createdAt = now\<rparr> = None"
proof -
  have t: "hasText (kc_reason c) 2 255" using assms(1) by (simp add: closure_fits_def)
  then have "strip_space (kc_reason c) = kc_reason c" by (intro trimmed_strip) (simp add: hasText_def)
  with t assms(2) show "closure_typed \<lparr>c_id = k, c_resourceId = r, c_date = date, c_reason = kc_reason c, c_createdAt = now\<rparr>"
    "violated_check closure_checks \<lparr>c_id = k, c_resourceId = r, c_date = date, c_reason = kc_reason c, c_createdAt = now\<rparr> = None"
    by (simp_all add: closure_typed_def hasText_varchar violated_check_None closure_checks_def) (simp add: hasText_def)
qed

lemma hour_texts:
  assumes "hour_pattern a" "hour_pattern b" "a < b"
  obtains h k where "a = hour_text h" "b = hour_text k" "h < k" "k < 24"
proof -
  obtain h k where hk: "h < 24" "a = hour_text h" "k < 24" "b = hour_text k"
    using hour_pattern_text [OF assms(1)] hour_pattern_text [OF assms(2)] by metis
  with assms(3) hour_text_less [OF hk(1,3)] show ?thesis by (intro that) auto
qed

lemma distinct_counted: "distinct xs \<Longrightarrow> count_list xs x \<le> 1"
  by (induction xs) (auto simp: count_list_0_iff)

text \<open>The row of a resource that fits, with its hours as sent or as stored.\<close>

lemma fitting_row:
  assumes "resource_fits c"
    and row: "r_code r = kr_code c" "r_name r = kr_name c" "r_description r = kr_description c" "r_capacity r = kr_capacity c"
      "r_location r = kr_location c" "r_amenities r = kr_amenities c" "r_operatingDays r = kr_operatingDays c"
    and hours: "r_opensAt r = kr_opensAt c \<and> r_closesAt r = kr_closesAt c \<or>
      r_opensAt r = time_text (kr_opensAt c) \<and> r_closesAt r = time_text (kr_closesAt c)"
  shows "resource_typed r" "violated_check resource_checks r = None"
proof -
  obtain h k where hk: "kr_opensAt c = hour_text h" "kr_closesAt c = hour_text k" "h < k" "k < 24"
    using hour_texts [of "kr_opensAt c" "kr_closesAt c"] assms(1) by (auto simp: resource_fits_def)
  have h24: "h < 24" using hk by simp
  have pt: "pg_time (hour_text n)" "whole_hour (hour_text n)" if "n < 24" for n
    using hour_text_shape [OF that] by (simp_all add: pg_time_def whole_hour_def)
  note sh = hour_text_shape [OF h24] and sk = hour_text_shape [OF hk(4)]
  have times: "pg_time (r_opensAt r)" "pg_time (r_closesAt r)" "whole_hour (r_opensAt r)" "whole_hour (r_closesAt r)"
    "sql_time (r_opensAt r) = 3600 * int h" "sql_time (r_closesAt r) = 3600 * int k"
    using hours pt [OF h24] pt [OF hk(4)] sh(6-9) sk(6-9) by (auto simp: hk)
  have days: "count_list (kr_operatingDays c) d \<le> 1" for d
    using assms(1) distinct_counted [of "kr_operatingDays c" d] by (simp add: resource_fits_def)
  show "resource_typed r"
    using assms(1) times(1,2)
    by (auto simp: resource_typed_def row resource_fits_def hasText_varchar split: option.splits) (auto simp: hasText_def)
  have set7: "{0..6} = {0, 1, 2, 3, 4, 5, 6::int}" by auto
  show "violated_check resource_checks r = None"
    using assms(1) times hk(3,4) days unfolding violated_check_None resource_checks_def
    by (simp add: row resource_fits_def set7)
qed

section \<open>The dates of the closures\<close>

text \<open>A date from 1970 on has a year the JavaScript date reads as it is.\<close>

lemma recent_year:
  assumes "pg_date s" "0 \<le> sql_date s"
  obtains y m d where "date_numbers s = Some (y, m, d)" "100 \<le> y" "sql_date s = make_day y (m - 1) d"
proof -
  obtain y m d where s: "date_numbers s = Some (y, m, d)" "valid_ymd y (m - 1) d"
    using assms(1) by (rule pg_dateE)
  have day: "sql_date s = make_day y (m - 1) d" by (simp add: sql_date_def s(1))
  have "100 \<le> y"
  proof (rule ccontr)
    assume "\<not> 100 \<le> y"
    moreover have "sql_date s < day_from_year (y + 1)"
      using year_from_day_bounds(2) [of "sql_date s"] make_day_fields(1) [OF s(2)] by (simp add: day)
    ultimately have "sql_date s < day_from_year 100"
      using day_from_year_mono [of "y + 1" 100] by (cases "y + 1 = 100") auto
    then show False using assms(2) by (simp add: day_from_year_def)
  qed
  then show ?thesis using s(1) day by (intro that)
qed

lemma make_day_shift: "make_day y m (d + n) = make_day y m d + n"
  by (simp add: make_day_def Let_def)

lemma weekdayOf_eq: "pg_date s \<Longrightarrow> 0 \<le> sql_date s \<Longrightarrow> weekdayOf s = week_day (sql_date s)"
  by (elim recent_year, assumption) (simp add: weekdayOf_def date_utc_def)

lemma addDays_eq:
  "pg_date s \<Longrightarrow> 0 \<le> sql_date s \<Longrightarrow>
     addDays s n = js_slice 0 10 (toISOString ((sql_date s + n) * 86400000))"
  by (elim recent_year, assumption) (simp add: addDays_def date_utc_def make_day_shift)

lemma addDays_date:
  assumes "pg_date s" "0 \<le> sql_date s" "1 \<le> sql_date s + n" "sql_date s + n < 2932897"
  shows "pg_date (addDays s n)" "sql_date (addDays s n) = sql_date s + n"
  using day_text [OF assms(3,4)] by (simp_all add: addDays_eq [OF assms(1,2)])

lemma closure_search_finds:
  assumes "pg_date s" "1 \<le> sql_date s" "sql_date s + int steps < 2932897"
    and "k < steps" "week_day (sql_date s + int k) \<in> set days"
  shows "\<exists>t j. closure_search steps days s = Some t \<and> j \<le> k \<and> pg_date t \<and> sql_date t = sql_date s + int j \<and>
    week_day (sql_date t) \<in> set days \<and> (\<forall>i<j. week_day (sql_date s + int i) \<notin> set days)"
  using assms
proof (induction steps arbitrary: s k)
  case (Suc steps)
  show ?case
  proof (cases "week_day (sql_date s) \<in> set days")
    case True
    with Suc.prems show ?thesis by (intro exI [of _ s] exI [of _ 0]) (simp add: weekdayOf_eq)
  next
    case False
    then obtain k' where k: "k = Suc k'" using Suc.prems by (cases k) auto
    note after = addDays_date [of s 1]
    have "\<exists>t j. closure_search steps days (addDays s 1) = Some t \<and> j \<le> k' \<and> pg_date t \<and>
        sql_date t = sql_date (addDays s 1) + int j \<and> week_day (sql_date t) \<in> set days \<and>
        (\<forall>i<j. week_day (sql_date (addDays s 1) + int i) \<notin> set days)"
      using Suc.prems after by (intro Suc.IH) (simp_all add: k algebra_simps)
    then obtain t j where t: "closure_search steps days (addDays s 1) = Some t" "j \<le> k'" "pg_date t"
        "sql_date t = sql_date s + 1 + int j" "week_day (sql_date t) \<in> set days"
        "\<forall>i<j. week_day (sql_date s + 1 + int i) \<notin> set days"
      using after Suc.prems by auto
    have "week_day (sql_date s + int i) \<notin> set days" if "i < Suc j" for i
      using that False t(6) by (cases i) (auto simp: algebra_simps)
    with t False Suc.prems show ?thesis
      by (intro exI [of _ t] exI [of _ "Suc j"]) (simp add: weekdayOf_eq k)
  qed
qed simp

lemma some_weekday:
  assumes "days \<noteq> []" "set days \<subseteq> {0..6}"
  obtains k where "k < (7::nat)" "week_day (n + int k) \<in> set days"
proof -
  obtain w where w: "w \<in> set days" "0 \<le> w" "w \<le> 6" using assms by (cases days) auto
  define e where "e = (w - (n + 4)) mod 7"
  then have e: "0 \<le> e" "e < 7" by simp_all
  have "(e + (n + 4)) mod 7 = w" using w(2,3) unfolding e_def by (simp only: mod_add_left_eq) simp
  then have "week_day (n + int (nat e)) = w" using e by (simp add: week_day_def ac_simps)
  moreover have "nat e < 7" using e by linarith
  ultimately show ?thesis using w(1) by (metis that)
qed

lemma resolved:
  assumes "pg_date today" "0 \<le> sql_date today" "sql_date today < 2932000" "1 \<le> offset" "offset \<le> 365"
    and "days \<noteq> []" "set days \<subseteq> {0..6}"
  shows "\<exists>k<7. closure_search 7 days (addDays today offset) = Some (resolveClosureDate today offset days) \<and>
    pg_date (resolveClosureDate today offset days) \<and>
    sql_date (resolveClosureDate today offset days) = sql_date today + offset + int k \<and>
    sql_dow (resolveClosureDate today offset days) \<in> set days \<and>
    (\<forall>i<k. week_day (sql_date today + offset + int i) \<notin> set days)"
proof -
  note start = addDays_date [of today offset]
  obtain k where k: "k < 7" "week_day (sql_date today + offset + int k) \<in> set days"
    using some_weekday [OF assms(6,7)] by blast
  have "\<exists>t j. closure_search 7 days (addDays today offset) = Some t \<and> j \<le> k \<and> pg_date t \<and>
      sql_date t = sql_date (addDays today offset) + int j \<and> week_day (sql_date t) \<in> set days \<and>
      (\<forall>i<j. week_day (sql_date (addDays today offset) + int i) \<notin> set days)"
    using assms start k by (intro closure_search_finds) simp_all
  then obtain t j where "closure_search 7 days (addDays today offset) = Some t" "j \<le> k" "pg_date t"
      "sql_date t = sql_date today + offset + int j" "week_day (sql_date t) \<in> set days"
      "\<forall>i<j. week_day (sql_date today + offset + int i) \<notin> set days"
    using start assms by auto
  with k(1) show ?thesis by (intro exI [of _ j]) (simp add: resolveClosureDate_def sql_dow_def)
qed

section \<open>The identifiers an import draws\<close>

text \<open>
  What the database promises of the identifiers it draws: different rows get different ones, and one
  that is in a table belongs to the row it was drawn for.
\<close>

definition drawn :: "draws \<Rightarrow> db \<Rightarrow> bool" where
  "drawn dr d \<longleftrightarrow>
     inj (dr_building dr) \<and> inj (dr_resource dr) \<and> inj (case_prod (dr_closure dr)) \<and>
     (\<forall>bl\<in>set (buildings d). \<forall>code. bl_id bl = dr_building dr code \<longrightarrow> bl_code bl = code) \<and>
     (\<forall>r\<in>set (resources d). \<forall>code. r_id r = dr_resource dr code \<longrightarrow> r_code r = code) \<and>
     (\<forall>c\<in>set (closures d). \<forall>k date. c_id c = dr_closure dr k date \<longrightarrow> c_resourceId c = k \<and> c_date c = date)"

text \<open>What an import leaves as it was.\<close>

definition untouched :: "db \<Rightarrow> db \<Rightarrow> bool" where
  "untouched d d' \<longleftrightarrow>
     users d' = users d \<and> bookings d' = bookings d \<and> grows d d' \<and>
     r_code ` set (resources d) \<subseteq> r_code ` set (resources d') \<and> set (closures d) \<subseteq> set (closures d') \<and>
     (\<forall>r\<in>set (resources d). held d (r_id r) \<longrightarrow> r \<in> set (resources d'))"

lemma untouched_refl [simp]: "untouched d d"
  by (simp add: untouched_def grows_def)

lemma untouched_trans: "untouched d1 d2 \<Longrightarrow> untouched d2 d3 \<Longrightarrow> untouched d1 d3"
  unfolding untouched_def grows_def held_def by (metis subset_trans)

lemma none_stranded_kept:
  assumes "none_stranded now d" "bookings d' = bookings d"
    and "\<And>r b. \<lbrakk>b \<in> set (bookings d); active_at now b; r \<in> set (resources d'); r_id r = b_resourceId b\<rbrakk> \<Longrightarrow>
      r \<in> set (resources d) \<and> (closed_on d' (r_id r) (b_date b) \<longrightarrow> closed_on d (r_id r) (b_date b))"
  shows "none_stranded now d'"
  using assms unfolding none_stranded_def serves_def by metis

lemma active_held: "b \<in> set (bookings d) \<Longrightarrow> active_at now b \<Longrightarrow> held d (b_resourceId b) \<and> booked_on d (b_resourceId b) (b_date b)"
  by (auto simp: held_def booked_on_def active_at_def reviewable_status_def ACTIVE_BOOKING_STATUSES_def)

section \<open>Upserting a building\<close>

lemma image_kept_patch: "(\<And>r. g (f r) = g r) \<Longrightarrow> g ` set (patch_row key k f rows) = g ` set rows"
  unfolding patch_row_def set_map image_image by (rule image_cong) simp_all

lemma upsert_building_runs:
  assumes "building_fits b" "campus_ok (now, d)" "drawn dr d"
  obtains k d1 where "upsert_building dr b d = Inr (k, d1)" "campus_ok (now, d1)" "drawn dr d1" "untouched d d1"
    "k \<in> ids bl_id (buildings d1)"
proof -
  have cols: "building_columns_ok b"
    using assms(1) by (auto simp: building_columns_ok_def building_fits_def hasText_varchar)
  have same: "campus_ok (now, d\<lparr>buildings := rows\<rparr>)" if "ids bl_id (buildings d) \<subseteq> ids bl_id rows" for rows
  proof -
    let ?d = "d\<lparr>buildings := rows\<rparr>"
    have ok: "db_ok d" using assms(2) by (simp add: campus_ok_def)
    have "grows d ?d" using that by (simp add: grows_def)
    with ok have "db_ok ?d" by (rule db_ok_grows) (use ok in \<open>simp_all add: db_ok_def\<close>)
    moreover have "none_stranded now ?d"
      using assms(2) none_stranded_kept [of now d ?d] by (simp add: campus_ok_def closed_on_def)
    ultimately show ?thesis using assms(2) by (simp add: campus_ok_def db_lived_def)
  qed
  show ?thesis
  proof (cases "row_at bl_code (kb_code b) (buildings d)")
    case (Some x)
    let ?rows = "patch_row bl_code (kb_code b) (\<lambda>x. x\<lparr>bl_name := kb_name b, bl_address := kb_address b\<rparr>) (buildings d)"
    have ids: "ids bl_id ?rows = ids bl_id (buildings d)"
      by (simp add: ids_def image_kept_patch)
    show ?thesis
    proof (rule that)
      show "upsert_building dr b d = Inr (bl_id x, d\<lparr>buildings := ?rows\<rparr>)" by (simp add: upsert_building_def cols Some)
      show "campus_ok (now, d\<lparr>buildings := ?rows\<rparr>)" by (rule same) (simp add: ids)
      show "drawn dr (d\<lparr>buildings := ?rows\<rparr>)" using assms(3) by (auto simp: drawn_def set_patch_row)
      show "untouched d (d\<lparr>buildings := ?rows\<rparr>)" by (simp add: untouched_def grows_def ids)
      show "bl_id x \<in> ids bl_id (buildings (d\<lparr>buildings := ?rows\<rparr>))"
        using row_at_SomeD [OF Some] by (simp add: ids) (simp add: ids_def)
    qed
  next
    case None
    let ?k = "dr_building dr (kb_code b)"
    let ?rows = "buildings d @ [\<lparr>bl_id = ?k, bl_code = kb_code b, bl_name = kb_name b, bl_address = kb_address b\<rparr>]"
    have new: "?k \<notin> ids bl_id (buildings d)"
      using None assms(3) by (auto simp: drawn_def ids_def row_at_None) (metis image_eqI)
    show ?thesis
    proof (rule that)
      show "upsert_building dr b d = Inr (?k, d\<lparr>buildings := ?rows\<rparr>)"
        using new by (simp add: upsert_building_def cols None Let_def)
      show "campus_ok (now, d\<lparr>buildings := ?rows\<rparr>)" by (rule same) (auto simp: ids_def)
      show "drawn dr (d\<lparr>buildings := ?rows\<rparr>)" using assms(3) by (auto simp: drawn_def dest: injD)
      show "untouched d (d\<lparr>buildings := ?rows\<rparr>)" by (auto simp: untouched_def grows_def ids_def)
      show "?k \<in> ids bl_id (buildings (d\<lparr>buildings := ?rows\<rparr>))" by (simp add: ids_def)
    qed
  qed
qed

lemma upsert_buildings_run:
  assumes "\<forall>b\<in>set bs. building_fits b" "campus_ok (now, d)" "drawn dr d" "ran m \<subseteq> ids bl_id (buildings d)"
  shows "\<exists>m' d1. upsert_buildings dr bs m d = Inr (m', d1) \<and> campus_ok (now, d1) \<and> drawn dr d1 \<and> untouched d d1 \<and>
    ran m' \<subseteq> ids bl_id (buildings d1) \<and> dom m' = dom m \<union> kb_code ` set bs"
  using assms
proof (induction bs arbitrary: m d)
  case (Cons b bs)
  obtain k d1 where b: "upsert_building dr b d = Inr (k, d1)" "campus_ok (now, d1)" "drawn dr d1" "untouched d d1"
      "k \<in> ids bl_id (buildings d1)"
    using upsert_building_runs [of b now d dr] Cons.prems by auto
  have ran: "ran (m(kb_code b \<mapsto> k)) \<subseteq> ids bl_id (buildings d1)"
    using Cons.prems(4) b(4,5) by (auto simp: ran_def untouched_def grows_def)
  have "\<exists>m' d2. upsert_buildings dr bs (m(kb_code b \<mapsto> k)) d1 = Inr (m', d2) \<and> campus_ok (now, d2) \<and>
      drawn dr d2 \<and> untouched d1 d2 \<and> ran m' \<subseteq> ids bl_id (buildings d2) \<and>
      dom m' = dom (m(kb_code b \<mapsto> k)) \<union> kb_code ` set bs"
    using Cons.prems(1) by (intro Cons.IH [OF _ b(2,3) ran]) simp
  then obtain m' d2 where r: "upsert_buildings dr bs (m(kb_code b \<mapsto> k)) d1 = Inr (m', d2)" "campus_ok (now, d2)"
      "drawn dr d2" "untouched d1 d2" "ran m' \<subseteq> ids bl_id (buildings d2)"
      "dom m' = dom (m(kb_code b \<mapsto> k)) \<union> kb_code ` set bs"
    by blast
  then show ?case
    using b(1) untouched_trans [OF b(4) r(4)] by (intro exI [of _ m'] exI [of _ d2]) simp
qed simp

section \<open>Upserting a resource\<close>

lemma resource_accepted:
  assumes "resource_fits c" and row: "r_code r = kr_code c" "r_name r = kr_name c" "r_description r = kr_description c"
      "r_capacity r = kr_capacity c" "r_location r = kr_location c" "r_amenities r = kr_amenities c"
      "r_operatingDays r = kr_operatingDays c" "r_opensAt r = kr_opensAt c" "r_closesAt r = kr_closesAt c"
    and "r_id r \<notin> ids r_id others" "r_code r \<notin> r_code ` set others" "r_buildingId r \<in> ids bl_id (buildings d)"
  shows "resource_violation d (resource_columns r) others = None"
  using fitting_row [of c "resource_columns r"] assms
  by (simp add: resource_violation_def resource_columns_def)

lemma row_keys:
  "r_id (catalog_row k c bid now) = k" "r_code (catalog_row k c bid now) = kr_code c"
  "r_id (resource_columns r) = r_id r" "r_code (resource_columns r) = r_code r"
  by (simp_all add: catalog_row_def resource_columns_def)

lemma closures_known: "db_ok d \<Longrightarrow> c \<in> set (closures d) \<Longrightarrow> c_resourceId c \<in> ids r_id (resources d)"
  by (simp add: db_ok_def table_inv_def closure_ok_def)

lemma bookings_known: "db_ok d \<Longrightarrow> b \<in> set (bookings d) \<Longrightarrow> b_resourceId b \<in> ids r_id (resources d)"
  by (simp add: db_ok_def table_inv_def booking_ok_def)

lemma upsert_resource_runs:
  assumes c: "resource_fits c" and ok: "campus_ok (now, d)" and dr: "drawn dr d" and bid: "bid \<in> ids bl_id (buildings d)"
  obtains what d1 where "upsert_resource dr c (Some bid) now d = Inr (what, d1)" "campus_ok (now, d1)" "drawn dr d1"
    "untouched d d1" "upserted_id what \<in> ids r_id (resources d1)" "kr_code c \<in> r_code ` set (resources d1)"
proof -
  let ?row = "catalog_row (dr_resource dr (kr_code c)) c bid now"
  have d: "db_ok d" "none_stranded now d" using ok by (simp_all add: campus_ok_def)
  have pass: "resource_typed ?row" "violated_check resource_checks ?row = None"
    using fitting_row [OF c, of ?row] by (simp_all add: catalog_row_def)
  note code = upsert_resource_def Let_def pass
  have rows: "distinct (map r_id (resources d))"
    "\<And>x y. x \<in> set (resources d) \<Longrightarrow> y \<in> set (resources d) \<Longrightarrow> r_code x = r_code y \<Longrightarrow> r_id x = r_id y"
    using d(1) by (auto simp: db_ok_def table_inv_def resource_clash_def)
  have state: "campus_ok (now, d1)"
    if "db_ok d1" "bookings d1 = bookings d" "closures d1 = closures d" "none_stranded now d1" for d1
    using ok that by (simp add: campus_ok_def db_lived_def)
  show ?thesis
  proof (cases "row_at r_code (kr_code c) (resources d)")
    case None
    let ?d = "d\<lparr>resources := resources d @ [resource_columns ?row]\<rparr>"
    have new: "r_id ?row \<notin> ids r_id (resources d)" "kr_code c \<notin> r_code ` set (resources d)"
      using None dr by (auto simp: drawn_def ids_def row_at_None catalog_row_def) (metis image_eqI)
    have "resource_violation d (resource_columns ?row) (resources d) = None"
      using new bid by (intro resource_accepted [OF c]) (simp_all add: catalog_row_def)
    then have run: "insert_resource ?row d = Inr ?d" by (simp add: insert_resource_def insert_row_def)
    have "none_stranded now ?d"
    proof (rule none_stranded_kept [OF d(2)])
      fix r b
      assume "b \<in> set (bookings d)" "r \<in> set (resources ?d)" "r_id r = b_resourceId b"
      then show "r \<in> set (resources d) \<and> (closed_on ?d (r_id r) (b_date b) \<longrightarrow> closed_on d (r_id r) (b_date b))"
        using new(1) bookings_known [OF d(1)] by (auto simp: closed_on_def resource_columns_def)
    qed simp
    then have "campus_ok (now, ?d)" using insert_resource_keeps(1) [OF d(1) run] by (intro state) simp_all
    moreover have "drawn dr ?d" using dr by (auto simp: drawn_def resource_columns_def catalog_row_def dest: injD)
    moreover have "untouched d ?d" by (auto simp: untouched_def grows_def ids_def)
    ultimately show ?thesis
      using run by (intro that [of "INSERTED (r_id ?row)" ?d])
        (simp_all add: code None ids_def row_keys)
  next
    case (Some r)
    have r: "r \<in> set (resources d)" "r_code r = kr_code c" using row_at_SomeD [OF Some] by simp_all
    have present: "r_id r \<in> ids r_id (resources d)" "kr_code c \<in> r_code ` set (resources d)"
      using r by (auto simp: ids_def) (metis image_eqI)
    show ?thesis
    proof (cases "held d (r_id r)")
      case True
      with Some ok dr present show ?thesis by (intro that [of "SKIPPED (r_id r)" d]) (simp_all add: code)
    next
      case False
      let ?f = "\<lambda>x. resource_columns (set_catalog_columns c bid now x)"
      let ?d = "d\<lparr>resources := patch_row r_id (r_id r) ?f (resources d)\<rparr>"
      let ?others = "filter (\<lambda>x. r_id x \<noteq> r_id r) (resources d)"
      have at: "row_at r_id (r_id r) (resources d) = Some r" using row_at_mem [OF rows(1)] r(1) by blast
      have keep: "r_id (?f x) = r_id x" "r_code (?f x) = r_code x" for x
        by (simp_all add: resource_columns_def set_catalog_columns_def)
      have "kr_code c \<notin> r_code ` set ?others"
      proof
        assume "kr_code c \<in> r_code ` set ?others"
        then obtain x where "x \<in> set (resources d)" "r_id x \<noteq> r_id r" "r_code x = kr_code c" by auto
        then show False using rows(2) [of x r] r by simp
      qed
      moreover have "r_id r \<notin> ids r_id ?others" by (auto simp: ids_def)
      ultimately have "resource_violation d (?f r) ?others = None"
        using r(2) bid by (intro resource_accepted [OF c]) (simp_all add: set_catalog_columns_def)
      then have run: "update_resource (r_id r) (set_catalog_columns c bid now) d = Inr ?d"
        by (simp add: update_resource_def update_row_def at)
      have ids: "ids r_id (resources ?d) = ids r_id (resources d)" by (simp add: ids_patch keep)
      have others: "x \<in> set (resources ?d) \<and> r_id x \<noteq> r_id r \<longleftrightarrow> x \<in> set (resources d) \<and> r_id x \<noteq> r_id r" for x
        by (auto simp: set_patch_row keep)
      have "none_stranded now ?d"
      proof (rule none_stranded_kept [OF d(2)])
        fix x b
        assume b: "b \<in> set (bookings d)" "active_at now b" "x \<in> set (resources ?d)" "r_id x = b_resourceId b"
        have "r_id x \<noteq> r_id r" using active_held [OF b(1,2)] b(4) False by auto
        with b(3) others [of x] show
          "x \<in> set (resources d) \<and> (closed_on ?d (r_id x) (b_date b) \<longrightarrow> closed_on d (r_id x) (b_date b))"
          by (simp add: closed_on_def)
      qed simp
      then have "campus_ok (now, ?d)"
        using update_resource_keeps(1) [OF d(1) run] by (intro state) (simp_all add: set_catalog_columns_def)
      moreover have "drawn dr ?d" using dr keep by (auto simp: drawn_def set_patch_row split: if_splits)
      moreover have "r_code ` set (resources ?d) = r_code ` set (resources d)"
        by (simp add: image_kept_patch keep)
      moreover have "\<forall>x\<in>set (resources d). held d (r_id x) \<longrightarrow> x \<in> set (resources ?d)"
        using False others by metis
      ultimately show ?thesis
        using run present False Some ids
        by (intro that [of "UPDATED (r_id r)" ?d]) (simp_all add: code untouched_def grows_def)
    qed
  qed
qed

section \<open>Adding closures\<close>

lemma closure_draws: "drawn dr d \<Longrightarrow> dr_closure dr k date = dr_closure dr k' date' \<Longrightarrow> k = k' \<and> date = date'"
  by (auto simp: drawn_def dest: injD [of _ "(k, date)" "(k', date')"])

lemma add_closure_runs:
  assumes "closure_fits c" "pg_date date" and ok: "campus_ok (now, d)" and dr: "drawn dr d"
    and k: "k \<in> ids r_id (resources d)"
  obtains added d1 where "add_closure dr k date (kc_reason c) now d = Inr (added, d1)" "campus_ok (now, d1)" "drawn dr d1"
    "untouched d d1" "resources d1 = resources d" "buildings d1 = buildings d"
proof -
  let ?row = "\<lparr>c_id = dr_closure dr k date, c_resourceId = k, c_date = date, c_reason = kc_reason c, c_createdAt = now\<rparr>"
  have d: "db_ok d" "none_stranded now d" using ok by (simp_all add: campus_ok_def)
  note pass = closure_row_fits [OF assms(1,2), of "dr_closure dr k date" k now]
  show ?thesis
  proof (cases "booked_on d k date \<or> (\<exists>x\<in>set (closures d). closure_clash ?row x)")
    case True
    with ok dr show ?thesis by (intro that [of False d]) (auto simp: add_closure_def Let_def pass)
  next
    case False
    let ?d = "d\<lparr>closures := closures d @ [?row]\<rparr>"
    have "c_id ?row \<notin> ids c_id (closures d)"
      using False dr by (auto simp: drawn_def ids_def closure_clash_def) metis
    then have run: "insert_closure ?row d = Inr ?d"
      using False k pass by (auto simp: insert_closure_def insert_row_def closure_violation_def)
    have "none_stranded now ?d"
    proof (rule none_stranded_kept [OF d(2)])
      fix x b
      assume "b \<in> set (bookings d)" "active_at now b" "x \<in> set (resources ?d)" "r_id x = b_resourceId b"
      then show "x \<in> set (resources d) \<and> (closed_on ?d (r_id x) (b_date b) \<longrightarrow> closed_on d (r_id x) (b_date b))"
        using False active_held by (auto simp: closed_on_def)
    qed simp
    then have "campus_ok (now, ?d)"
      using ok insert_closure_keeps(1) [OF d(1) run] by (simp add: campus_ok_def db_lived_def)
    moreover have "\<forall>k' date'. dr_closure dr k date = dr_closure dr k' date' \<longrightarrow> k = k' \<and> date = date'"
      using closure_draws [OF dr] by blast
    then have "drawn dr ?d" using dr by (simp add: drawn_def)
    moreover have "untouched d ?d" by (auto simp: untouched_def grows_def)
    ultimately show ?thesis
      using run False pass by (intro that [of True ?d]) (auto simp: add_closure_def Let_def)
  qed
qed

lemma add_closures_run:
  assumes "\<forall>c\<in>set cs. closure_fits c" "\<forall>c\<in>set cs. pg_date (resolveClosureDate today (kc_dayOffset c) days)"
    and "campus_ok (now, d)" "drawn dr d" "k \<in> ids r_id (resources d)"
  shows "\<exists>n1 d1. add_closures dr k days today now cs n d = Inr (n1, d1) \<and> campus_ok (now, d1) \<and> drawn dr d1 \<and>
    untouched d d1 \<and> resources d1 = resources d \<and> buildings d1 = buildings d"
  using assms
proof (induction cs arbitrary: n d)
  case (Cons c cs)
  obtain added d1 where c: "add_closure dr k (resolveClosureDate today (kc_dayOffset c) days) (kc_reason c) now d = Inr (added, d1)"
      "campus_ok (now, d1)" "drawn dr d1" "untouched d d1" "resources d1 = resources d" "buildings d1 = buildings d"
    using add_closure_runs [of c "resolveClosureDate today (kc_dayOffset c) days" now d dr k] Cons.prems by auto
  have "\<exists>n1 d2. add_closures dr k days today now cs (count_closure added n) d1 = Inr (n1, d2) \<and> campus_ok (now, d2) \<and>
      drawn dr d2 \<and> untouched d1 d2 \<and> resources d2 = resources d1 \<and> buildings d2 = buildings d1"
    using Cons.prems c(5) by (intro Cons.IH c(2,3)) simp_all
  then obtain n1 d2 where r: "add_closures dr k days today now cs (count_closure added n) d1 = Inr (n1, d2)"
      "campus_ok (now, d2)" "drawn dr d2" "untouched d1 d2" "resources d2 = resources d1" "buildings d2 = buildings d1"
    by blast
  with c(1,5,6) untouched_trans [OF c(4) r(4)] show ?case by simp
qed simp

section \<open>Importing a catalogue\<close>

lemma import_resources_run:
  assumes "\<forall>c\<in>set cs. resource_fits c \<and> kr_buildingCode c \<in> dom m" "ran m \<subseteq> ids bl_id (buildings d)"
    and "\<forall>c\<in>set cs. \<forall>x\<in>set (kr_closures c). pg_date (resolveClosureDate today (kc_dayOffset x) (kr_operatingDays c))"
    and "campus_ok (now, d)" "drawn dr d"
  shows "\<exists>n1 d1. import_resources dr m today now cs n d = Inr (n1, d1) \<and> campus_ok (now, d1) \<and> drawn dr d1 \<and>
    untouched d d1 \<and> kr_code ` set cs \<subseteq> r_code ` set (resources d1)"
  using assms
proof (induction cs arbitrary: n d)
  case (Cons c cs)
  obtain bid where bid: "m (kr_buildingCode c) = Some bid" "bid \<in> ids bl_id (buildings d)"
    using Cons.prems(1,2) by (auto simp: ran_def)
  have fits: "resource_fits c" using Cons.prems(1) by simp
  obtain what d1 where c: "upsert_resource dr c (Some bid) now d = Inr (what, d1)" "campus_ok (now, d1)" "drawn dr d1"
      "untouched d d1" "upserted_id what \<in> ids r_id (resources d1)" "kr_code c \<in> r_code ` set (resources d1)"
    using upsert_resource_runs [OF fits Cons.prems(4,5) bid(2)] by blast
  have "\<exists>n1 d2. add_closures dr (upserted_id what) (kr_operatingDays c) today now (kr_closures c) (count_upsert c what n) d1 =
        Inr (n1, d2) \<and> campus_ok (now, d2) \<and> drawn dr d2 \<and> untouched d1 d2 \<and> resources d2 = resources d1 \<and> buildings d2 = buildings d1"
    using fits Cons.prems(3) by (intro add_closures_run c) (simp_all add: resource_fits_def)
  then obtain n1 d2 where k: "add_closures dr (upserted_id what) (kr_operatingDays c) today now (kr_closures c) (count_upsert c what n) d1 =
        Inr (n1, d2)" "campus_ok (now, d2)" "drawn dr d2" "untouched d1 d2" "resources d2 = resources d1"
    by blast
  note so_far = untouched_trans [OF c(4) k(4)]
  have "ran m \<subseteq> ids bl_id (buildings d2)" using so_far Cons.prems(2) by (auto simp: untouched_def grows_def)
  then have "\<exists>n2 d3. import_resources dr m today now cs n1 d2 = Inr (n2, d3) \<and> campus_ok (now, d3) \<and> drawn dr d3 \<and>
      untouched d2 d3 \<and> kr_code ` set cs \<subseteq> r_code ` set (resources d3)"
    using Cons.prems(1,3) by (intro Cons.IH k(2,3)) simp_all
  then obtain n2 d3 where r: "import_resources dr m today now cs n1 d2 = Inr (n2, d3)" "campus_ok (now, d3)" "drawn dr d3"
      "untouched d2 d3" "kr_code ` set cs \<subseteq> r_code ` set (resources d3)"
    by blast
  have "kr_code c \<in> r_code ` set (resources d3)" using c(6) r(4) k(5) by (auto simp: untouched_def)
  with r untouched_trans [OF so_far r(4)] show ?case by (simp add: bid(1) c(1) k(1))
qed simp

text \<open>C34: The loop that moves a closure of the demo catalogue forward to its resource's next operating day
  (scripts/demo-catalog.ts, resolveClosureDate) ends within its seven steps for every list of operating days the
  validation accepts, on the first operating day at or after the offset: the fallback after the loop is never reached.\<close>

theorem closure_lands_on_operating_day:
  assumes "pg_date today" "0 \<le> sql_date today" "sql_date today < 2932000"
    and "1 \<le> offset" "offset \<le> 365" "days \<noteq> []" "set days \<subseteq> {0..6}"
  shows "\<exists>k<7. closure_search 7 days (addDays today offset) = Some (resolveClosureDate today offset days) \<and>
    pg_date (resolveClosureDate today offset days) \<and>
    sql_date (resolveClosureDate today offset days) = sql_date today + offset + int k \<and>
    sql_dow (resolveClosureDate today offset days) \<in> set days \<and>
    (\<forall>i<k. week_day (sql_date today + offset + int i) \<notin> set days)"
  using assms by (rule resolved)

text \<open>C33: Importing the demo catalogue (scripts/catalog-import.ts, importCatalog) into a campus in use: when the
  catalogue has no validation problem, no insert violates a constraint, so the transaction commits; every catalogue
  resource is then in the database, no user or booking changes, a resource with active bookings keeps its row, and no
  active booking is stranded by new hours, another status or a new closure.\<close>

theorem catalogue_import_serves:
  assumes ok: "campus_ok (now, d)" "sql_date (campusDateOf now) < 2932000" and dr: "drawn dr d"
    and valid: "validateCatalog c = []"
  shows "\<exists>n d'. importCatalog dr now c d = Inr (n, d') \<and> campus_ok (now, d') \<and> drawn dr d' \<and>
    users d' = users d \<and> bookings d' = bookings d \<and>
    kr_code ` set (kt_resources c) \<subseteq> r_code ` set (resources d') \<and>
    (\<forall>r\<in>set (resources d). held d (r_id r) \<longrightarrow> r \<in> set (resources d'))"
proof -
  note v = validated [OF valid]
  have era: "campus_era now" using ok(1) by (simp add: campus_ok_def)
  have today: "0 \<le> sql_date (campusDateOf now)"
    using era by (simp add: iso_text(2) [OF era] campus_era_def CAMPUS_OFFSET_MS_def div_int_pos_iff)
  obtain m d1 where b: "upsert_buildings dr (kt_buildings c) Map.empty d = Inr (m, d1)" "campus_ok (now, d1)" "drawn dr d1"
      "untouched d d1" "ran m \<subseteq> ids bl_id (buildings d1)" "dom m = kb_code ` set (kt_buildings c)"
    using upsert_buildings_run [OF v(1) ok(1) dr, of Map.empty] by auto
  have "pg_date (resolveClosureDate (campusDateOf now) (kc_dayOffset x) (kr_operatingDays r))"
    if "r \<in> set (kt_resources c)" "x \<in> set (kr_closures r)" for r x
    using resolved [OF iso_text(1) [OF era] today ok(2), of "kc_dayOffset x" "kr_operatingDays r"] v(2) that
    by (auto simp: resource_fits_def closure_fits_def)
  then have "\<exists>n d2. import_resources dr m (campusDateOf now) now (kt_resources c) n0 d1 = Inr (n, d2) \<and> campus_ok (now, d2) \<and>
      drawn dr d2 \<and> untouched d1 d2 \<and> kr_code ` set (kt_resources c) \<subseteq> r_code ` set (resources d2)" for n0
    using v(2,3) by (intro import_resources_run b) (simp_all add: b(6))
  then obtain n d2 where r: "importCatalog dr now c d = Inr (n, d2)" "campus_ok (now, d2)" "drawn dr d2" "untouched d1 d2"
      "kr_code ` set (kt_resources c) \<subseteq> r_code ` set (resources d2)"
    unfolding importCatalog_def b(1) by auto blast
  with untouched_trans [OF b(4) r(4)] show ?thesis
    by (intro exI [of _ n] exI [of _ d2]) (simp add: untouched_def)
qed

section \<open>Cleaning it out\<close>

text \<open>
  Cleaning removes exactly the catalogue's resources that no booking refers to, with their closures and the
  buildings left empty; no booking or user is lost, no reference dangles, and no active booking is stranded.
\<close>

lemma cleaned:
  assumes ok: "campus_ok (now, d)" and run: "cleanCatalog collate c d = (report, d')"
  shows "campus_ok (now, d')" "users d' = users d" "bookings d' = bookings d"
    "resources d' = filter (\<lambda>r. r_code r \<in> kr_code ` set (kt_resources c) \<longrightarrow>
      (\<exists>b\<in>set (bookings d). b_resourceId b = r_id r)) (resources d)"
proof -
  define gone where
    "gone = (\<lambda>r :: resource. r_code r \<in> kr_code ` set (kt_resources c) \<and> (\<forall>b\<in>set (bookings d). b_resourceId b \<noteq> r_id r))"
  define d1 where "d1 = d\<lparr>resources := filter (\<lambda>r. \<not> gone r) (resources d),
    closures := filter (\<lambda>c. c_resourceId c \<notin> ids r_id (filter gone (resources d))) (closures d)\<rparr>"
  define hollow where
    "hollow = (\<lambda>bl :: building. bl_code bl \<in> kb_code ` set (kt_buildings c) \<and> (\<forall>r\<in>set (resources d1). r_buildingId r \<noteq> bl_id bl))"
  have d': "d' = d1\<lparr>buildings := filter (\<lambda>bl. \<not> hollow bl) (buildings d)\<rparr>"
    using arg_cong [OF run, of snd] unfolding cleanCatalog_def Let_def gone_def d1_def hollow_def by (simp only: snd_conv)
  show same: "users d' = users d" "bookings d' = bookings d" by (simp_all add: d' d1_def)
  show "resources d' = filter (\<lambda>r. r_code r \<in> kr_code ` set (kt_resources c) \<longrightarrow>
      (\<exists>b\<in>set (bookings d). b_resourceId b = r_id r)) (resources d)"
    unfolding d' d1_def gone_def by (simp; intro filter_cong; auto)
  have db: "db_ok d" "none_stranded now d" using ok by (simp_all add: campus_ok_def)
  have rows: "set (resources d') = {r \<in> set (resources d). \<not> gone r}"
    "set (closures d') = {x \<in> set (closures d). c_resourceId x \<notin> ids r_id (filter gone (resources d))}"
    by (simp_all add: d' d1_def)
  have resource: "resource_ok d' r" if "r \<in> set (resources d')" for r
  proof -
    have "resource_ok d r" using db(1) that rows(1) by (simp add: db_ok_def table_inv_def)
    moreover have "\<not> hollow bl" if "bl_id bl = r_buildingId r" for bl
      using \<open>r \<in> set (resources d')\<close> that unfolding hollow_def d' by auto
    ultimately show ?thesis by (auto simp: resource_ok_def ids_def d')
  qed
  have closure: "closure_ok d' x" if "x \<in> set (closures d')" for x
  proof -
    have x: "x \<in> set (closures d)" "c_resourceId x \<notin> r_id ` {r \<in> set (resources d). gone r}"
      using that by (simp_all add: rows(2) ids_def)
    then have "closure_ok d x" using db(1) by (simp add: db_ok_def table_inv_def)
    moreover have "c_resourceId x \<in> ids r_id (resources d')"
      using closures_known [OF db(1) x(1)] x(2) by (auto simp: ids_def rows(1))
    ultimately show ?thesis by (simp add: closure_ok_def)
  qed
  have booking: "booking_ok d' b" if "b \<in> set (bookings d)" for b
  proof -
    have "booking_ok d b" using db(1) that by (simp add: db_ok_def table_inv_def)
    moreover have "b_resourceId b \<in> ids r_id (resources d')"
      using bookings_known [OF db(1) that] that by (auto simp: ids_def rows(1) gone_def)
    ultimately show ?thesis by (simp add: booking_ok_def booking_users_known_def same)
  qed
  have "db_ok d'"
    using db(1) resource closure booking unfolding db_ok_def same
    by (auto simp: d' d1_def table_inv_def distinct_map_filter)
  moreover have "none_stranded now d'"
    by (rule none_stranded_kept [OF db(2) same(2)]) (auto simp: rows closed_on_def)
  ultimately show "campus_ok (now, d')" using ok same(2) by (simp add: campus_ok_def db_lived_def)
qed

end
