(* ===== verification/CatalogWitnesses.thy ===== *)
theory CatalogWitnesses
  imports CatalogProps Samples
begin

text \<open>
  The shipped catalogue passes its validation, and the properties of the import are applied to it on the
  seeded campus.
\<close>

section \<open>The shipped catalogue\<close>

definition shipped_codes :: "string list" where
  "shipped_codes = [''LHC'', ''LCM'', ''SIC'', ''EWB'', ''SEO'', ''SMH'']"

text \<open>The rules of the validation, without their messages.\<close>

fun sound_closures :: "int list \<Rightarrow> catalog_closure list \<Rightarrow> bool" where
  "sound_closures offsets [] \<longleftrightarrow> True"
| "sound_closures offsets (c # cs) \<longleftrightarrow>
     1 \<le> kc_dayOffset c \<and> kc_dayOffset c \<le> 365 \<and> kc_dayOffset c \<notin> set offsets \<and> hasText (kc_reason c) 2 255 \<and>
     sound_closures (kc_dayOffset c # offsets) cs"

definition sound_resource :: "catalog_resource \<Rightarrow> bool" where
  "sound_resource r \<longleftrightarrow>
     hasText (kr_code r) 2 30 \<and> hyphenated catalog_code_char (kr_code r) \<and> kr_code r \<notin> set RESERVED_RESOURCE_CODES \<and>
     \<not> js_startsWith (kr_code r) RESERVED_RESOURCE_PREFIX \<and> hasText (kr_name r) 2 120 \<and>
     (case kr_description r of None \<Rightarrow> True | Some s \<Rightarrow> hasText s 1 1000) \<and> 1 \<le> kr_capacity r \<and> kr_capacity r \<le> 10000 \<and>
     hasText (kr_location r) 2 120 \<and> length (kr_amenities r) \<le> MAX_AMENITIES \<and> distinct (kr_amenities r) \<and>
     list_all (\<lambda>a. hasText a 1 50 \<and> hyphenated lower_kebab_char a) (kr_amenities r) \<and>
     1 \<le> length (kr_operatingDays r) \<and> length (kr_operatingDays r) \<le> 7 \<and> distinct (kr_operatingDays r) \<and>
     list_all (\<lambda>day. 0 \<le> day \<and> day \<le> 6) (kr_operatingDays r) \<and>
     hour_pattern (kr_opensAt r) \<and> hour_pattern (kr_closesAt r) \<and> kr_opensAt r < kr_closesAt r \<and>
     kr_buildingCode r \<in> set shipped_codes \<and> sound_closures [] (kr_closures r)"

lemma sound_closures_pass: "sound_closures offsets cs \<Longrightarrow> closure_problems label (set offsets) cs = []"
  by (induction cs arbitrary: offsets)
    (auto simp: not_less MAX_CLOSURE_OFFSET_DAYS_def simp flip: list.set(2) dest: leD)

lemma sound_resource_passes:
  "sound_resource r \<Longrightarrow> kr_code r \<notin> seen \<Longrightarrow> resource_problems (set shipped_codes) seen r = []"
  using sound_closures_pass [of "[]" "kr_closures r"]
  by (auto simp: sound_resource_def resource_problems_def Let_def amenity_problems_def hours_problems_def list_all_iff
      not_less not_le split: option.splits)

lemma sound_resources_pass:
  "list_all sound_resource rs \<Longrightarrow> distinct (map kr_code rs) \<Longrightarrow> seen \<inter> kr_code ` set rs = {} \<Longrightarrow>
     all_resource_problems (set shipped_codes) seen rs = []"
  by (induction rs arbitrary: seen) (auto simp: sound_resource_passes)

lemma lecture_halls_sound: "list_all sound_resource lecture_hall_resources"
  by code_simp

lemma learning_commons_sound: "list_all sound_resource learning_commons_resources"
  by code_simp

lemma science_centre_sound: "list_all sound_resource science_centre_resources"
  by code_simp

lemma workshops_sound: "list_all sound_resource workshop_resources"
  by code_simp

lemma observation_sound: "list_all sound_resource observation_resources"
  by code_simp

lemma media_hub_sound: "list_all sound_resource media_hub_resources"
  by code_simp

lemma shipped_codes_distinct: "distinct (map kr_code (kt_resources DEMO_CATALOG))"
  by code_simp

lemma shipped_buildings: "all_building_problems {} catalog_buildings = []"
  "rev (remdups (rev (map kb_code catalog_buildings))) = [''LHC'', ''LCM'', ''SIC'', ''EWB'', ''SEO'', ''SMH'']"
  "\<forall>code\<in>set shipped_codes. code \<in> set (map kr_buildingCode (kt_resources DEMO_CATALOG))"
  by code_simp+

lemma shipped_catalogue_valid: "validateCatalog DEMO_CATALOG = []"
proof -
  have r: "list_all sound_resource (kt_resources DEMO_CATALOG)"
    using lecture_halls_sound learning_commons_sound science_centre_sound workshops_sound observation_sound media_hub_sound
    by (simp add: DEMO_CATALOG_def)
  have b: "kt_buildings DEMO_CATALOG = catalog_buildings" by (simp add: DEMO_CATALOG_def)
  have "all_resource_problems (set shipped_codes) {} (kt_resources DEMO_CATALOG) = []"
    using r shipped_codes_distinct by (intro sound_resources_pass) simp_all
  with shipped_buildings show ?thesis
    by (auto simp: validateCatalog_def Let_def b shipped_codes_def)
qed

section \<open>The properties, applied\<close>

lemma sample_campus_ok: "campus_ok (sample_now, sample_db)"
proof -
  have "none_stranded sample_now sample_db" by code_simp
  then show ?thesis
    using sample_db_ok sample_db_lived by (simp add: campus_ok_def campus_era_def sample_now_def)
qed

text \<open>Identifiers that start with a letter of their table; the length separates the two parts of a closure's.\<close>

definition sample_draws :: draws where
  "sample_draws =
     \<lparr>dr_building = Cons CHR ''B'', dr_resource = Cons CHR ''R'',
      dr_closure = (\<lambda>k date. replicate (length k) CHR ''C'' @ CHR ''D'' # k @ date)\<rparr>"

lemma replicate_split: "replicate m x @ y # xs = replicate n x @ y # ys \<Longrightarrow> x \<noteq> y \<Longrightarrow> m = n \<and> xs = ys"
  by (induction m arbitrary: n) (case_tac n; auto)+

lemma sample_drawn: "drawn sample_draws sample_db"
proof -
  have "inj (case_prod (dr_closure sample_draws))"
    by (rule injI) (auto simp: sample_draws_def dest!: replicate_split)
  moreover have "''c1'' \<noteq> dr_closure sample_draws k date" for k date
    by (cases k) (auto simp: sample_draws_def)
  ultimately show ?thesis
    by (auto simp: drawn_def sample_db_def sample_building_def room_def sample_draws_def)
qed

lemma sample_today: "campusDateOf sample_now = ''2026-09-14''"
  by code_simp

theorem closure_lands_on_operating_day_witness:
  "\<exists>k<7. closure_search 7 [0, 6] (addDays ''2026-09-14'' 3) = Some (resolveClosureDate ''2026-09-14'' 3 [0, 6]) \<and>
     sql_date (resolveClosureDate ''2026-09-14'' 3 [0, 6]) = sql_date ''2026-09-14'' + 3 + int k"
proof -
  have "pg_date ''2026-09-14''" "0 \<le> sql_date ''2026-09-14''" "sql_date ''2026-09-14'' < 2932000" by code_simp+
  then show ?thesis using closure_lands_on_operating_day [of "''2026-09-14''" 3 "[0, 6]"] by auto
qed

theorem catalogue_import_serves_witness:
  "\<exists>n d'. importCatalog sample_draws sample_now DEMO_CATALOG sample_db = Inr (n, d') \<and> campus_ok (sample_now, d') \<and>
     users d' = users sample_db \<and> bookings d' = bookings sample_db"
proof -
  have "sql_date (campusDateOf sample_now) < 2932000" unfolding sample_today by code_simp
  then show ?thesis
    using catalogue_import_serves [OF sample_campus_ok _ sample_drawn shipped_catalogue_valid] by blast
qed

end
