(* ===== verification/WebUrls.thy ===== *)
theory WebUrls
  imports JsText
begin

text \<open>
  Addresses and query strings in the web frontend: the encoding of a parameter and the query a browser
  reads back, where a visitor is sent to sign in and where the sign-in page sends back
  (features/auth/routing.ts, lib/api/session.ts), page numbers in addresses (lib/pagination.ts,
  features/bookings/staff-query.ts, features/resources/admin-query.ts), and the endpoints of the service
  (lib/api/config.ts, lib/api/server-config.ts).
\<close>

section \<open>Percent encoding\<close>

definition utf8_of_char :: "char \<Rightarrow> nat list" where
  "utf8_of_char c = (let n = (of_char c :: nat) in if n < 128 then [n] else [192 + n div 64, 128 + n mod 64])"

definition hex_digit :: "nat \<Rightarrow> char" where
  "hex_digit n = char_of (if n < 10 then 48 + n else 55 + n)"

definition hex_value :: "char \<Rightarrow> nat option" where
  "hex_value c = (let n = (of_char c :: nat) in
     if 48 \<le> n \<and> n \<le> 57 then Some (n - 48) else if 65 \<le> n \<and> n \<le> 70 then Some (n - 55)
     else if 97 \<le> n \<and> n \<le> 102 then Some (n - 87) else None)"

definition percent :: "nat \<Rightarrow> string" where
  "percent n = [CHR ''%'', hex_digit (n div 16), hex_digit (n mod 16)]"

definition encode_with :: "(char \<Rightarrow> bool) \<Rightarrow> string \<Rightarrow> string" where
  "encode_with safe s = concat (map (\<lambda>c. if safe c then [c] else concat (map percent (utf8_of_char c))) s)"

definition is_alnum :: "char \<Rightarrow> bool" where
  "is_alnum c \<longleftrightarrow> (let n = (of_char c :: nat) in
     (48 \<le> n \<and> n \<le> 57) \<or> (65 \<le> n \<and> n \<le> 90) \<or> (97 \<le> n \<and> n \<le> 122))"

text \<open>\<open>encodeURIComponent\<close>, and the encoding of \<open>URLSearchParams.toString\<close>, which writes a space as \<open>+\<close>.\<close>

definition encodeURIComponent :: "string \<Rightarrow> string" where
  "encodeURIComponent = encode_with (\<lambda>c. is_alnum c \<or> c \<in> set ''-_.!~*()'' \<or> c = CHR 0x27)"

definition form_encode :: "string \<Rightarrow> string" where
  "form_encode s = map (\<lambda>c. if c = CHR '' '' then CHR ''+'' else c)
     (encode_with (\<lambda>c. is_alnum c \<or> c \<in> set ''*-._ '') s)"

type_synonym params = "(string \<times> string) list"

fun params_text :: "params \<Rightarrow> string" where
  "params_text [] = []"
| "params_text [(k, v)] = form_encode k @ ''='' @ form_encode v"
| "params_text ((k, v) # p # ps) = form_encode k @ ''='' @ form_encode v @ ''&'' @ params_text (p # ps)"

text \<open>What the receiving side reads; None is malformed, or a text beyond Latin-1.\<close>

fun percent_bytes :: "string \<Rightarrow> nat list" where
  "percent_bytes [] = []"
| "percent_bytes (c # cs) =
     (if c \<noteq> CHR ''%'' then utf8_of_char c @ percent_bytes cs
      else case cs of
        a # b # rest \<Rightarrow>
          (case (hex_value a, hex_value b) of
             (Some m, Some n) \<Rightarrow> (16 * m + n) # percent_bytes rest
           | _ \<Rightarrow> 37 # percent_bytes cs)
      | _ \<Rightarrow> 37 # percent_bytes cs)"

fun utf8_text :: "nat list \<Rightarrow> string option" where
  "utf8_text [] = Some []"
| "utf8_text (n # ns) =
     (if n < 128 then map_option (Cons (char_of n)) (utf8_text ns)
      else case ns of
        m # ms \<Rightarrow>
          if 192 \<le> n \<and> n < 196 \<and> 128 \<le> m \<and> m < 192
          then map_option (Cons (char_of (64 * (n - 192) + (m - 128)))) (utf8_text ms)
          else None
      | [] \<Rightarrow> None)"

definition form_decode :: "string \<Rightarrow> string option" where
  "form_decode s = utf8_text (percent_bytes (map (\<lambda>c. if c = CHR ''+'' then CHR '' '' else c) s))"

fun read_pairs :: "string list \<Rightarrow> params option" where
  "read_pairs [] = Some []"
| "read_pairs (part # parts) =
     (case (form_decode (takeWhile (\<lambda>c. c \<noteq> CHR ''='') part), form_decode (drop 1 (dropWhile (\<lambda>c. c \<noteq> CHR ''='') part)),
            read_pairs parts) of
        (Some k, Some v, Some ps) \<Rightarrow> Some ((k, v) # ps)
      | _ \<Rightarrow> None)"

definition read_params :: "string \<Rightarrow> params option" where
  "read_params s = (if s = [] then Some [] else read_pairs (js_split CHR ''&'' s))"

section \<open>Where a visitor is sent\<close>

text \<open>A parameter of the address: absent is None, repeated is a list.\<close>

datatype query_value = One string | Many "string list"

definition one :: "query_value option \<Rightarrow> string option" where
  "one value = (case value of Some (One s) \<Rightarrow> Some s | _ \<Rightarrow> None)"

definition getSafeRedirect :: "query_value option \<Rightarrow> string \<Rightarrow> string" where
  "getSafeRedirect value fallback =
     (case one value of
        None \<Rightarrow> fallback
      | Some s \<Rightarrow>
          let candidate = js_trim s in
          if \<not> js_startsWith candidate ''/'' \<or> js_startsWith candidate ''//'' \<or> CHR 0x5C \<in> set candidate \<or>
             (\<exists>c\<in>set candidate. (of_char c :: nat) < 32 \<or> of_char c = (127 :: nat))
          then fallback else candidate)"

definition DEFAULT_REDIRECT :: string where
  "DEFAULT_REDIRECT = ''/dashboard''"

definition loginRedirectPath :: "string \<Rightarrow> string" where
  "loginRedirectPath returnTo =
     ''/login?next='' @ encodeURIComponent (getSafeRedirect (Some (One returnTo)) DEFAULT_REDIRECT)"

text \<open>
  How a browser reads an address against the site it is on: spaces and controls around it and line ends
  and tabs in it are dropped, and two slashes of either kind at its start name another host.
\<close>

definition url_input :: "string \<Rightarrow> string" where
  "url_input s =
     (let edge = (\<lambda>c. (of_char c :: nat) \<le> 32) in
      filter (\<lambda>c. (of_char c :: nat) \<notin> {9, 10, 13}) (rev (dropWhile edge (rev (dropWhile edge s)))))"

definition stays_on_site :: "string \<Rightarrow> bool" where
  "stays_on_site s \<longleftrightarrow>
     (case url_input s of
        [] \<Rightarrow> False
      | a # rest \<Rightarrow> a = CHR ''/'' \<and> (case rest of [] \<Rightarrow> True | b # _ \<Rightarrow> b \<noteq> CHR ''/'' \<and> b \<noteq> CHR 0x5C))"

section \<open>Pages in addresses\<close>

definition MAX_SAFE_INTEGER :: nat where
  "MAX_SAFE_INTEGER = 9007199254740991"

definition digits_only :: "string \<Rightarrow> bool" where
  "digits_only s \<longleftrightarrow> s \<noteq> [] \<and> (\<forall>c\<in>set s. is_digit c)"

definition parsePageParam :: "query_value option \<Rightarrow> nat" where
  "parsePageParam value =
     (case one value of
        None \<Rightarrow> 1
      | Some s \<Rightarrow>
          if \<not> digits_only s then 1
          else let page = js_number s in if page \<le> MAX_SAFE_INTEGER \<and> 1 \<le> page then page else 1)"

definition lastPageFor :: "nat \<Rightarrow> nat" where
  "lastPageFor totalPages = max 1 totalPages"

definition with_query :: "string \<Rightarrow> params \<Rightarrow> string" where
  "with_query path ps = (let query = params_text ps in if query = [] then path else path @ ''?'' @ query)"

definition staffQueueHref :: "nat \<Rightarrow> nat \<Rightarrow> string" where
  "staffQueueHref pendingPage operationsPage =
     with_query ''/staff''
       ((if 1 < pendingPage then [(''pendingPage'', js_string pendingPage)] else []) @
        (if 1 < operationsPage then [(''operationsPage'', js_string operationsPage)] else []))"

definition adminResourcesHref :: "nat \<Rightarrow> string" where
  "adminResourcesHref page = (if 1 < page then ''/admin/resources?page='' @ js_string page else ''/admin/resources'')"

section \<open>The endpoints of the service\<close>

definition DEFAULT_API_URL :: string where
  "DEFAULT_API_URL = ''http://localhost:18320/api''"

text \<open>\<open>replace(/[/]+$/, "")\<close>\<close>

definition trim_slashes :: "string \<Rightarrow> string" where
  "trim_slashes s = rev (dropWhile (\<lambda>c. c = CHR ''/'') (rev s))"

definition getApiUrl :: "(string \<Rightarrow> string option) \<Rightarrow> string" where
  "getApiUrl penv = trim_slashes (case penv ''NEXT_PUBLIC_API_URL'' of None \<Rightarrow> DEFAULT_API_URL | Some url \<Rightarrow> url)"

definition endpoint_on :: "string \<Rightarrow> string \<Rightarrow> string" where
  "endpoint_on apiUrl path = apiUrl @ (if js_startsWith path ''/'' then path else ''/'' @ path)"

definition getApiEndpoint :: "(string \<Rightarrow> string option) \<Rightarrow> string \<Rightarrow> string" where
  "getApiEndpoint penv path = endpoint_on (getApiUrl penv) path"

definition getServerApiEndpoint :: "(string \<Rightarrow> string option) \<Rightarrow> string \<Rightarrow> string" where
  "getServerApiEndpoint penv path =
     endpoint_on (case penv ''INTERNAL_API_URL'' of
         None \<Rightarrow> getApiUrl penv
       | Some url \<Rightarrow> if url = [] then getApiUrl penv else trim_slashes url) path"

section \<open>Reading an encoded text back\<close>

lemma hex_value_digit: "n < 16 \<Longrightarrow> hex_value (hex_digit n) = Some n"
  by (auto simp: hex_value_def hex_digit_def Let_def)

lemma hex_digit_plain: "n < 16 \<Longrightarrow> is_alnum (hex_digit n)"
  by (auto simp: hex_digit_def is_alnum_def Let_def)

lemma percent_bytes_percent: "n < 256 \<Longrightarrow> percent_bytes (percent n @ t) = n # percent_bytes t"
  using hex_value_digit [of "n div 16"] hex_value_digit [of "n mod 16"] by (simp add: percent_def)

lemma char_quarter: "of_char c div 64 < (4::nat)"
  using nat_of_char_less_256 [of c] by (simp add: less_mult_imp_div_less)

lemma utf8_of_char_bytes: "\<forall>n\<in>set (utf8_of_char c). n < 256"
  using char_quarter [of c] by (auto simp: utf8_of_char_def Let_def)

lemma percent_bytes_encoded:
  "\<forall>n\<in>set ns. n < 256 \<Longrightarrow> percent_bytes (concat (map percent ns) @ t) = ns @ percent_bytes t"
  by (induction ns) (simp_all add: percent_bytes_percent)

lemma percent_bytes_encode:
  "\<not> safe CHR ''%'' \<Longrightarrow> percent_bytes (encode_with safe s @ t) = concat (map utf8_of_char s) @ percent_bytes t"
  by (induction s) (auto simp: encode_with_def percent_bytes_encoded utf8_of_char_bytes)

lemma utf8_text_char: "utf8_text (utf8_of_char c @ ns) = map_option (Cons c) (utf8_text ns)"
proof -
  have "of_char c div 64 < (4::nat)" by (rule char_quarter)
  moreover have "64 * (of_char c div 64) + of_char c mod 64 = (of_char c :: nat)" by simp
  ultimately show ?thesis by (auto simp: utf8_of_char_def Let_def)
qed

lemma utf8_text_encoded: "utf8_text (concat (map utf8_of_char s)) = Some s"
  by (induction s) (simp_all add: utf8_text_char)

lemma plus_free: "CHR ''+'' \<notin> set (encode_with safe s)" if "\<not> safe CHR ''+''"
proof -
  have "\<not> is_alnum CHR ''+''" by (simp add: is_alnum_def)
  then have "CHR ''+'' \<noteq> hex_digit n" if "n < 16" for n
    using hex_digit_plain [OF that] by auto
  then have "CHR ''+'' \<notin> set (percent n)" if "n < 256" for n
    using that by (auto simp: percent_def)
  then show ?thesis using that utf8_of_char_bytes by (auto simp: encode_with_def)
qed

lemma plus_as_space: "CHR ''+'' \<notin> set s \<Longrightarrow> map (\<lambda>c. if c = CHR ''+'' then CHR '' '' else c) s = s"
  by (induction s) auto

lemma form_decode_component [simp]: "form_decode (encodeURIComponent s) = Some s"
proof -
  have "CHR ''+'' \<notin> set (encodeURIComponent s)"
    unfolding encodeURIComponent_def by (rule plus_free) (simp add: is_alnum_def)
  then show ?thesis
    using percent_bytes_encode [of "\<lambda>c. is_alnum c \<or> c \<in> set ''-_.!~*()'' \<or> c = CHR 0x27" s "[]"]
    by (simp add: form_decode_def plus_as_space encodeURIComponent_def is_alnum_def utf8_text_encoded)
qed

lemma form_decode_encode [simp]: "form_decode (form_encode s) = Some s"
proof -
  let ?t = "encode_with (\<lambda>c. is_alnum c \<or> c \<in> set ''*-._ '') s"
  have p: "CHR ''+'' \<notin> set ?t" by (rule plus_free) (simp add: is_alnum_def)
  have "map (\<lambda>c. if c = CHR ''+'' then CHR '' '' else c) (form_encode s) = ?t"
    using p unfolding form_encode_def map_map by (intro map_idI) auto
  then show ?thesis
    using percent_bytes_encode [of "\<lambda>c. is_alnum c \<or> c \<in> set ''*-._ ''" s "[]"]
    by (simp add: form_decode_def is_alnum_def utf8_text_encoded)
qed

text \<open>An encoded text holds none of the characters that part a query.\<close>

lemma encoded_chars: "c \<in> set (encode_with safe s) \<Longrightarrow> safe c \<or> is_alnum c \<or> c = CHR ''%''"
  using utf8_of_char_bytes hex_digit_plain
  by (fastforce simp: encode_with_def percent_def less_mult_imp_div_less split: if_splits)

lemma form_chars: "c \<in> set (form_encode s) \<Longrightarrow> c \<noteq> CHR ''&'' \<and> c \<noteq> CHR ''=''"
  using encoded_chars [of _ "\<lambda>c. is_alnum c \<or> c \<in> set ''*-._ ''" s]
  by (fastforce simp: form_encode_def is_alnum_def split: if_splits)

lemma read_pairs_pair:
  "read_pairs ((form_encode k @ ''='' @ form_encode v) # parts) = map_option (Cons (k, v)) (read_pairs parts)"
proof -
  have "takeWhile (\<lambda>c. c \<noteq> CHR ''='') (form_encode k @ ''='' @ form_encode v) = form_encode k"
    "dropWhile (\<lambda>c. c \<noteq> CHR ''='') (form_encode k @ ''='' @ form_encode v) = ''='' @ form_encode v"
    using form_chars [of _ k] by (simp_all add: takeWhile_append dropWhile_append)
  then show ?thesis by (simp split: option.splits)
qed

lemma read_params_text: "read_params (params_text ps) = Some ps"
proof -
  have pair: "CHR ''&'' \<notin> set (form_encode k @ ''='' @ form_encode v)" for k v
    using form_chars by auto
  have "ps \<noteq> [] \<Longrightarrow> read_pairs (js_split CHR ''&'' (params_text ps)) = Some ps"
  proof (induction ps rule: params_text.induct)
    case (2 k v)
    then show ?case using read_pairs_pair [of k v "[]"] js_split_no_sep [OF pair] by simp
  next
    case (3 k v p ps)
    have "js_split CHR ''&'' (params_text ((k, v) # p # ps)) =
        (form_encode k @ ''='' @ form_encode v) # js_split CHR ''&'' (params_text (p # ps))"
      using js_split_sep [OF pair, of k v "params_text (p # ps)"] by simp
    with 3 show ?case by (simp only: read_pairs_pair) simp
  qed simp
  moreover have "params_text ps = [] \<longleftrightarrow> ps = []" by (cases ps rule: params_text.cases) auto
  ultimately show ?thesis by (simp add: read_params_def)
qed

section \<open>A visitor stays on the site\<close>

lemma url_input_fixed:
  assumes "s \<noteq> []" "\<not> is_space (hd s)" "\<not> is_space (last s)" "\<forall>c\<in>set s. 32 \<le> (of_char c :: nat)"
  shows "url_input s = s"
proof -
  let ?edge = "\<lambda>c. (of_char c :: nat) \<le> 32"
  have "32 \<le> (of_char (hd s) :: nat)" "32 \<le> (of_char (last s) :: nat)" using assms(1,4) by simp_all
  with assms(2,3) have "\<not> ?edge (hd s)" "\<not> ?edge (last s)" by (auto simp: is_space_def Let_def)
  then have "rev (dropWhile ?edge (rev (dropWhile ?edge s))) = s" using assms(1) by (simp add: dropWhile_id hd_rev)
  moreover have "filter (\<lambda>c. (of_char c :: nat) \<notin> {9, 10, 13}) s = s" using assms(4) by (intro filter_True) fastforce
  ultimately show ?thesis by (simp add: url_input_def Let_def)
qed

lemma safe_redirect_stays:
  assumes "stays_on_site fallback"
  shows "stays_on_site (getSafeRedirect value fallback)"
proof (cases "getSafeRedirect value fallback = fallback")
  case False
  then obtain s where c: "getSafeRedirect value fallback = js_trim s" "js_startsWith (js_trim s) ''/''"
      "\<not> js_startsWith (js_trim s) ''//''" "CHR 0x5C \<notin> set (js_trim s)" "\<forall>c\<in>set (js_trim s). 32 \<le> (of_char c :: nat)"
    by (auto simp: getSafeRedirect_def Let_def not_less split: option.splits if_splits)
  have ne: "js_trim s \<noteq> []" using c(2) by (auto simp: js_startsWith_def)
  have "url_input (js_trim s) = js_trim s"
    using ne c(5) js_trim_hd [OF ne] js_trim_last [OF ne] by (intro url_input_fixed) auto
  with c ne show ?thesis
    by (cases "js_trim s"; cases "tl (js_trim s)") (auto simp: stays_on_site_def js_startsWith_def)
qed (simp add: assms)

text \<open>The site's own addresses pass unchanged.\<close>

definition own_path :: "string \<Rightarrow> bool" where
  "own_path s \<longleftrightarrow> js_startsWith s ''/'' \<and> \<not> js_startsWith s ''//'' \<and>
     (\<forall>c\<in>set s. 33 \<le> (of_char c :: nat) \<and> (of_char c :: nat) < 127 \<and> c \<noteq> CHR 0x5C)"

lemma own_path_kept: "own_path s \<Longrightarrow> getSafeRedirect (Some (One s)) fallback = s"
proof -
  assume s: "own_path s"
  have space: "\<not> is_space c" if "33 \<le> (of_char c :: nat)" "(of_char c :: nat) < 127" for c
    using that by (auto simp: is_space_def Let_def)
  then have "\<forall>c\<in>set s. \<not> is_space c" using s by (simp add: own_path_def)
  then have "js_trim s = s" by (intro js_trim_fixed) (cases "s = []"; simp)
  moreover have "\<not> (\<exists>c\<in>set s. (of_char c :: nat) < 32 \<or> of_char c = (127 :: nat))"
  proof
    assume "\<exists>c\<in>set s. (of_char c :: nat) < 32 \<or> of_char c = (127 :: nat)"
    then obtain c where "c \<in> set s" "(of_char c :: nat) < 32 \<or> of_char c = (127 :: nat)" by blast
    moreover have "33 \<le> (of_char c :: nat) \<and> (of_char c :: nat) < 127" using s calculation(1) unfolding own_path_def by blast
    ultimately show False by linarith
  qed
  moreover have "CHR 0x5C \<notin> set s" using s unfolding own_path_def by blast
  ultimately show ?thesis using s by (simp add: getSafeRedirect_def one_def Let_def own_path_def)
qed

lemma sign_in_returns:
  "own_path s \<Longrightarrow> form_decode (drop (length ''/login?next='') (loginRedirectPath s)) = Some s"
  by (simp add: loginRedirectPath_def own_path_kept)

lemma alnum_range: "is_alnum c \<Longrightarrow> 48 \<le> (of_char c :: nat) \<and> (of_char c :: nat) \<le> 122 \<and> (of_char c :: nat) \<noteq> 92"
  by (auto simp: is_alnum_def Let_def)

lemma form_range: "c \<in> set (form_encode s) \<Longrightarrow> 33 \<le> (of_char c :: nat) \<and> (of_char c :: nat) < 127 \<and> c \<noteq> CHR 0x5C"
  using encoded_chars [of _ "\<lambda>c. is_alnum c \<or> c \<in> set ''*-._ ''" s] alnum_range
  by (fastforce simp: form_encode_def split: if_splits)

lemma params_range: "c \<in> set (params_text ps) \<Longrightarrow> 33 \<le> (of_char c :: nat) \<and> (of_char c :: nat) < 127 \<and> c \<noteq> CHR 0x5C"
  using form_range by (induction ps rule: params_text.induct) auto

lemma js_startsWith_append: "length pfx \<le> length s \<Longrightarrow> js_startsWith (s @ t) pfx \<longleftrightarrow> js_startsWith s pfx"
  by (simp add: js_startsWith_def)

lemma own_with_query:
  assumes "own_path path" "path \<noteq> ''/''"
  shows "own_path (with_query path ps)"
proof -
  have "2 \<le> length path"
    using assms by (cases path; cases "tl path") (auto simp: own_path_def js_startsWith_def)
  then have "js_startsWith (path @ t) ''/'' \<longleftrightarrow> js_startsWith path ''/''"
    "js_startsWith (path @ t) ''//'' \<longleftrightarrow> js_startsWith path ''//''" for t
    by (simp_all add: js_startsWith_append)
  with assms(1) params_range show ?thesis by (auto simp: own_path_def with_query_def Let_def)
qed

section \<open>Page numbers read back\<close>

lemma parse_page_string: "1 \<le> n \<Longrightarrow> n \<le> MAX_SAFE_INTEGER \<Longrightarrow> parsePageParam (Some (One (js_string n))) = n"
proof -
  have "js_string n \<noteq> []" by (subst js_string.simps) simp
  then show "1 \<le> n \<Longrightarrow> n \<le> MAX_SAFE_INTEGER \<Longrightarrow> ?thesis"
    using js_string_digits [of n] by (simp add: parsePageParam_def one_def digits_only_def js_number_string)
qed

lemma parse_page_range: "1 \<le> parsePageParam v \<and> parsePageParam v \<le> MAX_SAFE_INTEGER"
  by (auto simp: parsePageParam_def Let_def MAX_SAFE_INTEGER_def split: option.splits)

end
