(* ===== verification/WebDirectory.thy ===== *)
theory WebDirectory
  imports WebUrls WebResources
begin

text \<open>
  The resource pages of the web frontend: the filters read from an address and written to one
  (features/resources/discovery-query.ts), the interval picked in an address
  (features/resources/slot-selection.ts), what is loaded from the service
  (features/resources/api/server.ts), and what a page does with it (app/resources, app/admin/resources).
\<close>

section \<open>The filters of the directory\<close>

text \<open>\<open>Record<string, string | string[] | undefined>\<close>\<close>

type_synonym search_params = "string \<Rightarrow> query_value option"

record discovery_filters =
  df_q :: "string option"
  df_buildingId :: "string option"
  df_type :: "resource_type option"
  df_minCapacity :: "nat option"
  df_amenity :: "string option"
  df_date :: "string option"
  df_startTime :: "string option"
  df_endTime :: "string option"
  df_sort :: "resource_sort option"
  df_page :: "nat option"

fun resource_sort_text :: "resource_sort \<Rightarrow> string" where
  "resource_sort_text NAME_ASC = ''name_asc''"
| "resource_sort_text CAPACITY_ASC = ''capacity_asc''"
| "resource_sort_text CAPACITY_DESC = ''capacity_desc''"

definition resource_sort_of_text :: "string \<Rightarrow> resource_sort option" where
  "resource_sort_of_text s =
     (if s = ''name_asc'' then Some NAME_ASC else if s = ''capacity_asc'' then Some CAPACITY_ASC
      else if s = ''capacity_desc'' then Some CAPACITY_DESC else None)"

definition boundedText :: "query_value option \<Rightarrow> nat \<Rightarrow> string option" where
  "boundedText value maxLength =
     (case one value of
        None \<Rightarrow> None
      | Some s \<Rightarrow> let normalized = js_trim s in
          if normalized \<noteq> [] \<and> length normalized \<le> maxLength then Some normalized else None)"

definition boundedInteger :: "query_value option \<Rightarrow> nat \<Rightarrow> nat \<Rightarrow> nat option" where
  "boundedInteger value minimum maximum =
     (case one value of
        None \<Rightarrow> None
      | Some s \<Rightarrow>
          if \<not> digits_only s then None
          else let n = js_number s in
            if n \<le> MAX_SAFE_INTEGER \<and> minimum \<le> n \<and> n \<le> maximum then Some n else None)"

definition passing :: "'a option \<Rightarrow> ('a \<Rightarrow> bool) \<Rightarrow> 'a option" where
  "passing x P = (case x of Some v \<Rightarrow> if P v then Some v else None | None \<Rightarrow> None)"

definition interval_picked :: "string option \<Rightarrow> string option \<Rightarrow> string option \<Rightarrow> bool" where
  "interval_picked date startTime endTime \<longleftrightarrow>
     (case (date, startTime, endTime) of
        (Some d, Some s, Some t) \<Rightarrow> web_isCalendarDate d \<and> hour_pattern s \<and> hour_pattern t \<and> s < t
      | _ \<Rightarrow> False)"

definition normalizeDiscoveryFilters :: "search_params \<Rightarrow> discovery_filters" where
  "normalizeDiscoveryFilters params =
     (let date = one (params ''date''); startTime = one (params ''startTime''); endTime = one (params ''endTime'');
          picked = interval_picked date startTime endTime in
      \<lparr>df_q = boundedText (params ''q'') 120,
       df_buildingId = passing (one (params ''buildingId'')) uuid_pattern,
       df_type = Option.bind (one (params ''type'')) resource_type_of_text,
       df_minCapacity = boundedInteger (params ''minCapacity'') 1 10000,
       df_amenity = map_option js_lower (boundedText (params ''amenity'') 50),
       df_date = (if picked then date else None),
       df_startTime = (if picked then startTime else None),
       df_endTime = (if picked then endTime else None),
       df_sort = Option.bind (one (params ''sort'')) resource_sort_of_text,
       df_page = boundedInteger (params ''page'') 1 MAX_SAFE_INTEGER\<rparr>)"

text \<open>\<open>if (value) params.set(key, value)\<close>\<close>

definition text_param :: "string \<Rightarrow> string option \<Rightarrow> params" where
  "text_param key value = (case value of None \<Rightarrow> [] | Some s \<Rightarrow> if s = [] then [] else [(key, s)])"

definition interval_params :: "string option \<Rightarrow> string option \<Rightarrow> string option \<Rightarrow> params" where
  "interval_params date startTime endTime =
     (case (date, startTime, endTime) of
        (Some d, Some s, Some t) \<Rightarrow>
          if d \<noteq> [] \<and> s \<noteq> [] \<and> t \<noteq> [] then [(''date'', d), (''startTime'', s), (''endTime'', t)] else []
      | _ \<Rightarrow> [])"

text \<open>The overrides are the function that replaces the fields the object has.\<close>

definition discoverySearchParams :: "discovery_filters \<Rightarrow> (discovery_filters \<Rightarrow> discovery_filters) \<Rightarrow> params" where
  "discoverySearchParams filters overrides =
     (let merged = overrides filters in
      text_param ''q'' (df_q merged) @ text_param ''buildingId'' (df_buildingId merged) @
      text_param ''type'' (map_option resource_type_text (df_type merged)) @
      text_param ''minCapacity'' (map_option js_string (df_minCapacity merged)) @
      text_param ''amenity'' (df_amenity merged) @
      interval_params (df_date merged) (df_startTime merged) (df_endTime merged) @
      text_param ''sort'' (map_option resource_sort_text (passing (df_sort merged) (\<lambda>s. s \<noteq> NAME_ASC))) @
      text_param ''page'' (map_option js_string (passing (df_page merged) (\<lambda>p. 1 < p))))"

definition discoveryHref :: "discovery_filters \<Rightarrow> (discovery_filters \<Rightarrow> discovery_filters) \<Rightarrow> string" where
  "discoveryHref filters overrides = with_query ''/resources'' (discoverySearchParams filters overrides)"

section \<open>The interval picked in an address\<close>

record slot_selection =
  ss_selectedSlot :: "web_slot option"
  ss_isSlotAvailable :: bool

definition NO_SELECTION :: slot_selection where
  "NO_SELECTION = \<lparr>ss_selectedSlot = None, ss_isSlotAvailable = False\<rparr>"

fun contiguous :: "web_slot list \<Rightarrow> bool" where
  "contiguous (a # b # bs) \<longleftrightarrow> sl_endTime a = sl_startTime b \<and> contiguous (b # bs)"
| "contiguous ss \<longleftrightarrow> True"

definition range_selection :: "web_availability \<Rightarrow> string \<Rightarrow> string \<Rightarrow> slot_selection" where
  "range_selection availability startTime endTime =
     (if endTime \<le> startTime \<or> startTime < wa_opensAt availability \<or> wa_closesAt availability < endTime
      then NO_SELECTION
      else
        let covered = filter (\<lambda>s. startTime \<le> sl_startTime s \<and> sl_endTime s \<le> endTime) (wa_slots availability) in
        \<lparr>ss_selectedSlot = Some \<lparr>sl_startTime = startTime, sl_endTime = endTime\<rparr>,
         ss_isSlotAvailable = covered \<noteq> [] \<and> sl_startTime (hd covered) = startTime \<and>
           sl_endTime (last covered) = endTime \<and> contiguous covered\<rparr>)"

definition resolveSlotSelection :: "web_availability \<Rightarrow> string option \<Rightarrow> string option \<Rightarrow> slot_selection" where
  "resolveSlotSelection availability startTime endTime =
     (case passing startTime (\<lambda>s. s \<noteq> []) of
        None \<Rightarrow> NO_SELECTION
      | Some start \<Rightarrow>
          (case passing endTime (\<lambda>s. s \<noteq> []) of
             Some stop \<Rightarrow> range_selection availability start stop
           | None \<Rightarrow>
               (case find (\<lambda>item. sl_startTime item = start) (wa_slots availability) of
                  Some slot \<Rightarrow> \<lparr>ss_selectedSlot = Some slot, ss_isSlotAvailable = True\<rparr>
                | None \<Rightarrow> NO_SELECTION)))"

section \<open>Loading from the service\<close>

text \<open>What a request comes back with: nothing, or a status and a body, \<open>null\<close> when it is not JSON.\<close>

datatype reply = No_reply | Reply nat js_value

text \<open>A loader returns data, finds the session over, or throws.\<close>

datatype 'a load = Loaded 'a | Session_over | Load_error

fun load_bind :: "'a load \<Rightarrow> ('a \<Rightarrow> 'b load) \<Rightarrow> 'b load" where
  "load_bind (Loaded x) f = f x"
| "load_bind Session_over f = Session_over"
| "load_bind Load_error f = Load_error"

fun load_of :: "'a option \<Rightarrow> 'a load" where
  "load_of (Some x) = Loaded x"
| "load_of None = Load_error"

definition assertSessionActive :: "reply \<Rightarrow> reply load" where
  "assertSessionActive r =
     (case r of No_reply \<Rightarrow> Load_error | Reply status body \<Rightarrow> if status = 401 then Session_over else Loaded r)"

definition ok_status :: "nat \<Rightarrow> bool" where
  "ok_status n \<longleftrightarrow> 200 \<le> n \<and> n < 300"

definition resourceRequest :: "reply \<Rightarrow> (nat \<times> js_value) load" where
  "resourceRequest r = load_bind (assertSessionActive r) (\<lambda>r. case r of
       Reply status body \<Rightarrow> if \<not> ok_status status \<and> status \<noteq> 404 then Load_error else Loaded (status, body)
     | No_reply \<Rightarrow> Load_error)"

definition ADMIN_RESOURCE_PAGE_SIZE :: nat where
  "ADMIN_RESOURCE_PAGE_SIZE = 20"

text \<open>Of two requests that both fail, the first one's failure is reported.\<close>

definition getAdminResourceCatalog ::
  "(string \<Rightarrow> int option) \<Rightarrow> nat \<Rightarrow> reply \<Rightarrow> reply \<Rightarrow> ((web_catalogue_entry list \<times> web_page) \<times> web_building list) load" where
  "getAdminResourceCatalog other page resourceReply buildingReply =
     load_bind (resourceRequest resourceReply) (\<lambda>resourceResponse.
     load_bind (resourceRequest buildingReply) (\<lambda>buildingResponse.
     load_of (case (parseResourcePage other (snd resourceResponse) 50, parseBuildings (snd buildingResponse)) of
         (Some (items, p), Some blds) \<Rightarrow>
           if pg_page p \<noteq> int page \<or> pg_pageSize p \<noteq> int ADMIN_RESOURCE_PAGE_SIZE then None
           else Some ((items, p), blds)
       | _ \<Rightarrow> None)))"

definition getResourceDirectory ::
  "(string \<Rightarrow> int option) \<Rightarrow> discovery_filters \<Rightarrow> reply \<Rightarrow> reply \<Rightarrow>
   ((web_catalogue_entry list \<times> web_page) \<times> web_building list) load" where
  "getResourceDirectory other filters resourceReply buildingReply =
     load_bind (resourceRequest resourceReply) (\<lambda>resourceResponse.
     load_bind (resourceRequest buildingReply) (\<lambda>buildingResponse.
     load_of (case (parseResourcePage other (snd resourceResponse) 24, parseBuildings (snd buildingResponse)) of
         (Some (items, p), Some blds) \<Rightarrow>
           if pg_page p \<noteq> int (case df_page filters of None \<Rightarrow> 1 | Some n \<Rightarrow> n) \<or> pg_pageSize p \<noteq> 9 \<or>
              (\<exists>r\<in>set items. we_status r \<noteq> ACTIVE) then None
           else Some ((items, p), blds)
       | _ \<Rightarrow> None)))"

text \<open>The requests: the filters with the page size.\<close>

definition directory_query :: "discovery_filters \<Rightarrow> params" where
  "directory_query filters = discoverySearchParams filters (\<lambda>f. f) @ [(''pageSize'', ''9'')]"

definition getResourceAvailability :: "string \<Rightarrow> string \<Rightarrow> reply \<Rightarrow> web_availability option load" where
  "getResourceAvailability k date r =
     load_bind (resourceRequest r) (\<lambda>(status, body).
       if status = 404 then Loaded None
       else load_of (case parseResourceAvailability body of
           None \<Rightarrow> None
         | Some a \<Rightarrow> if wa_resourceId a \<noteq> k \<or> wa_date a \<noteq> date then None else Some (Some a)))"

definition getResourceDetail :: "(string \<Rightarrow> int option) \<Rightarrow> string \<Rightarrow> reply \<Rightarrow> web_catalogue_entry option load" where
  "getResourceDetail other k r =
     load_bind (resourceRequest r) (\<lambda>(status, body).
       if status = 404 then Loaded None
       else load_of (case web_parseResource other body of
           None \<Rightarrow> None
         | Some e \<Rightarrow> if we_id e \<noteq> k \<or> we_status e \<noteq> ACTIVE then None else Some (Some e)))"

section \<open>What a page does\<close>

text \<open>A page renders, sends the visitor elsewhere, is not there, or shows the error page.\<close>

datatype 'a page_outcome = Page 'a | Redirected string | Not_found | Error_page

fun withSessionRedirect :: "string \<Rightarrow> 'a load \<Rightarrow> ('a \<Rightarrow> 'b page_outcome) \<Rightarrow> 'b page_outcome" where
  "withSessionRedirect returnTo (Loaded x) f = f x"
| "withSessionRedirect returnTo Session_over f = Redirected (loginRedirectPath returnTo)"
| "withSessionRedirect returnTo Load_error f = Error_page"

text \<open>\<open>signed_in\<close> is whether the session lookup found a user.\<close>

definition ResourcesPage ::
  "(string \<Rightarrow> int option) \<Rightarrow> search_params \<Rightarrow> bool \<Rightarrow> reply \<Rightarrow> reply \<Rightarrow>
   ((web_catalogue_entry list \<times> web_page) \<times> web_building list) page_outcome" where
  "ResourcesPage other params signed_in resourceReply buildingReply =
     (let filters = normalizeDiscoveryFilters params in
      if \<not> signed_in then Redirected (loginRedirectPath (discoveryHref filters (\<lambda>f. f)))
      else withSessionRedirect (discoveryHref filters (\<lambda>f. f)) (getResourceDirectory other filters resourceReply buildingReply)
        (\<lambda>directory.
           let p = snd (fst directory); lastPage = max 1 (pg_totalPages p) in
           if lastPage < pg_page p then Redirected (discoveryHref filters (\<lambda>f. f\<lparr>df_page := Some (nat lastPage)\<rparr>))
           else Page directory))"

definition AdminResourcesPage ::
  "(string \<Rightarrow> int option) \<Rightarrow> search_params \<Rightarrow> user_role option \<Rightarrow> reply \<Rightarrow> reply \<Rightarrow>
   ((web_catalogue_entry list \<times> web_page) \<times> web_building list) page_outcome" where
  "AdminResourcesPage other params role resourceReply buildingReply =
     (let requestedPage = parsePageParam (params ''page'') in
      case role of
        None \<Rightarrow> Redirected (loginRedirectPath (adminResourcesHref requestedPage))
      | Some r \<Rightarrow>
          if r \<noteq> ADMIN then Redirected ''/dashboard''
          else withSessionRedirect (adminResourcesHref requestedPage)
            (getAdminResourceCatalog other requestedPage resourceReply buildingReply)
            (\<lambda>catalog.
               let lastPage = lastPageFor (nat (pg_totalPages (snd (fst catalog)))) in
               if lastPage < requestedPage then Redirected (adminResourcesHref lastPage) else Page catalog))"

record detail_view =
  dv_resource :: web_catalogue_entry
  dv_availability :: "web_availability option"
  dv_selection :: slot_selection

definition detail_return :: "string \<Rightarrow> string option \<Rightarrow> string option \<Rightarrow> string option \<Rightarrow> string" where
  "detail_return k checkedDate selectedStart selectedEnd =
     with_query (''/resources/'' @ k)
       (case checkedDate of
          None \<Rightarrow> []
        | Some date \<Rightarrow> [(''date'', date)] @ text_param ''startTime'' selectedStart @ text_param ''endTime'' selectedEnd)"

text \<open>The availability is asked for when a date is checked and the resource was found.\<close>

definition ResourceDetailPage ::
  "(string \<Rightarrow> int option) \<Rightarrow> string \<Rightarrow> search_params \<Rightarrow> bool \<Rightarrow> reply \<Rightarrow> reply \<Rightarrow> detail_view page_outcome" where
  "ResourceDetailPage other k query signed_in resourceReply availabilityReply =
     (if \<not> uuid_pattern k then Not_found
      else
        let checkedDate = passing (one (query ''date'')) web_isCalendarDate;
            selectedStart = passing (one (query ''startTime'')) hour_pattern;
            selectedEnd = passing (one (query ''endTime'')) hour_pattern;
            returnTo = detail_return k checkedDate selectedStart selectedEnd in
        if \<not> signed_in then Redirected (loginRedirectPath returnTo)
        else withSessionRedirect returnTo
          (load_bind (getResourceDetail other k resourceReply) (\<lambda>resource.
             case (resource, checkedDate) of
               (Some r, Some date) \<Rightarrow>
                 load_bind (getResourceAvailability k date availabilityReply) (\<lambda>availability. Loaded (resource, availability))
             | _ \<Rightarrow> Loaded (resource, None)))
          (\<lambda>(resource, availability).
             case resource of
               None \<Rightarrow> Not_found
             | Some r \<Rightarrow>
                 if checkedDate \<noteq> None \<and> availability = None then Not_found
                 else Page \<lparr>dv_resource = r, dv_availability = availability,
                   dv_selection = (case availability of
                       None \<Rightarrow> NO_SELECTION
                     | Some a \<Rightarrow> resolveSlotSelection a selectedStart selectedEnd)\<rparr>))"

section \<open>What the service makes of a request\<close>

text \<open>The reply to a request, by the response of the endpoint; the body of an error is only read for a conflict.\<close>

fun reply_of :: "('a \<Rightarrow> js_value) \<Rightarrow> 'a response \<Rightarrow> reply" where
  "reply_of json (Inr x) = Reply 200 (json x)"
| "reply_of json (Inl (ActiveBookingsConflict message n cs)) = Reply 409 (conflict_json message n cs)"
| "reply_of json (Inl err) = Reply (http_status err) JNull"

text \<open>The query object built from the parameters; None is a parameter that is no value of its type.\<close>

definition number_param :: "params \<Rightarrow> string \<Rightarrow> nat option option" where
  "number_param ps key =
     (case map_of ps key of
        None \<Rightarrow> Some None
      | Some s \<Rightarrow> if digits_only s then Some (Some (js_number s)) else None)"

definition enum_param :: "params \<Rightarrow> string \<Rightarrow> (string \<Rightarrow> 'a option) \<Rightarrow> 'a option option" where
  "enum_param ps key of_text =
     (case map_of ps key of None \<Rightarrow> Some None | Some s \<Rightarrow> map_option Some (of_text s))"

definition read_discover_query :: "params \<Rightarrow> discover_query option" where
  "read_discover_query ps =
     (case (enum_param ps ''type'' resource_type_of_text, number_param ps ''minCapacity'',
            enum_param ps ''sort'' resource_sort_of_text, number_param ps ''page'', number_param ps ''pageSize'') of
        (Some rt, Some capacity, Some order, Some page, Some per_page) \<Rightarrow>
          Some \<lparr>dq_q = map_of ps ''q'', dq_buildingId = map_of ps ''buildingId'', dq_type = rt,
            dq_minCapacity = map_option int capacity, dq_amenity = map_of ps ''amenity'', dq_date = map_of ps ''date'',
            dq_startTime = map_of ps ''startTime'', dq_endTime = map_of ps ''endTime'',
            dq_sort = case_option NAME_ASC id order, dq_page = case_option 1 id page,
            dq_pageSize = case_option 9 id per_page\<rparr>
      | _ \<Rightarrow> None)"

end
