(* ===== verification/WebDirectoryProps.thy ===== *)
theory WebDirectoryProps
  imports WebDirectory WebResourceReads
begin

text \<open>
  The resource pages show what the service offers: the filters of an address survive being written to
  an address, signing in and a change of page; the directory always loads; and an interval is shown as
  available exactly when it can be booked.
\<close>

section \<open>The filters\<close>

text \<open>What is left after the normalisation.\<close>

definition filters_fit :: "discovery_filters \<Rightarrow> bool" where
  "filters_fit f \<longleftrightarrow>
     opt_holds (df_q f) (\<lambda>s. s \<noteq> [] \<and> js_trim s = s \<and> length s \<le> 120) \<and> opt_holds (df_buildingId f) uuid_pattern \<and>
     opt_holds (df_minCapacity f) (\<lambda>n. 1 \<le> n \<and> n \<le> 10000) \<and>
     opt_holds (df_amenity f) (\<lambda>s. s \<noteq> [] \<and> js_trim s = s \<and> js_lower s = s \<and> length s \<le> 50) \<and>
     (df_date f = None \<and> df_startTime f = None \<and> df_endTime f = None \<or>
      interval_picked (df_date f) (df_startTime f) (df_endTime f)) \<and>
     opt_holds (df_page f) (\<lambda>n. 1 \<le> n \<and> n \<le> MAX_SAFE_INTEGER)"

lemma bounded_text_fits: "opt_holds (boundedText v n) (\<lambda>s. s \<noteq> [] \<and> js_trim s = s \<and> length s \<le> n)"
  by (auto simp: boundedText_def opt_holds_def Let_def split: option.splits)

lemma bounded_integer_fits: "opt_holds (boundedInteger v a b) (\<lambda>n. a \<le> n \<and> n \<le> b \<and> n \<le> MAX_SAFE_INTEGER)"
  by (auto simp: boundedInteger_def opt_holds_def Let_def split: option.splits)

lemma opt_holds_mono: "opt_holds x P \<Longrightarrow> (\<And>v. P v \<Longrightarrow> Q v) \<Longrightarrow> opt_holds x Q"
  by (auto simp: opt_holds_def split: option.splits)

lemma js_lower_nonempty [simp]: "js_lower s = [] \<longleftrightarrow> s = []" "length (js_lower s) = length s"
  by (simp_all add: js_lower_def)

lemma normalized_fits: "filters_fit (normalizeDiscoveryFilters params)"
proof -
  let ?f = "normalizeDiscoveryFilters params"
  have q: "opt_holds (df_q ?f) (\<lambda>s. s \<noteq> [] \<and> js_trim s = s \<and> length s \<le> 120)"
    by (simp add: normalizeDiscoveryFilters_def Let_def bounded_text_fits)
  have b: "opt_holds (df_buildingId ?f) uuid_pattern"
    by (auto simp: normalizeDiscoveryFilters_def Let_def passing_def opt_holds_def split: option.splits)
  have a: "opt_holds (df_amenity ?f) (\<lambda>s. s \<noteq> [] \<and> js_trim s = s \<and> js_lower s = s \<and> length s \<le> 50)"
    using bounded_text_fits [of "params ''amenity''" 50]
    by (auto simp: normalizeDiscoveryFilters_def Let_def opt_holds_def js_lower_trim [symmetric] split: option.splits)
  have n: "opt_holds (df_minCapacity ?f) (\<lambda>n. 1 \<le> n \<and> n \<le> 10000)"
    "opt_holds (df_page ?f) (\<lambda>n. 1 \<le> n \<and> n \<le> MAX_SAFE_INTEGER)"
    by (simp_all add: normalizeDiscoveryFilters_def Let_def opt_holds_mono [OF bounded_integer_fits])
  have i: "df_date ?f = None \<and> df_startTime ?f = None \<and> df_endTime ?f = None \<or>
      interval_picked (df_date ?f) (df_startTime ?f) (df_endTime ?f)"
    by (simp add: normalizeDiscoveryFilters_def Let_def)
  show ?thesis using q b a n i unfolding filters_fit_def by blast
qed

section \<open>Filters written and read back\<close>

text \<open>The address leaves out the default order and the first page.\<close>

definition canonical :: "discovery_filters \<Rightarrow> discovery_filters" where
  "canonical f = f\<lparr>df_sort := passing (df_sort f) (\<lambda>s. s \<noteq> NAME_ASC), df_page := passing (df_page f) (\<lambda>p. 1 < p)\<rparr>"

definition params_of :: "params \<Rightarrow> search_params" where
  "params_of ps k = map_option One (map_of ps k)"

declare js_string_nonempty [simp]

lemma digits_js_string [simp]: "digits_only (js_string n)"
  using js_string_digits [of n] by (simp add: digits_only_def)

lemma text_param_map: "map_of (text_param key v) k = (if k = key then passing v (\<lambda>s. s \<noteq> []) else None)"
  by (auto simp: text_param_def passing_def split: option.splits)

definition all_given :: "string option \<Rightarrow> string option \<Rightarrow> string option \<Rightarrow> bool" where
  "all_given a b c \<longleftrightarrow> passing a (\<lambda>s. s \<noteq> []) \<noteq> None \<and> passing b (\<lambda>s. s \<noteq> []) \<noteq> None \<and> passing c (\<lambda>s. s \<noteq> []) \<noteq> None"

lemma interval_params_map:
  "map_of (interval_params a b c) k =
     (if \<not> all_given a b c then None
      else if k = ''date'' then a else if k = ''startTime'' then b else if k = ''endTime'' then c else None)"
  by (auto simp: interval_params_def all_given_def passing_def split: option.splits)

lemma number_texts: "passing (map_option js_string x) (\<lambda>s. s \<noteq> []) = map_option js_string x"
  by (cases x) (simp_all add: passing_def)

lemma search_params_at:
  "map_of (discoverySearchParams f (\<lambda>f. f)) ''q'' = passing (df_q f) (\<lambda>s. s \<noteq> [])"
  "map_of (discoverySearchParams f (\<lambda>f. f)) ''buildingId'' = passing (df_buildingId f) (\<lambda>s. s \<noteq> [])"
  "map_of (discoverySearchParams f (\<lambda>f. f)) ''type'' = passing (map_option resource_type_text (df_type f)) (\<lambda>s. s \<noteq> [])"
  "map_of (discoverySearchParams f (\<lambda>f. f)) ''minCapacity'' = map_option js_string (df_minCapacity f)"
  "map_of (discoverySearchParams f (\<lambda>f. f)) ''amenity'' = passing (df_amenity f) (\<lambda>s. s \<noteq> [])"
  "map_of (discoverySearchParams f (\<lambda>f. f)) ''date'' = map_of (interval_params (df_date f) (df_startTime f) (df_endTime f)) ''date''"
  "map_of (discoverySearchParams f (\<lambda>f. f)) ''startTime'' = map_of (interval_params (df_date f) (df_startTime f) (df_endTime f)) ''startTime''"
  "map_of (discoverySearchParams f (\<lambda>f. f)) ''endTime'' = map_of (interval_params (df_date f) (df_startTime f) (df_endTime f)) ''endTime''"
  "map_of (discoverySearchParams f (\<lambda>f. f)) ''sort'' = passing (map_option resource_sort_text (df_sort (canonical f))) (\<lambda>s. s \<noteq> [])"
  "map_of (discoverySearchParams f (\<lambda>f. f)) ''page'' = map_option js_string (df_page (canonical f))"
  "map_of (discoverySearchParams f (\<lambda>f. f)) ''pageSize'' = None"
  by (simp_all add: discoverySearchParams_def Let_def map_add_def text_param_map number_texts canonical_def interval_params_map
      split: option.splits)

lemma passing_all: "opt_holds x P \<Longrightarrow> (\<And>v. P v \<Longrightarrow> Q v) \<Longrightarrow> passing x Q = x"
  by (auto simp: opt_holds_def passing_def split: option.splits)

lemma code_texts: "passing (map_option resource_type_text x) (\<lambda>s. s \<noteq> []) = map_option resource_type_text x"
  "passing (map_option resource_sort_text y) (\<lambda>s. s \<noteq> []) = map_option resource_sort_text y"
  "resource_sort_of_text (resource_sort_text z) = Some z"
proof -
  have t: "resource_type_text rt \<noteq> []" for rt by (cases rt) simp_all
  have s: "resource_sort_text rs \<noteq> []" for rs by (cases rs) simp_all
  show "passing (map_option resource_type_text x) (\<lambda>s. s \<noteq> []) = map_option resource_type_text x"
    "passing (map_option resource_sort_text y) (\<lambda>s. s \<noteq> []) = map_option resource_sort_text y"
    by (cases x; simp add: passing_def t) (cases y; simp add: passing_def s)
  show "resource_sort_of_text (resource_sort_text z) = Some z" by (cases z) (simp_all add: resource_sort_of_text_def)
qed

lemma interval_shapes:
  assumes "filters_fit f"
  obtains "df_date f = None" "df_startTime f = None" "df_endTime f = None"
  | d s t where "df_date f = Some d" "df_startTime f = Some s" "df_endTime f = Some t" "web_isCalendarDate d"
    "hour_pattern s" "hour_pattern t" "s < t" "d \<noteq> []" "s \<noteq> []" "t \<noteq> []"
proof (cases "df_date f = None \<and> df_startTime f = None \<and> df_endTime f = None")
  case False
  then have "interval_picked (df_date f) (df_startTime f) (df_endTime f)" using assms unfolding filters_fit_def by blast
  then obtain d s t where p: "df_date f = Some d" "df_startTime f = Some s" "df_endTime f = Some t" "web_isCalendarDate d"
      "hour_pattern s" "hour_pattern t" "s < t"
    by (auto simp: interval_picked_def split: option.splits)
  moreover have "d \<noteq> []" "s \<noteq> []" "t \<noteq> []"
    using p(4-6) date_pattern_length [of d] hour_pattern_length by (auto simp: web_isCalendarDate_def)
  ultimately show ?thesis by (rule that(2))
qed (use that(1) in blast)

lemma one_params_of [simp]: "one (params_of ps k) = map_of ps k"
  by (cases "map_of ps k") (simp_all add: params_of_def one_def)

lemma bounded_text_kept: "opt_holds (one v) (\<lambda>s. s \<noteq> [] \<and> js_trim s = s \<and> length s \<le> n) \<Longrightarrow> boundedText v n = one v"
  by (auto simp: boundedText_def opt_holds_def Let_def split: option.splits)

lemma bounded_number_kept:
  "one v = map_option js_string x \<Longrightarrow> opt_holds x (\<lambda>n. a \<le> n \<and> n \<le> b \<and> n \<le> MAX_SAFE_INTEGER) \<Longrightarrow> boundedInteger v a b = x"
  by (auto simp: boundedInteger_def opt_holds_def Let_def js_number_string split: option.splits)

lemma filters_fitD:
  assumes "filters_fit f"
  shows "passing (df_q f) (\<lambda>s. s \<noteq> []) = df_q f" "passing (df_buildingId f) (\<lambda>s. s \<noteq> []) = df_buildingId f"
    "passing (df_buildingId f) uuid_pattern = df_buildingId f"
    "passing (df_amenity f) (\<lambda>s. s \<noteq> []) = df_amenity f" "map_option js_lower (df_amenity f) = df_amenity f"
    "opt_holds (df_q f) (\<lambda>s. s \<noteq> [] \<and> js_trim s = s \<and> length s \<le> 120)"
    "opt_holds (df_amenity f) (\<lambda>s. s \<noteq> [] \<and> js_trim s = s \<and> length s \<le> 50)"
    "opt_holds (df_minCapacity f) (\<lambda>n. 1 \<le> n \<and> n \<le> 10000 \<and> n \<le> MAX_SAFE_INTEGER)"
    "opt_holds (df_page f) (\<lambda>n. 1 \<le> n \<and> n \<le> MAX_SAFE_INTEGER)"
proof -
  have "uuid_pattern s \<Longrightarrow> s \<noteq> []" for s by (auto simp: uuid_pattern_def)
  then show "passing (df_buildingId f) (\<lambda>s. s \<noteq> []) = df_buildingId f" "passing (df_buildingId f) uuid_pattern = df_buildingId f"
    using assms by (auto simp: filters_fit_def intro: passing_all)
  show "passing (df_q f) (\<lambda>s. s \<noteq> []) = df_q f" "passing (df_amenity f) (\<lambda>s. s \<noteq> []) = df_amenity f"
    using assms by (auto simp: filters_fit_def intro: passing_all)
  show "map_option js_lower (df_amenity f) = df_amenity f"
    using assms by (cases "df_amenity f") (simp_all add: filters_fit_def opt_holds_def)
  show "opt_holds (df_q f) (\<lambda>s. s \<noteq> [] \<and> js_trim s = s \<and> length s \<le> 120)"
    "opt_holds (df_page f) (\<lambda>n. 1 \<le> n \<and> n \<le> MAX_SAFE_INTEGER)"
    using assms by (simp_all add: filters_fit_def)
  show "opt_holds (df_amenity f) (\<lambda>s. s \<noteq> [] \<and> js_trim s = s \<and> length s \<le> 50)"
    "opt_holds (df_minCapacity f) (\<lambda>n. 1 \<le> n \<and> n \<le> 10000 \<and> n \<le> MAX_SAFE_INTEGER)"
    using assms unfolding filters_fit_def by (elim conjE opt_holds_mono; simp add: MAX_SAFE_INTEGER_def)+
qed

lemma filters_read_back:
  assumes "filters_fit f"
  shows "normalizeDiscoveryFilters (params_of (discoverySearchParams f (\<lambda>f. f))) = canonical f"
proof -
  note fit = filters_fitD [OF assms]
  let ?p = "params_of (discoverySearchParams f (\<lambda>f. f))"
  have texts: "boundedText (?p ''q'') 120 = df_q f" "boundedText (?p ''amenity'') 50 = df_amenity f"
    using bounded_text_kept [of "?p ''q''" 120] bounded_text_kept [of "?p ''amenity''" 50] fit by (simp_all add: search_params_at)
  have page: "opt_holds (df_page (canonical f)) (\<lambda>n. 1 \<le> n \<and> n \<le> MAX_SAFE_INTEGER \<and> n \<le> MAX_SAFE_INTEGER)"
    using fit(9) by (auto simp: canonical_def passing_def opt_holds_def split: option.splits)
  have numbers: "boundedInteger (?p ''minCapacity'') 1 10000 = df_minCapacity f"
    "boundedInteger (?p ''page'') 1 MAX_SAFE_INTEGER = df_page (canonical f)"
    by (rule bounded_number_kept [OF _ fit(8)], simp add: search_params_at)
      (rule bounded_number_kept [OF _ page], simp add: search_params_at)
  have codes: "Option.bind (one (?p ''type'')) resource_type_of_text = df_type f"
    "Option.bind (one (?p ''sort'')) resource_sort_of_text = df_sort (canonical f)"
    unfolding one_params_of search_params_at code_texts(1,2)
    by (cases "df_type f"; simp) (cases "df_sort (canonical f)"; simp add: code_texts)
  have "canonical f = \<lparr>df_q = df_q f, df_buildingId = df_buildingId f, df_type = df_type f, df_minCapacity = df_minCapacity f,
      df_amenity = df_amenity f, df_date = df_date f, df_startTime = df_startTime f, df_endTime = df_endTime f,
      df_sort = df_sort (canonical f), df_page = df_page (canonical f)\<rparr>"
    by (simp add: canonical_def)
  moreover have "one (?p ''buildingId'') = df_buildingId f" using fit by (simp add: search_params_at)
  moreover have "one (?p ''date'') = df_date f \<and> one (?p ''startTime'') = df_startTime f \<and> one (?p ''endTime'') = df_endTime f \<and>
      (df_date f = None \<and> df_startTime f = None \<and> df_endTime f = None \<or> interval_picked (df_date f) (df_startTime f) (df_endTime f))"
    using assms by (rule interval_shapes)
      (simp_all add: search_params_at interval_params_map all_given_def passing_def interval_picked_def)
  ultimately show ?thesis
    unfolding normalizeDiscoveryFilters_def Let_def texts numbers codes using fit by auto
qed

section \<open>What the service reads\<close>

definition page_wanted :: "discovery_filters \<Rightarrow> nat" where
  "page_wanted f = (case df_page f of None \<Rightarrow> 1 | Some n \<Rightarrow> n)"

definition query_of :: "discovery_filters \<Rightarrow> discover_query" where
  "query_of f =
     \<lparr>dq_q = df_q f, dq_buildingId = df_buildingId f, dq_type = df_type f, dq_minCapacity = map_option int (df_minCapacity f),
      dq_amenity = df_amenity f, dq_date = df_date f, dq_startTime = df_startTime f, dq_endTime = df_endTime f,
      dq_sort = case_option NAME_ASC id (df_sort f), dq_page = page_wanted f, dq_pageSize = 9\<rparr>"

lemma query_of_canonical: "query_of (canonical f) = query_of f" if "opt_holds (df_page f) (\<lambda>n. 1 \<le> n)"
  using that by (auto simp: query_of_def page_wanted_def canonical_def passing_def opt_holds_def split: option.splits)

lemma directory_query_at:
  "k \<noteq> ''pageSize'' \<Longrightarrow> map_of (directory_query f) k = map_of (discoverySearchParams f (\<lambda>f. f)) k"
  "map_of (directory_query f) ''pageSize'' = Some ''9''"
  by (simp_all add: directory_query_def map_add_def search_params_at split: option.splits)

lemma case_id: "case_option a id x = (case x of None \<Rightarrow> a | Some n \<Rightarrow> n)"
  by (cases x) simp_all

lemma nine: "digits_only ''9''" "js_number ''9'' = 9"
  by code_simp+

lemma service_reads_filters:
  assumes "filters_fit f"
  shows "read_discover_query (directory_query f) = Some (query_of f)"
proof -
  note fit = filters_fitD [OF assms]
  have page: "opt_holds (df_page f) (\<lambda>n. 1 \<le> n)" using fit(9) by (rule opt_holds_mono) simp
  have codes: "enum_param (directory_query f) ''type'' resource_type_of_text = Some (df_type f)"
    "enum_param (directory_query f) ''sort'' resource_sort_of_text = Some (df_sort (canonical f))"
    unfolding enum_param_def
    by (simp_all add: directory_query_at search_params_at code_texts split: option.splits)
  have numbers: "number_param (directory_query f) ''minCapacity'' = Some (df_minCapacity f)"
    "number_param (directory_query f) ''page'' = Some (df_page (canonical f))" "number_param (directory_query f) ''pageSize'' = Some (Some 9)"
    unfolding number_param_def
    by (simp_all add: directory_query_at search_params_at js_number_string nine split: option.splits)
  have texts: "map_of (directory_query f) ''q'' = df_q f" "map_of (directory_query f) ''buildingId'' = df_buildingId f"
    "map_of (directory_query f) ''amenity'' = df_amenity f"
    using fit by (simp_all add: directory_query_at search_params_at)
  have interval: "map_of (directory_query f) ''date'' = df_date f \<and> map_of (directory_query f) ''startTime'' = df_startTime f \<and>
      map_of (directory_query f) ''endTime'' = df_endTime f"
    using assms by (rule interval_shapes) (simp_all add: directory_query_at search_params_at interval_params_map all_given_def passing_def)
  have "query_of f = query_of (canonical f)" using query_of_canonical [OF page] by simp
  then show ?thesis
    unfolding read_discover_query_def codes numbers using texts interval by (simp add: query_of_def page_wanted_def canonical_def case_id)
qed

lemma query_normalized:
  assumes "filters_fit f"
  shows "normalize_discover (query_of f) = query_of f"
proof -
  have "map_option js_trim (df_q f) = df_q f" "map_option (\<lambda>s. js_lower (js_trim s)) (df_amenity f) = df_amenity f"
    using assms by (auto simp: filters_fit_def opt_holds_def split: option.splits)
  then show ?thesis by (simp add: normalize_discover_def query_of_def)
qed

text \<open>What the service checks besides: no NUL in the texts, and its own idea of a UUID.\<close>

definition service_takes :: "(string \<Rightarrow> bool) \<Rightarrow> discovery_filters \<Rightarrow> bool" where
  "service_takes isUUID f \<longleftrightarrow> opt_holds (df_q f) hasNoNullByte \<and> opt_holds (df_amenity f) hasNoNullByte \<and>
     opt_holds (df_buildingId f) isUUID"

lemma query_accepted:
  assumes "filters_fit f" "\<And>s. web_isCalendarDate s \<Longrightarrow> isDateString s"
  shows "discover_query_valid isUUID isDateString (query_of f) \<longleftrightarrow> service_takes isUUID f"
proof -
  note fit = filters_fitD [OF assms(1)]
  have "1 \<le> dq_page (query_of f)" using fit(9) by (auto simp: query_of_def page_wanted_def opt_holds_def split: option.splits)
  moreover have "opt_holds (dq_minCapacity (query_of f)) valid_capacity"
    using fit(8) by (auto simp: query_of_def opt_holds_def valid_capacity_def split: option.splits)
  moreover have "interval_given (query_of f) \<longrightarrow>
      required (dq_date (query_of f)) (\<lambda>s. date_pattern s \<and> isDateString s) \<and>
      required (dq_startTime (query_of f)) hour_pattern \<and> required (dq_endTime (query_of f)) hour_pattern"
    using assms(1) by (rule interval_shapes)
      (use assms(2) in \<open>simp_all add: interval_given_def query_of_def required_def web_isCalendarDate_def\<close>)
  moreover have "opt_holds (df_q f) (\<lambda>s. hasNoNullByte s \<and> length s \<le> 120) \<longleftrightarrow> opt_holds (df_q f) hasNoNullByte"
    "opt_holds (df_amenity f) (\<lambda>s. hasNoNullByte s \<and> length s \<le> 50) \<longleftrightarrow> opt_holds (df_amenity f) hasNoNullByte"
    using fit(6,7) by (auto simp: opt_holds_def split: option.splits)
  ultimately show ?thesis
    unfolding discover_query_valid_def service_takes_def by (auto simp: query_of_def)
qed

lemma interval_valid:
  assumes "filters_fit f" "query_interval (query_of f) = Some (date, s, t)"
  shows "requireValidInterval date s t = None"
  using assms(1) by (rule interval_shapes)
    (use assms(2) in \<open>auto simp: query_interval_def query_of_def truthy_def requireValidInterval_def requireValidDate_def
      web_isCalendarDate_def split: list.splits\<close>)

section \<open>The directory loads\<close>

text \<open>The resource page of a signed-in visitor, its two requests answered by the service.\<close>

definition visit_directory ::
  "(string \<Rightarrow> int option) \<Rightarrow> (string \<Rightarrow> bool) \<Rightarrow> (string \<Rightarrow> bool) \<Rightarrow> (string \<Rightarrow> string) \<Rightarrow> search_params \<Rightarrow> env \<Rightarrow> db \<Rightarrow>
   ((web_catalogue_entry list \<times> web_page) \<times> web_building list) page_outcome" where
  "visit_directory other isUUID isDateString collate params e d =
     ResourcesPage other params True
       (reply_of resource_page_json
         (case read_discover_query (directory_query (normalizeDiscoveryFilters params)) of
            None \<Rightarrow> Inl (HttpException 400 None ''query'')
          | Some q \<Rightarrow> resources_discover isUUID isDateString collate q e d))
       (reply_of (\<lambda>bs. JArray (map building_json bs)) (Inr (admin_findBuildings collate d)))"

text \<open>How many resources a search finds, whatever its page.\<close>

definition found_total :: "(string \<Rightarrow> string) \<Rightarrow> discovery_filters \<Rightarrow> env \<Rightarrow> db \<Rightarrow> nat" where
  "found_total collate f e d = (case discover collate (query_of f) e d of Inr (items, n) \<Rightarrow> n | Inl err \<Rightarrow> 0)"

lemma found_total_page:
  "found_total collate (f\<lparr>df_page := p\<rparr>) e d = found_total collate f e d"
  "found_total collate (canonical f) e d = found_total collate f e d"
proof -
  have same: "discover_where (query_of (f\<lparr>df_page := p\<rparr>)) d = discover_where (query_of f) d"
    "discover_where (query_of (canonical f)) d = discover_where (query_of f) d"
    "query_interval (query_of (f\<lparr>df_page := p\<rparr>)) = query_interval (query_of f)"
    "query_interval (query_of (canonical f)) = query_interval (query_of f)"
    by (simp_all add: discover_where_def query_of_def query_interval_def canonical_def fun_eq_iff cong: option.case_cong)
  show "found_total collate (f\<lparr>df_page := p\<rparr>) e d = found_total collate f e d"
    "found_total collate (canonical f) e d = found_total collate f e d"
    by (simp_all add: found_total_def discover_def discoverFrom_def Let_def same split: option.splits)
qed

lemma directory_answer:
  assumes d: "db_ok d" and f: "filters_fit f" "service_takes isUUID f" "\<And>s. web_isCalendarDate s \<Longrightarrow> isDateString s"
  obtains page where "resources_discover isUUID isDateString collate (query_of f) e d = Inr page"
    "rp_page page = page_wanted f" "rp_pageSize page = 9" "rp_total page = found_total collate f e d"
    "\<forall>r\<in>set (rp_items page). rr_status r = ACTIVE"
proof -
  have v: "discover_query_valid isUUID isDateString (query_of f)" using query_accepted [OF f(1), of isDateString isUUID] f(2,3) by simp
  let ?from = "discoverFrom collate (query_of f) d"
  have "set (fst ?from) \<subseteq> {r \<in> set (resources d). r_status r = ACTIVE}"
    using page_rows_set
    by (fastforce simp: discoverFrom_def Let_def discover_where_def split: option.splits)
  moreover have "discover collate (query_of f) e d = Inr ?from \<or> discover collate (query_of f) e d = Inr ([], 0)"
    using interval_valid [OF f(1)] by (auto simp: discover_def split: option.splits)
  ultimately obtain items n where r: "discover collate (query_of f) e d = Inr (items, n)"
      "\<forall>r\<in>set items. r \<in> set (resources d) \<and> r_status r = ACTIVE"
    by (cases ?from) fastforce
  have "set items \<subseteq> set (resources d)" using r(2) by blast
  then have b: "all_responses (resource_body d) items = Inr (map (resource_entry d) items)" by (rule resource_bodies [OF d])
  define page where "page = \<lparr>rp_items = map (resource_entry d) items, rp_total = n, rp_page = dq_page (query_of f),
    rp_pageSize = dq_pageSize (query_of f), rp_totalPages = (n + dq_pageSize (query_of f) - 1) div dq_pageSize (query_of f)\<rparr>"
  have "resources_discover isUUID isDateString collate (query_of f) e d = Inr page"
    by (simp add: resources_discover_def query_normalized [OF f(1)] v r(1) resource_page_fromEntities_def b page_def Let_def)
  then show ?thesis
    by (rule that) (use r in \<open>auto simp: page_def query_of_def found_total_def resource_entry_def resource_fromEntity_def\<close>)
qed

lemma read_buildings:
  assumes "database_made d"
  shows "parseBuildings (JArray (map building_json (admin_findBuildings collate d))) =
    Some (map web_building_of (admin_findBuildings collate d))"
proof -
  have "set (findBuildings collate d) \<subseteq> set (buildings d)" by (simp add: findBuildings_def)
  then have "all_parsed parseBuilding (map (\<lambda>bl. building_json (building_fromEntity bl)) (findBuildings collate d)) =
      Some (map (\<lambda>bl. web_building_of (building_fromEntity bl)) (findBuildings collate d))"
    using assms by (intro all_parsed_map read_building) (auto simp: database_made_def)
  then show ?thesis by (simp add: parseBuildings_def admin_findBuildings_def comp_def)
qed

lemma request_ok: "resourceRequest (reply_of json (Inr x)) = Loaded (200, json x)"
  by (simp add: resourceRequest_def assertSessionActive_def ok_status_def)

lemma last_page_numbers: "nat (max 1 (int n)) = lastPageFor n" "max 1 (int n) < int p \<longleftrightarrow> lastPageFor n < p"
  by (auto simp: lastPageFor_def max_def)

lemma visit_runs:
  assumes d: "db_ok d" "database_made d" and params: "normalizeDiscoveryFilters params = f"
    and f: "service_takes isUUID f" "\<And>s. web_isCalendarDate s \<Longrightarrow> isDateString s"
  shows "if page_wanted f \<le> lastPageFor (totalPagesFor (found_total collate f e d) 9)
    then \<exists>page. visit_directory other isUUID isDateString collate params e d = Page page
    else visit_directory other isUUID isDateString collate params e d =
      Redirected (discoveryHref f (\<lambda>g. g\<lparr>df_page := Some (lastPageFor (totalPagesFor (found_total collate f e d) 9))\<rparr>))"
proof -
  have fit: "filters_fit f" using params normalized_fits by blast
  obtain page where p: "resources_discover isUUID isDateString collate (query_of f) e d = Inr page"
    "rp_page page = page_wanted f" "rp_pageSize page = 9" "rp_total page = found_total collate f e d"
    "\<forall>r\<in>set (rp_items page). rr_status r = ACTIVE"
    using directory_answer [OF d(1) fit f(1), where isDateString = isDateString and collate = collate and e = e] f(2) by blast
  note read = read_discovered [OF d p(1), of other] read_buildings [OF d(2), of collate]
  have active: "\<not> (\<exists>r\<in>set (map web_entry_of (rp_items page)). we_status r \<noteq> ACTIVE)"
    using p(5) by (simp add: web_entry_of_def)
  have load: "getResourceDirectory other f (reply_of resource_page_json (Inr page))
      (reply_of (\<lambda>bs. JArray (map building_json bs)) (Inr (admin_findBuildings collate d))) =
    Loaded ((map web_entry_of (rp_items page), web_numbers_of (rp_total page) (rp_page page) (rp_pageSize page)),
      map web_building_of (admin_findBuildings collate d))"
    unfolding getResourceDirectory_def request_ok using read active p(2,3)
    by (simp add: web_numbers_of_def page_wanted_def)
  show ?thesis
    unfolding visit_directory_def ResourcesPage_def params Let_def service_reads_filters [OF fit] option.case p(1)
    using load p(2-4) by (simp add: web_numbers_of_def last_page_numbers not_less del: max_less_iff_conj)
qed

text \<open>C35: The resource directory of the web frontend (app/resources/page.tsx) always comes up for a signed-in visitor,
  whatever is in the address: the filters it normalises are read and accepted by the service, the page and the buildings
  it gets back pass every test of the loader, and a page number past the end sends the visitor to an address that
  shows the last page, not to another redirect. The only filters the service turns down are a text with a NUL or a
  building identifier its own UUID test refuses, which the normalisation lets through (service_takes).\<close>

theorem directory_comes_up:
  assumes "reachable sv (now, d)" "database_made d" "\<And>s. web_isCalendarDate s \<Longrightarrow> isDateString s"
    and takes: "service_takes isUUID (normalizeDiscoveryFilters params)"
  shows "(\<exists>page. visit_directory other isUUID isDateString collate params e d = Page page) \<or>
    (\<exists>query. visit_directory other isUUID isDateString collate params e d = Redirected (with_query ''/resources'' query) \<and>
      read_params (params_text query) = Some query \<and>
      (\<exists>page. visit_directory other isUUID isDateString collate (params_of query) e d = Page page))"
proof -
  have d: "db_ok d" using reachable_ok [OF assms(1)] by (simp add: campus_ok_def)
  define f where "f = normalizeDiscoveryFilters params"
  define l where "l = lastPageFor (totalPagesFor (found_total collate f e d) 9)"
  define f1 where "f1 = f\<lparr>df_page := Some l\<rparr>"
  define query where "query = discoverySearchParams f (\<lambda>f. f\<lparr>df_page := Some l\<rparr>)"
  have fit: "filters_fit f" by (simp add: f_def normalized_fits)
  note visit = visit_runs [OF d assms(2), where isDateString = isDateString and other = other and collate = collate and e = e]
  note first = visit [OF f_def [symmetric] takes [folded f_def] assms(3), folded l_def]
  show ?thesis
  proof (cases "page_wanted f \<le> l")
    case False
    then have "l \<le> MAX_SAFE_INTEGER"
      using filters_fitD(9) [OF fit] by (auto simp: page_wanted_def l_def lastPageFor_def opt_holds_def split: option.splits)
    then have fit1: "filters_fit f1" using fit by (simp add: filters_fit_def f1_def opt_holds_def l_def lastPageFor_def)
    have read: "normalizeDiscoveryFilters (params_of query) = canonical f1"
      using filters_read_back [OF fit1] by (simp add: query_def discoverySearchParams_def f1_def)
    have takes1: "service_takes isUUID (canonical f1)"
      using takes by (simp add: service_takes_def canonical_def f1_def f_def)
    have "page_wanted (canonical f1) \<le> lastPageFor (totalPagesFor (found_total collate (canonical f1) e d) 9)"
      unfolding found_total_page unfolding f1_def found_total_page l_def [symmetric]
      by (auto simp: page_wanted_def canonical_def passing_def l_def lastPageFor_def)
    then have "\<exists>page. visit_directory other isUUID isDateString collate (params_of query) e d = Page page"
      using visit [OF read takes1 assms(3)] by simp
    moreover have "visit_directory other isUUID isDateString collate params e d = Redirected (with_query ''/resources'' query)"
      using first False by (simp add: discoveryHref_def query_def)
    ultimately show ?thesis using read_params_text by blast
  qed (use first in simp)
qed

end
