(* ===== verification/WebSelection.thy ===== *)
theory WebSelection
  imports WebDirectory WebResourceReads
begin

text \<open>
  The interval a student picks on the page of a resource: the page shows it as available exactly when
  the service would book it.
\<close>

section \<open>A range is bookable when its hours are\<close>

lemma bookable_request:
  "bookable d r \<lparr>cb_resourceId = k, cb_date = date, cb_startTime = s, cb_endTime = t\<rparr> now \<longleftrightarrow>
   bookable d r \<lparr>cb_resourceId = r_id r, cb_date = date, cb_startTime = s, cb_endTime = t\<rparr> now"
  by (simp add: bookable_def requireValidRequest_None requireOperationalAvailability_None taken_def)

lemma future_hours:
  assumes "pg_date date" "h \<le> i" "i < 24" "isFutureCampusTime date (hour_text h) now"
  shows "isFutureCampusTime date (hour_text i) now"
proof -
  have "campusDateTimeMs date (hour_text n) = Some (sql_date date * 86400000 + 60 * int n * 60000 - CAMPUS_OFFSET_MS)" if "n < 24" for n
    using campusDateTimeMs_eq [OF assms(1) hour_pattern_clock [OF hour_text_pattern [OF that]]] clock_minutes_hour [OF that] by simp
  then show ?thesis using assms by (simp add: isFutureCampusTime_def)
qed

lemma bookable_hours:
  assumes d: "db_ok d" and r: "r \<in> set (resources d)" and date: "date_pattern date" "real_date date" and hj: "h < j" "j \<le> 23"
  shows "bookable d r \<lparr>cb_resourceId = k, cb_date = date, cb_startTime = hour_text h, cb_endTime = hour_text j\<rparr> now \<longleftrightarrow>
    (\<forall>i\<in>{h..<j}. bookable d r \<lparr>cb_resourceId = k, cb_date = date, cb_startTime = hour_text i, cb_endTime = hour_text (i + 1)\<rparr> now)"
proof -
  have pd: "pg_date date" by (rule real_date_pg [OF date])
  define day where "day \<longleftrightarrow> r_status r = ACTIVE \<and> dayOfWeekFor date \<in> set (r_operatingDays r) \<and>
    \<not> (\<exists>c\<in>set (closures d). c_resourceId c = r_id r \<and> sql_date (c_date c) = sql_date date)"
  define busy where "busy a b \<longleftrightarrow> (\<exists>x\<in>set (bookings d). b_resourceId x = r_id r \<and> sql_date (b_date x) = sql_date date \<and>
    b_status x \<in> {PENDING, CONFIRMED, CHECKED_IN} \<and> sql_time (b_startTime x) < 3600 * int b \<and> 3600 * int a < sql_time (b_endTime x))"
    for a b :: nat
  have book: "bookable d r \<lparr>cb_resourceId = k, cb_date = date, cb_startTime = hour_text a, cb_endTime = hour_text b\<rparr> now \<longleftrightarrow>
      isFutureCampusTime date (hour_text a) now \<and> day \<and> sql_time (r_opensAt r) \<le> 3600 * int a \<and>
      3600 * int b \<le> sql_time (r_closesAt r) \<and> \<not> busy a b" if "a < b" "b < 24" for a b
  proof -
    have ab: "a < 24" "b < 24" using that by simp_all
    show ?thesis
      unfolding bookable_request [of d r k] available_in_bookable [OF d r date ab that(1)]
      using hour_text_shape(9) [OF ab(1)] hour_text_shape(9) [OF ab(2)]
      by (auto simp: available_in_def day_def busy_def)
  qed
  have hours: "busy h j \<longleftrightarrow> (\<exists>i\<in>{h..<j}. busy i (i + 1))"
  proof
    assume "busy h j"
    then obtain x where x: "x \<in> set (bookings d)" "b_resourceId x = r_id r" "sql_date (b_date x) = sql_date date"
      "b_status x \<in> {PENDING, CONFIRMED, CHECKED_IN}" "sql_time (b_startTime x) < 3600 * int j" "3600 * int h < sql_time (b_endTime x)"
      unfolding busy_def by blast
    obtain p q where pq: "p < q" "sql_time (b_startTime x) = 3600 * int p" "sql_time (b_endTime x) = 3600 * int q"
      using booking_hours [OF db_booking_sound [OF d x(1)]] by metis
    have "busy (max h p) (max h p + 1)" unfolding busy_def using x pq hj by (intro bexI [OF _ x(1)]) auto
    moreover have "max h p \<in> {h..<j}" using x(5) pq hj by auto
    ultimately show "\<exists>i\<in>{h..<j}. busy i (i + 1)" by blast
  next
    assume "\<exists>i\<in>{h..<j}. busy i (i + 1)"
    then show "busy h j" unfolding busy_def by fastforce
  qed
  have each: "(\<forall>i\<in>{h..<j}. bookable d r \<lparr>cb_resourceId = k, cb_date = date, cb_startTime = hour_text i, cb_endTime = hour_text (i + 1)\<rparr> now) \<longleftrightarrow>
      (\<forall>i\<in>{h..<j}. isFutureCampusTime date (hour_text i) now) \<and> day \<and>
      (\<forall>i\<in>{h..<j}. sql_time (r_opensAt r) \<le> 3600 * int i \<and> 3600 * int (i + 1) \<le> sql_time (r_closesAt r)) \<and> \<not> busy h j"
  proof -
    have "(\<forall>i\<in>{h..<j}. bookable d r \<lparr>cb_resourceId = k, cb_date = date, cb_startTime = hour_text i, cb_endTime = hour_text (i + 1)\<rparr> now) \<longleftrightarrow>
        (\<forall>i\<in>{h..<j}. isFutureCampusTime date (hour_text i) now \<and> day \<and> sql_time (r_opensAt r) \<le> 3600 * int i \<and>
          3600 * int (i + 1) \<le> sql_time (r_closesAt r) \<and> \<not> busy i (i + 1))"
    proof (rule ball_cong [OF refl])
      fix i assume "i \<in> {h..<j}"
      then have "i < i + 1" "i + 1 < 24" using hj by auto
      from book [OF this] show "bookable d r \<lparr>cb_resourceId = k, cb_date = date, cb_startTime = hour_text i, cb_endTime = hour_text (i + 1)\<rparr> now \<longleftrightarrow>
          isFutureCampusTime date (hour_text i) now \<and> day \<and> sql_time (r_opensAt r) \<le> 3600 * int i \<and>
          3600 * int (i + 1) \<le> sql_time (r_closesAt r) \<and> \<not> busy i (i + 1)" .
    qed
    moreover have "h \<in> {h..<j}" using hj by simp
    ultimately show ?thesis unfolding hours by blast
  qed
  have ends: "(\<forall>i\<in>{h..<j}. sql_time (r_opensAt r) \<le> 3600 * int i \<and> 3600 * int (i + 1) \<le> sql_time (r_closesAt r)) \<longleftrightarrow>
      sql_time (r_opensAt r) \<le> 3600 * int h \<and> 3600 * int j \<le> sql_time (r_closesAt r)"
  proof
    assume a: "\<forall>i\<in>{h..<j}. sql_time (r_opensAt r) \<le> 3600 * int i \<and> 3600 * int (i + 1) \<le> sql_time (r_closesAt r)"
    show "sql_time (r_opensAt r) \<le> 3600 * int h \<and> 3600 * int j \<le> sql_time (r_closesAt r)"
      using bspec [OF a, of h] bspec [OF a, of "j - 1"] hj by auto
  qed auto
  have future: "(\<forall>i\<in>{h..<j}. isFutureCampusTime date (hour_text i) now) \<longleftrightarrow> isFutureCampusTime date (hour_text h) now"
  proof (intro iffI ballI)
    fix i assume "isFutureCampusTime date (hour_text h) now" "i \<in> {h..<j}"
    then show "isFutureCampusTime date (hour_text i) now" using future_hours [OF pd, of h i now] hj by simp
  next
    assume "\<forall>i\<in>{h..<j}. isFutureCampusTime date (hour_text i) now"
    then show "isFutureCampusTime date (hour_text h) now" using hj by auto
  qed
  show ?thesis unfolding each ends future using book [of h j] hj by auto
qed

section \<open>The hours of a range in the list of free hours\<close>

definition hour_slot :: "nat \<Rightarrow> web_slot" where
  "hour_slot i = \<lparr>sl_startTime = hour_text i, sl_endTime = hour_text (i + 1)\<rparr>"

lemma contiguous_run:
  assumes "contiguous (map hour_slot is)" "is \<noteq> []" "\<forall>i\<in>set is. i < 23"
  shows "is = [hd is..<Suc (last is)]"
  using assms
proof (induction "map hour_slot is" arbitrary: "is" rule: contiguous.induct)
  case (1 a b bs)
  then obtain i k rest where is': "is = i # k # rest" by (cases "is"; cases "tl is") auto
  have "hour_text (i + 1) = hour_text k" using 1(2,3) by (simp add: is' hour_slot_def)
  then have k: "k = Suc i" using hour_text_inj [of "i + 1" k] 1(5) by (simp add: is')
  have "k # rest = [hd (k # rest)..<Suc (last (k # rest))]"
    using 1 by (intro 1(1)) (simp_all add: is')
  moreover have "k \<le> last (k # rest)"
    using calculation by (metis hd_Cons_tl le_Suc_eq list.distinct(1) list.sel(1) not_le upt_conv_Nil not_less_eq_eq)
  ultimately show ?case by (simp add: is' k upt_conv_Cons)
qed (auto simp: Cons_eq_map_conv)

lemma run_contiguous: "j \<le> 23 \<Longrightarrow> contiguous (map hour_slot [h..<j])"
proof (induction "j - h" arbitrary: h)
  case (Suc n)
  then have h: "[h..<j] = h # [Suc h..<j]" by (simp add: upt_conv_Cons)
  have "contiguous (map hour_slot [Suc h..<j])" using Suc by (intro Suc(1)) simp_all
  then show ?case unfolding h by (cases "Suc h < j") (simp_all add: upt_conv_Cons hour_slot_def)
qed simp

text \<open>The test of the page, on the free hours between two given ones.\<close>

lemma range_test:
  assumes "sorted is" "distinct is" "set is \<subseteq> {h..<j}" "h < j" "j \<le> 23"
  shows "is \<noteq> [] \<and> sl_startTime (hd (map hour_slot is)) = hour_text h \<and> sl_endTime (last (map hour_slot is)) = hour_text j \<and>
    contiguous (map hour_slot is) \<longleftrightarrow> set is = {h..<j}"
proof
  assume a: "is \<noteq> [] \<and> sl_startTime (hd (map hour_slot is)) = hour_text h \<and> sl_endTime (last (map hour_slot is)) = hour_text j \<and>
    contiguous (map hour_slot is)"
  have in_range: "\<forall>i\<in>set is. i < 23" using assms(3,5) by auto
  have "hd is \<in> set is" "last is \<in> set is" using a by simp_all
  then have "hd is < 24" "last is + 1 < 24" using in_range by auto
  then have "hd is = h" "Suc (last is) = j"
    using a hour_text_inj [of "hd is" h] hour_text_inj [of "last is + 1" j] assms(4,5)
    by (auto simp: hd_map last_map hour_slot_def)
  then show "set is = {h..<j}" using contiguous_run [of "is"] a in_range by (metis set_upt)
next
  assume "set is = {h..<j}"
  then have "is = [h..<j]" using assms(1,2) by (intro sorted_distinct_set_unique) simp_all
  then show "is \<noteq> [] \<and> sl_startTime (hd (map hour_slot is)) = hour_text h \<and> sl_endTime (last (map hour_slot is)) = hour_text j \<and>
    contiguous (map hour_slot is)"
    using assms(4,5) run_contiguous [of j h] by (simp add: hd_map last_map hour_slot_def)
qed

lemma hour_slot_inj: "hour_slot i = hour_slot k \<Longrightarrow> i < 23 \<Longrightarrow> k < 23 \<Longrightarrow> i = k"
  using hour_text_inj [of i k] by (simp add: hour_slot_def)

lemma hour_slot_mem:
  assumes "i < 23" "set is \<subseteq> {..<23}"
  shows "hour_slot i \<in> set (map hour_slot is) \<longleftrightarrow> i \<in> set is"
proof
  assume "hour_slot i \<in> set (map hour_slot is)"
  then obtain k where "k \<in> set is" "hour_slot i = hour_slot k" by auto
  then show "i \<in> set is" using hour_slot_inj [of i k] assms by auto
qed simp

lemma range_available:
  assumes wa: "wa_opensAt wa = hour_text a" "wa_closesAt wa = hour_text b" "wa_slots wa = map hour_slot (filter Q [a..<b])" "b \<le> 23"
    and hj: "h < j" "j \<le> 23"
  shows "ss_isSlotAvailable (resolveSlotSelection wa (Some (hour_text h)) (Some (hour_text j))) \<longleftrightarrow>
    (\<forall>i\<in>{h..<j}. hour_slot i \<in> set (wa_slots wa))"
proof -
  have texts: "hour_text h \<noteq> []" "hour_text j \<noteq> []"
    using hour_text_shape(1) [of h] hour_text_shape(1) [of j] hj by auto
  let ?in = "\<lambda>i. h \<le> i \<and> i < j"
  have le: "hour_text h \<le> hour_text i \<longleftrightarrow> h \<le> i" "hour_text (Suc i) \<le> hour_text j \<longleftrightarrow> i < j" if "i < 23" for i
    using that hj hour_text_le [of h i] hour_text_le [of "Suc i" j] by auto
  have "filter (\<lambda>s. hour_text h \<le> sl_startTime s \<and> sl_endTime s \<le> hour_text j) (wa_slots wa) =
      map hour_slot (filter ?in (filter Q [a..<b]))"
    unfolding wa(3) filter_map comp_def using wa(4)
    by (intro arg_cong [where f = "map hour_slot"] filter_cong refl) (auto simp: hour_slot_def le)
  moreover define "is" where "is = filter ?in (filter Q [a..<b])"
  ultimately have covered: "filter (\<lambda>s. hour_text h \<le> sl_startTime s \<and> sl_endTime s \<le> hour_text j) (wa_slots wa) = map hour_slot is"
    by simp
  have run: "is \<noteq> [] \<and> sl_startTime (hd (map hour_slot is)) = hour_text h \<and> sl_endTime (last (map hour_slot is)) = hour_text j \<and>
    contiguous (map hour_slot is) \<longleftrightarrow> set is = {h..<j}"
    using hj by (intro range_test) (auto simp: is_def sorted_wrt_filter)
  have mem: "set is = {h..<j} \<longleftrightarrow> (\<forall>i\<in>{h..<j}. hour_slot i \<in> set (wa_slots wa))"
  proof -
    have "hour_slot i \<in> set (wa_slots wa) \<longleftrightarrow> i \<in> set (filter Q [a..<b])" if "i \<in> {h..<j}" for i
      unfolding wa(3) using that hj wa(4) by (intro hour_slot_mem) auto
    then show ?thesis by (auto simp: is_def)
  qed
  have order: "hour_text j \<le> hour_text h \<longleftrightarrow> False" "hour_text h < hour_text a \<longleftrightarrow> h < a" "hour_text b < hour_text j \<longleftrightarrow> b < j" if "a < b"
    using hj wa(4) that hour_text_le [of j h] hour_text_less [of h a] hour_text_less [of b j] by auto
  have outside: "set is \<noteq> {h..<j}" if "h < a \<or> b < j \<or> \<not> a < b"
  proof
    assume "set is = {h..<j}"
    then have "h \<in> set is" "j - 1 \<in> set is" using hj by auto
    then show False using that by (auto simp: is_def)
  qed
  have picked: "resolveSlotSelection wa (Some (hour_text h)) (Some (hour_text j)) = range_selection wa (hour_text h) (hour_text j)"
    using texts by (simp add: resolveSlotSelection_def passing_def)
  show ?thesis
  proof (cases "h < a \<or> b < j \<or> \<not> a < b")
    case True
    have "\<not> ss_isSlotAvailable (range_selection wa (hour_text h) (hour_text j))"
    proof (cases "a < b")
      case ab: True
      then have "hour_text h < hour_text a \<or> hour_text b < hour_text j" using True order(2,3) by blast
      then show ?thesis unfolding range_selection_def wa(1,2) by (auto simp: NO_SELECTION_def)
    next
      case False
      then have "is = []" by (simp add: is_def)
      then show ?thesis unfolding range_selection_def Let_def covered by (simp add: NO_SELECTION_def)
    qed
    then show ?thesis using mem outside [OF True] picked by simp
  next
    case False
    then have "\<not> (hour_text j \<le> hour_text h \<or> hour_text h < hour_text a \<or> hour_text b < hour_text j)"
      using order by blast
    then have "ss_isSlotAvailable (range_selection wa (hour_text h) (hour_text j)) \<longleftrightarrow>
        is \<noteq> [] \<and> sl_startTime (hd (map hour_slot is)) = hour_text h \<and> sl_endTime (last (map hour_slot is)) = hour_text j \<and>
        contiguous (map hour_slot is)"
      unfolding range_selection_def wa(1,2) Let_def covered by simp
    then show ?thesis unfolding picked run mem .
  qed
qed

section \<open>The page and the service\<close>

lemma free_hours_listed:
  assumes "resource_typed r" "resource_rules r"
  obtains a b Q where "b \<le> 23"
    "wa_opensAt (web_availability_of (availability_fromResource r date cl bs now)) = hour_text a"
    "wa_closesAt (web_availability_of (availability_fromResource r date cl bs now)) = hour_text b"
    "wa_slots (web_availability_of (availability_fromResource r date cl bs now)) = map hour_slot (filter Q [a..<b])"
proof -
  obtain a b where ab: "b \<le> 23" "js_slice 0 5 (r_opensAt r) = hour_text a" "js_slice 0 5 (r_closesAt r) = hour_text b"
    "js_number (js_slice 0 2 (r_opensAt r)) = a" "js_number (js_slice 0 2 (r_closesAt r)) = b"
    using resource_hours [OF assms] by metis
  define Q where "Q = (\<lambda>i. blockedReason r date cl = None \<and>
    slot_free date bs now \<lparr>s_startTime = hour_text i, s_endTime = hour_text (i + 1)\<rparr>)"
  have hs: "hour_slot = (\<lambda>i. \<lparr>sl_startTime = hour_text i, sl_endTime = hour_text (i + 1)\<rparr>)"
    by (simp add: fun_eq_iff hour_slot_def)
  show thesis
    by (rule that [OF ab(1), where a = a and Q = Q])
      (simp_all add: web_availability_of_def availability_fromResource_def Let_def normalizeTime_def ab
        hourlySlots_def filter_map comp_def Q_def hs web_slot_of_def del: js_slice_0)
qed

lemma hour_offered:
  "hour_slot i \<in> set (wa_slots (web_availability_of v)) \<longleftrightarrow>
   \<lparr>s_startTime = hour_text i, s_endTime = hour_text (i + 1)\<rparr> \<in> set (av_slots v)"
proof -
  have "hour_slot i = web_slot_of s \<longleftrightarrow> s = \<lparr>s_startTime = hour_text i, s_endTime = hour_text (i + 1)\<rparr>" for s
    by (cases s) (auto simp: web_slot_of_def hour_slot_def)
  then show ?thesis by (simp add: web_availability_of_def image_iff)
qed

text \<open>The page of a resource opened on the service, the sign-in apart.\<close>

definition visit_resource ::
  "(string \<Rightarrow> int option) \<Rightarrow> (string \<Rightarrow> bool) \<Rightarrow> (string \<Rightarrow> bool) \<Rightarrow> string \<Rightarrow> search_params \<Rightarrow> env \<Rightarrow> db \<Rightarrow> detail_view page_outcome" where
  "visit_resource other isUUID isDateString k query e d =
     ResourceDetailPage other k query True (reply_of resource_json (resources_findOne isUUID k d))
       (reply_of availability_json
         (resources_findAvailability isUUID isDateString k (case one (query ''date'') of None \<Rightarrow> [] | Some date \<Rightarrow> date) e d))"

lemma resource_page:
  assumes d: "db_ok d" "recorded d" "database_made d" and k: "findDiscoverableById k d = Some r" "r_id r = k" "isUUID k"
    and date: "one (query ''date'') = Some date" "web_isCalendarDate date" "isDateString date"
    and start: "one (query ''startTime'') = Some s" "hour_pattern s" and stop: "one (query ''endTime'') = Some t" "hour_pattern t"
  obtains sn where "findAvailabilitySnapshot k date d = Inr (Some sn)" "sn_resource sn = r"
    "visit_resource other isUUID isDateString k query e d = Page
      (let a = availability_fromResource r date (sn_closure sn) (sn_bookings sn) (clock e) in
       \<lparr>dv_resource = web_entry_of (resource_entry d r), dv_availability = Some (web_availability_of a),
        dv_selection = resolveSlotSelection (web_availability_of a) (Some s) (Some t)\<rparr>)"
proof -
  have r: "r \<in> set (resources d)" "r_status r = ACTIVE" "r_id r = sql_uuid k"
    using find_mem [OF k(1) [unfolded findDiscoverableById_def]] find_Some_iff [of _ "resources d" r] k(1)
    by (auto simp: findDiscoverableById_def find_Some_iff)
  have uuid: "uuid_pattern k" using d(3) r(1) k(2) by (auto simp: database_made_def intro: uuid_version)
  obtain bl where bl: "row_at bl_id (r_buildingId r) (buildings d) = Some bl" "bl \<in> set (buildings d)"
    using stored_building [OF d(1) r(1)] .
  define w where "w = web_entry_of (resource_entry d r)"
  have one_found: "resources_findOne isUUID k d = Inr (resource_entry d r)"
    using k bl(1) by (simp add: resources_findOne_def parse_uuid_def resource_body_def resource_entry_def)
  have "web_parseResource other (resource_json (resource_entry d r)) = Some w"
    using read_resource [OF d(1,3) r(1) bl(2)] bl(1) by (simp add: resource_entry_def w_def)
  then have detail: "getResourceDetail other k (reply_of resource_json (resources_findOne isUUID k d)) = Loaded (Some w)"
    using k(2) r(2) by (simp add: one_found getResourceDetail_def resourceRequest_def assertSessionActive_def ok_status_def
        w_def web_entry_of_def resource_entry_def resource_fromEntity_def)
  have "row_at r_id (sql_uuid k) (resources d) = Some r"
    using row_at_mem [OF _ r(1), of r_id] r(3) d(1) by (auto simp: db_ok_def dest: table_inv_distinct)
  then obtain sn where sn: "findAvailabilitySnapshot k date d = Inr (Some sn)" "sn_resource sn = r"
    using date(2) by (simp add: findAvailabilitySnapshot_def requireValidDate_def findResourceById_def web_isCalendarDate_def)
  define a where "a = availability_fromResource r date (sn_closure sn) (sn_bookings sn) (clock e)"
  have found: "resources_findAvailability isUUID isDateString k date e d = Inr a"
    using k(3) date(2,3) sn by (simp add: resources_findAvailability_def parse_uuid_def web_isCalendarDate_def a_def)
  have "getResourceAvailability k date (reply_of availability_json (Inr a)) = Loaded (Some (web_availability_of a))"
    using read_free_hours [OF d found] k(2)
    by (simp add: getResourceAvailability_def resourceRequest_def assertSessionActive_def ok_status_def web_availability_of_def
        a_def availability_fromResource_def Let_def)
  moreover have "passing (Some date) web_isCalendarDate = Some date"
    "passing (Some s) hour_pattern = Some s" "passing (Some t) hour_pattern = Some t"
    using date start stop by (simp_all add: passing_def)
  ultimately have "visit_resource other isUUID isDateString k query e d = Page
      \<lparr>dv_resource = w, dv_availability = Some (web_availability_of a),
       dv_selection = resolveSlotSelection (web_availability_of a) (Some s) (Some t)\<rparr>"
    unfolding visit_resource_def ResourceDetailPage_def Let_def date(1) start(1) stop(1) option.case found
    by (simp add: uuid detail)
  then show thesis using sn by (intro that [of sn]) (simp_all add: a_def w_def Let_def)
qed

text \<open>C36: The page of a resource (app/resources/[id]/page.tsx) and the booking service agree on ranges. In every
  reachable state the page of an active resource comes up for an address with a calendar date and a range of
  hours, and the selection it computes from the availability it loaded is shown as available exactly when
  posting a booking of that range, at that moment, succeeds.\<close>

theorem selection_iff_bookable:
  assumes "reachable sv (now, d)" "accounts_recorded (sv_bootstrap sv)" "database_made d"
    and new: "known_user d u" "fresh_id e \<notin> ids b_id (bookings d)"
    and k: "findDiscoverableById k d = Some r" "r_id r = k" "isUUID k"
    and date: "one (query ''date'') = Some date" "web_isCalendarDate date" "isDateString date"
    and range: "one (query ''startTime'') = Some (hour_text h)" "one (query ''endTime'') = Some (hour_text j)" "h < j" "j \<le> 23"
  shows "\<exists>v. visit_resource other isUUID isDateString k query e d = Page v \<and>
    (ss_isSlotAvailable (dv_selection v) \<longleftrightarrow> succeeds (create_booking u
      \<lparr>cb_resourceId = k, cb_date = date, cb_startTime = hour_text h, cb_endTime = hour_text j\<rparr> e d))"
proof -
  have d: "db_ok d" using reachable_ok [OF assms(1)] by (simp add: campus_ok_def)
  have hours: "hour_pattern (hour_text h)" "hour_pattern (hour_text j)" using range(3,4) by (auto intro: hour_text_pattern)
  let ?dto = "\<lambda>i l. \<lparr>cb_resourceId = k, cb_date = date, cb_startTime = hour_text i, cb_endTime = hour_text l\<rparr>"
  obtain sn where sn: "findAvailabilitySnapshot k date d = Inr (Some sn)" "sn_resource sn = r"
    and visit: "visit_resource other isUUID isDateString k query e d = Page
      (let a = availability_fromResource r date (sn_closure sn) (sn_bookings sn) (clock e) in
       \<lparr>dv_resource = web_entry_of (resource_entry d r), dv_availability = Some (web_availability_of a),
        dv_selection = resolveSlotSelection (web_availability_of a) (Some (hour_text h)) (Some (hour_text j))\<rparr>)"
    using resource_page [OF d reachable_recorded [OF assms(1,2)] assms(3) k(1,2) _ date(1,2) _ range(1) hours(1) range(2) hours(2),
        where isUUID = isUUID and isDateString = isDateString and other = other and e = e, OF k(3) date(3)] .
  define a where "a = availability_fromResource r date (sn_closure sn) (sn_bookings sn) (clock e)"
  have pat: "date_pattern date" using date(2) by (simp add: web_isCalendarDate_def)
  note offered = offered_hour [OF d pat sn(1), unfolded sn(2)]
  have "h < 23" using range(3,4) by simp
  note rd = offered(1,2) [OF this]
  have mem: "r \<in> set (resources d)" using rd(2) by (auto dest: row_at_SomeD)
  obtain p b Q where "b \<le> 23" "wa_opensAt (web_availability_of a) = hour_text p" "wa_closesAt (web_availability_of a) = hour_text b"
    "wa_slots (web_availability_of a) = map hour_slot (filter Q [p..<b])"
    unfolding a_def using free_hours_listed [OF stored_resource(1,2) [OF d mem]] .
  then have "ss_isSlotAvailable (resolveSlotSelection (web_availability_of a) (Some (hour_text h)) (Some (hour_text j))) \<longleftrightarrow>
      (\<forall>i\<in>{h..<j}. hour_slot i \<in> set (wa_slots (web_availability_of a)))"
    by (intro range_available [OF _ _ _ _ range(3,4)])
  also have "\<dots> \<longleftrightarrow> (\<forall>i\<in>{h..<j}. bookable d r (?dto i (i + 1)) (clock e))"
    unfolding hour_offered using offered(3) [where now = "clock e", folded a_def] range(4) by (intro ball_cong refl) simp
  also have "\<dots> \<longleftrightarrow> bookable d r (?dto h j) (clock e)"
    by (rule bookable_hours [OF d mem pat rd(1) range(3,4), symmetric])
  also have "\<dots> \<longleftrightarrow> succeeds (create_booking u (?dto h j) e d)"
    using create_booking_succeeds [OF d new, of "?dto h j"] rd(2) hours pat by (simp add: well_formed_request_def)
  finally show ?thesis using visit by (simp add: Let_def a_def)
qed

end
