(* ===== verification/WebActions.thy ===== *)
theory WebActions
  imports WebBookings WebResources WebAccounts
begin

text \<open>
  What the pages ask of the service and how they report it: the request of a browser
  (lib/api/browser-client.ts), a student's and a staff member's actions on bookings
  (features/bookings/api/browser.ts, staff-browser.ts), the administrator's on resources and accounts
  (features/resources/api/browser.ts, features/users/api/browser.ts), sign-in and registration
  (features/auth/api/browser.ts).
\<close>

section \<open>The request of a browser\<close>

text \<open>What \<open>fetch\<close> comes back with: nothing, or a status and a body, None when it is not JSON.\<close>

datatype fetched = Unreached | Fetched nat "js_value option"

text \<open>\<open>ApiError\<close> by its kind; only an HTTP error has a status and a body.\<close>

datatype api_error = Network_error | Http_error nat "js_value option" | Invalid_response

definition response_ok :: "nat \<Rightarrow> bool" where
  "response_ok n \<longleftrightarrow> 200 \<le> n \<and> n < 300"

definition browserRequest :: "fetched \<Rightarrow> (api_error, js_value) outcome" where
  "browserRequest r =
     (case r of
        Unreached \<Rightarrow> Inl Network_error
      | Fetched status body \<Rightarrow>
          if \<not> response_ok status then Inl (Http_error status body)
          else if status = 204 then Inr JUndefined
          else (case body of None \<Rightarrow> Inl Invalid_response | Some v \<Rightarrow> Inr v))"

text \<open>
  The codes of the error classes, and the failure an action ends in: its code and its message. Each
  class has the codes its mapping gives.
\<close>

datatype action_code =
  C_validation | C_session | C_forbidden | C_not_found | C_conflict | C_active_bookings | C_credentials
| C_duplicate | C_rate_limit | C_network | C_unexpected

record failure =
  fa_code :: action_code
  fa_message :: string

type_synonym 'a action = "(failure, 'a) outcome"

definition failed :: "action_code \<Rightarrow> string \<Rightarrow> 'a action" where
  "failed code message = Inl \<lparr>fa_code = code, fa_message = message\<rparr>"

text \<open>An action: the body of the reply parsed and tested, its errors mapped.\<close>

definition perform ::
  "(api_error \<Rightarrow> failure) \<Rightarrow> string \<Rightarrow> (js_value \<Rightarrow> 'a option) \<Rightarrow> ('a \<Rightarrow> bool) \<Rightarrow> fetched \<Rightarrow> 'a action" where
  "perform map_error invalid parse accept r =
     (case browserRequest r of
        Inl err \<Rightarrow> Inl (map_error err)
      | Inr body \<Rightarrow>
          (case parse body of
             None \<Rightarrow> failed C_unexpected invalid
           | Some x \<Rightarrow> if accept x then Inr x else failed C_unexpected invalid))"

section \<open>A student's bookings\<close>

definition request_code :: "api_error \<Rightarrow> action_code" where
  "request_code err =
     (case err of
        Network_error \<Rightarrow> C_network
      | Invalid_response \<Rightarrow> C_unexpected
      | Http_error status body \<Rightarrow>
          if status = 400 then C_validation else if status = 401 then C_session
          else if status = 403 then C_forbidden else if status = 404 then C_not_found
          else if status = 409 then C_conflict else if status = 429 then C_rate_limit else C_unexpected)"

fun request_message :: "action_code \<Rightarrow> string" where
  "request_message C_validation = ''This booking interval is invalid or is no longer in the future.''"
| "request_message C_session = ''Your session has ended. Sign in again before sending this request.''"
| "request_message C_forbidden = ''Booking requests are available to student accounts.''"
| "request_message C_not_found = ''This resource is no longer available.''"
| "request_message C_conflict = ''This time is no longer bookable. Choose another slot and try again.''"
| "request_message C_rate_limit = ''Too many requests were sent. Wait a moment and try again.''"
| "request_message C_network = ''The booking service is unreachable. Check your connection and try again.''"
| "request_message code = ''The booking request could not be completed. Try again.''"

definition request_failure :: "api_error \<Rightarrow> failure" where
  "request_failure err = \<lparr>fa_code = request_code err, fa_message = request_message (request_code err)\<rparr>"

definition createBookingRequest ::
  "(string \<Rightarrow> int option) \<Rightarrow> booking_request_input \<Rightarrow> string \<Rightarrow> fetched \<Rightarrow> web_request_result action" where
  "createBookingRequest other input requesterId =
     perform request_failure ''The booking service returned invalid booking data.''
       (\<lambda>body. parseBookingRequestResult other body input requesterId) (\<lambda>x. True)"

text \<open>The two actions on a booking share the statuses they tell apart.\<close>

definition own_booking_failure :: "(action_code \<Rightarrow> string) \<Rightarrow> api_error \<Rightarrow> failure" where
  "own_booking_failure message err =
     (let code = (case err of
          Network_error \<Rightarrow> C_network
        | Invalid_response \<Rightarrow> C_unexpected
        | Http_error status body \<Rightarrow>
            if status = 401 then C_session else if status = 404 then C_not_found
            else if status = 409 then C_conflict else C_unexpected)
      in \<lparr>fa_code = code, fa_message = message code\<rparr>)"

fun check_in_message :: "action_code \<Rightarrow> string" where
  "check_in_message C_network = ''The check-in service is unreachable. Check your connection and try again.''"
| "check_in_message C_session = ''Your session has ended. Sign in again before checking in.''"
| "check_in_message C_not_found = ''This booking no longer exists.''"
| "check_in_message C_conflict = ''Check-in is not available for this booking now. Refresh its details.''"
| "check_in_message code = ''A check-in code could not be generated. Try again.''"

definition requestStudentCheckIn :: "(string \<Rightarrow> int option) \<Rightarrow> string \<Rightarrow> fetched \<Rightarrow> web_student_booking action" where
  "requestStudentCheckIn other k =
     perform (own_booking_failure check_in_message) ''The booking service returned invalid check-in data.''
       (parseStudentBooking other)
       (\<lambda>b. ws_id b = k \<and> ws_status b = CONFIRMED \<and> truthy_text (ws_checkInCode b) \<and>
          truthy_text (ws_checkInRequestedAt b) \<and> \<not> ws_canRequestCheckIn b)"

fun cancel_message :: "action_code \<Rightarrow> string" where
  "cancel_message C_network = ''The booking service is unreachable. Check your connection and try again.''"
| "cancel_message C_session = ''Your session has ended. Sign in again before managing this booking.''"
| "cancel_message C_not_found = ''This booking no longer exists or does not belong to your account.''"
| "cancel_message C_conflict = ''This booking can no longer be cancelled. Refresh its details.''"
| "cancel_message code = ''This booking could not be cancelled. Try again.''"

definition cancelStudentBooking :: "(string \<Rightarrow> int option) \<Rightarrow> string \<Rightarrow> fetched \<Rightarrow> web_student_booking action" where
  "cancelStudentBooking other k =
     perform (own_booking_failure cancel_message) ''The booking service returned invalid cancellation data.''
       (parseStudentBooking other) (\<lambda>b. ws_id b = k \<and> ws_status b = CANCELLED \<and> \<not> ws_canCancel b)"

section \<open>The staff\<close>

text \<open>\<open>context: "review" | "lifecycle"\<close>\<close>

datatype staff_context = Review | Lifecycle

definition staff_code :: "api_error \<Rightarrow> action_code" where
  "staff_code err =
     (case err of
        Network_error \<Rightarrow> C_network
      | Invalid_response \<Rightarrow> C_unexpected
      | Http_error status body \<Rightarrow>
          if status = 400 then C_validation else if status = 401 then C_session
          else if status = 403 then C_forbidden else if status = 404 then C_not_found
          else if status = 409 then C_conflict else C_unexpected)"

fun staff_message :: "staff_context \<Rightarrow> action_code \<Rightarrow> string" where
  "staff_message Review C_validation = ''Enter a clear rejection reason between 3 and 500 characters.''"
| "staff_message Review C_session = ''Your session has ended. Sign in again before reviewing requests.''"
| "staff_message Review C_forbidden = ''Only staff accounts can review booking requests.''"
| "staff_message Review C_not_found = ''This booking request no longer exists.''"
| "staff_message Review C_conflict = ''This request is no longer eligible for review. Refresh its details.''"
| "staff_message Review C_network = ''The approval service is unreachable. Check your connection and try again.''"
| "staff_message Review code = ''This review could not be saved. Try again.''"
| "staff_message Lifecycle C_validation = ''Enter the six-digit code shown by the student.''"
| "staff_message Lifecycle C_session = ''Your session has ended. Sign in again before updating this visit.''"
| "staff_message Lifecycle C_forbidden = ''Only staff accounts can update campus visits.''"
| "staff_message Lifecycle C_not_found = ''This booking no longer exists.''"
| "staff_message Lifecycle C_conflict = ''This visit is no longer eligible for that update. Refresh its details.''"
| "staff_message Lifecycle C_network = ''The campus operations service is unreachable. Check your connection and try again.''"
| "staff_message Lifecycle code = ''This visit update could not be saved. Try again.''"

definition staff_failure :: "staff_context \<Rightarrow> api_error \<Rightarrow> failure" where
  "staff_failure ctx err = \<lparr>fa_code = staff_code err, fa_message = staff_message ctx (staff_code err)\<rparr>"

definition reviewBooking ::
  "(string \<Rightarrow> int option) \<Rightarrow> string \<Rightarrow> booking_status \<Rightarrow> fetched \<Rightarrow> web_staff_booking action" where
  "reviewBooking other k expectedStatus =
     perform (staff_failure Review) ''The approval service returned invalid booking data.''
       (parseStaffBooking other) (\<lambda>b. wf_id b = k \<and> wf_status b = expectedStatus)"

definition lifecycleBooking ::
  "(string \<Rightarrow> int option) \<Rightarrow> string \<Rightarrow> booking_status \<Rightarrow> fetched \<Rightarrow> web_staff_booking action" where
  "lifecycleBooking other k expectedStatus =
     perform (staff_failure Lifecycle) ''The operations service returned invalid booking data.''
       (parseStaffBooking other) (\<lambda>b. wf_id b = k \<and> wf_status b = expectedStatus)"

definition approveStaffBooking :: "(string \<Rightarrow> int option) \<Rightarrow> string \<Rightarrow> fetched \<Rightarrow> web_staff_booking action" where
  "approveStaffBooking other k = reviewBooking other k CONFIRMED"

definition rejectStaffBooking :: "(string \<Rightarrow> int option) \<Rightarrow> string \<Rightarrow> fetched \<Rightarrow> web_staff_booking action" where
  "rejectStaffBooking other k = reviewBooking other k REJECTED"

definition confirmStaffCheckIn :: "(string \<Rightarrow> int option) \<Rightarrow> string \<Rightarrow> fetched \<Rightarrow> web_staff_booking action" where
  "confirmStaffCheckIn other k = lifecycleBooking other k CHECKED_IN"

definition checkOutStaffBooking :: "(string \<Rightarrow> int option) \<Rightarrow> string \<Rightarrow> fetched \<Rightarrow> web_staff_booking action" where
  "checkOutStaffBooking other k = lifecycleBooking other k COMPLETED"

definition markStaffBookingNoShow :: "(string \<Rightarrow> int option) \<Rightarrow> string \<Rightarrow> fetched \<Rightarrow> web_staff_booking action" where
  "markStaffBookingNoShow other k = lifecycleBooking other k NO_SHOW"

section \<open>The administration of resources\<close>

text \<open>\<open>ResourceMutationError\<close>: with the bookings in the way, when the service names them.\<close>

record mutation_failure = failure +
  fa_conflict :: "(string \<times> int \<times> web_conflict list) option"

type_synonym 'a mutation = "(mutation_failure, 'a) outcome"

fun mutation_message :: "action_code \<Rightarrow> string" where
  "mutation_message C_validation = ''Check the resource details and try again.''"
| "mutation_message C_session = ''Your session has ended. Sign in again to manage resources.''"
| "mutation_message C_conflict = ''A resource with this code already exists.''"
| "mutation_message C_active_bookings = ''This change affects active bookings. Resolve them before trying again.''"
| "mutation_message C_not_found = ''The resource or building no longer exists. Refresh and try again.''"
| "mutation_message C_forbidden = ''Your account does not have permission to manage resources.''"
| "mutation_message C_network = ''The resource service is unreachable. Check your connection and try again.''"
| "mutation_message code = ''The resource could not be saved. Try again in a moment.''"

definition errorCodeFor :: "api_error \<Rightarrow> action_code" where
  "errorCodeFor err =
     (case err of
        Network_error \<Rightarrow> C_network
      | Invalid_response \<Rightarrow> C_unexpected
      | Http_error status body \<Rightarrow>
          if status = 400 then C_validation else if status = 401 then C_session
          else if status = 403 then C_forbidden else if status = 404 then C_not_found
          else if status = 409 then C_conflict else C_unexpected)"

definition mutation_error :: "action_code \<Rightarrow> string \<Rightarrow> mutation_failure" where
  "mutation_error code message = \<lparr>fa_code = code, fa_message = message, fa_conflict = None\<rparr>"

definition activeBookingError :: "api_error \<Rightarrow> mutation_failure option" where
  "activeBookingError err =
     (case err of
        Http_error status body \<Rightarrow>
          if status \<noteq> 409 then None
          else (case Option.bind body parseResourceBookingConflict of
              None \<Rightarrow> None
            | Some c \<Rightarrow> Some \<lparr>fa_code = C_active_bookings, fa_message = fst c, fa_conflict = Some c\<rparr>)
      | _ \<Rightarrow> None)"

definition sameValues :: "'a list \<Rightarrow> 'a list \<Rightarrow> bool" where
  "sameValues actual expected \<longleftrightarrow>
     length actual = length expected \<and> (\<forall>i<length actual. actual ! i = expected ! i)"

text \<open>\<open>ResourceInput\<close>: the optional parts may be absent.\<close>

record resource_input =
  ri_code :: string
  ri_name :: string
  ri_description :: string
  ri_type :: resource_type
  ri_capacity :: int
  ri_location :: string
  ri_amenities :: "string list option"
  ri_requiresApproval :: "bool option"
  ri_operatingDays :: "int list option"
  ri_opensAt :: "string option"
  ri_closesAt :: "string option"
  ri_buildingId :: string

definition given_or :: "'a option \<Rightarrow> ('a \<Rightarrow> bool) \<Rightarrow> bool \<Rightarrow> bool" where
  "given_or x P otherwise = (case x of None \<Rightarrow> otherwise | Some v \<Rightarrow> P v)"

definition matchesResourceInput :: "web_catalogue_entry \<Rightarrow> resource_input \<Rightarrow> bool \<Rightarrow> bool" where
  "matchesResourceInput r input applyCreateDefaults \<longleftrightarrow>
     we_code r = js_upper (js_trim (ri_code input)) \<and>
     we_name r = js_trim (ri_name input) \<and>
     we_description r = (if js_trim (ri_description input) = [] then None else Some (js_trim (ri_description input))) \<and>
     we_type r = ri_type input \<and>
     we_capacity r = ri_capacity input \<and>
     we_location r = js_trim (ri_location input) \<and>
     wb_id (we_building r) = ri_buildingId input \<and>
     given_or (map_option (map (\<lambda>x. js_lower (js_trim x))) (ri_amenities input)) (sameValues (we_amenities r))
       (applyCreateDefaults \<longrightarrow> we_amenities r = []) \<and>
     given_or (ri_requiresApproval input) (\<lambda>v. we_requiresApproval r = v) (applyCreateDefaults \<longrightarrow> \<not> we_requiresApproval r) \<and>
     given_or (ri_operatingDays input) (sameValues (we_operatingDays r))
       (applyCreateDefaults \<longrightarrow> sameValues (we_operatingDays r) [1, 2, 3, 4, 5, 6]) \<and>
     given_or (ri_opensAt input) (\<lambda>t. we_opensAt r = t) (applyCreateDefaults \<longrightarrow> we_opensAt r = ''08:00'') \<and>
     given_or (ri_closesAt input) (\<lambda>t. we_closesAt r = t) (applyCreateDefaults \<longrightarrow> we_closesAt r = ''18:00'')"

definition mutation_failure_of :: "api_error \<Rightarrow> mutation_failure" where
  "mutation_failure_of err =
     (case activeBookingError err of
        Some f \<Rightarrow> f
      | None \<Rightarrow> mutation_error (errorCodeFor err) (mutation_message (errorCodeFor err)))"

definition mutate ::
  "(api_error \<Rightarrow> mutation_failure) \<Rightarrow> (js_value \<Rightarrow> 'a option) \<Rightarrow> ('a \<Rightarrow> bool) \<Rightarrow> fetched \<Rightarrow> 'a mutation" where
  "mutate map_error parse validate r =
     (case browserRequest r of
        Inl err \<Rightarrow> Inl (map_error err)
      | Inr body \<Rightarrow>
          (case parse body of
             None \<Rightarrow> Inl (mutation_error C_unexpected (mutation_message C_unexpected))
           | Some x \<Rightarrow>
               if validate x then Inr x else Inl (mutation_error C_unexpected (mutation_message C_unexpected))))"

definition mutateResource ::
  "(string \<Rightarrow> int option) \<Rightarrow> (web_catalogue_entry \<Rightarrow> bool) \<Rightarrow> fetched \<Rightarrow> web_catalogue_entry mutation" where
  "mutateResource other validate = mutate mutation_failure_of (web_parseResource other) validate"

definition web_createResource :: "(string \<Rightarrow> int option) \<Rightarrow> resource_input \<Rightarrow> fetched \<Rightarrow> web_catalogue_entry mutation" where
  "web_createResource other input = mutateResource other (\<lambda>r. we_status r = ACTIVE \<and> matchesResourceInput r input True)"

definition web_updateResource ::
  "(string \<Rightarrow> int option) \<Rightarrow> string \<Rightarrow> resource_input \<Rightarrow> fetched \<Rightarrow> web_catalogue_entry mutation" where
  "web_updateResource other k input = mutateResource other (\<lambda>r. we_id r = k \<and> matchesResourceInput r input False)"

definition updateResourceStatus ::
  "(string \<Rightarrow> int option) \<Rightarrow> string \<Rightarrow> resource_status \<Rightarrow> fetched \<Rightarrow> web_catalogue_entry mutation" where
  "updateResourceStatus other k status = mutateResource other (\<lambda>r. we_id r = k \<and> we_status r = status)"

definition closureError :: "api_error \<Rightarrow> mutation_failure" where
  "closureError err =
     (case activeBookingError err of
        Some f \<Rightarrow> f
      | None \<Rightarrow>
          let code = errorCodeFor err in
          mutation_error code
            (if code = C_conflict then ''A closure already exists for this resource and date.''
             else if code = C_validation then ''Enter a valid closure date and reason.''
             else mutation_message code))"

definition getResourceClosures :: "(string \<Rightarrow> int option) \<Rightarrow> string \<Rightarrow> fetched \<Rightarrow> web_closure list mutation" where
  "getResourceClosures other k =
     mutate closureError (parseResourceClosures other) (\<lambda>cs. \<not> (\<exists>c\<in>set cs. wc_resourceId c \<noteq> k))"

definition createResourceClosure ::
  "(string \<Rightarrow> int option) \<Rightarrow> string \<Rightarrow> string \<Rightarrow> string \<Rightarrow> fetched \<Rightarrow> web_closure mutation" where
  "createResourceClosure other k date reason =
     mutate closureError (parseResourceClosure other)
       (\<lambda>c. wc_resourceId c = k \<and> wc_date c = date \<and> wc_reason c = js_trim reason)"

definition deleteResourceClosure :: "fetched \<Rightarrow> unit mutation" where
  "deleteResourceClosure r = (case browserRequest r of Inl err \<Rightarrow> Inl (closureError err) | Inr body \<Rightarrow> Inr ())"

section \<open>Accounts\<close>

definition user_failure :: "api_error \<Rightarrow> failure" where
  "user_failure err =
     (let fail = (\<lambda>code message. \<lparr>fa_code = code, fa_message = message\<rparr>);
          unexpected = fail C_unexpected ''The account could not be updated. Try again in a moment.'' in
      case err of
        Network_error \<Rightarrow> fail C_network ''The user service is unreachable. Check your connection and try again.''
      | Invalid_response \<Rightarrow> unexpected
      | Http_error status body \<Rightarrow>
          if status = 400 then fail C_validation ''This account change is not allowed. Refresh the directory and try again.''
          else if status = 401 then fail C_session ''Your session has ended. Sign in again to manage users.''
          else if status = 403 then fail C_forbidden ''Your account does not have permission to manage users.''
          else if status = 404 then fail C_not_found ''This account no longer exists. Refresh the directory.''
          else unexpected)"

definition mutateUser ::
  "(string \<Rightarrow> int option) \<Rightarrow> string \<Rightarrow> (web_admin_user \<Rightarrow> bool) \<Rightarrow> fetched \<Rightarrow> web_admin_user action" where
  "mutateUser other k validate =
     perform user_failure ''The user service returned invalid account data.'' (parseAdminUser other)
       (\<lambda>u. wm_id u = k \<and> validate u)"

definition updateUserRole :: "(string \<Rightarrow> int option) \<Rightarrow> string \<Rightarrow> user_role \<Rightarrow> fetched \<Rightarrow> web_admin_user action" where
  "updateUserRole other k role = mutateUser other k (\<lambda>u. wm_role u = role)"

definition updateUserStatus :: "(string \<Rightarrow> int option) \<Rightarrow> string \<Rightarrow> bool \<Rightarrow> fetched \<Rightarrow> web_admin_user action" where
  "updateUserStatus other k isActive = mutateUser other k (\<lambda>u. wm_isActive u = isActive)"

text \<open>What the forms send: the address and the name trimmed, the address in small letters.\<close>

definition login_body :: "string \<Rightarrow> string \<Rightarrow> login_dto" where
  "login_body email password = \<lparr>lg_email = js_lower (js_trim email), lg_password = password\<rparr>"

definition register_body :: "string \<Rightarrow> string \<Rightarrow> string \<Rightarrow> register_dto" where
  "register_body email password fullName =
     \<lparr>rg_email = js_lower (js_trim email), rg_password = password, rg_fullName = js_trim fullName\<rparr>"

fun login_message :: "action_code \<Rightarrow> string" where
  "login_message C_validation = ''Use your USTH email address and check the form fields.''"
| "login_message C_credentials = ''The email or password is incorrect.''"
| "login_message C_rate_limit = ''Too many sign-in attempts. Wait a minute, then try again.''"
| "login_message C_network = ''The booking service is unreachable. Check your connection and try again.''"
| "login_message code = ''Sign-in could not be completed. Try again in a moment.''"

definition loginCodeFor :: "api_error \<Rightarrow> action_code" where
  "loginCodeFor err =
     (case err of
        Network_error \<Rightarrow> C_network
      | Invalid_response \<Rightarrow> C_unexpected
      | Http_error status body \<Rightarrow>
          if status = 400 then C_validation else if status = 401 then C_credentials
          else if status = 429 then C_rate_limit else C_unexpected)"

definition web_login :: "(string \<Rightarrow> int option) \<Rightarrow> fetched \<Rightarrow> web_user action" where
  "web_login other =
     perform (\<lambda>err. \<lparr>fa_code = loginCodeFor err, fa_message = login_message (loginCodeFor err)\<rparr>)
       (login_message C_unexpected) (parseUser other) (\<lambda>u. True)"

fun registration_message :: "action_code \<Rightarrow> string" where
  "registration_message C_validation = ''Check your name, USTH email, and password requirements.''"
| "registration_message C_duplicate = ''An account already exists for this USTH email. Sign in instead.''"
| "registration_message C_rate_limit = ''Too many registration attempts. Wait a minute, then try again.''"
| "registration_message C_network = ''The booking service is unreachable. Check your connection and try again.''"
| "registration_message code = ''Your account could not be created. Try again in a moment.''"

definition registrationCodeFor :: "api_error \<Rightarrow> action_code" where
  "registrationCodeFor err =
     (case err of
        Network_error \<Rightarrow> C_network
      | Invalid_response \<Rightarrow> C_unexpected
      | Http_error status body \<Rightarrow>
          if status = 400 then C_validation else if status = 409 then C_duplicate
          else if status = 429 then C_rate_limit else C_unexpected)"

definition web_register :: "(string \<Rightarrow> int option) \<Rightarrow> fetched \<Rightarrow> web_user action" where
  "web_register other =
     perform (\<lambda>err. \<lparr>fa_code = registrationCodeFor err, fa_message = registration_message (registrationCodeFor err)\<rparr>)
       (registration_message C_unexpected) (parseUser other) (\<lambda>u. True)"

definition web_logout :: "fetched \<Rightarrow> (api_error, unit) outcome" where
  "web_logout r = map_sum id (\<lambda>body. ()) (browserRequest r)"

section \<open>What the service sends back\<close>

text \<open>
  The framework's body of an exception: a message, except for the conflict with active bookings, which
  has a body of its own. Its other fields are not read.
\<close>

fun error_json :: "http_error \<Rightarrow> js_value" where
  "error_json (HttpException n code message) = JObject [(''statusCode'', js_int (int n)), (''message'', JString message)]"
| "error_json (ActiveBookingsConflict message n cs) = conflict_json message n cs"
| "error_json (InternalServerError err) = JObject [(''statusCode'', js_int 500), (''message'', JString ''Internal server error'')]"

definition fetched_of :: "nat \<Rightarrow> ('a \<Rightarrow> js_value) \<Rightarrow> 'a served \<Rightarrow> fetched" where
  "fetched_of status json r =
     (case r of
        Inl err \<Rightarrow> Fetched (http_status err) (Some (error_json err))
      | Inr (body, d', evs) \<Rightarrow> Fetched status (Some (json body)))"

end
