(* ===== verification/WebActionProps.thy ===== *)
theory WebActionProps
  imports WebActions WebStaffReads WebResourceReads WebAccountReads
begin

text \<open>
  The actions of the pages on the service: an action reports success, with the row as it now is, exactly
  when the service carried it out, and never an unexpected failure.
\<close>

section \<open>Reports\<close>

text \<open>A refusal is reported by the code that belongs to the status the service refused with.\<close>

definition reported ::
  "(nat \<times> action_code) set \<Rightarrow> ('b \<Rightarrow> 'c) \<Rightarrow> 'b served \<Rightarrow> ('f failure_scheme, 'c) outcome \<Rightarrow> bool" where
  "reported codes view r a \<longleftrightarrow>
     (case r of
        Inr (body, d', evs) \<Rightarrow> a = Inr (view body)
      | Inl err \<Rightarrow> (case a of Inl f \<Rightarrow> (http_status err, fa_code f) \<in> codes | Inr x \<Rightarrow> False))"

text \<open>The statuses the two kinds of pages tell apart, each with the code it is reported under.\<close>

abbreviation (input) staff_reported where
  "staff_reported \<equiv> reported {(400, C_validation), (404, C_not_found), (409, C_conflict)}"

abbreviation (input) student_reported where
  "student_reported \<equiv> reported {(404, C_not_found), (409, C_conflict)}"

lemma perform_reported:
  assumes "response_ok status" "status \<noteq> 204"
    and "\<And>body d' evs. r = Inr (body, d', evs) \<Longrightarrow> parse (json body) = Some (view body) \<and> accept (view body)"
    and "\<And>err. r = Inl err \<Longrightarrow> \<not> response_ok (http_status err) \<and>
      (http_status err, fa_code (map_error (Http_error (http_status err) (Some (error_json err))))) \<in> codes"
  shows "reported codes view r (perform map_error invalid parse accept (fetched_of status json r))"
proof (cases r)
  case (Inl err)
  then show ?thesis using assms(4) by (simp add: reported_def perform_def browserRequest_def fetched_of_def)
next
  case (Inr x)
  obtain body d' evs where x: "x = (body, d', evs)" by (cases x)
  then show ?thesis using assms(1,2) assms(3) [of body d' evs] Inr
    by (simp add: reported_def perform_def browserRequest_def fetched_of_def)
qed

lemma refused_status:
  "answered_with codes r \<Longrightarrow> codes \<subseteq> {400, 404, 409} \<Longrightarrow> r = Inl err \<Longrightarrow>
     http_status err \<in> codes \<and> \<not> response_ok (http_status err)"
  by (auto simp: answered_with_def response_ok_def)

section \<open>Actions on a booking\<close>

lemma lifecycle_written:
  assumes ok: "campus_ok (clock e, d)" "recorded d" "database_made d" "op_sound op e d"
    and run: "run_lifecycle op e d = Inr (b', d', evs)" and later: "clock e \<le> clock_after e" "campus_era (clock_after e)"
  obtains b where "b \<in> set (bookings d)" "addresses op b" "enabled op (clock e) b"
    "b' = (op_change op e b)\<lparr>b_updatedAt := db_now e\<rparr>" "b' \<in> set (bookings d')"
    "campus_ok (clock_after e, d')" "recorded d'" "database_made d'"
proof -
  have k: "db_ok d" "db_lived (clock e) d" "none_stranded (clock e) d" "campus_era (clock e)"
    using ok(1) by (simp_all add: campus_ok_def)
  obtain b where b: "b \<in> set (bookings d)" "addresses op b" "enabled op (clock e) b"
    "(b', d') = rewritten (op_change op e) e d b" using k(1,2) ok(4) run by (rule run_lifecycle_Inr)
  note rows = rewritten_rows [OF k(1) b(1,4) b(1) op_change_slot]
  have "campus_ok (clock e, d')"
    using lifecycle_db_ok [OF k(1) run] lifecycle_lived [OF k(1,2) ok(4) run] lifecycle_serves [OF k(1,2) ok(4) run k(3)] k(4)
    by (simp add: campus_ok_def)
  then have later_ok: "campus_ok (clock_after e, d')" using later by (rule campus_ok_later)
  have "b' \<in> set (bookings d')" using rows(2) by (auto dest: row_at_SomeD)
  moreover have "database_made d'"
  proof -
    have "uuid_version_pattern (b_id ((op_change op e x)\<lparr>b_updatedAt := db_now e\<rparr>)) \<and>
        iso_era (b_createdAt ((op_change op e x)\<lparr>b_updatedAt := db_now e\<rparr>))" if "x \<in> set (bookings d)" for x
      using ok(3) that op_change_slot [of x op e] by (auto simp: database_made_def same_slot_def)
    then have "\<forall>x\<in>set (bookings d'). uuid_version_pattern (b_id x) \<and> iso_era (b_createdAt x)"
      using b(4) ok(3) by (auto simp: rewritten_def Let_def set_patch_row database_made_def)
    then show ?thesis using ok(3) rows(3-6) by (simp add: database_made_def)
  qed
  ultimately show ?thesis
    using lifecycle_recorded [OF k(1,2) ok(4) run ok(2) k(4)] later_ok by (intro that [OF b(1-3) rows(1)])
qed

text \<open>What the two kinds of views show of a booking just written.\<close>

lemma staff_pressed:
  assumes ok: "campus_ok (clock e, d)" "recorded d" "database_made d" "op_sound op e d"
    and later: "clock e \<le> clock_after e" "campus_era (clock_after e)"
    and op: "\<And>b. addresses op b \<Longrightarrow> b_id b = k" "\<And>b. b_status (op_change op e b) = st"
    and r: "r = answer f (\<lambda>d'. staffResponse d' (clock_after e)) (run_lifecycle op e d)"
    and codes: "answered_with {400, 404, 409} r"
  shows "staff_reported web_staff_of r
    (perform (staff_failure ctx) invalid (parseStaffBooking other) (\<lambda>b. wf_id b = k \<and> wf_status b = st)
      (fetched_of 200 staff_booking_json r))"
proof (rule perform_reported)
  fix body d' evs assume "r = Inr (body, d', evs)"
  then obtain b' where run: "run_lifecycle op e d = Inr (b', d', evs)" and body: "staffResponse d' (clock_after e) b' = Inr body"
    unfolding r by (auto simp: answer_def split: sum.splits)
  obtain b where b: "addresses op b" "b' = (op_change op e b)\<lparr>b_updatedAt := db_now e\<rparr>" "b' \<in> set (bookings d')"
    "campus_ok (clock_after e, d')" "recorded d'" "database_made d'"
    using lifecycle_written [OF ok run later] by blast
  have "all_responses (staffResponse d' (clock_after e)) [b'] = Inr (map (staff_body d' (clock_after e)) [b'])"
    using b(3,4) by (intro staff_bodies) (simp_all add: campus_ok_def)
  then have "body = staff_body d' (clock_after e) b'" using body by simp
  moreover have "b_id b' = k" "b_status b' = st"
    using op op_change_slot [of b op e] b(1,2) by (simp_all add: same_slot_def)
  ultimately show "parseStaffBooking other (staff_booking_json body) = Some (web_staff_of body) \<and>
      wf_id (web_staff_of body) = k \<and> wf_status (web_staff_of body) = st"
    using read_staff_booking [OF b(4-6,3)] by simp
next
  fix err assume "r = Inl err"
  then show "\<not> response_ok (http_status err) \<and>
      (http_status err, fa_code (staff_failure ctx (Http_error (http_status err) (Some (error_json err))))) \<in> {(400, C_validation), (404, C_not_found), (409, C_conflict)}"
    using refused_status [OF codes] by (auto simp: staff_failure_def staff_code_def)
qed (simp_all add: response_ok_def)

lemma student_pressed:
  assumes ok: "campus_ok (clock e, d)" "recorded d" "database_made d" "op_sound op e d"
    and later: "clock e \<le> clock_after e" "campus_era (clock_after e)"
    and op: "\<And>b. addresses op b \<Longrightarrow> b_id b = k" 
    and shown: "\<And>b b' d'. enabled op (clock e) b \<Longrightarrow> b' = (op_change op e b)\<lparr>b_updatedAt := db_now e\<rparr> \<Longrightarrow>
      sound_booking b' \<Longrightarrow> accept (web_student_of (student_body d' (clock_after e) b')) \<longleftrightarrow> b_id b' = k"
    and r: "r = answer f (\<lambda>d'. studentResponse d' (clock_after e)) (run_lifecycle op e d)"
    and codes: "answered_with {404, 409} r"
  shows "student_reported web_student_of r
    (perform (own_booking_failure message) invalid (parseStudentBooking other) accept (fetched_of 200 student_booking_json r))"
proof (rule perform_reported)
  fix body d' evs assume "r = Inr (body, d', evs)"
  then obtain b' where run: "run_lifecycle op e d = Inr (b', d', evs)" and body: "studentResponse d' (clock_after e) b' = Inr body"
    unfolding r by (auto simp: answer_def split: sum.splits)
  obtain b where b: "addresses op b" "enabled op (clock e) b" "b' = (op_change op e b)\<lparr>b_updatedAt := db_now e\<rparr>"
    "b' \<in> set (bookings d')" "campus_ok (clock_after e, d')" "recorded d'" "database_made d'"
    using lifecycle_written [OF ok run later] by blast
  have db: "db_ok d'" using b(5) by (simp add: campus_ok_def)
  note joined = joined_stored [OF db b(4)]
  have "all_responses (studentResponse d' (clock_after e)) [b'] = Inr (map (student_body d' (clock_after e)) [b'])"
    using b(4) by (intro student_bodies [OF db]) simp
  then have "body = student_body d' (clock_after e) b'" using body by simp
  moreover have "b_id b' = k" using op [OF b(1)] op_change_slot [of b op e] b(3) by (simp add: same_slot_def)
  ultimately show "parseStudentBooking other (student_booking_json body) = Some (web_student_of body) \<and> accept (web_student_of body)"
    using read_student_booking [OF b(5-7,4) joined] shown [OF b(2,3) db_booking_sound [OF db b(4)]]
    by (simp add: student_body_def)
next
  fix err assume "r = Inl err"
  then show "\<not> response_ok (http_status err) \<and>
      (http_status err, fa_code (own_booking_failure message (Http_error (http_status err) (Some (error_json err))))) \<in> {(404, C_not_found), (409, C_conflict)}"
    using refused_status [OF codes] by (auto simp: own_booking_failure_def Let_def)
qed (simp_all add: response_ok_def)

lemma refused_body: "staff_reported view r (perform (staff_failure ctx) invalid parse accept (fetched_of 200 json r))"
  if "r = Inl (HttpException 400 c m)"
  using that by (intro perform_reported) (simp_all add: response_ok_def staff_failure_def staff_code_def)

lemma known_trimmed: "known_user d u \<Longrightarrow> reject_dto_valid (js_trim reason) \<Longrightarrow> op_sound (Reject u k (js_trim reason)) e d"
  using trimmed_reason_ok by simp

lemma written_texts: "toISOString t \<noteq> []" "n < 1000000 \<Longrightarrow> check_in_code n \<noteq> []"
  using check_in_code_digits [of n] by (auto simp: toISOString_parts six_digits_def)

text \<open>What a student sees of a booking: the buttons follow the status.\<close>

lemma shown_student [simp]:
  "ws_id (web_student_of (student_body d t b)) = b_id b" "ws_status (web_student_of (student_body d t b)) = b_status b"
  "ws_canCancel (web_student_of (student_body d t b)) = canCancel b t"
  "ws_canRequestCheckIn (web_student_of (student_body d t b)) = canRequestCheckIn b t"
  "ws_checkInCode (web_student_of (student_body d t b)) = b_checkInCode b"
  "ws_checkInRequestedAt (web_student_of (student_body d t b)) = map_option toISOString (b_checkInRequestedAt b)"
  by (simp_all add: web_student_of_def student_body_def student_booking_fromEntity_def)

lemma reject_reported:
  assumes ok: "campus_ok (clock e, d)" "recorded d" "database_made d"
    and later: "clock e \<le> clock_after e" "campus_era (clock_after e)"
    and caller: "known_user d u" "isUUID k" "sql_uuid k = k"
    and codes: "answered_with {400, 404, 409} (rejectBooking isUUID u k reason e d)"
  shows "staff_reported web_staff_of (rejectBooking isUUID u k reason e d)
      (rejectStaffBooking other k (fetched_of 200 staff_booking_json (rejectBooking isUUID u k reason e d)))"
proof (cases "reject_dto_valid (js_trim reason)")
  case True
  then show ?thesis
    using staff_pressed [OF ok _ later, where k = k, OF _ _ _ refl, of "Reject u k (js_trim reason)" REJECTED mapReviewError]
      codes caller known_trimmed [OF caller(1) True]
    by (simp add: rejectBooking_def parse_uuid_def rejectStaffBooking_def reviewBooking_def change_defs Let_def)
next
  case False
  then show ?thesis unfolding rejectStaffBooking_def reviewBooking_def
    by (intro refused_body) (simp add: rejectBooking_def parse_uuid_def caller Let_def)
qed

lemma confirm_reported:
  assumes ok: "campus_ok (clock e, d)" "recorded d" "database_made d"
    and later: "clock e \<le> clock_after e" "campus_era (clock_after e)"
    and caller: "known_user d u" "isUUID k" "sql_uuid k = k"
    and codes: "answered_with {400, 404, 409} (confirmCheckInBooking isUUID u k code e d)"
  shows "staff_reported web_staff_of (confirmCheckInBooking isUUID u k code e d)
      (confirmStaffCheckIn other k (fetched_of 200 staff_booking_json (confirmCheckInBooking isUUID u k code e d)))"
proof (cases "confirm_dto_valid code")
  case True
  then show ?thesis
    using staff_pressed [OF ok _ later, where k = k, OF _ _ _ refl, of "ConfirmCheckIn u k code" CHECKED_IN mapLifecycleError]
      codes caller
    by (simp add: confirmCheckInBooking_def parse_uuid_def confirmStaffCheckIn_def lifecycleBooking_def change_defs)
next
  case False
  then show ?thesis unfolding confirmStaffCheckIn_def lifecycleBooking_def
    by (intro refused_body) (simp add: confirmCheckInBooking_def parse_uuid_def caller)
qed

lemma cancel_reported:
  assumes ok: "campus_ok (clock e, d)" "recorded d" "database_made d"
    and later: "clock e \<le> clock_after e" "campus_era (clock_after e)"
    and caller: "known_user d u" "isUUID k" "sql_uuid k = k"
  shows "student_reported web_student_of (cancelMine isUUID u k e d)
      (cancelStudentBooking other k (fetched_of 200 student_booking_json (cancelMine isUUID u k e d)))"
proof -
  have k: "db_ok d" "db_lived (clock e) d" using ok(1) by (simp_all add: campus_ok_def)
  have "answered_with {404, 409} (answer map_cancel_error (\<lambda>d'. studentResponse d' (clock_after e)) (run_lifecycle (Cancel u k) e d))"
    by (rule lifecycle_answer [OF k _ _ _ responses_exist(1)]) (auto simp: map_cancel_error_def)
  then show ?thesis
    unfolding cancelStudentBooking_def using caller
    by (simp only: cancelMine_def parse_uuid_def if_True)
      (rule student_pressed [OF ok _ later, of "Cancel u k"], auto simp: change_defs canCancel_def)
qed

lemma request_reported:
  assumes ok: "campus_ok (clock e, d)" "recorded d" "database_made d"
    and later: "clock e \<le> clock_after e" "campus_era (clock_after e)"
    and caller: "known_user d u" "isUUID k" "sql_uuid k = k"
    and rnd: "random_int e < 1000000"
  shows "student_reported web_student_of (requestCheckInMine isUUID u k e d)
      (requestStudentCheckIn other k (fetched_of 200 student_booking_json (requestCheckInMine isUUID u k e d)))"
proof -
  have k: "db_ok d" "db_lived (clock e) d" using ok(1) by (simp_all add: campus_ok_def)
  have "answered_with {404, 409} (answer map_request_check_in_error (\<lambda>d'. studentResponse d' (clock_after e))
      (run_lifecycle (RequestCheckIn u k) e d))"
    by (rule lifecycle_answer [OF k _ _ _ responses_exist(1)]) (auto simp: map_request_check_in_error_def rnd)
  then show ?thesis
    unfolding requestStudentCheckIn_def using caller rnd
    by (simp only: requestCheckInMine_def parse_uuid_def if_True)
      (rule student_pressed [OF ok _ later, of "RequestCheckIn u k"], auto simp: change_defs canRequestCheckIn_def truthy_text_def written_texts)
qed

text \<open>C37: The pages report every action on a booking as it went (features/bookings/api/staff-browser.ts and browser.ts
  on the endpoints). In every reachable state, for an identifier as the database writes it: approving, rejecting,
  confirming a check-in, checking out, marking a no-show, cancelling and requesting a check-in report success exactly
  when the service carried the request out, with the booking as it is now stored - every test of the reply passes - and
  report a refusal by the status it was refused with: 404 as not found, 409 as a conflict and, for the staff, 400 as a
  failed validation; no other status occurs, so nothing ends in an unexpected failure.\<close>

theorem booking_actions_report:
  assumes "reachable sv (now, d)" "accounts_recorded (sv_bootstrap sv)" "database_made d" "env_sound now e d"
    and later: "clock e \<le> clock_after e" "campus_era (clock_after e)"
    and caller: "known_user d u" "isUUID k" "sql_uuid k = k"
  shows "staff_reported web_staff_of (approveBooking isUUID u k e d)
      (approveStaffBooking other k (fetched_of 200 staff_booking_json (approveBooking isUUID u k e d))) \<and>
    staff_reported web_staff_of (rejectBooking isUUID u k reason e d)
      (rejectStaffBooking other k (fetched_of 200 staff_booking_json (rejectBooking isUUID u k reason e d))) \<and>
    staff_reported web_staff_of (confirmCheckInBooking isUUID u k code e d)
      (confirmStaffCheckIn other k (fetched_of 200 staff_booking_json (confirmCheckInBooking isUUID u k code e d))) \<and>
    staff_reported web_staff_of (checkOutBooking isUUID u k e d)
      (checkOutStaffBooking other k (fetched_of 200 staff_booking_json (checkOutBooking isUUID u k e d))) \<and>
    staff_reported web_staff_of (markNoShowBooking isUUID u k e d)
      (markStaffBookingNoShow other k (fetched_of 200 staff_booking_json (markNoShowBooking isUUID u k e d))) \<and>
    student_reported web_student_of (cancelMine isUUID u k e d)
      (cancelStudentBooking other k (fetched_of 200 student_booking_json (cancelMine isUUID u k e d))) \<and>
    student_reported web_student_of (requestCheckInMine isUUID u k e d)
      (requestStudentCheckIn other k (fetched_of 200 student_booking_json (requestCheckInMine isUUID u k e d)))"
proof -
  have ok: "campus_ok (clock e, d)" and rnd: "random_int e < 1000000"
    using reachable_ok [OF assms(1)] assms(4) by (auto simp: env_sound_def intro: campus_ok_later)
  note S = ok reachable_recorded [OF assms(1,2)] assms(3)
  have k: "db_ok d" "db_lived (clock e) d" using ok by (simp_all add: campus_ok_def)
  note answers = lifecycle_endpoints_answer [OF k caller(1) rnd, of isUUID k reason code]
  note staff = staff_pressed [OF S _ later, where k = k, OF _ _ _ refl]
  have "staff_reported web_staff_of (approveBooking isUUID u k e d)
      (approveStaffBooking other k (fetched_of 200 staff_booking_json (approveBooking isUUID u k e d)))"
    using staff [of "Approve u k" CONFIRMED mapReviewError] answers caller
    by (simp add: approveBooking_def parse_uuid_def approveStaffBooking_def reviewBooking_def change_defs)
  moreover have "staff_reported web_staff_of (rejectBooking isUUID u k reason e d)
      (rejectStaffBooking other k (fetched_of 200 staff_booking_json (rejectBooking isUUID u k reason e d)))"
    using answers by (intro reject_reported [where isUUID = isUUID and k = k, OF S later caller]) simp
  moreover have "staff_reported web_staff_of (confirmCheckInBooking isUUID u k code e d)
      (confirmStaffCheckIn other k (fetched_of 200 staff_booking_json (confirmCheckInBooking isUUID u k code e d)))"
    using answers by (intro confirm_reported [where isUUID = isUUID and k = k, OF S later caller]) simp
  moreover have "staff_reported web_staff_of (checkOutBooking isUUID u k e d)
      (checkOutStaffBooking other k (fetched_of 200 staff_booking_json (checkOutBooking isUUID u k e d)))"
    using staff [of "CheckOut u k" COMPLETED mapLifecycleError] answers caller
    by (simp add: checkOutBooking_def parse_uuid_def checkOutStaffBooking_def lifecycleBooking_def change_defs)
  moreover have "staff_reported web_staff_of (markNoShowBooking isUUID u k e d)
      (markStaffBookingNoShow other k (fetched_of 200 staff_booking_json (markNoShowBooking isUUID u k e d)))"
    using staff [of "MarkNoShow u k" NO_SHOW mapLifecycleError] answers caller
    by (simp add: markNoShowBooking_def parse_uuid_def markStaffBookingNoShow_def lifecycleBooking_def change_defs)
  moreover have "student_reported web_student_of (cancelMine isUUID u k e d)
      (cancelStudentBooking other k (fetched_of 200 student_booking_json (cancelMine isUUID u k e d)))"
    by (rule cancel_reported [where isUUID = isUUID and k = k, OF S later caller])
  moreover have "student_reported web_student_of (requestCheckInMine isUUID u k e d)
      (requestStudentCheckIn other k (fetched_of 200 student_booking_json (requestCheckInMine isUUID u k e d)))"
    by (rule request_reported [where isUUID = isUUID and k = k, OF S later caller rnd])
  ultimately show ?thesis by blast
qed

end
