(* ===== verification/WebPageWitnesses.thy ===== *)
theory WebPageWitnesses
  imports WebWitnesses WebDirectoryProps WebSelection WebActionProps
begin

text \<open>The pages opened on the run of \<open>WebWitnesses\<close>: the directory, and the room the student booked.\<close>

section \<open>The directory\<close>

text \<open>An address with a page far past the end.\<close>

definition far_page :: search_params where
  "far_page = [''q'' \<mapsto> One '' Seminar '', ''page'' \<mapsto> One ''40'', ''colour'' \<mapsto> One ''red'']"

theorem directory_comes_up_witness:
  "service_takes (\<lambda>s. True) (normalizeDiscoveryFilters far_page) \<and>
   ((\<exists>page. visit_directory (\<lambda>s. None) (\<lambda>s. True) (\<lambda>s. True) id far_page (web_env sample_now ''x'') web_d4 = Page page) \<or>
    (\<exists>query. visit_directory (\<lambda>s. None) (\<lambda>s. True) (\<lambda>s. True) id far_page (web_env sample_now ''x'') web_d4 =
        Redirected (with_query ''/resources'' query) \<and>
      read_params (params_text query) = Some query \<and>
      (\<exists>page. visit_directory (\<lambda>s. None) (\<lambda>s. True) (\<lambda>s. True) id (params_of query) (web_env sample_now ''x'') web_d4 = Page page)))"
proof -
  have "opt_holds (boundedText (far_page ''q'') 120) hasNoNullByte" by code_simp
  moreover have "boundedText (far_page ''amenity'') 50 = None" by (simp add: far_page_def boundedText_def one_def)
  ultimately have "service_takes (\<lambda>s. True) (normalizeDiscoveryFilters far_page)"
    by (simp add: service_takes_def normalizeDiscoveryFilters_def Let_def opt_holds_def split: option.splits)
  then show ?thesis
    using directory_comes_up [OF web_reachable(1) web_made(1), where isDateString = "\<lambda>s. True"] by blast
qed

section \<open>The room\<close>

definition room_query :: "string \<Rightarrow> string \<Rightarrow> search_params" where
  "room_query s t = [''date'' \<mapsto> One ''2026-09-20'', ''startTime'' \<mapsto> One s, ''endTime'' \<mapsto> One t]"

definition room_post :: "string \<Rightarrow> string \<Rightarrow> create_booking_dto" where
  "room_post s t = \<lparr>cb_resourceId = web_room, cb_date = ''2026-09-20'', cb_startTime = s, cb_endTime = t\<rparr>"

text \<open>Nine to ten is booked.\<close>

theorem selection_iff_bookable_witness:
  "\<exists>v w. visit_resource (\<lambda>s. None) (\<lambda>s. True) (\<lambda>s. True) web_room (room_query ''10:00'' ''13:00'') (web_env sample_now ''x'') web_d4 = Page v \<and>
     ss_isSlotAvailable (dv_selection v) \<and>
     visit_resource (\<lambda>s. None) (\<lambda>s. True) (\<lambda>s. True) web_room (room_query ''08:00'' ''10:00'') (web_env sample_now ''x'') web_d4 = Page w \<and>
     \<not> ss_isSlotAvailable (dv_selection w)"
proof -
  have room: "map_option r_id (findDiscoverableById web_room web_d4) = Some web_room" by code_simp
  then obtain r where r: "findDiscoverableById web_room web_d4 = Some r" "r_id r = web_room" by auto
  have day: "web_isCalendarDate ''2026-09-20''" by code_simp
  have hours: "''08:00'' = hour_text 8" "''10:00'' = hour_text 10" "''13:00'' = hour_text 13" by code_simp+
  have known: "known_user web_d4 web_student_id" "fresh_id (web_env sample_now ''x'') \<notin> ids b_id (bookings web_d4)"
    by (simp_all add: known_user_def ids_def web_users web_ids web_d4_def web_booking_def web_env_def plain_booking_def web_booking_id_def)
  have posts: "succeeds (create_booking web_student_id (room_post ''10:00'' ''13:00'') (web_env sample_now ''x'') web_d4)"
    "\<not> succeeds (create_booking web_student_id (room_post ''08:00'' ''10:00'') (web_env sample_now ''x'') web_d4)"
    by code_simp+
  note page = selection_iff_bookable [OF web_reachable(1) web_accounts web_made(1) known r, where isUUID = "\<lambda>s. True" and
      isDateString = "\<lambda>s. True" and date = "''2026-09-20''", OF TrueI _ day TrueI, where other = "\<lambda>s. None"]
  have q: "one (room_query s t ''date'') = Some ''2026-09-20''" "one (room_query s t ''startTime'') = Some s"
    "one (room_query s t ''endTime'') = Some t" for s t
    by (simp_all add: room_query_def one_def)
  show ?thesis
    using page [OF q [of "hour_text 10" "hour_text 13"]] page [OF q [of "hour_text 8" "hour_text 10"]]
      posts unfolding hours room_post_def by auto
qed

section \<open>The student cancels\<close>

theorem booking_actions_report_witness:
  "\<exists>body d' evs. cancelMine (\<lambda>s. True) web_student_id web_booking_id (web_env sample_now ''x'') web_d4 = Inr (body, d', evs) \<and>
     cancelStudentBooking (\<lambda>s. None) web_booking_id (fetched_of 200 student_booking_json (Inr (body, d', evs))) =
       Inr (web_student_of body)"
proof -
  have "map_sum id (\<lambda>x. ()) (cancelMine (\<lambda>s. True) web_student_id web_booking_id (web_env sample_now ''x'') web_d4) = Inr ()"
    by code_simp
  then obtain x where x: "cancelMine (\<lambda>s. True) web_student_id web_booking_id (web_env sample_now ''x'') web_d4 = Inr x"
    by (auto simp: map_sum_Inr_iff)
  obtain body d' evs where s: "x = (body, d', evs)" by (cases x)
  have clocks: "clock (web_env sample_now ''x'') \<le> clock_after (web_env sample_now ''x'')"
    "campus_era (clock_after (web_env sample_now ''x''))"
    using web_era by (simp_all add: web_env_def)
  have known: "known_user web_d4 web_student_id" "sql_uuid web_booking_id = web_booking_id"
    by (simp add: known_user_def ids_def web_users web_ids) code_simp
  from booking_actions_report [OF web_reachable(1) web_accounts web_made(1) web_sound(6) clocks known(1) TrueI known(2),
      where other = "\<lambda>s. None"]
  have "reported {(404, C_not_found), (409, C_conflict)} web_student_of (Inr (body, d', evs))
      (cancelStudentBooking (\<lambda>s. None) web_booking_id (fetched_of 200 student_booking_json (Inr (body, d', evs))))"
    unfolding x s by blast
  then show ?thesis using x s by (auto simp: reported_def)
qed

end
