(* ===== verification/WebManager.thy ===== *)
theory WebManager
  imports WebActions WebUrls
begin

text \<open>
  The resource manager of the administration (features/resources/components/admin-resource-manager.tsx):
  the editor's form with its tests and the input it sends, and the component as a state machine - what
  each handler does before and after it waits for the service, and the effect that loads the closures of
  the resource in the editor. Focus, scrolling and markup are left out.
\<close>

section \<open>The form\<close>

record form_state =
  fm_code :: string
  fm_name :: string
  fm_description :: string
  fm_type :: resource_type
  fm_capacity :: string
  fm_location :: string
  fm_amenities :: string
  fm_requiresApproval :: bool
  fm_operatingDays :: "int list"
  fm_opensAt :: string
  fm_closesAt :: string
  fm_buildingId :: string

record form_errors =
  fe_code :: "string option"
  fe_name :: "string option"
  fe_capacity :: "string option"
  fe_location :: "string option"
  fe_buildingId :: "string option"
  fe_amenities :: "string option"
  fe_operatingDays :: "string option"
  fe_opensAt :: "string option"
  fe_closesAt :: "string option"

definition no_errors :: form_errors where
  "no_errors = \<lparr>fe_code = None, fe_name = None, fe_capacity = None, fe_location = None, fe_buildingId = None,
     fe_amenities = None, fe_operatingDays = None, fe_opensAt = None, fe_closesAt = None\<rparr>"

definition emptyForm :: "web_building list \<Rightarrow> form_state" where
  "emptyForm known =
     \<lparr>fm_code = [], fm_name = [], fm_description = [], fm_type = ROOM, fm_capacity = ''1'', fm_location = [],
      fm_amenities = [], fm_requiresApproval = False, fm_operatingDays = [1, 2, 3, 4, 5, 6],
      fm_opensAt = ''08:00'', fm_closesAt = ''18:00'',
      fm_buildingId = (case known of [] \<Rightarrow> [] | bl # rest \<Rightarrow> wb_id bl)\<rparr>"

text \<open>\<open>join(", ")\<close>\<close>

fun join_list :: "string list \<Rightarrow> string" where
  "join_list [] = []"
| "join_list [x] = x"
| "join_list (x # y # ys) = x @ '', '' @ join_list (y # ys)"

definition formFor :: "web_catalogue_entry \<Rightarrow> form_state" where
  "formFor r =
     \<lparr>fm_code = we_code r, fm_name = we_name r,
      fm_description = (case we_description r of None \<Rightarrow> [] | Some s \<Rightarrow> s), fm_type = we_type r,
      fm_capacity = js_string (nat (we_capacity r)), fm_location = we_location r,
      fm_amenities = join_list (we_amenities r), fm_requiresApproval = we_requiresApproval r,
      fm_operatingDays = we_operatingDays r, fm_opensAt = we_opensAt r, fm_closesAt = we_closesAt r,
      fm_buildingId = wb_id (we_building r)\<rparr>"

definition parseAmenities :: "string \<Rightarrow> string list" where
  "parseAmenities value = filter (\<lambda>item. item \<noteq> []) (map js_trim (js_split CHR '','' value))"

text \<open>
  \<open>Number(text)\<close> of what an input of type number can hold: nothing, or a decimal literal. None is
  \<open>NaN\<close>.
\<close>

definition signed :: "string \<Rightarrow> bool \<times> string" where
  "signed s = (case s of c # cs \<Rightarrow> if c = CHR ''-'' then (True, cs) else if c = CHR ''+'' then (False, cs) else (False, s)
     | [] \<Rightarrow> (False, s))"

definition mantissa_and_exponent :: "string \<Rightarrow> string \<times> string option" where
  "mantissa_and_exponent s =
     (let mark = (\<lambda>c. c \<noteq> CHR ''e'' \<and> c \<noteq> CHR ''E''); rest = dropWhile mark s in
      (takeWhile mark s, if rest = [] then None else Some (tl rest)))"

definition exponent_value :: "string option \<Rightarrow> int option" where
  "exponent_value ex =
     (case ex of
        None \<Rightarrow> Some 0
      | Some s \<Rightarrow>
          let (negative, ds) = signed s in
          if digits_only ds then Some (if negative then - int (js_number ds) else int (js_number ds)) else None)"

definition js_Number :: "string \<Rightarrow> rat option" where
  "js_Number value =
     (let text = js_trim value; (negative, unsigned) = signed text; (mantissa, ex) = mantissa_and_exponent unsigned;
          whole = takeWhile (\<lambda>c. c \<noteq> CHR ''.'') mantissa; fraction = drop (length whole + 1) mantissa in
      if text = [] then Some 0
      else if \<not> digits_only (whole @ fraction) then None
      else map_option (\<lambda>x.
        let shift = x - int (length fraction); n = of_nat (js_number (whole @ fraction)) in
        (if negative then - 1 else 1) * (if 0 \<le> shift then n * 10 ^ nat shift else n / 10 ^ nat (- shift)))
        (exponent_value ex))"

definition whole_number :: "rat option \<Rightarrow> int option" where
  "whole_number x = (case x of None \<Rightarrow> None | Some q \<Rightarrow> if of_int \<lfloor>q\<rfloor> = q then Some \<lfloor>q\<rfloor> else None)"

definition code_shape :: "string \<Rightarrow> bool" where
  "code_shape code \<longleftrightarrow> (\<forall>part\<in>set (js_split CHR ''-'' code). part \<noteq> [] \<and> (\<forall>c\<in>set part. is_alnum c))"

definition error_if :: "bool \<Rightarrow> string \<Rightarrow> string option" where
  "error_if wrong message = (if wrong then Some message else None)"

definition form_validate :: "form_state \<Rightarrow> form_errors" where
  "form_validate form =
     (let code = js_trim (fm_code form); amenities = parseAmenities (fm_amenities form) in
      \<lparr>fe_code = error_if (length code < 2 \<or> 30 < length code \<or> \<not> code_shape code)
         ''Use 2-30 letters, numbers, and single hyphens.'',
       fe_name = error_if (length (js_trim (fm_name form)) < 2) ''Enter a resource name.'',
       fe_capacity = error_if (case whole_number (js_Number (fm_capacity form)) of None \<Rightarrow> True | Some n \<Rightarrow> n < 1 \<or> 10000 < n)
         ''Enter a whole number from 1 to 10,000.'',
       fe_location = error_if (length (js_trim (fm_location form)) < 2) ''Enter a location.'',
       fe_buildingId = error_if (fm_buildingId form = []) ''Choose a building.'',
       fe_amenities =
         (if 20 < length amenities then Some ''Enter no more than 20 amenities.''
          else if \<exists>item\<in>set amenities. 50 < length item then Some ''Each amenity must be 50 characters or fewer.''
          else error_if (\<not> distinct (map js_lower amenities)) ''Remove duplicate amenities.''),
       fe_operatingDays = error_if (fm_operatingDays form = []) ''Select at least one operating day.'',
       fe_opensAt = error_if (\<not> hour_pattern (fm_opensAt form)) ''Choose a whole-hour opening time.'',
       fe_closesAt =
         (if \<not> hour_pattern (fm_closesAt form) then Some ''Choose a whole-hour closing time.''
          else error_if (hour_pattern (fm_opensAt form) \<and> fm_closesAt form \<le> fm_opensAt form)
            ''Closing time must be after opening time.'')\<rparr>)"

text \<open>\<open>Number(form.capacity)\<close>: a validated form has a whole number there.\<close>

definition toInput :: "form_state \<Rightarrow> resource_input" where
  "toInput form =
     \<lparr>ri_code = js_trim (fm_code form), ri_name = js_trim (fm_name form), ri_description = js_trim (fm_description form),
      ri_type = fm_type form,
      ri_capacity = (case whole_number (js_Number (fm_capacity form)) of None \<Rightarrow> 0 | Some n \<Rightarrow> n),
      ri_location = js_trim (fm_location form), ri_amenities = Some (parseAmenities (fm_amenities form)),
      ri_requiresApproval = Some (fm_requiresApproval form), ri_operatingDays = Some (sort (fm_operatingDays form)),
      ri_opensAt = Some (fm_opensAt form), ri_closesAt = Some (fm_closesAt form), ri_buildingId = fm_buildingId form\<rparr>"

section \<open>The component\<close>

datatype conflict_context = On_status | On_edit | On_closure

text \<open>What the component waits for: a change it sent.\<close>

datatype awaited =
  Saving "string option" resource_input
| Adding_closure string string string
| Removing_closure string web_closure
| Changing_status string resource_status

text \<open>
  The state of the component; \<open>mg_loading\<close> is the resource whose closures the active effect has asked
  for, \<open>mg_awaited\<close> the change in flight.
\<close>

record manager =
  mg_resources :: "web_catalogue_entry list"
  mg_total :: int
  mg_conflict :: "(conflict_context \<times> (string \<times> int \<times> web_conflict list)) option"
  mg_editingId :: "string option"
  mg_form :: form_state
  mg_errors :: form_errors
  mg_message :: string
  mg_formError :: string
  mg_statusMessage :: string
  mg_statusError :: string
  mg_isSaving :: bool
  mg_statusPendingId :: "string option"
  mg_closures :: "web_closure list"
  mg_closuresLoading :: bool
  mg_closureDate :: string
  mg_closureReason :: string
  mg_closureError :: string
  mg_closureMessage :: string
  mg_closurePending :: bool
  mg_sessionExpired :: bool
  mg_mutationLock :: bool
  mg_loading :: "string option"
  mg_awaited :: "awaited option"

definition opened_manager :: "web_catalogue_entry list \<Rightarrow> int \<Rightarrow> web_building list \<Rightarrow> manager" where
  "opened_manager items n known =
     \<lparr>mg_resources = items, mg_total = n, mg_conflict = None, mg_editingId = None, mg_form = emptyForm known,
      mg_errors = no_errors, mg_message = [], mg_formError = [], mg_statusMessage = [], mg_statusError = [],
      mg_isSaving = False, mg_statusPendingId = None, mg_closures = [], mg_closuresLoading = False,
      mg_closureDate = [], mg_closureReason = [], mg_closureError = [], mg_closureMessage = [],
      mg_closurePending = False, mg_sessionExpired = False, mg_mutationLock = False,
      mg_loading = None, mg_awaited = None\<rparr>"

definition isMutating :: "manager \<Rightarrow> bool" where
  "isMutating m \<longleftrightarrow> mg_isSaving m \<or> mg_statusPendingId m \<noteq> None \<or> mg_closurePending m"

text \<open>
  The effect on \<open>editingId\<close>: when it changed, the running one is dropped and a new one asks for the
  closures, if there is a resource in the editor.
\<close>

definition run_effect :: "manager \<Rightarrow> manager \<Rightarrow> manager" where
  "run_effect old new = (if mg_editingId new = mg_editingId old then new else new\<lparr>mg_loading := mg_editingId new\<rparr>)"

text \<open>A field typed into: its error goes.\<close>

definition updateField ::
  "(form_state \<Rightarrow> form_state) \<Rightarrow> (form_errors \<Rightarrow> form_errors) \<Rightarrow> manager \<Rightarrow> manager" where
  "updateField change clear m =
     m\<lparr>mg_form := change (mg_form m), mg_errors := clear (mg_errors m), mg_formError := [], mg_message := []\<rparr>"

definition toggleOperatingDay :: "int \<Rightarrow> manager \<Rightarrow> manager" where
  "toggleOperatingDay day m =
     (let days = fm_operatingDays (mg_form m);
          toggled = (if day \<in> set days then filter (\<lambda>v. v \<noteq> day) days else days @ [day]) in
      updateField (\<lambda>f. f\<lparr>fm_operatingDays := toggled\<rparr>) (\<lambda>x. x\<lparr>fe_operatingDays := None\<rparr>) m)"

text \<open>A failure shown, with the setter of the message it goes to.\<close>

definition reportFailure ::
  "conflict_context \<Rightarrow> (string \<Rightarrow> manager \<Rightarrow> manager) \<Rightarrow> mutation_failure \<Rightarrow> manager \<Rightarrow> manager" where
  "reportFailure ctx setError f m =
     (if fa_code f = C_session then setError [] (m\<lparr>mg_sessionExpired := True\<rparr>)
      else if fa_code f = C_active_bookings \<and> fa_conflict f \<noteq> None
      then setError [] (m\<lparr>mg_conflict := map_option (\<lambda>c. (ctx, c)) (fa_conflict f)\<rparr>)
      else setError (fa_message f) m)"

definition blank_editor :: "manager \<Rightarrow> manager" where
  "blank_editor m = m\<lparr>mg_closures := [], mg_closureError := [], mg_closureMessage := [], mg_closureDate := [],
     mg_closureReason := [], mg_errors := no_errors, mg_formError := [], mg_message := []\<rparr>"

definition startCreate :: "web_building list \<Rightarrow> manager \<Rightarrow> manager" where
  "startCreate known m =
     (if isMutating m then m
      else run_effect m ((blank_editor m)\<lparr>mg_conflict := None, mg_editingId := None, mg_closuresLoading := False,
        mg_form := emptyForm known\<rparr>))"

definition startEdit :: "web_catalogue_entry \<Rightarrow> manager \<Rightarrow> manager" where
  "startEdit r m =
     (if isMutating m then m
      else run_effect m ((blank_editor m)\<lparr>mg_conflict := None, mg_editingId := Some (we_id r), mg_closuresLoading := True,
        mg_form := formFor r\<rparr>))"

definition handleSubmit :: "manager \<Rightarrow> manager" where
  "handleSubmit m =
     (if isMutating m \<or> mg_mutationLock m then m
      else
        let nextErrors = form_validate (mg_form m);
            m1 = m\<lparr>mg_errors := nextErrors, mg_formError := [], mg_message := []\<rparr> in
        if nextErrors \<noteq> no_errors then m1
        else m1\<lparr>mg_mutationLock := True, mg_isSaving := True, mg_conflict := None,
          mg_awaited := Some (Saving (mg_editingId m) (toInput (mg_form m)))\<rparr>)"

text \<open>\<open>a.localeCompare(b)\<close> is the collation, a parameter.\<close>

definition put_entry ::
  "(string \<Rightarrow> string \<Rightarrow> int) \<Rightarrow> web_catalogue_entry \<Rightarrow> web_catalogue_entry list \<Rightarrow> web_catalogue_entry list" where
  "put_entry localeCompare saved current =
     sort_cmp (\<lambda>a b. localeCompare (we_name a) (we_name b))
       (if we_id saved \<in> we_id ` set current
        then map (\<lambda>r. if we_id r = we_id saved then saved else r) current
        else current @ [saved])"

definition saveFinished ::
  "(string \<Rightarrow> string \<Rightarrow> int) \<Rightarrow> string option \<Rightarrow> web_catalogue_entry mutation \<Rightarrow> manager \<Rightarrow> manager" where
  "saveFinished localeCompare editing result m =
     (let done = (case result of
          Inl f \<Rightarrow> reportFailure On_edit (\<lambda>s. mg_formError_update (\<lambda>_. s)) f m
        | Inr saved \<Rightarrow>
            let m1 = m\<lparr>mg_resources := put_entry localeCompare saved (mg_resources m),
                  mg_message := (if editing = None then ''Resource created.'' else ''Resource changes saved.'')\<rparr>;
                m2 = (if editing = None
                  then m1\<lparr>mg_total := mg_total m + 1, mg_closures := [], mg_closuresLoading := True,
                    mg_closureError := [], mg_closureDate := [], mg_closureReason := []\<rparr> else m1) in
            m2\<lparr>mg_editingId := Some (we_id saved), mg_form := formFor saved\<rparr>)
      in run_effect m (done\<lparr>mg_mutationLock := False, mg_isSaving := False, mg_awaited := None\<rparr>))"

definition handleClosureSubmit :: "manager \<Rightarrow> manager" where
  "handleClosureSubmit m =
     (case mg_editingId m of
        None \<Rightarrow> m
      | Some k \<Rightarrow>
          if isMutating m \<or> mg_mutationLock m then m
          else if mg_closureDate m = [] \<or> js_trim (mg_closureReason m) = []
          then m\<lparr>mg_closureError := ''Enter a closure date and reason.'', mg_closureMessage := []\<rparr>
          else m\<lparr>mg_mutationLock := True, mg_closurePending := True, mg_closureError := [], mg_closureMessage := [],
            mg_conflict := None, mg_awaited := Some (Adding_closure k (mg_closureDate m) (js_trim (mg_closureReason m)))\<rparr>)"

definition closure_settled :: "manager \<Rightarrow> manager" where
  "closure_settled m = m\<lparr>mg_mutationLock := False, mg_closurePending := False, mg_awaited := None\<rparr>"

definition closureAdded :: "(string \<Rightarrow> string \<Rightarrow> int) \<Rightarrow> web_closure mutation \<Rightarrow> manager \<Rightarrow> manager" where
  "closureAdded localeCompare result m =
     closure_settled (case result of
        Inl f \<Rightarrow> reportFailure On_closure (\<lambda>s. mg_closureError_update (\<lambda>_. s)) f m
      | Inr c \<Rightarrow> m\<lparr>mg_closures := sort_cmp (\<lambda>a b. localeCompare (wc_date a) (wc_date b)) (mg_closures m @ [c]),
          mg_closureDate := [], mg_closureReason := [],
          mg_closureMessage := ''Closure added for '' @ wc_date c @ ''.''\<rparr>)"

definition handleClosureDelete :: "web_closure \<Rightarrow> manager \<Rightarrow> manager" where
  "handleClosureDelete c m =
     (case mg_editingId m of
        None \<Rightarrow> m
      | Some k \<Rightarrow>
          if isMutating m \<or> mg_mutationLock m then m
          else m\<lparr>mg_mutationLock := True, mg_closurePending := True, mg_closureError := [], mg_closureMessage := [],
            mg_awaited := Some (Removing_closure k c)\<rparr>)"

definition closureRemoved :: "web_closure \<Rightarrow> unit mutation \<Rightarrow> manager \<Rightarrow> manager" where
  "closureRemoved c result m =
     closure_settled (case result of
        Inr x \<Rightarrow> m\<lparr>mg_closures := filter (\<lambda>item. wc_id item \<noteq> wc_id c) (mg_closures m),
          mg_closureMessage := ''Closure removed for '' @ wc_date c @ ''.''\<rparr>
      | Inl f \<Rightarrow>
          if fa_code f = C_session then m\<lparr>mg_sessionExpired := True, mg_closureError := []\<rparr>
          else m\<lparr>mg_closureError := fa_message f\<rparr>)"

fun statusChangeMessages :: "resource_status \<Rightarrow> string" where
  "statusChangeMessages ACTIVE = ''is active and open for booking.''"
| "statusChangeMessages MAINTENANCE = ''is under maintenance and cannot be booked.''"
| "statusChangeMessages INACTIVE = ''is inactive and hidden from students.''"

definition handleStatus :: "web_catalogue_entry \<Rightarrow> resource_status \<Rightarrow> manager \<Rightarrow> manager" where
  "handleStatus r status m =
     (if we_status r = status \<or> isMutating m \<or> mg_mutationLock m then m
      else m\<lparr>mg_mutationLock := True, mg_statusPendingId := Some (we_id r), mg_statusError := [], mg_statusMessage := [],
        mg_conflict := None, mg_awaited := Some (Changing_status (we_id r) status)\<rparr>)"

definition statusChanged :: "resource_status \<Rightarrow> web_catalogue_entry mutation \<Rightarrow> manager \<Rightarrow> manager" where
  "statusChanged status result m =
     (case result of
        Inl f \<Rightarrow> reportFailure On_status (\<lambda>s. mg_statusError_update (\<lambda>_. s)) f m
      | Inr updated \<Rightarrow>
          m\<lparr>mg_resources := map (\<lambda>r. if we_id r = we_id updated then updated else r) (mg_resources m),
            mg_statusMessage := we_name updated @ '' '' @ statusChangeMessages status\<rparr>)
       \<lparr>mg_mutationLock := False, mg_statusPendingId := None, mg_awaited := None\<rparr>"

text \<open>The reply to the effect that is still active.\<close>

definition closuresLoaded :: "web_closure list mutation \<Rightarrow> manager \<Rightarrow> manager" where
  "closuresLoaded result m =
     (case result of
        Inr items \<Rightarrow> m\<lparr>mg_closures := items\<rparr>
      | Inl f \<Rightarrow> m\<lparr>mg_sessionExpired := (mg_sessionExpired m \<or> fa_code f = C_session), mg_closureError := fa_message f\<rparr>)
       \<lparr>mg_closuresLoading := False, mg_loading := None\<rparr>"

section \<open>Runs\<close>

text \<open>
  What the administrator does and what comes back, in any order. The inputs and the buttons are
  disabled while a change is in flight; the replies are arbitrary.
\<close>

inductive manager_step ::
  "(string \<Rightarrow> int option) \<Rightarrow> (string \<Rightarrow> string \<Rightarrow> int) \<Rightarrow> web_building list \<Rightarrow> manager \<Rightarrow> manager \<Rightarrow> bool"
  for other localeCompare known where
  create_pressed: "manager_step other localeCompare known m (startCreate known m)"
| edit_pressed: "r \<in> set (mg_resources m) \<Longrightarrow> manager_step other localeCompare known m (startEdit r m)"
| field_typed: "\<not> isMutating m \<Longrightarrow> manager_step other localeCompare known m (updateField change clear m)"
| day_toggled: "\<not> isMutating m \<Longrightarrow> manager_step other localeCompare known m (toggleOperatingDay day m)"
| closure_typed: "\<not> isMutating m \<Longrightarrow>
    manager_step other localeCompare known m (m\<lparr>mg_closureDate := date, mg_closureReason := reason\<rparr>)"
| form_submitted: "manager_step other localeCompare known m (handleSubmit m)"
| resource_created: "mg_awaited m = Some (Saving None input) \<Longrightarrow>
    manager_step other localeCompare known m (saveFinished localeCompare None (web_createResource other input reply) m)"
| resource_updated: "mg_awaited m = Some (Saving (Some k) input) \<Longrightarrow>
    manager_step other localeCompare known m (saveFinished localeCompare (Some k) (web_updateResource other k input reply) m)"
| closure_submitted: "manager_step other localeCompare known m (handleClosureSubmit m)"
| closure_added: "mg_awaited m = Some (Adding_closure k date reason) \<Longrightarrow>
    manager_step other localeCompare known m (closureAdded localeCompare (createResourceClosure other k date reason reply) m)"
| remove_pressed: "c \<in> set (mg_closures m) \<Longrightarrow> \<not> mg_closuresLoading m \<Longrightarrow>
    manager_step other localeCompare known m (handleClosureDelete c m)"
| closure_removed: "mg_awaited m = Some (Removing_closure k c) \<Longrightarrow>
    manager_step other localeCompare known m (closureRemoved c (deleteResourceClosure reply) m)"
| status_picked: "r \<in> set (mg_resources m) \<Longrightarrow> manager_step other localeCompare known m (handleStatus r status m)"
| status_changed: "mg_awaited m = Some (Changing_status k status) \<Longrightarrow>
    manager_step other localeCompare known m (statusChanged status (updateResourceStatus other k status reply) m)"
| closures_loaded: "mg_loading m = Some k \<Longrightarrow>
    manager_step other localeCompare known m (closuresLoaded (getResourceClosures other k reply) m)"

end
