(* ===== verification/WebManagerProps.thy ===== *)
theory WebManagerProps
  imports WebManager WebState WebResourceReads
begin

text \<open>
  The resource manager of the administration: one change at a time, the closures it lists are those of the
  resource in its editor, what an edit without changes sends, and when the list of closures is lost.
\<close>

section \<open>What comes back\<close>

lemma mutate_accepted: "mutate map_error parse accept r = Inr x \<Longrightarrow> accept x"
  by (auto simp: mutate_def split: sum.splits option.splits if_splits)

lemma replies_fit:
  "web_updateResource other k input r = Inr saved \<Longrightarrow> we_id saved = k"
  "updateResourceStatus other k status r = Inr updated \<Longrightarrow> we_id updated = k"
  "createResourceClosure other k date reason r = Inr c \<Longrightarrow> wc_resourceId c = k"
  "getResourceClosures other k r = Inr cs \<Longrightarrow> \<forall>c\<in>set cs. wc_resourceId c = k"
  by (auto simp: web_updateResource_def updateResourceStatus_def createResourceClosure_def getResourceClosures_def
      mutateResource_def dest: mutate_accepted)

section \<open>One change at a time\<close>

definition parts_ok ::
  "bool \<Rightarrow> awaited option \<Rightarrow> bool \<Rightarrow> string option \<Rightarrow> bool \<Rightarrow> string option \<Rightarrow> web_closure list \<Rightarrow> string option \<Rightarrow> bool \<Rightarrow>
   web_catalogue_entry list \<Rightarrow> bool" where
  "parts_ok lock sent saving status_of closing editing cs loading shown_loading rs \<longleftrightarrow>
     lock = (sent \<noteq> None) \<and>
     saving = (case sent of Some (Saving k i) \<Rightarrow> True | _ \<Rightarrow> False) \<and>
     status_of = (case sent of Some (Changing_status k s) \<Rightarrow> Some k | _ \<Rightarrow> None) \<and>
     closing = (case sent of Some (Adding_closure k d s) \<Rightarrow> True | Some (Removing_closure k c) \<Rightarrow> True | _ \<Rightarrow> False) \<and>
     (case sent of Some (Saving k i) \<Rightarrow> editing = k | Some (Adding_closure k d s) \<Rightarrow> editing = Some k
      | Some (Removing_closure k c) \<Rightarrow> editing = Some k | _ \<Rightarrow> True) \<and>
     (\<forall>c\<in>set cs. editing = Some (wc_resourceId c)) \<and>
     (loading \<noteq> None \<longrightarrow> loading = editing \<and> shown_loading) \<and>
     distinct (map we_id rs)"

definition manager_ok :: "manager \<Rightarrow> bool" where
  "manager_ok m \<longleftrightarrow> parts_ok (mg_mutationLock m) (mg_awaited m) (mg_isSaving m) (mg_statusPendingId m) (mg_closurePending m)
     (mg_editingId m) (mg_closures m) (mg_loading m) (mg_closuresLoading m) (mg_resources m)"

lemma manager_idle: "manager_ok m \<Longrightarrow> isMutating m \<longleftrightarrow> mg_awaited m \<noteq> None"
  by (auto simp: manager_ok_def parts_ok_def isMutating_def split: option.splits awaited.splits)

lemma opened_ok: "distinct (map we_id items) \<Longrightarrow> manager_ok (opened_manager items n known)"
  by (simp add: manager_ok_def parts_ok_def opened_manager_def)

text \<open>With nothing in flight only three parts matter.\<close>

lemma idle_parts:
  "parts_ok lock None saving status_of closing editing cs loading shown_loading rs \<longleftrightarrow>
     \<not> lock \<and> \<not> saving \<and> status_of = None \<and> \<not> closing \<and> (\<forall>c\<in>set cs. editing = Some (wc_resourceId c)) \<and>
     (loading \<noteq> None \<longrightarrow> loading = editing \<and> shown_loading) \<and> distinct (map we_id rs)"
  by (auto simp: parts_ok_def)

lemma sent_parts:
  assumes "parts_ok False None False None False editing cs loading shown_loading rs"
  shows "parts_ok True (Some (Saving editing input)) True None False editing cs loading shown_loading rs"
    "parts_ok True (Some (Changing_status k status)) False (Some k) False editing cs loading shown_loading rs"
    "editing = Some k \<Longrightarrow> parts_ok True (Some (Adding_closure k date reason)) False None True editing cs loading shown_loading rs"
    "editing = Some k \<Longrightarrow> parts_ok True (Some (Removing_closure k c)) False None True editing cs loading shown_loading rs"
  using assms by (simp_all add: parts_ok_def)

lemma idle_manager:
  assumes "manager_ok m" "\<not> isMutating m"
  shows "mg_awaited m = None" "\<not> mg_mutationLock m" "\<not> mg_isSaving m" "mg_statusPendingId m = None" "\<not> mg_closurePending m"
    "parts_ok False None False None False (mg_editingId m) (mg_closures m) (mg_loading m) (mg_closuresLoading m) (mg_resources m)"
proof -
  show a: "mg_awaited m = None" using manager_idle [OF assms(1)] assms(2) by blast
  show "\<not> mg_mutationLock m" "\<not> mg_isSaving m" "mg_statusPendingId m = None" "\<not> mg_closurePending m"
    "parts_ok False None False None False (mg_editingId m) (mg_closures m) (mg_loading m) (mg_closuresLoading m) (mg_resources m)"
    using assms(1) by (simp_all add: manager_ok_def a idle_parts)
qed

lemma editor_moves_ok:
  assumes "manager_ok m"
  shows "manager_ok (startCreate known m)" "manager_ok (startEdit r m)"
proof -
  note idle = idle_manager [OF assms]
  show "manager_ok (startCreate known m)" "manager_ok (startEdit r m)"
    using assms idle by (auto simp: manager_ok_def idle_parts startCreate_def startEdit_def run_effect_def blank_editor_def)
qed

lemma typing_ok:
  assumes "manager_ok m"
  shows "manager_ok (updateField change clear m)" "manager_ok (toggleOperatingDay day m)"
    "manager_ok (m\<lparr>mg_closureDate := date, mg_closureReason := reason\<rparr>)"
  using assms by (simp_all add: manager_ok_def updateField_def toggleOperatingDay_def Let_def)

lemma sent_ok:
  assumes "manager_ok m"
  shows "manager_ok (handleSubmit m)" "manager_ok (handleClosureSubmit m)" "manager_ok (handleClosureDelete c m)"
    "manager_ok (handleStatus r status m)"
proof -
  have "manager_ok (handleSubmit m) \<and> manager_ok (handleClosureSubmit m) \<and> manager_ok (handleClosureDelete c m) \<and>
    manager_ok (handleStatus r status m)"
  proof (cases "isMutating m")
    case True
    then show ?thesis using assms
      by (simp add: handleSubmit_def handleClosureSubmit_def handleClosureDelete_def handleStatus_def split: option.splits)
  next
    case False
    note idle = idle_manager [OF assms False]
    have "manager_ok (handleSubmit m)" "manager_ok (handleStatus r status m)"
      using idle sent_parts(1,2) [OF idle(6)] assms False by (simp_all add: manager_ok_def handleSubmit_def handleStatus_def Let_def)
    moreover have "manager_ok (handleClosureSubmit m)" "manager_ok (handleClosureDelete c m)"
      using idle sent_parts(3,4) [OF idle(6)] assms False
      by (cases "mg_editingId m"; simp add: manager_ok_def handleClosureSubmit_def handleClosureDelete_def)+
    ultimately show ?thesis by blast
  qed
  then show "manager_ok (handleSubmit m)" "manager_ok (handleClosureSubmit m)" "manager_ok (handleClosureDelete c m)"
    "manager_ok (handleStatus r status m)" by blast+
qed

text \<open>A failure changes messages only.\<close>

lemma failure_shown:
  assumes "\<And>s m. frame (setError s m) = frame m" "\<And>b m. frame (m\<lparr>mg_sessionExpired := b\<rparr>) = frame m"
    "\<And>c m. frame (m\<lparr>mg_conflict := c\<rparr>) = frame m"
  shows "frame (reportFailure ctx setError f m) = frame m"
  using assms by (simp add: reportFailure_def)

lemma put_entry_distinct: "distinct (map we_id rs) \<Longrightarrow> distinct (map we_id (put_entry lc saved rs))"
proof -
  have "map we_id (map (\<lambda>r. if we_id r = we_id saved then saved else r) rs) = map we_id rs" by simp
  then show "distinct (map we_id rs) \<Longrightarrow> distinct (map we_id (put_entry lc saved rs))"
    unfolding put_entry_def by (auto simp: image_iff simp del: map_map)
qed

text \<open>The replies.\<close>

lemma reported_parts:
  assumes "\<And>s x. parts (setError s x) = parts x" "\<And>x b. parts (x\<lparr>mg_sessionExpired := b\<rparr>) = parts x"
    "\<And>x c. parts (x\<lparr>mg_conflict := c\<rparr>) = parts x"
  shows "parts (reportFailure ctx setError f m) = parts m"
  using assms by (simp add: reportFailure_def)

lemma settled_parts:
  assumes "parts_ok lock sent saving status_of closing editing cs loading shown_loading rs"
  shows "parts_ok False None False None False editing cs loading shown_loading rs"
  using assms by (simp add: parts_ok_def)

lemma save_ok:
  assumes m: "manager_ok m" "mg_awaited m = Some (Saving k input)" and fit: "\<And>saved i. result = Inr saved \<Longrightarrow> k = Some i \<Longrightarrow> we_id saved = i"
  shows "manager_ok (saveFinished lc k result m)"
proof -
  have p: "parts_ok False None False None False (mg_editingId m) (mg_closures m) (mg_loading m) (mg_closuresLoading m) (mg_resources m)"
    "mg_editingId m = k" "mg_statusPendingId m = None" "\<not> mg_closurePending m"
    using m settled_parts by (auto simp: manager_ok_def parts_ok_def)
  show ?thesis
  proof (cases result)
    case (Inl f)
    then show ?thesis using p
      by (auto simp: saveFinished_def reportFailure_def run_effect_def manager_ok_def Let_def)
  next
    case (Inr saved)
    then show ?thesis using p fit put_entry_distinct [of "mg_resources m" lc saved]
      by (cases k) (auto simp: saveFinished_def run_effect_def manager_ok_def idle_parts Let_def)
  qed
qed

lemma closure_replies_ok:
  assumes m: "manager_ok m"
  shows "mg_awaited m = Some (Adding_closure k date reason) \<Longrightarrow> (\<And>c. added = Inr c \<Longrightarrow> wc_resourceId c = k) \<Longrightarrow>
      manager_ok (closureAdded lc added m)"
    "mg_awaited m = Some (Removing_closure k c) \<Longrightarrow> manager_ok (closureRemoved c removed m)"
proof -
  have p: "parts_ok False None False None False (mg_editingId m) (mg_closures m) (mg_loading m) (mg_closuresLoading m) (mg_resources m)"
    "mg_statusPendingId m = None" "\<not> mg_isSaving m" "mg_editingId m = Some k"
    if "mg_awaited m = Some (Adding_closure k date reason) \<or> mg_awaited m = Some (Removing_closure k c)"
    using m that settled_parts by (auto simp: manager_ok_def parts_ok_def)
  show "manager_ok (closureAdded lc added m)" if "mg_awaited m = Some (Adding_closure k date reason)"
    "\<And>c. added = Inr c \<Longrightarrow> wc_resourceId c = k"
    using p that by (cases added)
      (auto simp: closureAdded_def closure_settled_def reportFailure_def manager_ok_def idle_parts)
  show "manager_ok (closureRemoved c removed m)" if "mg_awaited m = Some (Removing_closure k c)"
    using p that by (cases removed) (auto simp: closureRemoved_def closure_settled_def manager_ok_def idle_parts)
qed

lemma status_ok:
  assumes m: "manager_ok m" "mg_awaited m = Some (Changing_status k status)"
  shows "manager_ok (statusChanged status result m)"
proof -
  have p: "parts_ok False None False None False (mg_editingId m) (mg_closures m) (mg_loading m) (mg_closuresLoading m) (mg_resources m)"
    "\<not> mg_closurePending m" "\<not> mg_isSaving m"
    using m settled_parts by (auto simp: manager_ok_def parts_ok_def)
  have same: "map we_id (map (\<lambda>r. if we_id r = we_id u then u else r) rs) = map we_id rs" for u rs by simp
  show ?thesis
  proof (cases result)
    case (Inl f)
    then show ?thesis using p by (auto simp: statusChanged_def reportFailure_def manager_ok_def)
  next
    case (Inr u)
    then show ?thesis using p same [of u "mg_resources m"]
      by (simp add: statusChanged_def manager_ok_def idle_parts del: map_map)
  qed
qed

lemma loaded_ok:
  assumes m: "manager_ok m" "mg_loading m = Some k" "\<And>cs. result = Inr cs \<Longrightarrow> \<forall>c\<in>set cs. wc_resourceId c = k"
  shows "manager_ok (closuresLoaded result m)"
proof -
  have "mg_editingId m = Some k" using m(1,2) by (simp add: manager_ok_def parts_ok_def)
  then show ?thesis using m by (cases result) (auto simp: closuresLoaded_def manager_ok_def parts_ok_def)
qed

lemma manager_step_ok:
  assumes "manager_step other lc known m m'" "manager_ok m"
  shows "manager_ok m'"
  using assms
proof (cases rule: manager_step.cases)
  case (resource_created input r)
  then show ?thesis using assms(2) by (auto intro: save_ok)
next
  case (resource_updated k input r)
  then show ?thesis using assms(2) replies_fit(1) by (auto intro!: save_ok)
next
  case (closure_added k date reason r)
  then show ?thesis using assms(2) replies_fit(3) by (auto intro!: closure_replies_ok(1))
next
  case (closure_removed k c r)
  then show ?thesis using assms(2) by (auto intro: closure_replies_ok(2))
next
  case (status_changed k status r)
  then show ?thesis using assms(2) by (auto intro: status_ok)
next
  case (closures_loaded k r)
  then show ?thesis using assms(2) replies_fit(4) by (auto intro!: loaded_ok)
qed (simp_all add: editor_moves_ok typing_ok sent_ok)

interpretation managing: kept "manager_step other lc known" manager_ok for other lc known
  by unfold_locales (rule manager_step_ok)

text \<open>C38: The resource manager makes one change at a time (admin-resource-manager.tsx). In every state it reaches from a page of
  resources with different identifiers, whatever is pressed and typed and whatever the service answers: the lock, the
  busy flags and the change in flight agree, and while one is in flight no handler does anything; the closures listed
  are all of the resource in the editor; closures are only being loaded for that resource; no resource is listed twice.\<close>

theorem manager_one_change:
  assumes "(manager_step other lc known)\<^sup>*\<^sup>* (opened_manager items n known) m" "distinct (map we_id items)"
  shows "(mg_mutationLock m \<longleftrightarrow> mg_awaited m \<noteq> None) \<and> (isMutating m \<longleftrightarrow> mg_awaited m \<noteq> None) \<and>
    (isMutating m \<longrightarrow> startCreate known m = m \<and> startEdit r m = m \<and> handleSubmit m = m \<and> handleClosureSubmit m = m \<and>
      handleClosureDelete c m = m \<and> handleStatus r status m = m) \<and>
    (\<forall>c\<in>set (mg_closures m). mg_editingId m = Some (wc_resourceId c)) \<and>
    (mg_loading m \<noteq> None \<longrightarrow> mg_loading m = mg_editingId m) \<and> distinct (map we_id (mg_resources m))"
proof -
  have ok: "manager_ok m" using managing.always [OF assms(1)] opened_ok [OF assms(2)] by blast
  then show ?thesis using manager_idle [OF ok]
    by (auto simp: manager_ok_def parts_ok_def startCreate_def startEdit_def handleSubmit_def handleClosureSubmit_def
        handleClosureDelete_def handleStatus_def split: option.splits)
qed

section \<open>The list of closures lost\<close>

text \<open>The editor stays on its resource.\<close>

definition same_editor ::
  "(string \<Rightarrow> int option) \<Rightarrow> (string \<Rightarrow> string \<Rightarrow> int) \<Rightarrow> web_building list \<Rightarrow> manager \<Rightarrow> manager \<Rightarrow> bool" where
  "same_editor other lc known m m' \<longleftrightarrow> manager_step other lc known m m' \<and> mg_editingId m' = mg_editingId m"

definition list_stuck :: "string \<Rightarrow> manager \<Rightarrow> bool" where
  "list_stuck k m \<longleftrightarrow> mg_editingId m = Some k \<and> mg_closuresLoading m \<and> mg_loading m = None"

lemma failure_stuck: "list_stuck k (reportFailure ctx setError f m) \<longleftrightarrow> list_stuck k m"
  if "\<And>s x. list_stuck k (setError s x) = list_stuck k x"
  using that by (simp add: reportFailure_def list_stuck_def)

lemma stuck_step:
  assumes step: "manager_step other lc known m m'" and same: "mg_editingId m' = mg_editingId m" and stuck: "list_stuck k m"
    and ok: "manager_ok m"
  shows "list_stuck k m'"
  using step
proof (cases rule: manager_step.cases)
  case create_pressed
  then show ?thesis using same stuck by (auto simp: startCreate_def run_effect_def blank_editor_def list_stuck_def split: if_splits)
next
  case (resource_created input r)
  then show ?thesis using ok stuck by (simp add: manager_ok_def parts_ok_def list_stuck_def)
next
  case (resource_updated i input r)
  then show ?thesis using same stuck
    by (cases "web_updateResource other i input r")
      (auto simp: saveFinished_def run_effect_def Let_def list_stuck_def reportFailure_def split: if_splits)
next
  case (closure_added i date reason r)
  then show ?thesis using stuck
    by (cases "createResourceClosure other i date reason r")
      (auto simp: closureAdded_def closure_settled_def list_stuck_def reportFailure_def)
next
  case (closure_removed i c r)
  then show ?thesis using stuck
    by (cases "deleteResourceClosure r") (auto simp: closureRemoved_def closure_settled_def list_stuck_def)
next
  case (status_changed i status r)
  then show ?thesis using stuck
    by (cases "updateResourceStatus other i status r") (auto simp: statusChanged_def list_stuck_def reportFailure_def)
next
  case (edit_pressed r)
  then show ?thesis using same stuck by (auto simp: startEdit_def run_effect_def blank_editor_def list_stuck_def split: if_splits)
qed (use stuck in \<open>auto simp: updateField_def toggleOperatingDay_def Let_def handleSubmit_def handleClosureSubmit_def
    handleClosureDelete_def handleStatus_def list_stuck_def split: option.splits\<close>)

text \<open>C39: Pressing Edit on the resource that is in the editor loses its closures (startEdit in admin-resource-manager.tsx): the
  list is emptied and shown as loading, but the effect that loads it does not run again, since the identifier it
  depends on has not changed. Nothing is in flight, and however long the administrator goes on with this resource the
  list stays empty or unseen, whatever the service answers.\<close>

theorem editing_again_hides_closures:
  assumes "(manager_step other lc known)\<^sup>*\<^sup>* (opened_manager items n known) m" "distinct (map we_id items)"
    and edited: "r \<in> set (mg_resources m)" "mg_editingId m = Some (we_id r)" "mg_loading m = None" "\<not> isMutating m"
    and onward: "(same_editor other lc known)\<^sup>*\<^sup>* (startEdit r m) m'"
  shows "manager_step other lc known m (startEdit r m) \<and> mg_closures (startEdit r m) = [] \<and>
    mg_closuresLoading m' \<and> mg_loading m' = None"
proof -
  have ok: "manager_ok (startEdit r m)"
    using managing.always [OF assms(1)] opened_ok [OF assms(2)] editor_moves_ok(2) by blast
  have start: "list_stuck (we_id r) (startEdit r m)" "mg_closures (startEdit r m) = []"
    using edited by (simp_all add: startEdit_def run_effect_def blank_editor_def list_stuck_def)
  from onward have "list_stuck (we_id r) m' \<and> manager_ok m'"
    by (induction) (use start ok stuck_step manager_step_ok in \<open>auto simp: same_editor_def\<close>)
  then show ?thesis using start edited(1) by (auto simp: list_stuck_def intro: manager_step.edit_pressed)
qed

text \<open>A reply to the effect that comes after a closure was added takes it off the list again.\<close>

lemma late_list_drops_closure:
  assumes "mg_loading m = Some k" "mg_awaited m = Some (Adding_closure k date reason)" "wc_id c \<notin> wc_id ` set items"
  shows "c \<in> set (mg_closures (closureAdded lc (Inr c) m)) \<and> mg_loading (closureAdded lc (Inr c) m) = Some k \<and>
    c \<notin> set (mg_closures (closuresLoaded (Inr items) (closureAdded lc (Inr c) m)))"
  using assms by (auto simp: closureAdded_def closure_settled_def closuresLoaded_def)

section \<open>An edit without changes\<close>

text \<open>A resource as the service stores it: normalised, and within the bounds of its tests.\<close>

definition plain_entry :: "web_catalogue_entry \<Rightarrow> bool" where
  "plain_entry r \<longleftrightarrow>
     js_trim (we_code r) = we_code r \<and> js_upper (we_code r) = we_code r \<and> 2 \<le> length (we_code r) \<and> length (we_code r) \<le> 30 \<and> code_shape (we_code r) \<and>
     plain_text (we_name r) \<and> plain_text (we_location r) \<and>
     plain_description (we_description r) \<and>
     1 \<le> we_capacity r \<and> we_capacity r \<le> 10000 \<and> wb_id (we_building r) \<noteq> [] \<and>
     plain_amenities (we_amenities r) \<and> we_operatingDays r \<noteq> [] \<and>
     hour_pattern (we_opensAt r) \<and> hour_pattern (we_closesAt r) \<and> we_opensAt r < we_closesAt r"

definition comma_free :: "web_catalogue_entry \<Rightarrow> bool" where
  "comma_free r \<longleftrightarrow> (\<forall>a\<in>set (we_amenities r). CHR '','' \<notin> set a)"

lemma trim_space: "js_trim (CHR '' '' # s) = js_trim s"
proof -
  have "is_space CHR '' ''" by (simp add: is_space_def)
  then show ?thesis by (simp add: js_trim_def)
qed

lemma split_join:
  "\<forall>a\<in>set (x # xs). CHR '','' \<notin> set a \<Longrightarrow>
     js_split CHR '','' (join_list (x # xs)) = x # map (\<lambda>a. CHR '' '' # a) xs"
proof (induction "x # xs" arbitrary: x xs rule: join_list.induct)
  case (2 x)
  then show ?case by (simp add: js_split_no_sep)
next
  case (3 x y ys)
  have "js_split CHR '','' (join_list (x # y # ys)) = x # js_split CHR '','' (CHR '' '' # join_list (y # ys))"
    using 3(2) js_split_sep [of "CHR '',''" x] by simp
  also have "js_split CHR '','' (CHR '' '' # join_list (y # ys)) = (CHR '' '' # y) # map (\<lambda>a. CHR '' '' # a) ys"
    using 3(1) 3(2) by simp
  finally show ?case by simp
qed

lemma amenities_kept:
  assumes "\<forall>a\<in>set xs. js_trim a = a \<and> a \<noteq> [] \<and> CHR '','' \<notin> set a"
  shows "parseAmenities (join_list xs) = xs"
proof (cases xs)
  case Nil
  then show ?thesis by (simp add: parseAmenities_def js_trim_def)
next
  case (Cons x ys)
  have "js_split CHR '','' (join_list xs) = x # map (\<lambda>a. CHR '' '' # a) ys"
    unfolding Cons using assms by (intro split_join) (auto simp: Cons)
  moreover have "map (\<lambda>a. js_trim (CHR '' '' # a)) ys = ys" using assms by (intro map_idI) (simp add: Cons trim_space)
  ultimately show ?thesis using assms by (simp add: parseAmenities_def Cons comp_def filter_id_conv)
qed

lemma split_parts: "a \<in> set (js_split c s) \<Longrightarrow> c \<notin> set a"
  by (induction s arbitrary: a) (auto split: list.splits if_splits)

lemma parsed_comma_free: "a \<in> set (parseAmenities s) \<Longrightarrow> CHR '','' \<notin> set a"
  using split_parts js_trim_set by (fastforce simp: parseAmenities_def)

lemma capacity_kept:
  assumes "0 \<le> n"
  shows "whole_number (js_Number (js_string (nat n))) = Some n"
proof -
  let ?s = "js_string (nat n)"
  have ds: "\<forall>c\<in>set ?s. is_digit c" by (rule js_string_digits)
  have ne: "?s \<noteq> []" by (rule js_string_nonempty)
  have plain: "\<not> is_space c \<and> c \<noteq> CHR ''-'' \<and> c \<noteq> CHR ''+'' \<and> c \<noteq> CHR ''e'' \<and> c \<noteq> CHR ''E'' \<and> c \<noteq> CHR ''.''" if "is_digit c" for c
    using that by (auto simp: is_digit_def is_space_def)
  have "js_trim ?s = ?s" using ds ne plain by (intro js_trim_fixed) (simp add: list.set_sel)
  moreover have "signed ?s = (False, ?s)" using ds ne plain by (cases ?s) (auto simp: signed_def)
  moreover have "takeWhile (\<lambda>c. c \<noteq> CHR ''e'' \<and> c \<noteq> CHR ''E'') ?s = ?s" "dropWhile (\<lambda>c. c \<noteq> CHR ''e'' \<and> c \<noteq> CHR ''E'') ?s = []"
    "takeWhile (\<lambda>c. c \<noteq> CHR ''.'') ?s = ?s"
    using ds plain by (auto simp: takeWhile_eq_all_conv dropWhile_eq_Nil_conv)
  moreover have "digits_only ?s" using ds ne by (simp add: digits_only_def)
  ultimately have "js_Number ?s = Some (of_nat (nat n))"
    using ne by (simp add: js_Number_def mantissa_and_exponent_def exponent_value_def js_number_string Let_def
      del: takeWhile_eq_all_conv dropWhile_eq_Nil_conv)
  then show ?thesis using assms by (simp add: whole_number_def)
qed

lemma plain_round_trip:
  assumes "plain_entry r"
  shows "toInput (formFor r) =
      \<lparr>ri_code = we_code r, ri_name = we_name r,
       ri_description = (case we_description r of None \<Rightarrow> [] | Some s \<Rightarrow> s), ri_type = we_type r, ri_capacity = we_capacity r,
       ri_location = we_location r, ri_amenities = Some (parseAmenities (join_list (we_amenities r))),
       ri_requiresApproval = Some (we_requiresApproval r), ri_operatingDays = Some (sort (we_operatingDays r)),
       ri_opensAt = Some (we_opensAt r), ri_closesAt = Some (we_closesAt r), ri_buildingId = wb_id (we_building r)\<rparr> \<and>
    (if comma_free r
     then parseAmenities (join_list (we_amenities r)) = we_amenities r \<and> form_validate (formFor r) = no_errors \<and>
       matchesResourceInput (r\<lparr>we_operatingDays := sort (we_operatingDays r)\<rparr>) (toInput (formFor r)) False
     else parseAmenities (join_list (we_amenities r)) \<noteq> we_amenities r)"
proof -
  note p = assms [unfolded plain_entry_def plain_text_def plain_description_def plain_amenities_def]
  have "js_trim [] = []" by (simp add: js_trim_def)
  then have descr: "js_trim (case we_description r of None \<Rightarrow> [] | Some s \<Rightarrow> s) = (case we_description r of None \<Rightarrow> [] | Some s \<Rightarrow> s)"
    using p by (cases "we_description r") simp_all
  have capacity: "whole_number (js_Number (js_string (nat (we_capacity r)))) = Some (we_capacity r)"
    using p by (intro capacity_kept) simp
  have input: "toInput (formFor r) =
      \<lparr>ri_code = we_code r, ri_name = we_name r,
       ri_description = (case we_description r of None \<Rightarrow> [] | Some s \<Rightarrow> s), ri_type = we_type r, ri_capacity = we_capacity r,
       ri_location = we_location r, ri_amenities = Some (parseAmenities (join_list (we_amenities r))),
       ri_requiresApproval = Some (we_requiresApproval r), ri_operatingDays = Some (sort (we_operatingDays r)),
       ri_opensAt = Some (we_opensAt r), ri_closesAt = Some (we_closesAt r), ri_buildingId = wb_id (we_building r)\<rparr>"
    using p by (simp add: toInput_def formFor_def descr capacity)
  show ?thesis
  proof (cases "comma_free r")
    case True
    have kept: "parseAmenities (join_list (we_amenities r)) = we_amenities r"
      using p True by (intro amenities_kept) (simp add: comma_free_def)
    have lower: "map js_lower (we_amenities r) = we_amenities r" using p by (intro map_idI) simp
    have trimmed: "map (\<lambda>x. js_lower (js_trim x)) (we_amenities r) = we_amenities r" using p by (intro map_idI) simp
    have order: "\<not> we_closesAt r \<le> we_opensAt r" using p by (simp add: not_le)
    have short: "\<not> (\<exists>item\<in>set (we_amenities r). 50 < length item)" using p by (auto simp: not_less)
    have "form_validate (formFor r) = no_errors"
      using p order short by (simp add: form_validate_def formFor_def kept lower capacity error_if_def no_errors_def Let_def)
    moreover have "matchesResourceInput (r\<lparr>we_operatingDays := sort (we_operatingDays r)\<rparr>) (toInput (formFor r)) False"
      unfolding input matchesResourceInput_def using p
      by (simp add: kept descr trimmed given_or_def sameValues_def split: option.splits)
    ultimately show ?thesis using input kept True by simp
  next
    case False
    have "parseAmenities (join_list (we_amenities r)) \<noteq> we_amenities r"
    proof
      assume "parseAmenities (join_list (we_amenities r)) = we_amenities r"
      then have "\<forall>a\<in>set (we_amenities r). CHR '','' \<notin> set a" using parsed_comma_free by metis
      then show False using False by (simp add: comma_free_def)
    qed
    then show ?thesis using input False by simp
  qed
qed

text \<open>Every stored resource is one.\<close>

lemma js_split_parts: "c \<in> set s \<Longrightarrow> c \<noteq> sep \<Longrightarrow> \<exists>part\<in>set (js_split sep s). c \<in> set part"
  by (induction s) (auto split: list.split)

lemma code_kept:
  assumes "valid_code s"
  shows "js_trim s = s" "js_upper s = s" "code_shape s" "2 \<le> length s" "length s \<le> 30"
proof -
  have chars: "is_code_char c \<or> c = CHR ''-''" if "c \<in> set s" for c
    using js_split_parts [OF that, of "CHR ''-''"] assms by (auto simp: valid_code_def code_pattern_def)
  have plain: "\<not> is_space c \<and> upper_char c = [c]" if "c \<in> set s" for c
    using chars [OF that] by (auto simp: is_code_char_def is_space_def upper_char_def Let_def)
  have ne: "s \<noteq> []" using assms by (auto simp: valid_code_def)
  show "js_trim s = s" using plain ne by (intro js_trim_fixed) simp
  have "map upper_char s = map (\<lambda>c. [c]) s" using plain by simp
  then have "js_upper s = concat (map (\<lambda>c. [c]) s)" by (simp only: js_upper_def)
  then show "js_upper s = s" by simp
  show "code_shape s" using assms
    by (auto simp: valid_code_def code_pattern_def code_shape_def is_code_char_def is_alnum_def Let_def)
  show "2 \<le> length s" "length s \<le> 30" using assms by (simp_all add: valid_code_def)
qed

lemma stored_plain:
  assumes "db_ok d" "recorded d" "database_made d" "r \<in> set (resources d)"
  shows "plain_entry (web_entry_of (resource_entry d r))"
    "wb_id (we_building (web_entry_of (resource_entry d r))) = r_buildingId r"
proof -
  note s = stored_resource [OF assms(1,4)]
  obtain bl where bl: "row_at bl_id (r_buildingId r) (buildings d) = Some bl" "bl \<in> set (buildings d)"
    using stored_building [OF assms(1,4)] .
  then have "bl_id bl = r_buildingId r" by (auto dest: row_at_SomeD)
  then show building: "wb_id (we_building (web_entry_of (resource_entry d r))) = r_buildingId r"
    by (simp add: web_entry_of_def resource_entry_def resource_fromEntity_def building_fromEntity_def web_building_of_def bl(1))
  have "uuid_version_pattern (r_buildingId r)" using assms(3) bl(2) \<open>bl_id bl = r_buildingId r\<close> by (auto simp: database_made_def)
  then have id: "r_buildingId r \<noteq> []" by (auto simp: uuid_version_pattern_def uuid_pattern_def)
  have rec: "resource_recorded r" by (rule recorded_rows(4) [OF assms(2,4)])
  have bounds: "1 \<le> r_capacity r \<and> r_capacity r \<le> 10000" "r_operatingDays r \<noteq> []"
    using s(2) stored_days(3) [OF s(2)] by (auto simp: resource_rules_def violated_check_None resource_checks_def)
  show "plain_entry (web_entry_of (resource_entry d r))"
    using rec bounds opening_texts [OF s(1,2)] code_kept id building
    by (simp add: plain_entry_def resource_recorded_def web_entry_of_def resource_entry_def resource_fromEntity_def)
qed

text \<open>C40: The editor sends back what it was opened on, except for the order of the days and for amenities with a comma
  (formFor, validate and toInput in admin-resource-manager.tsx): in every reachable state, when a stored resource is edited
  without a change, the request carries every stored value, the operating days in ascending order whatever order they were stored
  in; when no amenity has a comma, the form passes its tests and a reply with the values that were sent passes the test of
  updateResource. An amenity with a comma, which the service accepts, is cut in two by the form: saving an unrelated change then
  changes the amenities.\<close>

theorem editor_round_trip:
  assumes "reachable sv (now, d)" "accounts_recorded (sv_bootstrap sv)" "database_made d" "r \<in> set (resources d)"
  defines "entry \<equiv> web_entry_of (resource_entry d r)"
  shows "toInput (formFor entry) =
      \<lparr>ri_code = r_code r, ri_name = r_name r,
       ri_description = (case r_description r of None \<Rightarrow> [] | Some s \<Rightarrow> s), ri_type = r_type r, ri_capacity = r_capacity r,
       ri_location = r_location r, ri_amenities = Some (parseAmenities (join_list (r_amenities r))),
       ri_requiresApproval = Some (r_requiresApproval r), ri_operatingDays = Some (sort (r_operatingDays r)),
       ri_opensAt = Some (js_slice 0 5 (r_opensAt r)), ri_closesAt = Some (js_slice 0 5 (r_closesAt r)),
       ri_buildingId = r_buildingId r\<rparr> \<and>
    (if \<exists>a\<in>set (r_amenities r). CHR '','' \<in> set a
     then parseAmenities (join_list (r_amenities r)) \<noteq> r_amenities r
     else parseAmenities (join_list (r_amenities r)) = r_amenities r \<and> form_validate (formFor entry) = no_errors \<and>
       matchesResourceInput (entry\<lparr>we_operatingDays := sort (r_operatingDays r)\<rparr>) (toInput (formFor entry)) False)"
proof -
  have "db_ok d" using reachable_ok [OF assms(1)] by (simp add: campus_ok_def)
  note plain = stored_plain [OF this reachable_recorded [OF assms(1,2)] assms(3,4), folded entry_def]
  have entry: "we_code entry = r_code r" "we_name entry = r_name r" "we_description entry = r_description r"
    "we_type entry = r_type r" "we_capacity entry = r_capacity r" "we_location entry = r_location r"
    "we_amenities entry = r_amenities r" "we_requiresApproval entry = r_requiresApproval r"
    "we_operatingDays entry = r_operatingDays r" "we_opensAt entry = js_slice 0 5 (r_opensAt r)"
    "we_closesAt entry = js_slice 0 5 (r_closesAt r)"
    by (simp_all add: entry_def web_entry_of_def resource_entry_def resource_fromEntity_def)
  have comma: "comma_free entry \<longleftrightarrow> \<not> (\<exists>a\<in>set (r_amenities r). CHR '','' \<in> set a)" by (simp add: comma_free_def entry)
  note trip = plain_round_trip [OF plain(1), unfolded entry plain(2) comma]
  show ?thesis
  proof (cases "\<exists>a\<in>set (r_amenities r). CHR '','' \<in> set a")
    case True
    with trip show ?thesis by simp
  next
    case False
    show ?thesis unfolding if_not_P [OF False] using trip [unfolded if_P [OF False]] .
  qed
qed

end
