(* ===== verification/WebManagerWitnesses.thy ===== *)
theory WebManagerWitnesses
  imports WebManagerProps WebWitnesses
begin

text \<open>The resource manager on a page with one room, its editor opened, the closures loaded, and the room edited again.\<close>

definition shown_room :: web_catalogue_entry where
  "shown_room =
     \<lparr>we_id = ''20000000-0000-4000-8000-000000000001'', we_code = ''A21-204'', we_name = ''Seminar room'',
      we_description = None, we_type = ROOM, we_status = ACTIVE, we_capacity = 40, we_location = ''Second floor'',
      we_amenities = [''projector'', ''whiteboard''], we_requiresApproval = False, we_operatingDays = [1, 2, 3],
      we_opensAt = ''08:00'', we_closesAt = ''18:00'',
      we_building = \<lparr>wb_id = ''10000000-0000-4000-8000-000000000001'', wb_code = ''A21'', wb_name = ''Hall'', wb_address = ''Road''\<rparr>,
      we_createdAt = ''2026-09-14T00:00:00.000Z'', we_updatedAt = ''2026-09-14T00:00:00.000Z''\<rparr>"

definition first_seen :: manager where
  "first_seen = opened_manager [shown_room] 1 []"

definition edited_once :: manager where
  "edited_once = closuresLoaded (getResourceClosures (\<lambda>s. None) (we_id shown_room) (Fetched 200 (Some (JArray []))))
     (startEdit shown_room first_seen)"

abbreviation run_manager :: "manager \<Rightarrow> manager \<Rightarrow> bool" where
  "run_manager \<equiv> manager_step (\<lambda>s. None) (\<lambda>a b. 0) []"

lemma edited_parts:
  "mg_loading (startEdit shown_room first_seen) = Some (we_id shown_room)" "mg_loading edited_once = None"
  "mg_editingId edited_once = Some (we_id shown_room)" "\<not> isMutating edited_once" "mg_resources edited_once = [shown_room]"
  by (simp_all add: edited_once_def first_seen_def opened_manager_def startEdit_def isMutating_def run_effect_def blank_editor_def
      closuresLoaded_def split: sum.splits)

lemma edited_reached: "run_manager\<^sup>*\<^sup>* (opened_manager [shown_room] 1 []) edited_once"
proof -
  have "run_manager first_seen (startEdit shown_room first_seen)"
    by (rule manager_step.edit_pressed) (simp add: first_seen_def opened_manager_def)
  moreover have "run_manager (startEdit shown_room first_seen) edited_once"
    unfolding edited_once_def by (rule manager_step.closures_loaded) (rule edited_parts(1))
  ultimately show ?thesis unfolding first_seen_def by (meson converse_rtranclp_into_rtranclp rtranclp.rtrancl_refl)
qed

theorem manager_one_change_witness:
  "mg_editingId edited_once = Some (we_id shown_room) \<and> \<not> isMutating edited_once \<and>
   distinct (map we_id (mg_resources edited_once)) \<and> (mg_mutationLock edited_once \<longleftrightarrow> mg_awaited edited_once \<noteq> None)"
  using manager_one_change [OF edited_reached] edited_parts by simp

theorem editing_again_hides_closures_witness:
  "mg_editingId edited_once = Some (we_id shown_room) \<and> mg_closures (startEdit shown_room edited_once) = [] \<and>
   mg_closuresLoading (startEdit shown_room edited_once) \<and> mg_loading (startEdit shown_room edited_once) = None"
  using editing_again_hides_closures [OF edited_reached, of shown_room "startEdit shown_room edited_once"] edited_parts by simp

text \<open>A room stored with its days in another order, or with a comma in an amenity, comes back from the form changed.\<close>

lemma editor_sorts_days: "ri_operatingDays (toInput (formFor (shown_room\<lparr>we_operatingDays := [6, 5, 1]\<rparr>))) = Some [1, 5, 6]"
  by code_simp

lemma editor_cuts_commas:
  "ri_amenities (toInput (formFor (shown_room\<lparr>we_amenities := [''tv, screen'']\<rparr>))) = Some [''tv'', ''screen'']"
  by code_simp

theorem editor_round_trip_witness:
  "\<exists>r. r \<in> set (resources web_d4) \<and> r_id r = web_room \<and>
     form_validate (formFor (web_entry_of (resource_entry web_d4 r))) = no_errors \<and>
     ri_operatingDays (toInput (formFor (web_entry_of (resource_entry web_d4 r)))) = Some [0, 1, 2, 3, 4, 5, 6]"
proof -
  have "row_at r_id web_room (resources web_d4) \<noteq> None" by code_simp
  then obtain r where row: "row_at r_id web_room (resources web_d4) = Some r" by blast
  have "map_option r_amenities (row_at r_id web_room (resources web_d4)) \<noteq> None
    \<and> (case row_at r_id web_room (resources web_d4) of None \<Rightarrow> False
       | Some r \<Rightarrow> list_all (\<lambda>a. CHR '','' \<notin> set a) (r_amenities r) \<and> sort (r_operatingDays r) = [0, 1, 2, 3, 4, 5, 6])" by code_simp
  then have r: "\<not> (\<exists>a\<in>set (r_amenities r). CHR '','' \<in> set a)" "sort (r_operatingDays r) = [0, 1, 2, 3, 4, 5, 6]"
    by (simp_all add: row list_all_iff)
  have "r \<in> set (resources web_d4)" "r_id r = web_room" using row by (auto dest: row_at_SomeD)
  with editor_round_trip [OF web_reachable(1) web_accounts web_made(1) this(1), unfolded if_not_P [OF r(1)]] r(2)
  show ?thesis by auto
qed

end
