(* ===== verification/WebRealtime.thy ===== *)
theory WebRealtime
  imports Events
begin

text \<open>
  The pages that listen (src/web-frontend/lib/realtime): the one socket of a browser tab (socket.ts), the
  hooks that watch a resource on a date (use-availability-updates.ts) or the dashboard of a date
  (use-dashboard-updates.ts), and the live regions that refresh the page. Of socket.io's client the model
  has what these files use: listeners are called in the order they were added, those present when the event
  arrives; what is emitted while disconnected waits for the connection; a socket that either side closed
  on purpose does not connect again.
\<close>

section \<open>State\<close>

definition SERVER_DISCONNECT_REASON :: string where
  "SERVER_DISCONNECT_REASON = ''io server disconnect''"

definition CLIENT_DISCONNECT_REASON :: string where
  "CLIENT_DISCONNECT_REASON = ''io client disconnect''"

text \<open>The room a hook asks for: of a resource and date, or of the dashboard of a date.\<close>

datatype watch = Watch_availability string string | Watch_dashboard string

text \<open>One run of a hook's effect: what it watches, and the socket it found.\<close>

record effect_run =
  ef_id :: nat
  ef_watch :: watch
  ef_socket :: nat

text \<open>
  The listeners the code adds: that of the module, and the four of a run. A run's functions are closures
  of that run, so they are told apart by it.
\<close>

datatype listener =
  Module_disconnect
| Handle_reconnect effect_run
| Handle_disconnect effect_run
| Handle_availability effect_run
| Handle_resource effect_run

record browser_socket =
  bs_connected :: bool
  bs_reconnects :: bool
  bs_listeners :: "(string \<times> listener) list"
  bs_waiting :: "(string \<times> watch) list"

text \<open>
  A tab: every socket it opened, in order; the variables \<open>socket\<close> and \<open>closedByServer\<close>; the runs whose
  clean-up is still due; what was sent over which socket; and the updates of the regions, each with its
  notice.
\<close>

record tab =
  tb_sockets :: "browser_socket list"
  tb_socket :: "nat option"
  tb_closedByServer :: bool
  tb_runs :: "effect_run list"
  tb_next :: nat
  tb_sent :: "(nat \<times> string \<times> watch) list"
  tb_updates :: "(nat \<times> string) list"

definition new_tab :: tab where
  "new_tab = \<lparr>tb_sockets = [], tb_socket = None, tb_closedByServer = False, tb_runs = [], tb_next = 0,
     tb_sent = [], tb_updates = []\<rparr>"

section \<open>Sockets\<close>

definition on_socket :: "nat \<Rightarrow> (browser_socket \<Rightarrow> browser_socket) \<Rightarrow> tab \<Rightarrow> tab" where
  "on_socket i f t = t\<lparr>tb_sockets := (if i < length (tb_sockets t) then (tb_sockets t)[i := f (tb_sockets t ! i)] else tb_sockets t)\<rparr>"

definition socket_on :: "nat \<Rightarrow> string \<Rightarrow> listener \<Rightarrow> tab \<Rightarrow> tab" where
  "socket_on i ev l = on_socket i (\<lambda>s. s\<lparr>bs_listeners := bs_listeners s @ [(ev, l)]\<rparr>)"

definition socket_off :: "nat \<Rightarrow> string \<Rightarrow> listener \<Rightarrow> tab \<Rightarrow> tab" where
  "socket_off i ev l = on_socket i (\<lambda>s. s\<lparr>bs_listeners := remove1 (ev, l) (bs_listeners s)\<rparr>)"

definition socket_connected :: "nat \<Rightarrow> tab \<Rightarrow> bool" where
  "socket_connected i t \<longleftrightarrow> i < length (tb_sockets t) \<and> bs_connected (tb_sockets t ! i)"

definition socket_emit :: "nat \<Rightarrow> string \<Rightarrow> watch \<Rightarrow> tab \<Rightarrow> tab" where
  "socket_emit i ev payload t =
     (if socket_connected i t then t\<lparr>tb_sent := tb_sent t @ [(i, ev, payload)]\<rparr>
      else on_socket i (\<lambda>s. s\<lparr>bs_waiting := bs_waiting s @ [(ev, payload)]\<rparr>) t)"

text \<open>The address of the namespace: \<open>/api\<close> or \<open>/api/\<close> at the end gives way to \<open>/ws\<close>.\<close>

definition realtime_url :: "string \<Rightarrow> string" where
  "realtime_url apiUrl =
     (let n = length apiUrl in
      if js_endsWith apiUrl ''/api'' then take (n - 4) apiUrl
      else if js_endsWith apiUrl ''/api/'' then take (n - 5) apiUrl
      else apiUrl) @ ''/ws''"

definition getSocket :: "tab \<Rightarrow> nat \<times> tab" where
  "getSocket t =
     (case tb_socket t of
        Some i \<Rightarrow> (i, t)
      | None \<Rightarrow>
          (let i = length (tb_sockets t) in
           (i, socket_on i ''disconnect'' Module_disconnect
                 (t\<lparr>tb_closedByServer := False,
                    tb_sockets := tb_sockets t @
                      [\<lparr>bs_connected = False, bs_reconnects = True, bs_listeners = [], bs_waiting = []\<rparr>],
                    tb_socket := Some i\<rparr>))))"

definition isSocketClosedByServer :: "tab \<Rightarrow> bool" where
  "isSocketClosedByServer t = tb_closedByServer t"

section \<open>The hooks\<close>

text \<open>The regions: AvailabilityLiveRegion and DashboardLiveRegion, \<open>handleUpdate\<close>.\<close>

fun notice_of :: "watch \<Rightarrow> string" where
  "notice_of (Watch_availability _ _) = ''Availability refreshed.''"
| "notice_of (Watch_dashboard _) = ''Campus availability refreshed.''"

definition handleUpdate :: "effect_run \<Rightarrow> tab \<Rightarrow> tab" where
  "handleUpdate r t = t\<lparr>tb_updates := tb_updates t @ [(ef_id r, notice_of (ef_watch r))]\<rparr>"

fun join_event :: "watch \<Rightarrow> string" where
  "join_event (Watch_availability _ _) = ''join:availability''"
| "join_event (Watch_dashboard _) = ''join:dashboard''"

fun leave_event :: "watch \<Rightarrow> string" where
  "leave_event (Watch_availability _ _) = ''leave:availability''"
| "leave_event (Watch_dashboard _) = ''leave:dashboard''"

definition joinRoom :: "effect_run \<Rightarrow> tab \<Rightarrow> tab" where
  "joinRoom r = socket_emit (ef_socket r) (join_event (ef_watch r)) (ef_watch r)"

definition handleReconnect :: "effect_run \<Rightarrow> tab \<Rightarrow> tab" where
  "handleReconnect r t = handleUpdate r (joinRoom r t)"

definition detach :: "effect_run \<Rightarrow> tab \<Rightarrow> tab" where
  "detach r t =
     (let i = ef_socket r in
      socket_off i ''resource:changed'' (Handle_resource r)
        (socket_off i ''availability:changed'' (Handle_availability r)
          (socket_off i ''disconnect'' (Handle_disconnect r)
            (socket_off i ''connect'' (Handle_reconnect r) t))))"

text \<open>What a message must say for a run to update its region.\<close>

fun concerns_availability :: "watch \<Rightarrow> message \<Rightarrow> bool" where
  "concerns_availability (Watch_availability resourceId date) m \<longleftrightarrow>
     ms_resourceId m = resourceId \<and> ms_date m = Some date"
| "concerns_availability (Watch_dashboard _) m \<longleftrightarrow> True"

fun concerns_resource :: "watch \<Rightarrow> message \<Rightarrow> bool" where
  "concerns_resource (Watch_availability resourceId _) m \<longleftrightarrow> ms_resourceId m = resourceId"
| "concerns_resource (Watch_dashboard _) m \<longleftrightarrow> True"

section \<open>What arrives\<close>

datatype incoming = Connect | Disconnect string | Message message

fun incoming_event :: "incoming \<Rightarrow> string" where
  "incoming_event Connect = ''connect''"
| "incoming_event (Disconnect _) = ''disconnect''"
| "incoming_event (Message m) = ms_event m"

fun hear :: "incoming \<Rightarrow> listener \<Rightarrow> tab \<Rightarrow> tab" where
  "hear (Disconnect reason) Module_disconnect t =
     (if reason = SERVER_DISCONNECT_REASON then t\<lparr>tb_closedByServer := True\<rparr> else t)"
| "hear (Disconnect reason) (Handle_disconnect r) t =
     (if reason = SERVER_DISCONNECT_REASON then detach r t else t)"
| "hear Connect (Handle_reconnect r) t = handleReconnect r t"
| "hear (Message m) (Handle_availability r) t =
     (if concerns_availability (ef_watch r) m then handleUpdate r t else t)"
| "hear (Message m) (Handle_resource r) t =
     (if concerns_resource (ef_watch r) m then handleUpdate r t else t)"
| "hear _ _ t = t"

definition listeners_for :: "string \<Rightarrow> nat \<Rightarrow> tab \<Rightarrow> listener list" where
  "listeners_for ev i t =
     (if i < length (tb_sockets t) then map snd (filter (\<lambda>l. fst l = ev) (bs_listeners (tb_sockets t ! i))) else [])"

definition deliver :: "nat \<Rightarrow> incoming \<Rightarrow> tab \<Rightarrow> tab" where
  "deliver i x t = fold (hear x) (listeners_for (incoming_event x) i t) t"

text \<open>A connection: what waits is sent before the listeners are called.\<close>

definition flush :: "nat \<Rightarrow> tab \<Rightarrow> tab" where
  "flush i t =
     on_socket i (\<lambda>s. s\<lparr>bs_waiting := []\<rparr>)
       (t\<lparr>tb_sent := tb_sent t @ map (\<lambda>(ev, payload). (i, ev, payload)) (bs_waiting (tb_sockets t ! i))\<rparr>)"

definition goes_up :: "nat \<Rightarrow> tab \<Rightarrow> tab" where
  "goes_up i t =
     (if i < length (tb_sockets t) \<and> \<not> bs_connected (tb_sockets t ! i) \<and> bs_reconnects (tb_sockets t ! i)
      then deliver i Connect (flush i (on_socket i (\<lambda>s. s\<lparr>bs_connected := True\<rparr>) t))
      else t)"

definition goes_down :: "nat \<Rightarrow> string \<Rightarrow> tab \<Rightarrow> tab" where
  "goes_down i reason t =
     (if socket_connected i t
      then deliver i (Disconnect reason) (on_socket i (\<lambda>s. s\<lparr>bs_connected := False,
             bs_reconnects := bs_reconnects s \<and> reason \<noteq> SERVER_DISCONNECT_REASON\<rparr>) t)
      else t)"

definition receives :: "nat \<Rightarrow> message \<Rightarrow> tab \<Rightarrow> tab" where
  "receives i m t = (if socket_connected i t then deliver i (Message m) t else t)"

text \<open>\<open>socket.disconnect()\<close>: the socket stays down, and its listeners hear of it if it was up.\<close>

definition closes :: "nat \<Rightarrow> tab \<Rightarrow> tab" where
  "closes i t = goes_down i CLIENT_DISCONNECT_REASON (on_socket i (\<lambda>s. s\<lparr>bs_reconnects := False\<rparr>) t)"

definition disconnectSocket :: "tab \<Rightarrow> tab" where
  "disconnectSocket t =
     (case tb_socket t of
        None \<Rightarrow> t
      | Some i \<Rightarrow> closes i (socket_off i ''disconnect'' Module_disconnect t)\<lparr>tb_socket := None\<rparr>)
     \<lparr>tb_closedByServer := False\<rparr>"

section \<open>A tab in use\<close>

text \<open>A run of the effect, once there is a date; its return value is the clean-up, \<open>leave\<close>.\<close>

definition subscribe :: "watch \<Rightarrow> tab \<Rightarrow> tab" where
  "subscribe w t0 =
     (let (i, t) = getSocket t0 in
      if isSocketClosedByServer t then t
      else
        let r = \<lparr>ef_id = tb_next t, ef_watch = w, ef_socket = i\<rparr>;
            t1 = t\<lparr>tb_next := Suc (tb_next t), tb_runs := tb_runs t @ [r]\<rparr>;
            t2 = (if socket_connected i t1 then joinRoom r t1 else t1)
        in socket_on i ''resource:changed'' (Handle_resource r)
             (socket_on i ''availability:changed'' (Handle_availability r)
               (socket_on i ''disconnect'' (Handle_disconnect r)
                 (socket_on i ''connect'' (Handle_reconnect r) t2))))"

definition useAvailabilityUpdates :: "string \<Rightarrow> string option \<Rightarrow> tab \<Rightarrow> tab" where
  "useAvailabilityUpdates resourceId date t =
     (case truthy date of None \<Rightarrow> t | Some day \<Rightarrow> subscribe (Watch_availability resourceId day) t)"

definition useDashboardUpdates :: "string \<Rightarrow> tab \<Rightarrow> tab" where
  "useDashboardUpdates date t = subscribe (Watch_dashboard date) t"

definition unsubscribe :: "effect_run \<Rightarrow> tab \<Rightarrow> tab" where
  "unsubscribe r t =
     (detach r
       (if socket_connected (ef_socket r) t
        then socket_emit (ef_socket r) (leave_event (ef_watch r)) (ef_watch r) t else t))
     \<lparr>tb_runs := remove1 r (tb_runs t)\<rparr>"

text \<open>
  What happens in a tab: a region is shown, or hidden again; the connection goes up and down; a message
  arrives; somebody signs in or out.
\<close>

datatype tab_event =
  Show_availability string "string option"
| Show_dashboard string
| Hide effect_run
| Up nat
| Down nat string
| Arrived nat message
| Signed

fun tab_step :: "tab_event \<Rightarrow> tab \<Rightarrow> tab" where
  "tab_step (Show_availability resourceId date) t = useAvailabilityUpdates resourceId date t"
| "tab_step (Show_dashboard date) t = useDashboardUpdates date t"
| "tab_step (Hide r) t = (if r \<in> set (tb_runs t) then unsubscribe r t else t)"
| "tab_step (Up i) t = goes_up i t"
| "tab_step (Down i reason) t = goes_down i reason t"
| "tab_step (Arrived i m) t = receives i m t"
| "tab_step Signed t = disconnectSocket t"

definition tab_run :: "tab_event list \<Rightarrow> tab \<Rightarrow> tab" where
  "tab_run evs t = fold tab_step evs t"

text \<open>What the gateway makes of what a socket sends.\<close>

fun payload_json :: "watch \<Rightarrow> json" where
  "payload_json (Watch_availability resourceId date) =
     JObject [(''resourceId'', JText resourceId), (''date'', JText date)]"
| "payload_json (Watch_dashboard date) = JObject [(''date'', JText date)]"

definition gateway_event :: "string \<Rightarrow> string \<times> watch \<Rightarrow> gw_event option" where
  "gateway_event sid = (\<lambda>(ev, w).
     if ev = ''join:availability'' then Some (JoinAvailability sid (payload_json w))
     else if ev = ''leave:availability'' then Some (LeaveAvailability sid (payload_json w))
     else if ev = ''join:dashboard'' then Some (JoinDashboard sid (payload_json w))
     else if ev = ''leave:dashboard'' then Some (LeaveDashboard sid (payload_json w))
     else None)"

fun room_of :: "watch \<Rightarrow> string" where
  "room_of (Watch_availability resourceId date) = availability_room resourceId date"
| "room_of (Watch_dashboard date) = dashboard_room date"

end
