(* ===== verification/WebRealtimeProps.thy ===== *)
theory WebRealtimeProps
  imports WebRealtime EventProps
begin

text \<open>
  The pages that listen: every region on a live connection hears what it watches, nothing waits to be sent
  and no region that is gone is left behind, a tab whose connection the service closed stays silent until
  somebody signs in, and a page that is open when a request changes the availability it shows is refreshed.
\<close>

section \<open>Sockets of a tab\<close>

lemma on_socket_fields [simp]:
  "tb_socket (on_socket i f t) = tb_socket t" "tb_closedByServer (on_socket i f t) = tb_closedByServer t"
  "tb_runs (on_socket i f t) = tb_runs t" "tb_next (on_socket i f t) = tb_next t"
  "tb_sent (on_socket i f t) = tb_sent t" "tb_updates (on_socket i f t) = tb_updates t"
  "length (tb_sockets (on_socket i f t)) = length (tb_sockets t)"
  by (simp_all add: on_socket_def)

lemma on_socket_nth [simp]:
  "j < length (tb_sockets t) \<Longrightarrow>
   tb_sockets (on_socket i f t) ! j = (if j = i then f (tb_sockets t ! j) else tb_sockets t ! j)"
  by (simp add: on_socket_def)

lemmas socket_ops = socket_on_def socket_off_def detach_def Let_def

definition module_listener :: "string \<times> listener" where
  "module_listener = (''disconnect'', Module_disconnect)"

definition run_listeners :: "effect_run \<Rightarrow> (string \<times> listener) set" where
  "run_listeners r = {(''connect'', Handle_reconnect r), (''disconnect'', Handle_disconnect r),
     (''availability:changed'', Handle_availability r), (''resource:changed'', Handle_resource r)}"

text \<open>
  One socket of a tab: nothing waits; its listeners are the module's, if it is the current one, and those
  of runs still shown; if it may connect, it is the current one and all runs on it listen; if the current
  one may not, the service has closed it.
\<close>

definition socket_ok :: "tab \<Rightarrow> nat \<Rightarrow> browser_socket \<Rightarrow> bool" where
  "socket_ok t j s \<longleftrightarrow>
     bs_waiting s = [] \<and> distinct (bs_listeners s) \<and> (bs_connected s \<longrightarrow> bs_reconnects s) \<and>
     (module_listener \<in> set (bs_listeners s) \<longleftrightarrow> tb_socket t = Some j) \<and>
     set (bs_listeners s) \<subseteq> insert module_listener (\<Union>r\<in>{r\<in>set (tb_runs t). ef_socket r = j}. run_listeners r) \<and>
     (bs_reconnects s \<longrightarrow> tb_socket t = Some j \<and> \<not> tb_closedByServer t \<and>
        (\<forall>r\<in>set (tb_runs t). ef_socket r = j \<longrightarrow> run_listeners r \<subseteq> set (bs_listeners s))) \<and>
     (tb_socket t = Some j \<and> \<not> bs_reconnects s \<longrightarrow> tb_closedByServer t)"

definition tab_ok :: "tab \<Rightarrow> bool" where
  "tab_ok t \<longleftrightarrow>
     (\<forall>j<length (tb_sockets t). socket_ok t j (tb_sockets t ! j)) \<and>
     (\<forall>i. tb_socket t = Some i \<longrightarrow> i < length (tb_sockets t)) \<and>
     (tb_closedByServer t \<longrightarrow> tb_socket t \<noteq> None) \<and>
     distinct (tb_runs t) \<and> (\<forall>r\<in>set (tb_runs t). ef_id r < tb_next t \<and> ef_socket r < length (tb_sockets t))"

lemma new_tab_ok: "tab_ok new_tab"
  by (simp add: tab_ok_def new_tab_def)

section \<open>Calling listeners\<close>

text \<open>Hearing of a connection or a message only sends and updates.\<close>

definition only_told :: "tab \<Rightarrow> tab \<Rightarrow> bool" where
  "only_told t t' \<longleftrightarrow> tb_sockets t' = tb_sockets t \<and> tb_socket t' = tb_socket t \<and>
     tb_closedByServer t' = tb_closedByServer t \<and> tb_runs t' = tb_runs t \<and> tb_next t' = tb_next t \<and>
     (\<exists>ms. tb_sent t' = tb_sent t @ ms) \<and> (\<exists>us. tb_updates t' = tb_updates t @ us)"

lemma only_told_refl [simp]: "only_told t t"
  by (simp add: only_told_def)

lemma only_told_trans: "only_told t t' \<Longrightarrow> only_told t' t'' \<Longrightarrow> only_told t t''"
  unfolding only_told_def by (elim conjE exE) simp

lemma only_told_ok:
  assumes "only_told t t'"
  shows "tab_ok t' = tab_ok t"
proof -
  have "tb_sockets t' = tb_sockets t" "tb_socket t' = tb_socket t" "tb_closedByServer t' = tb_closedByServer t"
    "tb_runs t' = tb_runs t" "tb_next t' = tb_next t" using assms by (simp_all add: only_told_def)
  then show ?thesis by (simp only: tab_ok_def socket_ok_def)
qed

lemma told_connected: "only_told t t' \<Longrightarrow> socket_connected i t' = socket_connected i t"
  by (simp add: only_told_def socket_connected_def)

lemma handleUpdate_told: "only_told t (handleUpdate r t)"
  by (simp add: only_told_def handleUpdate_def)

lemma emit_told: "socket_connected i t \<Longrightarrow> only_told t (socket_emit i ev w t)"
  by (simp add: only_told_def socket_emit_def)

lemma handleReconnect_told: "socket_connected (ef_socket r) t \<Longrightarrow> only_told t (handleReconnect r t)"
  by (auto simp: handleReconnect_def joinRoom_def intro: only_told_trans emit_told handleUpdate_told)

lemma hear_message_told: "only_told t (hear (Message m) l t)"
  by (cases l) (simp_all add: handleUpdate_told)

lemma fold_told:
  assumes "\<And>l t'. l \<in> set ls \<Longrightarrow> only_told t t' \<Longrightarrow> only_told t' (f l t')"
  shows "only_told t (fold f ls t)"
  using assms
proof (induction ls arbitrary: t)
  case (Cons l ls)
  have first: "only_told t (f l t)" using Cons.prems [of l t] by simp
  have "only_told (f l t) (fold f ls (f l t))"
  proof (rule Cons.IH)
    show "only_told t' (f k t')" if "k \<in> set ls" "only_told (f l t) t'" for k t'
      using Cons.prems [of k t'] that only_told_trans [OF first that(2)] by simp
  qed
  with first show ?case by (auto intro: only_told_trans)
qed simp

lemma deliver_message_told: "only_told t (deliver i (Message m) t)"
  unfolding deliver_def by (rule fold_told) (rule hear_message_told)

lemma connect_listener:
  assumes "tab_ok t" "l \<in> set (listeners_for ''connect'' i t)"
  obtains r where "l = Handle_reconnect r" "r \<in> set (tb_runs t)" "ef_socket r = i"
proof -
  from assms(2) have i: "i < length (tb_sockets t)" and l: "(''connect'', l) \<in> set (bs_listeners (tb_sockets t ! i))"
    by (auto simp: listeners_for_def split: if_splits)
  have "socket_ok t i (tb_sockets t ! i)" using assms(1) i by (simp add: tab_ok_def)
  then have "set (bs_listeners (tb_sockets t ! i)) \<subseteq>
      insert module_listener (\<Union>r\<in>{r\<in>set (tb_runs t). ef_socket r = i}. run_listeners r)"
    by (simp only: socket_ok_def)
  with l have "(''connect'', l) \<in> insert module_listener (\<Union>r\<in>{r\<in>set (tb_runs t). ef_socket r = i}. run_listeners r)"
    by blast
  then show ?thesis by (auto simp: module_listener_def run_listeners_def intro: that)
qed

lemma deliver_connect_told:
  assumes "tab_ok t" "socket_connected i t"
  shows "only_told t (deliver i Connect t)"
  unfolding deliver_def
proof (rule fold_told)
  fix l t' assume "l \<in> set (listeners_for (incoming_event Connect) i t)" and told: "only_told t t'"
  with assms(1) obtain r where "l = Handle_reconnect r" "ef_socket r = i" by (auto elim: connect_listener)
  then show "only_told t' (hear Connect l t')"
    using told_connected [OF told, of i] assms(2) by (simp add: handleReconnect_told)
qed

section \<open>Taking listeners off\<close>

lemma run_listeners_apart: "r \<noteq> r' \<Longrightarrow> run_listeners r \<inter> run_listeners r' = {}"
  by (auto simp: run_listeners_def)

lemma module_not_run [simp]: "module_listener \<notin> run_listeners r"
  by (simp add: module_listener_def run_listeners_def)

lemma detach_nth:
  assumes "j < length (tb_sockets t)"
  shows "tb_sockets (detach r t) ! j = (tb_sockets t ! j)
    \<lparr>bs_listeners := (if j = ef_socket r
       then remove1 (''resource:changed'', Handle_resource r) (remove1 (''availability:changed'', Handle_availability r)
         (remove1 (''disconnect'', Handle_disconnect r) (remove1 (''connect'', Handle_reconnect r) (bs_listeners (tb_sockets t ! j)))))
       else bs_listeners (tb_sockets t ! j))\<rparr>"
  using assms by (simp add: socket_ops)

lemma detach_fields [simp]:
  "tb_socket (detach r t) = tb_socket t" "tb_closedByServer (detach r t) = tb_closedByServer t"
  "tb_runs (detach r t) = tb_runs t" "tb_next (detach r t) = tb_next t"
  "tb_sent (detach r t) = tb_sent t" "tb_updates (detach r t) = tb_updates t"
  "length (tb_sockets (detach r t)) = length (tb_sockets t)"
  by (simp_all add: socket_ops)

lemma detach_listeners:
  assumes "j < length (tb_sockets t)" "distinct (bs_listeners (tb_sockets t ! j))"
  shows "set (bs_listeners (tb_sockets (detach r t) ! j)) =
      set (bs_listeners (tb_sockets t ! j)) - (if j = ef_socket r then run_listeners r else {})"
    "distinct (bs_listeners (tb_sockets (detach r t) ! j))"
  using assms by (auto simp: detach_nth run_listeners_def)

text \<open>Hearing of a disconnection takes listeners off, and may note that the service did it.\<close>

definition trimmed :: "tab \<Rightarrow> tab \<Rightarrow> bool" where
  "trimmed t t' \<longleftrightarrow> tb_socket t' = tb_socket t \<and> tb_runs t' = tb_runs t \<and> tb_next t' = tb_next t \<and>
     tb_sent t' = tb_sent t \<and> tb_updates t' = tb_updates t \<and> (tb_closedByServer t \<longrightarrow> tb_closedByServer t') \<and>
     length (tb_sockets t') = length (tb_sockets t) \<and>
     (\<forall>j<length (tb_sockets t). let s = tb_sockets t ! j; s' = tb_sockets t' ! j in
        bs_connected s' = bs_connected s \<and> bs_reconnects s' = bs_reconnects s \<and> bs_waiting s' = bs_waiting s \<and>
        (distinct (bs_listeners s) \<longrightarrow> distinct (bs_listeners s') \<and> set (bs_listeners s') \<subseteq> set (bs_listeners s) \<and>
          (module_listener \<in> set (bs_listeners s') \<longleftrightarrow> module_listener \<in> set (bs_listeners s))))"

lemma trimmed_nth:
  assumes "trimmed t t'" "j < length (tb_sockets t)"
  shows "bs_connected (tb_sockets t' ! j) = bs_connected (tb_sockets t ! j)"
    "bs_reconnects (tb_sockets t' ! j) = bs_reconnects (tb_sockets t ! j)"
    "bs_waiting (tb_sockets t' ! j) = bs_waiting (tb_sockets t ! j)"
    "distinct (bs_listeners (tb_sockets t ! j)) \<Longrightarrow> distinct (bs_listeners (tb_sockets t' ! j))"
    "distinct (bs_listeners (tb_sockets t ! j)) \<Longrightarrow> set (bs_listeners (tb_sockets t' ! j)) \<subseteq> set (bs_listeners (tb_sockets t ! j))"
    "distinct (bs_listeners (tb_sockets t ! j)) \<Longrightarrow>
      module_listener \<in> set (bs_listeners (tb_sockets t' ! j)) \<longleftrightarrow> module_listener \<in> set (bs_listeners (tb_sockets t ! j))"
  using assms by (simp_all add: trimmed_def Let_def)

lemma trimmed_refl [simp]: "trimmed t t"
  by (simp add: trimmed_def Let_def)

lemma trimmed_trans: "trimmed t t' \<Longrightarrow> trimmed t' t'' \<Longrightarrow> trimmed t t''"
  unfolding trimmed_def Let_def by (elim conjE, intro conjI allI impI) (simp_all, blast)

lemma detach_trimmed: "trimmed t (detach r t)"
  unfolding trimmed_def Let_def
proof (intro conjI allI impI)
  fix j assume j: "j < length (tb_sockets t)" and d: "distinct (bs_listeners (tb_sockets t ! j))"
  show "set (bs_listeners (tb_sockets (detach r t) ! j)) \<subseteq> set (bs_listeners (tb_sockets t ! j))"
    "distinct (bs_listeners (tb_sockets (detach r t) ! j))"
    "module_listener \<in> set (bs_listeners (tb_sockets (detach r t) ! j)) \<longleftrightarrow> module_listener \<in> set (bs_listeners (tb_sockets t ! j))"
    using detach_listeners [OF j d] by auto
qed (simp_all add: detach_nth)

lemma hear_disconnect_trimmed: "trimmed t (hear (Disconnect reason) l t)"
  by (cases l) (simp_all add: detach_trimmed, simp add: trimmed_def Let_def)

lemma fold_trimmed: "trimmed t (fold (hear (Disconnect reason)) ls t)"
  by (induction ls arbitrary: t) (auto intro: trimmed_trans hear_disconnect_trimmed)

lemma fold_closed:
  "Module_disconnect \<in> set ls \<or> tb_closedByServer t \<Longrightarrow>
   tb_closedByServer (fold (hear (Disconnect SERVER_DISCONNECT_REASON)) ls t)"
proof (induction ls arbitrary: t)
  case (Cons l ls)
  have "trimmed t (hear (Disconnect SERVER_DISCONNECT_REASON) l t)" by (rule hear_disconnect_trimmed)
  then have "tb_closedByServer t \<Longrightarrow> tb_closedByServer (hear (Disconnect SERVER_DISCONNECT_REASON) l t)"
    by (simp add: trimmed_def)
  then show ?case using Cons by (cases l) auto
qed simp

lemma hear_other_reason: "reason \<noteq> SERVER_DISCONNECT_REASON \<Longrightarrow> hear (Disconnect reason) l t = t"
  by (cases l) simp_all

lemma deliver_other_reason: "reason \<noteq> SERVER_DISCONNECT_REASON \<Longrightarrow> deliver i (Disconnect reason) t = t"
  unfolding deliver_def by (rule fold_invariant [where Q = "\<lambda>_. True" and P = "\<lambda>t'. t' = t"]) (simp_all add: hear_other_reason)

section \<open>What a tab keeps\<close>

lemma tab_ok_socket: "tab_ok t \<Longrightarrow> j < length (tb_sockets t) \<Longrightarrow> socket_ok t j (tb_sockets t ! j)"
  by (simp add: tab_ok_def)

lemma current_exists: "tab_ok t \<Longrightarrow> tb_socket t = Some i \<Longrightarrow> i < length (tb_sockets t)"
  by (simp add: tab_ok_def)

lemma live_is_current:
  "tab_ok t \<Longrightarrow> j < length (tb_sockets t) \<Longrightarrow> bs_reconnects (tb_sockets t ! j) \<Longrightarrow>
   tb_socket t = Some j \<and> \<not> tb_closedByServer t"
  using tab_ok_socket [of t j] by (simp add: socket_ok_def)

lemma connected_live:
  "tab_ok t \<Longrightarrow> socket_connected i t \<Longrightarrow>
   i < length (tb_sockets t) \<and> bs_reconnects (tb_sockets t ! i) \<and> tb_socket t = Some i \<and> \<not> tb_closedByServer t"
  using tab_ok_socket [of t i] by (auto simp: socket_ok_def socket_connected_def)

text \<open>To keep the invariant, a step shows it socket by socket.\<close>

lemma tab_okI:
  assumes "tab_ok t" "length (tb_sockets t') = length (tb_sockets t)" "tb_socket t' = tb_socket t"
    "tb_runs t' = tb_runs t" "tb_next t' = tb_next t" "tb_closedByServer t' \<longrightarrow> tb_socket t \<noteq> None"
    "\<And>j. j < length (tb_sockets t) \<Longrightarrow> socket_ok t' j (tb_sockets t' ! j)"
  shows "tab_ok t'"
  using assms by (simp add: tab_ok_def)

text \<open>A socket that the service has closed keeps it whatever listeners go.\<close>

lemma dead_socket_ok:
  assumes "socket_ok t j s" "tb_socket t' = tb_socket t" "tb_runs t' = tb_runs t" "tb_closedByServer t'"
    "\<not> bs_reconnects s'" "\<not> bs_connected s'" "bs_waiting s' = bs_waiting s" "distinct (bs_listeners s')"
    "set (bs_listeners s') \<subseteq> set (bs_listeners s)"
    "module_listener \<in> set (bs_listeners s') \<longleftrightarrow> module_listener \<in> set (bs_listeners s)"
  shows "socket_ok t' j s'"
  unfolding socket_ok_def using assms by (auto simp: socket_ok_def)

lemma goes_up_ok:
  assumes "tab_ok t"
  shows "tab_ok (goes_up i t)"
proof (cases "i < length (tb_sockets t) \<and> \<not> bs_connected (tb_sockets t ! i) \<and> bs_reconnects (tb_sockets t ! i)")
  case True
  let ?t1 = "flush i (on_socket i (\<lambda>s. s\<lparr>bs_connected := True\<rparr>) t)"
  have "tab_ok ?t1"
  proof (rule tab_okI [OF assms])
    show "socket_ok ?t1 j (tb_sockets ?t1 ! j)" if "j < length (tb_sockets t)" for j
      using tab_ok_socket [OF assms that] that True by (auto simp: flush_def socket_ok_def)
  qed (use assms in \<open>simp_all add: flush_def tab_ok_def\<close>)
  moreover have "socket_connected i ?t1" using True by (simp add: socket_connected_def flush_def)
  ultimately have "tab_ok (deliver i Connect ?t1)" using deliver_connect_told only_told_ok by blast
  then show ?thesis using True by (simp add: goes_up_def)
next
  case False
  then have "goes_up i t = t" by (simp only: goes_up_def if_False)
  then show ?thesis using assms by simp
qed

lemma receives_ok: "tab_ok t \<Longrightarrow> tab_ok (receives i m t)"
  using only_told_ok [OF deliver_message_told] by (simp add: receives_def)

lemma goes_down_ok:
  assumes "tab_ok t"
  shows "tab_ok (goes_down i reason t)"
proof (cases "socket_connected i t")
  case True
  note live = connected_live [OF assms True]
  let ?t1 = "on_socket i (\<lambda>s. s\<lparr>bs_connected := False, bs_reconnects := bs_reconnects s \<and> reason \<noteq> SERVER_DISCONNECT_REASON\<rparr>) t"
  let ?t2 = "deliver i (Disconnect reason) ?t1"
  have "tab_ok ?t2"
  proof (cases "reason = SERVER_DISCONNECT_REASON")
    case False
    have "tab_ok ?t1"
    proof (rule tab_okI [OF assms])
      show "socket_ok ?t1 j (tb_sockets ?t1 ! j)" if "j < length (tb_sockets t)" for j
        using tab_ok_socket [OF assms that] that False by (auto simp: socket_ok_def)
    qed (use assms in \<open>simp_all add: tab_ok_def\<close>)
    then show ?thesis using False by (simp add: deliver_other_reason)
  next
    case server: True
    have trim: "trimmed ?t1 ?t2" unfolding deliver_def by (rule fold_trimmed)
    have "module_listener \<in> set (bs_listeners (tb_sockets t ! i))"
      using tab_ok_socket [OF assms, of i] live by (simp add: socket_ok_def)
    then have closed: "tb_closedByServer ?t2"
      unfolding deliver_def server using live
      by (intro fold_closed disjI1) (force simp: listeners_for_def module_listener_def)
    show ?thesis
    proof (rule tab_okI [OF assms])
      show "socket_ok ?t2 j (tb_sockets ?t2 ! j)" if j: "j < length (tb_sockets t)" for j
      proof -
        have ok: "socket_ok t j (tb_sockets t ! j)" by (rule tab_ok_socket [OF assms j])
        have down: "bs_connected (tb_sockets t ! j) \<longrightarrow> bs_reconnects (tb_sockets t ! j)" using ok by (simp add: socket_ok_def)
        have dead: "\<not> bs_reconnects (tb_sockets ?t1 ! j)" "\<not> bs_connected (tb_sockets ?t1 ! j)"
        proof -
          show "\<not> bs_reconnects (tb_sockets ?t1 ! j)"
          proof (cases "j = i")
            case True
            then show ?thesis using j by (simp add: server)
          next
            case False
            then have "\<not> bs_reconnects (tb_sockets t ! j)" using live_is_current [OF assms j] live by auto
            then show ?thesis using False j by simp
          qed
          then show "\<not> bs_connected (tb_sockets ?t1 ! j)" using down j by (cases "j = i") simp_all
        qed
        have kept: "bs_waiting (tb_sockets ?t1 ! j) = bs_waiting (tb_sockets t ! j)"
          "bs_listeners (tb_sockets ?t1 ! j) = bs_listeners (tb_sockets t ! j)" using j by simp_all
        have "distinct (bs_listeners (tb_sockets t ! j))" using ok by (simp add: socket_ok_def)
        then have same: "\<not> bs_reconnects (tb_sockets ?t2 ! j)" "\<not> bs_connected (tb_sockets ?t2 ! j)"
          "bs_waiting (tb_sockets ?t2 ! j) = bs_waiting (tb_sockets t ! j)" "distinct (bs_listeners (tb_sockets ?t2 ! j))"
          "set (bs_listeners (tb_sockets ?t2 ! j)) \<subseteq> set (bs_listeners (tb_sockets t ! j))"
          "module_listener \<in> set (bs_listeners (tb_sockets ?t2 ! j)) \<longleftrightarrow> module_listener \<in> set (bs_listeners (tb_sockets t ! j))"
          using trimmed_nth [OF trim, of j] dead kept j by simp_all
        have "tb_socket ?t2 = tb_socket t" "tb_runs ?t2 = tb_runs t" using trim by (simp_all add: trimmed_def)
        then show ?thesis by (rule dead_socket_ok [OF ok _ _ closed same])
      qed
    qed (use trim live in \<open>simp_all add: trimmed_def\<close>)
  qed
  then show ?thesis using True by (simp add: goes_down_def)
next
  case False
  then show ?thesis using assms by (simp add: goes_down_def)
qed

lemma closes_eq: "closes i t = on_socket i (\<lambda>s. s\<lparr>bs_reconnects := False, bs_connected := False\<rparr>) t"
proof -
  have client: "CLIENT_DISCONNECT_REASON \<noteq> SERVER_DISCONNECT_REASON"
    by (simp add: CLIENT_DISCONNECT_REASON_def SERVER_DISCONNECT_REASON_def)
  have down: "s\<lparr>bs_reconnects := False, bs_connected := False\<rparr> = s\<lparr>bs_reconnects := False\<rparr>" if "\<not> bs_connected s" for s
    using that by (cases s) simp
  have up: "on_socket i (\<lambda>s. s\<lparr>bs_connected := False, bs_reconnects := bs_reconnects s\<rparr>) (on_socket i (\<lambda>s. s\<lparr>bs_reconnects := False\<rparr>) t) =
      on_socket i (\<lambda>s. s\<lparr>bs_reconnects := False, bs_connected := False\<rparr>) t"
    by (simp add: on_socket_def)
  show ?thesis
  proof (cases "socket_connected i (on_socket i (\<lambda>s. s\<lparr>bs_reconnects := False\<rparr>) t)")
    case True
    then show ?thesis using client up by (simp add: closes_def goes_down_def deliver_other_reason)
  next
    case False
    then have "closes i t = on_socket i (\<lambda>s. s\<lparr>bs_reconnects := False\<rparr>) t" by (simp add: closes_def goes_down_def)
    also have "\<dots> = on_socket i (\<lambda>s. s\<lparr>bs_reconnects := False, bs_connected := False\<rparr>) t"
    proof (cases "i < length (tb_sockets t)")
      case True
      then have "\<not> bs_connected (tb_sockets t ! i)" using False by (simp add: socket_connected_def)
      show ?thesis unfolding on_socket_def down [OF \<open>\<not> bs_connected (tb_sockets t ! i)\<close>] by (rule refl)
    qed (simp add: on_socket_def)
    finally show ?thesis .
  qed
qed

lemma disconnectSocket_ok:
  assumes "tab_ok t"
  shows "tab_ok (disconnectSocket t)"
proof (cases "tb_socket t")
  case None
  have "socket_ok (disconnectSocket t) j (tb_sockets (disconnectSocket t) ! j)" if "j < length (tb_sockets t)" for j
    using tab_ok_socket [OF assms that] None by (auto simp: disconnectSocket_def socket_ok_def)
  then show ?thesis using assms None by (intro tab_okI [OF assms]) (simp_all add: disconnectSocket_def)
next
  case (Some i)
  have "socket_ok (disconnectSocket t) j (tb_sockets (disconnectSocket t) ! j)" if j: "j < length (tb_sockets t)" for j
    using tab_ok_socket [OF assms j] live_is_current [OF assms j] Some j
    by (auto simp: disconnectSocket_def closes_eq socket_off_def socket_ok_def module_listener_def dest: notin_set_remove1)
  then show ?thesis using assms Some by (simp add: tab_ok_def disconnectSocket_def closes_eq socket_off_def)
qed

section \<open>Regions come and go\<close>

lemma getSocket_ok:
  assumes "tab_ok t" "getSocket t = (i, t')"
  shows "tab_ok t'" "tb_socket t' = Some i" "i < length (tb_sockets t')" "tb_runs t' = tb_runs t"
    "tb_next t' = tb_next t" "tb_updates t' = tb_updates t" "tb_sent t' = tb_sent t"
proof -
  have all: "tab_ok t' \<and> tb_socket t' = Some i \<and> i < length (tb_sockets t') \<and> tb_runs t' = tb_runs t \<and>
      tb_next t' = tb_next t \<and> tb_updates t' = tb_updates t \<and> tb_sent t' = tb_sent t"
  proof (cases "tb_socket t")
    case (Some k)
    then show ?thesis using assms by (auto simp: getSocket_def current_exists)
  next
    case None
    let ?new = "\<lparr>bs_connected = False, bs_reconnects = True, bs_listeners = [module_listener], bs_waiting = []\<rparr>"
    have t': "t' = t\<lparr>tb_closedByServer := False, tb_sockets := tb_sockets t @ [?new], tb_socket := Some i\<rparr>" and i: "i = length (tb_sockets t)"
      using assms(2) None by (auto simp: getSocket_def Let_def socket_on_def on_socket_def module_listener_def)
    have "socket_ok t' j (tb_sockets t' ! j)" if "j < length (tb_sockets t')" for j
    proof (cases "j < length (tb_sockets t)")
      case True
      then show ?thesis using tab_ok_socket [OF assms(1) True] None i by (auto simp: t' nth_append socket_ok_def)
    next
      case False
      then have "j = i" using that by (simp add: t' i)
      moreover have "ef_socket r \<noteq> i" if "r \<in> set (tb_runs t)" for r using assms(1) that i by (auto simp: tab_ok_def)
      ultimately show ?thesis by (auto simp: t' nth_append socket_ok_def i)
    qed
    moreover have "ef_socket r < Suc (length (tb_sockets t))" if "r \<in> set (tb_runs t)" for r
      using assms(1) that by (auto simp: tab_ok_def)
    ultimately show ?thesis using assms(1) by (simp add: tab_ok_def t' i)
  qed
  then show "tab_ok t'" "tb_socket t' = Some i" "i < length (tb_sockets t')" "tb_runs t' = tb_runs t"
    "tb_next t' = tb_next t" "tb_updates t' = tb_updates t" "tb_sent t' = tb_sent t" by simp_all
qed

lemma added_socket_ok:
  assumes "socket_ok t i s" "bs_reconnects s" "tb_socket t = Some i" "tb_runs t' = tb_runs t @ [r]" "ef_socket r = i"
    "tb_socket t' = Some i" "\<not> tb_closedByServer t'"
    "set (bs_listeners s') = set (bs_listeners s) \<union> run_listeners r" "distinct (bs_listeners s')"
    "bs_waiting s' = bs_waiting s" "bs_reconnects s'"
  shows "socket_ok t' i s'"
proof -
  have "{x\<in>set (tb_runs t'). ef_socket x = i} = insert r {x\<in>set (tb_runs t). ef_socket x = i}"
    using assms(4,5) by auto
  moreover have "set (bs_listeners s) \<subseteq> insert module_listener (\<Union>x\<in>{x\<in>set (tb_runs t). ef_socket x = i}. run_listeners x)"
    using assms(1) by (simp only: socket_ok_def)
  ultimately have sub: "set (bs_listeners s') \<subseteq> insert module_listener (\<Union>x\<in>{x\<in>set (tb_runs t'). ef_socket x = i}. run_listeners x)"
    using assms(8) by auto
  have all: "\<forall>x\<in>set (tb_runs t'). ef_socket x = i \<longrightarrow> run_listeners x \<subseteq> set (bs_listeners s')"
    using assms(1,2,4,8) by (auto simp: socket_ok_def)
  have "module_listener \<in> set (bs_listeners s')" "bs_waiting s = []" using assms(1,3,8) by (simp_all add: socket_ok_def)
  then show ?thesis using assms(6,7,9-11) sub all unfolding socket_ok_def by simp
qed

text \<open>A run that is added listens on the current socket, which may connect.\<close>

lemma subscribe_open:
  assumes "tab_ok t0" "getSocket t0 = (i, t)" "\<not> tb_closedByServer t"
    and r: "r = \<lparr>ef_id = tb_next t, ef_watch = w, ef_socket = i\<rparr>"
  shows "tab_ok (subscribe w t0)" "tb_runs (subscribe w t0) = tb_runs t0 @ [r]"
    "tb_sent (subscribe w t0) = tb_sent t0 @ (if socket_connected i t then [(i, join_event w, w)] else [])"
proof -
  note t = getSocket_ok [OF assms(1,2)]
  let ?s = "tb_sockets t ! i"
  let ?t' = "subscribe w t0"
  have shape: "tb_socket ?t' = Some i" "\<not> tb_closedByServer ?t'" "tb_runs ?t' = tb_runs t @ [r]"
    "tb_next ?t' = Suc (tb_next t)" "length (tb_sockets ?t') = length (tb_sockets t)"
    using assms(2,3) t(2)
    by (simp_all add: subscribe_def isSocketClosedByServer_def Let_def socket_on_def joinRoom_def socket_emit_def
        socket_connected_def r)
  show "tb_sent ?t' = tb_sent t0 @ (if socket_connected i t then [(i, join_event w, w)] else [])"
    "tb_runs ?t' = tb_runs t0 @ [r]"
    using assms(2,3) t(4,7) shape(3)
    by (simp_all add: subscribe_def isSocketClosedByServer_def Let_def socket_on_def joinRoom_def socket_emit_def
        socket_connected_def r)
  have nth: "tb_sockets ?t' ! j = (if j = i then ?s\<lparr>bs_listeners := bs_listeners ?s @
      [(''connect'', Handle_reconnect r), (''disconnect'', Handle_disconnect r),
       (''availability:changed'', Handle_availability r), (''resource:changed'', Handle_resource r)]\<rparr>
      else tb_sockets t ! j)" if "j < length (tb_sockets t)" for j
    using assms(2,3) that
    by (simp add: subscribe_def isSocketClosedByServer_def Let_def socket_on_def joinRoom_def socket_emit_def
        socket_connected_def r)
  have fresh: "r \<notin> set (tb_runs t)" using t(1) r by (auto simp: tab_ok_def)
  have ok: "socket_ok t i ?s" by (rule tab_ok_socket [OF t(1,3)])
  then have live: "bs_reconnects ?s" using assms(3) t(2) by (simp add: socket_ok_def)
  have new: "run_listeners r \<inter> set (bs_listeners ?s) = {}"
  proof -
    have "set (bs_listeners ?s) \<subseteq> insert module_listener (\<Union>x\<in>{x\<in>set (tb_runs t). ef_socket x = i}. run_listeners x)"
      using ok by (simp only: socket_ok_def)
    moreover have "run_listeners r \<inter> run_listeners x = {}" if "x \<in> set (tb_runs t)" for x
      using run_listeners_apart [of r x] fresh that by auto
    ultimately show ?thesis using module_not_run [of r] by blast
  qed
  have "socket_ok ?t' j (tb_sockets ?t' ! j)" if j: "j < length (tb_sockets t)" for j
  proof (cases "j = i")
    case True
    have "ef_socket r = i" by (simp add: r)
    have "set (bs_listeners (tb_sockets ?t' ! i)) = set (bs_listeners ?s) \<union> run_listeners r"
      "distinct (bs_listeners (tb_sockets ?t' ! i))"
      using nth [OF t(3)] new ok by (auto simp: run_listeners_def socket_ok_def)
    moreover have "bs_waiting (tb_sockets ?t' ! i) = bs_waiting ?s" "bs_reconnects (tb_sockets ?t' ! i)"
      using nth [OF t(3)] live by simp_all
    ultimately show ?thesis using added_socket_ok [OF ok live t(2) shape(3) \<open>ef_socket r = i\<close> shape(1,2)] True by simp
  next
    case False
    then show ?thesis using tab_ok_socket [OF t(1) j] live_is_current [OF t(1) j] shape nth [OF j] t(2)
      by (auto simp: socket_ok_def r)
  qed
  then show "tab_ok ?t'" using t(1,3) shape fresh unfolding tab_ok_def by (auto simp: r)
qed

lemma subscribe_ok: "tab_ok t \<Longrightarrow> tab_ok (subscribe w t)"
proof (cases "getSocket t")
  case (Pair i t')
  assume "tab_ok t"
  then show ?thesis using subscribe_open(1) [OF _ Pair _ refl] getSocket_ok(1) [OF _ Pair]
    by (cases "tb_closedByServer t'") (simp_all add: subscribe_def Pair isSocketClosedByServer_def)
qed

lemma unsubscribe_ok:
  assumes "tab_ok t" "r \<in> set (tb_runs t)"
  shows "tab_ok (unsubscribe r t)"
proof -
  define t1 where "t1 = (if socket_connected (ef_socket r) t
    then socket_emit (ef_socket r) (leave_event (ef_watch r)) (ef_watch r) t else t)"
  have ok: "tab_ok t1" and runs: "tb_runs t1 = tb_runs t"
    using assms(1) only_told_ok [OF emit_told, of "ef_socket r" t] by (simp_all add: t1_def socket_emit_def)
  let ?t2 = "detach r t1" and ?t' = "unsubscribe r t"
  have t': "?t' = ?t2\<lparr>tb_runs := remove1 r (tb_runs t)\<rparr>" by (simp add: unsubscribe_def t1_def)
  have d: "distinct (tb_runs t)" using assms(1) by (simp add: tab_ok_def)
  have "socket_ok ?t' j (tb_sockets ?t' ! j)" if j: "j < length (tb_sockets t1)" for j
  proof -
    let ?s = "tb_sockets t1 ! j" and ?s' = "tb_sockets ?t2 ! j"
    have s: "socket_ok t1 j ?s" by (rule tab_ok_socket [OF ok j])
    then have ds: "distinct (bs_listeners ?s)" by (simp add: socket_ok_def)
    note l = detach_listeners [OF j ds, of r]
    have same: "bs_connected ?s' = bs_connected ?s" "bs_reconnects ?s' = bs_reconnects ?s" "bs_waiting ?s' = bs_waiting ?s"
      using trimmed_nth(1-3) [OF detach_trimmed j] by simp_all
    have others: "set (remove1 r (tb_runs t)) = set (tb_runs t) - {r}" using d by simp
    have sub: "set (bs_listeners ?s') \<subseteq> insert module_listener (\<Union>x\<in>{x\<in>set (tb_runs t) - {r}. ef_socket x = j}. run_listeners x)"
      using s unfolding l(1) socket_ok_def runs by (auto split: if_splits)
    have keep: "run_listeners x \<subseteq> set (bs_listeners ?s')" if "bs_reconnects ?s" "x \<in> set (tb_runs t) - {r}" "ef_socket x = j" for x
    proof -
      have "run_listeners x \<subseteq> set (bs_listeners ?s)" using s that by (simp add: socket_ok_def runs)
      moreover have "run_listeners x \<inter> run_listeners r = {}" using run_listeners_apart [of x r] that(2) by simp
      ultimately show ?thesis unfolding l(1) by (simp split: if_split) blast
    qed
    have module: "module_listener \<in> set (bs_listeners ?s') \<longleftrightarrow> module_listener \<in> set (bs_listeners ?s)"
      unfolding l(1) by simp
    show ?thesis using s sub keep module l(2) unfolding socket_ok_def t'
      by (simp add: same others)
  qed
  then show ?thesis using ok d by (auto simp: tab_ok_def t' runs)
qed

section \<open>Every state of a tab\<close>

lemma tab_step_ok: "tab_ok t \<Longrightarrow> tab_ok (tab_step ev t)"
  by (cases ev) (simp_all add: useAvailabilityUpdates_def useDashboardUpdates_def subscribe_ok unsubscribe_ok
      goes_up_ok goes_down_ok receives_ok disconnectSocket_ok split: option.split)

interpretation browsing: kept "\<lambda>t t'. \<exists>ev. t' = tab_step ev t" tab_ok
  by unfold_locales (auto intro: tab_step_ok)

lemma tab_run_ok: "tab_ok t \<Longrightarrow> tab_ok (tab_run evs t)"
  unfolding tab_run_def by (induction evs arbitrary: t) (simp_all add: tab_step_ok)

lemma region_listens:
  assumes "tab_ok t" "r \<in> set (tb_runs t)" "socket_connected (ef_socket r) t"
  shows "run_listeners r \<subseteq> set (bs_listeners (tb_sockets t ! ef_socket r))" "ef_socket r < length (tb_sockets t)"
  using connected_live [OF assms(1,3)] tab_ok_socket [OF assms(1), of "ef_socket r"] assms(2)
  by (auto simp: socket_ok_def)

text \<open>A tab that the service has closed neither sends nor updates.\<close>

lemma closed_step:
  assumes "tab_ok t" "tb_closedByServer t" "ev \<noteq> Signed"
  shows "tb_closedByServer (tab_step ev t)" "tb_updates (tab_step ev t) = tb_updates t" "tb_sent (tab_step ev t) = tb_sent t"
proof -
  have down: "\<not> socket_connected i t" for i using connected_live [OF assms(1), of i] assms(2) by auto
  have dead: "\<not> bs_reconnects (tb_sockets t ! i)" if "i < length (tb_sockets t)" for i
    using live_is_current [OF assms(1) that] assms(2) by auto
  have still: "goes_up i t = t" for i
    using dead [of i] by (cases "i < length (tb_sockets t)") (simp_all add: goes_up_def)
  have "subscribe w t = t" for w
    using assms(1,2) by (auto simp: subscribe_def getSocket_def isSocketClosedByServer_def tab_ok_def split: option.split)
  then show "tb_closedByServer (tab_step ev t)" "tb_updates (tab_step ev t) = tb_updates t" "tb_sent (tab_step ev t) = tb_sent t"
    using assms(2,3) by (cases ev; simp add: useAvailabilityUpdates_def useDashboardUpdates_def unsubscribe_def
        goes_down_def receives_def down still split: option.split)+
qed

lemma closed_run:
  assumes "tab_ok t" "tb_closedByServer t" "Signed \<notin> set evs"
  shows "tb_closedByServer (tab_run evs t) \<and> tb_updates (tab_run evs t) = tb_updates t \<and> tb_sent (tab_run evs t) = tb_sent t"
  using assms
proof (induction evs arbitrary: t)
  case (Cons ev evs)
  then have "ev \<noteq> Signed" by auto
  from closed_step [OF Cons.prems(1,2) this] Cons.IH [OF tab_step_ok [OF Cons.prems(1)], of ev] Cons.prems(3)
  show ?case by (simp add: tab_run_def)
qed (simp add: tab_run_def)

text \<open>C21: When the service has closed the connection of a tab (socket.ts, use-availability-updates.ts,
use-dashboard-updates.ts) - the session expired, or the account was deactivated - the tab falls silent: whatever
regions are shown or hidden and whatever arrives, until somebody signs in or out it opens no connection,
sends nothing and refreshes nothing.\<close>

theorem closed_tab_stays_silent:
  assumes "tb_closedByServer (tab_run past new_tab)" "Signed \<notin> set later"
  shows "tb_updates (tab_run later (tab_run past new_tab)) = tb_updates (tab_run past new_tab) \<and>
    tb_sent (tab_run later (tab_run past new_tab)) = tb_sent (tab_run past new_tab) \<and>
    \<not> socket_connected i (tab_run later (tab_run past new_tab))"
proof -
  have ok: "tab_ok (tab_run past new_tab)" by (rule tab_run_ok [OF new_tab_ok])
  from closed_run [OF ok assms] connected_live [OF tab_run_ok [OF ok]] show ?thesis by blast
qed

section \<open>An open page is refreshed\<close>

lemma fold_updates:
  assumes "\<And>l t'. l \<in> set ls \<Longrightarrow> only_told t' (f l t')" "k \<in> set ls" "\<And>t'. f k t' = handleUpdate r t'"
  shows "\<exists>us. tb_updates (fold f ls t) = tb_updates t @ us \<and> (ef_id r, notice_of (ef_watch r)) \<in> set us"
proof -
  obtain xs ys where ls: "ls = xs @ k # ys" using assms(2) by (auto dest: split_list)
  have before: "only_told t (fold f xs t)" by (rule fold_told) (use assms(1) ls in auto)
  have after: "only_told (handleUpdate r (fold f xs t)) (fold f ls t)"
    unfolding ls by (simp add: assms(3)) (rule fold_told, use assms(1) ls in auto)
  obtain us vs where "tb_updates (fold f xs t) = tb_updates t @ us"
    "tb_updates (fold f ls t) = tb_updates (handleUpdate r (fold f xs t)) @ vs"
    using before after by (auto simp: only_told_def)
  then show ?thesis by (simp add: handleUpdate_def)
qed

lemma message_updates:
  assumes "tab_ok t" "r \<in> set (tb_runs t)" "socket_connected (ef_socket r) t"
    "ms_event m = ''availability:changed'' \<and> concerns_availability (ef_watch r) m \<or>
     ms_event m = ''resource:changed'' \<and> concerns_resource (ef_watch r) m"
  shows "\<exists>us. tb_updates (tab_step (Arrived (ef_socket r) m) t) = tb_updates t @ us \<and>
    (ef_id r, notice_of (ef_watch r)) \<in> set us"
proof -
  note listens = region_listens [OF assms(1-3)]
  obtain k where k: "k \<in> set (listeners_for (ms_event m) (ef_socket r) t)" "\<And>t'. hear (Message m) k t' = handleUpdate r t'"
    using assms(4)
  proof (elim disjE conjE)
    assume "ms_event m = ''availability:changed''" "concerns_availability (ef_watch r) m"
    then show ?thesis using listens
      by (intro that [of "Handle_availability r"]) (force simp: listeners_for_def run_listeners_def)+
  next
    assume "ms_event m = ''resource:changed''" "concerns_resource (ef_watch r) m"
    then show ?thesis using listens
      by (intro that [of "Handle_resource r"]) (force simp: listeners_for_def run_listeners_def)+
  qed
  show ?thesis
    using fold_updates [where f = "hear (Message m)" and k = k and r = r, OF hear_message_told k(1,2)] assms(3)
    by (simp add: receives_def deliver_def)
qed

text \<open>Showing a region on a live connection asks for its room, and the gateway joins it, below the cap.\<close>

lemma shown_region_joins:
  assumes "tab_ok t" "tb_socket t = Some i" "socket_connected i t" "date \<noteq> []"
    and "sv_isUUID sv k" "isCalendarDate (sv_isDateString sv) (JText date)"
    and "row_at sk_id sid (gw_sockets gw) = Some s"
    and "length (filter (\<lambda>room. js_startsWith room AVAILABILITY_ROOM_PREFIX) (sk_rooms s)) < MAX_AVAILABILITY_ROOMS_PER_SOCKET"
  shows "\<exists>ev. tb_sent (tab_step (Show_availability k (Some date)) t) = tb_sent t @ [(i, ev, Watch_availability k date)] \<and>
    (\<exists>g s'. gateway_event sid (ev, Watch_availability k date) = Some g \<and>
       row_at sk_id sid (gw_sockets (gw_step decode sv g gw)) = Some s' \<and>
       room_of (Watch_availability k date) \<in> set (sk_rooms s'))"
proof -
  have live: "\<not> tb_closedByServer t" using connected_live [OF assms(1,3)] by simp
  have "getSocket t = (i, t)" using assms(2) by (simp add: getSocket_def)
  from subscribe_open(3) [OF assms(1) this live refl] assms(3,4)
  have sent: "tb_sent (tab_step (Show_availability k (Some date)) t) =
      tb_sent t @ [(i, ''join:availability'', Watch_availability k date)]"
    by (cases date) (simp_all add: useAvailabilityUpdates_def truthy_def)
  have "sk_id (join_room room s) = sk_id s" for room by (simp add: join_room_def)
  then show ?thesis using sent assms(5-8)
    by (intro exI [of _ "''join:availability''"])
      (auto simp: gateway_event_def handleJoinAvailability_def availabilitySubscription_def json_member_def
        joinCapped_def Let_def patch_socket_def row_at_patch join_room_def)
qed

text \<open>C20: Nobody is left looking at old availability: as soon as a request has changed the availability of a
resource on a date, every open page that shows it (AvailabilityLiveRegion on the resource's page, DashboardLiveRegion
on the dashboard), with a live connection in its room, is sent a message by the gateway, and on its arrival the
page refreshes.\<close>

theorem open_pages_refresh:
  assumes "reachable sv (now, d)" "env_sound now e d" "serve sv cookies rq e d = Inr (d', evs)"
    "typed_canonically rq" "k \<in> ids r_id (resources d)" "sql_uuid k = k"
    "resources_findAvailability isUUID isDateString k date e0 d' \<noteq>
     resources_findAvailability isUUID isDateString k date e0 d"
    and page: "r \<in> set (tb_runs (tab_run past new_tab))" "socket_connected (ef_socket r) (tab_run past new_tab)"
    "ef_watch r = Watch_availability k date \<or> ef_watch r = Watch_dashboard date"
    and room: "s \<in> set (gw_sockets gw)" "room_of (ef_watch r) \<in> set (sk_rooms s)"
  shows "\<exists>(m, sids)\<in>set (fst (publish_all evs gw)). sk_id s \<in> set sids \<and>
    (\<exists>us. tb_updates (tab_step (Arrived (ef_socket r) m) (tab_run past new_tab)) = tb_updates (tab_run past new_tab) @ us \<and>
       (ef_id r, notice_of (ef_watch r)) \<in> set us)"
proof -
  have watched: "availability_room k date \<in> set (sk_rooms s) \<or> dashboard_room date \<in> set (sk_rooms s)"
    using page(3) room(2) by auto
  obtain m sids where m: "(m, sids) \<in> set (fst (publish_all evs gw))" "sk_id s \<in> set sids"
    "m = notifyAvailabilityChanged k date \<or> m = notifyResourceChanged k"
    using watchers_told [OF assms(1-7) room(1) watched] by auto
  have "ms_event m = ''availability:changed'' \<and> concerns_availability (ef_watch r) m \<or>
      ms_event m = ''resource:changed'' \<and> concerns_resource (ef_watch r) m"
    using m(3) page(3) by (auto simp: notifyAvailabilityChanged_def notifyResourceChanged_def)
  from message_updates [OF tab_run_ok [OF new_tab_ok] page(1,2) this] m(1,2) show ?thesis by blast
qed

end
