(* ===== verification/RealtimeWitnesses.thy ===== *)
theory RealtimeWitnesses
  imports WebRealtimeProps CampusWitnesses
begin

text \<open>
  The properties of the pages that listen, on concrete tabs: a dashboard shown before the connection is up,
  and a tab whose connection the service has closed.
\<close>

definition dashboard_tab :: "tab_event list" where
  "dashboard_tab = [Show_dashboard ''2026-09-15'', Up 0]"

theorem closed_tab_stays_silent_witness:
  "let closed = tab_run (dashboard_tab @ [Down 0 SERVER_DISCONNECT_REASON]) new_tab;
       later = tab_run [Show_dashboard ''2026-09-16'', Up 0, Arrived 0 (notifyResourceChanged ''r1'')] closed
   in tb_updates closed = [(0, ''Campus availability refreshed.'')] \<and> tb_updates later = tb_updates closed \<and>
      tb_sent later = tb_sent closed \<and> \<not> socket_connected 0 later"
proof -
  have "tb_closedByServer (tab_run (dashboard_tab @ [Down 0 SERVER_DISCONNECT_REASON]) new_tab)"
    "tb_updates (tab_run (dashboard_tab @ [Down 0 SERVER_DISCONNECT_REASON]) new_tab) = [(0, ''Campus availability refreshed.'')]"
    by code_simp+
  with closed_tab_stays_silent [of "dashboard_tab @ [Down 0 SERVER_DISCONNECT_REASON]"
      "[Show_dashboard ''2026-09-16'', Up 0, Arrived 0 (notifyResourceChanged ''r1'')]" 0]
  show ?thesis by simp
qed

theorem open_pages_refresh_witness:
  "\<exists>(m, sids)\<in>set (fst (publish_all [AvailabilityChanged ''20000000-0000-4000-8000-000000000001'' ''2026-09-15'']
      \<lparr>gw_sockets = [\<lparr>sk_id = ''s1'', sk_rooms = [''s1'', dashboard_room ''2026-09-15''], sk_userId = Some ''u1''\<rparr>],
       gw_timers = [], gw_pending = []\<rparr>)).
    ''s1'' \<in> set sids \<and>
    (\<exists>us. tb_updates (tab_step (Arrived 0 m) (tab_run dashboard_tab new_tab)) =
       tb_updates (tab_run dashboard_tab new_tab) @ us \<and> (0, ''Campus availability refreshed.'') \<in> set us)"
proof -
  let ?s = "\<lparr>sk_id = ''s1'', sk_rooms = [''s1'', dashboard_room ''2026-09-15''], sk_userId = Some ''u1''\<rparr>"
  let ?gw = "\<lparr>gw_sockets = [?s], gw_timers = [], gw_pending = []\<rparr>"
  let ?r = "\<lparr>ef_id = 0, ef_watch = Watch_dashboard ''2026-09-15'', ef_socket = 0\<rparr>"
  have "tb_runs (tab_run dashboard_tab new_tab) = [?r]" by code_simp
  then have r: "?r \<in> set (tb_runs (tab_run dashboard_tab new_tab))" by simp
  have c: "socket_connected (ef_socket ?r) (tab_run dashboard_tab new_tab)" by code_simp
  have w: "ef_watch ?r = Watch_availability k ''2026-09-15'' \<or> ef_watch ?r = Watch_dashboard ''2026-09-15''" for k by simp
  have s: "?s \<in> set (gw_sockets ?gw)" "room_of (ef_watch ?r) \<in> set (sk_rooms ?s)" by simp_all
  from open_pages_refresh [OF run_reachable(1) run_env_sound(2) run_second run_canonical run_availability_differs r c w s]
  show ?thesis by simp
qed

end
