(* ===== verification/Spec2Isabelle.thy ===== *)
theory Spec2Isabelle
  imports AccessWitnesses EventWitnesses AnalyticsWitnesses WebWitnesses CatalogWitnesses WebPageWitnesses WebManagerWitnesses
    RealtimeWitnesses
begin

text \<open>
  Campus resource booking: a NestJS service over PostgreSQL (src/web-backend/src) in which students
  book rooms, laboratories and equipment, staff review requests and run check-in, and administrators
  manage resources, closures and accounts; and a Next.js frontend (src/web-frontend) whose pages load
  from the service and send it what their visitors do.

  \<^bold>\<open>How the program fits together.\<close> A request reaches the service with the text of its Cookie header.
  The guards find the session cookie, verify its token and read the account again from the database
  (auth). The controller validates and normalises the body, calls one method of a service class and
  turns its domain errors into HTTP errors. The method reads and writes rows in one transaction, under
  the constraints of the tables, and afterwards emits notifications, which the WebSocket gateway sends
  to the rooms of a resource and date, or which disconnect a deactivated account. The frontend parses
  each body it is sent, distrusting it, and shows a page, redirects, or shows an error page.

  \<^bold>\<open>The model.\<close> The database \<open>db\<close> holds the rows of the five tables; a method is a function of what it
  reads from outside (\<open>env\<close>: the clock, fresh identifiers, the code drawn for a check-in) and of the
  database, and gives an error or its result with the new database and its notifications. \<open>serve\<close>
  composes guards, validation and method, and \<open>sys_step\<close> is the running system: answered requests,
  restarts and the passing of time. A transaction is one step. What is not under src/ is a parameter
  of the definitions, gathered in \<open>services\<close>: password hashing and comparing, signing (at an
  instant, which the token carries) and verifying of tokens, the validators' tests of e-mail addresses,
  identifiers and dates, the collation. Their laws are hypotheses of the properties that need them, and
  are met by concrete functions in the witnesses.

  \<^bold>\<open>Shared.\<close>
  \<^item> \<open>Prelude\<close>: rows addressed by a key, results of fallible operations, the collections of facts.
  \<^item> \<open>JsText\<close>, \<open>Calendar\<close>, \<open>CampusClock\<close>: JavaScript's strings and dates, and common/time/campus-clock.ts.
  \<^item> \<open>Entities\<close>, \<open>Store\<close>: the entities with the constraints of their decorators; the tables, the writes
    with the constraint errors they raise, the errors and events of the services.
  \<^item> \<open>Pagination\<close>, \<open>Config\<close>: common/dto/pagination-query.dto.ts; durations, cookie headers, configuration.

  \<^bold>\<open>The service.\<close>
  \<^item> \<open>Availability\<close>, \<open>Bookings\<close>, \<open>BookingApi\<close>: the free hours of a resource and date, bookings.service.ts,
    and the booking endpoints. \<open>BookingRules\<close> and \<open>BookingCreation\<close> say what each operation keeps and
    when it succeeds; \<open>Lifecycle\<close> has the abstract machine of a booking, and that the service
    implements it; \<open>BookingProps\<close> the properties.
  \<^item> \<open>Resources\<close>, \<open>ResourceApi\<close>: resources.service.ts and its endpoints. \<open>TextSearch\<close> shows that the
    escaped ILIKE pattern is the search for the typed text, \<open>Stranding\<close> that no active booking is left
    without its resource, \<open>ResourceProps\<close> that discovery and availability offer what can be booked.
  \<^item> \<open>Users\<close>, \<open>Auth\<close>: accounts, provisioning, sessions and guards; \<open>UserProps\<close>, \<open>AuthProps\<close>, \<open>SessionProps\<close>.
  \<^item> \<open>Service\<close>: the endpoints behind their guards, the startup, the running system; \<open>ServiceProps\<close> its
    invariant, \<open>CampusProps\<close> what every reachable state serves and how two states of a run are related.
  \<^item> \<open>Events\<close>: events.gateway.ts and availability-events.service.ts as a machine over sockets, rooms and
    timers, a connection in two turns because its handler waits for the database between them;
    \<open>Announcements\<close> shows that every change of availability is announced, \<open>EventProps\<close> who hears of it.
  \<^item> \<open>Analytics\<close>, \<open>AnalyticsProps\<close>: analytics.service.ts, and how its figures fit together.
  \<^item> \<open>Catalog\<close>, \<open>CatalogProps\<close>: scripts/demo-catalog.ts with its data, and scripts/catalog-import.ts: a
    catalogue without problems satisfies the constraints, a closure's offset is resolved, and importing
    leaves a campus in use intact.

  \<^bold>\<open>The frontend.\<close>
  \<^item> \<open>WebValues\<close>, \<open>WebBookings\<close>, \<open>WebResources\<close>, \<open>WebAccounts\<close>: JSON values, the bodies of the service as
    values, and the parsers of features/*/schema.ts. \<open>WebInstants\<close> and \<open>WebState\<close> hold what the parsers
    test again, as facts of every reachable state; \<open>WebReads\<close>, \<open>WebStaffReads\<close>, \<open>WebResourceReads\<close>,
    \<open>WebAccountReads\<close> and \<open>WebSummaryReads\<close> that a page reads what the service sends.
  \<^item> \<open>WebUrls\<close>, \<open>WebDirectory\<close>: addresses, filters, loaders and the outcome of the resource pages;
    \<open>WebDirectoryProps\<close> that the directory comes up, \<open>WebSelection\<close> that an interval shown as available
    can be booked.
  \<^item> \<open>WebActions\<close>: the actions of features/*/api/*browser.ts; \<open>WebActionProps\<close> that they report what the
    service did.
  \<^item> \<open>WebManager\<close>: the component admin-resource-manager.tsx as a state machine; \<open>WebManagerProps\<close>.
  \<^item> \<open>WebRealtime\<close>: lib/realtime with the live regions, as a machine over what happens in a browser tab;
    \<open>WebRealtimeProps\<close> that regions on a live connection listen, that an open page is refreshed when the
    availability it shows changes, and that a tab closed by the service stays silent.

  The theories \<open>Samples\<close>, \<open>Witnesses\<close> and \<open>*Witnesses\<close> apply the properties to concrete inputs.

  \<^bold>\<open>Interfaces.\<close> Where a proof rests on what a component promises and not on how, the contract is a
  locale: \<open>comparator\<close> (an order to sort by), \<open>checked_table\<close> (a table whose writes test a constraint)
  and \<open>kept\<close> (a machine whose steps keep an invariant). Each is interpreted on the model's own
  definitions, \<open>kept\<close> for the running system, the resource manager
  and a browser tab.

  \<^bold>\<open>Bounds.\<close> No definition runs on fuel that could run out unnoticed: the loops are recursions over a
  list or over a number that shrinks. The search for a day on which a closure may fall looks at seven
  days, as the source's loop does, and that is enough because a resource operates on some weekday
  (\<open>closure_lands_on_operating_day\<close>). Identifiers, instants and counters are unbounded; the widths that
  matter (timer delays, page numbers, text lengths, the 72 bytes of a password) are tests of the model.

  \<^bold>\<open>Not modelled.\<close>
  \<^item> Texts with a code unit above 255: a character of the model is a code unit below 256, and where the
    source writes a dash or an ellipsis beyond that, the model has the ASCII one.
  \<^item> The markup, focus and styling of components, and the components not named above; the loaders of
    the booking, account and analytics pages, which repeat those of the resource pages.
  \<^item> Interleavings inside a transaction: row locks, the advisory lock and the order in which promises
    started together fail have no trace where a transaction is one step.
  \<^item> Numbers as IEEE doubles: percentages are rationals, and a page far beyond any result does not
    overflow the OFFSET of a query.
  \<^item> config/env.validation.ts (a Joi schema), module wiring, swagger, health, throttling, logs, the
    five-minute cache of the building list, migrations other than the seeded rows, and the load test
    and benchmark scripts, which measure a running service over the network.
\<close>

end
